(* ===== verification/Prelude.thy ===== *)
theory Prelude
  imports Main "HOL-Library.Word" "HOL-Library.Sublist"
begin

text \<open>
  Shared material of the development: Go strings and byte slices, the pieces of the packages
  \<open>strings\<close> and \<open>path\<close> the code uses, results of fallible functions, and the state-and-error
  computations in which the store is written. Everything here models the Go language or its
  standard library; nothing is specific to one component.
\<close>

section \<open>Collections of rules\<close>

named_theorems pure_rules \<open>computations that leave the state as it was\<close>
named_theorems keeps_rules \<open>computations that keep a predicate on states\<close>

section \<open>Strings\<close>

text \<open>A Go string is a sequence of bytes: a HOL \<open>string\<close>, whose characters are bytes.\<close>

abbreviation (input) slash :: char where "slash \<equiv> CHR ''/''"

fun splitOn :: "char \<Rightarrow> string \<Rightarrow> string list" where
  "splitOn c [] = [[]]"
| "splitOn c (x # xs) =
     (if x = c then [] # splitOn c xs
      else (case splitOn c xs of [] \<Rightarrow> [[x]] | w # ws \<Rightarrow> (x # w) # ws))"

fun joinWith :: "char \<Rightarrow> string list \<Rightarrow> string" where
  "joinWith c [] = []"
| "joinWith c [w] = w"
| "joinWith c (w # v # ws) = w @ c # joinWith c (v # ws)"

lemma splitOn_not_Nil [simp]: "splitOn c s \<noteq> []"
  by (cases s) (auto split: list.splits)

lemma join_split [simp]: "joinWith c (splitOn c s) = s"
proof (induction s)
  case Nil
  show ?case by simp
next
  case (Cons x s)
  obtain w ws where s: "splitOn c s = w # ws" by (cases "splitOn c s") auto
  with Cons show ?case by (cases ws) auto
qed

lemma splitOn_free: "c \<notin> set w \<Longrightarrow> splitOn c w = [w]"
  by (induction w) auto

lemma splitOn_append: "c \<notin> set w \<Longrightarrow> splitOn c (w @ c # s) = w # splitOn c s"
  by (induction w) auto

lemma split_join: "ws \<noteq> [] \<Longrightarrow> \<forall>w \<in> set ws. c \<notin> set w \<Longrightarrow> splitOn c (joinWith c ws) = ws"
  by (induction c ws rule: joinWith.induct) (auto simp: splitOn_free splitOn_append)

lemma splitOn_free_parts: "w \<in> set (splitOn c s) \<Longrightarrow> c \<notin> set w"
proof (induction s arbitrary: w)
  case Nil
  then show ?case by simp
next
  case (Cons x s)
  obtain v vs where s: "splitOn c s = v # vs" by (cases "splitOn c s") auto
  with Cons show ?case by (auto split: if_splits)
qed

lemma joinWith_append:
  "xs \<noteq> [] \<Longrightarrow> ys \<noteq> [] \<Longrightarrow> joinWith c (xs @ ys) = joinWith c xs @ c # joinWith c ys"
proof (induction c xs rule: joinWith.induct)
  case (2 c w)
  then show ?case by (cases ys) auto
qed auto

lemma joinWith_inj:
  assumes "joinWith c xs = joinWith c ys" "xs \<noteq> []" "ys \<noteq> []"
    and "\<forall>w \<in> set xs. c \<notin> set w" "\<forall>w \<in> set ys. c \<notin> set w"
  shows "xs = ys"
  using assms split_join by metis

text \<open>
  \<open>strings.TrimSpace\<close>: removes leading and trailing Unicode white space. The white space code
  points, as their UTF-8 encodings (\<open>unicode.IsSpace\<close>).
\<close>

definition space_seqs :: "string list" where
  "space_seqs =
     [[CHR 0x09], [CHR 0x0A], [CHR 0x0B], [CHR 0x0C], [CHR 0x0D], [CHR 0x20],
      [CHR 0xC2, CHR 0x85], [CHR 0xC2, CHR 0xA0], [CHR 0xE1, CHR 0x9A, CHR 0x80]] @
     map (\<lambda>b. [CHR 0xE2, CHR 0x80, b])
       [CHR 0x80, CHR 0x81, CHR 0x82, CHR 0x83, CHR 0x84, CHR 0x85, CHR 0x86, CHR 0x87,
        CHR 0x88, CHR 0x89, CHR 0x8A, CHR 0xA8, CHR 0xA9, CHR 0xAF] @
     [[CHR 0xE2, CHR 0x81, CHR 0x9F], [CHR 0xE3, CHR 0x80, CHR 0x80]]"

definition lead_space :: "string \<Rightarrow> nat" where
  "lead_space s = (case find (\<lambda>w. prefix w s) space_seqs of None \<Rightarrow> 0 | Some w \<Rightarrow> length w)"

definition trail_space :: "string \<Rightarrow> nat" where
  "trail_space s = (case find (\<lambda>w. suffix w s) space_seqs of None \<Rightarrow> 0 | Some w \<Rightarrow> length w)"

function TrimLeft :: "string \<Rightarrow> string" where
  "TrimLeft s = (if lead_space s = 0 \<or> s = [] then s else TrimLeft (drop (lead_space s) s))"
  by pat_completeness auto
termination by (relation "measure length") auto

function TrimRight :: "string \<Rightarrow> string" where
  "TrimRight s = (if trail_space s = 0 \<or> s = [] then s
     else TrimRight (take (length s - trail_space s) s))"
  by pat_completeness auto
termination by (relation "measure length") (auto simp: min_def simp flip: length_greater_0_conv)

declare TrimLeft.simps [simp del] TrimRight.simps [simp del]

definition TrimSpace :: "string \<Rightarrow> string" where
  "TrimSpace s = TrimRight (TrimLeft s)"

definition space_byte :: "char \<Rightarrow> bool" where
  "space_byte c \<longleftrightarrow> c \<in> set [CHR 0x09, CHR 0x0A, CHR 0x0B, CHR 0x0C, CHR 0x0D, CHR 0x20]
     \<or> 128 \<le> (of_char c :: nat)"

lemma space_seqs_bytes: "\<forall>w \<in> set space_seqs. w \<noteq> [] \<and> space_byte (hd w) \<and> space_byte (last w)"
  unfolding space_seqs_def space_byte_def by simp

lemma lead_space_plain: "s \<noteq> [] \<Longrightarrow> \<not> space_byte (hd s) \<Longrightarrow> lead_space s = 0"
proof -
  assume s: "s \<noteq> []" "\<not> space_byte (hd s)"
  have "find (\<lambda>w. prefix w s) space_seqs = None"
    unfolding find_None_iff
  proof
    assume "\<exists>w. w \<in> set space_seqs \<and> prefix w s"
    then obtain w where w: "w \<in> set space_seqs" "prefix w s" by blast
    with space_seqs_bytes have "w \<noteq> []" "space_byte (hd w)" by auto
    with w(2) s show False by (cases w; cases s) auto
  qed
  then show ?thesis by (simp add: lead_space_def)
qed

lemma trail_space_plain: "s \<noteq> [] \<Longrightarrow> \<not> space_byte (last s) \<Longrightarrow> trail_space s = 0"
proof -
  assume s: "s \<noteq> []" "\<not> space_byte (last s)"
  have "find (\<lambda>w. suffix w s) space_seqs = None"
    unfolding find_None_iff
  proof
    assume "\<exists>w. w \<in> set space_seqs \<and> suffix w s"
    then obtain w where w: "w \<in> set space_seqs" "suffix w s" by blast
    with space_seqs_bytes have "w \<noteq> []" "space_byte (last w)" by auto
    with w(2) s show False by (auto simp: suffix_def)
  qed
  then show ?thesis by (simp add: trail_space_def)
qed

lemma TrimLeft_plain: "s \<noteq> [] \<Longrightarrow> \<not> space_byte (hd s) \<Longrightarrow> TrimLeft s = s"
  by (subst TrimLeft.simps) (simp add: lead_space_plain)

lemma TrimRight_plain: "s \<noteq> [] \<Longrightarrow> \<not> space_byte (last s) \<Longrightarrow> TrimRight s = s"
  by (subst TrimRight.simps) (simp add: trail_space_plain)

lemma TrimSpace_Nil [simp]: "TrimSpace [] = []"
  by (simp add: TrimSpace_def TrimLeft.simps TrimRight.simps)

lemma TrimSpace_plain:
  "s \<noteq> [] \<Longrightarrow> \<not> space_byte (hd s) \<Longrightarrow> \<not> space_byte (last s) \<Longrightarrow> TrimSpace s = s"
  by (simp add: TrimSpace_def TrimLeft_plain TrimRight_plain)

text \<open>\<open>strings.Trim\<close> and \<open>strings.TrimPrefix\<close> for a single ASCII byte.\<close>

definition TrimByte :: "char \<Rightarrow> string \<Rightarrow> string" where
  "TrimByte c s = rev (dropWhile (\<lambda>x. x = c) (rev (dropWhile (\<lambda>x. x = c) s)))"

lemma TrimByte_plain: "s \<noteq> [] \<Longrightarrow> hd s \<noteq> c \<Longrightarrow> last s \<noteq> c \<Longrightarrow> TrimByte c s = s"
  by (simp add: TrimByte_def dropWhile_eq_self_iff [THEN iffD2] hd_rev)

definition TrimPrefixByte :: "char \<Rightarrow> string \<Rightarrow> string" where
  "TrimPrefixByte c s = (case s of [] \<Rightarrow> [] | x # xs \<Rightarrow> if x = c then xs else s)"

text \<open>
  \<open>strings.LastIndexByte\<close>: the position of the last occurrence, \<open>None\<close> for -1.
\<close>

fun LastIndexByte :: "string \<Rightarrow> char \<Rightarrow> nat option" where
  "LastIndexByte [] c = None"
| "LastIndexByte (x # xs) c =
     (case LastIndexByte xs c of Some i \<Rightarrow> Some (Suc i) | None \<Rightarrow> if x = c then Some 0 else None)"

lemma LastIndexByte_None [simp]: "LastIndexByte s c = None \<longleftrightarrow> c \<notin> set s"
  by (induction s) (auto split: option.splits)

lemma LastIndexByte_app: "c \<notin> set w \<Longrightarrow> LastIndexByte (v @ c # w) c = Some (length v)"
proof (induction v)
  case Nil
  then have "LastIndexByte w c = None" by simp
  then show ?case by (simp del: LastIndexByte_None)
qed simp

text \<open>
  \<open>path.Clean\<close> on a rooted path: the elements between slashes, without the empty ones and the
  \<open>.\<close>, each \<open>..\<close> removing the element before it (none at the root).
\<close>

fun clean_elems :: "string list \<Rightarrow> string list \<Rightarrow> string list" where
  "clean_elems out [] = rev out"
| "clean_elems out (w # ws) =
     (if w = [] \<or> w = ''.'' then clean_elems out ws
      else if w = ''..'' then clean_elems (drop 1 out) ws
      else clean_elems (w # out) ws)"

definition path_Clean_rooted :: "string \<Rightarrow> string" where
  "path_Clean_rooted s = slash # joinWith slash (clean_elems [] (splitOn slash s))"

lemma clean_elems_no_dotdot:
  "''..'' \<notin> set ws \<Longrightarrow> clean_elems out ws = rev out @ filter (\<lambda>w. w \<noteq> [] \<and> w \<noteq> ''.'') ws"
  by (induction out ws rule: clean_elems.induct) auto

section \<open>Bytes\<close>

type_synonym bytes = "8 word list"

definition byte_of :: "char \<Rightarrow> 8 word" where
  "byte_of c = of_nat (of_char c)"

definition bytes_of :: "string \<Rightarrow> bytes" where
  "bytes_of s = map byte_of s"

lemma of_char_less: "(of_char c :: nat) < 256"
  using of_char_mod_256 [of c, where 'a = nat] by (metis mod_less_divisor zero_less_numeral)

lemma byte_of_eq [simp]: "byte_of c = byte_of d \<longleftrightarrow> c = d"
proof
  assume "byte_of c = byte_of d"
  then have "unat (byte_of c) = unat (byte_of d)" by simp
  then have "(of_char c :: nat) = of_char d"
    using of_char_less [of c] of_char_less [of d] by (simp add: byte_of_def unat_of_nat)
  then show "c = d" by simp
qed simp

lemma bytes_of_eq [simp]: "bytes_of s = bytes_of t \<longleftrightarrow> s = t"
  by (simp add: bytes_of_def inj_map_eq_map inj_def)

lemma bytes_of_length [simp]: "length (bytes_of s) = length s"
  by (simp add: bytes_of_def)

lemma bytes_of_append [simp]: "bytes_of (s @ t) = bytes_of s @ bytes_of t"
  by (simp add: bytes_of_def)

section \<open>Fallible results and stateful computations\<close>

text \<open>
  A Go function that returns \<open>(T, error)\<close> is a value of \<open>'e + 'a\<close>: \<open>Inl\<close> the error. One that also
  reads and writes the store is a computation: it returns the result and the state it leaves,
  also when it fails, because outside a transaction the effects of the statements that did
  run remain.
\<close>

type_synonym ('s, 'e, 'a) comp = "'s \<Rightarrow> ('e + 'a) \<times> 's"

definition bindR :: "'e + 'a \<Rightarrow> ('a \<Rightarrow> 'e + 'b) \<Rightarrow> 'e + 'b" where
  "bindR m k = (case m of Inl e \<Rightarrow> Inl e | Inr x \<Rightarrow> k x)"

definition mapL :: "('e \<Rightarrow> 'f) \<Rightarrow> 'e + 'a \<Rightarrow> 'f + 'a" where
  "mapL f m = (case m of Inl e \<Rightarrow> Inl (f e) | Inr x \<Rightarrow> Inr x)"

definition succeeds :: "'e + 'a \<Rightarrow> bool" where
  "succeeds r = (case r of Inl _ \<Rightarrow> False | Inr _ \<Rightarrow> True)"

lemma succeeds_simps [simp]: "succeeds (Inr x)" "\<not> succeeds (Inl e)"
  by (simp_all add: succeeds_def)

lemma succeeds_obtain: "succeeds (fst (m s)) \<Longrightarrow> \<exists>x. m s = (Inr x, snd (m s))"
  by (cases "m s") (auto simp: succeeds_def split: sum.splits)

definition ret :: "'a \<Rightarrow> ('s, 'e, 'a) comp" where
  "ret x = (\<lambda>s. (Inr x, s))"

definition fail :: "'e \<Rightarrow> ('s, 'e, 'a) comp" where
  "fail e = (\<lambda>s. (Inl e, s))"

definition liftR :: "'e + 'a \<Rightarrow> ('s, 'e, 'a) comp" where
  "liftR r = (\<lambda>s. (r, s))"

definition bindM :: "('s, 'e, 'a) comp \<Rightarrow> ('a \<Rightarrow> ('s, 'e, 'b) comp) \<Rightarrow> ('s, 'e, 'b) comp" where
  "bindM m k = (\<lambda>s. case m s of (Inl e, s') \<Rightarrow> (Inl e, s') | (Inr x, s') \<Rightarrow> k x s')"

definition mapErr :: "('e \<Rightarrow> 'f) \<Rightarrow> ('s, 'e, 'a) comp \<Rightarrow> ('s, 'f, 'a) comp" where
  "mapErr f m = (\<lambda>s. case m s of (Inl e, s') \<Rightarrow> (Inl (f e), s') | (Inr x, s') \<Rightarrow> (Inr x, s'))"

text \<open>\<open>if cond { return err }\<close>\<close>

definition guardM :: "bool \<Rightarrow> 'e \<Rightarrow> ('s, 'e, unit) comp" where
  "guardM b e = (if b then ret () else fail e)"

text \<open>Inspecting an error: the Go idiom \<open>x, err := f(); switch { case err == nil ... }\<close>.\<close>

definition tryM :: "('s, 'e, 'a) comp \<Rightarrow> ('s, 'f, 'e + 'a) comp" where
  "tryM m = (\<lambda>s. case m s of (r, s') \<Rightarrow> (Inr r, s'))"

lemma bindR_Inr [simp]: "bindR m k = Inr y \<longleftrightarrow> (\<exists>x. m = Inr x \<and> k x = Inr y)"
  by (auto simp: bindR_def split: sum.splits)

lemma bindR_Inl: "bindR m k = Inl e \<longleftrightarrow> m = Inl e \<or> (\<exists>x. m = Inr x \<and> k x = Inl e)"
  by (auto simp: bindR_def split: sum.splits)

lemma mapL_Inr [simp]: "mapL f m = Inr y \<longleftrightarrow> m = Inr y"
  by (auto simp: mapL_def split: sum.splits)

lemma mapL_simps [simp]: "mapL f (Inl e) = Inl (f e)" "mapL f (Inr x) = Inr x"
  by (simp_all add: mapL_def)

lemma bindM_ok: "bindM m k s = (Inr y, t) \<longleftrightarrow> (\<exists>x u. m s = (Inr x, u) \<and> k x u = (Inr y, t))"
  by (auto simp: bindM_def split: prod.splits sum.splits)

lemma bindM_err: "bindM m k s = (Inl e, t) \<longleftrightarrow>
    m s = (Inl e, t) \<or> (\<exists>x u. m s = (Inr x, u) \<and> k x u = (Inl e, t))"
  by (auto simp: bindM_def split: prod.splits sum.splits)

lemma mapErr_ok: "mapErr f m s = (Inr y, t) \<longleftrightarrow> m s = (Inr y, t)"
  by (auto simp: mapErr_def split: prod.splits sum.splits)

lemma mapErr_err: "mapErr f m s = (Inl e, t) \<longleftrightarrow> (\<exists>d. e = f d \<and> m s = (Inl d, t))"
  by (auto simp: mapErr_def split: prod.splits sum.splits)

lemma ret_run: "ret x s = (r, t) \<longleftrightarrow> r = Inr x \<and> t = s"
  by (auto simp: ret_def)

lemma fail_run: "fail e s = (r, t) \<longleftrightarrow> r = Inl e \<and> t = s"
  by (auto simp: fail_def)

lemma liftR_run: "liftR x s = (r, t) \<longleftrightarrow> x = r \<and> t = s"
  by (auto simp: liftR_def)

lemma guardM_ok: "guardM b e s = (Inr u, t) \<longleftrightarrow> b \<and> t = s"
  by (auto simp: guardM_def ret_def fail_def)

lemma guardM_err: "guardM b e s = (Inl f, t) \<longleftrightarrow> \<not> b \<and> f = e \<and> t = s"
  by (auto simp: guardM_def ret_def fail_def)

lemma tryM_ok: "tryM m s = (Inr r, t) \<longleftrightarrow> m s = (r, t)"
  by (auto simp: tryM_def split: prod.splits)

lemma tryM_err: "tryM m s = (Inl e, t) \<longleftrightarrow> False"
  by (auto simp: tryM_def split: prod.splits)

lemmas run_ok = bindM_ok mapErr_ok ret_run fail_run liftR_run guardM_ok tryM_ok
lemmas run_err = bindM_err mapErr_err guardM_err tryM_err
lemmas run_defs = bindM_def mapErr_def ret_def fail_def liftR_def guardM_def tryM_def

text \<open>A computation that leaves the state as it was, and one that keeps a predicate, whatever it returns.\<close>

definition pure_op :: "('s, 'e, 'a) comp \<Rightarrow> bool" where
  "pure_op m \<longleftrightarrow> (\<forall>s r t. m s = (r, t) \<longrightarrow> t = s)"

definition keeps :: "('s \<Rightarrow> bool) \<Rightarrow> ('s, 'e, 'a) comp \<Rightarrow> bool" where
  "keeps I m \<longleftrightarrow> (\<forall>s r t. m s = (r, t) \<longrightarrow> I s \<longrightarrow> I t)"

lemma pure_opD: "pure_op m \<Longrightarrow> m s = (r, t) \<Longrightarrow> t = s"
  by (simp add: pure_op_def)

lemma pure_run: "pure_op m \<Longrightarrow> m s = (r, t) \<longleftrightarrow> t = s \<and> fst (m s) = r"
  by (cases "m s") (auto simp: pure_op_def)

lemma keepsD: "keeps I m \<Longrightarrow> m s = (r, t) \<Longrightarrow> I s \<Longrightarrow> I t"
  by (simp add: keeps_def)

lemma pure_keeps: "pure_op m \<Longrightarrow> keeps I m"
  by (auto simp: pure_op_def keeps_def)

lemma pure_mapErr [intro!, pure_rules]: "pure_op m \<Longrightarrow> pure_op (mapErr f m)"
  by (auto simp: pure_op_def mapErr_def split: prod.splits sum.splits)

lemma pure_tryM [intro!, pure_rules]: "pure_op m \<Longrightarrow> pure_op (tryM m)"
  by (auto simp: pure_op_def tryM_def split: prod.splits)

lemma pure_simple [intro!, simp, pure_rules]:
  "pure_op (ret x)" "pure_op (fail e)" "pure_op (liftR r)" "pure_op (guardM b e)"
  by (simp_all add: pure_op_def ret_def fail_def liftR_def guardM_def)

lemma pure_bindM [intro!, pure_rules]: "pure_op m \<Longrightarrow> (\<And>x. pure_op (k x)) \<Longrightarrow> pure_op (bindM m k)"
  by (fastforce simp: pure_op_def bindM_def split: prod.splits sum.splits)

lemma pure_if [pure_rules]: "pure_op m \<Longrightarrow> pure_op n \<Longrightarrow> pure_op (if c then m else n)"
  by simp

lemma keeps_simple [keeps_rules, simp]:
  "keeps I (ret x)" "keeps I (fail e)" "keeps I (liftR r)" "keeps I (guardM b e)"
  by (simp_all add: pure_keeps)

lemma keeps_mapErr [keeps_rules]: "keeps I m \<Longrightarrow> keeps I (mapErr f m)"
  by (fastforce simp: keeps_def mapErr_def split: prod.splits sum.splits)

lemma keeps_tryM [keeps_rules]: "keeps I m \<Longrightarrow> keeps I (tryM m)"
  by (fastforce simp: keeps_def tryM_def split: prod.splits)

lemma keeps_bindM [keeps_rules]: "keeps I m \<Longrightarrow> (\<And>x. keeps I (k x)) \<Longrightarrow> keeps I (bindM m k)"
  by (fastforce simp: keeps_def bindM_def split: prod.splits sum.splits)

lemma keeps_if [keeps_rules]: "keeps I m \<Longrightarrow> keeps I n \<Longrightarrow> keeps I (if c then m else n)"
  by simp

lemma keeps_option [keeps_rules]: "keeps I m \<Longrightarrow> (\<And>x. keeps I (k x)) \<Longrightarrow> keeps I (case a of None \<Rightarrow> m | Some x \<Rightarrow> k x)"
  by (cases a) auto

lemma keeps_sum [keeps_rules]: "(\<And>e. keeps I (h e)) \<Longrightarrow> (\<And>x. keeps I (k x)) \<Longrightarrow> keeps I (case a of Inl e \<Rightarrow> h e | Inr x \<Rightarrow> k x)"
  by (cases a) auto

lemma keeps_prod [keeps_rules]: "(\<And>x y. keeps I (k x y)) \<Longrightarrow> keeps I (case p of (x, y) \<Rightarrow> k x y)"
  by (cases p) auto

text \<open>The first error of a list of checks, as a loop that returns on the first failure.\<close>

fun first_error :: "('a \<Rightarrow> 'e option) \<Rightarrow> 'a list \<Rightarrow> 'e option" where
  "first_error f [] = None"
| "first_error f (x # xs) = (case f x of Some e \<Rightarrow> Some e | None \<Rightarrow> first_error f xs)"

lemma first_error_None [simp]: "first_error f xs = None \<longleftrightarrow> (\<forall>x \<in> set xs. f x = None)"
  by (induction xs) (auto split: option.splits)

section \<open>Rows with a unique key\<close>

lemma filter_unique: "distinct (map k xs) \<Longrightarrow> x \<in> set xs \<Longrightarrow> filter (\<lambda>y. k y = k x) xs = [x]"
proof (induction xs)
  case (Cons a xs)
  show ?case
  proof (cases "x = a")
    case True
    with Cons.prems have "filter (\<lambda>y. k y = k a) xs = []"
      by (auto simp: filter_empty_conv) (metis image_eqI)
    with True show ?thesis by simp
  next
    case False
    with Cons.prems have "k a \<noteq> k x" "x \<in> set xs" by auto
    with Cons show ?thesis by simp
  qed
qed simp

lemma filter_unique_sub:
  assumes "distinct (map k xs)" "x \<in> set xs" "P x" "\<And>y. y \<in> set xs \<Longrightarrow> P y \<Longrightarrow> k y = k x"
  shows "filter P xs = [x]"
proof -
  have "filter P xs = filter P (filter (\<lambda>y. k y = k x) xs)"
    using assms(4) by (auto simp: filter_filter intro: filter_cong)
  then show ?thesis using filter_unique [OF assms(1,2)] assms(3) by simp
qed

lemma filter_map_same: "(\<And>x. x \<in> set xs \<Longrightarrow> P (h x) = P x) \<Longrightarrow> filter P (map h xs) = map h (filter P xs)"
  by (induction xs) auto

lemma filter_others: "distinct (map k (x # xs)) \<Longrightarrow> filter (\<lambda>y. k y \<noteq> k x) (x # xs) = xs"
  by (simp add: filter_id_conv) (metis image_eqI)

lemma distinct_map_eq: "distinct (map k xs) \<Longrightarrow> x \<in> set xs \<Longrightarrow> y \<in> set xs \<Longrightarrow> k x = k y \<Longrightarrow> x = y"
  by (simp add: distinct_map inj_on_def)

lemma find_unique: "distinct (map k xs) \<Longrightarrow> x \<in> set xs \<Longrightarrow> find (\<lambda>y. k y = k x) xs = Some x"
  by (induction xs) auto

lemma distinct_map_filter_imp: "distinct (map k xs) \<Longrightarrow> distinct (map k (filter P xs))"
  by (rule distinct_map_filter)

lemma sort_key_Nil [simp]: "sort_key k xs = [] \<longleftrightarrow> xs = []"
  by (metis set_empty set_sort)

lemma sorted_take_drop:
  "sorted (map k xs) \<Longrightarrow> a \<in> set (take n xs) \<Longrightarrow> b \<in> set (drop n xs) \<Longrightarrow> k a \<le> k b"
proof -
  assume s: "sorted (map k xs)" and ab: "a \<in> set (take n xs)" "b \<in> set (drop n xs)"
  have "sorted (map k (take n xs) @ map k (drop n xs))"
    using s by (simp flip: map_append)
  with ab show "k a \<le> k b" by (auto simp: sorted_append)
qed

lemma takeWhile_nth: "distinct xs \<Longrightarrow> n < length xs \<Longrightarrow> length (takeWhile (\<lambda>d. d \<noteq> xs ! n) xs) = n"
proof (induction xs arbitrary: n)
  case (Cons x xs)
  then show ?case by (cases n) auto
qed simp

end
