(* ===== verification/Paths.thy ===== *)
theory Paths
  imports Prelude
begin

text \<open>
  \<open>internal/store/paths.go\<close>, and the pure part of \<open>resources.go\<close> and \<open>compat.go\<close>: the
  validation of slugs, folder names and keys, the canonical folder path and the operations on
  it, the LIKE patterns of the subtree queries, and the MRN resource paths built from them.
  The regular expressions are written out as predicates on the bytes; error values carry the
  arguments of the Go error messages.
\<close>

section \<open>Names\<close>

definition maxSlugLen :: nat where "maxSlugLen = 63"
definition maxFolderNameLen :: nat where "maxFolderNameLen = 255"
definition maxKeyLen :: nat where "maxKeyLen = 255"
definition maxPathLen :: nat where "maxPathLen = 1024"
definition maxPathDepth :: nat where "maxPathDepth = 32"

lemmas path_limits = maxSlugLen_def maxFolderNameLen_def maxKeyLen_def maxPathLen_def maxPathDepth_def

datatype name_error =
    NameRequired string
  | NameTooLong string nat nat
  | NameReserved string
  | NameShape string string

definition is_lower :: "char \<Rightarrow> bool" where
  "is_lower c \<longleftrightarrow> (let n = (of_char c :: nat) in 97 \<le> n \<and> n \<le> 122)"

definition is_upper :: "char \<Rightarrow> bool" where
  "is_upper c \<longleftrightarrow> (let n = (of_char c :: nat) in 65 \<le> n \<and> n \<le> 90)"

definition is_digit :: "char \<Rightarrow> bool" where
  "is_digit c \<longleftrightarrow> (let n = (of_char c :: nat) in 48 \<le> n \<and> n \<le> 57)"

definition alnum_lower :: "char \<Rightarrow> bool" where
  "alnum_lower c \<longleftrightarrow> is_lower c \<or> is_digit c"

definition alnum :: "char \<Rightarrow> bool" where
  "alnum c \<longleftrightarrow> is_lower c \<or> is_upper c \<or> is_digit c"

text \<open>
  The shape \<open>^E(M{0,n}E)?$\<close> shared by two of the patterns: one byte of \<open>E\<close>, or a byte of \<open>E\<close> at
  each end and at most \<open>n\<close> bytes of \<open>M\<close> between them.
\<close>

definition ends_pattern :: "(char \<Rightarrow> bool) \<Rightarrow> (char \<Rightarrow> bool) \<Rightarrow> nat \<Rightarrow> string \<Rightarrow> bool" where
  "ends_pattern E M n s =
     (case s of
        [] \<Rightarrow> False
      | c # rest \<Rightarrow> E c \<and> (rest = [] \<or>
          E (last rest) \<and> list_all M (butlast rest) \<and> length (butlast rest) \<le> n))"

definition slugPattern :: "string \<Rightarrow> bool" where
  "slugPattern = ends_pattern alnum_lower (\<lambda>c. alnum_lower c \<or> c = CHR ''-'') 61"

definition folderNamePattern :: "string \<Rightarrow> bool" where
  "folderNamePattern = ends_pattern alnum
     (\<lambda>c. alnum c \<or> c = CHR ''.'' \<or> c = CHR ''_'' \<or> c = CHR ''-'') 253"

definition keyPattern :: "string \<Rightarrow> bool" where
  "keyPattern s =
     (case s of
        [] \<Rightarrow> False
      | c # rest \<Rightarrow> (alnum c \<or> c = CHR ''_'') \<and> length rest \<le> 254 \<and>
          list_all (\<lambda>d. alnum d \<or> d = CHR ''_'' \<or> d = CHR ''.'' \<or> d = CHR ''-'') rest)"

definition ValidateSlug :: "string \<Rightarrow> string \<Rightarrow> name_error option" where
  "ValidateSlug kind s =
     (if s = [] then Some (NameRequired kind)
      else if length s > maxSlugLen then Some (NameTooLong kind maxSlugLen (length s))
      else if \<not> slugPattern s then Some (NameShape kind s)
      else None)"

definition ValidateFolderName :: "string \<Rightarrow> name_error option" where
  "ValidateFolderName name =
     (if name = [] then Some (NameRequired ''folder name'')
      else if length name > maxFolderNameLen
        then Some (NameTooLong ''folder name'' maxFolderNameLen (length name))
      else if name = ''.'' \<or> name = ''..'' then Some (NameReserved name)
      else if \<not> folderNamePattern name then Some (NameShape ''folder name'' name)
      else None)"

definition ValidateKey :: "string \<Rightarrow> name_error option" where
  "ValidateKey key =
     (if key = [] then Some (NameRequired ''secret key'')
      else if length key > maxKeyLen then Some (NameTooLong ''secret key'' maxKeyLen (length key))
      else if \<not> keyPattern key then Some (NameShape ''secret key'' key)
      else None)"

text \<open>What an accepted name is, in the terms the rest of the development uses.\<close>

lemma alnum_not_special [simp]:
  "\<not> alnum CHR ''/''" "\<not> alnum CHR ''.''" "\<not> alnum CHR ''-''" "\<not> alnum CHR ''_''"
  "\<not> alnum_lower CHR ''/''" "\<not> alnum_lower CHR ''-''" "\<not> alnum_lower CHR ''.''"
  by (simp_all add: alnum_def alnum_lower_def is_lower_def is_upper_def is_digit_def)

lemma alnum_lower_alnum: "alnum_lower c \<Longrightarrow> alnum c"
  by (auto simp: alnum_def alnum_lower_def)

lemma alnum_not_space: "alnum c \<Longrightarrow> \<not> space_byte c"
proof
  assume a: "alnum c" and sp: "space_byte c"
  from a have r: "48 \<le> (of_char c :: nat)" "(of_char c :: nat) \<le> 122"
    by (auto simp: alnum_def is_lower_def is_upper_def is_digit_def Let_def)
  from sp r(2) have "c \<in> set [CHR 0x09, CHR 0x0A, CHR 0x0B, CHR 0x0C, CHR 0x0D, CHR 0x20]"
    by (simp add: space_byte_def)
  with r(1) show False by auto
qed

lemma ends_pattern_E:
  "ends_pattern E M n s \<Longrightarrow> s \<noteq> [] \<and> E (hd s) \<and> E (last s) \<and> length s \<le> n + 2"
  by (auto simp: ends_pattern_def split: list.splits)

lemma ends_pattern_free:
  assumes "ends_pattern E M n s" "\<not> E c" "\<not> M c"
  shows "c \<notin> set s"
proof (cases s)
  case Nil
  with assms show ?thesis by (simp add: ends_pattern_def)
next
  case (Cons d rest)
  show ?thesis
  proof (cases rest rule: rev_cases)
    case Nil
    with Cons assms show ?thesis by (auto simp: ends_pattern_def)
  next
    case (snoc mid l)
    with Cons assms show ?thesis by (auto simp: ends_pattern_def list_all_iff)
  qed
qed

lemma ValidateSlug_None:
  "ValidateSlug kind s = None \<longleftrightarrow> slugPattern s"
  using ends_pattern_E [of alnum_lower "\<lambda>c. alnum_lower c \<or> c = CHR ''-''" 61 s]
  by (auto simp: ValidateSlug_def slugPattern_def path_limits ends_pattern_def)

lemma ValidateFolderName_None:
  "ValidateFolderName s = None \<longleftrightarrow> folderNamePattern s"
  using ends_pattern_E [of alnum "\<lambda>c. alnum c \<or> c = CHR ''.'' \<or> c = CHR ''_'' \<or> c = CHR ''-''" 253 s]
  by (auto simp: ValidateFolderName_def folderNamePattern_def path_limits ends_pattern_def)

lemma ValidateKey_None:
  "ValidateKey s = None \<longleftrightarrow> keyPattern s"
  by (auto simp: ValidateKey_def keyPattern_def path_limits split: list.splits)

lemma slug_no_slash: "slugPattern s \<Longrightarrow> slash \<notin> set s"
  unfolding slugPattern_def by (erule ends_pattern_free) auto

lemma folder_no_slash: "folderNamePattern s \<Longrightarrow> slash \<notin> set s"
  unfolding folderNamePattern_def by (erule ends_pattern_free) auto

lemma key_no_slash: "keyPattern s \<Longrightarrow> slash \<notin> set s"
  by (auto simp: keyPattern_def list_all_iff split: list.splits)

lemma folder_ends: "folderNamePattern s \<Longrightarrow> s \<noteq> [] \<and> alnum (hd s) \<and> alnum (last s)"
  unfolding folderNamePattern_def by (drule ends_pattern_E) simp

lemma folder_not_dots: "folderNamePattern s \<Longrightarrow> s \<noteq> ''.'' \<and> s \<noteq> ''..''"
  by (auto dest: folder_ends)

lemma key_nonempty: "keyPattern s \<Longrightarrow> s \<noteq> []"
  by (auto simp: keyPattern_def)

lemma slug_nonempty: "slugPattern s \<Longrightarrow> s \<noteq> []"
  unfolding slugPattern_def by (drule ends_pattern_E) simp

section \<open>Canonical folder paths\<close>

datatype path_error =
    PathDotDot string
  | PathTooLong nat nat
  | PathTooDeep nat nat
  | PathSegment string name_error

definition NormalizePath :: "string \<Rightarrow> path_error + string" where
  "NormalizePath p =
     (let s0 = TrimSpace p in
      if s0 = [] \<or> s0 = ''/'' then Inr ''/''
      else
        let s = (if prefix ''/'' s0 then s0 else slash # s0) in
        if ''..'' \<in> set (splitOn slash s) then Inl (PathDotDot p)
        else
          let cleaned = path_Clean_rooted s in
          if cleaned = ''/'' then Inr ''/''
          else if length cleaned > maxPathLen then Inl (PathTooLong maxPathLen (length cleaned))
          else
            let segments = splitOn slash (TrimPrefixByte slash cleaned) in
            if length segments > maxPathDepth then Inl (PathTooDeep maxPathDepth (length segments))
            else (case first_error ValidateFolderName segments of
                Some e \<Rightarrow> Inl (PathSegment p e)
              | None \<Rightarrow> Inr cleaned))"

definition SplitPath :: "string \<Rightarrow> string \<times> string" where
  "SplitPath normalized =
     (if normalized = ''/'' then ([], [])
      else (case LastIndexByte normalized slash of
          None \<Rightarrow> (''/'', drop 1 normalized)
        | Some i \<Rightarrow> if i = 0 then (''/'', drop 1 normalized)
            else (take i normalized, drop (i + 1) normalized)))"

definition JoinPath :: "string \<Rightarrow> string \<Rightarrow> string" where
  "JoinPath parent name = (if parent = [] \<or> parent = ''/'' then slash # name else parent @ slash # name)"

definition IsAtOrUnder :: "string \<Rightarrow> string \<Rightarrow> bool" where
  "IsAtOrUnder candidate ancestor \<longleftrightarrow>
     candidate = ancestor \<or> ancestor = ''/'' \<or> prefix (ancestor @ ''/'') candidate"

definition escapeLike :: "string \<Rightarrow> string" where
  "escapeLike s = concat (map (\<lambda>c. if c = CHR 0x5C \<or> c = CHR ''%'' \<or> c = CHR ''_''
      then [CHR 0x5C, c] else [c]) s)"

definition SubtreePattern :: "string \<Rightarrow> string" where
  "SubtreePattern p = (if p = ''/'' then ''/%'' else escapeLike p @ ''/%'')"

text \<open>
  The SQL operator LIKE with the default escape character, as PostgreSQL defines it. A pattern
  that ends in the escape character is an error there and never matches here; no pattern the
  code builds has that form.
\<close>

fun sql_like :: "string \<Rightarrow> string \<Rightarrow> bool" where
  "sql_like [] s = (s = [])"
| "sql_like (p # ps) [] = (p = CHR ''%'' \<and> sql_like ps [])"
| "sql_like (p # ps) (x # s) =
     (if p = CHR ''%'' then sql_like ps (x # s) \<or> sql_like (p # ps) s
      else if p = CHR ''_'' then sql_like ps s
      else if p = CHR 0x5C then (case ps of [] \<Rightarrow> False | q # qs \<Rightarrow> q = x \<and> sql_like qs s)
      else p = x \<and> sql_like ps s)"

text \<open>\<open>splitSegments\<close> of \<open>service.go\<close>: the elements of a normalized path.\<close>

definition splitSegments :: "string \<Rightarrow> string list" where
  "splitSegments normalized =
     (if normalized = ''/'' then [] else splitOn slash (drop 1 normalized))"

subsection \<open>Canonical paths and their segments\<close>

definition path_of :: "string list \<Rightarrow> string" where
  "path_of ws = slash # joinWith slash ws"

definition segments_ok :: "string list \<Rightarrow> bool" where
  "segments_ok ws \<longleftrightarrow> (\<forall>w \<in> set ws. folderNamePattern w)"

definition canonical :: "string \<Rightarrow> bool" where
  "canonical p \<longleftrightarrow> (\<exists>ws. segments_ok ws \<and> length ws \<le> maxPathDepth \<and>
     p = path_of ws \<and> (ws \<noteq> [] \<longrightarrow> length p \<le> maxPathLen))"

lemma segments_ok_simps [simp]:
  "segments_ok []" "segments_ok (w # ws) \<longleftrightarrow> folderNamePattern w \<and> segments_ok ws"
  "segments_ok (ws @ vs) \<longleftrightarrow> segments_ok ws \<and> segments_ok vs"
  by (auto simp: segments_ok_def)

lemma segments_free: "segments_ok ws \<Longrightarrow> \<forall>w \<in> set ws. slash \<notin> set w"
  by (auto simp: segments_ok_def folder_no_slash)

lemma folder_not_Nil: "\<not> folderNamePattern []"
  by (auto dest: folder_ends)

lemma path_of_simps [simp]: "path_of [] = ''/''" "path_of ws \<noteq> []"
  by (simp_all add: path_of_def)

lemma join_eq_Nil: "segments_ok ws \<Longrightarrow> joinWith slash ws = [] \<longleftrightarrow> ws = []"
  by (cases ws rule: list.exhaust; cases "tl ws") (auto simp: folder_not_Nil)

lemma path_of_root: "segments_ok ws \<Longrightarrow> path_of ws = ''/'' \<longleftrightarrow> ws = []"
  by (simp add: path_of_def join_eq_Nil)

lemma path_of_inj: "segments_ok ws \<Longrightarrow> segments_ok vs \<Longrightarrow> path_of ws = path_of vs \<longleftrightarrow> ws = vs"
  using joinWith_inj [of slash ws vs] segments_free join_eq_Nil
  by (auto simp: path_of_def) (metis joinWith.simps(1))

lemma split_path_of: "segments_ok ws \<Longrightarrow> ws \<noteq> [] \<Longrightarrow> splitOn slash (path_of ws) = [] # ws"
  by (simp add: path_of_def split_join segments_free)

lemma splitSegments_path_of [simp]: "segments_ok ws \<Longrightarrow> splitSegments (path_of ws) = ws"
  by (auto simp: splitSegments_def path_of_def join_eq_Nil split_join segments_free)

lemma path_of_snoc: "path_of (ws @ [w]) = (if ws = [] then slash # w else path_of ws @ slash # w)"
  by (auto simp: path_of_def joinWith_append)

lemma last_path_of: "segments_ok ws \<Longrightarrow> ws \<noteq> [] \<Longrightarrow> alnum (last (path_of ws))"
  by (cases ws rule: rev_cases) (auto simp: path_of_snoc dest: folder_ends)

lemma TrimSpace_path_of: "segments_ok ws \<Longrightarrow> TrimSpace (path_of ws) = path_of ws"
proof (cases "ws = []")
  case False
  assume "segments_ok ws"
  with False have "\<not> space_byte (last (path_of ws))"
    using last_path_of alnum_not_space by blast
  then show ?thesis
    by (intro TrimSpace_plain) (auto simp: path_of_def space_byte_def)
qed (simp add: TrimSpace_plain space_byte_def)

lemma clean_path_of: "segments_ok ws \<Longrightarrow> path_Clean_rooted (path_of ws) = path_of ws"
proof (cases "ws = []")
  case True
  then show ?thesis by (simp add: path_Clean_rooted_def path_of_def)
next
  case False
  assume ok: "segments_ok ws"
  then have nd: "''..'' \<notin> set ([] # ws)" by (auto simp: segments_ok_def dest: folder_not_dots)
  have "filter (\<lambda>w. w \<noteq> [] \<and> w \<noteq> ''.'') ws = ws"
    using ok by (auto simp: segments_ok_def filter_id_conv dest: folder_not_dots folder_ends)
  with nd ok False show ?thesis
    by (simp add: path_Clean_rooted_def split_path_of clean_elems_no_dotdot)
       (simp add: path_of_def)
qed

lemma Normalize_path_of:
  assumes ok: "segments_ok ws" and d: "length ws \<le> maxPathDepth"
    and l: "ws \<noteq> [] \<Longrightarrow> length (path_of ws) \<le> maxPathLen"
  shows "NormalizePath (path_of ws) = Inr (path_of ws)"
proof (cases "ws = []")
  case True
  then show ?thesis by (simp add: NormalizePath_def TrimSpace_plain space_byte_def)
next
  case False
  have nd: "''..'' \<notin> set ([] # ws)"
    using ok by (auto simp: segments_ok_def dest: folder_not_dots)
  have tp: "TrimPrefixByte slash (path_of ws) = joinWith slash ws"
    by (simp add: TrimPrefixByte_def path_of_def)
  have sp: "splitOn slash (joinWith slash ws) = ws"
    using ok False by (simp add: split_join segments_free)
  have pre: "prefix ''/'' (path_of ws)" by (simp add: path_of_def)
  have fe: "first_error ValidateFolderName ws = None"
    using ok by (auto simp: segments_ok_def ValidateFolderName_None)
  show ?thesis
    using False ok nd d l sp fe pre
    by (auto simp: NormalizePath_def TrimSpace_path_of clean_path_of path_of_root split_path_of tp Let_def
        split: option.split)
qed

lemma Normalize_canonical: "NormalizePath p = Inr q \<Longrightarrow> canonical q"
proof -
  assume n: "NormalizePath p = Inr q"
  show ?thesis
  proof (cases "q = ''/''")
    case True
    then show ?thesis by (auto simp: canonical_def intro!: exI [of _ "[]"])
  next
    case False
    define s where "s = (let s0 = TrimSpace p in if prefix ''/'' s0 then s0 else slash # s0)"
    define ws where "ws = clean_elems [] (splitOn slash s)"
    have q: "q = path_of ws" and nd: "''..'' \<notin> set (splitOn slash s)"
      and len: "length q \<le> maxPathLen"
      and dep: "length (splitOn slash (joinWith slash ws)) \<le> maxPathDepth"
      and fe: "first_error ValidateFolderName (splitOn slash (joinWith slash ws)) = None"
      using n False unfolding NormalizePath_def s_def ws_def path_of_def
      by (auto simp: Let_def path_Clean_rooted_def TrimPrefixByte_def
          split: if_splits option.splits)
    have "ws = filter (\<lambda>w. w \<noteq> [] \<and> w \<noteq> ''.'') (splitOn slash s)"
      using nd by (simp add: ws_def clean_elems_no_dotdot)
    then have free: "\<forall>w \<in> set ws. slash \<notin> set w"
      using splitOn_free_parts by fastforce
    have "ws \<noteq> []" using False q by auto
    with free have "splitOn slash (joinWith slash ws) = ws" by (simp add: split_join)
    with fe dep q len show ?thesis
      by (auto simp: canonical_def segments_ok_def ValidateFolderName_None)
  qed
qed

lemma canonical_Normalize: "canonical q \<Longrightarrow> NormalizePath q = Inr q"
  using Normalize_path_of by (auto simp: canonical_def)

subsection \<open>Parents, descendants and LIKE patterns\<close>

lemma SplitPath_append:
  assumes "P \<noteq> []" "w \<noteq> []" "slash \<notin> set w"
  shows "SplitPath (P @ slash # w) = (P, w)"
proof -
  have "LastIndexByte (P @ slash # w) slash = Some (length P)"
    using assms(3) by (rule LastIndexByte_app)
  moreover have "P @ slash # w \<noteq> ''/''" using assms by (cases P) auto
  ultimately show ?thesis using assms(1) by (simp add: SplitPath_def)
qed

lemma SplitPath_path_of:
  assumes ok: "segments_ok ws" "folderNamePattern w"
  shows "SplitPath (path_of (ws @ [w])) = (path_of ws, w)"
proof -
  have ne: "w \<noteq> []" and free: "slash \<notin> set w"
    using ok(2) by (auto simp: folder_no_slash folder_not_Nil)
  show ?thesis
  proof (cases "ws = []")
    case True
    then show ?thesis
      using ne free LastIndexByte_app [of slash w "[]"] by (simp add: SplitPath_def path_of_def)
  next
    case False
    from ne free have "SplitPath (path_of ws @ slash # w) = (path_of ws, w)"
      by (intro SplitPath_append) auto
    with False show ?thesis by (simp add: path_of_snoc)
  qed
qed

lemma JoinPath_path_of:
  "segments_ok ws \<Longrightarrow> JoinPath (path_of ws) w = path_of (ws @ [w])"
  by (auto simp: JoinPath_def path_of_snoc path_of_root)

lemma prefix_join:
  assumes "segments_ok as" "segments_ok cs" "as \<noteq> []"
  shows "prefix (path_of as @ ''/'') (path_of cs) \<longleftrightarrow> strict_prefix as cs"
proof
  assume "prefix (path_of as @ ''/'') (path_of cs)"
  then obtain t where t: "path_of cs = path_of as @ slash # t" by (auto simp: prefix_def)
  have "cs \<noteq> []"
    using t assms(3) by (auto simp: path_of_def)
  have "joinWith slash cs = joinWith slash as @ slash # t"
    using t by (simp add: path_of_def)
  also have "\<dots> = joinWith slash (as @ splitOn slash t)"
    using assms(3) by (simp add: joinWith_append)
  finally have "cs = as @ splitOn slash t"
    using assms \<open>cs \<noteq> []\<close> segments_free splitOn_free_parts
    by (intro joinWith_inj) auto
  then show "strict_prefix as cs" by (simp add: strict_prefix_def prefix_def)
next
  assume "strict_prefix as cs"
  then obtain z zs where cs: "cs = as @ z # zs" by (auto elim: strict_prefixE')
  then show "prefix (path_of as @ ''/'') (path_of cs)"
    using assms(3) joinWith_append [of as "z # zs" slash] by (simp add: path_of_def prefix_def)
qed

text \<open>The order on folders is the prefix order on their segments.\<close>

lemma IsAtOrUnder_path_of:
  assumes "segments_ok as" "segments_ok cs"
  shows "IsAtOrUnder (path_of cs) (path_of as) \<longleftrightarrow> prefix as cs"
proof (cases "as = []")
  case True
  then show ?thesis by (simp add: IsAtOrUnder_def)
next
  case False
  with assms show ?thesis
    by (auto simp: IsAtOrUnder_def prefix_join path_of_root path_of_inj strict_prefix_def)
qed

lemma sql_like_percent: "sql_like ''%'' s"
  by (induction s) auto

lemma sql_like_escape:
  "sql_like (escapeLike p @ q) s \<longleftrightarrow> (\<exists>t. s = p @ t \<and> sql_like q t)"
proof (induction p arbitrary: s)
  case Nil
  then show ?case by (simp add: escapeLike_def)
next
  case (Cons c p)
  have esc: "escapeLike (c # p) = (if c = CHR 0x5C \<or> c = CHR ''%'' \<or> c = CHR ''_''
      then [CHR 0x5C, c] else [c]) @ escapeLike p"
    by (simp add: escapeLike_def)
  show ?case
    by (cases s) (auto simp: esc Cons.IH)
qed

lemma sql_like_slash_percent: "sql_like ''/%'' t \<longleftrightarrow> prefix ''/'' t"
  by (cases t) (auto simp: sql_like_percent)

lemma SubtreePattern_like:
  "sql_like (SubtreePattern p) s \<longleftrightarrow> (if p = ''/'' then prefix ''/'' s else prefix (p @ ''/'') s)"
proof (cases "p = ''/''")
  case True
  then show ?thesis by (simp add: SubtreePattern_def sql_like_slash_percent)
next
  case False
  have "sql_like (escapeLike p @ ''/%'') s \<longleftrightarrow> prefix (p @ ''/'') s"
    by (simp add: sql_like_escape sql_like_slash_percent) (auto simp: prefix_def)
  with False show ?thesis by (simp add: SubtreePattern_def)
qed

text \<open>The condition the subtree queries use: \<open>path = $1 OR path LIKE $2\<close>.\<close>

definition in_subtree :: "string \<Rightarrow> string \<Rightarrow> bool" where
  "in_subtree p s \<longleftrightarrow> s = p \<or> sql_like (SubtreePattern p) s"

lemma in_subtree_path_of:
  "segments_ok as \<Longrightarrow> segments_ok cs \<Longrightarrow> in_subtree (path_of as) (path_of cs) \<longleftrightarrow> prefix as cs"
  using IsAtOrUnder_path_of [of as cs]
  by (auto simp: in_subtree_def SubtreePattern_like IsAtOrUnder_def path_of_def)

lemma Normalize_join:
  assumes can: "canonical q" and q: "q = path_of ws" and ok: "segments_ok ws" and ne: "ws \<noteq> []"
  shows "NormalizePath (joinWith slash ws) = Inr q"
proof -
  have j: "joinWith slash ws \<noteq> []" using ne ok join_eq_Nil by simp
  obtain w vs where w: "ws = w # vs" using ne by (cases ws) auto
  have wf: "w \<noteq> []" "alnum (hd w)" using ok w folder_ends by auto
  have hd: "hd (joinWith slash ws) = hd w" using w wf by (cases vs) auto
  have la: "last (joinWith slash ws) = last (path_of ws)" using j by (simp add: path_of_def)
  have trim: "TrimSpace (joinWith slash ws) = joinWith slash ws"
    using j hd wf la last_path_of [OF ok ne] alnum_not_space by (intro TrimSpace_plain) auto
  have np: "\<not> prefix ''/'' (joinWith slash ws)"
  proof -
    have "hd w \<noteq> slash" using wf(2) by auto
    with j hd show ?thesis by (cases "joinWith slash ws") auto
  qed
  have lim: "length ws \<le> maxPathDepth" "length (path_of ws) \<le> maxPathLen"
    using can q ne path_of_inj ok by (auto simp: canonical_def)
  have nd: "''..'' \<notin> set ([] # ws)" using ok by (auto simp: segments_ok_def dest: folder_not_dots)
  have tp: "TrimPrefixByte slash (path_of ws) = joinWith slash ws" by (simp add: TrimPrefixByte_def path_of_def)
  have sp: "splitOn slash (joinWith slash ws) = ws" using ok ne by (simp add: split_join segments_free)
  have fe: "first_error ValidateFolderName ws = None"
    using ok by (auto simp: segments_ok_def ValidateFolderName_None)
  have s: "slash # joinWith slash ws = path_of ws" by (simp add: path_of_def)
  have n1: "joinWith slash ws \<noteq> ''/''" using np by auto
  show ?thesis
    using j n1 np lim nd sp fe ne ok q
    by (auto simp: NormalizePath_def trim s clean_path_of path_of_root split_path_of tp Let_def split: option.split)
qed

lemma key_first: "keyPattern s \<Longrightarrow> \<not> space_byte (hd s)"
proof -
  assume "keyPattern s"
  then have "s \<noteq> []" "\<forall>c \<in> set s. alnum c \<or> c = CHR ''_'' \<or> c = CHR ''.'' \<or> c = CHR ''-''"
    by (auto simp: keyPattern_def list_all_iff split: list.splits)
  then have "alnum (hd s) \<or> hd s = CHR ''_'' \<or> hd s = CHR ''.'' \<or> hd s = CHR ''-''"
    using hd_in_set by blast
  then show ?thesis using alnum_not_space by (auto simp: space_byte_def)
qed

lemma key_last: "keyPattern s \<Longrightarrow> \<not> space_byte (last s)"
proof -
  assume "keyPattern s"
  then have "s \<noteq> []" "\<forall>c \<in> set s. alnum c \<or> c = CHR ''_'' \<or> c = CHR ''.'' \<or> c = CHR ''-''"
    by (auto simp: keyPattern_def list_all_iff split: list.splits)
  then have "alnum (last s) \<or> last s = CHR ''_'' \<or> last s = CHR ''.'' \<or> last s = CHR ''-''"
    using last_in_set by blast
  then show ?thesis using alnum_not_space by (auto simp: space_byte_def)
qed

section \<open>MRN resource paths\<close>

definition mrnResourcePath :: "string \<Rightarrow> string \<Rightarrow> string \<Rightarrow> string" where
  "mrnResourcePath environmentSlug folderPath key =
     (if folderPath = ''/'' then ''secret/'' @ environmentSlug @ ''/'' @ key
      else ''secret/'' @ environmentSlug @ folderPath @ ''/'' @ key)"

definition mrn :: "string \<Rightarrow> string \<Rightarrow> string \<Rightarrow> string" where
  "mrn tenantName projectSlug resourcePath =
     ''mrn:secret:'' @ tenantName @ '':'' @ projectSlug @ '':'' @ resourcePath"

definition ResourceProject :: string where "ResourceProject = ''project''"
definition ResourceAudit :: string where "ResourceAudit = ''audit''"
definition ResourceSetup :: string where "ResourceSetup = ''setup''"
definition ResourceWebhook :: string where "ResourceWebhook = ''webhook''"
definition ResourceDynamicRole :: string where "ResourceDynamicRole = ''dynamic-role''"
definition ResourceTransit :: string where "ResourceTransit = ''transit''"

definition EnvironmentResourcePath :: "string \<Rightarrow> string" where
  "EnvironmentResourcePath environmentSlug = ''environment/'' @ environmentSlug"

definition FolderResourcePath :: "string \<Rightarrow> string \<Rightarrow> string" where
  "FolderResourcePath environmentSlug folderPath =
     (if folderPath = ''/'' \<or> folderPath = [] then ''folder/'' @ environmentSlug
      else ''folder/'' @ environmentSlug @ folderPath)"

definition SecretResourcePath :: "string \<Rightarrow> string \<Rightarrow> string \<Rightarrow> string" where
  "SecretResourcePath environmentSlug folderPath key = mrnResourcePath environmentSlug folderPath key"

definition DynamicRoleResourcePath :: "string \<Rightarrow> string" where
  "DynamicRoleResourcePath name = ResourceDynamicRole @ ''/'' @ name"

definition TransitResourcePath :: "string \<Rightarrow> string" where
  "TransitResourcePath name = ResourceTransit @ ''/'' @ name"

definition SplitReferencePath :: "string \<Rightarrow> (string \<times> string \<times> string \<times> string) option" where
  "SplitReferencePath raw =
     (let parts = splitOn slash (TrimByte slash (TrimSpace raw)) in
      if length parts < 3 then None
      else
        let middle = take (length parts - 3) (drop 2 parts) in
        Some (parts ! 0, parts ! 1,
              (if length middle > 0 then ''/'' @ joinWith slash middle else ''/''),
              parts ! (length parts - 1)))"

lemma mrnResourcePath_path_of:
  "segments_ok ws \<Longrightarrow>
     mrnResourcePath env (path_of ws) key = joinWith slash (''secret'' # env # ws @ [key])"
  using joinWith_append [of ws "[key]" slash]
  by (cases ws) (auto simp: mrnResourcePath_def path_of_def join_eq_Nil)

lemma SecretResourcePath_inj_segments:
  assumes "segments_ok ws" "segments_ok vs" "slash \<notin> set e" "slash \<notin> set f"
    "slash \<notin> set k" "slash \<notin> set l"
    and eq: "mrnResourcePath e (path_of ws) k = mrnResourcePath f (path_of vs) l"
  shows "e = f \<and> ws = vs \<and> k = l"
proof -
  have "(''secret'' # e # ws @ [k]) = (''secret'' # f # vs @ [l])"
    using eq assms(1-6) segments_free
    by (intro joinWith_inj [of slash]) (auto simp: mrnResourcePath_path_of)
  then show ?thesis by simp
qed

section \<open>Properties\<close>

definition chk_folders_path_absolute :: "string \<Rightarrow> bool" where
  "chk_folders_path_absolute p \<longleftrightarrow>
     p = ''/'' \<or> (prefix ''/'' p \<and> list_all (\<lambda>w. w \<noteq> []) (splitOn slash (drop 1 p)))"

lemma canonical_chk: "canonical p \<Longrightarrow> chk_folders_path_absolute p"
proof -
  assume "canonical p"
  then obtain ws where ws: "p = path_of ws" "segments_ok ws" by (auto simp: canonical_def)
  show ?thesis
  proof (cases "ws = []")
    case False
    then have "splitOn slash (drop 1 p) = ws" using ws by (simp add: path_of_def split_join segments_free)
    with ws folder_not_Nil show ?thesis
      by (auto simp: chk_folders_path_absolute_def list_all_iff segments_ok_def path_of_def)
  qed (simp add: ws chk_folders_path_absolute_def)
qed

text \<open>
  C39: \<open>NormalizePath\<close> produces a canonical path and is idempotent: whatever spelling is accepted,
  the result is the root or valid folder names joined by single slashes, within the depth and
  length limits, satisfies the column's CHECK constraint, and normalizes to itself.
\<close>

theorem normalize_path_canonical:
  assumes "NormalizePath p = Inr q"
  shows "canonical q \<and> chk_folders_path_absolute q \<and> NormalizePath q = Inr q"
  using Normalize_canonical [OF assms] canonical_Normalize canonical_chk by blast

theorem normalize_path_canonical_witness:
  "NormalizePath '' db//primary/./x/ '' = Inr ''/db/primary/x''
   \<and> canonical ''/db/primary/x'' \<and> chk_folders_path_absolute ''/db/primary/x''
   \<and> NormalizePath ''/db/primary/x'' = Inr ''/db/primary/x''"
proof -
  have h: "NormalizePath '' db//primary/./x/ '' = Inr ''/db/primary/x''" by code_simp
  show ?thesis using h normalize_path_canonical [OF h] by simp
qed

text \<open>
  C40: on normalized paths the LIKE pattern of the subtree queries matches exactly the proper
  descendants of the folder (and the root itself, for the root's pattern): no underscore in a
  name acts as a wildcard, and no sibling whose name merely starts with the folder's is matched.
\<close>

theorem subtree_pattern_exact:
  assumes "NormalizePath p = Inr a" "NormalizePath q = Inr c"
  shows "sql_like (SubtreePattern a) c \<longleftrightarrow> IsAtOrUnder c a \<and> (c \<noteq> a \<or> a = ''/'')"
proof -
  obtain as cs where a: "a = path_of as" "segments_ok as" and c: "c = path_of cs" "segments_ok cs"
    using Normalize_canonical [OF assms(1)] Normalize_canonical [OF assms(2)]
    by (auto simp: canonical_def)
  show ?thesis
  proof (cases "as = []")
    case True
    then have a0: "a = ''/''" using a(1) by simp
    have "prefix ''/'' c" by (simp add: c(1) path_of_def)
    then show ?thesis unfolding a0 SubtreePattern_like IsAtOrUnder_def by simp
  next
    case False
    then have na: "a \<noteq> ''/''" using a by (simp add: path_of_root)
    have "prefix (a @ ''/'') c \<Longrightarrow> c \<noteq> a"
      using prefix_length_le [of "a @ ''/''" c] by auto
    with na show ?thesis by (auto simp: SubtreePattern_like IsAtOrUnder_def)
  qed
qed

theorem subtree_pattern_exact_witness:
  "sql_like (SubtreePattern ''/my_folder'') ''/my_folder/db''
   \<and> \<not> sql_like (SubtreePattern ''/my_folder'') ''/myXfolder/db''"
proof -
  have p: "NormalizePath ''my_folder'' = Inr ''/my_folder''"
    and q: "NormalizePath ''/my_folder/db'' = Inr ''/my_folder/db''"
    and r: "NormalizePath ''/myXfolder/db'' = Inr ''/myXfolder/db''" by code_simp+
  show ?thesis
    using subtree_pattern_exact [OF p q] subtree_pattern_exact [OF p r]
    by (simp add: IsAtOrUnder_def)
qed

text \<open>
  The MRN resource path names one address only: two secrets whose environment slugs, folder
  paths and keys passed validation have the same resource path only if all three agree, so a
  grant written for one address never matches another.
\<close>

theorem secret_resource_path_injective:
  assumes "ValidateSlug knd e = None" "ValidateSlug knd f = None"
    and "NormalizePath p = Inr a" "NormalizePath q = Inr b"
    and "ValidateKey k = None" "ValidateKey l = None"
    and "SecretResourcePath e a k = SecretResourcePath f b l"
  shows "e = f \<and> a = b \<and> k = l"
proof -
  obtain ws vs where w: "a = path_of ws" "segments_ok ws" "b = path_of vs" "segments_ok vs"
    using Normalize_canonical [OF assms(3)] Normalize_canonical [OF assms(4)]
    by (auto simp: canonical_def)
  with SecretResourcePath_inj_segments [of ws vs e f k l] assms show ?thesis
    by (simp add: SecretResourcePath_def ValidateSlug_None ValidateKey_None slug_no_slash key_no_slash)
qed

theorem secret_resource_path_injective_witness:
  "SecretResourcePath ''prod'' ''/db/a'' ''K'' \<noteq> SecretResourcePath ''prod'' ''/db'' ''K''"
proof
  assume eq: "SecretResourcePath ''prod'' ''/db/a'' ''K'' = SecretResourcePath ''prod'' ''/db'' ''K''"
  have s: "ValidateSlug ''environment slug'' ''prod'' = None" and k: "ValidateKey ''K'' = None"
    and p: "NormalizePath ''/db/a'' = Inr ''/db/a''" and q: "NormalizePath ''/db'' = Inr ''/db''"
    by code_simp+
  show False using secret_resource_path_injective [OF s s p q k k eq] by simp
qed

text \<open>
  \<open>SplitPath\<close> and \<open>JoinPath\<close> are inverse on normalized paths other than the root, and the parent
  and the last element they give are again a normalized path and a valid folder name.
\<close>

theorem split_join_path:
  assumes "NormalizePath p = Inr q" "q \<noteq> ''/''"
  shows "\<exists>parent name. SplitPath q = (parent, name) \<and> JoinPath parent name = q
     \<and> NormalizePath parent = Inr parent \<and> ValidateFolderName name = None"
proof -
  obtain ws where ws: "q = path_of ws" "segments_ok ws" "length ws \<le> maxPathDepth"
      "ws \<noteq> [] \<longrightarrow> length q \<le> maxPathLen"
    using Normalize_canonical [OF assms(1)] by (auto simp: canonical_def)
  with assms(2) obtain vs w where vs: "ws = vs @ [w]" by (cases ws rule: rev_cases) auto
  have "canonical (path_of vs)"
    using ws vs unfolding canonical_def by (intro exI [of _ vs]) (auto simp: path_of_snoc)
  then show ?thesis
    using ws vs by (simp add: SplitPath_path_of JoinPath_path_of canonical_Normalize ValidateFolderName_None)
qed

theorem split_join_path_witness:
  "\<exists>parent name. SplitPath ''/db/primary'' = (parent, name) \<and> JoinPath parent name = ''/db/primary''
     \<and> NormalizePath parent = Inr parent \<and> ValidateFolderName name = None"
proof -
  have h: "NormalizePath ''/db/primary'' = Inr ''/db/primary''" by code_simp
  show ?thesis using split_join_path [OF h] by simp
qed

text \<open>
  A reference address is parsed back into the parts it was written from: for valid slugs, a
  normalized folder path and a valid key, \<open>SplitReferencePath\<close> inverts the
  \<open>project/environment/folder/.../KEY\<close> form.
\<close>

theorem split_reference_roundtrip:
  assumes "ValidateSlug k1 project = None" "ValidateSlug k2 environment = None"
    and "NormalizePath p = Inr path" "ValidateKey key = None"
  shows "SplitReferencePath
      (project @ ''/'' @ environment @ (if path = ''/'' then ''/'' else path @ ''/'') @ key)
    = Some (project, environment, path, key)"
proof -
  obtain ws where ws: "path = path_of ws" "segments_ok ws"
    using Normalize_canonical [OF assms(3)] by (auto simp: canonical_def)
  have pk: "slugPattern project" "slugPattern environment" "keyPattern key"
    using assms by (simp_all add: ValidateSlug_None ValidateKey_None)
  define parts where "parts = project # environment # ws @ [key]"
  have raw: "project @ ''/'' @ environment @ (if path = ''/'' then ''/'' else path @ ''/'') @ key
      = joinWith slash parts" (is "?raw = _")
    using ws joinWith_append [of ws "[key]" slash]
    by (cases ws) (auto simp: parts_def path_of_def join_eq_Nil)
  have h: "?raw \<noteq> []" "hd ?raw = hd project" "last ?raw = last key"
    using slug_nonempty [OF pk(1)] key_nonempty [OF pk(3)] by auto
  have hd: "alnum (hd project)"
    using pk(1) ends_pattern_E alnum_lower_alnum unfolding slugPattern_def by blast
  have ld: "\<not> space_byte (last key) \<and> last key \<noteq> slash"
    using key_last [OF pk(3)] key_no_slash [OF pk(3)] key_nonempty [OF pk(3)] last_in_set by metis
  have ts: "TrimSpace ?raw = ?raw"
    using h hd ld alnum_not_space by (intro TrimSpace_plain) auto
  have "hd project \<noteq> slash" using hd by auto
  with h ld have tb: "TrimByte slash ?raw = ?raw" by (intro TrimByte_plain) simp_all
  have sp: "splitOn slash (joinWith slash parts) = parts"
    using pk ws(2) segments_free by (intro split_join) (auto simp: parts_def slug_no_slash key_no_slash)
  have "SplitReferencePath ?raw = Some (project, environment,
      (if length ws > 0 then ''/'' @ joinWith slash ws else ''/''), key)"
    unfolding SplitReferencePath_def ts tb
    unfolding raw sp by (simp add: parts_def nth_append)
  then show ?thesis using ws(1) by (simp add: path_of_def)
qed

theorem split_reference_roundtrip_witness:
  "SplitReferencePath ''shop/staging/db/primary/PASSWORD''
    = Some (''shop'', ''staging'', ''/db/primary'', ''PASSWORD'')"
proof -
  have s: "ValidateSlug ''slug'' ''shop'' = None" and e: "ValidateSlug ''slug'' ''staging'' = None"
    and p: "NormalizePath ''/db/primary'' = Inr ''/db/primary''" and k: "ValidateKey ''PASSWORD'' = None"
    by code_simp+
  show ?thesis using split_reference_roundtrip [OF s e p k] by simp
qed

end
