(* ===== verification/Apperror.thy ===== *)
theory Apperror
  imports Paths
begin

text \<open>
  \<open>internal/platform/apperror/apperror.go\<close> and the error translation of
  \<open>internal/store/service.go\<close>: the error values of the service layer, the predicates over
  them, and the mapping of query errors. A reason is a fixed message, the structured
  error of the validator that produced it, or the failures of the fields of a request.
\<close>

datatype crypto_error =
    CryptoMsg string
  | UnwrapAuthFailed string
  | DecryptAuthFailed int string
  | ChecksumMismatch int string
  | NoProviderFor string

text \<open>
  What a query can fail with: no row for a \<open>:one\<close> query, a constraint violation by its SQLSTATE,
  or an exception raised by a trigger.
\<close>

datatype dberr =
    NoRows
  | UniqueViolation
  | ExclusionViolation
  | ForeignKeyViolation
  | CheckViolation string
  | RaisedException string

datatype reason =
    Msg string
  | NameReason name_error
  | PathReason path_error
  | Fields "(string \<times> reason) list"

text \<open>
  An \<open>InternalError\<close> wraps its cause: a query error, a crypto error, another error of the package,
  or a message. \<open>Is...\<close> are \<open>errors.As\<close>: they look through the causes.
\<close>

datatype apperr =
    NotFoundError string
  | ConflictError string
  | ValidationError reason
  | ForbiddenError string
  | UnavailableError crypto_error
  | InternalError string cause
and cause = DbCause dberr | CryptoCause crypto_error | AppCause apperr | OtherCause string

text \<open>
  The refusals of the lease package (\<open>internal/lease/lease.go\<close>) with the numbers and instants their
  messages print, and the reason column of an audit row: a message, or the error it is the text of.
\<close>

datatype refusal =
    SecretExpired int
  | LeaseExhausted int int
  | LeaseExpired int

datatype audit_reason = ReasonText string | ReasonOf apperr | ReasonRaw reason | ReasonRefusal refusal

fun error_As :: "apperr \<Rightarrow> apperr" where
  "error_As (InternalError opn (AppCause e)) = error_As e"
| "error_As e = e"

definition IsNotFound :: "apperr \<Rightarrow> bool" where
  "IsNotFound e = (case error_As e of NotFoundError _ \<Rightarrow> True | _ \<Rightarrow> False)"

definition IsConflict :: "apperr \<Rightarrow> bool" where
  "IsConflict e = (case error_As e of ConflictError _ \<Rightarrow> True | _ \<Rightarrow> False)"

definition IsValidation :: "apperr \<Rightarrow> bool" where
  "IsValidation e = (case error_As e of ValidationError _ \<Rightarrow> True | _ \<Rightarrow> False)"

definition IsForbidden :: "apperr \<Rightarrow> bool" where
  "IsForbidden e = (case error_As e of ForbiddenError _ \<Rightarrow> True | _ \<Rightarrow> False)"

definition IsUnavailable :: "apperr \<Rightarrow> bool" where
  "IsUnavailable e = (case error_As e of UnavailableError _ \<Rightarrow> True | _ \<Rightarrow> False)"

definition mapReadError :: "string \<Rightarrow> dberr \<Rightarrow> apperr" where
  "mapReadError entity e =
     (if e = NoRows then NotFoundError entity else InternalError (''read '' @ entity) (DbCause e))"

definition mapWriteError :: "string \<Rightarrow> string \<Rightarrow> dberr \<Rightarrow> apperr" where
  "mapWriteError entity conflictMessage e =
     (case e of
        UniqueViolation \<Rightarrow> ConflictError conflictMessage
      | ExclusionViolation \<Rightarrow> ConflictError conflictMessage
      | ForeignKeyViolation \<Rightarrow> ConflictError (entity @ '' references something that does not exist'')
      | CheckViolation c \<Rightarrow> ValidationError (Msg (entity @ '' violates the '' @ c @ '' constraint''))
      | NoRows \<Rightarrow> NotFoundError entity
      | RaisedException _ \<Rightarrow> InternalError (''write '' @ entity) (DbCause e))"

definition checkKey :: "string \<Rightarrow> apperr + unit" where
  "checkKey k = (case ValidateKey k of None \<Rightarrow> Inr () | Some e \<Rightarrow> Inl (ValidationError (NameReason e)))"

definition checkSlug :: "string \<Rightarrow> string \<Rightarrow> apperr + unit" where
  "checkSlug knd s =
     (case ValidateSlug knd s of None \<Rightarrow> Inr () | Some e \<Rightarrow> Inl (ValidationError (NameReason e)))"

definition checkPath :: "string \<Rightarrow> apperr + string" where
  "checkPath p = mapL (\<lambda>e. ValidationError (PathReason e)) (NormalizePath p)"

lemma checkKey_ok [simp]: "checkKey k = Inr u \<longleftrightarrow> ValidateKey k = None"
  by (simp add: checkKey_def split: option.splits)

lemma checkSlug_ok [simp]: "checkSlug knd s = Inr u \<longleftrightarrow> ValidateSlug knd s = None"
  by (simp add: checkSlug_def split: option.splits)

lemma checkPath_ok [simp]: "checkPath p = Inr q \<longleftrightarrow> NormalizePath p = Inr q"
  by (simp add: checkPath_def)

end
