(* ===== verification/Storage.thy ===== *)
theory Storage
  imports Apperror
begin

text \<open>
  \<open>internal/storage\<close>: the tables of the schema the store works on, as lists of rows, and the SQL
  statements of the sqlc query functions, as computations over them.

  A UUID is its canonical text. \<open>gen_random_uuid()\<close> and the BIGSERIAL sequences are the field
  \<open>uuid_at\<close> (the values the generator will return) read at the position \<open>seq\<close>, which is also the
  next id: ids are unique and increasing per table, which is all the code uses. \<open>db_now\<close> is
  the database's \<open>now()\<close>. Instants are integers. JSON columns hold their decoded value. The unique
  indexes, CHECK constraints, foreign keys and the triggers are the migrations'; a statement that violates one leaves the tables as they were. The columns
  \<open>created_by\<close>, \<open>updated_by\<close>, \<open>updated_at\<close> and \<open>metadata\<close> (of other tables than the audit trail) and
  \<open>ip_address\<close>, on which no operation here depends, are left out. Lengths and encoding of texts are
  checked where they are written from request headers, in the audit trail.
\<close>

type_synonym uuid = string
type_synonym instant = int

datatype json =
    JNull | JBool bool | JNum int | JStr string | JArr "json list" | JObj "(string \<times> json) list"

type_synonym object = "(string \<times> json) list"

text \<open>int32 arithmetic of Go: two's complement wrap-around.\<close>

definition int32 :: "int \<Rightarrow> int" where
  "int32 x = (x + 2 ^ 31) mod 2 ^ 32 - 2 ^ 31"

lemma int32_id: "- (2 ^ 31) \<le> x \<Longrightarrow> x < 2 ^ 31 \<Longrightarrow> int32 x = x"
  by (simp add: int32_def)

lemma int32_range: "- (2 ^ 31) \<le> int32 x \<and> int32 x < 2 ^ 31"
  using pos_mod_bound [of "2 ^ 32" "x + 2 ^ 31"] pos_mod_sign [of "2 ^ 32" "x + 2 ^ 31"]
  by (simp add: int32_def)

section \<open>Rows\<close>

record tenant =
  t_id :: nat
  t_uuid :: uuid
  t_auth :: "uuid option"
  t_name :: string
  t_display :: string
  t_status :: string
  t_system :: bool
  t_created :: instant
  t_deleted :: "instant option"

record project =
  p_id :: nat
  p_uuid :: uuid
  p_tenant :: nat
  p_name :: string
  p_slug :: string
  p_description :: string
  p_status :: string
  p_deleted :: "instant option"

record environment =
  e_id :: nat
  e_uuid :: uuid
  e_project :: nat
  e_name :: string
  e_slug :: string
  e_description :: string
  e_position :: int
  e_status :: string
  e_deleted :: "instant option"

record folder =
  f_id :: nat
  f_uuid :: uuid
  f_env :: nat
  f_parent :: "nat option"
  f_name :: string
  f_path :: string
  f_deleted :: "instant option"

record secret =
  s_id :: nat
  s_uuid :: uuid
  s_tenant :: nat
  s_project :: nat
  s_env :: nat
  s_folder :: nat
  s_mrn_service :: string
  s_mrn_tenant :: string
  s_mrn_project :: string
  s_mrn_path :: string
  s_key :: string
  s_description :: string
  s_tags :: "string list"
  s_current :: int
  s_keep :: "int option"
  s_rotation :: object
  s_rotated :: "instant option"
  s_expires :: "instant option"
  s_lease_ttl :: "int option"
  s_lease_max :: "int option"
  s_lease_reads :: "int option"
  s_created :: instant
  s_deleted :: "instant option"
  s_destroy :: "instant option"

record version =
  v_id :: nat
  v_secret :: nat
  v_version :: int
  v_ciphertext :: bytes
  v_nonce :: bytes
  v_dek :: bytes
  v_dek_nonce :: bytes
  v_kek :: string
  v_type :: string
  v_checksum :: bytes
  v_created :: instant

record root_key =
  k_id :: string
  k_provider :: string
  k_state :: string
  k_created :: instant
  k_activated :: "instant option"
  k_retired :: "instant option"

record transit_key =
  tk_id :: nat
  tk_uuid :: uuid
  tk_tenant :: nat
  tk_project :: nat
  tk_name :: string
  tk_description :: string
  tk_current :: int
  tk_status :: string
  tk_min :: int
  tk_deleted :: "instant option"

record transit_version =
  tvn_id :: nat
  tvn_key :: nat
  tvn_version :: int
  tvn_ciphertext :: bytes
  tvn_nonce :: bytes
  tvn_dek :: bytes
  tvn_dek_nonce :: bytes
  tvn_kek :: string
  tvn_created :: instant

record scope_import =
  i_id :: nat
  i_uuid :: uuid
  i_tenant :: nat
  i_env :: nat
  i_folder :: nat
  i_source_env :: nat
  i_source :: nat
  i_position :: int
  i_enabled :: bool
  i_created :: instant
  i_updated :: instant
  i_deleted :: "instant option"

record secret_lease =
  l_id :: nat
  l_uuid :: uuid
  l_tenant :: nat
  l_secret :: nat
  l_mrn :: string
  l_requester :: string
  l_kind :: string
  l_issued :: instant
  l_expires :: instant
  l_max_reads :: "int option"
  l_used :: int
  l_last_read :: "instant option"
  l_revoked :: "instant option"
  l_reason :: string
  l_created :: instant

record audit_row =
  a_id :: nat
  a_uuid :: uuid
  a_tenant :: "nat option"
  a_subject :: string
  a_kind :: string
  a_action :: string
  a_mrn :: string
  a_secret :: "nat option"
  a_version :: "int option"
  a_outcome :: string
  a_reason :: audit_reason
  a_agent :: string
  a_request :: string
  a_metadata :: object
  a_created :: instant

record db =
  tenants :: "tenant list"
  projects :: "project list"
  environments :: "environment list"
  folders :: "folder list"
  secrets :: "secret list"
  versions :: "version list"
  root_keys :: "root_key list"
  transit_keys :: "transit_key list"
  transit_versions :: "transit_version list"
  scope_imports :: "scope_import list"
  secret_leases :: "secret_lease list"
  audit_log :: "audit_row list"
  seq :: nat
  uuid_at :: "nat \<Rightarrow> uuid"
  db_now :: instant
  guc_delete :: string
  guc_rewrap :: string
  guc_transit :: string

type_synonym 'a query = "(db, dberr, 'a) comp"

section \<open>Statements\<close>

text \<open>A \<open>:one\<close> query returns the first row or \<open>pgx.ErrNoRows\<close>; a \<open>:many\<close> query the rows.\<close>

definition q_one :: "(db \<Rightarrow> 'r list) \<Rightarrow> 'r query" where
  "q_one f = (\<lambda>s. (case f s of [] \<Rightarrow> Inl NoRows | r # _ \<Rightarrow> Inr r, s))"

definition q_many :: "(db \<Rightarrow> 'r) \<Rightarrow> 'r query" where
  "q_many f = (\<lambda>s. (Inr (f s), s))"

definition q_exec :: "dberr option \<Rightarrow> db \<Rightarrow> 'r \<Rightarrow> 'r query" where
  "q_exec err s' r = (\<lambda>s. case err of Some e \<Rightarrow> (Inl e, s) | None \<Rightarrow> (Inr r, s'))"

definition updating :: "('r \<Rightarrow> bool) \<Rightarrow> ('r \<Rightarrow> 'r) \<Rightarrow> 'r list \<Rightarrow> 'r list" where
  "updating P f xs = map (\<lambda>x. if P x then f x else x) xs"

definition live_tenant :: "tenant \<Rightarrow> bool" where "live_tenant t \<longleftrightarrow> t_deleted t = None"
definition live_project :: "project \<Rightarrow> bool" where "live_project p \<longleftrightarrow> p_deleted p = None"
definition live_env :: "environment \<Rightarrow> bool" where "live_env e \<longleftrightarrow> e_deleted e = None"
definition live_folder :: "folder \<Rightarrow> bool" where "live_folder f \<longleftrightarrow> f_deleted f = None"
definition live_secret :: "secret \<Rightarrow> bool" where "live_secret s \<longleftrightarrow> s_deleted s = None"

lemmas live_defs = live_tenant_def live_project_def live_env_def live_folder_def live_secret_def

text \<open>LIMIT and OFFSET.\<close>

definition page_rows :: "nat \<Rightarrow> nat \<Rightarrow> 'r list \<Rightarrow> 'r list" where
  "page_rows limit offset xs = take limit (drop offset xs)"

text \<open>A paged listing: PostgreSQL raises an error for a negative LIMIT or OFFSET.\<close>

definition q_page :: "int \<Rightarrow> int \<Rightarrow> (db \<Rightarrow> 'r list) \<Rightarrow> 'r list query" where
  "q_page limit offset f = (\<lambda>s.
     if limit < 0 then (Inl (RaisedException ''LIMIT must not be negative''), s)
     else if offset < 0 then (Inl (RaisedException ''OFFSET must not be negative''), s)
     else (Inr (page_rows (nat limit) (nat offset) (f s)), s))"

subsection \<open>Tenants, projects and environments\<close>

definition tenant_env_ids :: "nat \<Rightarrow> db \<Rightarrow> nat list" where
  "tenant_env_ids tid s = map e_id (filter (\<lambda>e. live_env e \<and>
     (\<exists>p \<in> set (projects s). p_id p = e_project e \<and> p_tenant p = tid \<and> live_project p)) (environments s))"

definition uq_tenants :: "tenant list \<Rightarrow> bool" where
  "uq_tenants ts \<longleftrightarrow> distinct (map t_uuid ts) \<and> distinct (map t_name (filter live_tenant ts))
     \<and> distinct (map t_auth (filter (\<lambda>t. t_auth t \<noteq> None \<and> live_tenant t) ts))
     \<and> length (filter (\<lambda>t. t_system t \<and> live_tenant t) ts) \<le> 1"

definition CreateTenantRow :: "uuid option \<Rightarrow> string \<Rightarrow> string \<Rightarrow> string \<Rightarrow> bool \<Rightarrow> tenant query" where
  "CreateTenantRow auth name display status system = (\<lambda>s.
     let t = \<lparr>t_id = seq s, t_uuid = uuid_at s (seq s), t_auth = auth, t_name = name,
           t_display = display, t_status = status, t_system = system, t_created = db_now s,
           t_deleted = None\<rparr>;
         ts = tenants s @ [t]
     in q_exec (if status \<notin> {''active'', ''suspended'', ''archived''} then Some (CheckViolation ''chk_tenants_status'')
                else if \<not> uq_tenants ts then Some UniqueViolation else None)
          (s\<lparr>tenants := ts, seq := Suc (seq s)\<rparr>) t s)"

definition GetTenantByUUID :: "uuid \<Rightarrow> tenant query" where
  "GetTenantByUUID u = q_one (\<lambda>s. filter (\<lambda>t. t_uuid t = u \<and> live_tenant t) (tenants s))"

definition GetTenantRowByName :: "string \<Rightarrow> tenant query" where
  "GetTenantRowByName n = q_one (\<lambda>s. filter (\<lambda>t. t_name t = n \<and> live_tenant t) (tenants s))"

definition SoftDeleteTenant :: "uuid \<Rightarrow> nat query" where
  "SoftDeleteTenant u = (\<lambda>s.
     let P = (\<lambda>t. t_uuid t = u \<and> live_tenant t) in
     (Inr (length (filter P (tenants s))),
      s\<lparr>tenants := updating P (\<lambda>t. t\<lparr>t_deleted := Some (db_now s)\<rparr>) (tenants s)\<rparr>))"

definition uq_projects :: "project list \<Rightarrow> bool" where
  "uq_projects ps \<longleftrightarrow> distinct (map p_uuid ps)
     \<and> distinct (map (\<lambda>p. (p_tenant p, p_slug p)) (filter live_project ps))"

definition CreateProjectRow :: "nat \<Rightarrow> string \<Rightarrow> string \<Rightarrow> string \<Rightarrow> string \<Rightarrow> project query" where
  "CreateProjectRow tid name slug description status = (\<lambda>s.
     let p = \<lparr>p_id = seq s, p_uuid = uuid_at s (seq s), p_tenant = tid, p_name = name,
           p_slug = slug, p_description = description, p_status = status, p_deleted = None\<rparr>;
         ps = projects s @ [p]
     in q_exec (if status \<notin> {''active'', ''suspended'', ''archived''} then Some (CheckViolation ''chk_projects_status'')
                else if \<not> uq_projects ps then Some UniqueViolation
                else if tid \<notin> t_id ` set (tenants s) then Some ForeignKeyViolation else None)
          (s\<lparr>projects := ps, seq := Suc (seq s)\<rparr>) p s)"

definition GetProjectBySlug :: "nat \<Rightarrow> string \<Rightarrow> project query" where
  "GetProjectBySlug tid slug = q_one (\<lambda>s. filter (\<lambda>p. p_tenant p = tid \<and> p_slug p = slug \<and> live_project p) (projects s))"

definition SoftDeleteProject :: "nat \<Rightarrow> uuid \<Rightarrow> nat query" where
  "SoftDeleteProject tid u = (\<lambda>s.
     let P = (\<lambda>p. p_tenant p = tid \<and> p_uuid p = u \<and> live_project p) in
     (Inr (length (filter P (projects s))),
      s\<lparr>projects := updating P (\<lambda>p. p\<lparr>p_deleted := Some (db_now s)\<rparr>) (projects s)\<rparr>))"

text \<open>The slug of an environment is unique in its project whether or not the row is deleted.\<close>

definition uq_environments :: "environment list \<Rightarrow> bool" where
  "uq_environments es \<longleftrightarrow> distinct (map e_uuid es) \<and> distinct (map (\<lambda>e. (e_project e, e_slug e)) es)"

definition CreateEnvironmentRow ::
    "nat \<Rightarrow> string \<Rightarrow> string \<Rightarrow> string \<Rightarrow> int \<Rightarrow> string \<Rightarrow> environment query" where
  "CreateEnvironmentRow pid name slug description position status = (\<lambda>s.
     let e = \<lparr>e_id = seq s, e_uuid = uuid_at s (seq s), e_project = pid, e_name = name,
           e_slug = slug, e_description = description, e_position = position, e_status = status,
           e_deleted = None\<rparr>;
         es = environments s @ [e]
     in q_exec (if status \<notin> {''active'', ''suspended'', ''archived''} then Some (CheckViolation ''chk_environments_status'')
                else if \<not> uq_environments es then Some UniqueViolation
                else if pid \<notin> p_id ` set (projects s) then Some ForeignKeyViolation else None)
          (s\<lparr>environments := es, seq := Suc (seq s)\<rparr>) e s)"

definition GetEnvironmentBySlug :: "nat \<Rightarrow> string \<Rightarrow> nat \<Rightarrow> environment query" where
  "GetEnvironmentBySlug pid slug tid = q_one (\<lambda>s. filter (\<lambda>e. e_project e = pid \<and> e_slug e = slug
     \<and> live_env e \<and> (\<exists>p \<in> set (projects s). p_id p = e_project e \<and> p_tenant p = tid \<and> live_project p))
     (environments s))"

definition SoftDeleteEnvironment :: "uuid \<Rightarrow> nat \<Rightarrow> nat query" where
  "SoftDeleteEnvironment u tid = (\<lambda>s.
     let P = (\<lambda>e. e_uuid e = u \<and> live_env e
           \<and> (\<exists>p \<in> set (projects s). p_id p = e_project e \<and> p_tenant p = tid \<and> live_project p)) in
     (Inr (length (filter P (environments s))),
      s\<lparr>environments := updating P (\<lambda>e. e\<lparr>e_deleted := Some (db_now s)\<rparr>) (environments s)\<rparr>))"

subsection \<open>Folders\<close>

definition uq_folders :: "folder list \<Rightarrow> bool" where
  "uq_folders fs \<longleftrightarrow> distinct (map f_uuid fs)
     \<and> distinct (map (\<lambda>f. (f_env f, f_path f)) (filter live_folder fs))
     \<and> distinct (map f_env (filter (\<lambda>f. f_parent f = None \<and> live_folder f) fs))
     \<and> distinct (map (\<lambda>f. (f_parent f, f_name f)) (filter (\<lambda>f. f_parent f \<noteq> None \<and> live_folder f) fs))"

definition chk_folder :: "folder \<Rightarrow> dberr option" where
  "chk_folder f =
     (if \<not> chk_folders_path_absolute (f_path f) then Some (CheckViolation ''chk_folders_path_absolute'')
      else if (f_parent f = None) \<noteq> (f_path f = ''/'') then Some (CheckViolation ''chk_folders_root_shape'')
      else None)"

definition folders_error :: "folder list \<Rightarrow> dberr option" where
  "folders_error fs =
     (case first_error chk_folder fs of
        Some e \<Rightarrow> Some e
      | None \<Rightarrow> if \<not> uq_folders fs then Some UniqueViolation else None)"

definition CreateFolderRow :: "nat \<Rightarrow> nat option \<Rightarrow> string \<Rightarrow> string \<Rightarrow> folder query" where
  "CreateFolderRow eid parent name path = (\<lambda>s.
     let f = \<lparr>f_id = seq s, f_uuid = uuid_at s (seq s), f_env = eid, f_parent = parent,
           f_name = name, f_path = path, f_deleted = None\<rparr>;
         fs = folders s @ [f]
     in q_exec (case folders_error fs of
            Some e \<Rightarrow> Some e
          | None \<Rightarrow> if eid \<notin> e_id ` set (environments s) then Some ForeignKeyViolation else None)
          (s\<lparr>folders := fs, seq := Suc (seq s)\<rparr>) f s)"

definition GetFolderByID :: "nat \<Rightarrow> nat \<Rightarrow> folder query" where
  "GetFolderByID fid tid = q_one (\<lambda>s. filter (\<lambda>f. f_id f = fid \<and> live_folder f
     \<and> f_env f \<in> set (tenant_env_ids tid s)) (folders s))"

definition GetFolderByPath :: "nat \<Rightarrow> string \<Rightarrow> nat \<Rightarrow> folder query" where
  "GetFolderByPath eid path tid = q_one (\<lambda>s. filter (\<lambda>f. f_env f = eid \<and> f_path f = path
     \<and> live_folder f \<and> f_env f \<in> set (tenant_env_ids tid s)) (folders s))"

text \<open>The subtree condition on a row: its path equals the argument or matches the pattern.\<close>

definition path_matches :: "string \<Rightarrow> string \<Rightarrow> string \<Rightarrow> bool" where
  "path_matches path pattern p \<longleftrightarrow> p = path \<or> sql_like pattern p"

definition ReparentFolder :: "nat \<Rightarrow> string \<Rightarrow> string \<Rightarrow> nat \<Rightarrow> folder query" where
  "ReparentFolder parent name path fid = (\<lambda>s.
     let P = (\<lambda>f. f_id f = fid \<and> live_folder f);
         fs = updating P (\<lambda>f. f\<lparr>f_parent := Some parent, f_name := name, f_path := path\<rparr>) (folders s)
     in (case filter (\<lambda>f. f_id f = fid \<and> live_folder f) fs of
          [] \<Rightarrow> (Inl NoRows, s)
        | r # _ \<Rightarrow> q_exec (folders_error fs) (s\<lparr>folders := fs\<rparr>) r s))"

definition MoveFolderSubtreePaths :: "string \<Rightarrow> string \<Rightarrow> nat \<Rightarrow> string \<Rightarrow> nat query" where
  "MoveFolderSubtreePaths new old eid oldPattern = (\<lambda>s.
     let P = (\<lambda>f. f_env f = eid \<and> path_matches old oldPattern (f_path f) \<and> live_folder f);
         fs = updating P (\<lambda>f. f\<lparr>f_path := new @ drop (length old) (f_path f)\<rparr>) (folders s)
     in q_exec (folders_error fs) (s\<lparr>folders := fs\<rparr>) (length (filter P (folders s))) s)"

definition SoftDeleteFolderSubtree :: "nat \<Rightarrow> string \<Rightarrow> string \<Rightarrow> nat query" where
  "SoftDeleteFolderSubtree eid path pattern = (\<lambda>s.
     let P = (\<lambda>f. f_env f = eid \<and> path_matches path pattern (f_path f) \<and> live_folder f) in
     (Inr (length (filter P (folders s))),
      s\<lparr>folders := updating P (\<lambda>f. f\<lparr>f_deleted := Some (db_now s)\<rparr>) (folders s)\<rparr>))"

subsection \<open>Secrets\<close>

definition uq_secrets :: "secret list \<Rightarrow> bool" where
  "uq_secrets ss \<longleftrightarrow> distinct (map s_uuid ss)
     \<and> distinct (map (\<lambda>r. (s_env r, s_folder r, s_key r)) (filter live_secret ss))"

text \<open>The CHECK constraints of the lease policy columns.\<close>

definition chk_lease :: "int option \<Rightarrow> int option \<Rightarrow> int option \<Rightarrow> dberr option" where
  "chk_lease ttl maxTtl reads =
     (if (case ttl of None \<Rightarrow> False | Some k \<Rightarrow> k < 1) then Some (CheckViolation ''chk_secrets_lease_ttl'')
      else if (case reads of None \<Rightarrow> False | Some k \<Rightarrow> k < 1) then Some (CheckViolation ''chk_secrets_lease_max_reads'')
      else if (case maxTtl of None \<Rightarrow> False
          | Some m \<Rightarrow> (case ttl of None \<Rightarrow> True | Some k \<Rightarrow> m < k))
        then Some (CheckViolation ''chk_secrets_lease_max_ttl'')
      else if reads \<noteq> None \<and> ttl = None then Some (CheckViolation ''chk_secrets_lease_reads_need_ttl'')
      else None)"

lemma chk_lease_none [simp]: "chk_lease None None None = None"
  by (simp add: chk_lease_def)

definition chk_secret :: "secret \<Rightarrow> dberr option" where
  "chk_secret r =
     (if s_current r < 0 then Some (CheckViolation ''chk_secrets_current_version'')
      else if (case s_keep r of None \<Rightarrow> False | Some k \<Rightarrow> k < 1)
        then Some (CheckViolation ''chk_secrets_keep_versions'')
      else if s_destroy r \<noteq> None \<and> s_deleted r = None
        then Some (CheckViolation ''chk_secrets_destroy_after'')
      else chk_lease (s_lease_ttl r) (s_lease_max r) (s_lease_reads r))"

definition secrets_error :: "secret list \<Rightarrow> dberr option" where
  "secrets_error ss =
     (case first_error chk_secret ss of
        Some e \<Rightarrow> Some e
      | None \<Rightarrow> if \<not> uq_secrets ss then Some UniqueViolation else None)"

definition CreateSecretRow ::
    "nat \<Rightarrow> nat \<Rightarrow> nat \<Rightarrow> nat \<Rightarrow> string \<Rightarrow> string \<Rightarrow> string \<Rightarrow> string \<Rightarrow> string \<Rightarrow> string \<Rightarrow>
     string list \<Rightarrow> int option \<Rightarrow> object \<Rightarrow> instant option \<Rightarrow> secret query" where
  "CreateSecretRow tid pid eid fid msvc mten mproj mpath key description tags keep rotation expires = (\<lambda>s.
     let r = \<lparr>s_id = seq s, s_uuid = uuid_at s (seq s), s_tenant = tid, s_project = pid, s_env = eid,
           s_folder = fid, s_mrn_service = msvc, s_mrn_tenant = mten, s_mrn_project = mproj,
           s_mrn_path = mpath, s_key = key, s_description = description, s_tags = tags,
           s_current = 0, s_keep = keep, s_rotation = rotation, s_rotated = None,
           s_expires = expires, s_lease_ttl = None, s_lease_max = None, s_lease_reads = None,
           s_created = db_now s, s_deleted = None, s_destroy = None\<rparr>;
         ss = secrets s @ [r]
     in q_exec (case secrets_error ss of
            Some e \<Rightarrow> Some e
          | None \<Rightarrow> if tid \<notin> t_id ` set (tenants s) \<or> pid \<notin> p_id ` set (projects s)
                \<or> eid \<notin> e_id ` set (environments s) \<or> fid \<notin> f_id ` set (folders s)
              then Some ForeignKeyViolation else None)
          (s\<lparr>secrets := ss, seq := Suc (seq s)\<rparr>) r s)"

definition at_address :: "nat \<Rightarrow> nat \<Rightarrow> nat \<Rightarrow> string \<Rightarrow> secret \<Rightarrow> bool" where
  "at_address tid eid fid key r \<longleftrightarrow>
     s_tenant r = tid \<and> s_env r = eid \<and> s_folder r = fid \<and> s_key r = key \<and> live_secret r"

definition GetSecretByAddress :: "nat \<Rightarrow> nat \<Rightarrow> nat \<Rightarrow> string \<Rightarrow> secret query" where
  "GetSecretByAddress tid eid fid key = q_one (\<lambda>s. filter (at_address tid eid fid key) (secrets s))"

text \<open>The row lock of the FOR UPDATE variant orders writers; on one computation it reads the same.\<close>

definition GetSecretByAddressForUpdate :: "nat \<Rightarrow> nat \<Rightarrow> nat \<Rightarrow> string \<Rightarrow> secret query" where
  "GetSecretByAddressForUpdate tid eid fid key = q_one (\<lambda>s. filter (at_address tid eid fid key) (secrets s))"

definition GetDeletedSecretByUUID :: "nat \<Rightarrow> uuid \<Rightarrow> secret query" where
  "GetDeletedSecretByUUID tid u = q_one (\<lambda>s. filter (\<lambda>r. s_tenant r = tid \<and> s_uuid r = u
     \<and> \<not> live_secret r) (secrets s))"

text \<open>An UPDATE ... RETURNING of the rows that satisfy a condition.\<close>

definition update_secrets :: "(secret \<Rightarrow> bool) \<Rightarrow> (secret \<Rightarrow> secret) \<Rightarrow> secret query" where
  "update_secrets P f = (\<lambda>s.
     let ss = updating P f (secrets s) in
     (case filter P (secrets s) of
        [] \<Rightarrow> (Inl NoRows, s)
      | r # _ \<Rightarrow> q_exec (secrets_error ss) (s\<lparr>secrets := ss\<rparr>) (f r) s))"

definition SetSecretCurrentVersion :: "int \<Rightarrow> bool \<Rightarrow> nat \<Rightarrow> nat \<Rightarrow> secret query" where
  "SetSecretCurrentVersion cv markRotated tid sid = (\<lambda>s. update_secrets
     (\<lambda>r. s_tenant r = tid \<and> s_id r = sid \<and> live_secret r \<and> s_current r < cv)
     (\<lambda>r. r\<lparr>s_current := cv, s_rotated := (if markRotated then Some (db_now s) else s_rotated r)\<rparr>) s)"

definition UpdateSecretMetaRow ::
    "string \<Rightarrow> string list \<Rightarrow> int option \<Rightarrow> object \<Rightarrow> instant option \<Rightarrow> nat \<Rightarrow> uuid \<Rightarrow> secret query" where
  "UpdateSecretMetaRow description tags keep rotation expires tid u = update_secrets
     (\<lambda>r. s_tenant r = tid \<and> s_uuid r = u \<and> live_secret r)
     (\<lambda>r. r\<lparr>s_description := description, s_tags := tags, s_keep := keep, s_rotation := rotation,
        s_expires := expires\<rparr>)"

definition SoftDeleteSecret :: "instant \<Rightarrow> nat \<Rightarrow> nat \<Rightarrow> secret query" where
  "SoftDeleteSecret destroyAfter tid sid = (\<lambda>s. update_secrets
     (\<lambda>r. s_tenant r = tid \<and> s_id r = sid \<and> live_secret r)
     (\<lambda>r. r\<lparr>s_deleted := Some (db_now s), s_destroy := Some destroyAfter\<rparr>) s)"

definition RestoreSecretRow :: "nat \<Rightarrow> uuid \<Rightarrow> secret query" where
  "RestoreSecretRow tid u = update_secrets
     (\<lambda>r. s_tenant r = tid \<and> s_uuid r = u \<and> \<not> live_secret r)
     (\<lambda>r. r\<lparr>s_deleted := None, s_destroy := None\<rparr>)"

definition SoftDeleteSecretsInFolderSubtree :: "instant \<Rightarrow> nat \<Rightarrow> nat \<Rightarrow> string \<Rightarrow> string \<Rightarrow> nat query" where
  "SoftDeleteSecretsInFolderSubtree destroyAfter tid eid path pattern = (\<lambda>s.
     let fids = map f_id (filter (\<lambda>f. f_env f = eid \<and> path_matches path pattern (f_path f)) (folders s));
         P = (\<lambda>r. s_tenant r = tid \<and> s_env r = eid \<and> live_secret r \<and> s_folder r \<in> set fids);
         ss = updating P (\<lambda>r. r\<lparr>s_deleted := Some (db_now s), s_destroy := Some destroyAfter\<rparr>) (secrets s)
     in (Inr (length (filter P (secrets s))), s\<lparr>secrets := ss\<rparr>))"

text \<open>The path expression of the MRN refresh, with the CASE of the SQL.\<close>

definition sql_mrn_path :: "string \<Rightarrow> string \<Rightarrow> string \<Rightarrow> string" where
  "sql_mrn_path slug path key =
     ''secret/'' @ slug @ (if path = ''/'' then ''/'' else path @ ''/'') @ key"

definition secret_join :: "db \<Rightarrow> secret \<Rightarrow> (folder \<times> environment) option" where
  "secret_join s r =
     (case find (\<lambda>f. f_id f = s_folder r) (folders s) of
        None \<Rightarrow> None
      | Some f \<Rightarrow> (case find (\<lambda>e. e_id e = s_env r) (environments s) of
          None \<Rightarrow> None | Some e \<Rightarrow> Some (f, e)))"

definition RefreshSecretMrnPathsInSubtree :: "nat \<Rightarrow> nat \<Rightarrow> string \<Rightarrow> string \<Rightarrow> nat query" where
  "RefreshSecretMrnPathsInSubtree tid eid path pattern = (\<lambda>s.
     let joined = secret_join s;
         P = (\<lambda>r. s_tenant r = tid \<and> s_env r = eid \<and> live_secret r \<and>
           (case joined r of None \<Rightarrow> False | Some (f, e) \<Rightarrow> path_matches path pattern (f_path f)));
         g = (\<lambda>r. case joined r of None \<Rightarrow> r
           | Some (f, e) \<Rightarrow> r\<lparr>s_mrn_path := sql_mrn_path (e_slug e) (f_path f) (s_key r)\<rparr>)
     in (Inr (length (filter P (secrets s))), s\<lparr>secrets := updating P g (secrets s)\<rparr>))"

subsection \<open>Secret versions and the immutability trigger\<close>

definition AllowSecretVersionDelete :: "string \<Rightarrow> unit query" where
  "AllowSecretVersionDelete reason = (\<lambda>s. (Inr (), s\<lparr>guc_delete := reason\<rparr>))"

definition AllowSecretVersionRewrap :: "unit query" where
  "AllowSecretVersionRewrap = (\<lambda>s. (Inr (), s\<lparr>guc_rewrap := ''rewrap''\<rparr>))"

text \<open>\<open>prevent_secret_version_mutation()\<close>, for an update of a row and for a delete.\<close>

definition trigger_update :: "db \<Rightarrow> version \<Rightarrow> version \<Rightarrow> dberr option" where
  "trigger_update s old new =
     (if guc_rewrap s \<noteq> ''rewrap''
        then Some (RaisedException ''secret_versions rows are immutable and cannot be updated'')
      else if v_id new \<noteq> v_id old \<or> v_secret new \<noteq> v_secret old \<or> v_version new \<noteq> v_version old
          \<or> v_ciphertext new \<noteq> v_ciphertext old \<or> v_nonce new \<noteq> v_nonce old
          \<or> v_type new \<noteq> v_type old \<or> v_checksum new \<noteq> v_checksum old
          \<or> v_created new \<noteq> v_created old
        then Some (RaisedException ''secret_versions rewrap may only change dek_wrapped, dek_nonce and kek_id'')
      else None)"

definition trigger_delete :: "db \<Rightarrow> dberr option" where
  "trigger_delete s =
     (if guc_delete s \<notin> {''retention'', ''secret_destroy'', ''tenant_delete''}
        then Some (RaisedException ''secret_versions rows are append-only'') else None)"

definition uq_versions :: "version list \<Rightarrow> bool" where
  "uq_versions vs \<longleftrightarrow> distinct (map (\<lambda>v. (v_secret v, v_version v)) vs)"

definition CreateSecretVersionRow ::
    "nat \<Rightarrow> int \<Rightarrow> bytes \<Rightarrow> bytes \<Rightarrow> bytes \<Rightarrow> bytes \<Rightarrow> string \<Rightarrow> string \<Rightarrow> bytes \<Rightarrow> version query" where
  "CreateSecretVersionRow sid ver ct nonce dek dekNonce kek vtype checksum = (\<lambda>s.
     let v = \<lparr>v_id = seq s, v_secret = sid, v_version = ver, v_ciphertext = ct, v_nonce = nonce,
           v_dek = dek, v_dek_nonce = dekNonce, v_kek = kek, v_type = vtype, v_checksum = checksum,
           v_created = db_now s\<rparr>;
         vs = versions s @ [v]
     in q_exec (if vtype \<notin> {''opaque'', ''json'', ''reference''} then Some (CheckViolation ''chk_secret_versions_value_type'')
                else if ver \<le> 0 then Some (CheckViolation ''chk_secret_versions_version'')
                else if \<not> uq_versions vs then Some UniqueViolation
                else if sid \<notin> s_id ` set (secrets s) \<or> kek \<notin> k_id ` set (root_keys s)
                  then Some ForeignKeyViolation else None)
          (s\<lparr>versions := vs, seq := Suc (seq s)\<rparr>) v s)"

definition versions_of :: "nat \<Rightarrow> db \<Rightarrow> version list" where
  "versions_of sid s = filter (\<lambda>v. v_secret v = sid) (versions s)"

definition versions_desc :: "nat \<Rightarrow> db \<Rightarrow> version list" where
  "versions_desc sid s = sort_key (\<lambda>v. - v_version v) (versions_of sid s)"

definition GetLatestSecretVersion :: "nat \<Rightarrow> version query" where
  "GetLatestSecretVersion sid = q_one (versions_desc sid)"

definition GetSecretVersionRow :: "nat \<Rightarrow> int \<Rightarrow> version query" where
  "GetSecretVersionRow sid ver = q_one (\<lambda>s. filter (\<lambda>v. v_version v = ver) (versions_of sid s))"

definition GetLatestVersionChecksum :: "nat \<Rightarrow> (int \<times> bytes) query" where
  "GetLatestVersionChecksum sid = q_one (\<lambda>s. map (\<lambda>v. (v_version v, v_checksum v)) (versions_desc sid s))"

definition CountSecretVersions :: "nat \<Rightarrow> nat query" where
  "CountSecretVersions sid = q_many (\<lambda>s. length (versions_of sid s))"

definition GetSecretVersionValueType :: "nat \<Rightarrow> int \<Rightarrow> string query" where
  "GetSecretVersionValueType sid ver = q_one (\<lambda>s. map v_type (filter (\<lambda>v. v_version v = ver) (versions_of sid s)))"

definition ListVersionWrapsByKEK :: "string \<Rightarrow> nat \<Rightarrow> (nat \<times> string \<times> bytes \<times> bytes) list query" where
  "ListVersionWrapsByKEK kek limit = q_many (\<lambda>s. take limit
     (map (\<lambda>v. (v_id v, v_kek v, v_dek v, v_dek_nonce v))
       (sort_key v_id (filter (\<lambda>v. v_kek v = kek) (versions s)))))"

definition CountVersionsByKEK :: "string \<Rightarrow> nat query" where
  "CountVersionsByKEK kek = q_many (\<lambda>s. length (filter (\<lambda>v. v_kek v = kek) (versions s)))"

definition RewrapSecretVersion :: "bytes \<Rightarrow> bytes \<Rightarrow> string \<Rightarrow> nat \<Rightarrow> string \<Rightarrow> nat query" where
  "RewrapSecretVersion dek dekNonce kek vid fromKek = (\<lambda>s.
     let P = (\<lambda>v. v_id v = vid \<and> v_kek v = fromKek);
         g = (\<lambda>v. v\<lparr>v_dek := dek, v_dek_nonce := dekNonce, v_kek := kek\<rparr>);
         vs = updating P g (versions s)
     in q_exec (case first_error (\<lambda>v. trigger_update s v (g v)) (filter P (versions s)) of
            Some e \<Rightarrow> Some e
          | None \<Rightarrow> if filter P (versions s) \<noteq> [] \<and> kek \<notin> k_id ` set (root_keys s)
              then Some ForeignKeyViolation else None)
          (s\<lparr>versions := vs\<rparr>) (length (filter P (versions s))) s)"

definition ListPrunableVersions :: "nat \<Rightarrow> int \<Rightarrow> int \<Rightarrow> (nat \<times> int) list query" where
  "ListPrunableVersions sid current keep = q_many (\<lambda>s.
     let kept = map v_version (take (nat keep) (versions_desc sid s)) in
     map (\<lambda>v. (v_id v, v_version v)) (sort_key v_version
       (filter (\<lambda>v. v_version v \<noteq> current \<and> v_version v \<notin> set kept) (versions_of sid s))))"

definition DeleteSecretVersion :: "nat \<Rightarrow> nat query" where
  "DeleteSecretVersion vid = (\<lambda>s.
     let hit = filter (\<lambda>v. v_id v = vid) (versions s) in
     q_exec (if hit \<noteq> [] then trigger_delete s else None)
       (s\<lparr>versions := filter (\<lambda>v. v_id v \<noteq> vid) (versions s)\<rparr>) (length hit) s)"

text \<open>
  The DELETE of a secret cascades into its versions, and the trigger fires for each of them. The
  foreign key of \<open>audit_log\<close> is ON DELETE SET NULL: for every audit row of the secret the database
  runs an UPDATE, which the trigger \<open>prevent_audit_log_mutation\<close> rejects.
\<close>

definition trigger_set_null :: "nat list \<Rightarrow> db \<Rightarrow> dberr option" where
  "trigger_set_null ids s =
     (if \<exists>a \<in> set (audit_log s). \<exists>i \<in> set ids. a_secret a = Some i
      then Some (RaisedException ''audit_log rows are immutable and cannot be updated'') else None)"

definition HardDeleteSecret :: "nat \<Rightarrow> uuid \<Rightarrow> nat query" where
  "HardDeleteSecret tid u = (\<lambda>s.
     let P = (\<lambda>r. s_tenant r = tid \<and> s_uuid r = u \<and> \<not> live_secret r
           \<and> (case s_destroy r of None \<Rightarrow> False | Some d \<Rightarrow> d \<le> db_now s));
         ids = map s_id (filter P (secrets s));
         hit = filter (\<lambda>v. v_secret v \<in> set ids) (versions s)
     in q_exec (case (if hit \<noteq> [] then trigger_delete s else None) of
            Some e \<Rightarrow> Some e | None \<Rightarrow> trigger_set_null ids s)
          (s\<lparr>secrets := filter (\<lambda>r. \<not> P r) (secrets s),
             versions := filter (\<lambda>v. v_secret v \<notin> set ids) (versions s),
             secret_leases := filter (\<lambda>l. l_secret l \<notin> set ids) (secret_leases s)\<rparr>)
          (length ids) s)"

subsection \<open>Root keys\<close>

definition uq_root_keys :: "root_key list \<Rightarrow> bool" where
  "uq_root_keys ks \<longleftrightarrow> length (filter (\<lambda>k. k_state k = ''active'') ks) \<le> 1"

definition MarkOtherRootKeysRetiring :: "string \<Rightarrow> nat query" where
  "MarkOtherRootKeysRetiring kek = (\<lambda>s.
     let P = (\<lambda>k. k_state k = ''active'' \<and> k_id k \<noteq> kek) in
     (Inr (length (filter P (root_keys s))),
      s\<lparr>root_keys := updating P (\<lambda>k. k\<lparr>k_state := ''retiring''\<rparr>) (root_keys s)\<rparr>))"

definition UpsertActiveRootKey :: "string \<Rightarrow> string \<Rightarrow> root_key query" where
  "UpsertActiveRootKey kek provider = (\<lambda>s.
     let fresh = \<lparr>k_id = kek, k_provider = provider, k_state = ''active'', k_created = db_now s,
           k_activated = Some (db_now s), k_retired = None\<rparr>;
         again = (\<lambda>k. k\<lparr>k_state := ''active'', k_provider := provider,
           k_activated := (case k_activated k of None \<Rightarrow> Some (db_now s) | Some t \<Rightarrow> Some t),
           k_retired := None\<rparr>);
         ks = (if kek \<in> k_id ` set (root_keys s)
               then updating (\<lambda>k. k_id k = kek) again (root_keys s) else root_keys s @ [fresh])
     in (case filter (\<lambda>k. k_id k = kek) ks of
          [] \<Rightarrow> (Inl NoRows, s)
        | r # _ \<Rightarrow> q_exec
            (if provider \<notin> {''env'', ''file'', ''aws_kms'', ''gcp_kms'', ''azure_kv'', ''ephemeral''}
               then Some (CheckViolation ''chk_root_keys_provider'')
             else if \<not> uq_root_keys ks then Some UniqueViolation else None)
            (s\<lparr>root_keys := ks\<rparr>) r s))"

definition GetRootKey :: "string \<Rightarrow> root_key query" where
  "GetRootKey kek = q_one (\<lambda>s. filter (\<lambda>k. k_id k = kek) (root_keys s))"

definition ListRootKeysByState :: "string \<Rightarrow> root_key list query" where
  "ListRootKeysByState st = q_many (\<lambda>s. sort_key k_created (filter (\<lambda>k. k_state k = st) (root_keys s)))"

definition RetireRootKeyRow :: "string \<Rightarrow> nat query" where
  "RetireRootKeyRow kek = (\<lambda>s.
     let P = (\<lambda>k. k_id k = kek \<and> k_state k \<noteq> ''active'') in
     (Inr (length (filter P (root_keys s))),
      s\<lparr>root_keys := updating P (\<lambda>k. k\<lparr>k_state := ''retired'', k_retired := Some (db_now s)\<rparr>) (root_keys s)\<rparr>))"

section \<open>Transactions\<close>

text \<open>
  \<open>PgRepository.InTx\<close>: the body runs against the transaction's view; an error rolls every effect
  back, success commits them. The GUCs are set with \<open>is_local\<close> and end with the transaction.
\<close>

definition InTx :: "(db, 'e, 'a) comp \<Rightarrow> (db, 'e, 'a) comp" where
  "InTx fn = (\<lambda>s.
     case fn (s\<lparr>guc_delete := [], guc_rewrap := [], guc_transit := []\<rparr>) of
       (Inl e, _) \<Rightarrow> (Inl e, s)
     | (Inr x, t) \<Rightarrow> (Inr x, t\<lparr>guc_delete := guc_delete s, guc_rewrap := guc_rewrap s, guc_transit := guc_transit s\<rparr>))"

lemma InTx_err: "InTx fn s = (Inl e, t) \<longleftrightarrow>
    t = s \<and> (\<exists>u. fn (s\<lparr>guc_delete := [], guc_rewrap := [], guc_transit := []\<rparr>) = (Inl e, u))"
  by (auto simp: InTx_def split: prod.splits sum.splits)

lemma InTx_ok: "InTx fn s = (Inr x, t) \<longleftrightarrow>
    (\<exists>u. fn (s\<lparr>guc_delete := [], guc_rewrap := [], guc_transit := []\<rparr>) = (Inr x, u)
       \<and> t = u\<lparr>guc_delete := guc_delete s, guc_rewrap := guc_rewrap s, guc_transit := guc_transit s\<rparr>)"
  by (auto simp: InTx_def split: prod.splits sum.splits)

section \<open>Running statements\<close>

lemma q_one_ok: "q_one f s = (Inr r, t) \<longleftrightarrow> t = s \<and> (\<exists>rs. f s = r # rs)"
  by (auto simp: q_one_def split: list.splits)

lemma q_one_err: "q_one f s = (Inl e, t) \<longleftrightarrow> t = s \<and> e = NoRows \<and> f s = []"
  by (auto simp: q_one_def split: list.splits)

lemma q_many_run: "q_many f s = (r, t) \<longleftrightarrow> r = Inr (f s) \<and> t = s"
  by (auto simp: q_many_def)

lemma q_exec_ok: "q_exec err s' r s = (Inr x, t) \<longleftrightarrow> err = None \<and> x = r \<and> t = s'"
  by (auto simp: q_exec_def split: option.splits)

lemma q_exec_err: "q_exec err s' r s = (Inl e, t) \<longleftrightarrow> err = Some e \<and> t = s"
  by (auto simp: q_exec_def split: option.splits)

lemmas q_ok = q_one_ok q_many_run q_exec_ok
lemmas q_err = q_one_err q_exec_err

lemma filter_Cons_in: "filter P xs = r # rs \<Longrightarrow> r \<in> set xs \<and> P r"
  by (metis (no_types, lifting) list.set_intros(1) mem_Collect_eq set_filter)

lemma updating_set: "x \<in> set (updating P f xs) \<longleftrightarrow> (\<exists>y \<in> set xs. x = (if P y then f y else y))"
  by (auto simp: updating_def)

lemma updating_map: "(\<And>x. x \<in> set xs \<Longrightarrow> P x \<Longrightarrow> g (f x) = g x) \<Longrightarrow> map g (updating P f xs) = map g xs"
  by (auto simp: updating_def)

lemma updating_none: "filter P xs = [] \<Longrightarrow> updating P f xs = xs"
  by (induction xs) (auto simp: updating_def split: if_splits)

lemma updating_length [simp]: "length (updating P f xs) = length xs"
  by (simp add: updating_def)

end
