(* ===== verification/Crypto.thy ===== *)
theory Crypto
  imports Storage
begin

text \<open>
  \<open>internal/crypto\<close>: root key providers (\<open>rootkey.go\<close>, \<open>provider_kms_azure.go\<close>), the envelope
  (\<open>envelope.go\<close>) and the key ring (\<open>keyring.go\<close>).

  AES-GCM is written as its mode: the AES-CTR key stream XORed into the text and a 16-byte tag
  over key, nonce, associated data and ciphertext. The key stream, the tag function and SHA-256
  are parameters (\<open>prims\<close>). A random draw is an argument, \<open>None\<close> where the generator fails. Memory
  zeroization is not modelled.
\<close>

unbundle bit_operations_syntax

section \<open>Primitives\<close>

record prims =
  key_stream :: "bytes \<Rightarrow> bytes \<Rightarrow> nat \<Rightarrow> 8 word"
  auth_tag :: "bytes \<Rightarrow> bytes \<Rightarrow> bytes \<Rightarrow> bytes \<Rightarrow> bytes"
  sha256 :: "bytes \<Rightarrow> bytes"

definition KeySize :: nat where "KeySize = 32"
definition NonceSize :: nat where "NonceSize = 12"

definition ctr_xor :: "prims \<Rightarrow> bytes \<Rightarrow> bytes \<Rightarrow> bytes \<Rightarrow> bytes" where
  "ctr_xor P key nonce t = map2 (\<lambda>i b. b XOR key_stream P key nonce i) [0..<length t] t"

definition gcm_tag :: "prims \<Rightarrow> bytes \<Rightarrow> bytes \<Rightarrow> bytes \<Rightarrow> bytes \<Rightarrow> bytes" where
  "gcm_tag P key nonce aad ct = take 16 (auth_tag P key nonce aad ct @ replicate 16 0)"

definition gcm_seal :: "prims \<Rightarrow> bytes \<Rightarrow> bytes \<Rightarrow> bytes \<Rightarrow> bytes \<Rightarrow> bytes" where
  "gcm_seal P key nonce pt aad = (let ct = ctr_xor P key nonce pt in ct @ gcm_tag P key nonce aad ct)"

definition gcm_open :: "prims \<Rightarrow> bytes \<Rightarrow> bytes \<Rightarrow> bytes \<Rightarrow> bytes \<Rightarrow> bytes option" where
  "gcm_open P key nonce box aad =
     (if length box < 16 then None
      else let ct = take (length box - 16) box in
        if drop (length box - 16) box = gcm_tag P key nonce aad ct
        then Some (ctr_xor P key nonce ct) else None)"

lemma ctr_xor_length [simp]: "length (ctr_xor P key nonce t) = length t"
  by (simp add: ctr_xor_def)

lemma ctr_xor_twice [simp]: "ctr_xor P key nonce (ctr_xor P key nonce t) = t"
proof (rule nth_equalityI)
  fix i
  assume "i < length (ctr_xor P key nonce (ctr_xor P key nonce t))"
  then show "ctr_xor P key nonce (ctr_xor P key nonce t) ! i = t ! i"
    by (simp add: ctr_xor_def xor.assoc)
qed simp

lemma gcm_tag_length [simp]: "length (gcm_tag P key nonce aad ct) = 16"
  by (simp add: gcm_tag_def)

lemma gcm_open_seal [simp]: "gcm_open P key nonce (gcm_seal P key nonce pt aad) aad = Some pt"
  by (simp add: gcm_open_def gcm_seal_def Let_def)

lemma gcm_open_other:
  "gcm_open P key nonce (gcm_seal P key nonce pt aad) aad' = None \<longleftrightarrow>
     gcm_tag P key nonce aad (ctr_xor P key nonce pt) \<noteq> gcm_tag P key nonce aad' (ctr_xor P key nonce pt)"
  by (simp add: gcm_open_def gcm_seal_def Let_def)

text \<open>\<open>io.ReadFull(rand.Reader, buf)\<close>: fills the buffer or fails, also on a short read.\<close>

definition ReadFull :: "nat \<Rightarrow> bytes option \<Rightarrow> bytes option" where
  "ReadFull n draw = (case draw of None \<Rightarrow> None | Some b \<Rightarrow> if length b < n then None else Some (take n b))"

lemma ReadFull_length: "ReadFull n d = Some b \<Longrightarrow> length b = n"
  by (auto simp: ReadFull_def split: option.splits if_splits)

section \<open>Root key providers\<close>

record provider =
  KeyID :: string
  Wrap :: "bytes option \<Rightarrow> bytes \<Rightarrow> crypto_error + bytes \<times> bytes"
  Unwrap :: "bytes \<Rightarrow> bytes \<Rightarrow> crypto_error + bytes"

definition ProviderOf :: "string \<Rightarrow> string" where
  "ProviderOf kekID = (let i = length (takeWhile (\<lambda>c. c \<noteq> CHR '':'') kekID) in
     if i < length kekID \<and> i > 0 then take i kekID else [])"

definition hex_digit :: "nat \<Rightarrow> char" where
  "hex_digit n = ''0123456789abcdef'' ! n"

definition hex_encode :: "bytes \<Rightarrow> string" where
  "hex_encode bs = concat (map (\<lambda>b. [hex_digit (unat b div 16), hex_digit (unat b mod 16)]) bs)"

definition fingerprint :: "prims \<Rightarrow> string \<Rightarrow> bytes \<Rightarrow> string" where
  "fingerprint P prov key =
     prov @ '':'' @ hex_encode (take 12 (sha256 P (bytes_of ''maintainerd-secret/kek-id/v1'' @ key)))"

definition dekWrapAAD :: "string \<Rightarrow> bytes" where
  "dekWrapAAD keyID = bytes_of (''maintainerd-secret/dek-wrap/v1|'' @ keyID)"

definition aesKEK_Wrap :: "prims \<Rightarrow> string \<Rightarrow> bytes \<Rightarrow> bytes option \<Rightarrow> bytes \<Rightarrow> crypto_error + bytes \<times> bytes" where
  "aesKEK_Wrap P keyID key draw dek =
     (if length dek \<noteq> KeySize then Inl (CryptoMsg ''dek must be 32 bytes'')
      else (case ReadFull NonceSize draw of
          None \<Rightarrow> Inl (CryptoMsg ''read wrap nonce'')
        | Some nonce \<Rightarrow> Inr (gcm_seal P key nonce dek (dekWrapAAD keyID), nonce)))"

definition aesKEK_Unwrap :: "prims \<Rightarrow> string \<Rightarrow> bytes \<Rightarrow> bytes \<Rightarrow> bytes \<Rightarrow> crypto_error + bytes" where
  "aesKEK_Unwrap P keyID key wrapped nonce =
     (if length nonce \<noteq> NonceSize then Inl (CryptoMsg ''wrap nonce must be 12 bytes'')
      else (case gcm_open P key nonce wrapped (dekWrapAAD keyID) of
          None \<Rightarrow> Inl (UnwrapAuthFailed keyID)
        | Some dek \<Rightarrow> if length dek \<noteq> KeySize then Inl (CryptoMsg ''unwrapped dek is not 32 bytes'')
            else Inr dek))"

definition aesKEK :: "prims \<Rightarrow> string \<Rightarrow> bytes \<Rightarrow> provider" where
  "aesKEK P prov key = (let keyID = fingerprint P prov key in
     \<lparr>KeyID = keyID, Wrap = aesKEK_Wrap P keyID key, Unwrap = aesKEK_Unwrap P keyID key\<rparr>)"

definition newAESKEK :: "prims \<Rightarrow> string \<Rightarrow> bytes \<Rightarrow> crypto_error + provider" where
  "newAESKEK P prov key =
     (if length key \<noteq> KeySize then Inl (CryptoMsg ''root key must be 32 bytes'')
      else Inr (aesKEK P prov key))"

text \<open>
  The Azure provider frames the binding into the wrapped plaintext, because RSA-OAEP has no
  associated data. The Key Vault operations are the SDK's and are parameters; the error of an
  unwrap says whether the vault answered 400, a blob that is not this key's.
\<close>

datatype vault_error = BadRequest | VaultError string

definition azureKV_Wrap ::
    "(bytes \<Rightarrow> vault_error + bytes) \<Rightarrow> string \<Rightarrow> bytes \<Rightarrow> crypto_error + bytes \<times> bytes" where
  "azureKV_Wrap wrapKey keyID dek =
     (if length dek \<noteq> KeySize then Inl (CryptoMsg ''dek must be 32 bytes'')
      else (case wrapKey (dekWrapAAD keyID @ dek) of
          Inl e \<Rightarrow> Inl (CryptoMsg ''azure_kv wrap dek'')
        | Inr blob \<Rightarrow> if blob = [] then Inl (CryptoMsg ''azure_kv returned an empty wrapped key'')
            else Inr (blob, [])))"

definition azureKV_Unwrap ::
    "(bytes \<Rightarrow> vault_error + bytes) \<Rightarrow> string \<Rightarrow> bytes \<Rightarrow> bytes \<Rightarrow> crypto_error + bytes" where
  "azureKV_Unwrap unwrapKey keyID wrapped nonce =
     (if nonce \<noteq> [] then Inl (CryptoMsg ''azure_kv takes no nonce'')
      else if wrapped = [] then Inl (CryptoMsg ''azure_kv cannot unwrap an empty blob'')
      else (case unwrapKey wrapped of
          Inl BadRequest \<Rightarrow> Inl (UnwrapAuthFailed keyID)
        | Inl (VaultError m) \<Rightarrow> Inl (CryptoMsg ''azure_kv unwrap dek'')
        | Inr frame \<Rightarrow>
            let binding = dekWrapAAD keyID in
            if length frame \<noteq> length binding + KeySize \<or> take (length binding) frame \<noteq> binding
            then Inl (UnwrapAuthFailed keyID)
            else Inr (drop (length binding) frame)))"

definition azureKV :: "(bytes \<Rightarrow> vault_error + bytes) \<Rightarrow> (bytes \<Rightarrow> vault_error + bytes) \<Rightarrow> string \<Rightarrow> provider" where
  "azureKV wrapKey unwrapKey keyID =
     \<lparr>KeyID = keyID, Wrap = (\<lambda>_. azureKV_Wrap wrapKey keyID),
      Unwrap = azureKV_Unwrap unwrapKey keyID\<rparr>"

section \<open>Envelopes\<close>

record identity =
  TenantUUID :: uuid
  SecretUUID :: uuid
  Version :: int

definition aadDomain :: string where "aadDomain = ''maintainerd-secret/aad/v1''"

definition be32 :: "int \<Rightarrow> bytes" where
  "be32 x = map (\<lambda>k. word_of_int (drop_bit k x)) [24, 16, 8, 0]"

definition AAD :: "identity \<Rightarrow> bytes" where
  "AAD ident = bytes_of aadDomain
     @ be32 (int (length (TenantUUID ident))) @ bytes_of (TenantUUID ident)
     @ be32 (int (length (SecretUUID ident))) @ bytes_of (SecretUUID ident)
     @ be32 (Version ident)"

record envelope =
  Ciphertext :: bytes
  Nonce :: bytes
  DEKWrapped :: bytes
  DEKNonce :: bytes
  KEKID :: string
  Checksum :: bytes

definition checksum :: "prims \<Rightarrow> bytes \<Rightarrow> bytes" where
  "checksum P pt = sha256 P pt"

record draws =
  d_dek :: "bytes option"
  d_nonce :: "bytes option"
  d_wrap :: "bytes option"

definition Seal :: "prims \<Rightarrow> provider option \<Rightarrow> identity \<Rightarrow> draws \<Rightarrow> bytes \<Rightarrow> crypto_error + envelope" where
  "Seal P prov ident rnd pt =
     (case prov of
        None \<Rightarrow> Inl (CryptoMsg ''no root key provider'')
      | Some p \<Rightarrow>
          if Version ident < 1 then Inl (CryptoMsg ''version must be at least 1'')
          else (case ReadFull KeySize (d_dek rnd) of
              None \<Rightarrow> Inl (CryptoMsg ''read random key'')
            | Some dek \<Rightarrow>
                (case ReadFull NonceSize (d_nonce rnd) of
                   None \<Rightarrow> Inl (CryptoMsg ''read payload nonce'')
                 | Some nonce \<Rightarrow>
                     let ct = gcm_seal P dek nonce pt (AAD ident) in
                     bindR (Wrap p (d_wrap rnd) dek) (\<lambda>(wrapped, wrapNonce).
                       Inr \<lparr>Ciphertext = ct, Nonce = nonce, DEKWrapped = wrapped,
                            DEKNonce = wrapNonce, KEKID = KeyID p, Checksum = checksum P pt\<rparr>))))"

definition Open :: "prims \<Rightarrow> provider option \<Rightarrow> identity \<Rightarrow> envelope \<Rightarrow> crypto_error + bytes" where
  "Open P prov ident env =
     (case prov of
        None \<Rightarrow> Inl (CryptoMsg ''no root key provider'')
      | Some p \<Rightarrow>
          if KEKID env \<noteq> [] \<and> KeyID p \<noteq> KEKID env
          then Inl (CryptoMsg ''version is wrapped under another root key'')
          else bindR (Unwrap p (DEKWrapped env) (DEKNonce env)) (\<lambda>dek.
            if length (Nonce env) \<noteq> NonceSize then Inl (CryptoMsg ''payload nonce must be 12 bytes'')
            else (case gcm_open P dek (Nonce env) (Ciphertext env) (AAD ident) of
                None \<Rightarrow> Inl (DecryptAuthFailed (Version ident) (SecretUUID ident))
              | Some pt \<Rightarrow>
                  if Checksum env \<noteq> [] \<and> checksum P pt \<noteq> Checksum env
                  then Inl (ChecksumMismatch (Version ident) (SecretUUID ident))
                  else Inr pt)))"

definition Rewrap :: "provider option \<Rightarrow> provider option \<Rightarrow> bytes option \<Rightarrow> bytes \<Rightarrow> bytes
    \<Rightarrow> crypto_error + bytes \<times> bytes" where
  "Rewrap from to draw wrapped nonce =
     (case (from, to) of
        (Some f, Some t) \<Rightarrow>
          if KeyID f = KeyID t then Inr (wrapped, nonce)
          else bindR (Unwrap f wrapped nonce) (\<lambda>dek. Wrap t draw dek)
      | _ \<Rightarrow> Inl (CryptoMsg ''rewrap needs both a source and a target root key provider''))"

section \<open>The key ring\<close>

record keyring =
  active :: provider
  byID :: "string \<rightharpoonup> provider"

definition NewKeyRing :: "provider option \<Rightarrow> provider option list \<Rightarrow> crypto_error + keyring" where
  "NewKeyRing act previous =
     (case act of
        None \<Rightarrow> Inl (CryptoMsg ''key ring needs an active root key'')
      | Some a \<Rightarrow> Inr \<lparr>active = a,
          byID = fold (\<lambda>q m. case q of None \<Rightarrow> m | Some p \<Rightarrow> m(KeyID p \<mapsto> p)) previous [KeyID a \<mapsto> a]\<rparr>)"

definition Active :: "keyring \<Rightarrow> provider" where
  "Active r = active r"

definition Provider :: "keyring \<Rightarrow> string \<Rightarrow> crypto_error + provider" where
  "Provider r kek = (case byID r kek of None \<Rightarrow> Inl (NoProviderFor kek) | Some p \<Rightarrow> Inr p)"

definition AddKey :: "keyring \<Rightarrow> provider option \<Rightarrow> keyring" where
  "AddKey r q = (case q of None \<Rightarrow> r | Some p \<Rightarrow> r\<lparr>byID := (byID r)(KeyID p \<mapsto> p)\<rparr>)"

section \<open>The contract of a root key provider\<close>

text \<open>
  What \<open>RootKeyProvider\<close> promises its callers: a DEK that was wrapped is recovered by the same
  provider, from the bytes and the nonce \<open>Wrap\<close> returned.
\<close>

locale root_key_provider =
  fixes p :: provider
  assumes unwrap_wrap: "Wrap p draw dek = Inr (wrapped, nonce) \<Longrightarrow> Unwrap p wrapped nonce = Inr dek"
begin

lemma open_seal:
  assumes "Seal P (Some p) ident rnd pt = Inr env"
  shows "Open P (Some p) ident env = Inr pt"
proof -
  obtain dek nonce w n where d: "ReadFull KeySize (d_dek rnd) = Some dek"
      "ReadFull NonceSize (d_nonce rnd) = Some nonce" "Wrap p (d_wrap rnd) dek = Inr (w, n)"
    and env: "env = \<lparr>Ciphertext = gcm_seal P dek nonce pt (AAD ident), Nonce = nonce,
        DEKWrapped = w, DEKNonce = n, KEKID = KeyID p, Checksum = checksum P pt\<rparr>"
    using assms by (auto simp: Seal_def Let_def split: option.splits if_splits)
  show ?thesis
    using unwrap_wrap [OF d(3)] ReadFull_length [OF d(2)] by (simp add: Open_def env bindR_def)
qed

text \<open>An envelope sealed for one identity, opened for another, fails unless the tags collide.\<close>

lemma open_other_identity:
  assumes seal: "Seal P (Some p) ident rnd pt = Inr env"
    and tags: "\<And>key. gcm_tag P key (Nonce env) (AAD ident) (take (length pt) (Ciphertext env))
        \<noteq> gcm_tag P key (Nonce env) (AAD other) (take (length pt) (Ciphertext env))"
  shows "Open P (Some p) other env = Inl (DecryptAuthFailed (Version other) (SecretUUID other))"
proof -
  obtain dek nonce w n where d: "ReadFull KeySize (d_dek rnd) = Some dek"
      "ReadFull NonceSize (d_nonce rnd) = Some nonce" "Wrap p (d_wrap rnd) dek = Inr (w, n)"
    and env: "env = \<lparr>Ciphertext = gcm_seal P dek nonce pt (AAD ident), Nonce = nonce,
        DEKWrapped = w, DEKNonce = n, KEKID = KeyID p, Checksum = checksum P pt\<rparr>"
    using seal by (auto simp: Seal_def Let_def split: option.splits if_splits)
  have "gcm_open P dek nonce (gcm_seal P dek nonce pt (AAD ident)) (AAD other) = None"
    using tags [of dek] unfolding gcm_open_other by (simp add: env gcm_seal_def Let_def)
  then show ?thesis
    using unwrap_wrap [OF d(3)] ReadFull_length [OF d(2)] by (simp add: Open_def env bindR_def)
qed

text \<open>Re-wrapping onto a lawful provider keeps the DEK, so the payload still opens.\<close>

lemma rewrap_recovers:
  assumes "Rewrap (Some f) (Some p) draw w n = Inr (w', n')" "KeyID f \<noteq> KeyID p"
    and "Unwrap f w n = Inr dek"
  shows "Unwrap p w' n' = Inr dek"
  using assms by (auto simp: Rewrap_def intro: unwrap_wrap)

lemma open_rewrapped:
  assumes "Rewrap (Some f) (Some p) draw (DEKWrapped env) (DEKNonce env) = Inr (w', n')"
    and "KeyID f \<noteq> KeyID p"
    and "Open P (Some f) ident env = Inr pt"
  shows "Open P (Some p) ident (env\<lparr>DEKWrapped := w', DEKNonce := n', KEKID := KeyID p\<rparr>) = Inr pt"
proof -
  from assms(3) obtain dek where dek: "Unwrap f (DEKWrapped env) (DEKNonce env) = Inr dek"
    by (auto simp: Open_def split: if_splits)
  have "Unwrap p w' n' = Inr dek" using rewrap_recovers [OF assms(1,2) dek] .
  with dek assms(3) show ?thesis by (auto simp: Open_def bindR_def split: if_splits option.splits)
qed

end

text \<open>The AES provider behind \<open>env\<close>, \<open>file\<close> and the ephemeral key keeps the contract.\<close>

interpretation aes: root_key_provider "aesKEK P prov key" for P prov key
  by unfold_locales
     (auto simp: aesKEK_def Let_def aesKEK_Wrap_def aesKEK_Unwrap_def ReadFull_length
        split: if_splits option.splits)

text \<open>
  The Azure provider keeps it where the vault does: \<open>UnwrapKey\<close> inverts \<open>WrapKey\<close>.
\<close>

lemma azureKV_contract:
  assumes "\<And>x blob. wrapKey x = Inr blob \<Longrightarrow> unwrapKey blob = Inr x"
  shows "root_key_provider (azureKV wrapKey unwrapKey keyID)"
proof
  fix draw dek wrapped nonce
  assume w: "Wrap (azureKV wrapKey unwrapKey keyID) draw dek = Inr (wrapped, nonce)"
  then have "length dek = KeySize" "wrapKey (dekWrapAAD keyID @ dek) = Inr wrapped" "wrapped \<noteq> []" "nonce = []"
    by (auto simp: azureKV_def azureKV_Wrap_def split: if_splits sum.splits)
  with assms show "Unwrap (azureKV wrapKey unwrapKey keyID) wrapped nonce = Inr dek"
    by (simp add: azureKV_def azureKV_Unwrap_def)
qed

section \<open>Properties\<close>

lemma word8_eq: "(word_of_int a :: 8 word) = word_of_int b \<longleftrightarrow> take_bit 8 a = take_bit 8 b"
  by (simp add: word_of_int_eq_iff)

lemma be32_eq: "be32 x = be32 y \<longleftrightarrow> take_bit 32 x = take_bit 32 y"
proof
  assume "be32 x = be32 y"
  then have b: "take_bit 8 (drop_bit k x) = take_bit 8 (drop_bit k y)" if "k \<in> {24, 16, 8, 0}" for k
    using that by (auto simp: be32_def word8_eq)
  have c: "bit x (k + n) = bit y (k + n)" if "n < 8" "k \<in> {24, 16, 8, 0}" for k n
    using b [OF that(2)] that(1) by (auto simp: bit_eq_iff bit_take_bit_iff bit_drop_bit_eq)
  show "take_bit 32 x = take_bit 32 y"
  proof (rule bit_eqI)
    fix n
    have "n < 32 \<Longrightarrow> bit x n = bit y n"
      using c [of "n - 24" 24] c [of "n - 16" 16] c [of "n - 8" 8] c [of n 0]
      by (cases "n < 8"; cases "n < 16"; cases "n < 24") auto
    then show "bit (take_bit 32 x) n = bit (take_bit 32 y) n" by (auto simp: bit_take_bit_iff)
  qed
next
  assume m: "take_bit 32 x = take_bit 32 y"
  have "take_bit 8 (drop_bit k x) = take_bit 8 (drop_bit k y)" if "k + 8 \<le> 32" for k
  proof -
    have "take_bit 8 (drop_bit k z) = take_bit 8 (drop_bit k (take_bit 32 z))" for z :: int
      using that by (simp add: drop_bit_take_bit)
    with m show ?thesis by metis
  qed
  from this [of 24] this [of 16] this [of 8] this [of 0]
  show "be32 x = be32 y" by (simp add: be32_def word8_eq)
qed

lemma int32_bits:
  assumes "- (2 ^ 31) \<le> (a::int)" "a < 2 ^ 31" "- (2 ^ 31) \<le> b" "b < 2 ^ 31" "take_bit 32 a = take_bit 32 b"
  shows "a = b"
proof (rule ccontr)
  assume "a \<noteq> b"
  have "2 ^ 32 dvd a - b" using assms(5) by (simp add: take_bit_eq_mod mod_eq_dvd_iff)
  with \<open>a \<noteq> b\<close> have "\<bar>2 ^ 32\<bar> \<le> \<bar>a - b\<bar>" by (intro dvd_imp_le_int) auto
  with assms(1-4) show False by simp
qed
lemma be32_length [simp]: "length (be32 x) = 4"
  by (simp add: be32_def)

definition identity_ok :: "identity \<Rightarrow> bool" where
  "identity_ok ident \<longleftrightarrow> length (TenantUUID ident) < 2 ^ 32 \<and> length (SecretUUID ident) < 2 ^ 32
     \<and> - (2 ^ 31) \<le> Version ident \<and> Version ident < 2 ^ 31"

text \<open>A length-prefixed field is read back, whatever follows it.\<close>

lemma field_inj:
  assumes "be32 (int (length s)) @ bytes_of s @ x = be32 (int (length t)) @ bytes_of t @ y"
    and "length s < 2 ^ 32" "length t < 2 ^ 32"
  shows "s = t \<and> x = y"
proof -
  have b: "be32 (int (length s)) = be32 (int (length t))" and r: "bytes_of s @ x = bytes_of t @ y"
    using assms(1) by (simp_all add: append_eq_append_conv)
  have "take_bit 32 (int (length s)) = int (length s)" "take_bit 32 (int (length t)) = int (length t)"
    using assms(2,3) by (simp_all add: take_bit_eq_mod)
  with b have "length s = length t" by (simp add: be32_eq)
  with r show ?thesis by (simp add: append_eq_append_conv)
qed

lemma AAD_inj:
  assumes "AAD a = AAD b" "identity_ok a" "identity_ok b"
  shows "a = b"
proof -
  have len: "length (TenantUUID a) < 2 ^ 32" "length (TenantUUID b) < 2 ^ 32"
      "length (SecretUUID a) < 2 ^ 32" "length (SecretUUID b) < 2 ^ 32"
    using assms(2,3) by (simp_all add: identity_ok_def)
  define rest where "rest c = be32 (int (length (SecretUUID c))) @ bytes_of (SecretUUID c) @ be32 (Version c)"
    for c :: identity
  have e: "be32 (int (length (TenantUUID a))) @ bytes_of (TenantUUID a) @ rest a
      = be32 (int (length (TenantUUID b))) @ bytes_of (TenantUUID b) @ rest b"
    using assms(1) unfolding AAD_def rest_def same_append_eq .
  have t: "TenantUUID a = TenantUUID b" using field_inj [OF e len(1,2)] by simp
  have r: "be32 (int (length (SecretUUID a))) @ bytes_of (SecretUUID a) @ be32 (Version a)
      = be32 (int (length (SecretUUID b))) @ bytes_of (SecretUUID b) @ be32 (Version b)"
    using field_inj [OF e len(1,2)] by (simp only: rest_def)
  have s: "SecretUUID a = SecretUUID b" and v: "be32 (Version a) = be32 (Version b)"
    using field_inj [OF r len(3,4)] by blast+
  have range: "- (2 ^ 31) \<le> Version a" "Version a < 2 ^ 31" "- (2 ^ 31) \<le> Version b" "Version b < 2 ^ 31"
    using assms(2,3) by (simp_all add: identity_ok_def)
  from v have "take_bit 32 (Version a) = take_bit 32 (Version b)" unfolding be32_eq .
  with range have "Version a = Version b" by (rule int32_bits)
  with t s show ?thesis by (intro identity.equality) simp_all
qed

text \<open>
  The associated data determines the identity: two identities (int32 versions, fields shorter
  than 4 GiB) with the same AAD bytes are equal, whatever characters the fields contain.
\<close>

theorem aad_injective:
  assumes "AAD a = AAD b" "identity_ok a" "identity_ok b"
  shows "a = b"
  using assms by (rule AAD_inj)

theorem aad_injective_witness:
  "AAD \<lparr>TenantUUID = ''a'', SecretUUID = ''bc'', Version = 1\<rparr>
     \<noteq> AAD \<lparr>TenantUUID = ''ab'', SecretUUID = ''c'', Version = 1\<rparr>"
proof
  assume eq: "AAD \<lparr>TenantUUID = ''a'', SecretUUID = ''bc'', Version = 1\<rparr>
     = AAD \<lparr>TenantUUID = ''ab'', SecretUUID = ''c'', Version = 1\<rparr>"
  show False using aad_injective [OF eq] by (simp add: identity_ok_def)
qed

text \<open>
  What an AES root key sealed it opens again: for the provider behind \<open>env\<close>, \<open>file\<close> and the
  ephemeral key, opening an envelope for the identity it was sealed for gives back the plaintext.
\<close>

theorem aes_open_seal:
  assumes "newAESKEK P prov key = Inr p" "Seal P (Some p) ident rnd pt = Inr env"
  shows "Open P (Some p) ident env = Inr pt"
proof -
  have "p = aesKEK P prov key" using assms(1) by (simp add: newAESKEK_def split: if_splits)
  then show ?thesis using assms(2) aes.open_seal by blast
qed

definition sample_prims :: prims where
  "sample_prims = \<lparr>key_stream = (\<lambda>k n i. of_nat i), auth_tag = (\<lambda>k n a c. rev a), sha256 = (\<lambda>b. take 32 (rev b @ replicate 32 0))\<rparr>"

definition sample_draws :: draws where
  "sample_draws = \<lparr>d_dek = Some (replicate 32 7), d_nonce = Some (replicate 12 1), d_wrap = Some (replicate 12 2)\<rparr>"

definition sample_ident :: identity where
  "sample_ident = \<lparr>TenantUUID = ''t'', SecretUUID = ''s'', Version = 1\<rparr>"

definition sample_env :: envelope where
  "sample_env = \<lparr>Ciphertext = gcm_seal sample_prims (replicate 32 7) (replicate 12 1) (bytes_of ''pw'') (AAD sample_ident),
     Nonce = replicate 12 1,
     DEKWrapped = gcm_seal sample_prims (replicate 32 9) (replicate 12 2) (replicate 32 7)
       (dekWrapAAD (fingerprint sample_prims ''env'' (replicate 32 9))),
     DEKNonce = replicate 12 2, KEKID = fingerprint sample_prims ''env'' (replicate 32 9),
     Checksum = checksum sample_prims (bytes_of ''pw'')\<rparr>"

lemma sample_seal:
  "Seal sample_prims (Some (aesKEK sample_prims ''env'' (replicate 32 9))) sample_ident sample_draws
     (bytes_of ''pw'') = Inr sample_env"
  by (simp add: Seal_def sample_draws_def sample_ident_def sample_env_def ReadFull_def KeySize_def NonceSize_def
      aesKEK_def aesKEK_Wrap_def bindR_def Let_def)

lemma sample_key: "newAESKEK sample_prims ''env'' (replicate 32 9)
    = Inr (aesKEK sample_prims ''env'' (replicate 32 9))"
  by (simp add: newAESKEK_def KeySize_def)

theorem aes_open_seal_witness:
  "Open sample_prims (Some (aesKEK sample_prims ''env'' (replicate 32 9))) sample_ident sample_env
     = Inr (bytes_of ''pw'')"
  by (rule aes_open_seal [OF sample_key sample_seal])

text \<open>
  A ciphertext copied into another row does not decrypt: an envelope sealed for one identity and
  opened for a different one fails authentication, given that the tag function does not
  collide on the two different associated data (the unforgeability GCM provides).
\<close>

theorem moved_ciphertext_rejected:
  assumes "newAESKEK P prov key = Inr p" "Seal P (Some p) ident rnd pt = Inr env"
    and "other \<noteq> ident" "identity_ok ident" "identity_ok other"
    and gcm: "\<And>k n a b c. a \<in> {AAD ident, AAD other} \<Longrightarrow> b \<in> {AAD ident, AAD other} \<Longrightarrow>
        a \<noteq> b \<Longrightarrow> gcm_tag P k n a c \<noteq> gcm_tag P k n b c"
  shows "Open P (Some p) other env = Inl (DecryptAuthFailed (Version other) (SecretUUID other))"
proof -
  have p: "p = aesKEK P prov key" using assms(1) by (simp add: newAESKEK_def split: if_splits)
  have "AAD ident \<noteq> AAD other" using AAD_inj [of ident other] assms(3-5) by blast
  then show ?thesis
    using assms(2) gcm unfolding p by (intro aes.open_other_identity) auto
qed

theorem moved_ciphertext_rejected_witness:
  "Open sample_prims (Some (aesKEK sample_prims ''env'' (replicate 32 9))) (sample_ident\<lparr>Version := 2\<rparr>) sample_env
     = Inl (DecryptAuthFailed 2 ''s'')"
proof -
  have a: "AAD sample_ident = bytes_of aadDomain @ [0,0,0,1] @ bytes_of ''t'' @ [0,0,0,1] @ bytes_of ''s'' @ [0,0,0,1]"
    and b: "AAD (sample_ident\<lparr>Version := 2\<rparr>)
      = bytes_of aadDomain @ [0,0,0,1] @ bytes_of ''t'' @ [0,0,0,1] @ bytes_of ''s'' @ [0,0,0,2]"
    by (simp_all add: AAD_def sample_ident_def be32_def)
  have "Open sample_prims (Some (aesKEK sample_prims ''env'' (replicate 32 9))) (sample_ident\<lparr>Version := 2\<rparr>) sample_env
     = Inl (DecryptAuthFailed (Version (sample_ident\<lparr>Version := 2\<rparr>)) (SecretUUID (sample_ident\<lparr>Version := 2\<rparr>)))"
    by (rule moved_ciphertext_rejected [OF sample_key sample_seal])
       (auto simp: sample_ident_def identity_ok_def gcm_tag_def sample_prims_def a [unfolded sample_ident_def]
          b [unfolded sample_ident_def, simplified])
  then show ?thesis by (simp add: sample_ident_def)
qed

end
