(* ===== verification/Scope.thy ===== *)
theory Scope
  imports Crypto
begin

text \<open>
  The service value and the scope and address resolution of \<open>internal/store/service.go\<close>:
  the policy and its clamping, \<open>resolveEnvironment\<close>, \<open>resolveAddress\<close>, \<open>ensureFolderPath\<close>, the
  paging and recovery-window helpers, and the rows-to-metadata conversions of \<open>models.go\<close>.
\<close>

section \<open>The service\<close>

record policy =
  KeepVersions :: int
  RecoveryWindow :: int
  RewrapBatch :: int
  DefaultTenant :: string
  DefaultProject :: string
  DefaultEnvironment :: string

record service =
  svc_prims :: prims
  svc_ring :: keyring
  svc_policy :: policy
  svc_now :: instant

definition NewService :: "prims \<Rightarrow> keyring option \<Rightarrow> policy \<Rightarrow> instant \<Rightarrow> string + service" where
  "NewService P ring pol now =
     (case ring of
        None \<Rightarrow> Inl ''store: key ring is required''
      | Some r \<Rightarrow>
          let pol1 = (if KeepVersions pol < 1 then pol\<lparr>KeepVersions := 1\<rparr> else pol);
              pol2 = (if RewrapBatch pol1 < 1 then pol1\<lparr>RewrapBatch := 100\<rparr> else pol1)
          in Inr \<lparr>svc_prims = P, svc_ring = r, svc_policy = pol2, svc_now = now\<rparr>)"

record secret_ref =
  r_tenant :: uuid
  r_project :: string
  r_environment :: string
  r_folder :: string
  r_key :: string

record scope =
  sc_tenant :: tenant
  sc_project :: project
  sc_env :: environment

record address =
  ad_scope :: scope
  ad_folder :: folder
  ad_key :: string

type_synonym 'a op = "(db, apperr, 'a) comp"

definition resolveEnvironment :: "uuid \<Rightarrow> string \<Rightarrow> string \<Rightarrow> scope op" where
  "resolveEnvironment tenantUUID project environment =
     bindM (mapErr (mapReadError ''tenant'') (GetTenantByUUID tenantUUID)) (\<lambda>tenant.
     bindM (mapErr (mapReadError ''project'') (GetProjectBySlug (t_id tenant) project)) (\<lambda>proj.
     bindM (mapErr (mapReadError ''environment'')
         (GetEnvironmentBySlug (p_id proj) environment (t_id tenant))) (\<lambda>env.
     ret \<lparr>sc_tenant = tenant, sc_project = proj, sc_env = env\<rparr>)))"

definition folder_at :: "scope \<Rightarrow> string \<Rightarrow> folder query" where
  "folder_at sc path = GetFolderByPath (e_id (sc_env sc)) path (t_id (sc_tenant sc))"

definition resolveAddress :: "secret_ref \<Rightarrow> address op" where
  "resolveAddress ref =
     bindM (liftR (checkKey (r_key ref))) (\<lambda>_.
     bindM (liftR (checkPath (r_folder ref))) (\<lambda>folderPath.
     bindM (resolveEnvironment (r_tenant ref) (r_project ref) (r_environment ref)) (\<lambda>sc.
     bindM (mapErr (mapReadError ''folder'') (folder_at sc folderPath)) (\<lambda>folder.
     ret \<lparr>ad_scope = sc, ad_folder = folder, ad_key = r_key ref\<rparr>))))"

text \<open>The loop of \<open>ensureFolderPath\<close>: one level at a time, reading or creating each folder.\<close>

fun ensure_segments :: "scope \<Rightarrow> string \<Rightarrow> folder \<Rightarrow> string list \<Rightarrow> folder op" where
  "ensure_segments sc built current [] = ret current"
| "ensure_segments sc built current (segment # rest) =
     (let built' = JoinPath built segment in
      bindM (tryM (folder_at sc built')) (\<lambda>r.
        case r of
          Inr existing \<Rightarrow> ensure_segments sc built' existing rest
        | Inl e \<Rightarrow>
            if e \<noteq> NoRows then fail (InternalError ''read folder'' (DbCause e))
            else bindM (mapErr (mapWriteError ''folder'' (''a folder already exists at '' @ built'))
                (CreateFolderRow (e_id (sc_env sc)) (Some (f_id current)) segment built')) (\<lambda>created.
              ensure_segments sc built' created rest)))"

definition ensureFolderPath :: "scope \<Rightarrow> string \<Rightarrow> folder op" where
  "ensureFolderPath sc normalized =
     bindM (mapErr (mapReadError ''environment root folder'') (folder_at sc ''/'')) (\<lambda>root.
       if normalized = ''/'' then ret root
       else ensure_segments sc [] root (splitSegments normalized))"

definition ad_identity :: "address \<Rightarrow> uuid \<Rightarrow> int \<Rightarrow> identity" where
  "ad_identity a secretUUID ver =
     \<lparr>TenantUUID = t_uuid (sc_tenant (ad_scope a)), SecretUUID = secretUUID, Version = ver\<rparr>"

definition ad_mrnResourcePath :: "address \<Rightarrow> string" where
  "ad_mrnResourcePath a = mrnResourcePath (e_slug (sc_env (ad_scope a))) (f_path (ad_folder a)) (ad_key a)"

definition destroyAfter :: "service \<Rightarrow> int option \<Rightarrow> instant" where
  "destroyAfter svc window =
     (let d = (case window of None \<Rightarrow> RecoveryWindow (svc_policy svc) | Some w \<Rightarrow> w);
          d' = (if d < 0 then 0 else d)
      in svc_now svc + d')"

definition normalizePage :: "int \<Rightarrow> int \<Rightarrow> int \<times> int" where
  "normalizePage page limit =
     (let page' = (if page < 1 then 1 else page);
          limit' = (if limit < 1 then 50 else limit);
          limit'' = (if limit' > 200 then 200 else limit')
      in (page', limit''))"

definition effectiveKeepVersions :: "service \<Rightarrow> secret \<Rightarrow> int" where
  "effectiveKeepVersions svc row =
     (let keep = (case s_keep row of None \<Rightarrow> KeepVersions (svc_policy svc) | Some k \<Rightarrow> k)
      in if keep < 1 then 1 else keep)"

section \<open>Metadata\<close>

record secret_meta =
  m_uuid :: uuid
  m_folder :: string
  m_key :: string
  m_description :: string
  m_tags :: "string list"
  m_current :: int
  m_keep :: int
  m_rotation :: object
  m_type :: string
  m_mrn_path :: string
  m_mrn :: string
  m_rotated :: "instant option"
  m_expires :: "instant option"
  m_created :: instant

definition secretRowToMeta :: "secret \<Rightarrow> string \<Rightarrow> int \<Rightarrow> secret_meta" where
  "secretRowToMeta r folderPath defaultKeep =
     \<lparr>m_uuid = s_uuid r, m_folder = folderPath, m_key = s_key r, m_description = s_description r,
      m_tags = s_tags r, m_current = s_current r,
      m_keep = (case s_keep r of None \<Rightarrow> defaultKeep | Some k \<Rightarrow> k),
      m_rotation = s_rotation r, m_type = [], m_mrn_path = s_mrn_path r,
      m_mrn = mrn (s_mrn_tenant r) (s_mrn_project r) (s_mrn_path r),
      m_rotated = s_rotated r, m_expires = s_expires r, m_created = s_created r\<rparr>"

text \<open>\<open>valueTypeFor\<close> never fails the read: any error gives the empty string.\<close>

definition valueTypeFor :: "nat \<Rightarrow> int \<Rightarrow> string op" where
  "valueTypeFor sid ver =
     (if ver < 1 then ret []
      else bindM (tryM (GetSecretVersionValueType sid ver)) (\<lambda>r.
        ret (case r of Inl _ \<Rightarrow> [] | Inr t \<Rightarrow> t)))"

section \<open>Reads do not change the store\<close>

lemma pure_q_one [intro!, simp, pure_rules]: "pure_op (q_one f)"
  by (simp add: pure_op_def q_one_def)

lemma pure_q_many [intro!, simp, pure_rules]: "pure_op (q_many f)"
  by (simp add: pure_op_def q_many_def)

lemma pure_resolveEnvironment [intro!, simp, pure_rules]: "pure_op (resolveEnvironment t p e)"
  by (auto simp: resolveEnvironment_def GetTenantByUUID_def GetProjectBySlug_def GetEnvironmentBySlug_def)

lemma pure_folder_at [intro!, simp, pure_rules]: "pure_op (folder_at sc p)"
  by (simp add: folder_at_def GetFolderByPath_def)

lemma pure_resolveAddress [intro!, simp, pure_rules]: "pure_op (resolveAddress ref)"
  by (auto simp: resolveAddress_def)

lemma pure_valueTypeFor [intro!, simp, pure_rules]: "pure_op (valueTypeFor sid v)"
  by (auto simp: valueTypeFor_def GetSecretVersionValueType_def)

lemma valueTypeFor_run: "\<exists>vt. valueTypeFor sid v s = (Inr vt, s)"
proof (cases "GetSecretVersionValueType sid v s")
  case (Pair r t)
  then have "t = s" by (simp add: GetSecretVersionValueType_def q_one_def)
  with Pair show ?thesis by (simp add: valueTypeFor_def ret_def bindM_def tryM_def)
qed

text \<open>What a resolved scope is: live rows of the caller's tenant.\<close>

definition scope_in :: "db \<Rightarrow> scope \<Rightarrow> bool" where
  "scope_in s sc \<longleftrightarrow> sc_tenant sc \<in> set (tenants s) \<and> live_tenant (sc_tenant sc)
     \<and> sc_project sc \<in> set (projects s) \<and> live_project (sc_project sc)
     \<and> p_tenant (sc_project sc) = t_id (sc_tenant sc)
     \<and> sc_env sc \<in> set (environments s) \<and> live_env (sc_env sc)
     \<and> e_project (sc_env sc) = p_id (sc_project sc)"

lemma resolveEnvironment_ok:
  assumes "resolveEnvironment tu pr en s = (Inr sc, t)"
  shows "t = s \<and> scope_in s sc \<and> t_uuid (sc_tenant sc) = tu \<and> p_slug (sc_project sc) = pr
     \<and> e_slug (sc_env sc) = en"
proof -
  have "t = s" using pure_opD [OF pure_resolveEnvironment assms] .
  moreover have "scope_in s sc \<and> t_uuid (sc_tenant sc) = tu \<and> p_slug (sc_project sc) = pr
     \<and> e_slug (sc_env sc) = en"
    using assms
    by (auto simp: resolveEnvironment_def run_ok q_ok GetTenantByUUID_def GetProjectBySlug_def
        GetEnvironmentBySlug_def scope_in_def dest!: filter_Cons_in)
  ultimately show ?thesis by simp
qed

lemma folder_at_ok:
  assumes "folder_at sc path s = (Inr f, t)"
  shows "t = s \<and> f \<in> set (folders s) \<and> live_folder f \<and> f_env f = e_id (sc_env sc) \<and> f_path f = path"
  using assms by (auto simp: folder_at_def GetFolderByPath_def q_ok dest!: filter_Cons_in)

lemma resolveAddress_ok:
  assumes "resolveAddress ref s = (Inr a, t)"
  shows "t = s \<and> scope_in s (ad_scope a) \<and> t_uuid (sc_tenant (ad_scope a)) = r_tenant ref
     \<and> ad_folder a \<in> set (folders s) \<and> live_folder (ad_folder a)
     \<and> f_env (ad_folder a) = e_id (sc_env (ad_scope a)) \<and> NormalizePath (r_folder ref) = Inr (f_path (ad_folder a))
     \<and> ad_key a = r_key ref \<and> ValidateKey (r_key ref) = None"
  using assms
  by (auto simp: resolveAddress_def run_ok dest!: resolveEnvironment_ok folder_at_ok)

end
