(* ===== verification/Secrets.thy ===== *)
theory Secrets
  imports Scope
begin

text \<open>
  \<open>internal/store/secrets.go\<close> with \<open>DescribeSecret\<close> and \<open>RollbackSecret\<close> of \<open>api_support.go\<close>: the
  write path, the single decrypt path, metadata, soft delete, restore, destruction and
  retention, each operation with every check and early return of the Go method, in its order.
\<close>

section \<open>Operations\<close>

record put_input =
  pi_ref :: secret_ref
  pi_value :: "bytes option"
  pi_type :: string
  pi_description :: string
  pi_tags :: "string list"
  pi_keep :: "int option"
  pi_rotation :: object
  pi_expires :: "instant option"
  pi_create_folders :: bool

record put_result =
  pr_uuid :: uuid
  pr_version :: int
  pr_created :: bool
  pr_unchanged :: bool
  pr_pruned :: nat

definition invalid :: "string \<Rightarrow> apperr" where
  "invalid m = ValidationError (Msg m)"

text \<open>\<open>pruneVersions\<close>\<close>

fun prune_loop :: "int \<Rightarrow> (nat \<times> int) list \<Rightarrow> nat \<Rightarrow> nat op" where
  "prune_loop current [] pruned = ret pruned"
| "prune_loop current ((vid, ver) # vs) pruned =
     (if ver = current then prune_loop current vs pruned
      else bindM (mapErr (\<lambda>e. InternalError ''prune secret version'' (DbCause e)) (DeleteSecretVersion vid))
        (\<lambda>n. prune_loop current vs (pruned + n)))"

definition pruneVersions :: "secret \<Rightarrow> int \<Rightarrow> nat op" where
  "pruneVersions row keep =
     bindM (mapErr (\<lambda>e. InternalError ''list prunable versions'' (DbCause e))
         (ListPrunableVersions (s_id row) (s_current row) keep)) (\<lambda>prunable.
       if prunable = [] then ret 0
       else bindM (mapErr (\<lambda>e. InternalError ''authorize version retention delete'' (DbCause e))
             (AllowSecretVersionDelete ''retention'')) (\<lambda>_.
           prune_loop (s_current row) prunable 0))"

text \<open>The second half of \<open>PutSecret\<close>'s transaction: seal, append, advance, prune.\<close>

definition put_append ::
    "service \<Rightarrow> draws \<Rightarrow> put_input \<Rightarrow> bytes \<Rightarrow> string \<Rightarrow> address \<Rightarrow> secret \<Rightarrow> bool \<Rightarrow> put_result op" where
  "put_append svc rnd inp val valueType addr row created =
     (let nextVersion = int32 (s_current row + 1);
          tid = t_id (sc_tenant (ad_scope addr))
      in bindM (liftR (mapL (\<lambda>e. InternalError ''seal secret version'' (CryptoCause e))
             (Seal (svc_prims svc) (Some (Active (svc_ring svc)))
               (ad_identity addr (s_uuid row) nextVersion) rnd val))) (\<lambda>env.
         bindM (mapErr (mapWriteError ''secret version'' ''version already exists'')
             (CreateSecretVersionRow (s_id row) nextVersion (Ciphertext env) (Nonce env) (DEKWrapped env)
               (DEKNonce env) (KEKID env) valueType (Checksum env))) (\<lambda>_.
         bindM (mapErr (mapReadError ''secret'')
             (SetSecretCurrentVersion nextVersion (nextVersion > 1) tid (s_id row))) (\<lambda>updated.
         bindM (pruneVersions updated (effectiveKeepVersions svc updated)) (\<lambda>pruned.
         ret \<lparr>pr_uuid = s_uuid updated, pr_version = nextVersion, pr_created = created,
              pr_unchanged = False, pr_pruned = pruned\<rparr>)))))"

definition put_tx :: "service \<Rightarrow> draws \<Rightarrow> put_input \<Rightarrow> bytes \<Rightarrow> string \<Rightarrow> string \<Rightarrow> put_result op" where
  "put_tx svc rnd inp val valueType folderPath =
     bindM (resolveEnvironment (r_tenant (pi_ref inp)) (r_project (pi_ref inp)) (r_environment (pi_ref inp))) (\<lambda>sc.
     bindM (if pi_create_folders inp then ensureFolderPath sc folderPath
            else mapErr (mapReadError ''folder'') (folder_at sc folderPath)) (\<lambda>folder.
     let key = r_key (pi_ref inp);
         addr = \<lparr>ad_scope = sc, ad_folder = folder, ad_key = key\<rparr>;
         tid = t_id (sc_tenant sc);
         eid = e_id (sc_env sc)
     in bindM (tryM (GetSecretByAddressForUpdate tid eid (f_id folder) key)) (\<lambda>found.
       case found of
         Inr row \<Rightarrow>
           bindM (tryM (GetLatestVersionChecksum (s_id row))) (\<lambda>latest.
             case latest of
               Inl e \<Rightarrow>
                 if e \<noteq> NoRows then fail (InternalError ''read current version checksum'' (DbCause e))
                 else put_append svc rnd inp val valueType addr row False
             | Inr (ver, stored) \<Rightarrow>
                 if stored \<noteq> [] \<and> stored = checksum (svc_prims svc) val
                 then ret \<lparr>pr_uuid = s_uuid row, pr_version = ver, pr_created = False,
                        pr_unchanged = True, pr_pruned = 0\<rparr>
                 else put_append svc rnd inp val valueType addr row False)
       | Inl NoRows \<Rightarrow>
           bindM (mapErr (mapWriteError ''secret'' (''secret '' @ key @ '' already exists at '' @ folderPath))
               (CreateSecretRow tid (p_id (sc_project sc)) eid (f_id folder) ''secret'' (t_name (sc_tenant sc))
                 (p_slug (sc_project sc)) (ad_mrnResourcePath addr) key (pi_description inp) (pi_tags inp)
                 (pi_keep inp) (pi_rotation inp) (pi_expires inp))) (\<lambda>row.
             put_append svc rnd inp val valueType addr row True)
       | Inl e \<Rightarrow> fail (InternalError ''read secret'' (DbCause e)))))"

definition PutSecret :: "service \<Rightarrow> draws \<Rightarrow> put_input \<Rightarrow> put_result op" where
  "PutSecret svc rnd inp =
     (let valueType = (if pi_type inp = [] then ''opaque'' else pi_type inp) in
      bindM (guardM (valueType \<in> {''opaque'', ''json'', ''reference''})
          (invalid ''value type must be one of opaque, json, reference'')) (\<lambda>_.
      (case pi_value inp of
         None \<Rightarrow> fail (invalid ''secret value is required'')
       | Some val \<Rightarrow>
           bindM (liftR (checkKey (r_key (pi_ref inp)))) (\<lambda>_.
           bindM (liftR (checkPath (r_folder (pi_ref inp)))) (\<lambda>folderPath.
           bindM (guardM (\<not> (case pi_keep inp of None \<Rightarrow> False | Some k \<Rightarrow> k < 1))
               (invalid ''keep_versions must be at least 1'')) (\<lambda>_.
           InTx (put_tx svc rnd inp val valueType folderPath)))))))"

record revealed =
  rv_meta :: secret_meta
  rv_version :: int
  rv_type :: string
  rv_value :: bytes

definition row_envelope :: "version \<Rightarrow> envelope" where
  "row_envelope v = \<lparr>Ciphertext = v_ciphertext v, Nonce = v_nonce v, DEKWrapped = v_dek v,
     DEKNonce = v_dek_nonce v, KEKID = v_kek v, Checksum = v_checksum v\<rparr>"

definition secret_at :: "address \<Rightarrow> secret op" where
  "secret_at a = mapErr (mapReadError ''secret'')
     (GetSecretByAddress (t_id (sc_tenant (ad_scope a))) (e_id (sc_env (ad_scope a))) (f_id (ad_folder a)) (ad_key a))"

text \<open>\<open>getVersion\<close>, the single decrypt path; version 0 is the latest.\<close>

definition getVersion :: "service \<Rightarrow> secret_ref \<Rightarrow> int \<Rightarrow> revealed op" where
  "getVersion svc ref ver =
     bindM (resolveAddress ref) (\<lambda>addr.
     bindM (secret_at addr) (\<lambda>row.
     bindM (mapErr (mapReadError ''secret version'')
         (if ver = 0 then GetLatestSecretVersion (s_id row) else GetSecretVersionRow (s_id row) ver)) (\<lambda>vrow.
     bindM (liftR (mapL UnavailableError (Provider (svc_ring svc) (v_kek vrow)))) (\<lambda>provider.
     bindM (liftR (mapL (\<lambda>e. InternalError ''decrypt secret version'' (CryptoCause e))
         (Open (svc_prims svc) (Some provider) (ad_identity addr (s_uuid row) (v_version vrow))
           (row_envelope vrow)))) (\<lambda>plaintext.
     ret \<lparr>rv_meta = (secretRowToMeta row (f_path (ad_folder addr)) (KeepVersions (svc_policy svc)))\<lparr>m_type := v_type vrow\<rparr>,
          rv_version = v_version vrow, rv_type = v_type vrow, rv_value = plaintext\<rparr>)))))"

definition GetSecret :: "service \<Rightarrow> secret_ref \<Rightarrow> revealed op" where
  "GetSecret svc ref = getVersion svc ref 0"

definition GetSecretVersion :: "service \<Rightarrow> secret_ref \<Rightarrow> int \<Rightarrow> revealed op" where
  "GetSecretVersion svc ref ver =
     (if ver < 1 then fail (invalid ''version must be at least 1'') else getVersion svc ref ver)"

definition DescribeSecret :: "service \<Rightarrow> secret_ref \<Rightarrow> secret_meta op" where
  "DescribeSecret svc ref =
     bindM (resolveAddress ref) (\<lambda>addr.
     bindM (secret_at addr) (\<lambda>row.
     bindM (valueTypeFor (s_id row) (s_current row)) (\<lambda>vt.
     ret ((secretRowToMeta row (f_path (ad_folder addr)) (KeepVersions (svc_policy svc)))\<lparr>m_type := vt\<rparr>))))"

definition RollbackSecret :: "service \<Rightarrow> draws \<Rightarrow> secret_ref \<Rightarrow> int \<Rightarrow> put_result op" where
  "RollbackSecret svc rnd ref ver =
     (if ver < 1 then fail (invalid ''version must be at least 1'')
      else bindM (getVersion svc ref ver) (\<lambda>revealed.
        if m_current (rv_meta revealed) = ver
        then ret \<lparr>pr_uuid = m_uuid (rv_meta revealed), pr_version = ver, pr_created = False,
               pr_unchanged = True, pr_pruned = 0\<rparr>
        else PutSecret svc rnd \<lparr>pi_ref = ref, pi_value = Some (rv_value revealed), pi_type = rv_type revealed,
               pi_description = [], pi_tags = [], pi_keep = None, pi_rotation = [], pi_expires = None,
               pi_create_folders = False\<rparr>))"

record meta_input =
  mi_ref :: secret_ref
  mi_description :: string
  mi_tags :: "string list"
  mi_keep :: "int option"
  mi_rotation :: object
  mi_expires :: "instant option"

definition UpdateSecretMeta :: "service \<Rightarrow> meta_input \<Rightarrow> secret_meta op" where
  "UpdateSecretMeta svc inp =
     bindM (guardM (\<not> (case mi_keep inp of None \<Rightarrow> False | Some k \<Rightarrow> k < 1))
         (invalid ''keep_versions must be at least 1'')) (\<lambda>_.
     bindM (resolveAddress (mi_ref inp)) (\<lambda>addr.
     bindM (secret_at addr) (\<lambda>row.
     bindM (mapErr (mapReadError ''secret'')
         (UpdateSecretMetaRow (mi_description inp) (mi_tags inp) (mi_keep inp) (mi_rotation inp)
           (mi_expires inp) (t_id (sc_tenant (ad_scope addr))) (s_uuid row))) (\<lambda>updated.
     bindM (valueTypeFor (s_id updated) (s_current updated)) (\<lambda>vt.
     ret ((secretRowToMeta updated (f_path (ad_folder addr)) (KeepVersions (svc_policy svc)))\<lparr>m_type := vt\<rparr>))))))"

record deleted_secret =
  ds_uuid :: uuid
  ds_folder :: string
  ds_key :: string
  ds_current :: int
  ds_deleted :: "instant option"
  ds_destroy :: "instant option"

definition DeleteSecret :: "service \<Rightarrow> secret_ref \<Rightarrow> int option \<Rightarrow> deleted_secret op" where
  "DeleteSecret svc ref window =
     bindM (resolveAddress ref) (\<lambda>addr.
     bindM (secret_at addr) (\<lambda>row.
     bindM (mapErr (mapReadError ''secret'')
         (SoftDeleteSecret (destroyAfter svc window) (t_id (sc_tenant (ad_scope addr))) (s_id row))) (\<lambda>del.
     ret \<lparr>ds_uuid = s_uuid del, ds_folder = f_path (ad_folder addr), ds_key = s_key del,
          ds_current = s_current del, ds_deleted = s_deleted del, ds_destroy = s_destroy del\<rparr>)))"

definition RestoreSecret :: "service \<Rightarrow> uuid \<Rightarrow> uuid \<Rightarrow> secret_meta op" where
  "RestoreSecret svc tenantUUID secretUUID =
     bindM (mapErr (mapReadError ''tenant'') (GetTenantByUUID tenantUUID)) (\<lambda>tenant.
     bindM (mapErr (mapWriteError ''secret''
         ''a live secret already exists at this path and key; move or delete it before restoring'')
         (RestoreSecretRow (t_id tenant) secretUUID)) (\<lambda>restored.
     bindM (mapErr (mapReadError ''folder'') (GetFolderByID (s_folder restored) (t_id tenant))) (\<lambda>folder.
     bindM (valueTypeFor (s_id restored) (s_current restored)) (\<lambda>vt.
     ret ((secretRowToMeta restored (f_path folder) (KeepVersions (svc_policy svc)))\<lparr>m_type := vt\<rparr>)))))"

definition DestroySecret :: "service \<Rightarrow> uuid \<Rightarrow> uuid \<Rightarrow> unit op" where
  "DestroySecret svc tenantUUID secretUUID =
     bindM (mapErr (mapReadError ''tenant'') (GetTenantByUUID tenantUUID)) (\<lambda>tenant.
     bindM (tryM (GetDeletedSecretByUUID (t_id tenant) secretUUID)) (\<lambda>r.
       case r of
         Inl e \<Rightarrow> if e = NoRows then fail (NotFoundError ''deleted secret'')
           else fail (InternalError ''read deleted secret'' (DbCause e))
       | Inr row \<Rightarrow>
           (case s_destroy row of
              None \<Rightarrow> fail (ForbiddenError ''secret has no scheduled destruction time and cannot be destroyed'')
            | Some d \<Rightarrow>
                if d > svc_now svc
                then fail (ForbiddenError ''secret is still inside its recovery window and cannot be destroyed yet'')
                else InTx (bindM (mapErr (\<lambda>e. InternalError ''authorize version destruction'' (DbCause e))
                       (AllowSecretVersionDelete ''secret_destroy'')) (\<lambda>_.
                     bindM (mapErr (\<lambda>e. InternalError ''destroy secret'' (DbCause e))
                       (HardDeleteSecret (t_id tenant) secretUUID)) (\<lambda>n.
                     if n = 0
                     then fail (ForbiddenError ''secret is still inside its recovery window and cannot be destroyed yet'')
                     else ret ()))))))"

definition PruneVersions :: "service \<Rightarrow> secret_ref \<Rightarrow> nat op" where
  "PruneVersions svc ref =
     bindM (resolveAddress ref) (\<lambda>addr.
     InTx (bindM (mapErr (mapReadError ''secret'')
         (GetSecretByAddressForUpdate (t_id (sc_tenant (ad_scope addr))) (e_id (sc_env (ad_scope addr)))
           (f_id (ad_folder addr)) (ad_key addr))) (\<lambda>row.
       pruneVersions row (effectiveKeepVersions svc row))))"

section \<open>Retention\<close>

definition newest :: "int \<Rightarrow> nat \<Rightarrow> db \<Rightarrow> version list" where
  "newest keep sid s = take (nat keep) (versions_desc sid s)"

text \<open>What retention leaves: other secrets' versions, the current one, and the newest \<open>keep\<close>.\<close>

definition kept_versions :: "secret \<Rightarrow> int \<Rightarrow> db \<Rightarrow> version list" where
  "kept_versions row keep s = filter (\<lambda>v. v_secret v = s_id row \<longrightarrow>
     v_version v = s_current row \<or> v_version v \<in> v_version ` set (newest keep (s_id row) s)) (versions s)"

lemma prune_loop_run:
  assumes "guc_delete s = ''retention''" "\<forall>(i, ver) \<in> set vs. ver \<noteq> current"
    and "distinct (map v_id (versions s))" "distinct (map fst vs)" "fst ` set vs \<subseteq> v_id ` set (versions s)"
  shows "prune_loop current vs k s =
    (Inr (k + length vs), s\<lparr>versions := filter (\<lambda>v. v_id v \<notin> fst ` set vs) (versions s)\<rparr>)"
  using assms
proof (induction vs arbitrary: s k)
  case Nil
  then show ?case by (simp add: ret_def)
next
  case (Cons p vs)
  obtain i ver where p: "p = (i, ver)" by (cases p)
  define u where "u = s\<lparr>versions := filter (\<lambda>v. v_id v \<noteq> i) (versions s)\<rparr>"
  have "\<exists>!v. v \<in> set (versions s) \<and> v_id v = i"
    using Cons.prems(3,5) p by (auto simp: distinct_map inj_on_def)
  then obtain v where v: "v \<in> set (versions s)" "v_id v = i" by blast
  have one: "length (filter (\<lambda>v. v_id v = i) (versions s)) = 1"
    using filter_unique [OF Cons.prems(3) v(1)] v(2) by simp
  then have ne: "filter (\<lambda>v. v_id v = i) (versions s) \<noteq> []" by (metis length_0_conv zero_neq_one)
  have del: "DeleteSecretVersion i s = (Inr 1, u)"
    using ne one Cons.prems(1)
    by (simp add: DeleteSecretVersion_def q_exec_def trigger_delete_def u_def Let_def)
  have "prune_loop current vs (k + 1) u =
    (Inr (k + 1 + length vs), u\<lparr>versions := filter (\<lambda>v. v_id v \<notin> fst ` set vs) (versions u)\<rparr>)"
  proof (rule Cons.IH)
    show "guc_delete u = ''retention''" using Cons.prems(1) by (simp add: u_def)
    show "\<forall>(i, ver) \<in> set vs. ver \<noteq> current" using Cons.prems(2) by simp
    show "distinct (map v_id (versions u))" using Cons.prems(3) by (simp add: u_def distinct_map_filter)
    show "distinct (map fst vs)" using Cons.prems(4) by simp
    show "fst ` set vs \<subseteq> v_id ` set (versions u)"
    proof
      fix j
      assume j: "j \<in> fst ` set vs"
      then have "j \<noteq> i" using Cons.prems(4) p by auto
      moreover have "j \<in> v_id ` set (versions s)" using j Cons.prems(5) by auto
      ultimately show "j \<in> v_id ` set (versions u)" by (auto simp: u_def)
    qed
  qed
  moreover have "ver \<noteq> current" using Cons.prems(2) p by auto
  ultimately show ?case
    using p by (simp add: bindM_def mapErr_def del u_def Let_def)
qed

lemma pruneVersions_run:
  assumes d: "distinct (map v_id (versions s))"
  shows "\<exists>g. pruneVersions row keep s =
    (Inr (length (versions s) - length (kept_versions row keep s)),
     s\<lparr>versions := kept_versions row keep s, guc_delete := g\<rparr>)"
proof -
  define out where "out v \<longleftrightarrow> v_secret v = s_id row \<and> v_version v \<noteq> s_current row
      \<and> v_version v \<notin> v_version ` set (newest keep (s_id row) s)" for v :: version
  define pr where "pr = map (\<lambda>v. (v_id v, v_version v)) (sort_key v_version (filter out (versions s)))"
  have fout: "filter (\<lambda>v. v_version v \<noteq> s_current row
      \<and> v_version v \<notin> v_version ` set (newest keep (s_id row) s)) (versions_of (s_id row) s)
      = filter out (versions s)"
    by (auto simp: versions_of_def out_def filter_filter intro: filter_cong)
  have list: "ListPrunableVersions (s_id row) (s_current row) keep s = (Inr pr, s)"
    using fout by (simp add: ListPrunableVersions_def q_many_def pr_def Let_def newest_def)
  have kept: "kept_versions row keep s = filter (\<lambda>v. \<not> out v) (versions s)"
    by (auto simp: kept_versions_def out_def intro: filter_cong)
  have lens: "length pr = length (versions s) - length (kept_versions row keep s)"
    using sum_length_filter_compl [of out "versions s"] by (simp add: pr_def kept)
  show ?thesis
  proof (cases "pr = []")
    case True
    then have "length (filter out (versions s)) = 0" by (metis pr_def length_map length_sort list.size(3))
    then have "filter out (versions s) = []" by simp
    then have "kept_versions row keep s = versions s" by (simp add: kept filter_empty_conv)
    then have "pruneVersions row keep s = (Inr 0, s)"
      by (simp add: pruneVersions_def bindM_def mapErr_def list True ret_def)
    with \<open>kept_versions row keep s = versions s\<close> show ?thesis
      by (intro exI [of _ "guc_delete s"]) simp
  next
    case False
    define u where "u = s\<lparr>guc_delete := ''retention''\<rparr>"
    have "prune_loop (s_current row) pr 0 u =
      (Inr (0 + length pr), u\<lparr>versions := filter (\<lambda>v. v_id v \<notin> fst ` set pr) (versions u)\<rparr>)"
    proof (rule prune_loop_run)
      show "\<forall>(i, ver) \<in> set pr. ver \<noteq> s_current row" by (auto simp: pr_def out_def)
      show "distinct (map fst pr)"
        using d by (simp add: pr_def o_def distinct_map_filter) (simp add: distinct_map inj_on_def)
      show "fst ` set pr \<subseteq> v_id ` set (versions u)" by (auto simp: pr_def u_def)
    qed (simp_all add: u_def d)
    moreover have "filter (\<lambda>v. v_id v \<notin> fst ` set pr) (versions s) = kept_versions row keep s"
    proof -
      have "v_id v \<in> fst ` set pr \<longleftrightarrow> out v" if "v \<in> set (versions s)" for v
        using distinct_map_eq [OF d] that by (auto simp: pr_def image_iff)
      then show ?thesis unfolding kept by (intro filter_cong) auto
    qed
    ultimately have "pruneVersions row keep s =
      (Inr (length pr), s\<lparr>versions := kept_versions row keep s, guc_delete := ''retention''\<rparr>)"
      using False by (simp add: pruneVersions_def bindM_def mapErr_def list AllowSecretVersionDelete_def u_def)
    then show ?thesis using lens by auto
  qed
qed

text \<open>The current version survives, the survivors are the newest, and at most \<open>keep\<close> remain.\<close>

lemma versions_desc_set [simp]: "set (versions_desc sid s) = {v \<in> set (versions s). v_secret v = sid}"
  by (auto simp: versions_desc_def versions_of_def)

lemma versions_desc_sorted: "sorted (map (\<lambda>v. - v_version v) (versions_desc sid s))"
  by (simp add: versions_desc_def)

lemma version_number_unique:
  assumes "uq_versions (versions s)" "v \<in> set (versions s)" "w \<in> set (versions s)"
    "v_secret v = v_secret w" "v_version v = v_version w"
  shows "v = w"
  using assms distinct_map_eq [of "\<lambda>v. (v_secret v, v_version v)" "versions s" v w]
  by (simp add: uq_versions_def)

lemma kept_versions_newest:
  assumes "v \<in> set (versions s)" "v \<notin> set (kept_versions row keep s)"
    and "w \<in> set (newest keep (s_id row) s)"
  shows "v_version v < v_version w"
proof -
  have v: "v_secret v = s_id row" "v_version v \<notin> v_version ` set (newest keep (s_id row) s)"
    using assms(1,2) by (auto simp: kept_versions_def)
  have "v \<in> set (versions_desc (s_id row) s)" using assms(1) v(1) by simp
  then have "v \<in> set (take (nat keep) (versions_desc (s_id row) s)) \<or> v \<in> set (drop (nat keep) (versions_desc (s_id row) s))"
    by (metis Un_iff append_take_drop_id set_append)
  with v(2) have "v \<in> set (drop (nat keep) (versions_desc (s_id row) s))" by (auto simp: newest_def)
  with assms(3) have "- v_version w \<le> - v_version v"
    using sorted_take_drop [OF versions_desc_sorted] unfolding newest_def by blast
  moreover have "v_version w \<noteq> v_version v" using v(2) assms(3) by (metis image_eqI)
  ultimately show ?thesis by simp
qed

section \<open>The invariant of the secret tables\<close>

text \<open>
  Ids and (secret, version) pairs are unique and the constraints of the table hold; every version
  belongs to a secret and is numbered from 1 to its \<open>current_version\<close>; a secret that has been
  written has its current version.
\<close>

definition version_ok :: "db \<Rightarrow> version \<Rightarrow> bool" where
  "version_ok s v \<longleftrightarrow> v_id v < seq s \<and> 1 \<le> v_version v
     \<and> (\<exists>r \<in> set (secrets s). s_id r = v_secret v \<and> v_version v \<le> s_current r)"

definition secret_ok :: "db \<Rightarrow> secret \<Rightarrow> bool" where
  "secret_ok s r \<longleftrightarrow> s_id r < seq s \<and> s_folder r < seq s \<and> s_current r < 2 ^ 31
     \<and> (s_current r = 0 \<or> (\<exists>v \<in> set (versions s). v_secret v = s_id r \<and> v_version v = s_current r))"

definition store_ok :: "db \<Rightarrow> bool" where
  "store_ok s \<longleftrightarrow> distinct (map s_id (secrets s)) \<and> secrets_error (secrets s) = None
     \<and> distinct (map v_id (versions s)) \<and> uq_versions (versions s)
     \<and> (\<forall>v \<in> set (versions s). version_ok s v) \<and> (\<forall>r \<in> set (secrets s). secret_ok s r)
     \<and> (\<forall>f \<in> set (folders s). f_id f < seq s) \<and> distinct (map f_id (folders s))"

lemma secrets_error_None:
  "secrets_error ss = None \<longleftrightarrow> (\<forall>r \<in> set ss. chk_secret r = None) \<and> uq_secrets ss"
proof (cases "first_error chk_secret ss")
  case None
  moreover have "\<forall>r \<in> set ss. chk_secret r = None" using None by simp
  ultimately show ?thesis by (simp add: secrets_error_def del: first_error_None)
next
  case (Some e)
  then have "\<not> (\<forall>r \<in> set ss. chk_secret r = None)" by (metis first_error_None option.distinct(1))
  with Some show ?thesis by (simp add: secrets_error_def)
qed

lemma store_okD:
  assumes "store_ok s"
  shows "distinct (map s_id (secrets s))" "secrets_error (secrets s) = None" "uq_secrets (secrets s)"
    "distinct (map v_id (versions s))" "uq_versions (versions s)"
    "v \<in> set (versions s) \<Longrightarrow> version_ok s v" "r \<in> set (secrets s) \<Longrightarrow> secret_ok s r"
    "f \<in> set (folders s) \<Longrightarrow> f_id f < seq s" "distinct (map f_id (folders s))"
  using assms by (simp_all add: store_ok_def secrets_error_None)

lemma current_nonneg: "store_ok s \<Longrightarrow> r \<in> set (secrets s) \<Longrightarrow> 0 \<le> s_current r"
  by (auto simp: store_ok_def secrets_error_None chk_secret_def dest!: bspec split: if_splits)

text \<open>The invariant speaks of the secrets, the versions, the folder ids and the sequence only.\<close>

lemma store_ok_cong:
  assumes "secrets t = secrets s" "versions t = versions s" "seq s \<le> seq t"
    and "\<forall>f \<in> set (folders t). f_id f < seq t" "distinct (map f_id (folders t))"
  shows "store_ok s \<Longrightarrow> store_ok t"
  using assms unfolding store_ok_def version_ok_def secret_ok_def by fastforce

lemma store_ok_gucs [simp]: "store_ok (s\<lparr>guc_delete := g, guc_rewrap := h, guc_transit := j\<rparr>) = store_ok s"
    "store_ok (s\<lparr>guc_delete := g\<rparr>) = store_ok s" "store_ok (s\<lparr>guc_rewrap := h\<rparr>) = store_ok s"
  by (simp_all add: store_ok_def version_ok_def secret_ok_def)

text \<open>The state a successful append leaves.\<close>

definition appended :: "db \<Rightarrow> secret \<Rightarrow> version \<Rightarrow> secret \<Rightarrow> int \<Rightarrow> string \<Rightarrow> db" where
  "appended s row v new keep g =
     s\<lparr>secrets := map (\<lambda>r. if s_id r = s_id row then new else r) (secrets s),
       versions := kept_versions new keep (s\<lparr>versions := versions s @ [v]\<rparr>),
       seq := Suc (seq s), guc_delete := g\<rparr>"

definition advanced :: "service \<Rightarrow> db \<Rightarrow> secret \<Rightarrow> secret" where
  "advanced svc s row = row\<lparr>s_current := s_current row + 1,
     s_rotated := (if s_current row + 1 > 1 then Some (db_now s) else s_rotated row)\<rparr>"

lemma advanced_fields [simp]:
  "s_id (advanced svc s row) = s_id row" "s_uuid (advanced svc s row) = s_uuid row"
  "s_tenant (advanced svc s row) = s_tenant row" "s_env (advanced svc s row) = s_env row"
  "s_folder (advanced svc s row) = s_folder row" "s_key (advanced svc s row) = s_key row"
  "s_deleted (advanced svc s row) = s_deleted row" "s_destroy (advanced svc s row) = s_destroy row"
  "s_current (advanced svc s row) = s_current row + 1" "s_keep (advanced svc s row) = s_keep row"
  "s_mrn_path (advanced svc s row) = s_mrn_path row"
  by (simp_all add: advanced_def)

lemma int32_step:
  assumes "0 \<le> x" "x < 2 ^ 31" "1 \<le> int32 (x + 1)"
  shows "int32 (x + 1) = x + 1 \<and> x + 1 < 2 ^ 31"
proof (cases "x + 1 < 2 ^ 31")
  case True
  then show ?thesis using assms int32_id [of "x + 1"] by simp
next
  case False
  with assms have "x + 1 = 2 ^ 31" by simp
  then have "int32 (x + 1) = - (2 ^ 31)" by (simp add: int32_def)
  with assms(3) show ?thesis by simp
qed

lemma kept_versions_cong: "versions s = versions t \<Longrightarrow> kept_versions r k s = kept_versions r k t"
  by (simp add: kept_versions_def newest_def versions_desc_def versions_of_def)

lemma put_append_ok:
  assumes run: "put_append svc rnd inp val vt addr row created s = (Inr res, t)"
    and ok: "store_ok s" and row: "row \<in> set (secrets s)"
    and tid: "s_tenant row = t_id (sc_tenant (ad_scope addr))" and live: "live_secret row"
  shows "\<exists>env v g. Seal (svc_prims svc) (Some (Active (svc_ring svc)))
        (ad_identity addr (s_uuid row) (s_current row + 1)) rnd val = Inr env
      \<and> row_envelope v = env \<and> v_secret v = s_id row \<and> v_version v = s_current row + 1 \<and> v_type v = vt
      \<and> v_id v = seq s \<and> v_kek v \<in> k_id ` set (root_keys s) \<and> s_current row + 1 < 2 ^ 31
      \<and> t = appended s row v (advanced svc s row) (effectiveKeepVersions svc (advanced svc s row)) g
      \<and> secrets_error (secrets t) = None
      \<and> pr_uuid res = s_uuid row \<and> pr_version res = s_current row + 1 \<and> pr_created res = created
      \<and> \<not> pr_unchanged res
      \<and> pr_pruned res = Suc (length (versions s)) - length (versions t)"
proof -
  define nv where "nv = int32 (s_current row + 1)"
  obtain env s1 vrow s2 updated n where
      seal: "Seal (svc_prims svc) (Some (Active (svc_ring svc))) (ad_identity addr (s_uuid row) nv) rnd val = Inr env"
    and cre: "CreateSecretVersionRow (s_id row) nv (Ciphertext env) (Nonce env) (DEKWrapped env)
        (DEKNonce env) (KEKID env) vt (Checksum env) s = (Inr vrow, s1)"
    and upd: "SetSecretCurrentVersion nv (nv > 1) (t_id (sc_tenant (ad_scope addr))) (s_id row) s1 = (Inr updated, s2)"
    and prn: "pruneVersions updated (effectiveKeepVersions svc updated) s2 = (Inr n, t)"
    and res: "res = \<lparr>pr_uuid = s_uuid updated, pr_version = nv, pr_created = created, pr_unchanged = False, pr_pruned = n\<rparr>"
    using run unfolding put_append_def nv_def [symmetric] Let_def by (auto simp: run_ok)
  have c0: "0 \<le> s_current row" "s_current row < 2 ^ 31"
    using current_nonneg [OF ok row] store_okD(7) [OF ok row] by (simp_all add: secret_ok_def)
  have "1 \<le> nv" using seal by (simp add: Seal_def ad_identity_def split: if_splits)
  then have nx: "nv = s_current row + 1" "s_current row + 1 < 2 ^ 31"
    using int32_step [OF c0] by (simp_all add: nv_def)
  define v where "v = \<lparr>v_id = seq s, v_secret = s_id row, v_version = nv, v_ciphertext = Ciphertext env,
      v_nonce = Nonce env, v_dek = DEKWrapped env, v_dek_nonce = DEKNonce env, v_kek = KEKID env, v_type = vt,
      v_checksum = Checksum env, v_created = db_now s\<rparr>"
  have s1: "s1 = s\<lparr>versions := versions s @ [v], seq := Suc (seq s)\<rparr>" "KEKID env \<in> k_id ` set (root_keys s)"
    using cre by (auto simp: CreateSecretVersionRow_def q_ok v_def Let_def split: if_splits)
  define P where "P r \<longleftrightarrow> s_tenant r = t_id (sc_tenant (ad_scope addr)) \<and> s_id r = s_id row \<and> live_secret r
      \<and> s_current r < nv" for r
  define f where "f r = r\<lparr>s_current := nv, s_rotated := (if nv > 1 then Some (db_now s) else s_rotated r)\<rparr>" for r :: secret
  have hit: "filter P (secrets s) = [row]"
    using store_okD(1) [OF ok] row tid live nx(1) by (intro filter_unique_sub [where k = s_id]) (auto simp: P_def)
  have fr: "f row = advanced svc s row" using nx(1) by (simp add: f_def advanced_def)
  have us: "updating P f (secrets s) = map (\<lambda>r. if s_id r = s_id row then advanced svc s row else r) (secrets s)"
  proof -
    have "(if P r then f r else r) = (if s_id r = s_id row then advanced svc s row else r)" if "r \<in> set (secrets s)" for r
      using that distinct_map_eq [OF store_okD(1) [OF ok] that row] tid live nx(1) fr by (auto simp: P_def)
    then show ?thesis by (simp add: updating_def)
  qed
  have P_eq: "(\<lambda>r. s_tenant r = t_id (sc_tenant (ad_scope addr)) \<and> s_id r = s_id row \<and> live_secret r \<and> s_current r < nv) = P"
    and f_eq: "(\<lambda>r. r\<lparr>s_current := nv, s_rotated := (if 1 < nv then Some (db_now s1) else s_rotated r)\<rparr>) = f"
    by (auto simp: P_def f_def s1 fun_eq_iff)
  have s2: "s2 = s1\<lparr>secrets := updating P f (secrets s)\<rparr>" "updated = f row"
      "secrets_error (updating P f (secrets s)) = None"
    using upd hit unfolding SetSecretCurrentVersion_def update_secrets_def P_eq f_eq
    by (auto simp: s1 q_ok Let_def f_def)
  have dv: "distinct (map v_id (versions s2))"
    using store_okD(4,6) [OF ok] by (force simp: s2 s1 v_def version_ok_def)
  obtain g where g: "pruneVersions updated (effectiveKeepVersions svc updated) s2 =
      (Inr (length (versions s2) - length (kept_versions updated (effectiveKeepVersions svc updated) s2)),
       s2\<lparr>versions := kept_versions updated (effectiveKeepVersions svc updated) s2, guc_delete := g\<rparr>)"
    using pruneVersions_run [OF dv] by blast
  have kc: "kept_versions r k s2 = kept_versions r k (s\<lparr>versions := versions s @ [v]\<rparr>)" for r k
    by (rule kept_versions_cong) (simp add: s2 s1)
  have t: "t = appended s row v (advanced svc s row) (effectiveKeepVersions svc (advanced svc s row)) g"
  proof -
    have "t = s2\<lparr>versions := kept_versions updated (effectiveKeepVersions svc updated) s2, guc_delete := g\<rparr>"
      using prn g by simp
    then have "t = s2\<lparr>versions := kept_versions (advanced svc s row)
        (effectiveKeepVersions svc (advanced svc s row)) (s\<lparr>versions := versions s @ [v]\<rparr>), guc_delete := g\<rparr>"
      unfolding kc s2(2) fr .
    then show ?thesis by (simp add: s2(1) s1 us appended_def)
  qed
  have n: "n = Suc (length (versions s)) - length (versions t)"
  proof -
    have "length (versions s2) = Suc (length (versions s))" by (simp add: s2 s1)
    with prn g show ?thesis by auto
  qed
  have "row_envelope v = env" by (simp add: row_envelope_def v_def)
  moreover have "secrets_error (secrets t) = None" using s2(3) by (simp add: t appended_def us)
  ultimately show ?thesis
    using seal nx s1(2) t res n fr s2(2)
    by (intro exI [of _ env] exI [of _ v] exI [of _ g]) (simp add: v_def)
qed

end
