(* ===== verification/SecretLaws.thy ===== *)
theory SecretLaws
  imports Secrets
begin

text \<open>
  What the operations on secrets promise: the invariant \<open>store_ok\<close> is kept by each, a value that was
  put is read back, retention bounds the history without touching what it keeps, delete and
  restore cancel, destruction waits for its window.
\<close>

section \<open>Rows at an address\<close>

lemma at_address_unique:
  assumes "store_ok s" "row \<in> set (secrets s)" "at_address tid eid fid key row"
  shows "filter (at_address tid eid fid key) (secrets s) = [row]"
proof -
  have u: "distinct (map (\<lambda>r. (s_env r, s_folder r, s_key r)) (filter live_secret (secrets s)))"
    using store_okD(3) [OF assms(1)] by (simp add: uq_secrets_def)
  have "filter (at_address tid eid fid key) (filter live_secret (secrets s)) = [row]"
    using assms(2,3) by (intro filter_unique_sub [OF u]) (auto simp: at_address_def)
  moreover have "filter (at_address tid eid fid key) (filter live_secret (secrets s))
      = filter (at_address tid eid fid key) (secrets s)"
    by (auto simp: filter_filter at_address_def intro: filter_cong)
  ultimately show ?thesis by simp
qed

lemma secret_at_ok:
  "secret_at a s = (Inr row, t) \<Longrightarrow> t = s \<and> row \<in> set (secrets s)
     \<and> at_address (t_id (sc_tenant (ad_scope a))) (e_id (sc_env (ad_scope a))) (f_id (ad_folder a)) (ad_key a) row"
  by (auto simp: secret_at_def run_ok GetSecretByAddress_def q_ok dest!: filter_Cons_in)

lemma secret_at_run:
  assumes "store_ok s" "row \<in> set (secrets s)"
    "at_address (t_id (sc_tenant (ad_scope a))) (e_id (sc_env (ad_scope a))) (f_id (ad_folder a)) (ad_key a) row"
  shows "secret_at a s = (Inr row, s)"
  using at_address_unique [OF assms] by (simp add: secret_at_def mapErr_def GetSecretByAddress_def q_one_def)

section \<open>Folder creation\<close>

text \<open>Two states that differ in freshly created folders only.\<close>

definition more_folders :: "db \<Rightarrow> db \<Rightarrow> bool" where
  "more_folders s t \<longleftrightarrow> (\<exists>new n. t = s\<lparr>folders := folders s @ new, seq := n\<rparr> \<and> seq s \<le> n
     \<and> distinct (map f_id new) \<and> (\<forall>f \<in> set new. seq s \<le> f_id f \<and> f_id f < n))"

lemma more_folders_refl [simp]: "more_folders s s"
  unfolding more_folders_def by (intro exI [of _ "[]"] exI [of _ "seq s"]) simp

lemma more_folders_same: "more_folders s t \<Longrightarrow> tenants t = tenants s \<and> projects t = projects s
    \<and> environments t = environments s \<and> secrets t = secrets s \<and> versions t = versions s
    \<and> root_keys t = root_keys s \<and> seq s \<le> seq t \<and> guc_delete t = guc_delete s \<and> guc_rewrap t = guc_rewrap s \<and> guc_transit t = guc_transit s
    \<and> db_now t = db_now s \<and> uuid_at t = uuid_at s"
  unfolding more_folders_def by auto

lemma more_folders_trans:
  assumes "more_folders s t" "more_folders t u"
  shows "more_folders s u"
proof -
  obtain m k where m: "t = s\<lparr>folders := folders s @ m, seq := k\<rparr>" "seq s \<le> k" "distinct (map f_id m)"
      "\<forall>f \<in> set m. seq s \<le> f_id f \<and> f_id f < k"
    using assms(1) unfolding more_folders_def by blast
  obtain n l where n: "u = t\<lparr>folders := folders t @ n, seq := l\<rparr>" "seq t \<le> l" "distinct (map f_id n)"
      "\<forall>f \<in> set n. seq t \<le> f_id f \<and> f_id f < l"
    using assms(2) unfolding more_folders_def by blast
  have "u = s\<lparr>folders := folders s @ m @ n, seq := l\<rparr>" by (simp add: n(1) m(1))
  moreover have "distinct (map f_id (m @ n))" using m n by fastforce
  moreover have "\<forall>f \<in> set (m @ n). seq s \<le> f_id f \<and> f_id f < l" using m n by fastforce
  moreover have "seq s \<le> l" using m(1,2) n(2) by simp
  ultimately show ?thesis unfolding more_folders_def by blast
qed

lemma more_folders_store_ok:
  assumes "more_folders s t" "store_ok s"
  shows "store_ok t"
proof -
  obtain m k where m: "t = s\<lparr>folders := folders s @ m, seq := k\<rparr>" "seq s \<le> k" "distinct (map f_id m)"
      "\<forall>f \<in> set m. seq s \<le> f_id f \<and> f_id f < k"
    using assms(1) unfolding more_folders_def by blast
  have old: "\<forall>f \<in> set (folders s). f_id f < seq s" "distinct (map f_id (folders s))"
    using assms(2) by (simp_all add: store_ok_def)
  show ?thesis
  proof (rule store_ok_cong [OF _ _ _ _ _ assms(2)])
    show "\<forall>f \<in> set (folders t). f_id f < seq t" using m old by fastforce
    show "distinct (map f_id (folders t))" using m old by fastforce
  qed (simp_all add: m)
qed

lemma CreateFolderRow_ok:
  "CreateFolderRow eid parent name path s = (Inr f, t) \<Longrightarrow>
     t = s\<lparr>folders := folders s @ [f], seq := Suc (seq s)\<rparr> \<and> f_id f = seq s \<and> f_path f = path \<and> f_env f = eid
     \<and> f_deleted f = None \<and> folders_error (folders t) = None"
  by (auto simp: CreateFolderRow_def q_ok Let_def split: option.splits if_splits)

lemma CreateFolderRow_more: "CreateFolderRow eid parent name path s = (Inr f, t) \<Longrightarrow> more_folders s t"
  unfolding more_folders_def
  by (drule CreateFolderRow_ok) (intro exI [of _ "[f]"] exI [of _ "Suc (seq s)"], simp)

text \<open>The folder a walk ends in is where its path says.\<close>

lemma scope_env_live: "scope_in s sc \<Longrightarrow> e_id (sc_env sc) \<in> set (tenant_env_ids (t_id (sc_tenant sc)) s)"
  unfolding scope_in_def tenant_env_ids_def by auto (metis (mono_tags, lifting) imageI mem_Collect_eq)

lemma tenant_env_ids_folders [simp]:
  "tenant_env_ids i (s\<lparr>folders := fs, seq := n\<rparr>) = tenant_env_ids i s"
  by (simp add: tenant_env_ids_def)

lemma scope_in_more: "more_folders s t \<Longrightarrow> scope_in s sc \<Longrightarrow> scope_in t sc"
  using more_folders_same [of s t] by (simp add: scope_in_def)

lemma folder_at_created:
  assumes none: "folder_at sc path s = (Inl NoRows, s)" and sc: "scope_in s sc"
    and new: "CreateFolderRow (e_id (sc_env sc)) parent name path s = (Inr f, t)"
  shows "folder_at sc path t = (Inr f, t)"
proof -
  have t: "t = s\<lparr>folders := folders s @ [f], seq := Suc (seq s)\<rparr>" "f_path f = path" "f_env f = e_id (sc_env sc)"
      "f_deleted f = None"
    using CreateFolderRow_ok [OF new] by auto
  have "filter (\<lambda>f. f_env f = e_id (sc_env sc) \<and> f_path f = path
     \<and> live_folder f \<and> f_env f \<in> set (tenant_env_ids (t_id (sc_tenant sc)) s)) (folders s) = []"
    using none by (auto simp: folder_at_def GetFolderByPath_def q_err)
  moreover have "e_id (sc_env sc) \<in> set (tenant_env_ids (t_id (sc_tenant sc)) s)" using sc by (rule scope_env_live)
  ultimately show ?thesis
    by (simp add: folder_at_def GetFolderByPath_def q_one_def t live_folder_def)
qed

lemma folder_at_run:
  "folder_at sc path s = (r, t) \<Longrightarrow> t = s" "folder_at sc path s = (Inl e, t) \<Longrightarrow> e = NoRows"
  by (auto simp: folder_at_def GetFolderByPath_def q_one_def split: list.splits)

lemma ensure_segments_ok:
  assumes "ensure_segments sc built cur segs s = (Inr f, t)" "scope_in s sc" "segs \<noteq> []"
    and "\<And>w. JoinPath built w = path_of (ws @ [w])" "segments_ok (ws @ segs)"
  shows "more_folders s t \<and> folder_at sc (path_of (ws @ segs)) t = (Inr f, t)"
  using assms
proof (induction segs arbitrary: built cur ws s)
  case (Cons seg rest)
  define b where "b = path_of (ws @ [seg])"
  have step: "\<exists>cur' u. more_folders s u \<and> folder_at sc b u = (Inr cur', u)
      \<and> ensure_segments sc b cur' rest u = (Inr f, t)"
  proof (cases "folder_at sc b s")
    case (Pair r u)
    have u: "u = s" using folder_at_run(1) [OF Pair] .
    show ?thesis
    proof (cases r)
      case (Inr g)
      then show ?thesis using Cons.prems(1) Pair
        by (intro exI [of _ g] exI [of _ s])
           (simp add: Cons.prems(4) b_def [symmetric] Let_def bindM_def tryM_def u)
    next
      case (Inl e)
      then have e: "e = NoRows" using folder_at_run(2) Pair by blast
      have "\<exists>g v. CreateFolderRow (e_id (sc_env sc)) (Some (f_id cur)) seg b s = (Inr g, v)
          \<and> ensure_segments sc b g rest v = (Inr f, t)"
        using Cons.prems(1) Pair Inl u e
        by (auto simp: Cons.prems(4) b_def [symmetric] Let_def bindM_def tryM_def mapErr_def
            split: prod.splits sum.splits)
      then obtain g v where g: "CreateFolderRow (e_id (sc_env sc)) (Some (f_id cur)) seg b s = (Inr g, v)"
          "ensure_segments sc b g rest v = (Inr f, t)" by blast
      have "folder_at sc b s = (Inl NoRows, s)" using Pair Inl u e by simp
      from folder_at_created [OF this Cons.prems(2) g(1)] CreateFolderRow_more [OF g(1)] g(2)
      show ?thesis by blast
    qed
  qed
  then obtain cur' u where u: "more_folders s u" "folder_at sc b u = (Inr cur', u)"
      "ensure_segments sc b cur' rest u = (Inr f, t)" by blast
  show ?case
  proof (cases "rest = []")
    case True
    with u show ?thesis by (simp add: b_def ret_run)
  next
    case False
    have "more_folders u t \<and> folder_at sc (path_of ((ws @ [seg]) @ rest)) t = (Inr f, t)"
    proof (rule Cons.IH [OF u(3) scope_in_more [OF u(1) Cons.prems(2)] False])
      show "JoinPath b w = path_of ((ws @ [seg]) @ [w])" for w
        using JoinPath_path_of [of "ws @ [seg]"] Cons.prems(5) by (simp add: b_def)
      show "segments_ok ((ws @ [seg]) @ rest)" using Cons.prems(5) by simp
    qed
    with u(1) show ?thesis using more_folders_trans by auto
  qed
qed simp

lemma ensureFolderPath_ok:
  assumes run: "ensureFolderPath sc path s = (Inr f, t)" and sc: "scope_in s sc" and path: "canonical path"
  shows "more_folders s t \<and> folder_at sc path t = (Inr f, t)"
proof -
  obtain ws where ws: "path = path_of ws" "segments_ok ws" using path by (auto simp: canonical_def)
  obtain root where root: "folder_at sc ''/'' s = (Inr root, s)"
    using run by (auto simp: ensureFolderPath_def run_ok dest: folder_at_run)
  show ?thesis
  proof (cases "ws = []")
    case True
    then show ?thesis using run root ws by (simp add: ensureFolderPath_def bindM_def mapErr_def ret_run)
  next
    case False
    then have "path \<noteq> ''/''" using ws path_of_root [OF ws(2)] by simp
    then have "ensure_segments sc [] root ws s = (Inr f, t)"
      using run root ws by (simp add: ensureFolderPath_def bindM_def mapErr_def)
    from ensure_segments_ok [OF this sc False, of "[]"] ws show ?thesis
      by (simp add: JoinPath_def path_of_snoc [of "[]", simplified])
  qed
qed

section \<open>Writing a secret\<close>

text \<open>What the folder step of a put gives, whether or not it may create folders.\<close>

lemma put_folder_ok:
  assumes "(if create then ensureFolderPath sc path
            else mapErr (mapReadError ''folder'') (folder_at sc path)) s = (Inr f, t)"
    and "scope_in s sc" "canonical path"
  shows "more_folders s t \<and> folder_at sc path t = (Inr f, t)"
proof (cases create)
  case True
  with assms show ?thesis using ensureFolderPath_ok by simp
next
  case False
  with assms(1) have "folder_at sc path s = (Inr f, t)" by (simp add: mapErr_ok)
  with folder_at_run(1) [OF this] show ?thesis by simp
qed

lemma CreateSecretRow_ok:
  assumes "CreateSecretRow tid pid eid fid msvc mten mproj mpath key description tags keep rotation expires s
      = (Inr r, t)"
  shows "t = s\<lparr>secrets := secrets s @ [r], seq := Suc (seq s)\<rparr> \<and> at_address tid eid fid key r \<and> s_id r = seq s
      \<and> s_current r = 0 \<and> s_folder r = fid \<and> s_keep r = keep \<and> s_mrn_path r = mpath
      \<and> secrets_error (secrets s @ [r]) = None \<and> fid \<in> f_id ` set (folders s)"
  using assms by (auto simp: CreateSecretRow_def q_ok Let_def at_address_def live_secret_def
      split: option.splits if_splits)

lemma CreateSecretRow_store_ok:
  assumes "CreateSecretRow tid pid eid fid msvc mten mproj mpath key description tags keep rotation expires s
      = (Inr r, t)" and ok: "store_ok s"
  shows "store_ok t"
proof -
  have t: "t = s\<lparr>secrets := secrets s @ [r], seq := Suc (seq s)\<rparr>" "s_id r = seq s" "s_current r = 0"
      "secrets_error (secrets s @ [r]) = None" "s_folder r \<in> f_id ` set (folders s)"
    using CreateSecretRow_ok [OF assms(1)] by auto
  have f: "s_folder r < Suc (seq s)" using t(5) store_okD(8) [OF ok] by (auto simp: less_Suc_eq)
  have ids: "seq s \<notin> s_id ` set (secrets s)" using store_okD(7) [OF ok] by (force simp: secret_ok_def)
  have old: "\<forall>x \<in> set (secrets s). secret_ok t x"
    using store_okD(7) [OF ok] by (fastforce simp: secret_ok_def t(1))
  have vs: "\<forall>v \<in> set (versions s). version_ok t v"
    using store_okD(6) [OF ok] by (fastforce simp: version_ok_def t(1))
  have new: "secret_ok t r" using f t(2,3) by (simp add: secret_ok_def t(1))
  have "distinct (map s_id (secrets t))" using store_okD(1) [OF ok] ids t(2) by (simp add: t(1))
  moreover have "\<forall>f \<in> set (folders t). f_id f < seq t" using store_okD(8) [OF ok] by (auto simp: t(1) less_Suc_eq)
  ultimately show ?thesis
    using ok old vs new t(4) unfolding store_ok_def by (simp add: t(1))
qed

lemma appended_simps [simp]:
  "secrets (appended s row v new keep g) = map (\<lambda>r. if s_id r = s_id row then new else r) (secrets s)"
  "versions (appended s row v new keep g) = kept_versions new keep (s\<lparr>versions := versions s @ [v]\<rparr>)"
  "seq (appended s row v new keep g) = Suc (seq s)"
  "folders (appended s row v new keep g) = folders s" "tenants (appended s row v new keep g) = tenants s"
  "projects (appended s row v new keep g) = projects s"
  "environments (appended s row v new keep g) = environments s"
  "root_keys (appended s row v new keep g) = root_keys s"
  "db_now (appended s row v new keep g) = db_now s" "uuid_at (appended s row v new keep g) = uuid_at s"
  "guc_rewrap (appended s row v new keep g) = guc_rewrap s"
  by (simp_all add: appended_def)

lemma kept_versions_iff: "v \<in> set (kept_versions row keep s) \<longleftrightarrow> v \<in> set (versions s) \<and> (v_secret v = s_id row \<longrightarrow>
     v_version v = s_current row \<or> v_version v \<in> v_version ` set (newest keep (s_id row) s))"
  by (auto simp: kept_versions_def)

lemma kept_versions_sub: "set (kept_versions row keep s) \<subseteq> set (versions s)"
  by (auto simp: kept_versions_def)

lemma version_le_current:
  assumes "store_ok s" "row \<in> set (secrets s)" "v \<in> set (versions s)" "v_secret v = s_id row"
  shows "1 \<le> v_version v \<and> v_version v \<le> s_current row"
proof -
  obtain r where r: "r \<in> set (secrets s)" "s_id r = v_secret v" "v_version v \<le> s_current r" "1 \<le> v_version v"
    using store_okD(6) [OF assms(1,3)] by (auto simp: version_ok_def)
  have "r = row" using distinct_map_eq [OF store_okD(1) [OF assms(1)] r(1) assms(2)] r(2) assms(4) by simp
  with r show ?thesis by simp
qed

lemma uq_versions_sub: "uq_versions vs \<Longrightarrow> uq_versions (filter P vs)"
  by (simp add: uq_versions_def distinct_map_filter)

lemma kept_versions_distinct: "distinct (map v_id (versions s)) \<Longrightarrow> distinct (map v_id (kept_versions row keep s))"
  unfolding kept_versions_def by (rule distinct_map_filter)

lemma kept_versions_uq: "uq_versions (versions s) \<Longrightarrow> uq_versions (kept_versions row keep s)"
  unfolding kept_versions_def by (rule uq_versions_sub)

lemma appended_store_ok:
  assumes ok: "store_ok s" and row: "row \<in> set (secrets s)"
    and v: "v_id v = seq s" "v_secret v = s_id row" "v_version v = s_current row + 1" "s_current row + 1 < 2 ^ 31"
    and t: "t = appended s row v (advanced svc s row) keep g" and chk: "secrets_error (secrets t) = None"
  shows "store_ok t"
proof -
  let ?vs = "versions s @ [v]"
  have cur: "0 \<le> s_current row" using current_nonneg [OF ok row] .
  have vsub: "set (versions t) \<subseteq> set ?vs"
    using kept_versions_sub [of _ _ "s\<lparr>versions := ?vs\<rparr>"] by (simp add: t)
  have fresh: "(v_secret v, v_version v) \<notin> (\<lambda>v. (v_secret v, v_version v)) ` set (versions s)"
  proof
    assume "(v_secret v, v_version v) \<in> (\<lambda>v. (v_secret v, v_version v)) ` set (versions s)"
    then obtain w where "w \<in> set (versions s)" "v_secret w = s_id row" "v_version w = s_current row + 1"
      using v(2,3) by auto
    with version_le_current [OF ok row] show False by fastforce
  qed
  have ids: "distinct (map v_id ?vs)"
    using store_okD(4,6) [OF ok] v(1) by (force simp: version_ok_def)
  have uq: "uq_versions ?vs" using store_okD(5) [OF ok] fresh by (simp add: uq_versions_def)
  have "distinct (map v_id (versions t))" "uq_versions (versions t)"
    using kept_versions_distinct [of "s\<lparr>versions := ?vs\<rparr>"] kept_versions_uq [of "s\<lparr>versions := ?vs\<rparr>"] ids uq
    by (simp_all add: t)
  moreover have "map s_id (secrets t) = map s_id (secrets s)" by (auto simp: t)
  moreover have "secret_ok t r" if rt: "r \<in> set (secrets t)" for r
  proof -
    obtain q where q: "q \<in> set (secrets s)" "r = (if s_id q = s_id row then advanced svc s row else q)"
      using rt by (auto simp: t)
    have old: "secret_ok s q" "secret_ok s row" using store_okD(7) [OF ok] q(1) row by auto
    show ?thesis
    proof (cases "s_id q = s_id row")
      case True
      then have r: "r = advanced svc s row" using q by simp
      have "v \<in> set (versions t)" using v by (simp add: t kept_versions_def)
      with r v old show ?thesis by (auto simp: secret_ok_def t)
    next
      case False
      have "w \<in> set (versions t)" if "w \<in> set (versions s)" "v_secret w = s_id q" for w
        using that False by (simp add: t kept_versions_def)
      with False q old show ?thesis by (fastforce simp: secret_ok_def t)
    qed
  qed
  moreover have adv: "advanced svc s row \<in> set (secrets t)" using row by (force simp: t)
  moreover have "version_ok t w" if "w \<in> set (versions t)" for w
  proof (cases "w = v")
    case True
    with v cur adv show ?thesis unfolding version_ok_def
      by (intro conjI bexI [of _ "advanced svc s row"]) (simp_all add: t)
  next
    case False
    with that vsub have "w \<in> set (versions s)" by auto
    then obtain r where r: "r \<in> set (secrets s)" "s_id r = v_secret w" "v_version w \<le> s_current r" "1 \<le> v_version w"
        "v_id w < seq s"
      using store_okD(6) [OF ok] by (auto simp: version_ok_def)
    show ?thesis
    proof (cases "s_id r = s_id row")
      case True
      then have "r = row" using distinct_map_eq [OF store_okD(1) [OF ok] r(1) row] by simp
      with r adv show ?thesis unfolding version_ok_def
        by (intro conjI bexI [of _ "advanced svc s row"]) (simp_all add: t)
    next
      case False
      with r(1) have "r \<in> set (secrets t)" by (force simp: t)
      with r show ?thesis unfolding version_ok_def by (intro conjI bexI [of _ r]) (simp_all add: t)
    qed
  qed
  moreover have "distinct (map s_id (secrets s))" "\<forall>f \<in> set (folders t). f_id f < seq t" "distinct (map f_id (folders t))"
    using store_okD(1,8,9) [OF ok] by (auto simp: t less_Suc_eq)
  ultimately show ?thesis using chk unfolding store_ok_def by metis
qed

text \<open>The shape of a successful put.\<close>

definition put_shape ::
    "service \<Rightarrow> draws \<Rightarrow> put_input \<Rightarrow> bytes \<Rightarrow> string \<Rightarrow> string \<Rightarrow> db \<Rightarrow> put_result \<Rightarrow> db \<Rightarrow> bool" where
  "put_shape svc rnd inp val vt path s res t \<longleftrightarrow>
     (\<exists>sc folder s1 row.
        resolveEnvironment (r_tenant (pi_ref inp)) (r_project (pi_ref inp)) (r_environment (pi_ref inp)) s = (Inr sc, s)
      \<and> more_folders s s1 \<and> folder_at sc path s1 = (Inr folder, s1)
      \<and> at_address (t_id (sc_tenant sc)) (e_id (sc_env sc)) (f_id folder) (r_key (pi_ref inp)) row
      \<and> (row \<in> set (secrets s1) \<and> t = s1 \<and> pr_unchanged res \<and> \<not> pr_created res \<and> pr_uuid res = s_uuid row
           \<and> (\<exists>v vs. versions_desc (s_id row) s1 = v # vs \<and> v_checksum v = checksum (svc_prims svc) val
                 \<and> pr_version res = v_version v)
         \<or> (\<exists>s2 created. store_ok s2 \<and> row \<in> set (secrets s2)
              \<and> (s2 = s1 \<and> \<not> created \<or> created \<and> s2 = s1\<lparr>secrets := secrets s1 @ [row], seq := Suc (seq s1)\<rparr>
                   \<and> s_current row = 0)
              \<and> put_append svc rnd inp val vt \<lparr>ad_scope = sc, ad_folder = folder, ad_key = r_key (pi_ref inp)\<rparr>
                  row created s2 = (Inr res, t))))"

lemma put_shapeE:
  assumes "put_shape svc rnd inp val vt path s res t"
    and "\<And>sc folder s1 row v vs.
      resolveEnvironment (r_tenant (pi_ref inp)) (r_project (pi_ref inp)) (r_environment (pi_ref inp)) s = (Inr sc, s) \<Longrightarrow>
      more_folders s s1 \<Longrightarrow> folder_at sc path s1 = (Inr folder, s1) \<Longrightarrow>
      at_address (t_id (sc_tenant sc)) (e_id (sc_env sc)) (f_id folder) (r_key (pi_ref inp)) row \<Longrightarrow>
      row \<in> set (secrets s1) \<Longrightarrow> t = s1 \<Longrightarrow> pr_unchanged res \<Longrightarrow> \<not> pr_created res \<Longrightarrow> pr_uuid res = s_uuid row \<Longrightarrow>
      versions_desc (s_id row) s1 = v # vs \<Longrightarrow> v_checksum v = checksum (svc_prims svc) val \<Longrightarrow>
      pr_version res = v_version v \<Longrightarrow> thesis"
    and "\<And>sc folder s1 row s2 created.
      resolveEnvironment (r_tenant (pi_ref inp)) (r_project (pi_ref inp)) (r_environment (pi_ref inp)) s = (Inr sc, s) \<Longrightarrow>
      more_folders s s1 \<Longrightarrow> folder_at sc path s1 = (Inr folder, s1) \<Longrightarrow>
      at_address (t_id (sc_tenant sc)) (e_id (sc_env sc)) (f_id folder) (r_key (pi_ref inp)) row \<Longrightarrow>
      store_ok s2 \<Longrightarrow> row \<in> set (secrets s2) \<Longrightarrow>
      s2 = s1 \<and> \<not> created \<or> created \<and> s2 = s1\<lparr>secrets := secrets s1 @ [row], seq := Suc (seq s1)\<rparr> \<and> s_current row = 0 \<Longrightarrow>
      put_append svc rnd inp val vt \<lparr>ad_scope = sc, ad_folder = folder, ad_key = r_key (pi_ref inp)\<rparr>
        row created s2 = (Inr res, t) \<Longrightarrow> thesis"
  shows thesis
  using assms(1) unfolding put_shape_def by (elim exE conjE disjE) (rule assms(2), assumption+, (rule assms(3), blast+)+)

lemma latest_checksum_err: "GetLatestVersionChecksum sid s = (Inl e, t) \<Longrightarrow> t = s \<and> e = NoRows"
  by (auto simp: GetLatestVersionChecksum_def q_err)

lemma put_tx_ok:
  assumes run: "put_tx svc rnd inp val vt path s = (Inr res, t)" and ok: "store_ok s" and path: "canonical path"
  shows "put_shape svc rnd inp val vt path s res t"
proof -
  obtain sc where sc: "resolveEnvironment (r_tenant (pi_ref inp)) (r_project (pi_ref inp)) (r_environment (pi_ref inp)) s
      = (Inr sc, s)" "scope_in s sc"
    using run by (auto simp: put_tx_def run_ok dest: resolveEnvironment_ok)
  let ?ref = "pi_ref inp" and ?tid = "t_id (sc_tenant sc)" and ?eid = "e_id (sc_env sc)"
  obtain folder s1 where f: "(if pi_create_folders inp then ensureFolderPath sc path
            else mapErr (mapReadError ''folder'') (folder_at sc path)) s = (Inr folder, s1)"
    using run sc(1) by (auto simp: put_tx_def run_ok)
  have f1: "more_folders s s1" "folder_at sc path s1 = (Inr folder, s1)"
    using put_folder_ok [OF f sc(2) path] by auto
  have ok1: "store_ok s1" using more_folders_store_ok [OF f1(1) ok] .
  let ?addr = "\<lparr>ad_scope = sc, ad_folder = folder, ad_key = r_key ?ref\<rparr>"
  have get: "GetSecretByAddressForUpdate ?tid ?eid (f_id folder) (r_key ?ref) s1 =
      (case filter (at_address ?tid ?eid (f_id folder) (r_key ?ref)) (secrets s1) of
         [] \<Rightarrow> (Inl NoRows, s1) | r # _ \<Rightarrow> (Inr r, s1))"
    by (simp add: GetSecretByAddressForUpdate_def q_one_def split: list.splits)
  show ?thesis
  proof (cases "filter (at_address ?tid ?eid (f_id folder) (r_key ?ref)) (secrets s1)")
    case Nil
    have "\<exists>row s2. CreateSecretRow ?tid (p_id (sc_project sc)) ?eid (f_id folder) ''secret'' (t_name (sc_tenant sc))
                 (p_slug (sc_project sc)) (ad_mrnResourcePath ?addr) (r_key ?ref) (pi_description inp) (pi_tags inp)
                 (pi_keep inp) (pi_rotation inp) (pi_expires inp) s1 = (Inr row, s2)
        \<and> put_append svc rnd inp val vt ?addr row True s2 = (Inr res, t)"
      using run sc(1) f Nil get unfolding put_tx_def
      by (auto simp: bindM_ok tryM_ok mapErr_ok Let_def)
    then obtain row s2 where c: "CreateSecretRow ?tid (p_id (sc_project sc)) ?eid (f_id folder) ''secret'' (t_name (sc_tenant sc))
                 (p_slug (sc_project sc)) (ad_mrnResourcePath ?addr) (r_key ?ref) (pi_description inp) (pi_tags inp)
                 (pi_keep inp) (pi_rotation inp) (pi_expires inp) s1 = (Inr row, s2)"
      and a: "put_append svc rnd inp val vt ?addr row True s2 = (Inr res, t)" by blast
    show ?thesis
      using sc(1) f1 CreateSecretRow_ok [OF c] CreateSecretRow_store_ok [OF c ok1] a
      unfolding put_shape_def by (intro exI [of _ sc] exI [of _ folder] exI [of _ s1] exI [of _ row]) auto
  next
    case (Cons row rest)
    have row: "row \<in> set (secrets s1)" "at_address ?tid ?eid (f_id folder) (r_key ?ref) row"
      using filter_Cons_in [OF Cons] by auto
    have "put_append svc rnd inp val vt ?addr row False s1 = (Inr res, t) \<or>
        (t = s1 \<and> pr_unchanged res \<and> \<not> pr_created res \<and> pr_uuid res = s_uuid row
           \<and> (\<exists>v vs. versions_desc (s_id row) s1 = v # vs \<and> v_checksum v = checksum (svc_prims svc) val
                 \<and> pr_version res = v_version v))"
      using run sc(1) f Cons get unfolding put_tx_def
      by (auto simp: bindM_ok tryM_ok mapErr_ok Let_def ret_run fail_run GetLatestVersionChecksum_def q_one_def
          split: sum.splits if_splits list.splits prod.splits)
    then show ?thesis
    proof
      assume "put_append svc rnd inp val vt ?addr row False s1 = (Inr res, t)"
      then show ?thesis using sc(1) f1 row ok1 unfolding put_shape_def by blast
    next
      assume "t = s1 \<and> pr_unchanged res \<and> \<not> pr_created res \<and> pr_uuid res = s_uuid row
           \<and> (\<exists>v vs. versions_desc (s_id row) s1 = v # vs \<and> v_checksum v = checksum (svc_prims svc) val
                 \<and> pr_version res = v_version v)"
      then show ?thesis using sc(1) f1 row unfolding put_shape_def by blast
    qed
  qed
qed

section \<open>Reading back\<close>

definition ring_ok :: "service \<Rightarrow> bool" where
  "ring_ok svc \<longleftrightarrow> Provider (svc_ring svc) (KeyID (Active (svc_ring svc))) = Inr (Active (svc_ring svc))
     \<and> root_key_provider (Active (svc_ring svc))"

lemma resolveEnvironment_cong:
  assumes "tenants t = tenants s" "projects t = projects s" "environments t = environments s"
    and "resolveEnvironment tu pr en s = (Inr sc, s)"
  shows "resolveEnvironment tu pr en t = (Inr sc, t)"
  using assms(4)
  by (auto simp: resolveEnvironment_def run_ok q_ok GetTenantByUUID_def GetProjectBySlug_def
      GetEnvironmentBySlug_def assms(1-3))

lemma folder_at_cong:
  assumes "projects t = projects s" "environments t = environments s" "folders t = folders s"
    and "folder_at sc path s = (Inr f, s)"
  shows "folder_at sc path t = (Inr f, t)"
  using assms(4)
  by (auto simp: folder_at_def GetFolderByPath_def q_ok tenant_env_ids_def assms(1-3))

lemma resolveAddress_run:
  assumes "ValidateKey (r_key ref) = None" "NormalizePath (r_folder ref) = Inr path"
    and "resolveEnvironment (r_tenant ref) (r_project ref) (r_environment ref) s = (Inr sc, s)"
    and "folder_at sc path s = (Inr f, s)"
  shows "resolveAddress ref s = (Inr \<lparr>ad_scope = sc, ad_folder = f, ad_key = r_key ref\<rparr>, s)"
  using assms by (simp add: resolveAddress_def bindM_def mapErr_def liftR_def ret_def checkKey_def checkPath_def)

lemma latest_of_max:
  assumes "v \<in> set (versions s)" "v_secret v = sid"
    and "\<And>w. w \<in> set (versions s) \<Longrightarrow> v_secret w = sid \<Longrightarrow> w = v \<or> v_version w < v_version v"
  shows "GetLatestSecretVersion sid s = (Inr v, s)"
proof (cases "versions_desc sid s")
  case Nil
  then have "set (versions_desc sid s) = {}" by simp
  with assms(1,2) show ?thesis by auto
next
  case (Cons w ws)
  then have "w \<in> set (versions_desc sid s)" by simp
  then have w: "w \<in> set (versions s)" "v_secret w = sid" by auto
  have "v \<in> set (w # ws)" using assms(1,2) by (simp flip: Cons)
  with versions_desc_sorted [of sid s] Cons have "v_version v \<le> v_version w" by auto
  with assms(3) [OF w] have "w = v" by auto
  with Cons show ?thesis by (simp add: GetLatestSecretVersion_def q_one_def)
qed

lemma Seal_KEKID: "Seal P (Some p) ident rnd pt = Inr env \<Longrightarrow> KEKID env = KeyID p"
  by (auto simp: Seal_def Let_def split: option.splits if_splits)

lemma get_after_append:
  assumes run: "put_append svc rnd inp val vt addr row created s = (Inr res, t)"
    and ok: "store_ok s" and row: "row \<in> set (secrets s)" and ring: "ring_ok svc"
    and addr: "addr = \<lparr>ad_scope = sc, ad_folder = folder, ad_key = r_key ref\<rparr>"
    and at: "at_address (t_id (sc_tenant sc)) (e_id (sc_env sc)) (f_id folder) (r_key ref) row"
    and env: "resolveEnvironment (r_tenant ref) (r_project ref) (r_environment ref) s = (Inr sc, s)"
    and fold: "folder_at sc path s = (Inr folder, s)"
    and wf: "ValidateKey (r_key ref) = None" "NormalizePath (r_folder ref) = Inr path"
  shows "\<exists>r. GetSecret svc ref t = (Inr r, t) \<and> rv_value r = val \<and> rv_version r = pr_version res \<and> rv_type r = vt
     \<and> store_ok t"
proof -
  have l: "s_tenant row = t_id (sc_tenant (ad_scope addr))" "live_secret row"
    using at by (simp_all add: addr at_address_def)
  obtain e v g where a: "Seal (svc_prims svc) (Some (Active (svc_ring svc)))
        (ad_identity addr (s_uuid row) (s_current row + 1)) rnd val = Inr e"
      "row_envelope v = e" "v_secret v = s_id row" "v_version v = s_current row + 1" "v_type v = vt" "v_id v = seq s"
      "s_current row + 1 < 2 ^ 31" "secrets_error (secrets t) = None" "pr_version res = s_current row + 1"
    and t: "t = appended s row v (advanced svc s row) (effectiveKeepVersions svc (advanced svc s row)) g"
    using put_append_ok [OF run ok row l] by blast
  let ?new = "advanced svc s row"
  have okt: "store_ok t" by (rule appended_store_ok [OF ok row a(6,3,4,7) t a(8)])
  have addr_t: "resolveAddress ref t = (Inr addr, t)"
    unfolding addr
    by (rule resolveAddress_run [OF wf resolveEnvironment_cong [OF _ _ _ env] folder_at_cong [OF _ _ _ fold]])
       (simp_all add: t)
  have new: "?new \<in> set (secrets t)" using row by (force simp: t)
  have "at_address (t_id (sc_tenant sc)) (e_id (sc_env sc)) (f_id folder) (r_key ref) ?new"
    using at by (simp add: at_address_def live_secret_def)
  with new have sec: "secret_at addr t = (Inr ?new, t)"
    by (intro secret_at_run [OF okt]) (simp_all add: addr)
  have vt: "v \<in> set (versions t)" using a(3,4) by (simp add: t kept_versions_def)
  have lat: "GetLatestSecretVersion (s_id row) t = (Inr v, t)"
  proof (rule latest_of_max [OF vt a(3)])
    fix w
    assume w: "w \<in> set (versions t)" "v_secret w = s_id row"
    then have "w \<in> set (versions s @ [v])"
      using kept_versions_sub [of _ _ "s\<lparr>versions := versions s @ [v]\<rparr>"] by (auto simp: t)
    then show "w = v \<or> v_version w < v_version v"
      using version_le_current [OF ok row _ w(2)] a(4) by fastforce
  qed
  have kek: "v_kek v = KeyID (Active (svc_ring svc))"
    using Seal_KEKID [OF a(1)] unfolding a(2) [symmetric] by (simp add: row_envelope_def)
  have prov: "Provider (svc_ring svc) (v_kek v) = Inr (Active (svc_ring svc))"
    using ring kek by (simp add: ring_ok_def)
  have "Open (svc_prims svc) (Some (Active (svc_ring svc))) (ad_identity addr (s_uuid row) (s_current row + 1))
      (row_envelope v) = Inr val"
    unfolding a(2) using root_key_provider.open_seal [OF _ a(1)] ring by (simp add: ring_ok_def)
  then show ?thesis
    using okt addr_t sec lat prov a(4,5,9)
    by (simp add: GetSecret_def getVersion_def bindM_def mapErr_def liftR_def ret_def)
qed

text \<open>The parts of \<open>PutSecret\<close> before its transaction.\<close>

lemma PutSecret_ok:
  assumes "PutSecret svc rnd inp s = (Inr res, t)"
  shows "\<exists>val path u. pi_value inp = Some val \<and> ValidateKey (r_key (pi_ref inp)) = None
     \<and> NormalizePath (r_folder (pi_ref inp)) = Inr path
     \<and> put_tx svc rnd inp val (if pi_type inp = [] then ''opaque'' else pi_type inp) path
         (s\<lparr>guc_delete := [], guc_rewrap := [], guc_transit := []\<rparr>) = (Inr res, u)
     \<and> t = u\<lparr>guc_delete := guc_delete s, guc_rewrap := guc_rewrap s, guc_transit := guc_transit s\<rparr>"
  using assms unfolding PutSecret_def Let_def
  by (auto simp: run_ok InTx_ok split: option.splits)

section \<open>The transaction-local settings do not matter to reads\<close>

definition guc_free :: "(db, 'e, 'a) comp \<Rightarrow> bool" where
  "guc_free m \<longleftrightarrow> (\<forall>s a b c. m (s\<lparr>guc_delete := a, guc_rewrap := b, guc_transit := c\<rparr>)
     = (fst (m s), (snd (m s))\<lparr>guc_delete := a, guc_rewrap := b, guc_transit := c\<rparr>))"

lemma guc_freeD: "guc_free m \<Longrightarrow> m s = (r, t) \<Longrightarrow>
    m (s\<lparr>guc_delete := a, guc_rewrap := b, guc_transit := c\<rparr>) = (r, t\<lparr>guc_delete := a, guc_rewrap := b, guc_transit := c\<rparr>)"
  by (simp add: guc_free_def)

lemma guc_free_q_one [intro]: "(\<And>s a b c. f (s\<lparr>guc_delete := a, guc_rewrap := b, guc_transit := c\<rparr>) = f s) \<Longrightarrow> guc_free (q_one f)"
  by (simp add: guc_free_def q_one_def)

lemma guc_free_mapErr [intro!]: "guc_free m \<Longrightarrow> guc_free (mapErr f m)"
  by (auto simp: guc_free_def mapErr_def split: prod.splits sum.splits)

lemma guc_free_tryM [intro!]: "guc_free m \<Longrightarrow> guc_free (tryM m)"
  by (auto simp: guc_free_def tryM_def split: prod.splits)

lemma guc_free_simple [intro!, simp]: "guc_free (ret x)" "guc_free (fail e)" "guc_free (liftR r)" "guc_free (guardM c e)"
  by (simp_all add: guc_free_def ret_def fail_def liftR_def guardM_def)

lemma guc_free_bindM [intro!]: "guc_free m \<Longrightarrow> (\<And>x. guc_free (k x)) \<Longrightarrow> guc_free (bindM m k)"
  by (auto simp: guc_free_def bindM_def split: prod.splits sum.splits)

lemma guc_free_if [intro!]: "guc_free m \<Longrightarrow> guc_free n \<Longrightarrow> guc_free (if c then m else n)"
  by simp

lemmas read_queries = GetTenantByUUID_def GetProjectBySlug_def GetEnvironmentBySlug_def GetFolderByPath_def
  GetSecretByAddress_def GetLatestSecretVersion_def GetSecretVersionRow_def GetSecretVersionValueType_def
  versions_desc_def versions_of_def tenant_env_ids_def

lemma guc_free_getVersion: "guc_free (getVersion svc ref n)"
  unfolding getVersion_def resolveAddress_def resolveEnvironment_def folder_at_def secret_at_def read_queries
  by (intro guc_free_bindM guc_free_mapErr guc_free_if guc_free_simple guc_free_q_one) simp_all

section \<open>Every operation keeps the invariant\<close>

lemma keeps_InTx [keeps_rules]: "keeps store_ok m \<Longrightarrow> keeps store_ok (InTx m)"
  unfolding keeps_def
proof (intro allI impI)
  fix s r t
  assume m: "\<forall>s r t. m s = (r, t) \<longrightarrow> store_ok s \<longrightarrow> store_ok t" and run: "InTx m s = (r, t)" and ok: "store_ok s"
  have "store_ok (s\<lparr>guc_delete := [], guc_rewrap := [], guc_transit := []\<rparr>)" using ok by simp
  with run ok m show "store_ok t" by (cases r) (auto simp: InTx_err InTx_ok)
qed

lemma put_tx_store_ok:
  assumes run: "put_tx svc rnd inp val vt path s = (Inr res, t)" and ok: "store_ok s" and path: "canonical path"
  shows "store_ok t"
  using put_tx_ok [OF assms]
proof (rule put_shapeE)
  fix s1
  assume "more_folders s s1" "t = s1"
  then show ?thesis using more_folders_store_ok ok by simp
next
  fix sc folder row s2 created
  assume a: "put_append svc rnd inp val vt \<lparr>ad_scope = sc, ad_folder = folder, ad_key = r_key (pi_ref inp)\<rparr>
        row created s2 = (Inr res, t)" "store_ok s2" "row \<in> set (secrets s2)"
    and "at_address (t_id (sc_tenant sc)) (e_id (sc_env sc)) (f_id folder) (r_key (pi_ref inp)) row"
  then have at: "s_tenant row = t_id (sc_tenant (ad_scope \<lparr>ad_scope = sc, ad_folder = folder, ad_key = r_key (pi_ref inp)\<rparr>))"
      "live_secret row"
    by (simp_all add: at_address_def)
  show ?thesis using put_append_ok [OF a(1,2,3) at] appended_store_ok [OF a(2,3)] by blast
qed

lemma PutSecret_err: "PutSecret svc rnd inp s = (Inl e, t) \<Longrightarrow> t = s"
  unfolding PutSecret_def Let_def
  by (auto simp: bindM_err guardM_ok guardM_err liftR_run InTx_err fail_run split: option.splits)

lemma PutSecret_store_ok: "PutSecret svc rnd inp s = (r, t) \<Longrightarrow> store_ok s \<Longrightarrow> store_ok t"
proof (cases r)
  case (Inl e)
  assume "PutSecret svc rnd inp s = (r, t)" "store_ok s"
  with Inl show ?thesis using PutSecret_err by blast
next
  case (Inr x)
  assume "PutSecret svc rnd inp s = (r, t)" "store_ok s"
  with Inr show ?thesis
    using PutSecret_ok [of svc rnd inp s x t] put_tx_store_ok Normalize_canonical by fastforce
qed

text \<open>An UPDATE that keeps ids, folders and version counters.\<close>

lemma update_secrets_run:
  "update_secrets P f s = (r, t) \<Longrightarrow>
     t = s \<and> (\<exists>e. r = Inl e)
     \<or> t = s\<lparr>secrets := updating P f (secrets s)\<rparr> \<and> secrets_error (updating P f (secrets s)) = None
       \<and> (\<exists>x xs. filter P (secrets s) = x # xs \<and> r = Inr (f x))"
  by (auto simp: update_secrets_def q_exec_def Let_def split: list.splits option.splits)

lemma update_secrets_store_ok:
  assumes run: "update_secrets P f s = (r, t)" and ok: "store_ok s"
    and keep: "\<And>x. s_id (f x) = s_id x \<and> s_folder (f x) = s_folder x \<and> s_current (f x) = s_current x"
  shows "store_ok t"
proof -
  let ?ss = "updating P f (secrets s)"
  have ids: "map s_id ?ss = map s_id (secrets s)" using keep by (intro updating_map) simp
  have "store_ok (s\<lparr>secrets := ?ss\<rparr>)" if e: "secrets_error ?ss = None"
  proof -
    have "\<exists>x' \<in> set ?ss. s_id x' = s_id x \<and> s_current x' = s_current x" if "x \<in> set (secrets s)" for x
      using that keep by (intro bexI [of _ "if P x then f x else x"]) (auto simp: updating_def)
    then have vs: "version_ok (s\<lparr>secrets := ?ss\<rparr>) v" if "v \<in> set (versions s)" for v
      using store_okD(6) [OF ok that] unfolding version_ok_def by fastforce
    have ss: "secret_ok (s\<lparr>secrets := ?ss\<rparr>) x" if xs: "x \<in> set ?ss" for x
    proof -
      obtain y where "y \<in> set (secrets s)" "x = (if P y then f y else y)"
        using xs by (auto simp: updating_def)
      then show ?thesis using store_okD(7) [OF ok, of y] keep [of y] by (auto simp: secret_ok_def)
    qed
    show ?thesis
      using ok vs ss e ids unfolding store_ok_def by simp
  qed
  with update_secrets_run [OF run] ok show ?thesis by auto
qed

lemma keeps_update_secrets:
  "(\<And>x. s_id (f x) = s_id x \<and> s_folder (f x) = s_folder x \<and> s_current (f x) = s_current x) \<Longrightarrow>
     keeps store_ok (update_secrets P f)"
  unfolding keeps_def using update_secrets_store_ok by blast

lemma keeps_secret_updates [keeps_rules]:
  "keeps store_ok (UpdateSecretMetaRow d tg k ro ex tid u)"
  "keeps store_ok (RestoreSecretRow tid u)"
  by (simp_all add: UpdateSecretMetaRow_def RestoreSecretRow_def keeps_update_secrets)

lemma keeps_SoftDeleteSecret [keeps_rules]: "keeps store_ok (SoftDeleteSecret da tid sid)"
  unfolding keeps_def SoftDeleteSecret_def
  by (intro allI impI, erule update_secrets_store_ok) simp_all

lemma keeps_reads [keeps_rules]:
  "keeps I (resolveAddress ref)" "keeps I (secret_at a)" "keeps I (valueTypeFor sid v)"
  "keeps I (GetTenantByUUID u)" "keeps I (GetFolderByID fid tid)" "keeps I (GetDeletedSecretByUUID tid u)"
  "keeps I (GetSecretByAddressForUpdate tid eid fid key)" "keeps I (getVersion svc ref n)"
  by (auto intro!: pure_keeps pure_rules simp: secret_at_def GetSecretByAddress_def GetTenantByUUID_def GetFolderByID_def
      GetDeletedSecretByUUID_def GetSecretByAddressForUpdate_def getVersion_def GetLatestSecretVersion_def
      GetSecretVersionRow_def)

lemma keeps_AllowDelete [keeps_rules]: "keeps store_ok (AllowSecretVersionDelete why)"
  by (simp add: keeps_def AllowSecretVersionDelete_def)

text \<open>Deleting a secret takes its versions with it.\<close>

lemma secrets_error_sub: "secrets_error ss = None \<Longrightarrow> secrets_error (filter P ss) = None"
proof -
  assume "secrets_error ss = None"
  then have c: "\<forall>r \<in> set ss. chk_secret r = None" and u: "distinct (map s_uuid ss)"
      "distinct (map (\<lambda>r. (s_env r, s_folder r, s_key r)) (filter live_secret ss))"
    by (auto simp: secrets_error_None uq_secrets_def)
  have "distinct (map (\<lambda>r. (s_env r, s_folder r, s_key r)) (filter live_secret (filter P ss)))"
    using distinct_map_filter [OF u(2), of P] by (simp add: filter_filter conj_commute)
  with c u(1) show ?thesis by (simp add: secrets_error_None uq_secrets_def distinct_map_filter)
qed

lemma remove_secrets_store_ok:
  assumes ok: "store_ok s"
    and t: "t = s\<lparr>secrets := filter (\<lambda>r. s_id r \<notin> I) (secrets s), versions := filter (\<lambda>v. v_secret v \<notin> I) (versions s),
      secret_leases := ls\<rparr>"
  shows "store_ok t"
proof -
  have "version_ok t v" if v: "v \<in> set (versions s)" "v_secret v \<notin> I" for v
  proof -
    obtain r where "r \<in> set (secrets s)" "s_id r = v_secret v" "v_version v \<le> s_current r" "1 \<le> v_version v" "v_id v < seq s"
      using store_okD(6) [OF ok v(1)] by (auto simp: version_ok_def)
    with v(2) show ?thesis unfolding version_ok_def by (intro conjI bexI [of _ r]) (simp_all add: t)
  qed
  moreover have "secret_ok t r" if "r \<in> set (secrets s)" "s_id r \<notin> I" for r
    using store_okD(7) [OF ok that(1)] that(2) unfolding secret_ok_def by (auto simp: t)
  moreover have "secrets_error (secrets t) = None" using store_okD(2) [OF ok] by (simp add: t secrets_error_sub)
  moreover have "distinct (map s_id (secrets t))" "distinct (map v_id (versions t))" "uq_versions (versions t)"
    using store_okD(1,4,5) [OF ok] by (simp_all add: t distinct_map_filter uq_versions_sub)
  ultimately show ?thesis using store_okD(8,9) [OF ok] unfolding store_ok_def by (simp add: t)
qed

lemma HardDeleteSecret_run:
  assumes "HardDeleteSecret tid u s = (r, t)" "distinct (map s_id (secrets s))"
  shows "t = s \<and> (\<exists>e. r = Inl e)
     \<or> (\<exists>I. t = s\<lparr>secrets := filter (\<lambda>r. s_id r \<notin> I) (secrets s), versions := filter (\<lambda>v. v_secret v \<notin> I) (versions s),
            secret_leases := filter (\<lambda>l. l_secret l \<notin> I) (secret_leases s)\<rparr>
          \<and> I = s_id ` {x \<in> set (secrets s). s_tenant x = tid \<and> s_uuid x = u \<and> \<not> live_secret x
               \<and> (\<exists>d. s_destroy x = Some d \<and> d \<le> db_now s)})"
proof -
  define P where "P x \<longleftrightarrow> s_tenant x = tid \<and> s_uuid x = u \<and> \<not> live_secret x
           \<and> (case s_destroy x of None \<Rightarrow> False | Some d \<Rightarrow> d \<le> db_now s)" for x
  define I where "I = s_id ` {x \<in> set (secrets s). P x}"
  have I: "I = s_id ` {x \<in> set (secrets s). s_tenant x = tid \<and> s_uuid x = u \<and> \<not> live_secret x
               \<and> (\<exists>d. s_destroy x = Some d \<and> d \<le> db_now s)}"
    unfolding I_def P_def by (intro arg_cong [of _ _ "image s_id"]) (auto split: option.splits)
  have f: "filter (\<lambda>r. \<not> P r) (secrets s) = filter (\<lambda>r. s_id r \<notin> I) (secrets s)"
    using distinct_map_eq [OF assms(2)] by (intro filter_cong) (auto simp: I_def)
  have ids: "set (map s_id (filter P (secrets s))) = I" by (auto simp: I_def)
  have "t = s \<and> (\<exists>e. r = Inl e)
     \<or> t = s\<lparr>secrets := filter (\<lambda>r. \<not> P r) (secrets s),
             versions := filter (\<lambda>v. v_secret v \<notin> set (map s_id (filter P (secrets s)))) (versions s),
             secret_leases := filter (\<lambda>l. l_secret l \<notin> set (map s_id (filter P (secrets s)))) (secret_leases s)\<rparr>"
    using assms(1) unfolding HardDeleteSecret_def Let_def P_def [symmetric] by (auto simp: q_exec_def split: option.splits if_splits)
  then show ?thesis unfolding f ids using I by blast
qed

lemma keeps_HardDeleteSecret [keeps_rules]: "keeps store_ok (HardDeleteSecret tid u)"
  unfolding keeps_def
proof (intro allI impI)
  fix s r t
  assume "HardDeleteSecret tid u s = (r, t)" "store_ok s"
  with HardDeleteSecret_run [OF _ store_okD(1), of tid u s r t] remove_secrets_store_ok show "store_ok t" by blast
qed

lemma kept_versions_store_ok:
  assumes ok: "store_ok s" and row: "row \<in> set (secrets s)"
    and t: "t = s\<lparr>versions := kept_versions row keep s, guc_delete := g\<rparr>"
  shows "store_ok t"
proof -
  have "version_ok t v" if "v \<in> set (versions t)" for v
    using that kept_versions_sub [of row keep s] store_okD(6) [OF ok, of v] by (auto simp: version_ok_def t)
  moreover have "secret_ok t r" if r: "r \<in> set (secrets s)" for r
  proof -
    have "w \<in> set (versions t)" if "w \<in> set (versions s)" "v_secret w = s_id r" "v_version w = s_current r" for w
      using that distinct_map_eq [OF store_okD(1) [OF ok] r row] by (auto simp: kept_versions_def t)
    then show ?thesis using store_okD(7) [OF ok r] unfolding secret_ok_def by (fastforce simp: t)
  qed
  moreover have "secrets t = secrets s" "folders t = folders s" "seq t = seq s"
    "distinct (map v_id (versions t))" "uq_versions (versions t)"
    using kept_versions_distinct [OF store_okD(4) [OF ok]] kept_versions_uq [OF store_okD(5) [OF ok]] by (simp_all add: t)
  ultimately show ?thesis using ok unfolding store_ok_def by simp
qed

lemma PruneVersions_store_ok: "keeps store_ok (PruneVersions svc ref)"
  unfolding PruneVersions_def
proof (rule keeps_bindM [OF keeps_reads(1)], rule keeps_InTx, unfold keeps_def, intro allI impI)
  fix addr s r t
  assume run: "bindM (mapErr (mapReadError ''secret'') (GetSecretByAddressForUpdate (t_id (sc_tenant (ad_scope addr)))
      (e_id (sc_env (ad_scope addr))) (f_id (ad_folder addr)) (ad_key addr)))
      (\<lambda>row. pruneVersions row (effectiveKeepVersions svc row)) s = (r, t)" and ok: "store_ok s"
  show "store_ok t"
  proof (cases "filter (at_address (t_id (sc_tenant (ad_scope addr))) (e_id (sc_env (ad_scope addr)))
        (f_id (ad_folder addr)) (ad_key addr)) (secrets s)")
    case Nil
    with run ok show ?thesis by (auto simp: bindM_def mapErr_def GetSecretByAddressForUpdate_def q_one_def)
  next
    case (Cons row rest)
    then have "pruneVersions row (effectiveKeepVersions svc row) s = (r, t)"
      using run by (simp add: bindM_def mapErr_def GetSecretByAddressForUpdate_def q_one_def)
    moreover obtain g where "pruneVersions row (effectiveKeepVersions svc row) s =
        (Inr (length (versions s) - length (kept_versions row (effectiveKeepVersions svc row) s)),
         s\<lparr>versions := kept_versions row (effectiveKeepVersions svc row) s, guc_delete := g\<rparr>)"
      using pruneVersions_run [OF store_okD(4) [OF ok]] by blast
    ultimately have t: "t = s\<lparr>versions := kept_versions row (effectiveKeepVersions svc row) s, guc_delete := g\<rparr>"
      by simp
    have "row \<in> set (secrets s)" using filter_Cons_in [OF Cons] by blast
    from kept_versions_store_ok [OF ok this t] show ?thesis .
  qed
qed

lemma secret_ops_keep [keeps_rules]:
  "keeps store_ok (PutSecret svc rnd inp)" "keeps store_ok (UpdateSecretMeta svc mi)"
  "keeps store_ok (DeleteSecret svc ref win)" "keeps store_ok (RestoreSecret svc tu su)"
  "keeps store_ok (DestroySecret svc tu su)" "keeps store_ok (PruneVersions svc ref)"
  by (simp add: keeps_def PutSecret_store_ok)
     (auto intro!: keeps_rules PruneVersions_store_ok simp: UpdateSecretMeta_def DeleteSecret_def RestoreSecret_def DestroySecret_def
       simp del: keeps_simple)

lemma keeps_RollbackSecret [keeps_rules]: "keeps store_ok (RollbackSecret svc rnd ref n)"
  unfolding RollbackSecret_def by (intro keeps_rules)

section \<open>What a put that wrote a version did\<close>

definition wrote :: "service \<Rightarrow> put_input \<Rightarrow> db \<Rightarrow> put_result \<Rightarrow> db \<Rightarrow> db \<Rightarrow> secret \<Rightarrow> version \<Rightarrow> bool" where
  "wrote svc inp s res t s2 row v \<longleftrightarrow> store_ok s2 \<and> row \<in> set (secrets s2) \<and> versions s2 = versions s
     \<and> (secrets s2 = secrets s \<or> secrets s2 = secrets s @ [row])
     \<and> (\<exists>tn \<in> set (tenants s). t_uuid tn = r_tenant (pi_ref inp) \<and> s_tenant row = t_id tn \<and> live_tenant tn)
     \<and> secrets t = map (\<lambda>r. if s_id r = s_id row then advanced svc s2 row else r) (secrets s2)
     \<and> versions t = kept_versions (advanced svc s2 row) (effectiveKeepVersions svc (advanced svc s2 row))
          (s2\<lparr>versions := versions s2 @ [v]\<rparr>)
     \<and> v_secret v = s_id row \<and> v_version v = s_current row + 1
     \<and> pr_uuid res = s_uuid row \<and> pr_version res = s_current row + 1
     \<and> pr_pruned res = Suc (length (versions s)) - length (versions t)"

lemma wroteD:
  assumes "wrote svc inp s res t s2 row v"
  shows "store_ok s2" "row \<in> set (secrets s2)" "versions s2 = versions s"
    "secrets s2 = secrets s \<or> secrets s2 = secrets s @ [row]"
    "\<exists>tn \<in> set (tenants s). t_uuid tn = r_tenant (pi_ref inp) \<and> s_tenant row = t_id tn \<and> live_tenant tn"
    "secrets t = map (\<lambda>r. if s_id r = s_id row then advanced svc s2 row else r) (secrets s2)"
    "versions t = kept_versions (advanced svc s2 row) (effectiveKeepVersions svc (advanced svc s2 row))
          (s2\<lparr>versions := versions s2 @ [v]\<rparr>)"
    "v_secret v = s_id row" "v_version v = s_current row + 1"
    "pr_uuid res = s_uuid row" "pr_version res = s_current row + 1"
    "pr_pruned res = Suc (length (versions s)) - length (versions t)"
  using assms unfolding wrote_def by blast+

lemma put_written:
  assumes run: "PutSecret svc rnd inp s = (Inr res, t)" and ok: "store_ok s" and new: "\<not> pr_unchanged res"
  shows "\<exists>s2 row v. wrote svc inp s res t s2 row v"
proof -
  obtain val path u where v: "NormalizePath (r_folder (pi_ref inp)) = Inr path"
      "put_tx svc rnd inp val (if pi_type inp = [] then ''opaque'' else pi_type inp) path
         (s\<lparr>guc_delete := [], guc_rewrap := [], guc_transit := []\<rparr>) = (Inr res, u)"
      "t = u\<lparr>guc_delete := guc_delete s, guc_rewrap := guc_rewrap s, guc_transit := guc_transit s\<rparr>"
    using PutSecret_ok [OF run] by blast
  have "store_ok (s\<lparr>guc_delete := [], guc_rewrap := [], guc_transit := []\<rparr>)" using ok by simp
  from put_tx_ok [OF v(2) this Normalize_canonical [OF v(1)]] show ?thesis
  proof (rule put_shapeE)
    assume "pr_unchanged res"
    with new show ?thesis by simp
  next
    fix sc folder s1 row s2 created
    let ?s = "s\<lparr>guc_delete := [], guc_rewrap := [], guc_transit := []\<rparr>"
    let ?addr = "\<lparr>ad_scope = sc, ad_folder = folder, ad_key = r_key (pi_ref inp)\<rparr>"
    assume e: "resolveEnvironment (r_tenant (pi_ref inp)) (r_project (pi_ref inp)) (r_environment (pi_ref inp)) ?s = (Inr sc, ?s)"
      and m: "more_folders ?s s1"
      and at: "at_address (t_id (sc_tenant sc)) (e_id (sc_env sc)) (f_id folder) (r_key (pi_ref inp)) row"
      and ok2: "store_ok s2" and row: "row \<in> set (secrets s2)"
      and s2: "s2 = s1 \<and> \<not> created \<or> created \<and> s2 = s1\<lparr>secrets := secrets s1 @ [row], seq := Suc (seq s1)\<rparr> \<and> s_current row = 0"
      and run2: "put_append svc rnd inp val (if pi_type inp = [] then ''opaque'' else pi_type inp) ?addr row created s2 = (Inr res, u)"
    have same: "versions s2 = versions s" "root_keys s2 = root_keys s" "secrets s2 = secrets s \<or> secrets s2 = secrets s @ [row]"
      using s2 more_folders_same [OF m] by auto
    have tn: "\<exists>tn \<in> set (tenants s). t_uuid tn = r_tenant (pi_ref inp) \<and> s_tenant row = t_id tn \<and> live_tenant tn"
      using resolveEnvironment_ok [OF e] at by (intro bexI [of _ "sc_tenant sc"]) (auto simp: scope_in_def at_address_def)
    have l: "s_tenant row = t_id (sc_tenant (ad_scope ?addr))" "live_secret row" using at by (simp_all add: at_address_def)
    obtain w g where w: "v_secret w = s_id row" "v_version w = s_current row + 1" "v_id w = seq s2"
        "v_kek w \<in> k_id ` set (root_keys s2)" "s_current row + 1 < 2 ^ 31" "secrets_error (secrets u) = None"
        "pr_uuid res = s_uuid row" "pr_version res = s_current row + 1"
        "pr_pruned res = Suc (length (versions s2)) - length (versions u)"
      and u: "u = appended s2 row w (advanced svc s2 row) (effectiveKeepVersions svc (advanced svc s2 row)) g"
      using put_append_ok [OF run2 ok2 row l] by blast
    have "wrote svc inp s res t s2 row w"
      unfolding wrote_def using ok2 row same tn w(1,2,7,8,9) by (intro conjI) (simp_all add: v(3) u)
    then show ?thesis by blast
  qed
qed

lemma effectiveKeep_pos: "1 \<le> effectiveKeepVersions svc row"
  by (simp add: effectiveKeepVersions_def Let_def)

text \<open>When the current version is the newest, retention keeps at most \<open>keep\<close> versions of the secret.\<close>

lemma kept_bound:
  assumes uq: "uq_versions (versions s)" and keep: "1 \<le> keep"
    and cur: "\<And>w. w \<in> set (versions s) \<Longrightarrow> v_secret w = s_id row \<Longrightarrow> v_version w \<le> s_current row"
    and v: "v \<in> set (versions s)" "v_secret v = s_id row" "v_version v = s_current row"
  shows "length (filter (\<lambda>w. v_secret w = s_id row) (kept_versions row keep s)) \<le> nat keep"
proof -
  let ?N = "newest keep (s_id row) s"
  let ?L = "filter (\<lambda>w. v_secret w = s_id row) (kept_versions row keep s)"
  have inN: "v \<in> set ?N"
  proof (rule ccontr)
    assume "v \<notin> set ?N"
    have vd: "v \<in> set (versions_desc (s_id row) s)" using v by simp
    then have "v \<in> set (take (nat keep) (versions_desc (s_id row) s)) \<or> v \<in> set (drop (nat keep) (versions_desc (s_id row) s))"
      by (metis Un_iff append_take_drop_id set_append)
    with \<open>v \<notin> set ?N\<close> have d: "v \<in> set (drop (nat keep) (versions_desc (s_id row) s))" by (simp add: newest_def)
    have "versions_desc (s_id row) s \<noteq> []"
    proof
      assume "versions_desc (s_id row) s = []"
      with vd have "v \<in> set []" by metis
      then show False by simp
    qed
    then obtain w ws where w: "versions_desc (s_id row) s = w # ws" by (cases "versions_desc (s_id row) s") auto
    then have "w \<in> set ?N" using keep by (cases "nat keep") (auto simp: newest_def)
    then have "- v_version w \<le> - v_version v"
      using sorted_take_drop [OF versions_desc_sorted] d unfolding newest_def by blast
    moreover have ws: "w \<in> set (versions s)" "v_secret w = s_id row"
      using versions_desc_set [of "s_id row" s] unfolding w by auto
    ultimately have "v_version w = v_version v" using cur [OF ws] v(3) by simp
    then have "w = v" using version_number_unique [OF uq ws(1) v(1)] ws(2) v(2) by simp
    with \<open>w \<in> set ?N\<close> \<open>v \<notin> set ?N\<close> show False by simp
  qed
  have d: "distinct (map (\<lambda>w. (v_secret w, v_version w)) ?L)"
    using kept_versions_uq [OF uq, of row keep] by (simp add: uq_versions_def distinct_map_filter)
  have dv: "distinct (map v_version ?L)"
    using d unfolding distinct_map by (auto simp: inj_on_def)
  have sub: "v_version ` set ?L \<subseteq> v_version ` set ?N"
  proof
    fix n
    assume "n \<in> v_version ` set ?L"
    then obtain w where w: "w \<in> set ?L" "n = v_version w" by blast
    then have "v_version w = v_version v \<or> v_version w \<in> v_version ` set ?N"
      using v(3) by (auto simp: kept_versions_def)
    with w inN show "n \<in> v_version ` set ?N" by auto
  qed
  have "length ?L = card (v_version ` set ?L)" using distinct_card [OF dv] by simp
  also have "\<dots> \<le> card (v_version ` set ?N)" by (rule card_mono) (use sub in auto)
  also have "\<dots> \<le> length ?N" by (metis card_length length_map list.set_map)
  also have "\<dots> \<le> nat keep" by (simp add: newest_def)
  finally show ?thesis .
qed

end
