(* ===== verification/Hierarchy.thy ===== *)
theory Hierarchy
  imports SecretLaws
begin

text \<open>
  Tenants, projects, environments and folders: the rest of \<open>internal/store/service.go\<close>, the updates of
  \<open>api_support.go\<close> and the default scope and flat keys of \<open>compat.go\<close>, with the two UPDATE
  statements they add to the storage model.
\<close>

section \<open>Views\<close>

record tenant_view =
  tv_uuid :: uuid
  tv_auth :: "uuid option"
  tv_name :: string
  tv_display :: string
  tv_status :: string
  tv_system :: bool
  tv_created :: instant

definition toTenant :: "tenant \<Rightarrow> tenant_view" where
  "toTenant r = \<lparr>tv_uuid = t_uuid r, tv_auth = t_auth r, tv_name = t_name r, tv_display = t_display r,
     tv_status = t_status r, tv_system = t_system r, tv_created = t_created r\<rparr>"

record project_view =
  pv_uuid :: uuid
  pv_name :: string
  pv_slug :: string
  pv_description :: string
  pv_status :: string

definition toProject :: "project \<Rightarrow> project_view" where
  "toProject r = \<lparr>pv_uuid = p_uuid r, pv_name = p_name r, pv_slug = p_slug r,
     pv_description = p_description r, pv_status = p_status r\<rparr>"

record environment_view =
  ev_uuid :: uuid
  ev_name :: string
  ev_slug :: string
  ev_description :: string
  ev_position :: int
  ev_status :: string

definition toEnvironment :: "environment \<Rightarrow> environment_view" where
  "toEnvironment r = \<lparr>ev_uuid = e_uuid r, ev_name = e_name r, ev_slug = e_slug r,
     ev_description = e_description r, ev_position = e_position r, ev_status = e_status r\<rparr>"

record folder_view =
  fv_uuid :: uuid
  fv_name :: string
  fv_path :: string

definition toFolder :: "folder \<Rightarrow> folder_view" where
  "toFolder r = \<lparr>fv_uuid = f_uuid r, fv_name = f_name r, fv_path = f_path r\<rparr>"

section \<open>Tenants\<close>

definition CreateTenant :: "uuid option \<Rightarrow> string \<Rightarrow> string \<Rightarrow> bool \<Rightarrow> tenant_view op" where
  "CreateTenant auth name display system =
     bindM (liftR (checkSlug ''tenant name'' name)) (\<lambda>_.
     bindM (mapErr (mapWriteError ''tenant'' (''tenant '' @ name @ '' already exists''))
         (CreateTenantRow auth name display ''active'' system)) (\<lambda>row.
     ret (toTenant row)))"

definition GetTenant :: "uuid \<Rightarrow> tenant_view op" where
  "GetTenant u = bindM (mapErr (mapReadError ''tenant'') (GetTenantByUUID u)) (\<lambda>row. ret (toTenant row))"

definition GetTenantByName :: "string \<Rightarrow> tenant_view op" where
  "GetTenantByName n = bindM (mapErr (mapReadError ''tenant'') (GetTenantRowByName n)) (\<lambda>row. ret (toTenant row))"

definition DeleteTenant :: "uuid \<Rightarrow> unit op" where
  "DeleteTenant u =
     bindM (mapErr (\<lambda>e. InternalError ''soft delete tenant'' (DbCause e)) (SoftDeleteTenant u)) (\<lambda>n.
     guardM (n \<noteq> 0) (NotFoundError ''tenant''))"

section \<open>Projects\<close>

definition validateStatus :: "string \<Rightarrow> apperr + unit" where
  "validateStatus status =
     (if status = [] \<or> status \<in> {''active'', ''suspended'', ''archived''} then Inr ()
      else Inl (ValidationError (Msg (''status '' @ status @ '' must be one of active, suspended, archived''))))"

definition CreateProject :: "uuid \<Rightarrow> string \<Rightarrow> string \<Rightarrow> string \<Rightarrow> project_view op" where
  "CreateProject tenantUUID name slug description =
     bindM (liftR (checkSlug ''project slug'' slug)) (\<lambda>_.
     bindM (mapErr (mapReadError ''tenant'') (GetTenantByUUID tenantUUID)) (\<lambda>tenant.
     bindM (mapErr (mapWriteError ''project'' (''project '' @ slug @ '' already exists in this tenant''))
         (CreateProjectRow (t_id tenant) (if name = [] then slug else name) slug description ''active'')) (\<lambda>row.
     ret (toProject row))))"

definition GetProject :: "uuid \<Rightarrow> string \<Rightarrow> project_view op" where
  "GetProject tenantUUID slug =
     bindM (mapErr (mapReadError ''tenant'') (GetTenantByUUID tenantUUID)) (\<lambda>tenant.
     bindM (mapErr (mapReadError ''project'') (GetProjectBySlug (t_id tenant) slug)) (\<lambda>row.
     ret (toProject row)))"

definition DeleteProject :: "uuid \<Rightarrow> uuid \<Rightarrow> unit op" where
  "DeleteProject tenantUUID projectUUID =
     bindM (mapErr (mapReadError ''tenant'') (GetTenantByUUID tenantUUID)) (\<lambda>tenant.
     bindM (mapErr (\<lambda>e. InternalError ''soft delete project'' (DbCause e))
         (SoftDeleteProject (t_id tenant) projectUUID)) (\<lambda>n.
     guardM (n \<noteq> 0) (NotFoundError ''project'')))"

definition UpdateProjectRow :: "string \<Rightarrow> string \<Rightarrow> string \<Rightarrow> nat \<Rightarrow> uuid \<Rightarrow> project query" where
  "UpdateProjectRow name description status tid u = (\<lambda>s.
     let P = (\<lambda>p. p_tenant p = tid \<and> p_uuid p = u \<and> live_project p);
         g = (\<lambda>p. p\<lparr>p_name := name, p_description := description, p_status := status\<rparr>)
     in (case filter P (projects s) of
          [] \<Rightarrow> (Inl NoRows, s)
        | r # _ \<Rightarrow> q_exec
            (if status \<notin> {''active'', ''suspended'', ''archived''} then Some (CheckViolation ''chk_projects_status'') else None)
            (s\<lparr>projects := updating P g (projects s)\<rparr>) (g r) s))"

definition UpdateProject :: "uuid \<Rightarrow> string \<Rightarrow> string \<Rightarrow> string \<Rightarrow> string \<Rightarrow> project_view op" where
  "UpdateProject tenantUUID slug name description status =
     bindM (liftR (validateStatus status)) (\<lambda>_.
     bindM (mapErr (mapReadError ''tenant'') (GetTenantByUUID tenantUUID)) (\<lambda>tenant.
     bindM (mapErr (mapReadError ''project'') (GetProjectBySlug (t_id tenant) slug)) (\<lambda>existing.
     bindM (mapErr (mapWriteError ''project'' ''project could not be updated'')
         (UpdateProjectRow (if name = [] then p_name existing else name) description
           (if status = [] then p_status existing else status) (t_id tenant) (p_uuid existing))) (\<lambda>row.
     ret (toProject row)))))"

section \<open>Environments\<close>

text \<open>The environment and its root folder are created together.\<close>

definition CreateEnvironment ::
    "uuid \<Rightarrow> string \<Rightarrow> string \<Rightarrow> string \<Rightarrow> string \<Rightarrow> int \<Rightarrow> environment_view op" where
  "CreateEnvironment tenantUUID project name slug description position =
     bindM (liftR (checkSlug ''environment slug'' slug)) (\<lambda>_.
     bindM (mapErr (mapReadError ''tenant'') (GetTenantByUUID tenantUUID)) (\<lambda>tenant.
     bindM (mapErr (mapReadError ''project'') (GetProjectBySlug (t_id tenant) project)) (\<lambda>proj.
     InTx (
       bindM (mapErr (mapWriteError ''environment'' (''environment '' @ slug @ '' already exists in project '' @ project))
           (CreateEnvironmentRow (p_id proj) (if name = [] then slug else name) slug description position ''active'')) (\<lambda>row.
       bindM (mapErr (\<lambda>e. InternalError ''create environment root folder'' (DbCause e))
           (CreateFolderRow (e_id row) None [] ''/'')) (\<lambda>_.
       ret (toEnvironment row)))))))"

definition GetEnvironment :: "uuid \<Rightarrow> string \<Rightarrow> string \<Rightarrow> environment_view op" where
  "GetEnvironment tenantUUID project slug =
     bindM (resolveEnvironment tenantUUID project slug) (\<lambda>sc. ret (toEnvironment (sc_env sc)))"

definition DeleteEnvironment :: "uuid \<Rightarrow> string \<Rightarrow> string \<Rightarrow> unit op" where
  "DeleteEnvironment tenantUUID project slug =
     bindM (resolveEnvironment tenantUUID project slug) (\<lambda>sc.
     bindM (mapErr (\<lambda>e. InternalError ''soft delete environment'' (DbCause e))
         (SoftDeleteEnvironment (e_uuid (sc_env sc)) (t_id (sc_tenant sc)))) (\<lambda>n.
     guardM (n \<noteq> 0) (NotFoundError ''environment'')))"

definition UpdateEnvironmentRow :: "string \<Rightarrow> string \<Rightarrow> int \<Rightarrow> string \<Rightarrow> uuid \<Rightarrow> nat \<Rightarrow> environment query" where
  "UpdateEnvironmentRow name description position status u tid = (\<lambda>s.
     let P = (\<lambda>e. e_uuid e = u \<and> live_env e
           \<and> (\<exists>p \<in> set (projects s). p_id p = e_project e \<and> p_tenant p = tid \<and> live_project p));
         g = (\<lambda>e. e\<lparr>e_name := name, e_description := description, e_position := position, e_status := status\<rparr>)
     in (case filter P (environments s) of
          [] \<Rightarrow> (Inl NoRows, s)
        | r # _ \<Rightarrow> q_exec
            (if status \<notin> {''active'', ''suspended'', ''archived''} then Some (CheckViolation ''chk_environments_status'') else None)
            (s\<lparr>environments := updating P g (environments s)\<rparr>) (g r) s))"

definition UpdateEnvironment ::
    "uuid \<Rightarrow> string \<Rightarrow> string \<Rightarrow> string \<Rightarrow> string \<Rightarrow> int \<Rightarrow> string \<Rightarrow> environment_view op" where
  "UpdateEnvironment tenantUUID project slug name description position status =
     bindM (liftR (validateStatus status)) (\<lambda>_.
     bindM (resolveEnvironment tenantUUID project slug) (\<lambda>sc.
     bindM (mapErr (mapWriteError ''environment'' ''environment could not be updated'')
         (UpdateEnvironmentRow (if name = [] then e_name (sc_env sc) else name) description position
           (if status = [] then e_status (sc_env sc) else status) (e_uuid (sc_env sc)) (t_id (sc_tenant sc)))) (\<lambda>row.
     ret (toEnvironment row))))"

section \<open>Folders\<close>

definition CreateFolder :: "uuid \<Rightarrow> string \<Rightarrow> string \<Rightarrow> string \<Rightarrow> folder_view op" where
  "CreateFolder tenantUUID project environment folderPath =
     bindM (liftR (checkPath folderPath)) (\<lambda>normalized.
     bindM (resolveEnvironment tenantUUID project environment) (\<lambda>sc.
     InTx (bindM (ensureFolderPath sc normalized) (\<lambda>row. ret (toFolder row)))))"

definition move_tx :: "scope \<Rightarrow> string \<Rightarrow> string \<Rightarrow> folder_view op" where
  "move_tx sc oldPath newPath =
     (let newParentPath = fst (SplitPath newPath); newName = snd (SplitPath newPath) in
      bindM (mapErr (mapReadError ''folder'') (folder_at sc oldPath)) (\<lambda>node.
      bindM (tryM (folder_at sc newPath)) (\<lambda>r.
      bindM (case r of
          Inr _ \<Rightarrow> fail (ConflictError (''a folder already exists at '' @ newPath))
        | Inl e \<Rightarrow> guardM (e = NoRows) (InternalError ''check destination folder'' (DbCause e))) (\<lambda>_.
      bindM (ensureFolderPath sc newParentPath) (\<lambda>newParent.
      bindM (mapErr (mapWriteError ''folder'' (''a folder already exists at '' @ newPath))
          (ReparentFolder (f_id newParent) newName newPath (f_id node))) (\<lambda>moved.
      bindM (mapErr (\<lambda>e. InternalError ''move folder subtree'' (DbCause e))
          (MoveFolderSubtreePaths newPath oldPath (e_id (sc_env sc)) (SubtreePattern oldPath))) (\<lambda>_.
      bindM (mapErr (\<lambda>e. InternalError ''refresh secret mrn paths'' (DbCause e))
          (RefreshSecretMrnPathsInSubtree (t_id (sc_tenant sc)) (e_id (sc_env sc)) newPath (SubtreePattern newPath))) (\<lambda>_.
      ret (toFolder moved)))))))))"

definition MoveFolder :: "uuid \<Rightarrow> string \<Rightarrow> string \<Rightarrow> string \<Rightarrow> string \<Rightarrow> folder_view op" where
  "MoveFolder tenantUUID project environment from to =
     bindM (liftR (checkPath from)) (\<lambda>oldPath.
     bindM (liftR (checkPath to)) (\<lambda>newPath.
     if oldPath = ''/'' then fail (ForbiddenError ''an environment root folder cannot be moved'')
     else if newPath = ''/'' then fail (invalid ''a folder cannot be moved onto the root path'')
     else if oldPath = newPath then fail (invalid ''source and destination folder paths are the same'')
     else if IsAtOrUnder newPath oldPath
       then fail (invalid (''cannot move '' @ oldPath @ '' into its own subtree at '' @ newPath))
     else bindM (resolveEnvironment tenantUUID project environment) (\<lambda>sc.
       InTx (move_tx sc oldPath newPath))))"

definition DeleteFolder :: "service \<Rightarrow> uuid \<Rightarrow> string \<Rightarrow> string \<Rightarrow> string \<Rightarrow> int option \<Rightarrow> nat op" where
  "DeleteFolder svc tenantUUID project environment folderPath window =
     bindM (liftR (checkPath folderPath)) (\<lambda>normalized.
     bindM (guardM (normalized \<noteq> ''/'') (ForbiddenError ''an environment root folder cannot be deleted'')) (\<lambda>_.
     bindM (resolveEnvironment tenantUUID project environment) (\<lambda>sc.
     InTx (
       bindM (mapErr (mapReadError ''folder'') (folder_at sc normalized)) (\<lambda>_.
       bindM (mapErr (\<lambda>e. InternalError ''soft delete secrets in folder'' (DbCause e))
           (SoftDeleteSecretsInFolderSubtree (destroyAfter svc window) (t_id (sc_tenant sc)) (e_id (sc_env sc))
             normalized (SubtreePattern normalized))) (\<lambda>n.
       bindM (mapErr (\<lambda>e. InternalError ''soft delete folder subtree'' (DbCause e))
           (SoftDeleteFolderSubtree (e_id (sc_env sc)) normalized (SubtreePattern normalized))) (\<lambda>_.
       ret n)))))))"

section \<open>The default scope and flat keys\<close>

text \<open>A create whose conflict means that somebody else was first.\<close>

definition unless_conflict :: "'a op \<Rightarrow> unit op" where
  "unless_conflict m = bindM (tryM m) (\<lambda>r. case r of
     Inl e \<Rightarrow> if IsConflict e then ret () else fail e
   | Inr _ \<Rightarrow> ret ())"

definition EnsureDefaultScope :: "service \<Rightarrow> tenant_view op" where
  "EnsureDefaultScope svc =
     (let name = DefaultTenant (svc_policy svc); project = DefaultProject (svc_policy svc);
          environment = DefaultEnvironment (svc_policy svc)
      in bindM (guardM (name \<noteq> [] \<and> project \<noteq> [] \<and> environment \<noteq> [])
           (invalid ''default tenant, project and environment names are all required'')) (\<lambda>_.
         bindM (tryM (GetTenantRowByName name)) (\<lambda>r.
         bindM (case r of
             Inr t \<Rightarrow> ret t
           | Inl e \<Rightarrow> if e = NoRows
               then bindM (unless_conflict (CreateTenant None name name False)) (\<lambda>_.
                 mapErr (mapReadError ''tenant'') (GetTenantRowByName name))
               else fail (mapReadError ''tenant'' e)) (\<lambda>tenant.
         bindM (tryM (GetProjectBySlug (t_id tenant) project)) (\<lambda>q.
         bindM (case q of
             Inr _ \<Rightarrow> ret ()
           | Inl e \<Rightarrow> if e = NoRows then unless_conflict (CreateProject (t_uuid tenant) project project [])
               else fail (mapReadError ''project'' e)) (\<lambda>_.
         bindM (tryM (GetEnvironment (t_uuid tenant) project environment)) (\<lambda>v.
         bindM (case v of
             Inr _ \<Rightarrow> ret ()
           | Inl e \<Rightarrow> if \<not> IsNotFound e then fail e
               else unless_conflict (CreateEnvironment (t_uuid tenant) project environment environment [] 0)) (\<lambda>_.
         ret (toTenant tenant)))))))))"

definition flat_split :: "string \<Rightarrow> string \<times> string" where
  "flat_split key = (case LastIndexByte key slash of
       None \<Rightarrow> (''/'', key)
     | Some i \<Rightarrow> (if take i key = [] then ''/'' else take i key, drop (i + 1) key))"

definition FlatRef :: "service \<Rightarrow> string \<Rightarrow> secret_ref op" where
  "FlatRef svc flat =
     (let trimmed = TrimSpace flat in
      bindM (guardM (trimmed \<noteq> []) (invalid ''key is required'')) (\<lambda>_.
      let folderPath = fst (flat_split trimmed); key = snd (flat_split trimmed) in
      bindM (liftR (checkPath folderPath)) (\<lambda>normalized.
      bindM (liftR (checkKey key)) (\<lambda>_.
      bindM (tryM (GetTenantRowByName (DefaultTenant (svc_policy svc)))) (\<lambda>r.
        case r of
          Inl e \<Rightarrow> if e = NoRows then fail (NotFoundError (''default tenant '' @ DefaultTenant (svc_policy svc)))
            else fail (InternalError ''read default tenant'' (DbCause e))
        | Inr t \<Rightarrow> ret \<lparr>r_tenant = t_uuid t, r_project = DefaultProject (svc_policy svc),
            r_environment = DefaultEnvironment (svc_policy svc), r_folder = normalized, r_key = key\<rparr>)))))"

definition FlatKey :: "secret_meta \<Rightarrow> string" where
  "FlatKey m = (if m_folder m = ''/'' then m_key m else TrimPrefixByte slash (m_folder m) @ ''/'' @ m_key m)"

definition DefaultTenantUUID :: "service \<Rightarrow> uuid op" where
  "DefaultTenantUUID svc =
     bindM (mapErr (mapReadError ''tenant'') (GetTenantRowByName (DefaultTenant (svc_policy svc)))) (\<lambda>t. ret (t_uuid t))"

section \<open>Moving a folder\<close>

lemma path_matches_under: "old \<noteq> ''/'' \<Longrightarrow> path_matches old (SubtreePattern old) p \<longleftrightarrow> IsAtOrUnder p old"
  by (simp add: path_matches_def SubtreePattern_like IsAtOrUnder_def)

lemma sql_mrn_path_eq: "sql_mrn_path slug path key = mrnResourcePath slug path key"
  by (simp add: sql_mrn_path_def mrnResourcePath_def)

lemma canonical_parent:
  assumes "canonical p" "p \<noteq> ''/''"
  shows "canonical (fst (SplitPath p))"
proof -
  obtain ws where ws: "segments_ok ws" "length ws \<le> maxPathDepth" "p = path_of ws" "length p \<le> maxPathLen" "ws \<noteq> []"
    using assms unfolding canonical_def by (metis path_of_simps(1))
  obtain vs w where vs: "ws = vs @ [w]" using ws(5) by (metis append_butlast_last_id)
  have "fst (SplitPath p) = path_of vs" using ws(1,3) vs by (simp add: SplitPath_path_of)
  moreover have "segments_ok vs" "length vs \<le> maxPathDepth" "length (path_of vs) \<le> length p"
    using ws vs by (simp_all add: path_of_snoc)
  ultimately show ?thesis using ws(4) unfolding canonical_def by auto
qed

text \<open>
  What a move of \<open>node\<close> from \<open>old\<close> to \<open>new\<close>, under \<open>parent\<close>, does to a folder: the node gets its new place, the live
  folders below it the new prefix.
\<close>

definition moved_folder :: "nat \<Rightarrow> string \<Rightarrow> string \<Rightarrow> folder \<Rightarrow> folder \<Rightarrow> folder \<Rightarrow> folder" where
  "moved_folder eid old new node parent f =
     (if f_id f = f_id node
      then f\<lparr>f_parent := Some (f_id parent), f_name := snd (SplitPath new), f_path := new\<rparr>
      else if f_env f = eid \<and> live_folder f \<and> IsAtOrUnder (f_path f) old
      then f\<lparr>f_path := new @ drop (length old) (f_path f)\<rparr> else f)"

lemma moved_folder_id [simp]: "f_id (moved_folder eid old new node parent f) = f_id f"
  by (simp add: moved_folder_def)

lemma ReparentFolder_ok:
  "ReparentFolder parent name path fid s = (Inr r, t) \<Longrightarrow>
     t = s\<lparr>folders := updating (\<lambda>f. f_id f = fid \<and> live_folder f)
       (\<lambda>f. f\<lparr>f_parent := Some parent, f_name := name, f_path := path\<rparr>) (folders s)\<rparr>"
  by (auto simp: ReparentFolder_def q_exec_ok Let_def split: list.splits)

lemma MoveFolderSubtreePaths_ok:
  "MoveFolderSubtreePaths new old eid pat s = (Inr r, t) \<Longrightarrow>
     t = s\<lparr>folders := updating (\<lambda>f. f_env f = eid \<and> path_matches old pat (f_path f) \<and> live_folder f)
       (\<lambda>f. f\<lparr>f_path := new @ drop (length old) (f_path f)\<rparr>) (folders s)\<rparr>"
  by (auto simp: MoveFolderSubtreePaths_def q_exec_ok Let_def)

definition refreshed :: "db \<Rightarrow> nat \<Rightarrow> nat \<Rightarrow> string \<Rightarrow> secret \<Rightarrow> secret" where
  "refreshed s tid eid path r =
     (case secret_join s r of None \<Rightarrow> r
      | Some (f, e) \<Rightarrow> if s_tenant r = tid \<and> s_env r = eid \<and> live_secret r \<and> IsAtOrUnder (f_path f) path
          then r\<lparr>s_mrn_path := mrnResourcePath (e_slug e) (f_path f) (s_key r)\<rparr> else r)"

lemma Refresh_ok:
  "path \<noteq> ''/'' \<Longrightarrow> RefreshSecretMrnPathsInSubtree tid eid path (SubtreePattern path) s = (Inr n, t) \<Longrightarrow>
     t = s\<lparr>secrets := map (refreshed s tid eid path) (secrets s)\<rparr>"
  by (auto simp: RefreshSecretMrnPathsInSubtree_def updating_def refreshed_def path_matches_under sql_mrn_path_eq Let_def
      split: option.splits intro!: map_cong)

lemma refreshed_fields [simp]:
  "s_id (refreshed s tid eid p r) = s_id r" "s_uuid (refreshed s tid eid p r) = s_uuid r"
  "s_folder (refreshed s tid eid p r) = s_folder r" "s_current (refreshed s tid eid p r) = s_current r"
  "s_tenant (refreshed s tid eid p r) = s_tenant r" "s_env (refreshed s tid eid p r) = s_env r"
  "s_key (refreshed s tid eid p r) = s_key r" "s_deleted (refreshed s tid eid p r) = s_deleted r"
  "s_destroy (refreshed s tid eid p r) = s_destroy r" "s_lease_ttl (refreshed s tid eid p r) = s_lease_ttl r"
  "s_lease_max (refreshed s tid eid p r) = s_lease_max r" "s_lease_reads (refreshed s tid eid p r) = s_lease_reads r"
  "s_keep (refreshed s tid eid p r) = s_keep r"
  by (auto simp: refreshed_def split: option.splits)

text \<open>
  A folder made on the way to a path: live, named by the last segment of its path, and under the folder of the
  path before.
\<close>

definition placed :: "nat \<Rightarrow> string \<Rightarrow> folder \<Rightarrow> bool" where
  "placed eid path f \<longleftrightarrow> f_env f = eid \<and> live_folder f \<and> f_path f = path"

definition created_folder :: "nat \<Rightarrow> folder list \<Rightarrow> folder \<Rightarrow> bool" where
  "created_folder eid fs g \<longleftrightarrow> placed eid (f_path g) g \<and> f_name g = snd (SplitPath (f_path g))
     \<and> (\<exists>h \<in> set fs. placed eid (fst (SplitPath (f_path g))) h \<and> f_parent g = Some (f_id h))"

lemma CreateFolderRow_columns:
  "CreateFolderRow eid parent name path s = (Inr f, t) \<Longrightarrow> f_name f = name \<and> f_parent f = parent \<and> placed eid path f"
  by (auto simp: CreateFolderRow_def q_ok Let_def placed_def live_folder_def split: option.splits if_splits)

lemma created_folder_more: "created_folder eid fs g \<Longrightarrow> set fs \<subseteq> set gs \<Longrightarrow> created_folder eid gs g"
  unfolding created_folder_def by blast

lemma folder_at_placed: "folder_at sc path s = (Inr f, t) \<Longrightarrow> f \<in> set (folders s) \<and> placed (e_id (sc_env sc)) path f"
  using folder_at_ok [of sc path s f] folder_at_run(1) [of sc path s "Inr f" t] by (auto simp: placed_def)

lemma ensure_segments_made:
  assumes "ensure_segments sc built cur segs s = (Inr f, t)" "\<And>w. JoinPath built w = path_of (ws @ [w])"
    and "segments_ok (ws @ segs)" "cur \<in> set (folders s)" "placed (e_id (sc_env sc)) (path_of ws) cur"
  shows "\<exists>made. t = s\<lparr>folders := folders s @ made, seq := seq s + length made\<rparr> \<and> f \<in> set (folders t)
     \<and> placed (e_id (sc_env sc)) (path_of (ws @ segs)) f
     \<and> (\<forall>g \<in> set made. created_folder (e_id (sc_env sc)) (folders t) g \<and> (\<exists>vs. vs \<noteq> [] \<and> prefix vs (ws @ segs) \<and> f_path g = path_of vs))"
  using assms
proof (induction segs arbitrary: built cur ws s)
  case Nil
  then show ?case by (auto simp: ret_run intro!: exI [of _ "[]"])
next
  case (Cons seg rest)
  let ?b = "path_of (ws @ [seg])" and ?e = "e_id (sc_env sc)"
  have join: "JoinPath ?b w = path_of ((ws @ [seg]) @ [w])" for w
    using JoinPath_path_of [of "ws @ [seg]"] Cons.prems(3) by simp
  note IH = Cons.IH [OF _ join, simplified]
  obtain r u where at: "folder_at sc ?b s = (r, u)" by fastforce
  then have u: "u = s" using folder_at_run(1) by blast
  show ?case
  proof (cases r)
    case (Inr g)
    then have "ensure_segments sc ?b g rest s = (Inr f, t)"
      using Cons.prems(1) at u by (simp add: Cons.prems(2) Let_def bindM_def tryM_def)
    from IH [OF this] folder_at_placed [OF at [unfolded Inr]] Cons.prems(3) show ?thesis by simp
  next
    case (Inl e)
    then have e: "e = NoRows" using folder_at_run(2) at by blast
    obtain g v where g: "CreateFolderRow ?e (Some (f_id cur)) seg ?b s = (Inr g, v)"
        "ensure_segments sc ?b g rest v = (Inr f, t)"
      using Cons.prems(1) at Inl u e
      by (auto simp: Cons.prems(2) Let_def bindM_def tryM_def mapErr_def split: prod.splits sum.splits)
    note v = CreateFolderRow_ok [OF g(1)] CreateFolderRow_columns [OF g(1)]
    from IH [OF g(2)] v Cons.prems(3) obtain made where made: "t = v\<lparr>folders := folders v @ made, seq := seq v + length made\<rparr>"
        "f \<in> set (folders t)" "placed ?e (path_of (ws @ seg # rest)) f"
        "\<forall>g \<in> set made. created_folder ?e (folders t) g \<and> (\<exists>vs. vs \<noteq> [] \<and> prefix vs (ws @ seg # rest) \<and> f_path g = path_of vs)"
      by auto
    have path: "f_path g = ?b" using v by simp
    have "SplitPath ?b = (path_of ws, seg)" using SplitPath_path_of [of ws seg] Cons.prems(3) by simp
    then have "created_folder ?e (folders t) g"
      using v Cons.prems(4,5) made(1) unfolding created_folder_def path by (auto intro!: bexI [of _ cur])
    moreover have "\<exists>vs. vs \<noteq> [] \<and> prefix vs (ws @ seg # rest) \<and> f_path g = path_of vs"
      unfolding path by (intro exI [of _ "ws @ [seg]"]) simp
    ultimately have "\<forall>x \<in> set (g # made). created_folder ?e (folders t) x
        \<and> (\<exists>vs. vs \<noteq> [] \<and> prefix vs (ws @ seg # rest) \<and> f_path x = path_of vs)"
      using made(4) by auto
    with made v show ?thesis by (intro exI [of _ "g # made"]) simp
  qed
qed

lemma ensureFolderPath_made:
  assumes run: "ensureFolderPath sc (path_of ws) s = (Inr f, t)" and ws: "segments_ok ws"
  shows "\<exists>made. t = s\<lparr>folders := folders s @ made, seq := seq s + length made\<rparr> \<and> f \<in> set (folders t)
     \<and> placed (e_id (sc_env sc)) (path_of ws) f
     \<and> (\<forall>g \<in> set made. created_folder (e_id (sc_env sc)) (folders t) g \<and> (\<exists>vs. vs \<noteq> [] \<and> prefix vs ws \<and> f_path g = path_of vs))"
proof -
  obtain root where root: "folder_at sc ''/'' s = (Inr root, s)"
    using run by (auto simp: ensureFolderPath_def run_ok dest: folder_at_run)
  have "ensure_segments sc [] root ws s = (Inr f, t)"
    using run root ws path_of_root [OF ws] by (cases "ws = []") (simp_all add: ensureFolderPath_def bindM_def mapErr_def)
  from ensure_segments_made [OF this, of "[]"] ws folder_at_placed [OF root] show ?thesis
    by (simp add: JoinPath_def path_of_snoc [of "[]", simplified])
qed

lemma refreshed_cong: "folders u = folders s \<Longrightarrow> environments u = environments s \<Longrightarrow> refreshed u = refreshed s"
  by (intro ext) (simp add: refreshed_def secret_join_def cong: option.case_cong)

lemma move_tx_steps:
  assumes run: "move_tx sc old new s = (Inr v, t)"
  obtains node np s1 mv s2 n1 s3 n2 where "folder_at sc old s = (Inr node, s)"
    "ensureFolderPath sc (fst (SplitPath new)) s = (Inr np, s1)"
    "ReparentFolder (f_id np) (snd (SplitPath new)) new (f_id node) s1 = (Inr mv, s2)"
    "MoveFolderSubtreePaths new old (e_id (sc_env sc)) (SubtreePattern old) s2 = (Inr n1, s3)"
    "RefreshSecretMrnPathsInSubtree (t_id (sc_tenant sc)) (e_id (sc_env sc)) new (SubtreePattern new) s3 = (Inr n2, t)"
proof -
  obtain node s' where n: "folder_at sc old s = (Inr node, s')"
    using run by (auto simp: move_tx_def Let_def run_ok)
  then have s': "s' = s" using folder_at_run by blast
  obtain r s'' where r: "folder_at sc new s = (r, s'')" by fastforce
  then have s'': "s'' = s" using folder_at_run by blast
  have "r = Inl NoRows"
  proof (cases r)
    case (Inl e)
    then show ?thesis using folder_at_run r by blast
  next
    case (Inr x)
    then show ?thesis using run n r s' s'' by (auto simp: move_tx_def Let_def run_ok)
  qed
  with run n r s' s'' that show ?thesis by (auto simp: move_tx_def Let_def run_ok)
qed

text \<open>A move, exactly: the folders and the secrets after it, and that nothing else has changed.\<close>

lemma move_tx_ok:
  assumes run: "move_tx sc old new s = (Inr v, t)" and sc: "scope_in s sc" and ok: "store_ok s"
    and new: "canonical new" "new \<noteq> ''/''" and old: "canonical old" "old \<noteq> ''/''" and out: "\<not> IsAtOrUnder new old"
  shows "\<exists>node parent made. folder_at sc old s = (Inr node, s) \<and> parent \<in> set (folders t)
     \<and> placed (e_id (sc_env sc)) (fst (SplitPath new)) parent
     \<and> folders t = map (moved_folder (e_id (sc_env sc)) old new node parent) (folders s) @ made
     \<and> (\<forall>g \<in> set made. created_folder (e_id (sc_env sc)) (folders t) g \<and> IsAtOrUnder (fst (SplitPath new)) (f_path g))
     \<and> secrets t = map (refreshed t (t_id (sc_tenant sc)) (e_id (sc_env sc)) new) (secrets s)
     \<and> t = s\<lparr>folders := folders t, secrets := secrets t, seq := seq s + length made\<rparr>"
proof -
  let ?eid = "e_id (sc_env sc)"
  obtain node np s1 mv s2 n1 s3 n2 where node: "folder_at sc old s = (Inr node, s)"
    and e: "ensureFolderPath sc (fst (SplitPath new)) s = (Inr np, s1)"
    and rp: "ReparentFolder (f_id np) (snd (SplitPath new)) new (f_id node) s1 = (Inr mv, s2)"
    and mvs: "MoveFolderSubtreePaths new old ?eid (SubtreePattern old) s2 = (Inr n1, s3)"
    and rf: "RefreshSecretMrnPathsInSubtree (t_id (sc_tenant sc)) ?eid new (SubtreePattern new) s3 = (Inr n2, t)"
    using move_tx_steps [OF run] .
  note s2 = ReparentFolder_ok [OF rp] and s3 = MoveFolderSubtreePaths_ok [OF mvs] and t = Refresh_ok [OF new(2) rf]
  obtain os ns n where os: "old = path_of os" "segments_ok os" and ns: "new = path_of (ns @ [n])" "segments_ok (ns @ [n])"
    using old(1) new canonical_def path_of_simps(1) rev_exhaust by metis
  have par: "SplitPath new = (path_of ns, n)" "segments_ok ns" using SplitPath_path_of [of ns n] ns by simp_all
  have up: "\<not> IsAtOrUnder (path_of vs) old" if "prefix vs ns" for vs
  proof -
    have "segments_ok vs" using that par(2) by (auto simp: prefix_def)
    then show ?thesis using that out IsAtOrUnder_path_of [of os vs] IsAtOrUnder_path_of [of os "ns @ [n]"] os ns
      by (auto dest: prefix_order.trans)
  qed
  obtain made where made: "s1 = s\<lparr>folders := folders s @ made, seq := seq s + length made\<rparr>" "np \<in> set (folders s1)"
      "placed ?eid (path_of ns) np"
      "\<forall>g \<in> set made. created_folder ?eid (folders s1) g \<and> (\<exists>vs. vs \<noteq> [] \<and> prefix vs ns \<and> f_path g = path_of vs)"
    using ensureFolderPath_made [of sc ns s np s1] e par by auto
  let ?m = "moved_folder ?eid old new node np"
  have nd: "node \<in> set (folders s)" "live_folder node" "f_path node = old"
    using folder_at_placed [OF node] by (simp_all add: placed_def)
  have d: "distinct (map f_id (folders s1))"
    using store_okD(9) more_folders_store_ok ensureFolderPath_ok [OF e sc canonical_parent [OF new]] ok by blast
  have node1: "f = node" if "f \<in> set (folders s1)" "f_id f = f_id node" for f
    using distinct_map_eq [OF d that(1)] nd(1) that(2) made(1) by simp
  have high: "?m f = f" if "f \<in> set (folders s1)" "f_path f = path_of vs" "prefix vs ns" for f vs
  proof -
    have "f_path f \<noteq> old" using up [OF that(3)] that(2) by (auto simp: IsAtOrUnder_def)
    then have "f_id f \<noteq> f_id node" using node1 [OF that(1)] nd(3) by auto
    then show ?thesis using up [OF that(3)] that(2) by (simp add: moved_folder_def)
  qed
  have step: "(if f_env g = ?eid \<and> path_matches old (SubtreePattern old) (f_path g) \<and> live_folder g
        then g\<lparr>f_path := new @ drop (length old) (f_path g)\<rparr> else g) = ?m f"
    if f: "f \<in> set (folders s1)" and g: "g = (if f_id f = f_id node \<and> live_folder f
        then f\<lparr>f_parent := Some (f_id np), f_name := snd (SplitPath new), f_path := new\<rparr> else f)" for f g
    using node1 [OF f] nd(2) out unfolding g by (auto simp: moved_folder_def path_matches_under [OF old(2)])
  have "folders t = map ?m (folders s1)"
    using step by (simp add: t s3 s2 updating_def)
  also have "\<dots> = map ?m (folders s) @ made"
  proof -
    have "?m g = g" if "g \<in> set made" for g
    proof -
      from made(4) that obtain vs where "prefix vs ns" "f_path g = path_of vs" by blast
      with high [of g vs] that show ?thesis by (simp add: made(1))
    qed
    then have "map ?m made = made" by (simp add: map_idI)
    then show ?thesis by (simp add: made(1))
  qed
  finally have fs: "folders t = map ?m (folders s) @ made" .
  have keep: "h \<in> set (folders t)" if "h \<in> set (folders s1)" "f_path h = path_of vs" "prefix vs ns" for h vs
    using high [OF that] that(1) \<open>folders t = map ?m (folders s1)\<close> by (metis image_eqI list.set_map)
  have "created_folder ?eid (folders t) g \<and> IsAtOrUnder (path_of ns) (f_path g)" if g: "g \<in> set made" for g
  proof -
    from g made(4) obtain vs where vs: "created_folder ?eid (folders s1) g" "vs \<noteq> []" "prefix vs ns" "f_path g = path_of vs" by blast
    have sv: "segments_ok vs" using vs(3) par(2) by (auto simp: prefix_def)
    obtain us w where us: "vs = us @ [w]" using vs(2) by (meson rev_exhaust)
    then have "fst (SplitPath (f_path g)) = path_of us" "prefix us ns"
      using vs(3,4) sv SplitPath_path_of [of us w] by (auto simp: prefix_def)
    with vs(1) keep have "created_folder ?eid (folders t) g"
      unfolding created_folder_def placed_def by metis
    with vs sv par(2) show ?thesis by (simp add: IsAtOrUnder_path_of)
  qed
  moreover have "np \<in> set (folders t)" using keep [OF made(2) _ prefix_order.refl] made(3) by (simp add: placed_def)
  moreover have "refreshed t = refreshed s3" by (rule refreshed_cong) (simp_all add: t)
  then have "secrets t = map (refreshed t (t_id (sc_tenant sc)) ?eid new) (secrets s)" by (simp add: t s3 s2 made(1))
  moreover have "t = s\<lparr>folders := folders t, secrets := secrets t, seq := seq s + length made\<rparr>" by (simp add: t s3 s2 made(1))
  ultimately show ?thesis using node fs made(3) par(1) by (intro exI [of _ node] exI [of _ np] exI [of _ made]) simp
qed

section \<open>The invariant of the secret tables\<close>

lemma keeps_store_okI:
  assumes "\<And>s r t. m s = (r, t) \<Longrightarrow> t = s \<or> (secrets t = secrets s \<and> versions t = versions s \<and> seq s \<le> seq t
     \<and> map f_id (folders t) = map f_id (folders s))"
  shows "keeps store_ok m"
  unfolding keeps_def
proof (intro allI impI)
  fix s r t
  assume run: "m s = (r, t)" and ok: "store_ok s"
  show "store_ok t"
  proof (cases "t = s")
    case False
    with assms [OF run] have c: "secrets t = secrets s" "versions t = versions s" "seq s \<le> seq t"
        "map f_id (folders t) = map f_id (folders s)" by auto
    have "set (map f_id (folders t)) = set (map f_id (folders s))" using c(4) by simp
    then have "\<forall>f \<in> set (folders t). f_id f < seq t"
      using store_okD(8) [OF ok] c(3) by (metis (no_types, lifting) image_iff list.set_map order_less_le_trans)
    with c store_okD(9) [OF ok] show ?thesis by (intro store_ok_cong [OF c(1-3) _ _ ok]) simp_all
  qed (use ok in simp)
qed

lemma keeps_scope_rows [keeps_rules]:
  "keeps store_ok (CreateTenantRow a n d st sy)" "keeps store_ok (SoftDeleteTenant u)"
  "keeps store_ok (CreateProjectRow tid n sl d st)" "keeps store_ok (SoftDeleteProject tid u)"
  "keeps store_ok (UpdateProjectRow n d st tid u)"
  "keeps store_ok (CreateEnvironmentRow pid n sl d po st)" "keeps store_ok (SoftDeleteEnvironment u tid)"
  "keeps store_ok (UpdateEnvironmentRow n d po st u tid)"
  by (rule keeps_store_okI; auto simp: CreateTenantRow_def SoftDeleteTenant_def CreateProjectRow_def SoftDeleteProject_def
      UpdateProjectRow_def CreateEnvironmentRow_def SoftDeleteEnvironment_def UpdateEnvironmentRow_def q_exec_def Let_def
      split: option.splits list.splits if_splits)+

lemma keeps_scope_reads [keeps_rules]:
  "keeps I (GetTenantRowByName n)" "keeps I (GetProjectBySlug tid sl)" "keeps I (folder_at sc p)"
  "keeps I (resolveEnvironment tu pr en)"
  by (auto intro!: pure_keeps pure_rules simp: GetTenantRowByName_def GetProjectBySlug_def)

lemma keeps_folder_rows [keeps_rules]:
  "keeps store_ok (ReparentFolder pa n p fid)" "keeps store_ok (MoveFolderSubtreePaths new old eid pat)"
  "keeps store_ok (SoftDeleteFolderSubtree eid p pat)"
  by (rule keeps_store_okI; auto simp: ReparentFolder_def MoveFolderSubtreePaths_def SoftDeleteFolderSubtree_def
      q_exec_def Let_def updating_map split: option.splits list.splits if_splits)+

lemma keeps_CreateFolderRow [keeps_rules]: "keeps store_ok (CreateFolderRow eid pa n p)"
  unfolding keeps_def
proof (intro allI impI)
  fix s r t
  assume run: "CreateFolderRow eid pa n p s = (r, t)" and ok: "store_ok s"
  show "store_ok t"
  proof (cases r)
    case (Inl e)
    with run have "t = s" by (auto simp: CreateFolderRow_def q_exec_err Let_def)
    with ok show ?thesis by simp
  next
    case (Inr f)
    with run show ?thesis using CreateFolderRow_more more_folders_store_ok ok by blast
  qed
qed

lemma keeps_ensure_segments [keeps_rules]: "keeps store_ok (ensure_segments sc built cur segs)"
proof (induction sc built cur segs rule: ensure_segments.induct)
  case (1 sc built cur)
  show ?case by simp
next
  case (2 sc built cur seg rest)
  then show ?case by (auto simp: Let_def intro!: keeps_rules simp del: keeps_simple)
qed

lemma keeps_ensureFolderPath [keeps_rules]: "keeps store_ok (ensureFolderPath sc p)"
  unfolding ensureFolderPath_def by (intro keeps_rules)

text \<open>Changing secrets in place, and marking them deleted, without touching what the invariant names.\<close>

lemma map_secrets_store_ok:
  assumes ok: "store_ok s" and t: "t = s\<lparr>secrets := map h (secrets s)\<rparr>"
    and h: "\<And>r. r \<in> set (secrets s) \<Longrightarrow> s_id (h r) = s_id r \<and> s_folder (h r) = s_folder r \<and> s_current (h r) = s_current r
       \<and> s_uuid (h r) = s_uuid r \<and> s_env (h r) = s_env r \<and> s_key (h r) = s_key r \<and> s_keep (h r) = s_keep r
       \<and> s_lease_ttl (h r) = s_lease_ttl r \<and> s_lease_max (h r) = s_lease_max r \<and> s_lease_reads (h r) = s_lease_reads r
       \<and> (live_secret (h r) \<longrightarrow> live_secret r \<and> s_destroy (h r) = s_destroy r)"
  shows "store_ok t"
proof -
  have c: "chk_secret (h r) = None" if r: "r \<in> set (secrets s)" for r
  proof -
    have "chk_secret r = None" using store_okD(2) [OF ok] r by (simp add: secrets_error_None)
    with h [OF r] show ?thesis by (auto simp: chk_secret_def live_secret_def split: if_splits)
  qed
  have u: "distinct (map s_uuid (secrets s))"
      "distinct (map (\<lambda>r. (s_env r, s_folder r, s_key r)) (filter live_secret (secrets s)))"
    using store_okD(3) [OF ok] by (simp_all add: uq_secrets_def)
  have "map (\<lambda>r. (s_env r, s_folder r, s_key r)) (filter live_secret (map h (secrets s)))
      = map (\<lambda>r. (s_env r, s_folder r, s_key r)) (filter (\<lambda>r. live_secret (h r)) (secrets s))"
    using h by (simp add: filter_map o_def)
  also have "filter (\<lambda>r. live_secret (h r)) (secrets s) = filter (\<lambda>r. live_secret (h r)) (filter live_secret (secrets s))"
    using h by (auto simp: filter_filter intro!: filter_cong)
  finally have d: "distinct (map (\<lambda>r. (s_env r, s_folder r, s_key r)) (filter live_secret (map h (secrets s))))"
    using distinct_map_filter [OF u(2)] by simp
  have us: "map s_uuid (map h (secrets s)) = map s_uuid (secrets s)" using h by simp
  have "distinct (map s_uuid (map h (secrets s)))" unfolding us by (rule u(1))
  with d have e: "secrets_error (map h (secrets s)) = None"
    using c unfolding secrets_error_None uq_secrets_def by auto
  have ids: "map s_id (map h (secrets s)) = map s_id (secrets s)" using h by simp
  have ss: "secret_ok t x" if x: "x \<in> set (secrets t)" for x
  proof -
    obtain r where "r \<in> set (secrets s)" "x = h r" using x by (auto simp: t)
    then show ?thesis using store_okD(7) [OF ok, of r] h [of r] by (auto simp: secret_ok_def t)
  qed
  have vs: "version_ok t v" if v: "v \<in> set (versions s)" for v
  proof -
    obtain r where r: "r \<in> set (secrets s)" "s_id r = v_secret v" "v_version v \<le> s_current r" "1 \<le> v_version v"
        "v_id v < seq s"
      using store_okD(6) [OF ok v] by (auto simp: version_ok_def)
    then show ?thesis using h [OF r(1)] unfolding version_ok_def
      by (intro conjI bexI [of _ "h r"]) (simp_all add: t)
  qed
  have d: "distinct (map s_id (secrets t))" using ids store_okD(1) [OF ok] by (simp add: t del: map_map)
  have "secrets_error (secrets t) = None" using e by (simp add: t del: map_map)
  with d ss vs ok show ?thesis unfolding store_ok_def by (simp add: t del: map_map set_map)
qed

lemma keeps_Refresh [keeps_rules]: "keeps store_ok (RefreshSecretMrnPathsInSubtree tid eid p pat)"
  unfolding keeps_def
  by (intro allI impI, rule map_secrets_store_ok)
     (auto simp: RefreshSecretMrnPathsInSubtree_def updating_def Let_def live_secret_def split: option.splits if_splits)

lemma keeps_SoftDeleteSecrets [keeps_rules]: "keeps store_ok (SoftDeleteSecretsInFolderSubtree da tid eid p pat)"
  unfolding keeps_def
  by (intro allI impI, rule map_secrets_store_ok)
     (auto simp: SoftDeleteSecretsInFolderSubtree_def updating_def Let_def live_secret_def split: if_splits)

lemma hierarchy_ops_keep [keeps_rules]:
  "keeps store_ok (CreateTenant a n d sy)" "keeps store_ok (DeleteTenant u)"
  "keeps store_ok (CreateProject tu n sl d)" "keeps store_ok (DeleteProject tu pu)"
  "keeps store_ok (UpdateProject tu sl n d st)"
  "keeps store_ok (CreateEnvironment tu pr n sl d po)" "keeps store_ok (DeleteEnvironment tu pr sl)"
  "keeps store_ok (UpdateEnvironment tu pr sl n d po st)" "keeps store_ok (GetEnvironment tu pr sl)"
  "keeps store_ok (CreateFolder tu pr en fp)" "keeps store_ok (MoveFolder tu pr en fr to)"
  "keeps store_ok (DeleteFolder svc tu pr en fp win)"
  unfolding CreateTenant_def DeleteTenant_def CreateProject_def DeleteProject_def UpdateProject_def CreateEnvironment_def
    DeleteEnvironment_def UpdateEnvironment_def GetEnvironment_def CreateFolder_def MoveFolder_def move_tx_def DeleteFolder_def Let_def
  by (intro keeps_rules)+

lemma keeps_unless_conflict [keeps_rules]: "keeps store_ok m \<Longrightarrow> keeps store_ok (unless_conflict m)"
  unfolding unless_conflict_def by (intro keeps_rules)

lemma keeps_EnsureDefaultScope [keeps_rules]: "keeps store_ok (EnsureDefaultScope svc)"
  unfolding EnsureDefaultScope_def Let_def by (intro keeps_rules)

end
