(* ===== verification/SecretProps.thy ===== *)
theory SecretProps
  imports SecretLaws
begin

text \<open>
  The properties of the operations on secrets, each with an instance on a small store: one tenant,
  project and environment, its root folder, one active root key.
\<close>

section \<open>A small store\<close>

definition sample_ring :: keyring where
  "sample_ring = \<lparr>active = aesKEK sample_prims ''env'' (replicate 32 9),
     byID = [fingerprint sample_prims ''env'' (replicate 32 9) \<mapsto> aesKEK sample_prims ''env'' (replicate 32 9)]\<rparr>"

definition sample_svc :: service where
  "sample_svc = \<lparr>svc_prims = sample_prims, svc_ring = sample_ring,
     svc_policy = \<lparr>KeepVersions = 2, RecoveryWindow = 10, RewrapBatch = 100, DefaultTenant = ''default'',
       DefaultProject = ''default'', DefaultEnvironment = ''default''\<rparr>, svc_now = 100\<rparr>"

definition sample_db :: db where
  "sample_db = \<lparr>
     tenants = [\<lparr>t_id = 1, t_uuid = ''tu'', t_auth = None, t_name = ''acme'', t_display = ''Acme'',
       t_status = ''active'', t_system = False, t_created = 0, t_deleted = None\<rparr>],
     projects = [\<lparr>p_id = 2, p_uuid = ''pu'', p_tenant = 1, p_name = ''web'', p_slug = ''web'',
       p_description = [], p_status = ''active'', p_deleted = None\<rparr>],
     environments = [\<lparr>e_id = 3, e_uuid = ''eu'', e_project = 2, e_name = ''prod'', e_slug = ''prod'',
       e_description = [], e_position = 0, e_status = ''active'', e_deleted = None\<rparr>],
     folders = [\<lparr>f_id = 4, f_uuid = ''fu'', f_env = 3, f_parent = None, f_name = [], f_path = ''/'', f_deleted = None\<rparr>],
     secrets = [], versions = [],
     root_keys = [\<lparr>k_id = fingerprint sample_prims ''env'' (replicate 32 9), k_provider = ''env'',
       k_state = ''active'', k_created = 0, k_activated = Some 0, k_retired = None\<rparr>],
     transit_keys = [], transit_versions = [], scope_imports = [], secret_leases = [], audit_log = [],
     seq = 5, uuid_at = (\<lambda>n. replicate n CHR ''u''), db_now = 100, guc_delete = [], guc_rewrap = [], guc_transit = []\<rparr>"

definition sample_ref :: secret_ref where
  "sample_ref = \<lparr>r_tenant = ''tu'', r_project = ''web'', r_environment = ''prod'', r_folder = ''/db'', r_key = ''PASSWORD''\<rparr>"

definition sample_put :: put_input where
  "sample_put = \<lparr>pi_ref = sample_ref, pi_value = Some (bytes_of ''pw''), pi_type = ''opaque'', pi_description = [],
     pi_tags = [], pi_keep = None, pi_rotation = [], pi_expires = None, pi_create_folders = True\<rparr>"

lemma sample_ok: "store_ok sample_db"
  by (simp add: store_ok_def sample_db_def secrets_error_None uq_secrets_def uq_versions_def)

lemma sample_ring_ok: "ring_ok sample_svc"
  using aes.root_key_provider_axioms
  by (simp add: ring_ok_def sample_svc_def sample_ring_def Provider_def Active_def aesKEK_def Let_def)

lemma sample_put_runs:
  "(case fst (PutSecret sample_svc sample_draws sample_put sample_db) of
      Inl e \<Rightarrow> False | Inr r \<Rightarrow> \<not> pr_unchanged r \<and> pr_version r = 1 \<and> pr_created r)"
  by code_simp

lemma sample_put_obtain:
  obtains r t where "PutSecret sample_svc sample_draws sample_put sample_db = (Inr r, t)" "\<not> pr_unchanged r"
    "pr_version r = 1"
  using sample_put_runs
  by (cases "PutSecret sample_svc sample_draws sample_put sample_db") (auto split: sum.splits)

section \<open>Put, then get\<close>

lemma put_get:
  assumes run: "PutSecret svc rnd inp s = (Inr res, t)" and ok: "store_ok s" and ring: "ring_ok svc"
    and new: "\<not> pr_unchanged res"
  shows "\<exists>r. GetSecret svc (pi_ref inp) t = (Inr r, t) \<and> Some (rv_value r) = pi_value inp
     \<and> rv_version r = pr_version res \<and> rv_type r = (if pi_type inp = [] then ''opaque'' else pi_type inp)"
proof -
  let ?vt = "if pi_type inp = [] then ''opaque'' else pi_type inp"
  obtain val path u where v: "pi_value inp = Some val" "ValidateKey (r_key (pi_ref inp)) = None"
      "NormalizePath (r_folder (pi_ref inp)) = Inr path"
      "put_tx svc rnd inp val ?vt path (s\<lparr>guc_delete := [], guc_rewrap := [], guc_transit := []\<rparr>) = (Inr res, u)"
      "t = u\<lparr>guc_delete := guc_delete s, guc_rewrap := guc_rewrap s, guc_transit := guc_transit s\<rparr>"
    using PutSecret_ok [OF run] by blast
  have ok': "store_ok (s\<lparr>guc_delete := [], guc_rewrap := [], guc_transit := []\<rparr>)" using ok by simp
  have "\<exists>r. GetSecret svc (pi_ref inp) u = (Inr r, u) \<and> rv_value r = val \<and> rv_version r = pr_version res
      \<and> rv_type r = ?vt"
    using put_tx_ok [OF v(4) ok' Normalize_canonical [OF v(3)]]
  proof (rule put_shapeE)
    assume "pr_unchanged res"
    with new show ?thesis by simp
  next
    fix sc folder s1 row s2 created
    let ?s = "s\<lparr>guc_delete := [], guc_rewrap := [], guc_transit := []\<rparr>"
    assume e: "resolveEnvironment (r_tenant (pi_ref inp)) (r_project (pi_ref inp)) (r_environment (pi_ref inp)) ?s = (Inr sc, ?s)"
      and m: "more_folders ?s s1" and f: "folder_at sc path s1 = (Inr folder, s1)"
      and at: "at_address (t_id (sc_tenant sc)) (e_id (sc_env sc)) (f_id folder) (r_key (pi_ref inp)) row"
      and ok2: "store_ok s2" and row: "row \<in> set (secrets s2)"
      and s2: "s2 = s1 \<and> \<not> created \<or> created \<and> s2 = s1\<lparr>secrets := secrets s1 @ [row], seq := Suc (seq s1)\<rparr> \<and> s_current row = 0"
      and run2: "put_append svc rnd inp val ?vt \<lparr>ad_scope = sc, ad_folder = folder, ad_key = r_key (pi_ref inp)\<rparr>
        row created s2 = (Inr res, u)"
    have same: "tenants s2 = tenants s" "projects s2 = projects s" "environments s2 = environments s"
        "folders s2 = folders s1" "projects s2 = projects s1" "environments s2 = environments s1"
      using s2 more_folders_same [OF m] by auto
    have "resolveEnvironment (r_tenant (pi_ref inp)) (r_project (pi_ref inp)) (r_environment (pi_ref inp)) s2 = (Inr sc, s2)"
      by (rule resolveEnvironment_cong [OF _ _ _ e]) (simp_all add: same(1-3))
    moreover have "folder_at sc path s2 = (Inr folder, s2)"
      by (rule folder_at_cong [OF _ _ _ f]) (fact same)+
    ultimately show ?thesis
      using get_after_append [OF run2 ok2 row ring refl at _ _ v(2,3)] by blast
  qed
  then show ?thesis
    using guc_freeD [OF guc_free_getVersion] v(1,5) unfolding GetSecret_def by fastforce
qed

text \<open>
  C1: a value that was put is read back: after a successful \<open>PutSecret\<close> that wrote a version, on any
  store within the invariant and under a root key that unwraps what it wrapped, \<open>GetSecret\<close> of
  the same address succeeds, returns exactly the plaintext, the version number the put reported
  and the value type asked for, and does not change the store.
\<close>

theorem put_then_get:
  assumes "PutSecret svc rnd inp s = (Inr res, t)" "store_ok s" "ring_ok svc" "\<not> pr_unchanged res"
  shows "\<exists>r. GetSecret svc (pi_ref inp) t = (Inr r, t) \<and> Some (rv_value r) = pi_value inp
     \<and> rv_version r = pr_version res \<and> rv_type r = (if pi_type inp = [] then ''opaque'' else pi_type inp)"
  using assms by (rule put_get)

theorem put_then_get_witness:
  "\<exists>res t r. PutSecret sample_svc sample_draws sample_put sample_db = (Inr res, t)
     \<and> GetSecret sample_svc sample_ref t = (Inr r, t) \<and> rv_value r = bytes_of ''pw'' \<and> rv_version r = 1"
proof -
  obtain res t where r: "PutSecret sample_svc sample_draws sample_put sample_db = (Inr res, t)" "\<not> pr_unchanged res"
      "pr_version res = 1"
    by (rule sample_put_obtain)
  from put_then_get [OF r(1) sample_ok sample_ring_ok r(2)] r(1,3) show ?thesis
    by (auto simp: sample_put_def)
qed

text \<open>
  Writing the value that is already stored writes nothing: a \<open>PutSecret\<close> that reports
  \<open>unchanged\<close> leaves every secret and every version as it was (at most folders were created), and
  it reports it only when the newest version's checksum is the checksum of the value.
\<close>

theorem put_unchanged_is_noop:
  assumes "PutSecret svc rnd inp s = (Inr res, t)" "store_ok s" "pr_unchanged res"
  shows "secrets t = secrets s \<and> versions t = versions s \<and> root_keys t = root_keys s
     \<and> (\<exists>row v vs val. row \<in> set (secrets s) \<and> s_uuid row = pr_uuid res \<and> versions_desc (s_id row) s = v # vs
          \<and> v_version v = pr_version res \<and> pi_value inp = Some val \<and> v_checksum v = checksum (svc_prims svc) val)"
proof -
  obtain val path u where v: "pi_value inp = Some val" "NormalizePath (r_folder (pi_ref inp)) = Inr path"
      "put_tx svc rnd inp val (if pi_type inp = [] then ''opaque'' else pi_type inp) path
         (s\<lparr>guc_delete := [], guc_rewrap := [], guc_transit := []\<rparr>) = (Inr res, u)"
      "t = u\<lparr>guc_delete := guc_delete s, guc_rewrap := guc_rewrap s, guc_transit := guc_transit s\<rparr>"
    using PutSecret_ok [OF assms(1)] by blast
  have "store_ok (s\<lparr>guc_delete := [], guc_rewrap := [], guc_transit := []\<rparr>)" using assms(2) by simp
  from put_tx_ok [OF v(3) this Normalize_canonical [OF v(2)]] show ?thesis
  proof (rule put_shapeE)
    fix s1 row w vs
    assume m: "more_folders (s\<lparr>guc_delete := [], guc_rewrap := [], guc_transit := []\<rparr>) s1" and r: "row \<in> set (secrets s1)" "u = s1"
        "pr_uuid res = s_uuid row" "versions_desc (s_id row) s1 = w # vs"
        "v_checksum w = checksum (svc_prims svc) val" "pr_version res = v_version w"
    have same: "secrets s1 = secrets s" "versions s1 = versions s" "root_keys s1 = root_keys s"
      using more_folders_same [OF m] by auto
    with r v(1,4) show ?thesis by (auto simp: versions_desc_def versions_of_def)
  next
    fix sc folder row s2 created
    assume a: "put_append svc rnd inp val (if pi_type inp = [] then ''opaque'' else pi_type inp)
        \<lparr>ad_scope = sc, ad_folder = folder, ad_key = r_key (pi_ref inp)\<rparr> row created s2 = (Inr res, u)"
    then have "\<not> pr_unchanged res" by (auto simp: put_append_def run_ok Let_def)
    with assms(3) show ?thesis by simp
  qed
qed

lemma sample_put_twice:
  "(case fst (PutSecret sample_svc sample_draws sample_put (snd (PutSecret sample_svc sample_draws sample_put sample_db))) of
      Inl e \<Rightarrow> False | Inr r \<Rightarrow> pr_unchanged r \<and> pr_version r = 1)"
  by code_simp

theorem put_unchanged_is_noop_witness:
  "\<exists>s res t. PutSecret sample_svc sample_draws sample_put s = (Inr res, t) \<and> s \<noteq> sample_db \<and> pr_unchanged res
     \<and> versions t = versions s \<and> secrets t = secrets s"
proof -
  obtain r0 s where p: "PutSecret sample_svc sample_draws sample_put sample_db = (Inr r0, s)" "\<not> pr_unchanged r0"
    by (rule sample_put_obtain) blast
  have ok: "store_ok s" using PutSecret_store_ok [OF p(1) sample_ok] .
  obtain res t where q: "PutSecret sample_svc sample_draws sample_put s = (Inr res, t)" "pr_unchanged res"
    using sample_put_twice p(1) by (cases "PutSecret sample_svc sample_draws sample_put s") (auto split: sum.splits)
  have ne: "s \<noteq> sample_db"
  proof
    assume "s = sample_db"
    with p q show False by simp
  qed
  from put_unchanged_is_noop [OF q(1) ok q(2)] q ne show ?thesis by blast
qed

section \<open>Retention\<close>

text \<open>
  C2: retention after a write: the secret keeps at most \<open>keep_versions\<close> versions, the version just
  written among them; nothing is dropped but versions of this secret older than every version
  of it that is kept; nothing else appears; the reported count is what was dropped.
\<close>

theorem put_retention:
  assumes "PutSecret svc rnd inp s = (Inr res, t)" "store_ok s" "\<not> pr_unchanged res"
  shows "\<exists>row \<in> set (secrets t). s_uuid row = pr_uuid res \<and> s_current row = pr_version res
     \<and> int (length (versions_of (s_id row) t)) \<le> effectiveKeepVersions svc row
     \<and> (\<exists>v \<in> set (versions t). v_secret v = s_id row \<and> v_version v = pr_version res)
     \<and> (\<forall>v \<in> set (versions s) - set (versions t). v_secret v = s_id row
          \<and> (\<forall>w \<in> set (versions_of (s_id row) t). v_version v < v_version w))
     \<and> (\<forall>v \<in> set (versions t) - set (versions s). v_secret v = s_id row \<and> v_version v = pr_version res)
     \<and> pr_pruned res = Suc (length (versions s)) - length (versions t)"
proof -
  obtain s2 row v where W: "wrote svc inp s res t s2 row v" using put_written [OF assms] by blast
  note w = wroteD [OF W]
  let ?r = "advanced svc s2 row" and ?a = "s2\<lparr>versions := versions s2 @ [v]\<rparr>"
  let ?k = "effectiveKeepVersions svc ?r"
  have r: "?r \<in> set (secrets t)" using w(2) by (force simp: w(6))
  have vt: "v \<in> set (versions t)" using w(8,9) by (simp add: w(7) kept_versions_def)
  have old: "v_version x \<le> s_current row" if "x \<in> set (versions s)" "v_secret x = s_id row" for x
    using version_le_current [OF w(1,2)] that w(3) by simp
  have uq: "uq_versions (versions ?a)"
    using store_okD(5) [OF w(1)] old w(3,8,9) by (fastforce simp: uq_versions_def)
  have cur: "v_version x \<le> s_current ?r" if "x \<in> set (versions ?a)" "v_secret x = s_id ?r" for x
    using that old w(3,9) by fastforce
  have "length (filter (\<lambda>w. v_secret w = s_id ?r) (kept_versions ?r ?k ?a)) \<le> nat ?k"
    using effectiveKeep_pos [of svc ?r] w(8,9) by (intro kept_bound [OF uq _ cur, of _ v]) simp_all
  then have len: "int (length (versions_of (s_id ?r) t)) \<le> effectiveKeepVersions svc ?r"
    using effectiveKeep_pos [of svc ?r] by (simp add: versions_of_def w(7))
  have dropped: "v_secret x = s_id ?r \<and> (\<forall>y \<in> set (versions_of (s_id ?r) t). v_version x < v_version y)"
    if x: "x \<in> set (versions s)" "x \<notin> set (versions t)" for x
  proof (intro conjI ballI)
    have xa: "x \<in> set (versions ?a)" "x \<notin> set (kept_versions ?r ?k ?a)" using x w(3,7) by simp_all
    then show sec: "v_secret x = s_id ?r" unfolding kept_versions_iff by blast
    fix y
    assume "y \<in> set (versions_of (s_id ?r) t)"
    then have y: "v_version y = s_current ?r \<or> v_version y \<in> v_version ` set (newest ?k (s_id ?r) ?a)"
      unfolding versions_of_def w(7) set_filter kept_versions_iff by blast
    then show "v_version x < v_version y"
    proof
      assume "v_version y = s_current ?r"
      with old [OF x(1)] sec show ?thesis by simp
    next
      assume "v_version y \<in> v_version ` set (newest ?k (s_id ?r) ?a)"
      with kept_versions_newest [OF xa] show ?thesis by auto
    qed
  qed
  have added: "v_secret x = s_id ?r \<and> v_version x = pr_version res"
    if "x \<in> set (versions t)" "x \<notin> set (versions s)" for x
    using that kept_versions_sub [of ?r ?k ?a] w(3,7,8,9,11) by auto
  show ?thesis
  proof (intro bexI [OF _ r] conjI)
    show "\<exists>v\<in>set (versions t). v_secret v = s_id ?r \<and> v_version v = pr_version res"
      using vt w(8,9,11) by (intro bexI [of _ v]) simp_all
    show "\<forall>v \<in> set (versions s) - set (versions t). v_secret v = s_id ?r
        \<and> (\<forall>w \<in> set (versions_of (s_id ?r) t). v_version v < v_version w)"
      using dropped by simp
    show "\<forall>v \<in> set (versions t) - set (versions s). v_secret v = s_id ?r \<and> v_version v = pr_version res"
      using added by simp
  qed (use len w(10,11,12) in simp_all)
qed

text \<open>A store in which the sample secret has two versions, written one after the other.\<close>

definition sample_value :: "string \<Rightarrow> put_input" where
  "sample_value v = sample_put\<lparr>pi_value := Some (bytes_of v)\<rparr>"

definition sample_hist :: db where
  "sample_hist = snd (PutSecret sample_svc sample_draws (sample_value ''b'')
     (snd (PutSecret sample_svc sample_draws (sample_value ''a'') sample_db)))"

lemma sample_hist_ok: "store_ok sample_hist"
  unfolding sample_hist_def
  by (rule PutSecret_store_ok [OF surjective_pairing], rule PutSecret_store_ok [OF surjective_pairing], rule sample_ok)

lemma sample_third:
  "(case fst (PutSecret sample_svc sample_draws (sample_value ''c'') sample_hist) of
      Inl e \<Rightarrow> False | Inr r \<Rightarrow> \<not> pr_unchanged r \<and> pr_version r = 3 \<and> pr_pruned r = 1)"
  by code_simp

theorem put_retention_witness:
  "\<exists>res t row. PutSecret sample_svc sample_draws (sample_value ''c'') sample_hist = (Inr res, t)
     \<and> row \<in> set (secrets t) \<and> s_current row = 3 \<and> pr_pruned res = 1
     \<and> int (length (versions_of (s_id row) t)) \<le> effectiveKeepVersions sample_svc row"
proof -
  obtain res t where p: "PutSecret sample_svc sample_draws (sample_value ''c'') sample_hist = (Inr res, t)"
      "\<not> pr_unchanged res" "pr_version res = 3" "pr_pruned res = 1"
    using sample_third
    by (cases "PutSecret sample_svc sample_draws (sample_value ''c'') sample_hist") (auto split: sum.splits)
  from put_retention [OF p(1) sample_hist_ok p(2)] p show ?thesis by metis
qed

section \<open>Tenants\<close>

text \<open>
  C5: a write is confined to its tenant: a \<open>PutSecret\<close>, whatever it returns, leaves every secret
  of every other tenant as it was, and every version of such a secret.
\<close>

theorem put_confined_to_tenant:
  assumes run: "PutSecret svc rnd inp s = (r, t)" and ok: "store_ok s"
    and sec: "x \<in> set (secrets s)"
    and other: "\<And>tn. tn \<in> set (tenants s) \<Longrightarrow> t_uuid tn = r_tenant (pi_ref inp) \<Longrightarrow> live_tenant tn \<Longrightarrow> t_id tn \<noteq> s_tenant x"
  shows "x \<in> set (secrets t) \<and> versions_of (s_id x) t = versions_of (s_id x) s"
proof (cases "\<exists>res. r = Inr res \<and> \<not> pr_unchanged res")
  case False
  have "secrets t = secrets s \<and> versions t = versions s"
  proof (cases r)
    case (Inl e)
    with run PutSecret_err show ?thesis by blast
  next
    case (Inr res)
    then have un: "pr_unchanged res" using False by blast
    obtain val path u where v: "NormalizePath (r_folder (pi_ref inp)) = Inr path"
        "put_tx svc rnd inp val (if pi_type inp = [] then ''opaque'' else pi_type inp) path
           (s\<lparr>guc_delete := [], guc_rewrap := [], guc_transit := []\<rparr>) = (Inr res, u)"
        "t = u\<lparr>guc_delete := guc_delete s, guc_rewrap := guc_rewrap s, guc_transit := guc_transit s\<rparr>"
      using PutSecret_ok run Inr by blast
    have "store_ok (s\<lparr>guc_delete := [], guc_rewrap := [], guc_transit := []\<rparr>)" using ok by simp
    from put_tx_ok [OF v(2) this Normalize_canonical [OF v(1)]] show ?thesis
    proof (rule put_shapeE)
      fix s1
      assume "more_folders (s\<lparr>guc_delete := [], guc_rewrap := [], guc_transit := []\<rparr>) s1" "u = s1"
      then show ?thesis using more_folders_same v(3) by fastforce
    qed (use un in \<open>auto simp: put_append_def run_ok Let_def\<close>)
  qed
  with sec show ?thesis by (simp add: versions_of_def)
next
  case True
  then obtain res where res: "r = Inr res" "\<not> pr_unchanged res" by blast
  obtain s2 row v where W: "wrote svc inp s res t s2 row v" using put_written [OF run [unfolded res(1)] ok res(2)] by blast
  note w = wroteD [OF W]
  have x2: "x \<in> set (secrets s2)" using sec w(4) by auto
  have ne: "s_id x \<noteq> s_id row"
  proof
    assume "s_id x = s_id row"
    then have "x = row" using distinct_map_eq [OF store_okD(1) [OF w(1)] x2 w(2)] by simp
    with w(5) other show False by metis
  qed
  have "x \<in> set (secrets t)" using x2 ne by (force simp: w(6))
  moreover have "versions_of (s_id x) t = versions_of (s_id x) s"
    using ne w(3,8) by (auto simp: versions_of_def w(7) kept_versions_def filter_filter intro: filter_cong)
  ultimately show ?thesis by simp
qed

text \<open>The sample store with a second tenant, which owns one secret.\<close>

definition other_secret :: secret where
  "other_secret = \<lparr>s_id = 7, s_uuid = ''so'', s_tenant = 9, s_project = 2, s_env = 3, s_folder = 4, s_mrn_service = ''secret'',
     s_mrn_tenant = ''other'', s_mrn_project = ''web'', s_mrn_path = ''secret/prod/K'', s_key = ''K'', s_description = [],
     s_tags = [], s_current = 0, s_keep = None, s_rotation = [], s_rotated = None, s_expires = None, s_lease_ttl = None,
     s_lease_max = None, s_lease_reads = None, s_created = 0,
     s_deleted = None, s_destroy = None\<rparr>"

definition sample_two :: db where
  "sample_two = sample_db\<lparr>secrets := [other_secret], seq := 10\<rparr>"

lemma sample_two_ok: "store_ok sample_two"
  by (simp add: store_ok_def sample_two_def sample_db_def secrets_error_None uq_secrets_def uq_versions_def
      other_secret_def chk_secret_def secret_ok_def)

theorem put_confined_to_tenant_witness:
  "other_secret \<in> set (secrets (snd (PutSecret sample_svc sample_draws sample_put sample_two)))"
proof -
  have "other_secret \<in> set (secrets (snd (PutSecret sample_svc sample_draws sample_put sample_two)))
      \<and> versions_of (s_id other_secret) (snd (PutSecret sample_svc sample_draws sample_put sample_two))
        = versions_of (s_id other_secret) sample_two"
    by (rule put_confined_to_tenant [OF surjective_pairing sample_two_ok])
       (auto simp: sample_two_def sample_db_def other_secret_def)
  then show ?thesis by simp
qed

section \<open>Delete, restore, destroy\<close>

lemma DeleteSecret_ok:
  assumes run: "DeleteSecret svc ref win s = (Inr d, t)" and ok: "store_ok s"
  shows "\<exists>a row. resolveAddress ref s = (Inr a, s) \<and> secret_at a s = (Inr row, s)
     \<and> update_secrets (\<lambda>r. s_tenant r = t_id (sc_tenant (ad_scope a)) \<and> s_id r = s_id row \<and> live_secret r)
         (\<lambda>r. r\<lparr>s_deleted := Some (db_now s), s_destroy := Some (destroyAfter svc win)\<rparr>) s
         = (Inr (row\<lparr>s_deleted := Some (db_now s), s_destroy := Some (destroyAfter svc win)\<rparr>), t)
     \<and> ds_uuid d = s_uuid row \<and> ds_destroy d = Some (destroyAfter svc win)"
proof -
  obtain a s1 row s2 del where a: "resolveAddress ref s = (Inr a, s1)" "secret_at a s1 = (Inr row, s2)"
      "SoftDeleteSecret (destroyAfter svc win) (t_id (sc_tenant (ad_scope a))) (s_id row) s2 = (Inr del, t)"
      "ds_uuid d = s_uuid del" "ds_destroy d = s_destroy del"
    using run unfolding DeleteSecret_def by (auto simp: run_ok)
  have s1: "s1 = s" using pure_opD [OF pure_resolveAddress a(1)] .
  have s2: "s2 = s" using secret_at_ok [OF a(2)] s1 by simp
  have row: "row \<in> set (secrets s)" "s_tenant row = t_id (sc_tenant (ad_scope a))" "live_secret row"
    using secret_at_ok [OF a(2)] s1 by (auto simp: at_address_def)
  have one: "filter (\<lambda>r. s_tenant r = t_id (sc_tenant (ad_scope a)) \<and> s_id r = s_id row \<and> live_secret r) (secrets s) = [row]"
    using row(2,3) by (intro filter_unique_sub [OF store_okD(1) [OF ok] row(1)]) auto
  have u: "update_secrets (\<lambda>r. s_tenant r = t_id (sc_tenant (ad_scope a)) \<and> s_id r = s_id row \<and> live_secret r)
         (\<lambda>r. r\<lparr>s_deleted := Some (db_now s), s_destroy := Some (destroyAfter svc win)\<rparr>) s = (Inr del, t)"
    using a(3) unfolding s2 SoftDeleteSecret_def .
  have "del = row\<lparr>s_deleted := Some (db_now s), s_destroy := Some (destroyAfter svc win)\<rparr>"
    using update_secrets_run [OF u] one by auto
  with a(1,2,4,5) s1 s2 u show ?thesis by (intro exI [of _ a] exI [of _ row]) simp
qed

text \<open>The state a delete leaves: one row marked, nothing else.\<close>

lemma DeleteSecret_state:
  assumes run: "DeleteSecret svc ref win s = (Inr d, t)" and ok: "store_ok s"
  shows "\<exists>a row. resolveAddress ref s = (Inr a, s) \<and> secret_at a s = (Inr row, s) \<and> row \<in> set (secrets s)
     \<and> live_secret row \<and> s_tenant row = t_id (sc_tenant (ad_scope a)) \<and> s_folder row = f_id (ad_folder a)
     \<and> ds_uuid d = s_uuid row \<and> ds_destroy d = Some (destroyAfter svc win)
     \<and> t = s\<lparr>secrets := map (\<lambda>r. if s_id r = s_id row then row\<lparr>s_deleted := Some (db_now s),
         s_destroy := Some (destroyAfter svc win)\<rparr> else r) (secrets s)\<rparr>"
proof -
  obtain a row where a: "resolveAddress ref s = (Inr a, s)" "secret_at a s = (Inr row, s)"
      "update_secrets (\<lambda>r. s_tenant r = t_id (sc_tenant (ad_scope a)) \<and> s_id r = s_id row \<and> live_secret r)
         (\<lambda>r. r\<lparr>s_deleted := Some (db_now s), s_destroy := Some (destroyAfter svc win)\<rparr>) s
         = (Inr (row\<lparr>s_deleted := Some (db_now s), s_destroy := Some (destroyAfter svc win)\<rparr>), t)"
      "ds_uuid d = s_uuid row" "ds_destroy d = Some (destroyAfter svc win)"
    using DeleteSecret_ok [OF run ok] by blast
  have row: "row \<in> set (secrets s)" "s_tenant row = t_id (sc_tenant (ad_scope a))" "live_secret row"
      "s_folder row = f_id (ad_folder a)"
    using secret_at_ok [OF a(2)] by (auto simp: at_address_def)
  have eq: "(if s_tenant r = t_id (sc_tenant (ad_scope a)) \<and> s_id r = s_id row \<and> live_secret r
        then r\<lparr>s_deleted := Some (db_now s), s_destroy := Some (destroyAfter svc win)\<rparr> else r)
      = (if s_id r = s_id row then row\<lparr>s_deleted := Some (db_now s), s_destroy := Some (destroyAfter svc win)\<rparr> else r)"
    if "r \<in> set (secrets s)" for r
    using distinct_map_eq [OF store_okD(1) [OF ok] that row(1)] row(2,3) by auto
  have "t = s\<lparr>secrets := updating (\<lambda>r. s_tenant r = t_id (sc_tenant (ad_scope a)) \<and> s_id r = s_id row \<and> live_secret r)
         (\<lambda>r. r\<lparr>s_deleted := Some (db_now s), s_destroy := Some (destroyAfter svc win)\<rparr>) (secrets s)\<rparr>"
    using update_secrets_run [OF a(3)] by auto
  with eq have "t = s\<lparr>secrets := map (\<lambda>r. if s_id r = s_id row then row\<lparr>s_deleted := Some (db_now s),
         s_destroy := Some (destroyAfter svc win)\<rparr> else r) (secrets s)\<rparr>"
    by (simp add: updating_def cong: map_cong)
  with a row show ?thesis by blast
qed

text \<open>
  C3: a deleted secret is invisible, and restoring it undoes the delete exactly: after a successful
  \<open>DeleteSecret\<close> the address reads as "secret not found", and \<open>RestoreSecret\<close> of the UUID the
  delete reported succeeds and gives back the very state before the delete.
\<close>

theorem delete_then_restore:
  assumes run: "DeleteSecret svc ref win s = (Inr d, t)" and ok: "store_ok s"
    and tenants: "distinct (map t_uuid (tenants s))"
  shows "GetSecret svc ref t = (Inl (NotFoundError ''secret''), t)
     \<and> (\<exists>meta. RestoreSecret svc (r_tenant ref) (ds_uuid d) t = (Inr meta, s) \<and> m_key meta = r_key ref
          \<and> m_uuid meta = ds_uuid d)"
proof -
  obtain a row where a: "resolveAddress ref s = (Inr a, s)" "secret_at a s = (Inr row, s)" "row \<in> set (secrets s)"
      "live_secret row" "s_tenant row = t_id (sc_tenant (ad_scope a))" "s_folder row = f_id (ad_folder a)"
      "ds_uuid d = s_uuid row"
    and t: "t = s\<lparr>secrets := map (\<lambda>r. if s_id r = s_id row then row\<lparr>s_deleted := Some (db_now s),
         s_destroy := Some (destroyAfter svc win)\<rparr> else r) (secrets s)\<rparr>"
    using DeleteSecret_state [OF run ok] by blast
  let ?del = "row\<lparr>s_deleted := Some (db_now s), s_destroy := Some (destroyAfter svc win)\<rparr>"
  let ?at = "at_address (t_id (sc_tenant (ad_scope a))) (e_id (sc_env (ad_scope a))) (f_id (ad_folder a)) (ad_key a)"
  have a': "scope_in s (ad_scope a)" "t_uuid (sc_tenant (ad_scope a)) = r_tenant ref" "ad_key a = r_key ref"
      "ad_folder a \<in> set (folders s)" "live_folder (ad_folder a)" "f_env (ad_folder a) = e_id (sc_env (ad_scope a))"
    using resolveAddress_ok [OF a(1)] by auto
  have at: "?at row" using secret_at_ok [OF a(2)] by simp
  have res_t: "resolveAddress ref t = (Inr a, t)"
    using a(1) unfolding resolveAddress_def resolveEnvironment_def folder_at_def
    by (auto simp: run_ok q_ok read_queries t)
  have "\<not> ?at x" if x: "x \<in> set (secrets t)" for x
  proof -
    obtain r where r: "r \<in> set (secrets s)" "x = (if s_id r = s_id row then ?del else r)"
      using x by (auto simp: t)
    show ?thesis
    proof (cases "s_id r = s_id row")
      case True
      with r show ?thesis by (simp add: at_address_def live_secret_def)
    next
      case False
      have "r \<in> set (filter ?at (secrets s)) \<Longrightarrow> r = row" using at_address_unique [OF ok a(3) at] by simp
      with False r show ?thesis by auto
    qed
  qed
  then have "filter ?at (secrets t) = []" by (simp add: filter_empty_conv)
  then have "secret_at a t = (Inl (NotFoundError ''secret''), t)"
    by (simp add: secret_at_def GetSecretByAddress_def mapErr_def q_one_def mapReadError_def)
  then have get: "GetSecret svc ref t = (Inl (NotFoundError ''secret''), t)"
    by (simp add: GetSecret_def getVersion_def bindM_def res_t)
  have ten: "filter (\<lambda>x. t_uuid x = r_tenant ref \<and> live_tenant x) (tenants t) = [sc_tenant (ad_scope a)]"
  proof -
    have "filter (\<lambda>x. t_uuid x = r_tenant ref \<and> live_tenant x) (tenants s) = [sc_tenant (ad_scope a)]"
      using a'(1,2) unfolding scope_in_def by (intro filter_unique_sub [OF tenants]) auto
    then show ?thesis by (simp add: t)
  qed
  let ?P = "\<lambda>r. s_tenant r = t_id (sc_tenant (ad_scope a)) \<and> s_uuid r = s_uuid row \<and> \<not> live_secret r"
  let ?f = "\<lambda>r. r\<lparr>s_deleted := None, s_destroy := None\<rparr> :: secret"
  have uu: "distinct (map s_uuid (secrets s))" using store_okD(3) [OF ok] by (simp add: uq_secrets_def)
  have map_uu: "map s_uuid (secrets t) = map s_uuid (secrets s)"
    using distinct_map_eq [OF store_okD(1) [OF ok] _ a(3)] by (auto simp: t)
  have del_in: "?del \<in> set (secrets t)" using a(3) by (force simp: t)
  have one: "filter ?P (secrets t) = [?del]"
    using uu a(5) by (intro filter_unique_sub [OF _ del_in, where k = s_uuid]) (simp_all add: map_uu live_secret_def)
  have clean: "row = row\<lparr>s_deleted := None, s_destroy := None\<rparr>"
  proof -
    have "s_deleted row = None" using a(4) by (simp add: live_secret_def)
    moreover have "chk_secret row = None" using store_okD(2) [OF ok] a(3) by (auto simp: secrets_error_None)
    ultimately have "s_destroy row = None" by (simp add: chk_secret_def split: if_splits)
    with \<open>s_deleted row = None\<close> show ?thesis by simp
  qed
  have undone: "updating ?P ?f (secrets t) = secrets s"
  proof -
    have "(if ?P x then ?f x else x) = r"
      if r: "r \<in> set (secrets s)" and x: "x = (if s_id r = s_id row then ?del else r)" for r x
    proof (cases "s_id r = s_id row")
      case True
      then have "r = row" using distinct_map_eq [OF store_okD(1) [OF ok] r a(3)] by simp
      then show ?thesis using x a(5) clean by (simp add: live_secret_def)
    next
      case False
      then have "s_uuid r \<noteq> s_uuid row" using distinct_map_eq [OF uu r a(3)] by auto
      then show ?thesis using x False by simp
    qed
    then have "map (\<lambda>r. if ?P (if s_id r = s_id row then ?del else r) then ?f (if s_id r = s_id row then ?del else r)
        else if s_id r = s_id row then ?del else r) (secrets s) = secrets s"
      by (intro map_idI) blast
    then show ?thesis by (simp add: updating_def t o_def)
  qed
  have row': "RestoreSecretRow (t_id (sc_tenant (ad_scope a))) (s_uuid row) t = (Inr row, s)"
    using one undone store_okD(2) [OF ok] clean
    by (simp add: RestoreSecretRow_def update_secrets_def q_exec_def Let_def t)
  have fold: "filter (\<lambda>f. f_id f = s_folder row \<and> live_folder f \<and> f_env f \<in> set (tenant_env_ids (t_id (sc_tenant (ad_scope a))) s))
      (folders s) = [ad_folder a]"
    using a'(4-6) a(6) scope_env_live [OF a'(1)]
    by (intro filter_unique_sub [OF store_okD(9) [OF ok]]) simp_all
  obtain vt where vt: "valueTypeFor (s_id row) (s_current row) s = (Inr vt, s)"
    using valueTypeFor_run by blast
  have rest: "RestoreSecret svc (r_tenant ref) (ds_uuid d) t =
      (Inr ((secretRowToMeta row (f_path (ad_folder a)) (KeepVersions (svc_policy svc)))\<lparr>m_type := vt\<rparr>), s)"
    by (simp add: RestoreSecret_def bindM_def mapErr_def GetTenantByUUID_def GetFolderByID_def q_one_def ten
        fold row' vt ret_def a(7))
  have "s_key row = r_key ref" using at a'(3) by (simp add: at_address_def)
  with rest get a(7) show ?thesis by (simp add: secretRowToMeta_def)
qed

definition sample_one :: db where
  "sample_one = snd (PutSecret sample_svc sample_draws sample_put sample_db)"

lemma sample_one_ok: "store_ok sample_one"
  unfolding sample_one_def by (rule PutSecret_store_ok [OF surjective_pairing sample_ok])

lemma sample_delete:
  "(case fst (DeleteSecret sample_svc sample_ref (Some 5) sample_one) of
      Inl e \<Rightarrow> False | Inr d \<Rightarrow> ds_destroy d = Some 105) \<and> map t_uuid (tenants sample_one) = [''tu'']"
  by code_simp

theorem delete_then_restore_witness:
  "\<exists>d t meta. DeleteSecret sample_svc sample_ref (Some 5) sample_one = (Inr d, t)
     \<and> GetSecret sample_svc sample_ref t = (Inl (NotFoundError ''secret''), t)
     \<and> RestoreSecret sample_svc ''tu'' (ds_uuid d) t = (Inr meta, sample_one)"
proof -
  obtain d t where d: "DeleteSecret sample_svc sample_ref (Some 5) sample_one = (Inr d, t)"
    using sample_delete by (cases "DeleteSecret sample_svc sample_ref (Some 5) sample_one") (auto split: sum.splits)
  have "distinct (map t_uuid (tenants sample_one))" using sample_delete by simp
  from delete_then_restore [OF d sample_one_ok this] d show ?thesis by (auto simp: sample_ref_def)
qed

lemma GetDeleted_run: "GetDeletedSecretByUUID tid u s = (r, t) \<Longrightarrow> t = s \<and> (\<forall>e. r = Inl e \<longrightarrow> e = NoRows)
    \<and> (\<forall>row. r = Inr row \<longrightarrow> row \<in> set (secrets s) \<and> s_tenant row = tid \<and> s_uuid row = u \<and> \<not> live_secret row)"
  by (auto simp: GetDeletedSecretByUUID_def q_one_def split: list.splits dest!: filter_Cons_in)

lemma HardDelete_hit:
  assumes "HardDeleteSecret tid u s = (Inr n, t)" "n \<noteq> 0"
  shows "\<exists>x \<in> set (secrets s). s_uuid x = u \<and> (\<exists>d. s_destroy x = Some d \<and> d \<le> db_now s)"
proof -
  have "filter (\<lambda>r. s_tenant r = tid \<and> s_uuid r = u \<and> \<not> live_secret r
           \<and> (case s_destroy r of None \<Rightarrow> False | Some d \<Rightarrow> d \<le> db_now s)) (secrets s) \<noteq> []"
    using assms by (auto simp: HardDeleteSecret_def q_ok Let_def)
  then show ?thesis by (auto simp: filter_empty_conv split: option.splits)
qed

text \<open>
  C4: destruction waits for its window: \<open>DestroySecret\<close> either fails and changes nothing, or the
  secret was soft-deleted in the caller's tenant, its scheduled destruction time has passed both
  on the service's clock and on the database's, and exactly that secret and all its versions are
  gone.
\<close>

theorem destroy_waits_for_window:
  assumes run: "DestroySecret svc tu su s = (r, t)" and ok: "store_ok s"
  shows "case r of
      Inl e \<Rightarrow> t = s
    | Inr _ \<Rightarrow> \<exists>tn row d. tn \<in> set (tenants s) \<and> live_tenant tn \<and> t_uuid tn = tu
        \<and> row \<in> set (secrets s) \<and> s_uuid row = su \<and> s_tenant row = t_id tn \<and> \<not> live_secret row
        \<and> s_destroy row = Some d \<and> d \<le> svc_now svc \<and> d \<le> db_now s
        \<and> t = s\<lparr>secrets := filter (\<lambda>x. s_id x \<noteq> s_id row) (secrets s),
                versions := filter (\<lambda>v. v_secret v \<noteq> s_id row) (versions s),
                secret_leases := filter (\<lambda>l. l_secret l \<noteq> s_id row) (secret_leases s)\<rparr>"
proof (cases "GetTenantByUUID tu s")
  case (Pair rt s1)
  have s1: "s1 = s" using Pair by (simp add: GetTenantByUUID_def q_one_def)
  show ?thesis
  proof (cases rt)
    case (Inl e)
    then have "r = Inl (mapReadError ''tenant'' e)" "t = s"
      using run Pair s1 by (auto simp: DestroySecret_def bindM_def mapErr_def)
    then show ?thesis by simp
  next
    case (Inr tn)
    have tn: "tn \<in> set (tenants s)" "t_uuid tn = tu" "live_tenant tn"
      using Pair Inr by (auto simp: GetTenantByUUID_def q_ok dest!: filter_Cons_in)
    obtain g s2 where g: "GetDeletedSecretByUUID (t_id tn) su s = (g, s2)" by fastforce
    note gd = GetDeleted_run [OF g]
    show ?thesis
    proof (cases g)
      case (Inl e)
      then have "(\<exists>e. r = Inl e) \<and> t = s" using run Pair s1 Inr g gd
        by (auto simp: DestroySecret_def bindM_def mapErr_def tryM_def fail_def)
      then show ?thesis by auto
    next
      case row: (Inr row)
      have r: "row \<in> set (secrets s)" "s_tenant row = t_id tn" "s_uuid row = su" "\<not> live_secret row"
        using gd row by auto
      let ?tx = "InTx (bindM (mapErr (\<lambda>e. InternalError ''authorize version destruction'' (DbCause e))
                       (AllowSecretVersionDelete ''secret_destroy'')) (\<lambda>_.
                     bindM (mapErr (\<lambda>e. InternalError ''destroy secret'' (DbCause e))
                       (HardDeleteSecret (t_id tn) su)) (\<lambda>n.
                     if n = 0
                     then fail (ForbiddenError ''secret is still inside its recovery window and cannot be destroyed yet'')
                     else ret ())))"
      have cases: "(\<exists>e. r = Inl e) \<and> t = s \<or> (\<exists>d. s_destroy row = Some d \<and> d \<le> svc_now svc \<and> ?tx s = (r, t))"
        using run Pair s1 Inr g gd row
        by (cases "s_destroy row") (auto simp: DestroySecret_def bindM_def mapErr_def tryM_def fail_def split: if_splits)
      show ?thesis
      proof (cases r)
        case (Inl e)
        with cases show ?thesis by (auto simp: InTx_err)
      next
        case (Inr x)
        with cases obtain d where d: "s_destroy row = Some d" "d \<le> svc_now svc" "?tx s = (Inr x, t)" by auto
        let ?s = "s\<lparr>guc_rewrap := [], guc_transit := [], guc_delete := ''secret_destroy''\<rparr>"
        obtain n u where h: "HardDeleteSecret (t_id tn) su ?s = (Inr n, u)" "n \<noteq> 0"
            "t = u\<lparr>guc_delete := guc_delete s, guc_rewrap := guc_rewrap s, guc_transit := guc_transit s\<rparr>"
          using d(3) by (auto simp: InTx_ok run_ok AllowSecretVersionDelete_def split: if_splits)
        have uu: "distinct (map s_uuid (secrets s))" using store_okD(3) [OF ok] by (simp add: uq_secrets_def)
        have "d \<le> db_now s"
        proof -
          obtain x d' where x: "x \<in> set (secrets s)" "s_uuid x = su" "s_destroy x = Some d'" "d' \<le> db_now s"
            using HardDelete_hit [OF h(1,2)] by auto
          then have "x = row" using distinct_map_eq [OF uu x(1) r(1)] r(3) by simp
          with x(3,4) d(1) show ?thesis by simp
        qed
        have only: "s_id ` {x \<in> set (secrets s). s_tenant x = t_id tn \<and> s_uuid x = su \<and> \<not> live_secret x
               \<and> (\<exists>d. s_destroy x = Some d \<and> d \<le> db_now s)} = {s_id row}"
        proof -
          have "x = row" if "x \<in> set (secrets s)" "s_uuid x = su" for x
            using distinct_map_eq [OF uu that(1) r(1)] that(2) r(3) by simp
          moreover have "\<exists>d. s_destroy row = Some d \<and> d \<le> db_now s" using \<open>d \<le> db_now s\<close> d(1) by blast
          ultimately have "{x \<in> set (secrets s). s_tenant x = t_id tn \<and> s_uuid x = su \<and> \<not> live_secret x
               \<and> (\<exists>d. s_destroy x = Some d \<and> d \<le> db_now s)} = {row}"
            using r by blast
          then show ?thesis by simp
        qed
        have "distinct (map s_id (secrets ?s))" using store_okD(1) [OF ok] by simp
        from HardDeleteSecret_run [OF h(1) this] obtain I where
            u: "u = ?s\<lparr>secrets := filter (\<lambda>r. s_id r \<notin> I) (secrets ?s), versions := filter (\<lambda>v. v_secret v \<notin> I) (versions ?s),
              secret_leases := filter (\<lambda>l. l_secret l \<notin> I) (secret_leases ?s)\<rparr>"
          and I: "I = s_id ` {x \<in> set (secrets ?s). s_tenant x = t_id tn \<and> s_uuid x = su \<and> \<not> live_secret x
               \<and> (\<exists>d. s_destroy x = Some d \<and> d \<le> db_now ?s)}"
          by blast
        have "I = {s_id row}" using I only by simp
        with u have "u = ?s\<lparr>secrets := filter (\<lambda>x. s_id x \<noteq> s_id row) (secrets s),
                versions := filter (\<lambda>v. v_secret v \<noteq> s_id row) (versions s),
                secret_leases := filter (\<lambda>l. l_secret l \<noteq> s_id row) (secret_leases s)\<rparr>"
          by simp
        with h(3) have "t = s\<lparr>secrets := filter (\<lambda>x. s_id x \<noteq> s_id row) (secrets s),
                versions := filter (\<lambda>v. v_secret v \<noteq> s_id row) (versions s),
                secret_leases := filter (\<lambda>l. l_secret l \<noteq> s_id row) (secret_leases s)\<rparr>" by simp
        with Inr tn r d(1,2) \<open>d \<le> db_now s\<close> show ?thesis by auto
      qed
    qed
  qed
qed

text \<open>The sample secret, deleted with no recovery window, and its destruction.\<close>

definition sample_deleted :: db where
  "sample_deleted = snd (DeleteSecret sample_svc sample_ref (Some 0) sample_one)"

lemma sample_deleted_ok: "store_ok sample_deleted"
  unfolding sample_deleted_def
  by (rule keepsD [OF secret_ops_keep(3) surjective_pairing sample_one_ok])

lemma sample_destroy:
  "map s_uuid (secrets sample_deleted) = [replicate 6 CHR ''u'']
   \<and> (case fst (DestroySecret sample_svc ''tu'' (replicate 6 CHR ''u'') sample_deleted) of Inl e \<Rightarrow> False | Inr d \<Rightarrow> True)"
  by code_simp

theorem destroy_waits_for_window_witness:
  "\<exists>t row d. DestroySecret sample_svc ''tu'' (replicate 6 CHR ''u'') sample_deleted = (Inr (), t)
     \<and> row \<in> set (secrets sample_deleted) \<and> s_destroy row = Some d \<and> d \<le> 100
     \<and> secrets t = filter (\<lambda>x. s_id x \<noteq> s_id row) (secrets sample_deleted)"
proof -
  obtain t where t: "DestroySecret sample_svc ''tu'' (replicate 6 CHR ''u'') sample_deleted = (Inr (), t)"
    using sample_destroy
    by (cases "DestroySecret sample_svc ''tu'' (replicate 6 CHR ''u'') sample_deleted") (auto split: sum.splits)
  from destroy_waits_for_window [OF t sample_deleted_ok] t show ?thesis by (auto simp: sample_svc_def)
qed

section \<open>Rollback\<close>

text \<open>
  Rolling back to version \<open>n\<close> makes the value of version \<open>n\<close> current: when \<open>RollbackSecret\<close> writes a
  version, version \<open>n\<close> was readable before, and afterwards \<open>GetSecret\<close> returns its plaintext and
  value type under the new version number.
\<close>

theorem rollback_restores_value:
  assumes run: "RollbackSecret svc rnd ref n s = (Inr res, t)" and ok: "store_ok s" and ring: "ring_ok svc"
    and new: "\<not> pr_unchanged res"
  shows "\<exists>r0 r. GetSecretVersion svc ref n s = (Inr r0, s) \<and> GetSecret svc ref t = (Inr r, t)
     \<and> rv_value r = rv_value r0 \<and> rv_version r = pr_version res \<and> rv_version r0 = n"
proof -
  obtain r0 s1 where g: "n \<ge> 1" "getVersion svc ref n s = (Inr r0, s1)"
    and p: "PutSecret svc rnd \<lparr>pi_ref = ref, pi_value = Some (rv_value r0), pi_type = rv_type r0,
               pi_description = [], pi_tags = [], pi_keep = None, pi_rotation = [], pi_expires = None,
               pi_create_folders = False\<rparr> s1 = (Inr res, t)"
    using run new by (auto simp: RollbackSecret_def run_ok split: if_splits)
  have s1: "s1 = s"
    using keepsD [OF keeps_reads(8) [where I = "\<lambda>x. x = s"] g(2)] by simp
  have "rv_version r0 = n"
    using g by (auto simp: getVersion_def run_ok GetSecretVersionRow_def q_ok dest!: filter_Cons_in)
  with put_get [OF p [unfolded s1] ok ring new] g s1 show ?thesis by (auto simp: GetSecretVersion_def)
qed

lemma sample_rollback:
  "(case fst (RollbackSecret sample_svc sample_draws sample_ref 1 sample_hist) of
      Inl e \<Rightarrow> False | Inr r \<Rightarrow> \<not> pr_unchanged r \<and> pr_version r = 3)"
  by code_simp

theorem rollback_restores_value_witness:
  "\<exists>res t r0 r. RollbackSecret sample_svc sample_draws sample_ref 1 sample_hist = (Inr res, t)
     \<and> GetSecretVersion sample_svc sample_ref 1 sample_hist = (Inr r0, sample_hist)
     \<and> GetSecret sample_svc sample_ref t = (Inr r, t) \<and> rv_value r = rv_value r0 \<and> rv_version r = 3"
proof -
  obtain res t where p: "RollbackSecret sample_svc sample_draws sample_ref 1 sample_hist = (Inr res, t)"
      "\<not> pr_unchanged res" "pr_version res = 3"
    using sample_rollback
    by (cases "RollbackSecret sample_svc sample_draws sample_ref 1 sample_hist") (auto split: sum.splits)
  from rollback_restores_value [OF p(1) sample_hist_ok sample_ring_ok p(2)] p show ?thesis by auto
qed

end
