(* ===== verification/HierarchyProps.thy ===== *)
theory HierarchyProps
  imports Hierarchy SecretProps
begin

text \<open>
  The properties of moving, deleting and creating folders and environments, of the flat keys, and
  three ways in which a restore or the default scope leaves the store in a state its callers
  do not expect.
\<close>

section \<open>Moving a folder\<close>

lemma MoveFolder_ok:
  assumes "MoveFolder tu pr en from to s = (Inr v, t)"
  shows "\<exists>old new sc u. NormalizePath from = Inr old \<and> NormalizePath to = Inr new \<and> old \<noteq> ''/'' \<and> new \<noteq> ''/''
     \<and> \<not> IsAtOrUnder new old \<and> resolveEnvironment tu pr en s = (Inr sc, s) \<and> scope_in s sc
     \<and> move_tx sc old new (s\<lparr>guc_delete := [], guc_rewrap := [], guc_transit := []\<rparr>) = (Inr v, u)
     \<and> t = u\<lparr>guc_delete := guc_delete s, guc_rewrap := guc_rewrap s, guc_transit := guc_transit s\<rparr>"
  using assms unfolding MoveFolder_def
  by (auto simp: run_ok InTx_ok split: if_splits dest: resolveEnvironment_ok)

lemma move_cases:
  assumes "MoveFolder tu pr en from to s = (Inr v, t)" "store_ok s"
  obtains old new sc node parent made where "NormalizePath from = Inr old" "NormalizePath to = Inr new"
    "old \<noteq> ''/''" "\<not> IsAtOrUnder new old" "resolveEnvironment tu pr en s = (Inr sc, s)" "scope_in s sc"
    "folder_at sc old s = (Inr node, s)" "parent \<in> set (folders t)" "placed (e_id (sc_env sc)) (fst (SplitPath new)) parent"
    "folders t = map (moved_folder (e_id (sc_env sc)) old new node parent) (folders s) @ made"
    "\<forall>g \<in> set made. created_folder (e_id (sc_env sc)) (folders t) g \<and> IsAtOrUnder (fst (SplitPath new)) (f_path g)"
    "secrets t = map (refreshed t (t_id (sc_tenant sc)) (e_id (sc_env sc)) new) (secrets s)"
    "t = s\<lparr>folders := folders t, secrets := secrets t, seq := seq s + length made\<rparr>" "store_ok t" "new \<noteq> ''/''"
proof -
  let ?s = "s\<lparr>guc_delete := [], guc_rewrap := [], guc_transit := []\<rparr>"
  obtain old new sc u where m: "NormalizePath from = Inr old" "NormalizePath to = Inr new" "old \<noteq> ''/''" "new \<noteq> ''/''"
      "\<not> IsAtOrUnder new old" "resolveEnvironment tu pr en s = (Inr sc, s)" "scope_in s sc"
      "move_tx sc old new ?s = (Inr v, u)" "t = u\<lparr>guc_delete := guc_delete s, guc_rewrap := guc_rewrap s, guc_transit := guc_transit s\<rparr>"
    using MoveFolder_ok [OF assms(1)] by blast
  have at: "folder_at sc p ?s = (r, ?s) \<longleftrightarrow> folder_at sc p s = (r, s)" for p and r :: "dberr + folder"
    by (simp add: folder_at_def GetFolderByPath_def q_one_def tenant_env_ids_def)
  have "scope_in ?s sc" "store_ok ?s" using m(7) assms(2) by (simp_all add: scope_in_def)
  from move_tx_ok [OF m(8) this Normalize_canonical [OF m(2)] m(4) Normalize_canonical [OF m(1)] m(3,5)]
  obtain node parent made where x: "folder_at sc old ?s = (Inr node, ?s)" "parent \<in> set (folders u)"
      "placed (e_id (sc_env sc)) (fst (SplitPath new)) parent"
      "folders u = map (moved_folder (e_id (sc_env sc)) old new node parent) (folders ?s) @ made"
      "\<forall>g \<in> set made. created_folder (e_id (sc_env sc)) (folders u) g \<and> IsAtOrUnder (fst (SplitPath new)) (f_path g)"
      "secrets u = map (refreshed u (t_id (sc_tenant sc)) (e_id (sc_env sc)) new) (secrets ?s)"
      "u = ?s\<lparr>folders := folders u, secrets := secrets u, seq := seq ?s + length made\<rparr>" by blast
  have f: "folders t = folders u" "secrets t = secrets u" by (simp_all add: m(9))
  have r: "refreshed t = refreshed u" by (rule refreshed_cong) (simp_all add: m(9))
  from arg_cong [OF x(7), of "\<lambda>u. u\<lparr>guc_delete := guc_delete s, guc_rewrap := guc_rewrap s, guc_transit := guc_transit s\<rparr>"]
  have t: "t = s\<lparr>folders := folders u, secrets := secrets u, seq := seq s + length made\<rparr>"
    unfolding m(9) [symmetric] by simp
  have ok: "store_ok t" using keepsD [OF hierarchy_ops_keep(11) assms] .
  show ?thesis
  proof (rule that [OF m(1-3,5-7) _ _ x(3) _ _ _ _ ok m(4)])
    show "folder_at sc old s = (Inr node, s)" using x(1) by (simp only: at)
    show "secrets t = map (refreshed t (t_id (sc_tenant sc)) (e_id (sc_env sc)) new) (secrets s)"
      unfolding r f using x(6) by simp
  qed (use x t in \<open>simp_all only: f, simp_all\<close>)
qed

text \<open>What the refresh of a move does to a secret, with the folders after the move.\<close>

definition moved_secret :: "scope \<Rightarrow> string \<Rightarrow> folder list \<Rightarrow> secret \<Rightarrow> secret" where
  "moved_secret sc new fs r =
     (case find (\<lambda>f. f_id f = s_folder r) fs of
        None \<Rightarrow> r
      | Some f \<Rightarrow> if s_tenant r = t_id (sc_tenant sc) \<and> s_env r = e_id (sc_env sc) \<and> live_secret r \<and> IsAtOrUnder (f_path f) new
          then r\<lparr>s_mrn_path := mrnResourcePath (e_slug (sc_env sc)) (f_path f) (s_key r)\<rparr> else r)"

lemma refreshed_moved:
  assumes "scope_in t sc" "distinct (map e_id (environments t))"
  shows "refreshed t (t_id (sc_tenant sc)) (e_id (sc_env sc)) new = moved_secret sc new (folders t)"
proof
  fix r :: secret
  have e: "find (\<lambda>e. e_id e = s_env r) (environments t) = Some (sc_env sc)" if "s_env r = e_id (sc_env sc)"
    using find_unique [OF assms(2), of "sc_env sc"] assms(1) that by (simp add: scope_in_def)
  show "refreshed t (t_id (sc_tenant sc)) (e_id (sc_env sc)) new r = moved_secret sc new (folders t) r"
  proof (cases "s_env r = e_id (sc_env sc)")
    case True
    with e show ?thesis by (auto simp: refreshed_def moved_secret_def secret_join_def split: option.splits)
  next
    case False
    then show ?thesis by (auto simp: refreshed_def moved_secret_def split: option.splits)
  qed
qed

text \<open>
  C33: what a successful \<open>MoveFolder\<close> changes, exactly. The folder at the old path, and no other, gets the name of
  the new path and the folder at its parent path as its parent; it and the live folders below it have the old prefix
  replaced by the new path; the only new folders are ancestors of the new path, each named by its last segment and
  linked to the folder above it. Of the secrets only those of the tenant and environment that are live and in a folder
  at or under the new path change, and those only in their MRN path, which becomes that of their address. Every other
  table and column stays as it was.
\<close>

theorem move_folder_moves_subtree:
  assumes run: "MoveFolder tu pr en from to s = (Inr v, t)" and ok: "store_ok s" and envs: "distinct (map e_id (environments s))"
  shows "\<exists>old new sc node parent made. NormalizePath from = Inr old \<and> NormalizePath to = Inr new
     \<and> resolveEnvironment tu pr en s = (Inr sc, s) \<and> folder_at sc old s = (Inr node, s)
     \<and> parent \<in> set (folders t) \<and> placed (e_id (sc_env sc)) (fst (SplitPath new)) parent
     \<and> folders t = map (moved_folder (e_id (sc_env sc)) old new node parent) (folders s) @ made
     \<and> (\<forall>g \<in> set made. created_folder (e_id (sc_env sc)) (folders t) g \<and> IsAtOrUnder (fst (SplitPath new)) (f_path g))
     \<and> secrets t = map (moved_secret sc new (folders t)) (secrets s)
     \<and> t = s\<lparr>folders := folders t, secrets := secrets t, seq := seq s + length made\<rparr>"
proof (rule move_cases [OF run ok], goal_cases)
  case (1 old new sc node parent made)
  have "environments t = environments s \<and> tenants t = tenants s \<and> projects t = projects s" by (subst (1 2 3) 1(13)) simp
  with 1(6) envs have "refreshed t (t_id (sc_tenant sc)) (e_id (sc_env sc)) new = moved_secret sc new (folders t)"
    by (intro refreshed_moved) (simp_all add: scope_in_def)
  with 1 show ?case by metis
qed

definition sample_moved :: db where
  "sample_moved = snd (MoveFolder ''tu'' ''web'' ''prod'' ''/db'' ''/data/db'' sample_one)"

lemma sample_move:
  "(case fst (MoveFolder ''tu'' ''web'' ''prod'' ''/db'' ''/data/db'' sample_one) of Inl e \<Rightarrow> False | Inr v \<Rightarrow> fv_path v = ''/data/db'')
   \<and> map e_id (environments sample_one) = [3]"
  by code_simp

lemma sample_move_obtain:
  obtains v where "MoveFolder ''tu'' ''web'' ''prod'' ''/db'' ''/data/db'' sample_one = (Inr v, sample_moved)"
  using sample_move
  by (cases "MoveFolder ''tu'' ''web'' ''prod'' ''/db'' ''/data/db'' sample_one")
     (auto simp: sample_moved_def split: sum.splits)

theorem move_folder_moves_subtree_witness:
  "\<exists>sc node parent made. resolveEnvironment ''tu'' ''web'' ''prod'' sample_one = (Inr sc, sample_one)
     \<and> folders sample_moved = map (moved_folder (e_id (sc_env sc)) ''/db'' ''/data/db'' node parent) (folders sample_one) @ made
     \<and> map f_path made = [''/data'']
     \<and> secrets sample_moved = map (moved_secret sc ''/data/db'' (folders sample_moved)) (secrets sample_one)
     \<and> sample_moved = sample_one\<lparr>folders := folders sample_moved, secrets := secrets sample_moved, seq := seq sample_one + length made\<rparr>"
proof -
  obtain v where v: "MoveFolder ''tu'' ''web'' ''prod'' ''/db'' ''/data/db'' sample_one = (Inr v, sample_moved)"
    by (rule sample_move_obtain)
  have d: "distinct (map e_id (environments sample_one))" using sample_move by simp
  have n: "NormalizePath ''/db'' = Inr ''/db''" "NormalizePath ''/data/db'' = Inr ''/data/db''" by code_simp+
  have paths: "map f_path (drop (length (folders sample_one)) (folders sample_moved)) = [''/data'']" by code_simp
  obtain old new sc node parent made where y: "NormalizePath ''/db'' = Inr old" "NormalizePath ''/data/db'' = Inr new"
    and x: "resolveEnvironment ''tu'' ''web'' ''prod'' sample_one = (Inr sc, sample_one)"
      "folders sample_moved = map (moved_folder (e_id (sc_env sc)) old new node parent) (folders sample_one) @ made"
      "secrets sample_moved = map (moved_secret sc new (folders sample_moved)) (secrets sample_one)"
      "sample_moved = sample_one\<lparr>folders := folders sample_moved, secrets := secrets sample_moved, seq := seq sample_one + length made\<rparr>"
    using move_folder_moves_subtree [OF v sample_one_ok d] by metis
  have on: "old = ''/db''" "new = ''/data/db''" using y n by simp_all
  have "drop (length (folders sample_one)) (folders sample_moved) = made" by (subst x(2)) simp
  with paths have "map f_path made = [''/data'']" by simp
  with x show ?thesis unfolding on
    by - (rule exI [of _ sc], rule exI [of _ node], rule exI [of _ parent], rule exI [of _ made], intro conjI)
qed

text \<open>
  C34: after a successful \<open>MoveFolder\<close> no MRN is stale: every live secret of the environment in a
  folder at or under the new path has the MRN resource path of its environment, the folder's
  path after the move and its key.
\<close>

theorem move_folder_refreshes_mrn:
  assumes run: "MoveFolder tu pr en from to s = (Inr v, t)" and ok: "store_ok s"
    and envs: "distinct (map e_id (environments s))"
  shows "\<exists>new sc. NormalizePath to = Inr new \<and> resolveEnvironment tu pr en s = (Inr sc, s)
     \<and> (\<forall>r \<in> set (secrets t). \<forall>f \<in> set (folders t). live_secret r \<longrightarrow> s_tenant r = t_id (sc_tenant sc) \<longrightarrow>
          s_env r = e_id (sc_env sc) \<longrightarrow> f_id f = s_folder r \<longrightarrow> IsAtOrUnder (f_path f) new \<longrightarrow>
          s_mrn_path r = mrnResourcePath en (f_path f) (s_key r))"
proof (rule move_cases [OF run ok], goal_cases)
  case (1 old new sc node parent made)
  have same: "environments t = environments s" by (subst 1(13)) simp
  have slug: "e_slug (sc_env sc) = en" using resolveEnvironment_ok [OF 1(5)] by simp
  have "s_mrn_path r = mrnResourcePath en (f_path f) (s_key r)"
    if r: "r \<in> set (secrets t)" and f: "f \<in> set (folders t)" and c: "live_secret r" "s_tenant r = t_id (sc_tenant sc)"
      "s_env r = e_id (sc_env sc)" "f_id f = s_folder r" "IsAtOrUnder (f_path f) new" for r f
  proof -
    obtain q where q: "q \<in> set (secrets s)" "r = refreshed t (t_id (sc_tenant sc)) (e_id (sc_env sc)) new q"
      using r by (subst (asm) 1(12)) auto
    have "find (\<lambda>g. f_id g = s_folder q) (folders t) = Some f"
      using find_unique [OF store_okD(9) [OF 1(14)] f] c(4) q(2) by simp
    moreover have "find (\<lambda>e. e_id e = s_env q) (environments t) = Some (sc_env sc)"
      using find_unique [OF envs, of "sc_env sc"] 1(6) same c(3) q(2) by (simp add: scope_in_def)
    ultimately have "secret_join t q = Some (f, sc_env sc)" by (simp add: secret_join_def)
    with c q slug show ?thesis by (auto simp: refreshed_def live_secret_def)
  qed
  with 1(2,5) show ?case by blast
qed

theorem move_folder_refreshes_mrn_witness:
  "\<exists>sc. resolveEnvironment ''tu'' ''web'' ''prod'' sample_one = (Inr sc, sample_one)
     \<and> (\<forall>r \<in> set (secrets sample_moved). \<forall>f \<in> set (folders sample_moved). live_secret r \<longrightarrow> s_tenant r = t_id (sc_tenant sc) \<longrightarrow>
          s_env r = e_id (sc_env sc) \<longrightarrow> f_id f = s_folder r \<longrightarrow> IsAtOrUnder (f_path f) ''/data/db'' \<longrightarrow>
          s_mrn_path r = mrnResourcePath ''prod'' (f_path f) (s_key r))"
proof -
  obtain v where v: "MoveFolder ''tu'' ''web'' ''prod'' ''/db'' ''/data/db'' sample_one = (Inr v, sample_moved)"
    by (rule sample_move_obtain)
  have d: "distinct (map e_id (environments sample_one))" using sample_move by simp
  have n: "NormalizePath ''/data/db'' = Inr ''/data/db''" by code_simp
  from move_folder_refreshes_mrn [OF v sample_one_ok d] n show ?thesis by auto
qed

section \<open>Deleting a folder\<close>

text \<open>
  A successful \<open>DeleteFolder\<close> takes the whole subtree and nothing else: of the environment's
  folders at or under the path none stays live, every live secret in them is marked with its
  destruction time, and every other secret and folder is as it was; versions are untouched, so
  nothing is destroyed yet.
\<close>

theorem delete_folder_cascades:
  assumes run: "DeleteFolder svc tu pr en path win s = (Inr n, t)"
  shows "\<exists>p sc. NormalizePath path = Inr p \<and> p \<noteq> ''/'' \<and> resolveEnvironment tu pr en s = (Inr sc, s)
     \<and> versions t = versions s
     \<and> folders t = map (\<lambda>f. if f_env f = e_id (sc_env sc) \<and> live_folder f \<and> IsAtOrUnder (f_path f) p
          then f\<lparr>f_deleted := Some (db_now s)\<rparr> else f) (folders s)
     \<and> secrets t = map (\<lambda>r. if s_tenant r = t_id (sc_tenant sc) \<and> s_env r = e_id (sc_env sc) \<and> live_secret r
            \<and> (\<exists>f \<in> set (folders s). f_id f = s_folder r \<and> f_env f = e_id (sc_env sc) \<and> IsAtOrUnder (f_path f) p)
          then r\<lparr>s_deleted := Some (db_now s), s_destroy := Some (destroyAfter svc win)\<rparr> else r) (secrets s)"
proof -
  obtain p sc u where x: "NormalizePath path = Inr p" "p \<noteq> ''/''" "resolveEnvironment tu pr en s = (Inr sc, s)"
    and tx: "bindM (mapErr (mapReadError ''folder'') (folder_at sc p)) (\<lambda>_.
       bindM (mapErr (\<lambda>e. InternalError ''soft delete secrets in folder'' (DbCause e))
           (SoftDeleteSecretsInFolderSubtree (destroyAfter svc win) (t_id (sc_tenant sc)) (e_id (sc_env sc))
             p (SubtreePattern p))) (\<lambda>n.
       bindM (mapErr (\<lambda>e. InternalError ''soft delete folder subtree'' (DbCause e))
           (SoftDeleteFolderSubtree (e_id (sc_env sc)) p (SubtreePattern p))) (\<lambda>_.
       ret n))) (s\<lparr>guc_delete := [], guc_rewrap := [], guc_transit := []\<rparr>) = (Inr n, u)"
    and t: "t = u\<lparr>guc_delete := guc_delete s, guc_rewrap := guc_rewrap s, guc_transit := guc_transit s\<rparr>"
    using run unfolding DeleteFolder_def
    by (auto simp: bindM_ok [of "liftR _"] bindM_ok [of "guardM _ _"] bindM_ok [of "resolveEnvironment _ _ _"]
        InTx_ok liftR_run guardM_ok dest: resolveEnvironment_ok)
  let ?s = "s\<lparr>guc_delete := [], guc_rewrap := [], guc_transit := []\<rparr>"
  obtain f where "folder_at sc p ?s = (Inr f, ?s)" using tx by (auto simp: run_ok dest: folder_at_run)
  with tx have u: "u = ?s\<lparr>
      secrets := updating (\<lambda>r. s_tenant r = t_id (sc_tenant sc) \<and> s_env r = e_id (sc_env sc) \<and> live_secret r
           \<and> s_folder r \<in> set (map f_id (filter (\<lambda>f. f_env f = e_id (sc_env sc) \<and> path_matches p (SubtreePattern p) (f_path f)) (folders s))))
         (\<lambda>r. r\<lparr>s_deleted := Some (db_now s), s_destroy := Some (destroyAfter svc win)\<rparr>) (secrets s),
      folders := updating (\<lambda>f. f_env f = e_id (sc_env sc) \<and> path_matches p (SubtreePattern p) (f_path f) \<and> live_folder f)
         (\<lambda>f. f\<lparr>f_deleted := Some (db_now s)\<rparr>) (folders s)\<rparr>"
    by (auto simp: run_ok SoftDeleteSecretsInFolderSubtree_def SoftDeleteFolderSubtree_def Let_def)
  have "folders t = map (\<lambda>f. if f_env f = e_id (sc_env sc) \<and> live_folder f \<and> IsAtOrUnder (f_path f) p
          then f\<lparr>f_deleted := Some (db_now s)\<rparr> else f) (folders s)"
    by (auto simp: t u updating_def path_matches_under [OF x(2)])
  moreover have "secrets t = map (\<lambda>r. if s_tenant r = t_id (sc_tenant sc) \<and> s_env r = e_id (sc_env sc) \<and> live_secret r
            \<and> (\<exists>f \<in> set (folders s). f_id f = s_folder r \<and> f_env f = e_id (sc_env sc) \<and> IsAtOrUnder (f_path f) p)
          then r\<lparr>s_deleted := Some (db_now s), s_destroy := Some (destroyAfter svc win)\<rparr> else r) (secrets s)"
  proof -
    have "s_folder r \<in> set (map f_id (filter (\<lambda>f. f_env f = e_id (sc_env sc) \<and> path_matches p (SubtreePattern p) (f_path f)) (folders s)))
        \<longleftrightarrow> (\<exists>f \<in> set (folders s). f_id f = s_folder r \<and> f_env f = e_id (sc_env sc) \<and> IsAtOrUnder (f_path f) p)"
      for r :: secret
      by (auto simp: path_matches_under [OF x(2)] image_iff)
    moreover have "secrets t = updating (\<lambda>r. s_tenant r = t_id (sc_tenant sc) \<and> s_env r = e_id (sc_env sc) \<and> live_secret r
           \<and> s_folder r \<in> set (map f_id (filter (\<lambda>f. f_env f = e_id (sc_env sc) \<and> path_matches p (SubtreePattern p) (f_path f)) (folders s))))
         (\<lambda>r. r\<lparr>s_deleted := Some (db_now s), s_destroy := Some (destroyAfter svc win)\<rparr>) (secrets s)"
      by (simp add: t u)
    ultimately show ?thesis by (simp only: updating_def)
  qed
  moreover have "versions t = versions s" by (simp add: t u)
  ultimately show ?thesis using x by blast
qed

definition sample_dropped :: db where
  "sample_dropped = snd (DeleteFolder sample_svc ''tu'' ''web'' ''prod'' ''/db'' None sample_one)"

lemma sample_drop:
  "fst (DeleteFolder sample_svc ''tu'' ''web'' ''prod'' ''/db'' None sample_one) = Inr 1"
  by code_simp

theorem delete_folder_cascades_witness:
  "DeleteFolder sample_svc ''tu'' ''web'' ''prod'' ''/db'' None sample_one = (Inr 1, sample_dropped)
     \<and> versions sample_dropped = versions sample_one"
proof -
  have r: "DeleteFolder sample_svc ''tu'' ''web'' ''prod'' ''/db'' None sample_one = (Inr 1, sample_dropped)"
    using sample_drop by (simp add: sample_dropped_def prod_eq_iff)
  from delete_folder_cascades [OF r] r show ?thesis by blast
qed

section \<open>Restores that go wrong\<close>

text \<open>
  C35: \<open>RestoreSecret\<close> is not atomic: when it reports that the folder was not found, the secret has
  been restored nevertheless. It is live again, in a folder that is not live, so no address
  reaches it and the listing of deleted secrets no longer shows it.
\<close>

theorem restore_reports_error_but_restores:
  assumes run: "RestoreSecret svc tu su s = (Inl (NotFoundError ''folder''), t)"
  shows "\<exists>row \<in> set (secrets t). s_uuid row = su \<and> live_secret row
     \<and> (\<forall>f \<in> set (folders t). f_id f = s_folder row \<longrightarrow> live_folder f \<longrightarrow> f_env f \<notin> set (tenant_env_ids (s_tenant row) t))
     \<and> (\<exists>old \<in> set (secrets s). s_uuid old = su \<and> \<not> live_secret old)"
proof -
  have ten: "\<exists>tn. GetTenantByUUID tu s = (Inr tn, s) \<and>
      bindM (mapErr (mapWriteError ''secret''
         ''a live secret already exists at this path and key; move or delete it before restoring'')
         (RestoreSecretRow (t_id tn) su)) (\<lambda>restored.
     bindM (mapErr (mapReadError ''folder'') (GetFolderByID (s_folder restored) (t_id tn))) (\<lambda>folder.
     bindM (valueTypeFor (s_id restored) (s_current restored)) (\<lambda>vt.
     ret ((secretRowToMeta restored (f_path folder) (KeepVersions (svc_policy svc)))\<lparr>m_type := vt\<rparr>)))) s
       = (Inl (NotFoundError ''folder''), t)"
  proof (cases "GetTenantByUUID tu s")
    case (Pair r s')
    then have "s' = s" by (simp add: GetTenantByUUID_def q_one_def)
    with Pair run show ?thesis
      by (cases r) (auto simp: RestoreSecret_def bindM_def mapErr_def mapReadError_def split: if_splits)
  qed
  then obtain tn :: tenant where rest: "bindM (mapErr (mapWriteError ''secret''
         ''a live secret already exists at this path and key; move or delete it before restoring'')
         (RestoreSecretRow (t_id tn) su)) (\<lambda>restored.
     bindM (mapErr (mapReadError ''folder'') (GetFolderByID (s_folder restored) (t_id tn))) (\<lambda>folder.
     bindM (valueTypeFor (s_id restored) (s_current restored)) (\<lambda>vt.
     ret ((secretRowToMeta restored (f_path folder) (KeepVersions (svc_policy svc)))\<lparr>m_type := vt\<rparr>)))) s
       = (Inl (NotFoundError ''folder''), t)" by blast
  obtain r u where r: "RestoreSecretRow (t_id tn) su s = (r, u)" by fastforce
  show ?thesis
  proof (cases r)
    case (Inl e)
    with rest r show ?thesis by (auto simp: bindM_def mapErr_def mapWriteError_def split: dberr.splits)
  next
    case (Inr row)
    let ?P = "\<lambda>r. s_tenant r = t_id tn \<and> s_uuid r = su \<and> \<not> live_secret r"
    let ?f = "\<lambda>r. r\<lparr>s_deleted := None, s_destroy := None\<rparr> :: secret"
    have u: "u = s\<lparr>secrets := updating ?P ?f (secrets s)\<rparr>" "\<exists>x xs. filter ?P (secrets s) = x # xs \<and> row = ?f x"
      using update_secrets_run [of ?P ?f s r u] r Inr by (auto simp: RestoreSecretRow_def)
    then obtain x where x: "x \<in> set (secrets s)" "?P x" "row = ?f x" by (auto dest: filter_Cons_in)
    have t: "t = u" and nf: "GetFolderByID (s_folder row) (t_id tn) u = (Inl NoRows, u)"
    proof -
      obtain g u' where g: "GetFolderByID (s_folder row) (t_id tn) u = (g, u')" by fastforce
      then have u': "u' = u" "\<And>e. g = Inl e \<Longrightarrow> e = NoRows" by (auto simp: GetFolderByID_def q_one_def split: list.splits)
      obtain vt where vt: "valueTypeFor (s_id row) (s_current row) u = (Inr vt, u)" using valueTypeFor_run by blast
      show "t = u" "GetFolderByID (s_folder row) (t_id tn) u = (Inl NoRows, u)"
        using rest r Inr g u' vt by (cases g; auto simp: bindM_def mapErr_def ret_def)+
    qed
    have "\<forall>f \<in> set (folders u). \<not> (f_id f = s_folder row \<and> live_folder f \<and> f_env f \<in> set (tenant_env_ids (t_id tn) u))"
      using nf by (auto simp: GetFolderByID_def q_err filter_empty_conv)
    moreover have "row \<in> set (secrets t)" using x by (force simp: t u(1) updating_set)
    ultimately show ?thesis using x t by (intro bexI [of _ row]) (auto simp: live_secret_def)
  qed
qed

lemma sample_restore_dropped:
  "fst (RestoreSecret sample_svc ''tu'' (replicate 6 CHR ''u'') sample_dropped) = Inl (NotFoundError ''folder'')"
  by code_simp

theorem restore_reports_error_but_restores_witness:
  "\<exists>t row. RestoreSecret sample_svc ''tu'' (replicate 6 CHR ''u'') sample_dropped = (Inl (NotFoundError ''folder''), t)
     \<and> row \<in> set (secrets t) \<and> live_secret row"
proof -
  obtain t where t: "RestoreSecret sample_svc ''tu'' (replicate 6 CHR ''u'') sample_dropped = (Inl (NotFoundError ''folder''), t)"
    using sample_restore_dropped
    by (cases "RestoreSecret sample_svc ''tu'' (replicate 6 CHR ''u'') sample_dropped") auto
  from restore_reports_error_but_restores [OF t] t show ?thesis by blast
qed

lemma resolveEnvironment_tenant:
  "resolveEnvironment tu pr en s = (Inr sc, s) \<Longrightarrow> GetTenantByUUID tu s = (Inr (sc_tenant sc), s)"
  by (auto simp: resolveEnvironment_def run_ok GetTenantByUUID_def q_ok)

lemma mrnResourcePath_inj:
  "p \<noteq> ''/'' \<Longrightarrow> p' \<noteq> ''/'' \<Longrightarrow> mrnResourcePath e p k = mrnResourcePath e p' k \<longleftrightarrow> p = p'"
  by (simp add: mrnResourcePath_def)

text \<open>A restore that succeeds, of the only secret with its UUID and the only folder with its id.\<close>

lemma RestoreSecret_result:
  assumes run: "RestoreSecret svc tu (s_uuid q) s = (Inr m, t)" and ok: "store_ok s" and tn: "GetTenantByUUID tu s = (Inr tn, s)"
    and q: "q \<in> set (secrets s)" "\<not> live_secret q" "s_tenant q = t_id tn" and f: "f \<in> set (folders s)" "f_id f = s_folder q"
  shows "m_folder m = f_path f \<and> m_key m = s_key q \<and> m_mrn_path m = s_mrn_path q
     \<and> q\<lparr>s_deleted := None, s_destroy := None\<rparr> \<in> set (secrets t)"
proof -
  let ?P = "\<lambda>r. s_tenant r = t_id tn \<and> s_uuid r = s_uuid q \<and> \<not> live_secret r"
  let ?f = "\<lambda>r. r\<lparr>s_deleted := None, s_destroy := None\<rparr> :: secret"
  obtain row u g vt where row: "RestoreSecretRow (t_id tn) (s_uuid q) s = (Inr row, u)"
    and g: "GetFolderByID (s_folder row) (t_id tn) u = (Inr g, u)" and t: "t = u"
    and m: "m = (secretRowToMeta row (f_path g) (KeepVersions (svc_policy svc)))\<lparr>m_type := vt\<rparr>"
  proof -
    obtain row u where row: "RestoreSecretRow (t_id tn) (s_uuid q) s = (Inr row, u)"
      using run tn by (auto simp: RestoreSecret_def run_ok)
    obtain g u' where g: "GetFolderByID (s_folder row) (t_id tn) u = (Inr g, u')"
      using run tn row by (auto simp: RestoreSecret_def run_ok)
    then have u': "u' = u" by (simp add: GetFolderByID_def q_ok)
    obtain vt where vt: "valueTypeFor (s_id row) (s_current row) u = (Inr vt, u)" using valueTypeFor_run by blast
    show ?thesis using run tn row g u' vt by (intro that [of row u g vt]) (simp_all add: RestoreSecret_def bindM_def mapErr_def ret_def)
  qed
  have "distinct (map s_uuid (secrets s))" using store_okD(2) [OF ok] by (auto simp: secrets_error_def uq_secrets_def split: option.splits if_splits)
  from filter_unique_sub [OF this q(1), of ?P] q have one: "filter ?P (secrets s) = [q]" by simp
  with update_secrets_run [of ?P ?f s "Inr row" u] row have u: "u = s\<lparr>secrets := updating ?P ?f (secrets s)\<rparr>" "row = ?f q"
    by (auto simp: RestoreSecretRow_def)
  have "g \<in> set (folders s)" "f_id g = s_folder q" using g by (auto simp: GetFolderByID_def q_ok u dest!: filter_Cons_in)
  then have "g = f" using distinct_map_eq [OF store_okD(9) [OF ok] _ f(1)] f(2) by simp
  moreover have "?f q \<in> set (secrets t)" using q by (auto simp: t u(1) updating_set intro!: bexI [of _ q])
  ultimately show ?thesis by (simp add: m u(2) secretRowToMeta_def)
qed

text \<open>
  C36: a restore after a move leaves the MRN stale: for every deleted secret whose folder is at or below the folder
  that is moved, and whose MRN path is that of its address, a later successful restore gives a live secret at the
  folder's new path that still has the MRN path of the old place, which is not the resource path of its address.
\<close>

theorem restore_after_move_is_stale:
  assumes move: "MoveFolder tu pr en from to s = (Inr v, s1)" and ok: "store_ok s"
    and scope: "resolveEnvironment tu pr en s = (Inr sc, s)" "NormalizePath from = Inr old"
    and f: "f \<in> set (folders s)" "placed (e_id (sc_env sc)) (f_path f) f" "IsAtOrUnder (f_path f) old"
    and q: "q \<in> set (secrets s)" "\<not> live_secret q" "s_tenant q = t_id (sc_tenant sc)" "s_folder q = f_id f"
    and mrn: "s_mrn_path q = mrnResourcePath en (f_path f) (s_key q)"
    and restore: "RestoreSecret svc tu (s_uuid q) s1 = (Inr m, t)"
  shows "\<exists>new. NormalizePath to = Inr new \<and> m_folder m = new @ drop (length old) (f_path f) \<and> m_key m = s_key q
     \<and> q\<lparr>s_deleted := None, s_destroy := None\<rparr> \<in> set (secrets t)
     \<and> m_mrn_path m = mrnResourcePath en (f_path f) (s_key q)
     \<and> m_mrn_path m \<noteq> mrnResourcePath en (m_folder m) (m_key m)"
proof (rule move_cases [OF move ok], goal_cases)
  case (1 old' new sc' node parent made)
  then have same: "old' = old" "sc' = sc" using scope by simp_all
  note c = 1 [unfolded same]
  let ?g = "moved_folder (e_id (sc_env sc)) old new node parent f"
  have node: "node \<in> set (folders s)" "f_path node = old" using folder_at_placed [OF c(7)] by (simp_all add: placed_def)
  have path: "f_path ?g = new @ drop (length old) (f_path f)"
  proof (cases "f_id f = f_id node")
    case True
    then have "f = node" using distinct_map_eq [OF store_okD(9) [OF ok] f(1) node(1)] by simp
    with node(2) show ?thesis by (simp add: moved_folder_def)
  next
    case False
    with f show ?thesis by (simp add: moved_folder_def placed_def)
  qed
  have g: "?g \<in> set (folders s1)" using f(1) by (simp add: c(10))
  have "refreshed s1 (t_id (sc_tenant sc)) (e_id (sc_env sc)) new q = q" using q(2) by (auto simp: refreshed_def split: option.splits)
  then have q1: "q \<in> set (secrets s1)" using q(1) by (subst c(12)) force
  have "tenants s1 = tenants s" by (subst c(13)) simp
  then have tn: "GetTenantByUUID tu s1 = (Inr (sc_tenant sc), s1)"
    using resolveEnvironment_tenant [OF scope(1)] by (simp add: GetTenantByUUID_def q_ok)
  have r: "m_folder m = f_path ?g" "m_key m = s_key q" "m_mrn_path m = s_mrn_path q"
      "q\<lparr>s_deleted := None, s_destroy := None\<rparr> \<in> set (secrets t)"
    using RestoreSecret_result [OF restore c(14) tn q1 q(2,3) g] q(4) by simp_all
  obtain rest where rest: "f_path f = old @ rest" "f_path f \<noteq> ''/''" "new @ rest \<noteq> ''/''"
  proof -
    have "old \<noteq> []" "new \<noteq> []" using Normalize_canonical [OF c(1)] Normalize_canonical [OF c(2)] by (auto simp: canonical_def)
    with f(3) c(3,15) show ?thesis
      by (intro that [of "drop (length old) (f_path f)"]) (auto simp: IsAtOrUnder_def prefix_def append_eq_Cons_conv)
  qed
  have "new \<noteq> old" using c(4) by (auto simp: IsAtOrUnder_def)
  with rest have "mrnResourcePath en (f_path f) (s_key q) \<noteq> mrnResourcePath en (f_path ?g) (s_key q)"
    by (simp add: path mrnResourcePath_inj)
  with c(2) r path mrn show ?case by simp
qed

definition sample_deleted :: db where
  "sample_deleted = snd (DeleteSecret sample_svc sample_ref None sample_one)"

lemma sample_deleted_facts:
  "case (secrets sample_deleted, folders sample_deleted) of
     ([q], [r, f]) \<Rightarrow> \<not> live_secret q \<and> s_folder q = f_id f \<and> placed 3 ''/db'' f \<and> f_path f = ''/db''
       \<and> s_mrn_path q = mrnResourcePath ''prod'' ''/db'' (s_key q)
   | _ \<Rightarrow> False"
  "case resolveEnvironment ''tu'' ''web'' ''prod'' sample_deleted of
     (Inr sc, s) \<Rightarrow> e_id (sc_env sc) = 3 \<and> list_all (\<lambda>q. s_tenant q = t_id (sc_tenant sc)) (secrets sample_deleted)
   | _ \<Rightarrow> False"
  "(case MoveFolder ''tu'' ''web'' ''prod'' ''/db'' ''/data/db'' sample_deleted of
      (Inl e, s1) \<Rightarrow> False
    | (Inr v, s1) \<Rightarrow> (case RestoreSecret sample_svc ''tu'' (s_uuid (hd (secrets sample_deleted))) s1 of
         (Inl e, t) \<Rightarrow> False | (Inr m, t) \<Rightarrow> True))"
  by code_simp+

theorem restore_after_move_is_stale_witness:
  "\<exists>v s1 m t. MoveFolder ''tu'' ''web'' ''prod'' ''/db'' ''/data/db'' sample_deleted = (Inr v, s1)
     \<and> RestoreSecret sample_svc ''tu'' (s_uuid (hd (secrets sample_deleted))) s1 = (Inr m, t)
     \<and> m_folder m = ''/data/db'' \<and> m_mrn_path m = ''secret/prod/db/'' @ m_key m
     \<and> m_mrn_path m \<noteq> mrnResourcePath ''prod'' (m_folder m) (m_key m)"
proof -
  obtain q r f where t: "secrets sample_deleted = [q]" "folders sample_deleted = [r, f]" "\<not> live_secret q" "s_folder q = f_id f"
      "placed 3 ''/db'' f" "f_path f = ''/db''" "s_mrn_path q = mrnResourcePath ''prod'' ''/db'' (s_key q)"
    using sample_deleted_facts(1) by (auto split: list.splits)
  obtain sc where sc: "resolveEnvironment ''tu'' ''web'' ''prod'' sample_deleted = (Inr sc, sample_deleted)"
      "e_id (sc_env sc) = 3" "s_tenant q = t_id (sc_tenant sc)"
    using sample_deleted_facts(2) t(1) resolveEnvironment_ok by (fastforce split: prod.splits sum.splits)
  obtain v s1 m u where run: "MoveFolder ''tu'' ''web'' ''prod'' ''/db'' ''/data/db'' sample_deleted = (Inr v, s1)"
      "RestoreSecret sample_svc ''tu'' (s_uuid q) s1 = (Inr m, u)"
    using sample_deleted_facts(3) t(1) by (auto split: prod.splits sum.splits)
  have ok: "store_ok sample_deleted"
    unfolding sample_deleted_def by (rule keepsD [OF secret_ops_keep(3) surjective_pairing sample_one_ok])
  have n: "NormalizePath ''/db'' = Inr ''/db''" "NormalizePath ''/data/db'' = Inr ''/data/db''" by code_simp+
  have "\<exists>new. NormalizePath ''/data/db'' = Inr new \<and> m_folder m = new @ drop (length ''/db'') (f_path f) \<and> m_key m = s_key q
     \<and> q\<lparr>s_deleted := None, s_destroy := None\<rparr> \<in> set (secrets u)
     \<and> m_mrn_path m = mrnResourcePath ''prod'' (f_path f) (s_key q)
     \<and> m_mrn_path m \<noteq> mrnResourcePath ''prod'' (m_folder m) (m_key m)"
    by (rule restore_after_move_is_stale [OF run(1) ok sc(1) n(1) _ _ _ _ t(3) sc(3) t(4) _ run(2)])
       (simp_all add: t sc(2) IsAtOrUnder_def)
  with run n t show ?thesis by (auto simp: mrnResourcePath_def)
qed

section \<open>Environments\<close>

lemma CreateEnvironmentRow_ok:
  "CreateEnvironmentRow pid n sl d po st s = (Inr e, t) \<Longrightarrow>
     t = s\<lparr>environments := environments s @ [e], seq := Suc (seq s)\<rparr> \<and> e_project e = pid \<and> e_slug e = sl \<and> e_deleted e = None
     \<and> e_id e = seq s \<and> uq_environments (environments s @ [e])"
  by (auto simp: CreateEnvironmentRow_def q_ok Let_def split: if_splits)

text \<open>
  A created environment is usable at once: after a successful \<open>CreateEnvironment\<close> the environment
  resolves by its slug and its root folder is there, so a path walk can start; when the creation
  fails nothing has changed.
\<close>

theorem create_environment_usable:
  assumes run: "CreateEnvironment tu pr n sl d po s = (r, t)"
  shows "case r of
      Inl e \<Rightarrow> t = s
    | Inr v \<Rightarrow> ev_slug v = sl \<and> (\<exists>sc root. resolveEnvironment tu pr sl t = (Inr sc, t) \<and> toEnvironment (sc_env sc) = v
        \<and> folder_at sc ''/'' t = (Inr root, t) \<and> f_path root = ''/'')"
proof (cases r)
  case (Inl e)
  with run have "t = s"
    unfolding CreateEnvironment_def GetTenantByUUID_def GetProjectBySlug_def
    by (auto simp: bindM_err mapErr_err liftR_run InTx_err q_err q_ok mapErr_ok)
  with Inl show ?thesis by simp
next
  case (Inr v)
  obtain tn pj where tn: "GetTenantByUUID tu s = (Inr tn, s)" and pj: "GetProjectBySlug (t_id tn) pr s = (Inr pj, s)"
    and tx: "\<exists>u. bindM (mapErr (mapWriteError ''environment'' (''environment '' @ sl @ '' already exists in project '' @ pr))
           (CreateEnvironmentRow (p_id pj) (if n = [] then sl else n) sl d po ''active'')) (\<lambda>row.
       bindM (mapErr (\<lambda>e. InternalError ''create environment root folder'' (DbCause e))
           (CreateFolderRow (e_id row) None [] ''/'')) (\<lambda>_.
       ret (toEnvironment row))) (s\<lparr>guc_delete := [], guc_rewrap := [], guc_transit := []\<rparr>) = (Inr v, u)
       \<and> t = u\<lparr>guc_delete := guc_delete s, guc_rewrap := guc_rewrap s, guc_transit := guc_transit s\<rparr>"
  proof -
    obtain tn s' where a: "GetTenantByUUID tu s = (Inr tn, s')"
      using run Inr by (auto simp: CreateEnvironment_def run_ok)
    then have s': "s' = s" by (simp add: GetTenantByUUID_def q_ok)
    obtain pj s'' where b: "GetProjectBySlug (t_id tn) pr s = (Inr pj, s'')"
      using run Inr a s' by (auto simp: CreateEnvironment_def run_ok)
    then have s'': "s'' = s" by (simp add: GetProjectBySlug_def q_ok)
    show ?thesis
      using run Inr a b s' s'' unfolding CreateEnvironment_def
      by (intro that [of tn pj])
         (auto simp: bindM_ok [of "liftR _"] bindM_ok [of "mapErr _ (GetTenantByUUID _)"]
           bindM_ok [of "mapErr _ (GetProjectBySlug _ _)"] mapErr_ok liftR_run InTx_ok)
  qed
  obtain e u1 root u where e: "CreateEnvironmentRow (p_id pj) (if n = [] then sl else n) sl d po ''active''
        (s\<lparr>guc_delete := [], guc_rewrap := [], guc_transit := []\<rparr>) = (Inr e, u1)"
      and f: "CreateFolderRow (e_id e) None [] ''/'' u1 = (Inr root, u)" and v: "v = toEnvironment e"
      and t: "t = u\<lparr>guc_delete := guc_delete s, guc_rewrap := guc_rewrap s, guc_transit := guc_transit s\<rparr>"
    using tx by (auto simp: run_ok)
  have u1: "u1 = s\<lparr>guc_delete := [], guc_rewrap := [], guc_transit := [], environments := environments s @ [e], seq := Suc (seq s)\<rparr>"
      "e_project e = p_id pj" "e_slug e = sl" "e_deleted e = None" "uq_environments (environments s @ [e])"
    using CreateEnvironmentRow_ok [OF e] by auto
  have u: "u = u1\<lparr>folders := folders u1 @ [root], seq := Suc (seq u1)\<rparr>" "f_path root = ''/''" "f_env root = e_id e"
      "f_deleted root = None" "folders_error (folders u1 @ [root]) = None"
    using CreateFolderRow_ok [OF f] by auto
  have tt: "tenants t = tenants s" "projects t = projects s" "environments t = environments s @ [e]"
      "folders t = folders s @ [root]"
    by (simp_all add: t u u1)
  have tnm: "tn \<in> set (tenants s)" using tn by (auto simp: GetTenantByUUID_def q_ok dest!: filter_Cons_in)
  have pjm: "pj \<in> set (projects s)" "p_tenant pj = t_id tn" "live_project pj"
    using pj by (auto simp: GetProjectBySlug_def q_ok dest!: filter_Cons_in)
  let ?ok = "\<lambda>x. live_env x \<and> (\<exists>p \<in> set (projects s). p_id p = e_project x \<and> p_tenant p = t_id tn \<and> live_project p)"
  have eok: "?ok e" using u1 pjm by (auto simp: live_env_def)
  have dist: "distinct (map (\<lambda>x. (e_project x, e_slug x)) (environments t))" using u1(5) by (simp add: tt uq_environments_def)
  have ft: "filter (\<lambda>x. e_project x = p_id pj \<and> e_slug x = sl \<and> ?ok x) (environments t) = [e]"
    using eok u1(2,3) by (intro filter_unique_sub [OF dist]) (auto simp: tt)
  define sc where "sc = \<lparr>sc_tenant = tn, sc_project = pj, sc_env = e\<rparr>"
  have tn_t: "GetTenantByUUID tu t = (Inr tn, t)" and pj_t: "GetProjectBySlug (t_id tn) pr t = (Inr pj, t)"
    using tn pj by (auto simp: GetTenantByUUID_def GetProjectBySlug_def q_ok tt)
  have en_t: "GetEnvironmentBySlug (p_id pj) sl (t_id tn) t = (Inr e, t)"
    using ft by (simp add: GetEnvironmentBySlug_def q_one_def tt)
  have res: "resolveEnvironment tu pr sl t = (Inr sc, t)"
    by (simp add: resolveEnvironment_def bindM_def mapErr_def tn_t pj_t en_t ret_def sc_def)
  have ids: "e_id e \<in> set (tenant_env_ids (t_id tn) t)"
    using eok by (auto simp: tenant_env_ids_def tt image_iff)
  have fd: "distinct (map (\<lambda>f. (f_env f, f_path f)) (filter live_folder (folders t)))"
    using u(5) by (auto simp: folders_error_def uq_folders_def tt u1 split: option.splits if_splits)
  have "filter (\<lambda>f. f_env f = e_id e \<and> f_path f = ''/'' \<and> f_env f \<in> set (tenant_env_ids (t_id tn) t)) (filter live_folder (folders t)) = [root]"
    using u(2-4) ids by (intro filter_unique_sub [OF fd]) (auto simp: tt live_folder_def)
  then have "filter (\<lambda>f. f_env f = e_id e \<and> f_path f = ''/'' \<and> live_folder f \<and> f_env f \<in> set (tenant_env_ids (t_id tn) t)) (folders t) = [root]"
    by (simp add: filter_filter conj_ac)
  then have "folder_at sc ''/'' t = (Inr root, t)"
    by (simp add: folder_at_def GetFolderByPath_def q_one_def sc_def)
  with res Inr v u(2) u1(3) show ?thesis by (auto simp: toEnvironment_def sc_def)
qed

lemma sample_create_env:
  "(case fst (CreateEnvironment ''tu'' ''web'' [] ''stage'' [] 1 sample_db) of Inl e \<Rightarrow> False | Inr v \<Rightarrow> ev_name v = ''stage'')"
  by code_simp

theorem create_environment_usable_witness:
  "\<exists>v t sc root. CreateEnvironment ''tu'' ''web'' [] ''stage'' [] 1 sample_db = (Inr v, t)
     \<and> resolveEnvironment ''tu'' ''web'' ''stage'' t = (Inr sc, t) \<and> folder_at sc ''/'' t = (Inr root, t)"
proof -
  obtain v t where r: "CreateEnvironment ''tu'' ''web'' [] ''stage'' [] 1 sample_db = (Inr v, t)"
    using sample_create_env
    by (cases "CreateEnvironment ''tu'' ''web'' [] ''stage'' [] 1 sample_db") (auto split: sum.splits)
  from create_environment_usable [OF r] r show ?thesis by auto
qed

section \<open>The default scope\<close>

definition default_svc :: service where
  "default_svc = sample_svc\<lparr>svc_policy := (svc_policy sample_svc)
     \<lparr>DefaultTenant := ''acme'', DefaultProject := ''web'', DefaultEnvironment := ''prod''\<rparr>\<rparr>"

text \<open>
  \<open>EnsureDefaultScope\<close> can report success without the scope being there: environment slugs stay
  reserved after a soft delete, so once the default environment was deleted the create conflicts,
  the conflict is taken for another replica's success, and the environment is still missing.
\<close>

theorem default_scope_success_without_environment:
  "let s1 = snd (DeleteEnvironment ''tu'' ''web'' ''prod'' sample_db);
       (r, s2) = EnsureDefaultScope default_svc s1
   in (case r of Inl e \<Rightarrow> False | Inr t \<Rightarrow> tv_name t = ''acme'')
      \<and> fst (GetEnvironment ''tu'' ''web'' ''prod'' s2) = Inl (NotFoundError ''environment'')"
  by code_simp

section \<open>Flat keys\<close>

lemma FlatRef_ok:
  assumes "FlatRef svc flat s = (Inr ref, t)"
  shows "\<exists>tn p. t = s \<and> GetTenantRowByName (DefaultTenant (svc_policy svc)) s = (Inr tn, s)
     \<and> NormalizePath (fst (flat_split (TrimSpace flat))) = Inr p \<and> ValidateKey (snd (flat_split (TrimSpace flat))) = None
     \<and> ref = \<lparr>r_tenant = t_uuid tn, r_project = DefaultProject (svc_policy svc),
            r_environment = DefaultEnvironment (svc_policy svc), r_folder = p, r_key = snd (flat_split (TrimSpace flat))\<rparr>"
proof -
  obtain g s' where g: "GetTenantRowByName (DefaultTenant (svc_policy svc)) s = (g, s')" by fastforce
  then have "s' = s" by (simp add: GetTenantRowByName_def q_one_def)
  with assms g show ?thesis unfolding FlatRef_def Let_def
    by (cases g) (auto simp: bindM_ok liftR_run guardM_ok tryM_ok ret_run fail_run split: if_splits)
qed

text \<open>
  Flat keys name secrets one to one with their addresses in the default scope: what \<open>FlatKey\<close>
  prints for a secret's metadata, \<open>FlatRef\<close> reads back as the folder and key it came from.
\<close>

theorem flat_key_roundtrip:
  assumes "FlatRef svc flat s = (Inr ref, t)" "m_folder m = r_folder ref" "m_key m = r_key ref"
  shows "t = s \<and> FlatRef svc (FlatKey m) s = (Inr ref, s)"
proof -
  obtain tn p where f: "t = s" "GetTenantRowByName (DefaultTenant (svc_policy svc)) s = (Inr tn, s)"
      "NormalizePath (fst (flat_split (TrimSpace flat))) = Inr p" "ValidateKey (snd (flat_split (TrimSpace flat))) = None"
      "ref = \<lparr>r_tenant = t_uuid tn, r_project = DefaultProject (svc_policy svc),
            r_environment = DefaultEnvironment (svc_policy svc), r_folder = p, r_key = snd (flat_split (TrimSpace flat))\<rparr>"
    using FlatRef_ok [OF assms(1)] by blast
  have ref: "NormalizePath (r_folder ref) = Inr (r_folder ref)" "ValidateKey (r_key ref) = None" "canonical (r_folder ref)"
    using f(3,4) Normalize_canonical canonical_Normalize by (auto simp: f(5))
  have eq: "ref = \<lparr>r_tenant = t_uuid tn, r_project = DefaultProject (svc_policy svc),
            r_environment = DefaultEnvironment (svc_policy svc), r_folder = r_folder ref, r_key = r_key ref\<rparr>"
    by (simp add: f(5))
  obtain ws where ws: "r_folder ref = path_of ws" "segments_ok ws" using ref(3) by (auto simp: canonical_def)
  have kp: "keyPattern (r_key ref)" using ref(2) by (simp add: ValidateKey_None)
  have flat: "FlatKey m = joinWith slash (ws @ [r_key ref])"
    using ws joinWith_append [of ws "[r_key ref]" slash] assms(2,3)
    by (cases ws) (auto simp: FlatKey_def path_of_def TrimPrefixByte_def join_eq_Nil)
  have hd: "FlatKey m \<noteq> [] \<and> \<not> space_byte (hd (FlatKey m)) \<and> \<not> space_byte (last (FlatKey m))"
  proof (cases ws)
    case Nil
    then show ?thesis using flat key_nonempty [OF kp] key_last [OF kp] key_first [OF kp] by simp
  next
    case (Cons w vs)
    then have "w \<noteq> []" "\<not> space_byte (hd w)" using ws(2) folder_ends alnum_not_space by auto
    moreover have "FlatKey m = joinWith slash ws @ slash # r_key ref"
      using flat Cons joinWith_append [of ws "[r_key ref]" slash] by simp
    moreover have "joinWith slash ws \<noteq> [] \<and> hd (joinWith slash ws) = hd w"
      using Cons \<open>w \<noteq> []\<close> by (cases vs) auto
    ultimately show ?thesis using key_nonempty [OF kp] key_last [OF kp] by auto
  qed
  have trim: "TrimSpace (FlatKey m) = FlatKey m" using hd TrimSpace_plain by blast
  have split: "flat_split (FlatKey m) = (r_folder ref, r_key ref)
      \<or> ws \<noteq> [] \<and> flat_split (FlatKey m) = (joinWith slash ws, r_key ref)"
  proof (cases "ws = []")
    case True
    then have "LastIndexByte (FlatKey m) slash = None" using flat key_no_slash [OF kp] by simp
    with True flat ws show ?thesis by (simp add: flat_split_def del: LastIndexByte_None)
  next
    case False
    then have f: "FlatKey m = joinWith slash ws @ slash # r_key ref"
      using flat joinWith_append [of ws "[r_key ref]" slash] by simp
    have "joinWith slash ws \<noteq> []" using False join_eq_Nil [OF ws(2)] by simp
    then show ?thesis
      using False LastIndexByte_app [OF key_no_slash [OF kp], of "joinWith slash ws"] unfolding f
      by (simp add: flat_split_def)
  qed
  have norm: "NormalizePath (fst (flat_split (FlatKey m))) = Inr (r_folder ref)"
    using split Normalize_join [OF ref(3) ws] ref(1) by auto
  have "snd (flat_split (FlatKey m)) = r_key ref" using split by auto
  with norm trim hd ref(2) f(1,2) eq show ?thesis
    by (simp add: FlatRef_def Let_def bindM_def guardM_def liftR_def tryM_def ret_def checkPath_def checkKey_def)
qed

lemma sample_flat:
  "fst (FlatRef default_svc '' db/primary/PASSWORD '' sample_db)
     = Inr \<lparr>r_tenant = ''tu'', r_project = ''web'', r_environment = ''prod'', r_folder = ''/db/primary'', r_key = ''PASSWORD''\<rparr>"
  by code_simp

definition flat_meta :: secret_meta where
  "flat_meta = \<lparr>m_uuid = [], m_folder = ''/db/primary'', m_key = ''PASSWORD'', m_description = [], m_tags = [],
     m_current = 1, m_keep = 10, m_rotation = [], m_type = ''opaque'', m_mrn_path = [], m_mrn = [], m_rotated = None,
     m_expires = None, m_created = 0\<rparr>"

theorem flat_key_roundtrip_witness:
  "FlatKey flat_meta = ''db/primary/PASSWORD''
   \<and> FlatRef default_svc (FlatKey flat_meta) sample_db
     = (Inr \<lparr>r_tenant = ''tu'', r_project = ''web'', r_environment = ''prod'', r_folder = ''/db/primary'', r_key = ''PASSWORD''\<rparr>, sample_db)"
proof -
  obtain t where t: "FlatRef default_svc '' db/primary/PASSWORD '' sample_db
     = (Inr \<lparr>r_tenant = ''tu'', r_project = ''web'', r_environment = ''prod'', r_folder = ''/db/primary'', r_key = ''PASSWORD''\<rparr>, t)"
    using sample_flat by (metis prod.collapse)
  from flat_key_roundtrip [OF t, of flat_meta] show ?thesis
    by (simp add: flat_meta_def FlatKey_def TrimPrefixByte_def)
qed

end
