(* ===== verification/Rewrap.thy ===== *)
theory Rewrap
  imports Scope
begin

text \<open>
  \<open>internal/crypto/rewrap.go\<close>: moving every wrapped DEK from one root key to the ring's active one.
  \<open>RewrapStore\<close> is a record of the four methods, over any state \<open>'s\<close> and any error \<open>'e\<close>; the loop of
  \<open>RewrapAll\<close>, which has no bound of its own, is a \<open>partial_function\<close> whose value \<open>None\<close> is "does not
  return". Every return of the code carries the report, so an error is paired with the report at
  that point. \<open>rnd n\<close> is what the random source yields for the \<open>n\<close>-th wrap of the pass.

  The locale \<open>rewrap_contract\<close> states what the loop relies on of a store; its lemmas (the loop
  returns, drains the queue, counts what it moved, and can be resumed after an error) are used
  for the secret and the transit adapters.
\<close>

record vwrap =
  w_id :: nat
  w_kek :: string
  w_dek :: bytes
  w_dek_nonce :: bytes

record ('s, 'e) rewrap_store =
  ListVersionWraps :: "string \<Rightarrow> int \<Rightarrow> ('s, 'e, vwrap list) comp"
  RewrapVersion :: "nat \<Rightarrow> string \<Rightarrow> bytes \<Rightarrow> bytes \<Rightarrow> string \<Rightarrow> ('s, 'e, unit) comp"
  CountVersionWraps :: "string \<Rightarrow> ('s, 'e, nat) comp"
  RetireRootKey :: "string \<Rightarrow> ('s, 'e, unit) comp"

record rewrap_report =
  FromKEKID :: string
  ToKEKID :: string
  Rewrapped :: nat
  Remaining :: nat
  Retired :: bool

definition empty_report :: "string \<Rightarrow> string \<Rightarrow> rewrap_report" where
  "empty_report from to = \<lparr>FromKEKID = from, ToKEKID = to, Rewrapped = 0, Remaining = 0, Retired = False\<rparr>"

datatype 'e rewrap_error =
    NeedsStoreAndRing
  | NoSource crypto_error
  | ListFailed string 'e
  | RewrapFailed nat crypto_error
  | PersistFailed nat 'e
  | CountFailed string 'e
  | RetireFailed string 'e

type_synonym ('s, 'e, 'a) pass = "('s, 'e rewrap_error \<times> rewrap_report, 'a) comp"

text \<open>The inner loop over one batch.\<close>

fun rewrap_batch ::
    "('s, 'e) rewrap_store \<Rightarrow> (nat \<Rightarrow> bytes option) \<Rightarrow> provider \<Rightarrow> provider \<Rightarrow> rewrap_report \<Rightarrow>
     vwrap list \<Rightarrow> ('s, 'e, rewrap_report) pass" where
  "rewrap_batch st rnd from target report [] = ret report"
| "rewrap_batch st rnd from target report (w # ws) =
     (case Rewrap (Some from) (Some target) (rnd (Rewrapped report)) (w_dek w) (w_dek_nonce w) of
        Inl e \<Rightarrow> fail (RewrapFailed (w_id w) e, report)
      | Inr (wrapped, nonce) \<Rightarrow>
          bindM (mapErr (\<lambda>e. (PersistFailed (w_id w) e, report))
            (RewrapVersion st (w_id w) (FromKEKID report) wrapped nonce (KeyID target))) (\<lambda>_.
          rewrap_batch st rnd from target (report\<lparr>Rewrapped := Suc (Rewrapped report)\<rparr>) ws))"

text \<open>The outer loop.\<close>

partial_function (option) rewrap_loop ::
    "('s, 'e) rewrap_store \<Rightarrow> (nat \<Rightarrow> bytes option) \<Rightarrow> provider \<Rightarrow> provider \<Rightarrow> int \<Rightarrow> rewrap_report \<Rightarrow>
     's \<Rightarrow> ((('e rewrap_error \<times> rewrap_report) + rewrap_report) \<times> 's) option" where
  "rewrap_loop st rnd from target batch report s =
     (case ListVersionWraps st (FromKEKID report) batch s of
        (Inl e, t) \<Rightarrow> Some (Inl (ListFailed (FromKEKID report) e, report), t)
      | (Inr wraps, t) \<Rightarrow>
          if wraps = [] then Some (Inr report, t)
          else (case rewrap_batch st rnd from target report wraps t of
              (Inl e, u) \<Rightarrow> Some (Inl e, u)
            | (Inr report', u) \<Rightarrow>
                if int32 (int (length wraps)) < batch then Some (Inr report', u)
                else rewrap_loop st rnd from target batch report' u))"

declare rewrap_loop.simps [code]

text \<open>What follows the loop: the count, and the retirement when nothing is left.\<close>

definition rewrap_finish :: "('s, 'e) rewrap_store \<Rightarrow> rewrap_report \<Rightarrow> ('s, 'e, rewrap_report) pass" where
  "rewrap_finish st report =
     bindM (mapErr (\<lambda>e. (CountFailed (FromKEKID report) e, report)) (CountVersionWraps st (FromKEKID report))) (\<lambda>remaining.
     let report' = report\<lparr>Remaining := remaining\<rparr> in
     if remaining > 0 then ret report'
     else bindM (mapErr (\<lambda>e. (RetireFailed (FromKEKID report) e, report')) (RetireRootKey st (FromKEKID report))) (\<lambda>_.
       ret (report'\<lparr>Retired := True\<rparr>)))"

definition RewrapAll ::
    "('s, 'e) rewrap_store option \<Rightarrow> keyring option \<Rightarrow> (nat \<Rightarrow> bytes option) \<Rightarrow> string \<Rightarrow> int \<Rightarrow>
     's \<Rightarrow> ((('e rewrap_error \<times> rewrap_report) + rewrap_report) \<times> 's) option" where
  "RewrapAll store ring rnd fromKEKID batch s =
     (case (store, ring) of
        (Some st, Some r) \<Rightarrow>
          let batch' = (if batch < 1 then 100 else batch);
              target = Active r;
              report = empty_report fromKEKID (KeyID target)
          in if fromKEKID = KeyID target then Some (Inr report, s)
             else (case Provider r fromKEKID of
                 Inl e \<Rightarrow> Some (Inl (NoSource e, report), s)
               | Inr from \<Rightarrow>
                   (case rewrap_loop st rnd from target batch' report s of
                      None \<Rightarrow> None
                    | Some (Inl e, t) \<Rightarrow> Some (Inl e, t)
                    | Some (Inr report', t) \<Rightarrow> Some (rewrap_finish st report' t)))
      | _ \<Rightarrow> Some (Inl (NeedsStoreAndRing, empty_report [] []), s))"

text \<open>
  How a pass over a queue of \<open>n\<close> rows that moved \<open>k\<close> of them ends: the report it returns, with or
  without an error, is the one it began with and \<open>k\<close> more rewrapped; without an error \<open>k = n\<close>.
\<close>

definition pass_result ::
    "rewrap_report \<Rightarrow> nat \<Rightarrow> nat \<Rightarrow> ('e rewrap_error \<times> rewrap_report) + rewrap_report \<Rightarrow> bool" where
  "pass_result report n k r =
     (case r of Inl (_, report') \<Rightarrow> report' = report\<lparr>Rewrapped := Rewrapped report + k\<rparr>
      | Inr report' \<Rightarrow> k = n \<and> report' = report\<lparr>Rewrapped := Rewrapped report + k\<rparr>)"

lemma pass_result_Inr: "pass_result report n k (Inr report') \<longleftrightarrow>
    k = n \<and> report' = report\<lparr>Rewrapped := Rewrapped report + n\<rparr>"
  by (auto simp: pass_result_def)

lemma pass_result_Inl: "pass_result report n k (Inl (e, report')) \<longleftrightarrow>
    report' = report\<lparr>Rewrapped := Rewrapped report + k\<rparr>"
  by (simp add: pass_result_def)

lemma pass_result_add:
  "pass_result (report\<lparr>Rewrapped := Rewrapped report + j\<rparr>) n k r \<Longrightarrow> pass_result report (j + n) (j + k) r"
  by (auto simp: pass_result_def add.assoc split: sum.splits prod.splits)

section \<open>The contract of a store and what the loop does over it\<close>

locale rewrap_contract =
  fixes st :: "('s, 'e) rewrap_store"
    and pending :: "string \<Rightarrow> 's \<Rightarrow> vwrap list"
    and inv :: "'s \<Rightarrow> bool"
  assumes list_ok: "ListVersionWraps st kek n s = (Inr ws, t) \<Longrightarrow> t = s \<and> ws = take (nat n) (pending kek s)"
    and list_err: "ListVersionWraps st kek n s = (Inl e, t) \<Longrightarrow> t = s"
    and rewrap_ok: "inv s \<Longrightarrow> kek \<noteq> to \<Longrightarrow> RewrapVersion st vid kek w nonce to s = (Inr u, t) \<Longrightarrow>
        inv t \<and> pending kek t = filter (\<lambda>x. w_id x \<noteq> vid) (pending kek s)"
    and rewrap_err: "RewrapVersion st vid kek w nonce to s = (Inl e, t) \<Longrightarrow> t = s"
    and count_ok: "CountVersionWraps st kek s = (Inr m, t) \<Longrightarrow> t = s \<and> m = length (pending kek s)"
    and count_err: "CountVersionWraps st kek s = (Inl e, t) \<Longrightarrow> t = s"
    and retire: "inv s \<Longrightarrow> RetireRootKey st kek s = (r, t) \<Longrightarrow> inv t \<and> pending k t = pending k s"
    and ids: "inv s \<Longrightarrow> distinct (map w_id (pending kek s))"
begin

text \<open>
  What each re-wrap of a queued row keeps, the whole pass keeps: \<open>J\<close> may use that the new wrap is
  what \<open>Rewrap\<close> made of the row's old one.
\<close>

definition step_keeps :: "provider \<Rightarrow> provider \<Rightarrow> string \<Rightarrow> ('s \<Rightarrow> bool) \<Rightarrow> bool" where
  "step_keeps from target kek J \<longleftrightarrow> (\<forall>s w draw wr n t. inv s \<longrightarrow> J s \<longrightarrow> w \<in> set (pending kek s) \<longrightarrow>
     Rewrap (Some from) (Some target) draw (w_dek w) (w_dek_nonce w) = Inr (wr, n) \<longrightarrow>
     RewrapVersion st (w_id w) kek wr n (KeyID target) s = (Inr (), t) \<longrightarrow> J t)"

lemma step_keeps_True: "step_keeps from target kek (\<lambda>_. True)"
  by (simp add: step_keeps_def)

text \<open>After a batch over the head of the queue, also one that fails, the queue has lost what was moved.\<close>

lemma batch_progress:
  assumes "inv s" "pending (FromKEKID report) s = ws @ rest" "FromKEKID report \<noteq> KeyID target"
    and keep: "step_keeps from target (FromKEKID report) J" "J s"
    and "rewrap_batch st rnd from target report ws s = (r, t)"
  shows "\<exists>k \<le> length ws. inv t \<and> J t \<and> pending (FromKEKID report) t = drop k (ws @ rest)
    \<and> pass_result report (length ws) k r"
  using assms
proof (induction ws arbitrary: s report)
  case Nil
  then show ?case by (auto simp: ret_def pass_result_Inr)
next
  case (Cons w ws)
  show ?case
  proof (cases "Rewrap (Some from) (Some target) (rnd (Rewrapped report)) (w_dek w) (w_dek_nonce w)")
    case (Inl e)
    then show ?thesis using Cons.prems by (auto simp: fail_def pass_result_Inl)
  next
    case (Inr p)
    obtain wr n where p: "p = (wr, n)" by (cases p)
    obtain q u where step: "RewrapVersion st (w_id w) (FromKEKID report) wr n (KeyID target) s = (q, u)"
      by (cases "RewrapVersion st (w_id w) (FromKEKID report) wr n (KeyID target) s")
    show ?thesis
    proof (cases q)
      case (Inl e)
      with step rewrap_err have "u = s" by blast
      with step Inl \<open>_ = Inr p\<close> p Cons.prems show ?thesis
        by (auto simp: bindM_def mapErr_def pass_result_Inl)
    next
      case (Inr x)
      have "inv u" and "pending (FromKEKID report) u = filter (\<lambda>y. w_id y \<noteq> w_id w) (w # ws @ rest)"
        using rewrap_ok [OF Cons.prems(1) Cons.prems(3)] step Inr Cons.prems(2) by auto
      moreover have "filter (\<lambda>y. w_id y \<noteq> w_id w) (w # ws @ rest) = ws @ rest"
        using ids [OF Cons.prems(1), of "FromKEKID report"] unfolding Cons.prems(2)
        by (intro filter_others) simp
      ultimately have u: "inv u" "pending (FromKEKID report) u = ws @ rest" by simp_all
      have "J u" using Cons.prems(1,2,4,5) \<open>_ = Inr p\<close> p step Inr unfolding step_keeps_def
        by (metis (full_types) list.set_intros(1) append_Cons old.unit.exhaust)
      let ?report = "report\<lparr>Rewrapped := Rewrapped report + 1\<rparr>"
      have "rewrap_batch st rnd from target ?report ws u = (r, t)"
        using Cons.prems(6) \<open>_ = Inr p\<close> p step Inr by (simp add: bindM_def mapErr_def)
      from Cons.IH [of u ?report, OF u(1) _ _ _ \<open>J u\<close> this] u(2) Cons.prems(3,4)
      obtain k where "k \<le> length ws" "inv t" "J t" "pending (FromKEKID report) t = drop k (ws @ rest)"
        "pass_result ?report (length ws) k r" by auto
      then show ?thesis using pass_result_add by (intro exI [of _ "Suc k"]) fastforce
    qed
  qed
qed

text \<open>One round of the loop: it ends, or it goes on with a shorter queue.\<close>

lemma loop_step:
  assumes "inv s" "1 \<le> batch" "batch < 2 ^ 31" "FromKEKID report \<noteq> KeyID target"
    and keep: "step_keeps from target (FromKEKID report) J" "J s"
  obtains (stop) r t k where "rewrap_loop st rnd from target batch report s = Some (r, t)" "inv t" "J t"
      "k \<le> length (pending (FromKEKID report) s)"
      "pending (FromKEKID report) t = drop k (pending (FromKEKID report) s)"
      "pass_result report (length (pending (FromKEKID report) s)) k r"
    | (more) u k where "inv u" "J u" "0 < k" "k \<le> length (pending (FromKEKID report) s)"
      "pending (FromKEKID report) u = drop k (pending (FromKEKID report) s)"
      "rewrap_loop st rnd from target batch report s
       = rewrap_loop st rnd from target batch (report\<lparr>Rewrapped := Rewrapped report + k\<rparr>) u"
proof -
  let ?kek = "FromKEKID report"
  obtain l t where l: "ListVersionWraps st ?kek batch s = (l, t)" by (cases "ListVersionWraps st ?kek batch s")
  show ?thesis
  proof (cases l)
    case (Inl e)
    with l list_err have "t = s" by blast
    with Inl l show ?thesis using assms(1) keep
      by (intro stop [of _ s 0]) (auto simp: rewrap_loop.simps pass_result_Inl)
  next
    case (Inr ws)
    with l list_ok have t: "t = s" and ws: "ws = take (nat batch) (pending ?kek s)" by blast+
    obtain q u where b: "rewrap_batch st rnd from target report ws s = (q, u)"
      by (cases "rewrap_batch st rnd from target report ws s")
    have split: "pending ?kek s = ws @ drop (nat batch) (pending ?kek s)" using ws by simp
    obtain k where k: "k \<le> length ws" "inv u" "J u" "pending ?kek u = drop k (pending ?kek s)"
        "pass_result report (length ws) k q"
      using batch_progress [OF assms(1) split assms(4) keep b] split by auto
    have len: "length ws \<le> length (pending ?kek s)" using ws by simp
    have "int32 (int (length ws)) = int (length ws)" using ws assms(2,3) by (intro int32_id) auto
    then have run: "rewrap_loop st rnd from target batch report s =
        (if ws = [] then Some (Inr report, s) else (case q of Inl e \<Rightarrow> Some (Inl e, u)
         | Inr report' \<Rightarrow> if int (length ws) < batch then Some (Inr report', u)
             else rewrap_loop st rnd from target batch report' u))"
      using l Inr t b by (subst rewrap_loop.simps) (simp split: sum.split)
    consider "ws = []" | e where "ws \<noteq> []" "q = Inl e"
      | report' where "ws \<noteq> []" "q = Inr report'" "int (length ws) < batch"
      | report' where "ws \<noteq> []" "q = Inr report'" "\<not> int (length ws) < batch" by (cases q) auto
    then show ?thesis
    proof cases
      case 1
      then have "pending ?kek s = []" using ws assms(2) by (cases "pending ?kek s") auto
      with 1 run assms(1) keep show ?thesis by (intro stop [of _ s 0]) (auto simp: pass_result_Inr)
    next
      case 2
      with run k len show ?thesis by (intro stop [of q u k]) (auto simp: pass_result_def)
    next
      case 3
      then have "length (pending ?kek s) = length ws" using ws by auto
      with 3 run k show ?thesis by (intro stop [of q u k]) auto
    next
      case 4
      with run k len show ?thesis by (intro more [of u k]) (auto simp: pass_result_Inr)
    qed
  qed
qed

text \<open>
  The loop returns, because every round shortens the queue. After success the queue is empty; after
  an error it is a tail of what it was; in both cases the report counts what was moved.
\<close>

lemma loop_returns:
  assumes "inv s" "1 \<le> batch" "batch < 2 ^ 31" "FromKEKID report \<noteq> KeyID target"
    and keep: "step_keeps from target (FromKEKID report) J" "J s"
  shows "\<exists>r t. rewrap_loop st rnd from target batch report s = Some (r, t) \<and> inv t \<and> J t
    \<and> (\<exists>k \<le> length (pending (FromKEKID report) s).
        pending (FromKEKID report) t = drop k (pending (FromKEKID report) s)
        \<and> pass_result report (length (pending (FromKEKID report) s)) k r)"
  using assms(1,4-6)
proof (induction "length (pending (FromKEKID report) s)" arbitrary: s report rule: less_induct)
  case less
  show ?case
  proof (rule loop_step [OF less.prems(1) assms(2,3) less.prems(2-4), of rnd], goal_cases)
    case (1 r t k)
    then show ?case by blast
  next
    case (2 u k)
    let ?report = "report\<lparr>Rewrapped := Rewrapped report + k\<rparr>"
    have "length (pending (FromKEKID ?report) u) < length (pending (FromKEKID report) s)" using 2 by simp
    from less.hyps [OF this 2(1) _ _ 2(2)] less.prems(2,3)
    have "\<exists>r t. rewrap_loop st rnd from target batch ?report u = Some (r, t) \<and> inv t \<and> J t
      \<and> (\<exists>m \<le> length (pending (FromKEKID report) u).
          pending (FromKEKID report) t = drop m (pending (FromKEKID report) u)
          \<and> pass_result ?report (length (pending (FromKEKID report) u)) m r)" by simp
    then obtain r t m where "rewrap_loop st rnd from target batch ?report u = Some (r, t)" "inv t" "J t"
      "m \<le> length (pending (FromKEKID report) u)" "pending (FromKEKID report) t = drop m (pending (FromKEKID report) u)"
      "pass_result ?report (length (pending (FromKEKID report) u)) m r" by blast
    moreover from this 2 have "pass_result report (length (pending (FromKEKID report) s)) (k + m) r"
      using pass_result_add [of report k _ m r] by fastforce
    ultimately show ?case using 2
      by (intro exI [of _ r] exI [of _ t] conjI exI [of _ "k + m"]) (auto simp: add.commute)
  qed
qed

text \<open>
  \<open>RewrapAll\<close> on a lawful store: it returns; a pass without error has drained the queue and retired
  the key; one with an error has moved a prefix of the queue, and the report says how many.
\<close>

lemma RewrapAll_spec:
  assumes "inv s" "batch < 2 ^ 31" "kek \<noteq> KeyID (Active ring)" "Provider ring kek = Inr from"
    and keep: "step_keeps from (Active ring) kek J" "J s"
    and retire_keeps: "\<And>s r t. J s \<Longrightarrow> RetireRootKey st kek s = (r, t) \<Longrightarrow> J t"
  shows "\<exists>r t. RewrapAll (Some st) (Some ring) rnd kek batch s = Some (r, t) \<and> inv t \<and> J t
    \<and> (\<exists>k \<le> length (pending kek s). pending kek t = drop k (pending kek s)
        \<and> (case r of Inl (_, report) \<Rightarrow> Rewrapped report = k \<and> \<not> Retired report
           | Inr report \<Rightarrow> k = length (pending kek s)
               \<and> report = \<lparr>FromKEKID = kek, ToKEKID = KeyID (Active ring), Rewrapped = k,
                           Remaining = 0, Retired = True\<rparr>
               \<and> (\<exists>u. RetireRootKey st kek u = (Inr (), t))))"
proof -
  define batch' where "batch' = (if batch < 1 then 100 else batch)"
  let ?report = "empty_report kek (KeyID (Active ring))"
  have kek: "FromKEKID ?report = kek" by (simp add: empty_report_def)
  have b: "1 \<le> batch'" "batch' < 2 ^ 31" using assms(2) by (auto simp: batch'_def)
  from loop_returns [where report = ?report, unfolded kek, OF assms(1) b assms(3) keep, of rnd]
  obtain r t k where run: "rewrap_loop st rnd from (Active ring) batch' ?report s = Some (r, t)"
      and t: "inv t" "J t" "k \<le> length (pending kek s)" "pending kek t = drop k (pending kek s)"
      and r: "pass_result ?report (length (pending kek s)) k r" by blast
  have all: "RewrapAll (Some st) (Some ring) rnd kek batch s =
      (case r of Inl e \<Rightarrow> Some (Inl e, t) | Inr report' \<Rightarrow> Some (rewrap_finish st report' t))"
    using assms(3,4) run by (simp add: RewrapAll_def Let_def batch'_def [symmetric] split: sum.split)
  show ?thesis
  proof (cases r)
    case (Inl e)
    with all t r show ?thesis
      by (cases e) (auto simp: pass_result_Inl empty_report_def intro!: exI [of _ k])
  next
    case (Inr report')
    with r have k: "k = length (pending kek s)" and
      report': "report' = ?report\<lparr>Rewrapped := length (pending kek s)\<rparr>"
      by (auto simp: pass_result_Inr empty_report_def)
    have f: "FromKEKID report' = kek" using report' kek by simp
    from k t have empty: "pending kek t = []" by simp
    obtain c u where c: "CountVersionWraps st kek t = (c, u)" by (cases "CountVersionWraps st kek t")
    obtain d v where d: "RetireRootKey st kek t = (d, v)" by (cases "RetireRootKey st kek t")
    from d t retire retire_keeps empty have v: "inv v" "J v" "pending kek v = []" by metis+
    have fin: "u = t" "c = Inr m \<Longrightarrow> m = 0" for m
      using c count_ok count_err empty by (cases c; auto)+
    show ?thesis
      using all Inr f c d fin t k v report' empty
      by (cases c; cases d) (auto simp: rewrap_finish_def bindM_def mapErr_def ret_def Let_def empty_report_def)
  qed
qed

end

end
