(* ===== verification/RootKeys.thy ===== *)
theory RootKeys
  imports SecretLaws Rewrap
begin

text \<open>
  \<open>internal/store/rootkeys.go\<close>: the registration of the active root key at boot, the keys a rotation
  has left to drain, and the completion of a rotation: \<open>crypto.RewrapAll\<close> over the adapter
  \<open>rewrapStore\<close>, which is an instance of \<open>rewrap_contract\<close>.
\<close>

section \<open>Registration\<close>

definition EnsureActiveRootKey :: "service \<Rightarrow> root_key op" where
  "EnsureActiveRootKey svc =
     (let kekID = KeyID (Active (svc_ring svc)); provider = ProviderOf kekID in
      if provider = []
      then fail (InternalError ''register root key'' (OtherCause ''root key id has no provider prefix''))
      else InTx (
        bindM (mapErr (\<lambda>e. InternalError ''retire superseded root keys'' (DbCause e)) (MarkOtherRootKeysRetiring kekID)) (\<lambda>_.
        mapErr (\<lambda>e. InternalError ''register active root key'' (DbCause e)) (UpsertActiveRootKey kekID provider))))"

definition PendingRewrapKeys :: "root_key list op" where
  "PendingRewrapKeys = mapErr (\<lambda>e. InternalError ''list retiring root keys'' (DbCause e)) (ListRootKeysByState ''retiring'')"

section \<open>The adapter of the secret tables\<close>

datatype adapter_error = AdapterDb dberr | AdapterApp apperr | NotRetired string

definition row_wrap :: "nat \<times> string \<times> bytes \<times> bytes \<Rightarrow> vwrap" where
  "row_wrap row = (case row of (i, k, w, n) \<Rightarrow> \<lparr>w_id = i, w_kek = k, w_dek = w, w_dek_nonce = n\<rparr>)"

definition secret_ListVersionWraps :: "string \<Rightarrow> int \<Rightarrow> (db, adapter_error, vwrap list) comp" where
  "secret_ListVersionWraps kek limit =
     bindM (mapErr AdapterDb (ListVersionWrapsByKEK kek (nat limit))) (\<lambda>rows. ret (map row_wrap rows))"

definition secret_RewrapVersion ::
    "nat \<Rightarrow> string \<Rightarrow> bytes \<Rightarrow> bytes \<Rightarrow> string \<Rightarrow> (db, adapter_error, unit) comp" where
  "secret_RewrapVersion vid fromKek wrapped nonce toKek =
     InTx (bindM (mapErr AdapterDb AllowSecretVersionRewrap) (\<lambda>_.
       bindM (mapErr AdapterDb (RewrapSecretVersion wrapped nonce toKek vid fromKek)) (\<lambda>_. ret ())))"

definition secret_CountVersionWraps :: "string \<Rightarrow> (db, adapter_error, nat) comp" where
  "secret_CountVersionWraps kek = mapErr AdapterDb (CountVersionsByKEK kek)"

definition secret_RetireRootKey :: "string \<Rightarrow> (db, adapter_error, unit) comp" where
  "secret_RetireRootKey kek =
     bindM (mapErr AdapterDb (RetireRootKeyRow kek)) (\<lambda>n.
     if n = 0 then fail (NotRetired kek) else ret ())"

definition secret_rewrap :: "(db, adapter_error) rewrap_store" where
  "secret_rewrap = \<lparr>ListVersionWraps = secret_ListVersionWraps, RewrapVersion = secret_RewrapVersion,
     CountVersionWraps = secret_CountVersionWraps, RetireRootKey = secret_RetireRootKey\<rparr>"

section \<open>Completing a rotation\<close>

text \<open>The errors \<open>RewrapRootKey\<close> returns itself, and those of the pass with its report.\<close>

datatype rotation_error =
    RotationRefused apperr
  | RotationFailed "adapter_error rewrap_error" rewrap_report

definition RewrapRootKey ::
    "service \<Rightarrow> (nat \<Rightarrow> bytes option) \<Rightarrow> string \<Rightarrow> db \<Rightarrow> ((rotation_error + rewrap_report) \<times> db) option" where
  "RewrapRootKey svc rnd fromKEKID s =
     (if fromKEKID = [] then Some (Inl (RotationRefused (ValidationError (Msg ''source root key id is required''))), s)
      else (case GetRootKey fromKEKID s of
          (Inl e, t) \<Rightarrow> Some (Inl (RotationRefused (if e = NoRows then NotFoundError ''root key''
              else InternalError ''read root key'' (DbCause e))), t)
        | (Inr _, t) \<Rightarrow>
            (case RewrapAll (Some secret_rewrap) (Some (svc_ring svc)) rnd fromKEKID (RewrapBatch (svc_policy svc)) t of
               None \<Rightarrow> None
             | Some (r, u) \<Rightarrow> Some (mapL (\<lambda>(e, report). RotationFailed e report) r, u))))"

section \<open>The adapter keeps the contract\<close>

definition version_wrap :: "version \<Rightarrow> vwrap" where
  "version_wrap v = \<lparr>w_id = v_id v, w_kek = v_kek v, w_dek = v_dek v, w_dek_nonce = v_dek_nonce v\<rparr>"

definition secret_pending :: "string \<Rightarrow> db \<Rightarrow> vwrap list" where
  "secret_pending kek s = map version_wrap (sort_key v_id (filter (\<lambda>v. v_kek v = kek) (versions s)))"

definition rewrapped_versions :: "nat \<Rightarrow> string \<Rightarrow> bytes \<Rightarrow> bytes \<Rightarrow> string \<Rightarrow> version list \<Rightarrow> version list" where
  "rewrapped_versions vid fromKek wrapped nonce toKek =
     updating (\<lambda>v. v_id v = vid \<and> v_kek v = fromKek)
       (\<lambda>v. v\<lparr>v_dek := wrapped, v_dek_nonce := nonce, v_kek := toKek\<rparr>)"

lemma secret_RewrapVersion_ok:
  "secret_RewrapVersion vid kek w n to s = (Inr u, t) \<Longrightarrow>
     t = s\<lparr>versions := rewrapped_versions vid kek w n to (versions s)\<rparr>"
  by (auto simp: secret_RewrapVersion_def InTx_ok run_ok AllowSecretVersionRewrap_def RewrapSecretVersion_def
      Let_def q_exec_ok rewrapped_versions_def intro: db.equality)

lemma secret_RewrapVersion_err: "secret_RewrapVersion vid kek w n to s = (Inl e, t) \<Longrightarrow> t = s"
  by (simp add: secret_RewrapVersion_def InTx_err)

lemma filter_rewrapped:
  "kek \<noteq> to \<Longrightarrow> filter (\<lambda>v. v_kek v = kek) (rewrapped_versions vid kek w n to vs)
     = filter (\<lambda>v. v_id v \<noteq> vid) (filter (\<lambda>v. v_kek v = kek) vs)"
  by (induction vs) (auto simp: rewrapped_versions_def updating_def)

lemma secret_pending_rewrapped:
  assumes "kek \<noteq> to"
  shows "secret_pending kek (s\<lparr>versions := rewrapped_versions vid kek w n to (versions s)\<rparr>)
    = filter (\<lambda>x. w_id x \<noteq> vid) (secret_pending kek s)"
  by (simp add: secret_pending_def filter_rewrapped [OF assms] filter_map comp_def version_wrap_def filter_sort)

text \<open>The invariant speaks of the ids, owners and numbers of the versions only.\<close>

lemma store_ok_map_versions:
  assumes ok: "store_ok s"
    and h: "\<And>v. v \<in> set (versions s) \<Longrightarrow> v_id (h v) = v_id v \<and> v_secret (h v) = v_secret v \<and> v_version (h v) = v_version v"
  shows "store_ok (s\<lparr>versions := map h (versions s)\<rparr>)"
proof -
  have m: "map (v_id \<circ> h) (versions s) = map v_id (versions s)"
    "map ((\<lambda>v. (v_secret v, v_version v)) \<circ> h) (versions s) = map (\<lambda>v. (v_secret v, v_version v)) (versions s)"
    using h by simp_all
  have "distinct (map v_id (map h (versions s)))" "uq_versions (map h (versions s))"
    using store_okD(4,5) [OF ok] m by (simp_all add: uq_versions_def del: map_eq_conv)
  moreover have "version_ok (s\<lparr>versions := map h (versions s)\<rparr>) v" if "v \<in> set (map h (versions s))" for v
    using that store_okD(6) [OF ok] h by (auto simp: version_ok_def)
  moreover have "secret_ok (s\<lparr>versions := map h (versions s)\<rparr>) r" if "r \<in> set (secrets s)" for r
    using store_okD(7) [OF ok that] h by (auto simp: secret_ok_def)
  ultimately show ?thesis using ok by (simp add: store_ok_def)
qed

lemma rewrapped_store_ok:
  "store_ok s \<Longrightarrow> store_ok (s\<lparr>versions := rewrapped_versions vid kek w n to (versions s)\<rparr>)"
  unfolding rewrapped_versions_def updating_def by (rule store_ok_map_versions) auto

lemma secret_RetireRootKey_run:
  "secret_RetireRootKey kek s = (r, t) \<Longrightarrow> t = s\<lparr>root_keys := root_keys t\<rparr>"
  by (auto simp: secret_RetireRootKey_def bindM_def mapErr_def RetireRootKeyRow_def Let_def fail_def ret_def split: if_splits)

lemma secret_pending_cong: "versions t = versions s \<Longrightarrow> secret_pending kek t = secret_pending kek s"
  by (simp add: secret_pending_def)

lemma secret_rewrap_simps [simp]:
  "ListVersionWraps secret_rewrap = secret_ListVersionWraps" "RewrapVersion secret_rewrap = secret_RewrapVersion"
  "CountVersionWraps secret_rewrap = secret_CountVersionWraps" "RetireRootKey secret_rewrap = secret_RetireRootKey"
  by (simp_all add: secret_rewrap_def)

lemma secret_list_run: "secret_ListVersionWraps kek n s = (Inr (take (nat n) (secret_pending kek s)), s)"
  by (simp add: secret_ListVersionWraps_def ListVersionWrapsByKEK_def q_many_def bindM_def mapErr_def ret_def
      secret_pending_def take_map version_wrap_def row_wrap_def comp_def)

lemma secret_count_run: "secret_CountVersionWraps kek s = (Inr (length (secret_pending kek s)), s)"
  by (simp add: secret_CountVersionWraps_def CountVersionsByKEK_def q_many_def mapErr_def secret_pending_def)

lemma secret_pending_ids:
  "distinct (map v_id (versions s)) \<Longrightarrow> distinct (map w_id (secret_pending kek s))"
  by (simp add: secret_pending_def comp_def version_wrap_def distinct_map set_sort inj_on_def)

text \<open>The secret adapter keeps the contract, on the stores within the invariant.\<close>

interpretation sr: rewrap_contract secret_rewrap secret_pending store_ok
proof (unfold_locales, goal_cases)
  case (3 s kek to vid w n u t)
  then show ?case
    by (auto dest!: secret_RewrapVersion_ok simp: rewrapped_store_ok secret_pending_rewrapped)
next
  case (7 s kek r t k)
  then have t: "t = s\<lparr>root_keys := root_keys t\<rparr>" using secret_RetireRootKey_run by simp
  then have "versions t = versions s" "secrets t = secrets s" "folders t = folders s" "seq t = seq s"
    by (metis db.select_convs db.surjective db.update_convs(7))+
  with 7(1) show ?case
    using store_ok_cong [of t s] store_okD(8,9) [OF 7(1)] by (auto intro: secret_pending_cong)
next
  case (8 s kek)
  then show ?case by (simp add: secret_pending_ids store_okD)
qed (auto simp: secret_list_run secret_count_run dest: secret_RewrapVersion_err)

section \<open>A rewrap keeps every value readable\<close>

text \<open>
  A wrap (key id, wrapped DEK, nonce) after any number of re-wraps: it is the old one, or it is under
  the ring's active key and the DEK that the old provider recovered is the one the active recovers.
\<close>

definition same_dek :: "service \<Rightarrow> string \<times> bytes \<times> bytes \<Rightarrow> string \<times> bytes \<times> bytes \<Rightarrow> bool" where
  "same_dek svc a b \<longleftrightarrow> b = a \<or> fst b = KeyID (Active (svc_ring svc)) \<and> fst a \<noteq> []
     \<and> (\<forall>p dek. Provider (svc_ring svc) (fst a) = Inr p \<longrightarrow> KeyID p = fst a \<longrightarrow>
          Unwrap p (fst (snd a)) (snd (snd a)) = Inr dek \<longrightarrow>
          Unwrap (Active (svc_ring svc)) (fst (snd b)) (snd (snd b)) = Inr dek)"

lemma same_dek_step:
  assumes r: "same_dek svc a (kek, d, dn)" and ring: "ring_ok svc" and kek: "kek \<noteq> []"
      "kek \<noteq> KeyID (Active (svc_ring svc))" "Provider (svc_ring svc) kek = Inr from"
    and rw: "Rewrap (Some from) (Some (Active (svc_ring svc))) draw d dn = Inr (wr, n)"
  shows "same_dek svc a (KeyID (Active (svc_ring svc)), wr, n)"
proof -
  have a: "a = (kek, d, dn)" using r kek(2) by (auto simp: same_dek_def)
  have "Unwrap (Active (svc_ring svc)) wr n = Inr dek"
    if "KeyID from = kek" "Unwrap from d dn = Inr dek" for dek
    using root_key_provider.rewrap_recovers [OF _ rw] ring that kek(2) by (simp add: ring_ok_def)
  with kek a show ?thesis by (auto simp: same_dek_def)
qed

text \<open>An envelope that opened opens, under the provider of its new wrap.\<close>

lemma open_same_dek:
  assumes r: "same_dek svc (KEKID e, DEKWrapped e, DEKNonce e) (k, d, n)" and ring: "ring_ok svc"
    and p: "Provider (svc_ring svc) (KEKID e) = Inr p"
    and o: "Open P (Some p) ident e = Inr pt"
  shows "\<exists>q. Provider (svc_ring svc) k = Inr q
    \<and> Open P (Some q) ident (e\<lparr>DEKWrapped := d, DEKNonce := n, KEKID := k\<rparr>) = Inr pt"
proof (cases "(k, d, n) = (KEKID e, DEKWrapped e, DEKNonce e)")
  case True
  then show ?thesis using p o by auto
next
  case False
  with r have k: "k = KeyID (Active (svc_ring svc))" and ne: "KEKID e \<noteq> []" by (auto simp: same_dek_def)
  from o ne have key: "KeyID p = KEKID e" by (auto simp: Open_def split: if_splits)
  with o obtain dek where dek: "Unwrap p (DEKWrapped e) (DEKNonce e) = Inr dek"
    by (auto simp: Open_def split: if_splits)
  have "Unwrap (Active (svc_ring svc)) d n = Inr dek"
    using r False p key dek by (auto simp: same_dek_def)
  moreover have "Provider (svc_ring svc) k = Inr (Active (svc_ring svc))"
    using ring by (simp add: k ring_ok_def)
  ultimately show ?thesis
    using o dek key ne by (auto simp: Open_def bindR_def k split: if_splits option.splits)
qed

text \<open>A row of \<open>secret_versions\<close> of which at most the wrap columns have changed, to such a wrap.\<close>

definition rewrapped :: "service \<Rightarrow> version \<Rightarrow> version \<Rightarrow> bool" where
  "rewrapped svc v w \<longleftrightarrow> (\<exists>k d n. w = v\<lparr>v_dek := d, v_dek_nonce := n, v_kek := k\<rparr>
     \<and> same_dek svc (v_kek v, v_dek v, v_dek_nonce v) (k, d, n))"

lemma rewrapped_refl: "rewrapped svc v v"
  unfolding rewrapped_def same_dek_def
  by (rule exI [of _ "v_kek v"], rule exI [of _ "v_dek v"], rule exI [of _ "v_dek_nonce v"]) simp

lemma rewrapped_step:
  assumes r: "rewrapped svc v w" and ring: "ring_ok svc" and kek: "v_kek w = kek" "kek \<noteq> []"
      "kek \<noteq> KeyID (Active (svc_ring svc))" "Provider (svc_ring svc) kek = Inr from"
    and rw: "Rewrap (Some from) (Some (Active (svc_ring svc))) draw (v_dek w) (v_dek_nonce w) = Inr (wr, n)"
  shows "rewrapped svc v (w\<lparr>v_dek := wr, v_dek_nonce := n, v_kek := KeyID (Active (svc_ring svc))\<rparr>)"
  using r same_dek_step [OF _ ring kek(2-4)] kek(1) rw unfolding rewrapped_def by fastforce

text \<open>The store differs from the old one in re-wrapped rows only.\<close>

definition only_rewrapped :: "service \<Rightarrow> db \<Rightarrow> db \<Rightarrow> bool" where
  "only_rewrapped svc s t \<longleftrightarrow> (\<exists>h ks. t = s\<lparr>versions := map h (versions s), root_keys := ks\<rparr>
     \<and> (\<forall>v \<in> set (versions s). rewrapped svc v (h v)))"

lemma rewrapped_fields:
  "rewrapped svc v w \<Longrightarrow> v_id w = v_id v \<and> v_secret w = v_secret v \<and> v_version w = v_version v
     \<and> v_ciphertext w = v_ciphertext v \<and> v_nonce w = v_nonce v \<and> v_type w = v_type v
     \<and> v_checksum w = v_checksum v \<and> v_created w = v_created v"
  by (cases v; cases w) (auto simp: rewrapped_def)

lemma only_rewrapped_refl: "only_rewrapped svc s s"
  unfolding only_rewrapped_def
  by (rule exI [of _ id], rule exI [of _ "root_keys s"]) (simp add: rewrapped_refl)

lemma only_rewrapped_root_keys: "only_rewrapped svc s t \<Longrightarrow> only_rewrapped svc s (t\<lparr>root_keys := ks\<rparr>)"
  unfolding only_rewrapped_def by force

lemma only_rewrapped_step:
  assumes ring: "ring_ok svc" and kek: "kek \<noteq> []" "kek \<noteq> KeyID (Active (svc_ring svc))"
      "Provider (svc_ring svc) kek = Inr from"
  shows "sr.step_keeps from (Active (svc_ring svc)) kek (only_rewrapped svc s0)"
  unfolding sr.step_keeps_def
proof (intro allI impI)
  fix s w draw wr n t
  assume ok: "store_ok s" and J: "only_rewrapped svc s0 s" and w: "w \<in> set (secret_pending kek s)"
    and rw: "Rewrap (Some from) (Some (Active (svc_ring svc))) draw (w_dek w) (w_dek_nonce w) = Inr (wr, n)"
    and run: "RewrapVersion secret_rewrap (w_id w) kek wr n (KeyID (Active (svc_ring svc))) s = (Inr (), t)"
  from w obtain v where v: "v \<in> set (versions s)" "v_kek v = kek" "w = version_wrap v"
    by (auto simp: secret_pending_def)
  let ?g = "\<lambda>x. if v_id x = v_id v \<and> v_kek x = kek
     then x\<lparr>v_dek := wr, v_dek_nonce := n, v_kek := KeyID (Active (svc_ring svc))\<rparr> else x"
  from run v(3) have t: "t = s\<lparr>versions := map ?g (versions s)\<rparr>"
    by (auto dest!: secret_RewrapVersion_ok simp: rewrapped_versions_def updating_def version_wrap_def)
  from J obtain h ks where h: "s = s0\<lparr>versions := map h (versions s0), root_keys := ks\<rparr>"
      "\<forall>x \<in> set (versions s0). rewrapped svc x (h x)" by (auto simp: only_rewrapped_def)
  have "rewrapped svc x (?g (h x))" if x: "x \<in> set (versions s0)" for x
  proof (cases "v_id (h x) = v_id v \<and> v_kek (h x) = kek")
    case True
    have "h x \<in> set (versions s)" using x by (subst h(1)) simp
    with True v(1) store_okD(4) [OF ok] have "h x = v" using distinct_map_eq by metis
    then show ?thesis
      using rewrapped_step [OF bspec [OF h(2) x] ring _ kek] v(2,3) rw by (simp add: version_wrap_def)
  next
    case False
    then show ?thesis using bspec [OF h(2) x] by (simp only: if_False)
  qed
  moreover have "t = s0\<lparr>versions := map (\<lambda>x. ?g (h x)) (versions s0), root_keys := ks\<rparr>"
    by (simp add: t h(1) comp_def)
  ultimately show "only_rewrapped svc s0 t" unfolding only_rewrapped_def by blast
qed

lemma sort_key_map: "sort_key k (map h xs) = map h (sort_key (\<lambda>x. k (h x)) xs)"
proof (induction xs)
  case (Cons x xs)
  have "insort_key k (h x) (map h ys) = map h (insort_key (\<lambda>x. k (h x)) x ys)" for ys by (induction ys) auto
  with Cons show ?case by simp
qed simp

lemma sort_key_cong_on: "(\<And>x. x \<in> set xs \<Longrightarrow> f x = g x) \<Longrightarrow> sort_key f xs = sort_key g xs"
proof (induction xs)
  case (Cons x xs)
  have "insort_key f x ys = insort_key g x ys" if "set ys \<subseteq> set xs" for ys
    using that Cons.prems by (induction ys) auto
  then have "insort_key f x (sort_key g xs) = insort_key g x (sort_key g xs)" by simp
  with Cons show ?case by simp
qed simp

text \<open>A read that picks a version by secret and number picks the re-wrapped row of the one it picked.\<close>

lemma versions_of_rewrapped:
  assumes "\<forall>v \<in> set (versions s). rewrapped svc v (h v)"
  shows "versions_of sid (s\<lparr>versions := map h (versions s), root_keys := ks\<rparr>) = map h (versions_of sid s)"
    and "versions_desc sid (s\<lparr>versions := map h (versions s), root_keys := ks\<rparr>) = map h (versions_desc sid s)"
proof -
  have "v_secret (h v) = v_secret v \<and> v_version (h v) = v_version v" if "v \<in> set (versions s)" for v
    using rewrapped_fields assms that by blast
  then show 1: "versions_of sid (s\<lparr>versions := map h (versions s), root_keys := ks\<rparr>) = map h (versions_of sid s)"
    by (auto simp: versions_of_def filter_map comp_def intro!: arg_cong [of _ _ "map h"] filter_cong)
  have "v_version (h v) = v_version v" if "v \<in> set (versions_of sid s)" for v
    using that rewrapped_fields assms by (auto simp: versions_of_def)
  then show "versions_desc sid (s\<lparr>versions := map h (versions s), root_keys := ks\<rparr>) = map h (versions_desc sid s)"
    unfolding versions_desc_def 1 sort_key_map by (auto intro!: arg_cong [of _ _ "map h"] sort_key_cong_on)
qed

lemma row_open_rewrapped:
  assumes r: "rewrapped svc v w" and ring: "ring_ok svc"
    and p: "Provider (svc_ring svc) (v_kek v) = Inr p"
    and o: "Open P (Some p) ident (row_envelope v) = Inr pt"
  shows "\<exists>q. Provider (svc_ring svc) (v_kek w) = Inr q \<and> Open P (Some q) ident (row_envelope w) = Inr pt"
  using r open_same_dek [of svc "row_envelope v", OF _ ring _ o] p
  by (auto simp: rewrapped_def row_envelope_def)

lemma getVersion_rewrapped:
  assumes run: "getVersion svc ref n s = (Inr r, u)" and ring: "ring_ok svc" and only: "only_rewrapped svc s t"
  shows "getVersion svc ref n t = (Inr r, t)"
proof -
  obtain h ks where h: "t = s\<lparr>versions := map h (versions s), root_keys := ks\<rparr>"
      "\<forall>v \<in> set (versions s). rewrapped svc v (h v)" using only by (auto simp: only_rewrapped_def)
  note vs = versions_of_rewrapped [OF h(2), of _ ks]
  from run obtain a where a: "resolveAddress ref s = (Inr a, s)"
    by (auto simp: getVersion_def run_ok dest: resolveAddress_ok)
  have a': "resolveAddress ref t = (Inr a, t)"
    using a unfolding h(1) resolveAddress_def resolveEnvironment_def folder_at_def GetTenantByUUID_def
      GetProjectBySlug_def GetEnvironmentBySlug_def GetFolderByPath_def tenant_env_ids_def
    by (auto simp: run_ok q_ok)
  from run a obtain row where row: "secret_at a s = (Inr row, s)"
    by (auto simp: getVersion_def run_ok secret_at_def GetSecretByAddress_def q_ok)
  have row': "secret_at a t = (Inr row, t)"
    using row unfolding h(1) secret_at_def GetSecretByAddress_def by (auto simp: run_ok q_ok)
  from run a row obtain v p pt where v: "(if n = 0 then GetLatestSecretVersion (s_id row) else GetSecretVersionRow (s_id row) n) s = (Inr v, s)"
      and p: "Provider (svc_ring svc) (v_kek v) = Inr p"
      and o: "Open (svc_prims svc) (Some p) (ad_identity a (s_uuid row) (v_version v)) (row_envelope v) = Inr pt"
      and r: "r = \<lparr>rv_meta = (secretRowToMeta row (f_path (ad_folder a)) (KeepVersions (svc_policy svc)))\<lparr>m_type := v_type v\<rparr>,
          rv_version = v_version v, rv_type = v_type v, rv_value = pt\<rparr>"
    by (auto simp: getVersion_def run_ok GetLatestSecretVersion_def GetSecretVersionRow_def q_ok split: if_splits)
  have mem: "v \<in> set (versions s)"
    using v by (auto simp: GetLatestSecretVersion_def GetSecretVersionRow_def q_ok versions_desc_def versions_of_def
        split: if_splits dest!: filter_Cons_in) (metis (no_types, lifting) filter_is_subset list.set_intros(1) set_sort subsetD)
  with h(2) have rv: "rewrapped svc v (h v)" by blast
  have "v_version (h x) = v_version x" if "x \<in> set (versions s)" for x using rewrapped_fields h(2) that by blast
  then have "filter (\<lambda>x. v_version (h x) = n) (versions_of (s_id row) s)
      = filter (\<lambda>x. v_version x = n) (versions_of (s_id row) s)"
    by (auto simp: versions_of_def intro!: filter_cong)
  then have v': "(if n = 0 then GetLatestSecretVersion (s_id row) else GetSecretVersionRow (s_id row) n) t = (Inr (h v), t)"
    using v unfolding h(1)
    by (auto simp: GetLatestSecretVersion_def GetSecretVersionRow_def q_ok vs filter_map comp_def split: if_splits)
  from row_open_rewrapped [OF rv ring p o] obtain q where q: "Provider (svc_ring svc) (v_kek (h v)) = Inr q"
      "Open (svc_prims svc) (Some q) (ad_identity a (s_uuid row) (v_version v)) (row_envelope (h v)) = Inr pt" by blast
  show ?thesis
    using a' row' v' q rewrapped_fields [OF rv] by (auto simp: getVersion_def run_ok r)
qed

section \<open>The pass over the secret tables\<close>

lemma GetRootKey_run: "GetRootKey kek s = (r, t) \<Longrightarrow> t = s"
  by (auto simp: GetRootKey_def q_one_def split: list.splits)

lemma secret_RetireRootKey_ok:
  "secret_RetireRootKey kek s = (Inr u, t) \<Longrightarrow>
     t = s\<lparr>root_keys := updating (\<lambda>k. k_id k = kek \<and> k_state k \<noteq> ''active'')
       (\<lambda>k. k\<lparr>k_state := ''retired'', k_retired := Some (db_now s)\<rparr>) (root_keys s)\<rparr>
     \<and> (\<exists>k \<in> set (root_keys s). k_id k = kek \<and> k_state k \<noteq> ''active'')"
  by (auto simp: secret_RetireRootKey_def run_ok RetireRootKeyRow_def Let_def filter_empty_conv
      split: if_splits)

lemma only_rewrapped_retire:
  "only_rewrapped svc s t \<Longrightarrow> secret_RetireRootKey kek t = (r, u) \<Longrightarrow> only_rewrapped svc s u"
  using secret_RetireRootKey_run only_rewrapped_root_keys by metis

text \<open>
  The whole operation, refused, trivial (the key is the active one) or a pass: it returns, keeps
  the invariant, and re-wraps rows only.
\<close>

definition pass_end :: "service \<Rightarrow> string \<Rightarrow> db \<Rightarrow> rotation_error + rewrap_report \<Rightarrow> db \<Rightarrow> bool" where
  "pass_end svc kek s r t \<longleftrightarrow> (\<exists>k \<le> length (secret_pending kek s). secret_pending kek t = drop k (secret_pending kek s)
     \<and> (case r of Inl (RotationFailed e report) \<Rightarrow> Rewrapped report = k \<and> \<not> Retired report
        | Inl (RotationRefused e) \<Rightarrow> False
        | Inr report \<Rightarrow> k = length (secret_pending kek s)
            \<and> report = \<lparr>FromKEKID = kek, ToKEKID = KeyID (Active (svc_ring svc)), Rewrapped = k,
                         Remaining = 0, Retired = True\<rparr>
            \<and> (\<exists>u. secret_RetireRootKey kek u = (Inr (), t))))"

lemma RewrapRootKey_spec:
  assumes ok: "store_ok s" and ring: "ring_ok svc" and small: "RewrapBatch (svc_policy svc) < 2 ^ 31"
  shows "\<exists>r t. RewrapRootKey svc rnd kek s = Some (r, t) \<and> store_ok t \<and> only_rewrapped svc s t
    \<and> (t = s \<and> ((\<exists>e. r = Inl (RotationRefused e)) \<or> (\<exists>e rep. r = Inl (RotationFailed (NoSource e) rep) \<and> Rewrapped rep = 0)
         \<or> kek = KeyID (Active (svc_ring svc)) \<and> r = Inr (empty_report kek kek))
       \<or> kek \<noteq> KeyID (Active (svc_ring svc)) \<and> pass_end svc kek s r t)"
proof (cases "kek = [] \<or> (\<exists>e. fst (GetRootKey kek s) = Inl e)")
  case True
  then show ?thesis using ok only_rewrapped_refl
    by (cases "GetRootKey kek s") (auto simp: RewrapRootKey_def split: sum.splits dest: GetRootKey_run)
next
  case False
  then obtain row where row: "kek \<noteq> []" "GetRootKey kek s = (Inr row, s)"
    using GetRootKey_run by (cases "GetRootKey kek s"; cases "fst (GetRootKey kek s)") auto
  let ?all = "RewrapAll (Some secret_rewrap) (Some (svc_ring svc)) rnd kek (RewrapBatch (svc_policy svc)) s"
  have run: "RewrapRootKey svc rnd kek s = (case ?all of None \<Rightarrow> None
      | Some (r, u) \<Rightarrow> Some (mapL (\<lambda>(e, report). RotationFailed e report) r, u))"
    using row by (simp add: RewrapRootKey_def)
  show ?thesis
  proof (cases "kek = KeyID (Active (svc_ring svc)) \<or> (\<exists>e. Provider (svc_ring svc) kek = Inl e)")
    case True
    then show ?thesis using ok only_rewrapped_refl row
      by (auto simp: run RewrapAll_def Let_def empty_report_def)
  next
    case False
    then obtain "from" where f: "Provider (svc_ring svc) kek = Inr from" "kek \<noteq> KeyID (Active (svc_ring svc))"
      by (cases "Provider (svc_ring svc) kek") auto
    from sr.RewrapAll_spec [OF ok small f(2,1) only_rewrapped_step [OF ring row(1) f(2,1)] only_rewrapped_refl, of rnd]
    obtain r t k where a: "?all = Some (r, t)" "store_ok t" "only_rewrapped svc s t"
        "k \<le> length (secret_pending kek s)" "secret_pending kek t = drop k (secret_pending kek s)"
        "case r of Inl (_, report) \<Rightarrow> Rewrapped report = k \<and> \<not> Retired report
           | Inr report \<Rightarrow> k = length (secret_pending kek s)
               \<and> report = \<lparr>FromKEKID = kek, ToKEKID = KeyID (Active (svc_ring svc)), Rewrapped = k,
                           Remaining = 0, Retired = True\<rparr>
               \<and> (\<exists>u. RetireRootKey secret_rewrap kek u = (Inr (), t))"
      using only_rewrapped_retire by auto
    then have "pass_end svc kek s (mapL (\<lambda>(e, report). RotationFailed e report) r) t"
      by (auto simp: pass_end_def split: sum.splits intro!: exI [of _ k])
    with a f(2) show ?thesis by (simp add: run)
  qed
qed

end
