(* ===== verification/Decimals.thy ===== *)
theory Decimals
  imports Prelude
begin

text \<open>
  Decimal numbers as the messages and tokens print them: \<open>strconv.FormatInt\<close> (also the \<open>%d\<close> of
  \<open>fmt.Sprintf\<close>) and \<open>strconv.ParseInt\<close> with 32 bits, and that parsing inverts printing.
\<close>

section \<open>\<open>strconv.FormatInt\<close> and \<open>strconv.ParseInt\<close>, base 10\<close>

definition decimals :: string where "decimals = ''0123456789''"

definition digit_char :: "nat \<Rightarrow> char" where
  "digit_char d = decimals ! d"

definition digit_val :: "char \<Rightarrow> nat option" where
  "digit_val c = (let i = length (takeWhile (\<lambda>d. d \<noteq> c) decimals) in if i < 10 then Some i else None)"

function FormatNat :: "nat \<Rightarrow> string" where
  "FormatNat n = (if n < 10 then [digit_char n] else FormatNat (n div 10) @ [digit_char (n mod 10)])"
  by pat_completeness auto
termination by (relation "measure (\<lambda>n. n)") auto

declare FormatNat.simps [simp del]

definition FormatInt :: "int \<Rightarrow> string" where
  "FormatInt i = (if i < 0 then CHR ''-'' # FormatNat (nat (- i)) else FormatNat (nat i))"

fun parse_digits :: "nat \<Rightarrow> string \<Rightarrow> nat option" where
  "parse_digits acc [] = Some acc"
| "parse_digits acc (c # cs) = (case digit_val c of None \<Rightarrow> None | Some d \<Rightarrow> parse_digits (acc * 10 + d) cs)"

text \<open>
  An optional sign, at least one digit, and a value of 32 bits; \<open>None\<close> is either of the syntax and
  the range error.
\<close>

definition ParseInt32 :: "string \<Rightarrow> int option" where
  "ParseInt32 s =
     (let neg = (s \<noteq> [] \<and> hd s = CHR ''-'');
          ds = (if s \<noteq> [] \<and> (hd s = CHR ''-'' \<or> hd s = CHR ''+'') then tl s else s)
      in if ds = [] then None
         else (case parse_digits 0 ds of
             None \<Rightarrow> None
           | Some n \<Rightarrow> if neg then (if 2 ^ 31 < n then None else Some (- int n))
               else (if 2 ^ 31 \<le> n then None else Some (int n))))"

lemma digit_val_char [simp]: "d < 10 \<Longrightarrow> digit_val (digit_char d) = Some d"
proof -
  assume "d < 10"
  then have "length (takeWhile (\<lambda>e. e \<noteq> decimals ! d) decimals) = d"
    by (intro takeWhile_nth) (simp_all add: decimals_def)
  with \<open>d < 10\<close> show ?thesis by (simp add: digit_val_def digit_char_def)
qed

lemma digit_char_plain: "d < 10 \<Longrightarrow> digit_char d \<in> set decimals"
  unfolding digit_char_def by (intro nth_mem) (simp add: decimals_def)

lemma FormatNat_chars: "c \<in> set (FormatNat n) \<Longrightarrow> c \<in> set decimals"
proof (induction n rule: FormatNat.induct)
  case (1 n)
  then show ?case using digit_char_plain
    by (subst (asm) FormatNat.simps) (auto split: if_splits)
qed

lemma FormatNat_ne [simp]: "FormatNat n \<noteq> []"
  by (subst FormatNat.simps) simp

lemma parse_digits_append: "parse_digits acc (xs @ ys) = (case parse_digits acc xs of None \<Rightarrow> None | Some n \<Rightarrow> parse_digits n ys)"
  by (induction xs arbitrary: acc) (auto split: option.splits)

lemma parse_FormatNat [simp]: "parse_digits 0 (FormatNat n) = Some n"
proof (induction n rule: FormatNat.induct)
  case (1 n)
  then show ?case by (subst FormatNat.simps) (auto simp: parse_digits_append)
qed

lemma ParseInt32_FormatInt:
  assumes "0 \<le> i" "i < 2 ^ 31"
  shows "ParseInt32 (FormatInt i) = Some i"
proof -
  have "hd (FormatNat (nat i)) \<in> set decimals" by (intro FormatNat_chars [OF hd_in_set]) simp
  then have "hd (FormatNat (nat i)) \<noteq> CHR ''-''" "hd (FormatNat (nat i)) \<noteq> CHR ''+''" by (auto simp: decimals_def)
  with assms show ?thesis by (simp add: ParseInt32_def FormatInt_def Let_def)
qed

end
