(* ===== verification/TransitToken.thy ===== *)
theory TransitToken
  imports Crypto Decimals
begin

text \<open>
  \<open>internal/transit/transit.go\<close>: the ciphertext token, its wire form and parser, and the seal and
  open of a payload under a key version's material. The pieces of \<open>encoding/base64\<close>
  (\<open>RawURLEncoding\<close>) and \<open>strconv\<close> the file uses come first.
\<close>

section \<open>\<open>base64.RawURLEncoding\<close>\<close>

definition b64_alphabet :: string where
  "b64_alphabet = ''ABCDEFGHIJKLMNOPQRSTUVWXYZabcdefghijklmnopqrstuvwxyz0123456789-_''"

definition b64_char :: "nat \<Rightarrow> char" where
  "b64_char n = b64_alphabet ! n"

definition b64_value :: "char \<Rightarrow> nat option" where
  "b64_value c = (let i = length (takeWhile (\<lambda>d. d \<noteq> c) b64_alphabet) in if i < 64 then Some i else None)"

fun b64_encode :: "bytes \<Rightarrow> string" where
  "b64_encode [] = []"
| "b64_encode [a] = [b64_char (unat a div 4), b64_char (unat a mod 4 * 16)]"
| "b64_encode [a, b] = [b64_char (unat a div 4), b64_char (unat a mod 4 * 16 + unat b div 16),
     b64_char (unat b mod 16 * 4)]"
| "b64_encode (a # b # c # rest) =
     b64_char (unat a div 4) # b64_char (unat a mod 4 * 16 + unat b div 16) #
     b64_char (unat b mod 16 * 4 + unat c div 64) # b64_char (unat c mod 64) # b64_encode rest"

text \<open>
  The decoder works on the six-bit values. It does not check the unused bits of the last group
  (the encoding is not \<open>Strict\<close>); a single left-over character is an error.
\<close>

fun b64_groups :: "nat list \<Rightarrow> bytes option" where
  "b64_groups [] = Some []"
| "b64_groups [w] = None"
| "b64_groups [w, x] = Some [of_nat (w * 4 + x div 16)]"
| "b64_groups [w, x, y] = Some [of_nat (w * 4 + x div 16), of_nat (x mod 16 * 16 + y div 4)]"
| "b64_groups (w # x # y # z # rest) =
     (case b64_groups rest of
        None \<Rightarrow> None
      | Some bs \<Rightarrow> Some (of_nat (w * 4 + x div 16) # of_nat (x mod 16 * 16 + y div 4) # of_nat (y mod 4 * 64 + z) # bs))"

text \<open>\<open>DecodeString\<close> skips carriage returns and line feeds wherever they stand.\<close>

definition b64_decode :: "string \<Rightarrow> bytes option" where
  "b64_decode s =
     (let vs = map b64_value (filter (\<lambda>c. c \<noteq> CHR 0x0A \<and> c \<noteq> CHR 0x0D) s) in
      if None \<in> set vs then None else b64_groups (map the vs))"

lemma b64_alphabet_length: "length b64_alphabet = 64"
  by (simp add: b64_alphabet_def)

lemma b64_alphabet_distinct: "distinct b64_alphabet"
  by (simp add: b64_alphabet_def)

lemma b64_value_char [simp]: "n < 64 \<Longrightarrow> b64_value (b64_char n) = Some n"
  using takeWhile_nth [OF b64_alphabet_distinct, of n]
  by (simp add: b64_value_def b64_char_def b64_alphabet_length)

definition b64_plain :: "char \<Rightarrow> bool" where
  "b64_plain c \<longleftrightarrow> c \<noteq> CHR 0x0A \<and> c \<noteq> CHR 0x0D \<and> c \<noteq> CHR '':'' \<and> \<not> space_byte c"

lemma b64_alphabet_plain: "\<forall>c \<in> set b64_alphabet. b64_plain c"
  by (simp add: b64_alphabet_def b64_plain_def space_byte_def)

lemma b64_char_plain: "n < 64 \<Longrightarrow> b64_plain (b64_char n)"
  using b64_alphabet_plain b64_alphabet_length by (metis b64_char_def nth_mem)

lemma byte_bounds: "unat (a :: 8 word) < 256"
  using unsigned_less [of a] by simp

lemma sextets:
  fixes a :: "8 word"
  shows "unat a div 4 < 64" "unat a mod 4 * 16 < 64" "unat a div 16 < 16" "unat a mod 16 * 4 < 64" "unat a div 64 < 4"
    "unat a mod 64 < 64" "unat b < 256 \<Longrightarrow> unat a mod 4 * 16 + unat b div 16 < 64"
    "unat b < 256 \<Longrightarrow> unat a mod 16 * 4 + unat b div 64 < 64"
  using byte_bounds [of a] by linarith+

lemma of_unat [simp]: "(of_nat (unat (a :: 8 word)) :: 8 word) = a"
  by simp

lemma digit_pair: "(y::nat) < d \<Longrightarrow> (x * d + y) div d = x \<and> (x * d + y) mod d = y"
  by simp

lemma byte_pieces:
  fixes a b c :: "8 word"
  shows "unat a div 4 * 4 + unat a mod 4 * 16 div 16 = unat a"
    "unat a div 4 * 4 + (unat a mod 4 * 16 + unat b div 16) div 16 = unat a"
    "(unat a mod 4 * 16 + unat b div 16) mod 16 * 16 + unat b mod 16 * 4 div 4 = unat b"
    "(unat a mod 4 * 16 + unat b div 16) mod 16 * 16 + (unat b mod 16 * 4 + unat c div 64) div 4 = unat b"
    "(unat b mod 16 * 4 + unat c div 64) mod 4 * 64 + unat c mod 64 = unat c"
  using digit_pair [OF sextets(3), of "unat a mod 4" b] digit_pair [OF sextets(5), of "unat b mod 16" c]
  by simp_all

lemma b64_encode_plain: "c \<in> set (b64_encode bs) \<Longrightarrow> b64_plain c"
  by (induction bs rule: b64_encode.induct)
     (use byte_bounds in \<open>auto simp: b64_char_plain sextets\<close>)

lemma b64_encode_values:
  "map b64_value (b64_encode bs) = map Some (map (the \<circ> b64_value) (b64_encode bs))
    \<and> b64_groups (map (the \<circ> b64_value) (b64_encode bs)) = Some bs"
  by (induction bs rule: b64_encode.induct)
     (use byte_bounds in \<open>simp_all add: sextets byte_pieces comp_def\<close>)

lemma b64_roundtrip [simp]: "b64_decode (b64_encode bs) = Some bs"
proof -
  have "filter (\<lambda>c. c \<noteq> CHR 0x0A \<and> c \<noteq> CHR 0x0D) (b64_encode bs) = b64_encode bs"
    using b64_encode_plain [of _ bs] by (auto simp: filter_id_conv b64_plain_def)
  then show ?thesis
    using b64_encode_values [of bs] by (auto simp: b64_decode_def Let_def comp_def)
qed

lemma b64_encode_Nil [simp]: "b64_encode bs = [] \<longleftrightarrow> bs = []"
  by (cases bs rule: b64_encode.cases) auto

lemma b64_encode_length: "length (b64_encode bs) = (4 * length bs + 2) div 3"
  by (induction bs rule: b64_encode.induct) auto

section \<open>Tokens\<close>

definition TokenPrefix :: string where "TokenPrefix = ''m9dt''"
definition TokenFormatV1 :: string where "TokenFormatV1 = ''v1''"
definition tokenSeparator :: char where "tokenSeparator = CHR '':''"
definition tokenFields :: nat where "tokenFields = 5"
definition MaxCiphertextChars :: nat where "MaxCiphertextChars = 2 ^ 20"
definition tokNonceSize :: nat where "tokNonceSize = 12"
definition gcmTagSize :: nat where "gcmTagSize = 16"

record token =
  KeyName :: string
  KeyVersion :: int
  TokNonce :: bytes
  TokCiphertext :: bytes

definition token_String :: "token \<Rightarrow> string" where
  "token_String t = joinWith tokenSeparator
     [TokenPrefix, TokenFormatV1, KeyName t, FormatInt (KeyVersion t), b64_encode (TokNonce t @ TokCiphertext t)]"

datatype token_error =
    TokenRequired
  | TokenTooLong
  | TokenForm
  | TokenNoPrefix
  | TokenFormat string
  | TokenNoKey
  | TokenBadVersion string
  | TokenNotBase64
  | TokenTooShort

definition ParseToken :: "string \<Rightarrow> token_error + token" where
  "ParseToken raw0 =
     (let raw = TrimSpace raw0 in
      if raw = [] then Inl TokenRequired
      else if length raw > MaxCiphertextChars then Inl TokenTooLong
      else (case splitOn tokenSeparator raw of
          [p0, p1, p2, p3, p4] \<Rightarrow>
            if p0 \<noteq> TokenPrefix then Inl TokenNoPrefix
            else if p1 \<noteq> TokenFormatV1 then Inl (TokenFormat p1)
            else if p2 = [] then Inl TokenNoKey
            else (case ParseInt32 p3 of
                None \<Rightarrow> Inl (TokenBadVersion p3)
              | Some ver \<Rightarrow>
                  if ver < 1 then Inl (TokenBadVersion p3)
                  else (case b64_decode p4 of
                      None \<Rightarrow> Inl TokenNotBase64
                    | Some payload \<Rightarrow>
                        if length payload < tokNonceSize + gcmTagSize then Inl TokenTooShort
                        else Inr \<lparr>KeyName = p2, KeyVersion = ver, TokNonce = take tokNonceSize payload,
                               TokCiphertext = drop tokNonceSize payload\<rparr>))
        | _ \<Rightarrow> Inl TokenForm))"

text \<open>The tokens \<open>transit_Seal\<close> makes, for a name the store accepts.\<close>

definition token_ok :: "token \<Rightarrow> bool" where
  "token_ok t \<longleftrightarrow> KeyName t \<noteq> [] \<and> tokenSeparator \<notin> set (KeyName t) \<and> 1 \<le> KeyVersion t \<and> KeyVersion t < 2 ^ 31
     \<and> length (TokNonce t) = tokNonceSize \<and> gcmTagSize \<le> length (TokCiphertext t)"

lemma token_String_split:
  assumes "token_ok t"
  shows "splitOn tokenSeparator (token_String t) =
    [TokenPrefix, TokenFormatV1, KeyName t, FormatInt (KeyVersion t), b64_encode (TokNonce t @ TokCiphertext t)]"
proof -
  have "CHR '':'' \<notin> set (FormatInt (KeyVersion t))"
    using FormatNat_chars [of "CHR '':''"] assms by (auto simp: FormatInt_def token_ok_def decimals_def)
  moreover have "CHR '':'' \<notin> set (b64_encode (TokNonce t @ TokCiphertext t))"
    using b64_encode_plain [of "CHR '':''"] by (auto simp: b64_plain_def)
  ultimately show ?thesis
    unfolding token_String_def using assms
    by (intro split_join) (auto simp: TokenPrefix_def TokenFormatV1_def tokenSeparator_def token_ok_def)
qed

lemma token_String_trim: "token_ok t \<Longrightarrow> TrimSpace (token_String t) = token_String t"
proof -
  assume ok: "token_ok t"
  have ne: "b64_encode (TokNonce t @ TokCiphertext t) \<noteq> []"
    using ok by (auto simp: token_ok_def tokNonceSize_def)
  then have l: "last (token_String t) = last (b64_encode (TokNonce t @ TokCiphertext t))"
    by (simp add: token_String_def del: b64_encode_Nil)
  have "\<not> space_byte (last (token_String t))"
    unfolding l using b64_encode_plain [OF last_in_set [OF ne]] by (simp add: b64_plain_def)
  then show ?thesis
    by (intro TrimSpace_plain) (auto simp: token_String_def TokenPrefix_def space_byte_def)
qed

lemma parse_token_String:
  assumes "token_ok t" "length (token_String t) \<le> MaxCiphertextChars"
  shows "ParseToken (token_String t) = Inr t"
proof -
  have "token_String t \<noteq> []" by (simp add: token_String_def TokenPrefix_def)
  moreover have "ParseInt32 (FormatInt (KeyVersion t)) = Some (KeyVersion t)"
    using assms(1) by (intro ParseInt32_FormatInt) (auto simp: token_ok_def)
  ultimately show ?thesis
    using assms by (simp add: ParseToken_def Let_def token_String_trim token_String_split token_ok_def)
qed

section \<open>Sealing and opening a payload\<close>

definition transitDomain :: string where "transitDomain = ''maintainerd-secret/transit/aad/v1''"

record transit_identity =
  TiTenant :: string
  TiKey :: string
  TiVersion :: int

definition transit_AAD :: "transit_identity \<Rightarrow> bytes" where
  "transit_AAD i = bytes_of transitDomain
     @ be32 (int (length (TiTenant i))) @ bytes_of (TiTenant i)
     @ be32 (int (length (TiKey i))) @ bytes_of (TiKey i)
     @ be32 (TiVersion i)"

datatype transit_error =
    MaterialSize nat
  | VersionTooLow int
  | PlaintextRequired
  | NonceRead
  | NonceLength nat
  | AuthFailed string int

definition transit_Seal ::
    "prims \<Rightarrow> bytes option \<Rightarrow> bytes \<Rightarrow> string \<Rightarrow> transit_identity \<Rightarrow> bytes option \<Rightarrow> transit_error + token" where
  "transit_Seal P draw material keyName i plaintext =
     (if length material \<noteq> KeySize then Inl (MaterialSize (length material))
      else if TiVersion i < 1 then Inl (VersionTooLow (TiVersion i))
      else (case plaintext of
          None \<Rightarrow> Inl PlaintextRequired
        | Some pt \<Rightarrow>
            (case ReadFull tokNonceSize draw of
               None \<Rightarrow> Inl NonceRead
             | Some nonce \<Rightarrow> Inr \<lparr>KeyName = keyName, KeyVersion = TiVersion i, TokNonce = nonce,
                 TokCiphertext = gcm_seal P material nonce pt (transit_AAD i)\<rparr>)))"

definition transit_Open :: "prims \<Rightarrow> bytes \<Rightarrow> transit_identity \<Rightarrow> token \<Rightarrow> transit_error + bytes" where
  "transit_Open P material i t =
     (if length material \<noteq> KeySize then Inl (MaterialSize (length material))
      else if length (TokNonce t) \<noteq> tokNonceSize then Inl (NonceLength (length (TokNonce t)))
      else (case gcm_open P material (TokNonce t) (TokCiphertext t) (transit_AAD i) of
          None \<Rightarrow> Inl (AuthFailed (KeyName t) (KeyVersion t))
        | Some pt \<Rightarrow> Inr pt))"

definition SameToken :: "token \<Rightarrow> token \<Rightarrow> bool" where
  "SameToken a b \<longleftrightarrow>
     (if KeyName a \<noteq> KeyName b \<or> KeyVersion a \<noteq> KeyVersion b then False
      else TokNonce a = TokNonce b \<and> TokCiphertext a = TokCiphertext b)"

lemma transit_open_seal:
  "transit_Seal P draw material name i pt = Inr t \<Longrightarrow> \<exists>p. pt = Some p \<and> transit_Open P material i t = Inr p"
  by (auto simp: transit_Seal_def transit_Open_def ReadFull_length split: if_splits option.splits)

lemma gcm_seal_length: "length (gcm_seal P k n pt a) = length pt + 16"
  by (simp add: gcm_seal_def Let_def)

lemma transit_Seal_ok:
  assumes "transit_Seal P draw material name i (Some pt) = Inr t" "name \<noteq> []" "tokenSeparator \<notin> set name" "TiVersion i < 2 ^ 31"
  shows "token_ok t \<and> KeyName t = name \<and> KeyVersion t = TiVersion i \<and> length (TokCiphertext t) = length pt + 16"
  using assms
  by (auto simp: transit_Seal_def token_ok_def gcmTagSize_def gcm_seal_length ReadFull_length split: if_splits option.splits)

text \<open>The length of a token, in the length of the name, of the decimal version and of the plaintext.\<close>

lemma token_String_length:
  "length (token_String t) = 10 + length (KeyName t) + length (FormatInt (KeyVersion t))
     + (4 * (length (TokNonce t) + length (TokCiphertext t)) + 2) div 3"
  by (simp add: token_String_def TokenPrefix_def TokenFormatV1_def b64_encode_length)

section \<open>Properties\<close>

text \<open>
  A token survives its wire form: for every token the store can issue (a key name without the
  separator, a positive int32 version, a 12-byte nonce, a tag) that is not longer than the parser's
  bound, \<open>ParseToken\<close> of \<open>String\<close> gives the token back.
\<close>

theorem token_roundtrip:
  assumes "token_ok t" "length (token_String t) \<le> MaxCiphertextChars"
  shows "ParseToken (token_String t) = Inr t"
  using assms by (rule parse_token_String)

definition sample_token :: token where
  "sample_token = \<lparr>KeyName = ''orders'', KeyVersion = 12, TokNonce = replicate 12 255, TokCiphertext = replicate 17 62\<rparr>"

theorem token_roundtrip_witness: "ParseToken (token_String sample_token) = Inr sample_token"
  by (rule token_roundtrip)
     (simp_all add: token_ok_def sample_token_def tokenSeparator_def tokNonceSize_def gcmTagSize_def
        token_String_length MaxCiphertextChars_def FormatInt_def FormatNat.simps)

text \<open>
  No ciphertext of one kind opens as the other: the associated data of a transit payload and that
  of a sealed secret version or key material differ, whatever the identities are.
\<close>

theorem transit_aad_separated: "transit_AAD i \<noteq> AAD j"
proof
  assume "transit_AAD i = AAD j"
  then have "take (length aadDomain) (transit_AAD i) = take (length aadDomain) (AAD j)" by simp
  moreover have "take (length aadDomain) (AAD j) = bytes_of aadDomain"
    by (simp add: AAD_def)
  moreover have "take (length aadDomain) (transit_AAD i) = bytes_of (take (length aadDomain) transitDomain)"
    by (simp add: transit_AAD_def transitDomain_def aadDomain_def bytes_of_def)
  ultimately show False by (simp add: transitDomain_def aadDomain_def)
qed

end
