(* ===== verification/Transit.thy ===== *)
theory Transit
  imports RootKeys TransitToken
begin

text \<open>
  \<open>internal/store/transit.go\<close> over the queries of \<open>internal/storage/transit.sql.go\<close>: transit keys and
  their versions, encryption and decryption under a named key, and the adapter that re-wraps key
  material. The constraints and the trigger are those of migration 00013. Key material is sealed
  like a secret version, bound to (tenant, key, version). Paged listings are not modelled.
\<close>

section \<open>Queries\<close>

definition live_transit :: "transit_key \<Rightarrow> bool" where "live_transit k \<longleftrightarrow> tk_deleted k = None"

definition uq_transit_keys :: "transit_key list \<Rightarrow> bool" where
  "uq_transit_keys ks \<longleftrightarrow> distinct (map tk_uuid ks)
     \<and> distinct (map (\<lambda>k. (tk_project k, tk_name k)) (filter live_transit ks))"

definition chk_transit_key :: "transit_key \<Rightarrow> dberr option" where
  "chk_transit_key k =
     (if tk_status k \<notin> {''active'', ''disabled''} then Some (CheckViolation ''chk_transit_keys_status'')
      else if tk_current k < 0 then Some (CheckViolation ''chk_transit_keys_current_version'')
      else if tk_min k < 1 then Some (CheckViolation ''chk_transit_keys_min_decrypt_version'')
      else None)"

definition transit_keys_error :: "transit_key list \<Rightarrow> dberr option" where
  "transit_keys_error ks = (case first_error chk_transit_key ks of
     Some e \<Rightarrow> Some e | None \<Rightarrow> if \<not> uq_transit_keys ks then Some UniqueViolation else None)"

definition CreateTransitKeyRow :: "nat \<Rightarrow> nat \<Rightarrow> string \<Rightarrow> string \<Rightarrow> string \<Rightarrow> int \<Rightarrow> transit_key query" where
  "CreateTransitKeyRow tid pid name description status minDecrypt = (\<lambda>s.
     let k = \<lparr>tk_id = seq s, tk_uuid = uuid_at s (seq s), tk_tenant = tid, tk_project = pid, tk_name = name,
           tk_description = description, tk_current = 0, tk_status = status, tk_min = minDecrypt, tk_deleted = None\<rparr>;
         ks = transit_keys s @ [k]
     in q_exec (case transit_keys_error ks of Some e \<Rightarrow> Some e
          | None \<Rightarrow> if tid \<notin> t_id ` set (tenants s) \<or> pid \<notin> p_id ` set (projects s) then Some ForeignKeyViolation else None)
          (s\<lparr>transit_keys := ks, seq := Suc (seq s)\<rparr>) k s)"

definition GetTransitKeyByName :: "nat \<Rightarrow> nat \<Rightarrow> string \<Rightarrow> transit_key query" where
  "GetTransitKeyByName tid pid name = q_one (\<lambda>s. filter (\<lambda>k. tk_tenant k = tid \<and> tk_project k = pid
     \<and> tk_name k = name \<and> live_transit k) (transit_keys s))"

definition GetTransitKeyByNameForUpdate :: "nat \<Rightarrow> nat \<Rightarrow> string \<Rightarrow> transit_key query" where
  "GetTransitKeyByNameForUpdate = GetTransitKeyByName"

text \<open>An UPDATE of keys that returns one row.\<close>

definition update_transit_key :: "(transit_key \<Rightarrow> bool) \<Rightarrow> (transit_key \<Rightarrow> transit_key) \<Rightarrow> transit_key query" where
  "update_transit_key P f = (\<lambda>s.
     let ks = updating P f (transit_keys s) in
     (case filter P (transit_keys s) of
        [] \<Rightarrow> (Inl NoRows, s)
      | k # _ \<Rightarrow> q_exec (transit_keys_error ks) (s\<lparr>transit_keys := ks\<rparr>) (f k) s))"

definition SetTransitKeyCurrentVersion :: "int \<Rightarrow> nat \<Rightarrow> nat \<Rightarrow> transit_key query" where
  "SetTransitKeyCurrentVersion ver tid kid = update_transit_key
     (\<lambda>k. tk_tenant k = tid \<and> tk_id k = kid \<and> live_transit k \<and> tk_current k < ver)
     (\<lambda>k. k\<lparr>tk_current := ver\<rparr>)"

definition UpdateTransitKeyRow :: "string \<Rightarrow> string \<Rightarrow> int \<Rightarrow> nat \<Rightarrow> uuid \<Rightarrow> transit_key query" where
  "UpdateTransitKeyRow description status minDecrypt tid u = update_transit_key
     (\<lambda>k. tk_tenant k = tid \<and> tk_uuid k = u \<and> live_transit k)
     (\<lambda>k. k\<lparr>tk_description := description, tk_status := status, tk_min := minDecrypt\<rparr>)"

definition SoftDeleteTransitKey :: "nat \<Rightarrow> uuid \<Rightarrow> nat query" where
  "SoftDeleteTransitKey tid u = (\<lambda>s.
     let P = (\<lambda>k. tk_tenant k = tid \<and> tk_uuid k = u \<and> live_transit k) in
     (Inr (length (filter P (transit_keys s))),
      s\<lparr>transit_keys := updating P (\<lambda>k. k\<lparr>tk_deleted := Some (db_now s)\<rparr>) (transit_keys s)\<rparr>))"

definition uq_transit_versions :: "transit_version list \<Rightarrow> bool" where
  "uq_transit_versions vs \<longleftrightarrow> distinct (map (\<lambda>v. (tvn_key v, tvn_version v)) vs)"

definition CreateTransitKeyVersion ::
    "nat \<Rightarrow> int \<Rightarrow> bytes \<Rightarrow> bytes \<Rightarrow> bytes \<Rightarrow> bytes \<Rightarrow> string \<Rightarrow> transit_version query" where
  "CreateTransitKeyVersion kid ver ct nonce dek dekNonce kek = (\<lambda>s.
     let v = \<lparr>tvn_id = seq s, tvn_key = kid, tvn_version = ver, tvn_ciphertext = ct, tvn_nonce = nonce,
           tvn_dek = dek, tvn_dek_nonce = dekNonce, tvn_kek = kek, tvn_created = db_now s\<rparr>;
         vs = transit_versions s @ [v]
     in q_exec (if ver < 1 then Some (CheckViolation ''chk_transit_key_versions_version'')
                else if \<not> uq_transit_versions vs then Some UniqueViolation
                else if kid \<notin> tk_id ` set (transit_keys s) \<or> kek \<notin> k_id ` set (root_keys s)
                  then Some ForeignKeyViolation else None)
          (s\<lparr>transit_versions := vs, seq := Suc (seq s)\<rparr>) v s)"

definition GetTransitKeyVersion :: "nat \<Rightarrow> int \<Rightarrow> transit_version query" where
  "GetTransitKeyVersion kid ver = q_one (\<lambda>s. filter (\<lambda>v. tvn_key v = kid \<and> tvn_version v = ver) (transit_versions s))"

definition AllowTransitVersionRewrap :: "unit query" where
  "AllowTransitVersionRewrap = (\<lambda>s. (Inr (), s\<lparr>guc_transit := ''rewrap''\<rparr>))"

definition ListTransitVersionWrapsByKEK :: "string \<Rightarrow> nat \<Rightarrow> (nat \<times> string \<times> bytes \<times> bytes) list query" where
  "ListTransitVersionWrapsByKEK kek limit = q_many (\<lambda>s. take limit
     (map (\<lambda>v. (tvn_id v, tvn_kek v, tvn_dek v, tvn_dek_nonce v))
       (sort_key tvn_id (filter (\<lambda>v. tvn_kek v = kek) (transit_versions s)))))"

definition CountTransitVersionsByKEK :: "string \<Rightarrow> nat query" where
  "CountTransitVersionsByKEK kek = q_many (\<lambda>s. length (filter (\<lambda>v. tvn_kek v = kek) (transit_versions s)))"

text \<open>\<open>prevent_transit_key_version_mutation()\<close>, for an update.\<close>

definition transit_trigger_update :: "db \<Rightarrow> transit_version \<Rightarrow> transit_version \<Rightarrow> dberr option" where
  "transit_trigger_update s old new =
     (if guc_transit s \<noteq> ''rewrap''
        then Some (RaisedException ''transit_key_versions rows are immutable and cannot be updated'')
      else if tvn_id new \<noteq> tvn_id old \<or> tvn_key new \<noteq> tvn_key old \<or> tvn_version new \<noteq> tvn_version old
          \<or> tvn_ciphertext new \<noteq> tvn_ciphertext old \<or> tvn_nonce new \<noteq> tvn_nonce old \<or> tvn_created new \<noteq> tvn_created old
        then Some (RaisedException ''a transit key rewrap may only change material_dek_wrapped, material_dek_nonce and kek_id'')
      else None)"

definition RewrapTransitKeyVersion :: "bytes \<Rightarrow> bytes \<Rightarrow> string \<Rightarrow> nat \<Rightarrow> string \<Rightarrow> nat query" where
  "RewrapTransitKeyVersion dek dekNonce kek vid fromKek = (\<lambda>s.
     let P = (\<lambda>v. tvn_id v = vid \<and> tvn_kek v = fromKek);
         g = (\<lambda>v. v\<lparr>tvn_dek := dek, tvn_dek_nonce := dekNonce, tvn_kek := kek\<rparr>);
         hit = filter P (transit_versions s)
     in q_exec (case first_error (\<lambda>v. transit_trigger_update s v (g v)) hit of
            Some e \<Rightarrow> Some e
          | None \<Rightarrow> if hit \<noteq> [] \<and> kek \<notin> k_id ` set (root_keys s) then Some ForeignKeyViolation else None)
          (s\<lparr>transit_versions := updating P g (transit_versions s)\<rparr>) (length hit) s)"

section \<open>Keys\<close>

record transit_view =
  tv_uuid :: uuid
  tv_name :: string
  tv_description :: string
  tv_current :: int
  tv_status :: string
  tv_min :: int

definition toTransitKey :: "transit_key \<Rightarrow> transit_view" where
  "toTransitKey k = \<lparr>tv_uuid = tk_uuid k, tv_name = tk_name k, tv_description = tk_description k,
     tv_current = tk_current k, tv_status = tk_status k, tv_min = tk_min k\<rparr>"

definition quoted :: "string \<Rightarrow> string" where
  "quoted s = CHR 0x22 # s @ [CHR 0x22]"

definition ValidateTransitKeyName :: "string \<Rightarrow> name_error option" where
  "ValidateTransitKeyName name = ValidateSlug ''transit key name'' name"

definition transitCryptoIdentity :: "uuid \<Rightarrow> uuid \<Rightarrow> int \<Rightarrow> identity" where
  "transitCryptoIdentity tenantUUID keyUUID ver = \<lparr>TenantUUID = tenantUUID, SecretUUID = keyUUID, Version = ver\<rparr>"

definition resolveProject :: "uuid \<Rightarrow> string \<Rightarrow> (tenant \<times> project) op" where
  "resolveProject tenantUUID project =
     bindM (mapErr (mapReadError ''tenant'') (GetTenantByUUID tenantUUID)) (\<lambda>tenant.
     bindM (mapErr (mapReadError ''project'') (GetProjectBySlug (t_id tenant) project)) (\<lambda>proj.
     ret (tenant, proj)))"

definition transitKeyByName :: "uuid \<Rightarrow> string \<Rightarrow> string \<Rightarrow> (transit_key \<times> tenant) op" where
  "transitKeyByName tenantUUID project name =
     bindM (mapErr (mapReadError ''tenant'') (GetTenantByUUID tenantUUID)) (\<lambda>tenant.
     bindM (mapErr (mapReadError ''project'') (GetProjectBySlug (t_id tenant) project)) (\<lambda>proj.
     bindM (mapErr (mapReadError ''transit key'') (GetTransitKeyByName (t_id tenant) (p_id proj) name)) (\<lambda>row.
     ret (row, tenant))))"

definition NewRandomKey :: "bytes option \<Rightarrow> crypto_error + bytes" where
  "NewRandomKey draw = (case ReadFull KeySize draw of
     None \<Rightarrow> Inl (CryptoMsg ''read random key'') | Some key \<Rightarrow> Inr key)"

text \<open>\<open>mat\<close> is the draw of the material, \<open>rnd\<close> those of the envelope around it.\<close>

definition sealTransitKeyVersion ::
    "service \<Rightarrow> bytes option \<Rightarrow> draws \<Rightarrow> uuid \<Rightarrow> transit_key \<Rightarrow> int \<Rightarrow> unit op" where
  "sealTransitKeyVersion svc mat rnd tenantUUID key ver =
     bindM (liftR (mapL (\<lambda>e. InternalError ''generate transit key material'' (CryptoCause e)) (NewRandomKey mat))) (\<lambda>material.
     bindM (liftR (mapL (\<lambda>e. InternalError ''seal transit key material'' (CryptoCause e))
         (Seal (svc_prims svc) (Some (Active (svc_ring svc))) (transitCryptoIdentity tenantUUID (tk_uuid key) ver) rnd material))) (\<lambda>env.
     bindM (mapErr (mapWriteError ''transit key version''
             (''version '' @ FormatInt ver @ '' of transit key '' @ quoted (tk_name key) @ '' already exists''))
         (CreateTransitKeyVersion (tk_id key) ver (Ciphertext env) (Nonce env) (DEKWrapped env) (DEKNonce env) (KEKID env))) (\<lambda>_.
     ret ())))"

record transit_input =
  ti_tenant :: uuid
  ti_project :: string
  ti_name :: string
  ti_description :: string

definition CreateTransitKey :: "service \<Rightarrow> bytes option \<Rightarrow> draws \<Rightarrow> transit_input \<Rightarrow> transit_view op" where
  "CreateTransitKey svc mat rnd inp =
     (case ValidateTransitKeyName (ti_name inp) of
        Some e \<Rightarrow> fail (ValidationError (NameReason e))
      | None \<Rightarrow>
          bindM (resolveProject (ti_tenant inp) (ti_project inp)) (\<lambda>(tenant, project).
          InTx (
            bindM (mapErr (mapWriteError ''transit key''
                (''a transit key named '' @ quoted (ti_name inp) @ '' already exists in this project''))
              (CreateTransitKeyRow (t_id tenant) (p_id project) (ti_name inp) (ti_description inp) ''active'' 1)) (\<lambda>row.
            bindM (sealTransitKeyVersion svc mat rnd (t_uuid tenant) row 1) (\<lambda>_.
            bindM (mapErr (mapReadError ''transit key'') (SetTransitKeyCurrentVersion 1 (t_id tenant) (tk_id row))) (\<lambda>published.
            ret (toTransitKey published)))))))"

definition RotateTransitKey :: "service \<Rightarrow> bytes option \<Rightarrow> draws \<Rightarrow> uuid \<Rightarrow> string \<Rightarrow> string \<Rightarrow> transit_view op" where
  "RotateTransitKey svc mat rnd tenantUUID project name =
     bindM (resolveProject tenantUUID project) (\<lambda>(tenant, proj).
     InTx (
       bindM (mapErr (mapReadError ''transit key'') (GetTransitKeyByNameForUpdate (t_id tenant) (p_id proj) name)) (\<lambda>row.
       let nextv = int32 (tk_current row + 1) in
       bindM (sealTransitKeyVersion svc mat rnd (t_uuid tenant) row nextv) (\<lambda>_.
       bindM (mapErr (mapReadError ''transit key'') (SetTransitKeyCurrentVersion nextv (t_id tenant) (tk_id row))) (\<lambda>published.
       ret (toTransitKey published))))))"

definition GetTransitKey :: "uuid \<Rightarrow> string \<Rightarrow> string \<Rightarrow> transit_view op" where
  "GetTransitKey tenantUUID project name =
     bindM (transitKeyByName tenantUUID project name) (\<lambda>(row, _). ret (toTransitKey row))"

record transit_update =
  tu_tenant :: uuid
  tu_project :: string
  tu_name :: string
  tu_description :: string
  tu_status :: string
  tu_min :: int

definition UpdateTransitKey :: "transit_update \<Rightarrow> transit_view op" where
  "UpdateTransitKey inp =
     bindM (transitKeyByName (tu_tenant inp) (tu_project inp) (tu_name inp)) (\<lambda>(row, tenant).
     bindM (if tu_status inp \<in> {''active'', ''disabled''} then ret (tu_status inp)
            else if tu_status inp = [] then ret (tk_status row)
            else fail (ValidationError (Msg (''status '' @ quoted (tu_status inp) @ '' must be active or disabled'')))) (\<lambda>status.
     let floor = (if tu_min inp \<le> 0 then tk_min row else tu_min inp) in
     if floor > tk_current row
     then fail (ValidationError (Msg (''min_decrypt_version '' @ FormatInt floor @ '' is above the key's current version ''
       @ FormatInt (tk_current row) @ '', which would refuse every token'')))
     else
       bindM (mapErr (mapWriteError ''transit key'' ''that transit key could not be updated'')
         (UpdateTransitKeyRow (tu_description inp) status floor (t_id tenant) (tk_uuid row))) (\<lambda>updated.
       ret (toTransitKey updated))))"

definition DeleteTransitKey :: "uuid \<Rightarrow> string \<Rightarrow> string \<Rightarrow> unit op" where
  "DeleteTransitKey tenantUUID project name =
     bindM (transitKeyByName tenantUUID project name) (\<lambda>(row, tenant).
     bindM (mapErr (\<lambda>e. InternalError ''delete transit key'' (DbCause e)) (SoftDeleteTransitKey (t_id tenant) (tk_uuid row))) (\<lambda>n.
     if n = 0 then fail (NotFoundError ''transit key'') else ret ()))"

section \<open>The data plane\<close>

definition transit_envelope :: "transit_version \<Rightarrow> envelope" where
  "transit_envelope v = \<lparr>Ciphertext = tvn_ciphertext v, Nonce = tvn_nonce v, DEKWrapped = tvn_dek v,
     DEKNonce = tvn_dek_nonce v, KEKID = tvn_kek v, Checksum = []\<rparr>"

definition openTransitMaterial :: "service \<Rightarrow> uuid \<Rightarrow> transit_key \<Rightarrow> int \<Rightarrow> (bytes \<times> int) op" where
  "openTransitMaterial svc tenantUUID key ver =
     bindM (mapErr (\<lambda>e. if e = NoRows then NotFoundError (''version '' @ FormatInt ver @ '' of transit key '' @ quoted (tk_name key))
         else InternalError ''read transit key version'' (DbCause e)) (GetTransitKeyVersion (tk_id key) ver)) (\<lambda>row.
     bindM (liftR (mapL UnavailableError (Provider (svc_ring svc) (tvn_kek row)))) (\<lambda>provider.
     bindM (liftR (mapL (\<lambda>e. InternalError ''open transit key material'' (CryptoCause e))
         (Open (svc_prims svc) (Some provider) (transitCryptoIdentity tenantUUID (tk_uuid key) (tvn_version row))
           (transit_envelope row)))) (\<lambda>material.
     ret (material, tvn_version row))))"

definition row_identity :: "tenant \<Rightarrow> transit_key \<Rightarrow> int \<Rightarrow> transit_identity" where
  "row_identity tenant key ver = \<lparr>TiTenant = t_uuid tenant, TiKey = tk_uuid key, TiVersion = ver\<rparr>"

definition TransitEncrypt :: "service \<Rightarrow> bytes option \<Rightarrow> uuid \<Rightarrow> string \<Rightarrow> string \<Rightarrow> bytes option \<Rightarrow> (string \<times> int) op" where
  "TransitEncrypt svc draw tenantUUID project keyName plaintext =
     (if plaintext = None then fail (ValidationError (Msg ''a plaintext is required''))
      else bindM (transitKeyByName tenantUUID project keyName) (\<lambda>(key, tenant).
        if tk_status key \<noteq> ''active''
        then fail (ForbiddenError (''transit key '' @ quoted (tk_name key) @ '' is '' @ tk_status key @ '' and will not encrypt''))
        else if tk_current key < 1
        then fail (InternalError ''transit key has no versions'' (OtherCause ''current_version is 0''))
        else bindM (openTransitMaterial svc (t_uuid tenant) key (tk_current key)) (\<lambda>(material, ver).
          bindM (liftR (mapL (\<lambda>e. InternalError ''transit encrypt'' (OtherCause ''seal failed''))
            (transit_Seal (svc_prims svc) draw material (tk_name key) (row_identity tenant key ver) plaintext))) (\<lambda>token.
          ret (token_String token, ver)))))"

text \<open>
  The text of a parse error, without the values some of them quote.
\<close>

definition token_error_text :: "token_error \<Rightarrow> string" where
  "token_error_text e = (case e of
      TokenRequired \<Rightarrow> ''transit: a ciphertext token is required''
    | TokenTooLong \<Rightarrow> ''transit: ciphertext token is longer than 1048576 characters''
    | TokenForm \<Rightarrow> ''transit: ciphertext token must have the form m9dt:v1:<key>:<version>:<payload>''
    | TokenNoPrefix \<Rightarrow> ''transit: ciphertext token does not carry the m9dt prefix''
    | TokenFormat f \<Rightarrow> ''transit: ciphertext token format is not supported''
    | TokenNoKey \<Rightarrow> ''transit: ciphertext token names no key''
    | TokenBadVersion v \<Rightarrow> ''transit: ciphertext token key version is not a positive integer''
    | TokenNotBase64 \<Rightarrow> ''transit: ciphertext token payload is not valid base64url''
    | TokenTooShort \<Rightarrow> ''transit: ciphertext token payload is too short to be a sealed value'')"

definition TransitDecrypt :: "service \<Rightarrow> uuid \<Rightarrow> string \<Rightarrow> string \<Rightarrow> (bytes \<times> string \<times> int) op" where
  "TransitDecrypt svc tenantUUID project rawToken =
     bindM (liftR (mapL (\<lambda>e. ValidationError (Msg (token_error_text e))) (ParseToken rawToken))) (\<lambda>token.
     bindM (transitKeyByName tenantUUID project (KeyName token)) (\<lambda>(key, tenant).
     if KeyVersion token < tk_min key
     then fail (ForbiddenError (''transit key '' @ quoted (tk_name key) @ '' no longer decrypts version ''
       @ FormatInt (KeyVersion token) @ ''; its minimum is '' @ FormatInt (tk_min key)))
     else bindM (openTransitMaterial svc (t_uuid tenant) key (KeyVersion token)) (\<lambda>(material, ver).
       bindM (liftR (mapL (\<lambda>e. ValidationError (Msg ''transit: decrypting failed authentication''))
         (transit_Open (svc_prims svc) material (row_identity tenant key ver) token))) (\<lambda>plaintext.
       ret (plaintext, tk_name key, ver)))))"

section \<open>The adapter of the transit tables\<close>

definition transit_ListVersionWraps :: "string \<Rightarrow> int \<Rightarrow> (db, adapter_error, vwrap list) comp" where
  "transit_ListVersionWraps kek limit =
     bindM (mapErr (\<lambda>e. AdapterApp (InternalError ''list transit key versions by root key'' (DbCause e)))
       (ListTransitVersionWrapsByKEK kek (nat limit))) (\<lambda>rows. ret (map row_wrap rows))"

definition transit_RewrapVersion :: "nat \<Rightarrow> string \<Rightarrow> bytes \<Rightarrow> bytes \<Rightarrow> string \<Rightarrow> (db, adapter_error, unit) comp" where
  "transit_RewrapVersion vid fromKek wrapped nonce toKek =
     InTx (bindM (mapErr (\<lambda>e. AdapterApp (InternalError ''authorize transit key rewrap'' (DbCause e))) AllowTransitVersionRewrap) (\<lambda>_.
       bindM (mapErr (\<lambda>e. AdapterApp (InternalError ''rewrap transit key version'' (DbCause e)))
         (RewrapTransitKeyVersion wrapped nonce toKek vid fromKek)) (\<lambda>n.
       if n = 0 then ret () else ret ())))"

definition transit_CountVersionWraps :: "string \<Rightarrow> (db, adapter_error, nat) comp" where
  "transit_CountVersionWraps kek =
     mapErr (\<lambda>e. AdapterApp (InternalError ''count transit key versions by root key'' (DbCause e))) (CountTransitVersionsByKEK kek)"

definition transit_RetireRootKey :: "string \<Rightarrow> (db, adapter_error, unit) comp" where
  "transit_RetireRootKey kek = ret ()"

definition TransitRewrap :: "(db, adapter_error) rewrap_store" where
  "TransitRewrap = \<lparr>ListVersionWraps = transit_ListVersionWraps, RewrapVersion = transit_RewrapVersion,
     CountVersionWraps = transit_CountVersionWraps, RetireRootKey = transit_RetireRootKey\<rparr>"

end
