(* ===== verification/TransitLaws.thy ===== *)
theory TransitLaws
  imports Transit
begin

text \<open>
  What the transit operations do: their effect on the tables, the invariant \<open>transit_ok\<close>, which
  tokens decrypt, and the adapter \<open>TransitRewrap\<close> as an instance of \<open>rewrap_contract\<close>.
\<close>

section \<open>Reads\<close>

lemma pure_transitKeyByName [intro!, simp, pure_rules]: "pure_op (transitKeyByName tu pr name)"
  by (auto simp: transitKeyByName_def GetTenantByUUID_def GetProjectBySlug_def GetTransitKeyByName_def)

lemma pure_resolveProject [intro!, simp, pure_rules]: "pure_op (resolveProject tu pr)"
  by (auto simp: resolveProject_def GetTenantByUUID_def GetProjectBySlug_def)

lemma pure_openTransitMaterial [intro!, simp, pure_rules]: "pure_op (openTransitMaterial svc tu key ver)"
  by (auto simp: openTransitMaterial_def GetTransitKeyVersion_def)

definition keys_named :: "nat \<Rightarrow> nat \<Rightarrow> string \<Rightarrow> transit_key \<Rightarrow> bool" where
  "keys_named tid pid name k \<longleftrightarrow> tk_tenant k = tid \<and> tk_project k = pid \<and> tk_name k = name \<and> live_transit k"

text \<open>The key a caller's name stands for, and the material of one of its versions.\<close>

definition finds :: "db \<Rightarrow> uuid \<Rightarrow> string \<Rightarrow> string \<Rightarrow> transit_key \<Rightarrow> tenant \<Rightarrow> bool" where
  "finds s tu pr name key tenant \<longleftrightarrow> (\<exists>proj ks. resolveProject tu pr s = (Inr (tenant, proj), s)
     \<and> filter (keys_named (t_id tenant) (p_id proj) name) (transit_keys s) = key # ks)"

definition opens :: "service \<Rightarrow> db \<Rightarrow> uuid \<Rightarrow> transit_key \<Rightarrow> int \<Rightarrow> bytes \<Rightarrow> bool" where
  "opens svc s tu key ver material \<longleftrightarrow> (\<exists>row rows p.
     filter (\<lambda>v. tvn_key v = tk_id key \<and> tvn_version v = ver) (transit_versions s) = row # rows
     \<and> Provider (svc_ring svc) (tvn_kek row) = Inr p
     \<and> Open (svc_prims svc) (Some p) (transitCryptoIdentity tu (tk_uuid key) ver) (transit_envelope row) = Inr material)"

lemma resolveProject_ok:
  "resolveProject tu pr s = (Inr (tenant, proj), t) \<longleftrightarrow> t = s \<and> (\<exists>ts ps.
     filter (\<lambda>t. t_uuid t = tu \<and> live_tenant t) (tenants s) = tenant # ts
     \<and> filter (\<lambda>p. p_tenant p = t_id tenant \<and> p_slug p = pr \<and> live_project p) (projects s) = proj # ps)"
  by (auto simp: resolveProject_def run_ok q_ok GetTenantByUUID_def GetProjectBySlug_def)

lemma transitKeyByName_ok:
  "transitKeyByName tu pr name s = (Inr (key, tenant), t) \<longleftrightarrow> t = s \<and> finds s tu pr name key tenant"
  by (auto simp: transitKeyByName_def finds_def run_ok q_ok resolveProject_ok GetTenantByUUID_def GetProjectBySlug_def
      GetTransitKeyByName_def keys_named_def [abs_def])

lemma finds_in: "finds s tu pr name key tenant \<Longrightarrow> key \<in> set (transit_keys s) \<and> tk_name key = name \<and> live_transit key"
  by (auto simp: finds_def keys_named_def dest!: filter_Cons_in)

lemma finds_unique: "finds s tu pr name k a \<Longrightarrow> finds s tu pr name l b \<Longrightarrow> k = l \<and> a = b"
  by (auto simp: finds_def resolveProject_ok)

lemma openTransitMaterial_ok:
  "openTransitMaterial svc tu key ver s = (Inr (material, n), t) \<longleftrightarrow> t = s \<and> n = ver \<and> opens svc s tu key ver material"
proof (cases "filter (\<lambda>v. tvn_key v = tk_id key \<and> tvn_version v = ver) (transit_versions s)")
  case Nil
  then show ?thesis by (simp add: openTransitMaterial_def opens_def run_ok GetTransitKeyVersion_def q_ok)
next
  case (Cons row rows)
  then have "tvn_version row = ver" by (auto dest!: filter_Cons_in)
  with Cons show ?thesis
    by (auto simp: openTransitMaterial_def opens_def run_ok GetTransitKeyVersion_def q_ok)
qed

lemma TransitDecrypt_ok:
  "TransitDecrypt svc tu pr raw s = (Inr (pt, name, n), t) \<longleftrightarrow>
     t = s \<and> (\<exists>token key tenant material. ParseToken raw = Inr token \<and> finds s tu pr (KeyName token) key tenant
       \<and> tk_min key \<le> KeyVersion token \<and> n = KeyVersion token \<and> name = tk_name key
       \<and> opens svc s (t_uuid tenant) key n material
       \<and> transit_Open (svc_prims svc) material (row_identity tenant key n) token = Inr pt)"
  by (auto simp: TransitDecrypt_def run_ok transitKeyByName_ok openTransitMaterial_ok not_less split: if_splits)

lemma TransitEncrypt_ok:
  "TransitEncrypt svc draw tu pr name pt s = (Inr (raw, n), t) \<longleftrightarrow>
     t = s \<and> pt \<noteq> None \<and> (\<exists>key tenant material token. finds s tu pr name key tenant
       \<and> tk_status key = ''active'' \<and> 1 \<le> tk_current key \<and> n = tk_current key
       \<and> opens svc s (t_uuid tenant) key n material
       \<and> transit_Seal (svc_prims svc) draw material (tk_name key) (row_identity tenant key n) pt = Inr token
       \<and> raw = token_String token)"
  by (auto simp: TransitEncrypt_def run_ok transitKeyByName_ok openTransitMaterial_ok not_less split: if_splits)

section \<open>Writes\<close>

lemma update_transit_key_ok:
  "update_transit_key P f s = (Inr r, t) \<longleftrightarrow> (\<exists>k ks. filter P (transit_keys s) = k # ks \<and> r = f k
     \<and> transit_keys_error (updating P f (transit_keys s)) = None
     \<and> t = s\<lparr>transit_keys := updating P f (transit_keys s)\<rparr>)"
  by (auto simp: update_transit_key_def Let_def q_exec_ok split: list.splits)

text \<open>A version row that seals fresh material for a key.\<close>

definition seals :: "service \<Rightarrow> uuid \<Rightarrow> transit_key \<Rightarrow> transit_version \<Rightarrow> bool" where
  "seals svc tu key v \<longleftrightarrow> tvn_key v = tk_id key \<and> tvn_kek v = KeyID (Active (svc_ring svc))
     \<and> (\<exists>rnd material env. Seal (svc_prims svc) (Some (Active (svc_ring svc)))
          (transitCryptoIdentity tu (tk_uuid key) (tvn_version v)) rnd material = Inr env
        \<and> length material = KeySize \<and> transit_envelope v = env\<lparr>Checksum := []\<rparr>)"

lemma sealTransitKeyVersion_ok:
  assumes "sealTransitKeyVersion svc mat rnd tu key ver s = (Inr u, t)"
  shows "\<exists>v. seals svc tu key v \<and> tvn_version v = ver \<and> tvn_id v = seq s \<and> 1 \<le> ver
    \<and> uq_transit_versions (transit_versions s @ [v])
    \<and> t = s\<lparr>transit_versions := transit_versions s @ [v], seq := Suc (seq s)\<rparr>"
proof -
  from assms obtain material env where m: "NewRandomKey mat = Inr material"
      and e: "Seal (svc_prims svc) (Some (Active (svc_ring svc))) (transitCryptoIdentity tu (tk_uuid key) ver) rnd material = Inr env"
      and c: "\<exists>v. CreateTransitKeyVersion (tk_id key) ver (Ciphertext env) (Nonce env) (DEKWrapped env) (DEKNonce env) (KEKID env) s = (Inr v, t)"
    by (auto simp: sealTransitKeyVersion_def run_ok)
  let ?v = "\<lparr>tvn_id = seq s, tvn_key = tk_id key, tvn_version = ver, tvn_ciphertext = Ciphertext env, tvn_nonce = Nonce env,
     tvn_dek = DEKWrapped env, tvn_dek_nonce = DEKNonce env, tvn_kek = KEKID env, tvn_created = db_now s\<rparr>"
  have "length material = KeySize" using m by (auto simp: NewRandomKey_def ReadFull_length split: option.splits)
  moreover have "KEKID env = KeyID (Active (svc_ring svc))"
    using e by (auto simp: Seal_def Let_def split: option.splits if_splits)
  moreover have "transit_envelope ?v = env\<lparr>Checksum := []\<rparr>" by (simp add: transit_envelope_def)
  ultimately have "seals svc tu key ?v" using e by (auto simp: seals_def)
  with c show ?thesis
    by (intro exI [of _ ?v]) (auto simp: CreateTransitKeyVersion_def Let_def q_exec_ok split: if_splits)
qed

text \<open>The effect of \<open>RotateTransitKey\<close>: one version more, and the key's current version is that one.\<close>

definition publish :: "nat \<Rightarrow> int \<Rightarrow> transit_key \<Rightarrow> transit_key" where
  "publish kid ver k = (if tk_id k = kid then k\<lparr>tk_current := ver\<rparr> else k)"

lemma publish_fields [simp]:
  "tk_id (publish kid ver k) = tk_id k" "tk_uuid (publish kid ver k) = tk_uuid k" "tk_tenant (publish kid ver k) = tk_tenant k"
  "tk_project (publish kid ver k) = tk_project k" "tk_name (publish kid ver k) = tk_name k"
  "tk_status (publish kid ver k) = tk_status k" "tk_min (publish kid ver k) = tk_min k"
  "live_transit (publish kid ver k) = live_transit k" "keys_named tid pid name (publish kid ver k) = keys_named tid pid name k"
  by (simp_all add: publish_def live_transit_def keys_named_def)

lemma SetTransitKeyCurrentVersion_ok:
  assumes "SetTransitKeyCurrentVersion ver tid kid s = (Inr r, t)" "distinct (map tk_id (transit_keys s))"
  shows "\<exists>k \<in> set (transit_keys s). tk_id k = kid \<and> tk_tenant k = tid \<and> live_transit k \<and> tk_current k < ver \<and> r = publish kid ver k
    \<and> t = s\<lparr>transit_keys := map (publish kid ver) (transit_keys s)\<rparr>"
proof -
  let ?P = "\<lambda>k. tk_tenant k = tid \<and> tk_id k = kid \<and> live_transit k \<and> tk_current k < ver"
  obtain k ks where k: "filter ?P (transit_keys s) = k # ks" "r = k\<lparr>tk_current := ver\<rparr>"
      and t: "t = s\<lparr>transit_keys := updating ?P (\<lambda>k. k\<lparr>tk_current := ver\<rparr>) (transit_keys s)\<rparr>"
    using assms(1) unfolding SetTransitKeyCurrentVersion_def update_transit_key_ok by blast
  have kk: "k \<in> set (transit_keys s)" "?P k" using filter_Cons_in [OF k(1)] by auto
  have "(if ?P x then x\<lparr>tk_current := ver\<rparr> else x) = publish kid ver x" if "x \<in> set (transit_keys s)" for x
  proof (cases "tk_id x = kid")
    case True
    then have "x = k" using distinct_map_eq [OF assms(2) that kk(1)] kk(2) by simp
    with kk(2) show ?thesis by (simp add: publish_def)
  qed (simp add: publish_def)
  then have "updating ?P (\<lambda>k. k\<lparr>tk_current := ver\<rparr>) (transit_keys s) = map (publish kid ver) (transit_keys s)"
    unfolding updating_def by (intro map_cong) simp_all
  with k kk t show ?thesis by (intro bexI [of _ k]) (simp_all add: publish_def)
qed

lemma RotateTransitKey_ok:
  assumes "RotateTransitKey svc mat rnd tu pr name s = (Inr view, t)" "distinct (map tk_id (transit_keys s))"
  shows "\<exists>key tenant v. finds s tu pr name key tenant \<and> seals svc (t_uuid tenant) key v \<and> tvn_id v = seq s
    \<and> tvn_version v = int32 (tk_current key + 1) \<and> 1 \<le> tvn_version v \<and> tk_current key < tvn_version v
    \<and> uq_transit_versions (transit_versions s @ [v]) \<and> view = toTransitKey (publish (tk_id key) (tvn_version v) key)
    \<and> t = s\<lparr>transit_keys := map (publish (tk_id key) (tvn_version v)) (transit_keys s),
           transit_versions := transit_versions s @ [v], seq := Suc (seq s)\<rparr>"
proof -
  let ?s = "s\<lparr>guc_delete := [], guc_rewrap := [], guc_transit := []\<rparr>"
  from assms(1) obtain tenant proj where tp: "resolveProject tu pr s = (Inr (tenant, proj), s)"
      and tx: "InTx (bindM (mapErr (mapReadError ''transit key'') (GetTransitKeyByNameForUpdate (t_id tenant) (p_id proj) name)) (\<lambda>row.
       let nextv = int32 (tk_current row + 1) in
       bindM (sealTransitKeyVersion svc mat rnd (t_uuid tenant) row nextv) (\<lambda>_.
       bindM (mapErr (mapReadError ''transit key'') (SetTransitKeyCurrentVersion nextv (t_id tenant) (tk_id row))) (\<lambda>published.
       ret (toTransitKey published))))) s = (Inr view, t)"
    by (auto simp: RotateTransitKey_def run_ok resolveProject_ok)
  then obtain key ks u1 u2 r where k: "filter (keys_named (t_id tenant) (p_id proj) name) (transit_keys s) = key # ks"
      and sl: "sealTransitKeyVersion svc mat rnd (t_uuid tenant) key (int32 (tk_current key + 1)) ?s = (Inr (), u1)"
      and st: "SetTransitKeyCurrentVersion (int32 (tk_current key + 1)) (t_id tenant) (tk_id key) u1 = (Inr r, u2)"
      and view: "view = toTransitKey r"
      and t: "t = u2\<lparr>guc_delete := guc_delete s, guc_rewrap := guc_rewrap s, guc_transit := guc_transit s\<rparr>"
    by (auto simp: InTx_ok run_ok Let_def GetTransitKeyByNameForUpdate_def GetTransitKeyByName_def q_ok keys_named_def [abs_def])
  from sealTransitKeyVersion_ok [OF sl] obtain v where v: "seals svc (t_uuid tenant) key v" "tvn_version v = int32 (tk_current key + 1)"
      "tvn_id v = seq s" "1 \<le> int32 (tk_current key + 1)" "uq_transit_versions (transit_versions s @ [v])"
      and u1: "u1 = ?s\<lparr>transit_versions := transit_versions s @ [v], seq := Suc (seq s)\<rparr>" by auto
  have "distinct (map tk_id (transit_keys u1))" using assms(2) u1 by simp
  from SetTransitKeyCurrentVersion_ok [OF st this] obtain k' where k': "k' \<in> set (transit_keys s)" "tk_id k' = tk_id key"
      "tk_current k' < int32 (tk_current key + 1)" "r = publish (tk_id key) (int32 (tk_current key + 1)) k'"
      and u2: "u2 = u1\<lparr>transit_keys := map (publish (tk_id key) (int32 (tk_current key + 1))) (transit_keys u1)\<rparr>"
    using u1 by auto
  have f: "finds s tu pr name key tenant" using tp k by (auto simp: finds_def)
  have "k' = key" using distinct_map_eq [OF assms(2) k'(1) _ k'(2)] finds_in [OF f] by blast
  then show ?thesis
    using f v k' view by (intro exI [of _ key] exI [of _ tenant] exI [of _ v]) (auto simp: t u2 u1)
qed

section \<open>The invariant of the transit tables\<close>

text \<open>
  Ids and (key, version) pairs are unique; a key has a slug for a name, a decrypt floor between one
  and its current version, and all its versions from one to the current one; a version belongs to
  a key and is not above its current version.
\<close>

definition transit_key_ok :: "db \<Rightarrow> transit_key \<Rightarrow> bool" where
  "transit_key_ok s k \<longleftrightarrow> tk_id k < seq s \<and> slugPattern (tk_name k) \<and> 1 \<le> tk_min k \<and> tk_min k \<le> tk_current k
     \<and> tk_current k < 2 ^ 31
     \<and> (\<forall>n \<in> {1..tk_current k}. \<exists>v \<in> set (transit_versions s). tvn_key v = tk_id k \<and> tvn_version v = n)"

definition transit_version_ok :: "db \<Rightarrow> transit_version \<Rightarrow> bool" where
  "transit_version_ok s v \<longleftrightarrow> tvn_id v < seq s \<and> 1 \<le> tvn_version v
     \<and> (\<exists>k \<in> set (transit_keys s). tk_id k = tvn_key v \<and> tvn_version v \<le> tk_current k)"

definition transit_ok :: "db \<Rightarrow> bool" where
  "transit_ok s \<longleftrightarrow> distinct (map tk_id (transit_keys s)) \<and> distinct (map tk_uuid (transit_keys s)) \<and> distinct (map tvn_id (transit_versions s))
     \<and> uq_transit_versions (transit_versions s)
     \<and> (\<forall>k \<in> set (transit_keys s). transit_key_ok s k) \<and> (\<forall>v \<in> set (transit_versions s). transit_version_ok s v)"

lemma transit_okD:
  assumes "transit_ok s"
  shows "distinct (map tk_id (transit_keys s))" "distinct (map tvn_id (transit_versions s))"
    "uq_transit_versions (transit_versions s)"
    "k \<in> set (transit_keys s) \<Longrightarrow> transit_key_ok s k" "v \<in> set (transit_versions s) \<Longrightarrow> transit_version_ok s v"
    "distinct (map tk_uuid (transit_keys s))"
  using assms by (simp_all add: transit_ok_def)

lemma transit_current:
  "transit_ok s \<Longrightarrow> k \<in> set (transit_keys s) \<Longrightarrow>
     1 \<le> tk_min k \<and> tk_min k \<le> tk_current k \<and> 1 \<le> tk_current k \<and> tk_current k < 2 ^ 31"
  using transit_okD(4) [of s k] unfolding transit_key_ok_def by linarith

lemma transit_ok_cong:
  assumes "transit_keys t = transit_keys s" "transit_versions t = transit_versions s" "seq s \<le> seq t"
  shows "transit_ok s \<Longrightarrow> transit_ok t"
  using assms unfolding transit_ok_def transit_key_ok_def transit_version_ok_def by fastforce

lemma seals_key: "seals svc tu key v \<Longrightarrow> tvn_key v = tk_id key"
  by (simp add: seals_def)

text \<open>Appending the next version of a key and publishing it.\<close>

lemma publish_transit_ok:
  assumes ok: "transit_ok s" and key: "key \<in> set (transit_keys s)"
    and v: "tvn_key v = tk_id key" "tvn_id v = seq s" "tvn_version v = int32 (tk_current key + 1)" "1 \<le> tvn_version v"
    and uq: "uq_transit_versions (transit_versions s @ [v])"
    and t: "t = s\<lparr>transit_keys := map (publish (tk_id key) (tvn_version v)) (transit_keys s),
           transit_versions := transit_versions s @ [v], seq := Suc (seq s)\<rparr>"
  shows "transit_ok t"
proof -
  have k: "1 \<le> tk_current key" "tk_current key < 2 ^ 31" using transit_okD(4) [OF ok key] by (auto simp: transit_key_ok_def)
  with v(3,4) have ver: "tvn_version v = tk_current key + 1" "tk_current key + 1 < 2 ^ 31"
    using int32_step [of "tk_current key"] by auto
  have fresh: "seq s \<notin> tvn_id ` set (transit_versions s)"
    using transit_okD(5) [OF ok] by (force simp: transit_version_ok_def)
  have "transit_key_ok t (publish (tk_id key) (tvn_version v) q)" if q: "q \<in> set (transit_keys s)" for q
  proof (cases "tk_id q = tk_id key")
    case True
    then have "q = key" using distinct_map_eq [OF transit_okD(1) [OF ok] q key] by simp
    moreover have "\<exists>w \<in> set (transit_versions t). tvn_key w = tk_id key \<and> tvn_version w = n"
      if "n \<in> {1..tk_current key + 1}" for n
      using that transit_okD(4) [OF ok key] v(1) ver(1)
      by (cases "n = tk_current key + 1") (auto simp: t transit_key_ok_def)
    ultimately show ?thesis using transit_okD(4) [OF ok key] ver by (auto simp: transit_key_ok_def publish_def t)
  next
    case False
    then show ?thesis using transit_okD(4) [OF ok q] by (fastforce simp: transit_key_ok_def publish_def t)
  qed
  moreover have "transit_version_ok t w" if w: "w \<in> set (transit_versions s)" for w
  proof -
    from transit_okD(5) [OF ok w] obtain q where q: "q \<in> set (transit_keys s)" "tk_id q = tvn_key w"
        "tvn_version w \<le> tk_current q" "tvn_id w < seq s" "1 \<le> tvn_version w" by (auto simp: transit_version_ok_def)
    moreover have "tk_current q \<le> tk_current (publish (tk_id key) (tvn_version v) q)"
      using distinct_map_eq [OF transit_okD(1) [OF ok] q(1) key] ver by (auto simp: publish_def)
    ultimately show ?thesis by (force simp: transit_version_ok_def t)
  qed
  moreover have "transit_version_ok t v"
    unfolding transit_version_ok_def
    by (intro conjI bexI [of _ "publish (tk_id key) (tvn_version v) key"]) (use key v ver k in \<open>simp_all add: t publish_def\<close>)
  ultimately show ?thesis
    using transit_okD(1,2,6) [OF ok] uq fresh v(2) by (auto simp: transit_ok_def t comp_def)
qed

lemma RotateTransitKey_transit_ok:
  "RotateTransitKey svc mat rnd tu pr name s = (Inr view, t) \<Longrightarrow> transit_ok s \<Longrightarrow> transit_ok t"
proof -
  assume run: "RotateTransitKey svc mat rnd tu pr name s = (Inr view, t)" and ok: "transit_ok s"
  from RotateTransitKey_ok [OF run transit_okD(1) [OF ok]] obtain key tenant v where
    r: "finds s tu pr name key tenant" "seals svc (t_uuid tenant) key v" "tvn_id v = seq s"
      "tvn_version v = int32 (tk_current key + 1)" "1 \<le> tvn_version v" "uq_transit_versions (transit_versions s @ [v])"
      "t = s\<lparr>transit_keys := map (publish (tk_id key) (tvn_version v)) (transit_keys s),
           transit_versions := transit_versions s @ [v], seq := Suc (seq s)\<rparr>" by blast
  show ?thesis using publish_transit_ok [OF ok _ seals_key [OF r(2)] r(3-7)] finds_in [OF r(1)] by blast
qed

text \<open>The effect of \<open>CreateTransitKey\<close>: a key with its first version.\<close>

definition created_key :: "service \<Rightarrow> transit_input \<Rightarrow> db \<Rightarrow> tenant \<Rightarrow> project \<Rightarrow> transit_key \<Rightarrow> transit_version \<Rightarrow> db \<Rightarrow> bool" where
  "created_key svc inp s tenant proj key v t \<longleftrightarrow>
     key = \<lparr>tk_id = seq s, tk_uuid = uuid_at s (seq s), tk_tenant = t_id tenant, tk_project = p_id proj,
        tk_name = ti_name inp, tk_description = ti_description inp, tk_current = 1, tk_status = ''active'', tk_min = 1, tk_deleted = None\<rparr>
    \<and> slugPattern (ti_name inp) \<and> seals svc (t_uuid tenant) key v \<and> tvn_version v = 1 \<and> tvn_id v = Suc (seq s)
    \<and> uq_transit_versions (transit_versions s @ [v]) \<and> uq_transit_keys (transit_keys s @ [key\<lparr>tk_current := 0\<rparr>])
    \<and> t = s\<lparr>transit_keys := transit_keys s @ [key], transit_versions := transit_versions s @ [v], seq := Suc (Suc (seq s))\<rparr>"

lemma created_keyD:
  assumes "created_key svc inp s tenant proj key v t"
  shows "tk_id key = seq s" "tk_uuid key = uuid_at s (seq s)" "tk_name key = ti_name inp" "tk_current key = 1" "tk_min key = 1"
    "slugPattern (ti_name inp)" "tvn_key v = tk_id key" "tvn_version v = 1" "tvn_id v = Suc (seq s)"
    "uq_transit_versions (transit_versions s @ [v])" "uq_transit_keys (transit_keys s @ [key\<lparr>tk_current := 0\<rparr>])"
    "t = s\<lparr>transit_keys := transit_keys s @ [key], transit_versions := transit_versions s @ [v], seq := Suc (Suc (seq s))\<rparr>"
  using assms by (auto simp: created_key_def seals_def)

lemma CreateTransitKey_ok:
  assumes "CreateTransitKey svc mat rnd inp s = (Inr view, t)" "transit_ok s"
  shows "\<exists>tenant proj key v. resolveProject (ti_tenant inp) (ti_project inp) s = (Inr (tenant, proj), s)
    \<and> created_key svc inp s tenant proj key v t \<and> view = toTransitKey key"
proof -
  let ?s = "s\<lparr>guc_delete := [], guc_rewrap := [], guc_transit := []\<rparr>"
  from assms(1) have name: "slugPattern (ti_name inp)"
    by (auto simp: CreateTransitKey_def ValidateTransitKeyName_def fail_run ValidateSlug_None split: option.splits)
  from assms(1) obtain tenant proj row u0 u1 u2 r where
      tp: "resolveProject (ti_tenant inp) (ti_project inp) s = (Inr (tenant, proj), s)"
      and c: "CreateTransitKeyRow (t_id tenant) (p_id proj) (ti_name inp) (ti_description inp) ''active'' 1 ?s = (Inr row, u0)"
      and sl: "sealTransitKeyVersion svc mat rnd (t_uuid tenant) row 1 u0 = (Inr (), u1)"
      and st: "SetTransitKeyCurrentVersion 1 (t_id tenant) (tk_id row) u1 = (Inr r, u2)"
      and view: "view = toTransitKey r"
      and t: "t = u2\<lparr>guc_delete := guc_delete s, guc_rewrap := guc_rewrap s, guc_transit := guc_transit s\<rparr>"
    by (auto simp: CreateTransitKey_def run_ok fail_run InTx_ok resolveProject_ok split: option.splits)
  have row: "row = \<lparr>tk_id = seq s, tk_uuid = uuid_at s (seq s), tk_tenant = t_id tenant, tk_project = p_id proj,
        tk_name = ti_name inp, tk_description = ti_description inp, tk_current = 0, tk_status = ''active'', tk_min = 1, tk_deleted = None\<rparr>"
      and u0: "u0 = ?s\<lparr>transit_keys := transit_keys s @ [row], seq := Suc (seq s)\<rparr>"
      and uq: "uq_transit_keys (transit_keys s @ [row])"
    using c by (auto simp: CreateTransitKeyRow_def Let_def q_exec_ok transit_keys_error_def split: option.splits if_splits)
  from sealTransitKeyVersion_ok [OF sl] obtain v where v: "seals svc (t_uuid tenant) row v" "tvn_version v = 1"
      "tvn_id v = Suc (seq s)" "uq_transit_versions (transit_versions s @ [v])"
      and u1: "u1 = u0\<lparr>transit_versions := transit_versions s @ [v], seq := Suc (Suc (seq s))\<rparr>" by (auto simp: u0)
  have ids: "seq s \<notin> tk_id ` set (transit_keys s)" using transit_okD(4) [OF assms(2)] by (force simp: transit_key_ok_def)
  have "distinct (map tk_id (transit_keys u1))" using transit_okD(1) [OF assms(2)] ids by (simp add: u1 u0 row)
  from SetTransitKeyCurrentVersion_ok [OF st this] obtain k where k: "k \<in> set (transit_keys u1)" "tk_id k = tk_id row" "r = publish (tk_id row) 1 k"
      and u2: "u2 = u1\<lparr>transit_keys := map (publish (tk_id row) 1) (transit_keys u1)\<rparr>" by blast
  have "k = row" using k(1,2) ids by (auto simp: u1 u0 row image_iff)
  moreover have "map (publish (tk_id row) 1) (transit_keys s) = transit_keys s"
    using ids by (intro map_idI) (auto simp: publish_def row image_iff)
  moreover have "seals svc (t_uuid tenant) (row\<lparr>tk_current := 1\<rparr>) v" using v(1) by (simp add: seals_def)
  ultimately show ?thesis
    using tp name v view k(3) uq
    by (intro exI [of _ tenant] exI [of _ proj] exI [of _ "row\<lparr>tk_current := 1\<rparr>"] exI [of _ v])
       (simp add: t u2 u1 u0 publish_def created_key_def, simp add: row)
qed

section \<open>Which tokens still decrypt\<close>

text \<open>A row of \<open>transit_key_versions\<close> of which at most the wrap has changed, to one of the same DEK.\<close>

definition rewrapped_tv :: "service \<Rightarrow> transit_version \<Rightarrow> transit_version \<Rightarrow> bool" where
  "rewrapped_tv svc v w \<longleftrightarrow> (\<exists>k d n. w = v\<lparr>tvn_dek := d, tvn_dek_nonce := n, tvn_kek := k\<rparr>
     \<and> same_dek svc (tvn_kek v, tvn_dek v, tvn_dek_nonce v) (k, d, n))"

lemma rewrapped_tv_refl [simp]: "rewrapped_tv svc v v"
  unfolding rewrapped_tv_def same_dek_def
  by (rule exI [of _ "tvn_kek v"], rule exI [of _ "tvn_dek v"], rule exI [of _ "tvn_dek_nonce v"]) simp

lemma rewrapped_tv_fields:
  "rewrapped_tv svc v w \<Longrightarrow> tvn_id w = tvn_id v \<and> tvn_key w = tvn_key v \<and> tvn_version w = tvn_version v"
  by (auto simp: rewrapped_tv_def)

text \<open>
  \<open>serves svc s t\<close>: what the data plane resolves in \<open>s\<close> it resolves in \<open>t\<close>: the same project, a key
  of the same identity with no higher floor, and the same material.
\<close>

definition serves :: "service \<Rightarrow> db \<Rightarrow> db \<Rightarrow> bool" where
  "serves svc s t \<longleftrightarrow> tenants t = tenants s \<and> projects t = projects s
     \<and> (\<forall>tid pid name key ks. filter (keys_named tid pid name) (transit_keys s) = key # ks \<longrightarrow>
          (\<exists>key' ks'. filter (keys_named tid pid name) (transit_keys t) = key' # ks' \<and> tk_id key' = tk_id key
             \<and> tk_uuid key' = tk_uuid key \<and> tk_name key' = tk_name key \<and> tk_min key' \<le> tk_min key))
     \<and> (\<forall>kid ver row rows. filter (\<lambda>v. tvn_key v = kid \<and> tvn_version v = ver) (transit_versions s) = row # rows \<longrightarrow>
          (\<exists>row' rows'. filter (\<lambda>v. tvn_key v = kid \<and> tvn_version v = ver) (transit_versions t) = row' # rows'
             \<and> rewrapped_tv svc row row'))"

lemma opens_serves:
  assumes o: "opens svc s tu key ver material" and sv: "serves svc s t" and ring: "ring_ok svc"
    and key: "tk_id key' = tk_id key" "tk_uuid key' = tk_uuid key"
  shows "opens svc t tu key' ver material"
proof -
  obtain row rows p where row: "filter (\<lambda>v. tvn_key v = tk_id key \<and> tvn_version v = ver) (transit_versions s) = row # rows"
      "Provider (svc_ring svc) (tvn_kek row) = Inr p"
      "Open (svc_prims svc) (Some p) (transitCryptoIdentity tu (tk_uuid key) ver) (transit_envelope row) = Inr material"
    using o by (auto simp: opens_def)
  then obtain row' rows' where row': "filter (\<lambda>v. tvn_key v = tk_id key \<and> tvn_version v = ver) (transit_versions t) = row' # rows'"
      "rewrapped_tv svc row row'" using sv unfolding serves_def by blast
  then obtain k d n where r: "row' = row\<lparr>tvn_dek := d, tvn_dek_nonce := n, tvn_kek := k\<rparr>"
      "same_dek svc (tvn_kek row, tvn_dek row, tvn_dek_nonce row) (k, d, n)" by (auto simp: rewrapped_tv_def)
  from open_same_dek [of svc "transit_envelope row" k d n, OF _ ring _ row(3)] r(2) row(2)
  obtain q where "Provider (svc_ring svc) k = Inr q"
      "Open (svc_prims svc) (Some q) (transitCryptoIdentity tu (tk_uuid key) ver)
        ((transit_envelope row)\<lparr>DEKWrapped := d, DEKNonce := n, KEKID := k\<rparr>) = Inr material"
    by (auto simp: transit_envelope_def)
  then show ?thesis using row' key by (auto simp: opens_def r(1) transit_envelope_def)
qed

lemma decrypt_serves:
  assumes d: "TransitDecrypt svc tu pr raw s = (Inr r, u)" and sv: "serves svc s t" and ring: "ring_ok svc"
  shows "TransitDecrypt svc tu pr raw t = (Inr r, t)"
proof -
  obtain pt name n where r: "r = (pt, name, n)" by (cases r) auto
  from d [unfolded r TransitDecrypt_ok] obtain token key tenant material where
    t: "ParseToken raw = Inr token" "finds s tu pr (KeyName token) key tenant" "tk_min key \<le> KeyVersion token"
      "n = KeyVersion token" "name = tk_name key" "opens svc s (t_uuid tenant) key n material"
      "transit_Open (svc_prims svc) material (row_identity tenant key n) token = Inr pt" by blast
  from t(2) obtain proj ks where f: "resolveProject tu pr s = (Inr (tenant, proj), s)"
      "filter (keys_named (t_id tenant) (p_id proj) (KeyName token)) (transit_keys s) = key # ks"
    by (auto simp: finds_def)
  then obtain key' ks' where k: "filter (keys_named (t_id tenant) (p_id proj) (KeyName token)) (transit_keys t) = key' # ks'"
      "tk_id key' = tk_id key" "tk_uuid key' = tk_uuid key" "tk_name key' = tk_name key" "tk_min key' \<le> tk_min key"
    using sv unfolding serves_def by blast
  have "resolveProject tu pr t = (Inr (tenant, proj), t)"
    using f(1) sv by (simp add: resolveProject_ok serves_def)
  with k(1) have "finds t tu pr (KeyName token) key' tenant" by (auto simp: finds_def)
  moreover have "opens svc t (t_uuid tenant) key' n material" by (rule opens_serves [OF t(6) sv ring k(2,3)])
  moreover have "row_identity tenant key' n = row_identity tenant key n" using k(3) by (simp add: row_identity_def)
  ultimately show ?thesis
    unfolding r TransitDecrypt_ok using t k by (intro conjI exI [of _ token] exI [of _ key'] exI [of _ tenant] exI [of _ material]) auto
qed

lemma serves_refl: "serves svc s s"
  by (auto simp: serves_def)

text \<open>More versions and published keys serve the same; so do re-wrapped rows.\<close>

lemma serves_published:
  assumes "tenants t = tenants s" "projects t = projects s"
    and "transit_keys t = map (publish kid ver) (transit_keys s)" "transit_versions t = transit_versions s @ vs"
  shows "serves svc s t"
  using assms by (auto simp: serves_def filter_map comp_def filter_append)

lemma serves_added:
  assumes "tenants t = tenants s" "projects t = projects s"
    and "transit_keys t = transit_keys s @ ks" "transit_versions t = transit_versions s @ vs"
  shows "serves svc s t"
  using assms by (auto simp: serves_def filter_append)

lemma serves_rewrapped:
  assumes "t = s\<lparr>transit_versions := map h (transit_versions s)\<rparr>" "\<forall>v \<in> set (transit_versions s). rewrapped_tv svc v (h v)"
  shows "serves svc s t"
proof -
  have "filter (\<lambda>v. tvn_key v = kid \<and> tvn_version v = ver) (transit_versions t)
      = map h (filter (\<lambda>v. tvn_key v = kid \<and> tvn_version v = ver) (transit_versions s))" for kid ver
    using assms(2) rewrapped_tv_fields by (auto simp: assms(1) filter_map comp_def intro!: arg_cong [of _ _ "map h"] filter_cong)
  then show ?thesis
    using assms(2) by (auto simp: serves_def assms(1)) (metis filter_Cons_in)
qed

section \<open>The adapter keeps the contract\<close>

definition transit_wrap :: "transit_version \<Rightarrow> vwrap" where
  "transit_wrap v = \<lparr>w_id = tvn_id v, w_kek = tvn_kek v, w_dek = tvn_dek v, w_dek_nonce = tvn_dek_nonce v\<rparr>"

definition transit_pending :: "string \<Rightarrow> db \<Rightarrow> vwrap list" where
  "transit_pending kek s = map transit_wrap (sort_key tvn_id (filter (\<lambda>v. tvn_kek v = kek) (transit_versions s)))"

definition rewrap_tv :: "nat \<Rightarrow> string \<Rightarrow> bytes \<Rightarrow> bytes \<Rightarrow> string \<Rightarrow> transit_version \<Rightarrow> transit_version" where
  "rewrap_tv vid fromKek wrapped nonce toKek v = (if tvn_id v = vid \<and> tvn_kek v = fromKek
     then v\<lparr>tvn_dek := wrapped, tvn_dek_nonce := nonce, tvn_kek := toKek\<rparr> else v)"

lemma rewrap_tv_fields [simp]:
  "tvn_id (rewrap_tv vid kek w n to v) = tvn_id v" "tvn_key (rewrap_tv vid kek w n to v) = tvn_key v"
  "tvn_version (rewrap_tv vid kek w n to v) = tvn_version v"
  by (simp_all add: rewrap_tv_def)

lemma transit_RewrapVersion_ok:
  "transit_RewrapVersion vid kek w n to s = (Inr u, t) \<Longrightarrow>
     t = s\<lparr>transit_versions := map (rewrap_tv vid kek w n to) (transit_versions s)\<rparr>"
  by (auto simp: transit_RewrapVersion_def InTx_ok run_ok AllowTransitVersionRewrap_def RewrapTransitKeyVersion_def
      Let_def q_exec_ok rewrap_tv_def [abs_def] updating_def intro: db.equality)

lemma transit_RewrapVersion_err: "transit_RewrapVersion vid kek w n to s = (Inl e, t) \<Longrightarrow> t = s"
  by (simp add: transit_RewrapVersion_def InTx_err)

lemma filter_rewrap_tv:
  "kek \<noteq> to \<Longrightarrow> filter (\<lambda>v. tvn_kek v = kek) (map (rewrap_tv vid kek w n to) vs)
     = filter (\<lambda>v. tvn_id v \<noteq> vid) (filter (\<lambda>v. tvn_kek v = kek) vs)"
  by (induction vs) (auto simp: rewrap_tv_def)

lemma transit_pending_rewrapped:
  assumes "kek \<noteq> to"
  shows "transit_pending kek (s\<lparr>transit_versions := map (rewrap_tv vid kek w n to) (transit_versions s)\<rparr>)
    = filter (\<lambda>x. w_id x \<noteq> vid) (transit_pending kek s)"
proof -
  have "filter (\<lambda>x. w_id x \<noteq> vid) (map transit_wrap vs) = map transit_wrap (filter (\<lambda>v. tvn_id v \<noteq> vid) vs)" for vs
    by (simp add: filter_map comp_def transit_wrap_def)
  with assms show ?thesis by (simp add: transit_pending_def filter_rewrap_tv filter_sort)
qed

lemma transit_ok_map_versions:
  assumes ok: "transit_ok s"
    and h: "\<And>v. v \<in> set (transit_versions s) \<Longrightarrow> tvn_id (h v) = tvn_id v \<and> tvn_key (h v) = tvn_key v \<and> tvn_version (h v) = tvn_version v"
  shows "transit_ok (s\<lparr>transit_versions := map h (transit_versions s)\<rparr>)"
proof -
  have m: "map (tvn_id \<circ> h) (transit_versions s) = map tvn_id (transit_versions s)"
    "map ((\<lambda>v. (tvn_key v, tvn_version v)) \<circ> h) (transit_versions s) = map (\<lambda>v. (tvn_key v, tvn_version v)) (transit_versions s)"
    using h by simp_all
  have "distinct (map tvn_id (map h (transit_versions s)))" "uq_transit_versions (map h (transit_versions s))"
    using transit_okD(2,3) [OF ok] m by (simp_all add: uq_transit_versions_def del: map_eq_conv)
  moreover have "transit_key_ok (s\<lparr>transit_versions := map h (transit_versions s)\<rparr>) k" if "k \<in> set (transit_keys s)" for k
    using transit_okD(4) [OF ok that] h by (auto simp: transit_key_ok_def)
  moreover have "transit_version_ok (s\<lparr>transit_versions := map h (transit_versions s)\<rparr>) v"
    if "v \<in> set (map h (transit_versions s))" for v
    using that transit_okD(5) [OF ok] h by (auto simp: transit_version_ok_def)
  ultimately show ?thesis using ok by (simp add: transit_ok_def)
qed

lemma TransitRewrap_simps [simp]:
  "ListVersionWraps TransitRewrap = transit_ListVersionWraps" "RewrapVersion TransitRewrap = transit_RewrapVersion"
  "CountVersionWraps TransitRewrap = transit_CountVersionWraps" "RetireRootKey TransitRewrap = transit_RetireRootKey"
  by (simp_all add: TransitRewrap_def)

lemma transit_list_run: "transit_ListVersionWraps kek n s = (Inr (take (nat n) (transit_pending kek s)), s)"
  by (simp add: transit_ListVersionWraps_def ListTransitVersionWrapsByKEK_def q_many_def bindM_def mapErr_def ret_def
      transit_pending_def take_map transit_wrap_def row_wrap_def comp_def)

lemma transit_count_run: "transit_CountVersionWraps kek s = (Inr (length (transit_pending kek s)), s)"
  by (simp add: transit_CountVersionWraps_def CountTransitVersionsByKEK_def q_many_def mapErr_def transit_pending_def)

interpretation tr: rewrap_contract TransitRewrap transit_pending transit_ok
proof (unfold_locales, goal_cases)
  case (3 s kek to vid w n u t)
  then show ?case
    by (auto dest!: transit_RewrapVersion_ok simp: transit_ok_map_versions transit_pending_rewrapped)
next
  case (7 s kek r t k)
  then show ?case by (simp add: transit_RetireRootKey_def ret_run)
next
  case (8 s kek)
  then show ?case
    using transit_okD(2) [OF 8] by (simp add: transit_pending_def comp_def transit_wrap_def distinct_map set_sort inj_on_def)
qed (auto simp: transit_list_run transit_count_run dest: transit_RewrapVersion_err)

text \<open>The pass re-wraps rows only.\<close>

definition only_rewrapped_tv :: "service \<Rightarrow> db \<Rightarrow> db \<Rightarrow> bool" where
  "only_rewrapped_tv svc s t \<longleftrightarrow> (\<exists>h. t = s\<lparr>transit_versions := map h (transit_versions s)\<rparr>
     \<and> (\<forall>v \<in> set (transit_versions s). rewrapped_tv svc v (h v)))"

lemma only_rewrapped_tv_refl: "only_rewrapped_tv svc s s"
  unfolding only_rewrapped_tv_def by (rule exI [of _ id]) simp

lemma only_rewrapped_tv_step:
  assumes ring: "ring_ok svc" and kek: "kek \<noteq> []" "kek \<noteq> KeyID (Active (svc_ring svc))"
      "Provider (svc_ring svc) kek = Inr from"
  shows "tr.step_keeps from (Active (svc_ring svc)) kek (only_rewrapped_tv svc s0)"
  unfolding tr.step_keeps_def
proof (intro allI impI)
  fix s w draw wr n t
  assume ok: "transit_ok s" and J: "only_rewrapped_tv svc s0 s" and w: "w \<in> set (transit_pending kek s)"
    and rw: "Rewrap (Some from) (Some (Active (svc_ring svc))) draw (w_dek w) (w_dek_nonce w) = Inr (wr, n)"
    and run: "RewrapVersion TransitRewrap (w_id w) kek wr n (KeyID (Active (svc_ring svc))) s = (Inr (), t)"
  let ?g = "rewrap_tv (w_id w) kek wr n (KeyID (Active (svc_ring svc)))"
  from w obtain v where v: "v \<in> set (transit_versions s)" "tvn_kek v = kek" "w = transit_wrap v"
    by (auto simp: transit_pending_def)
  from run have t: "t = s\<lparr>transit_versions := map ?g (transit_versions s)\<rparr>"
    by (auto dest!: transit_RewrapVersion_ok)
  from J obtain h where h: "s = s0\<lparr>transit_versions := map h (transit_versions s0)\<rparr>"
      "\<forall>x \<in> set (transit_versions s0). rewrapped_tv svc x (h x)" by (auto simp: only_rewrapped_tv_def)
  have "rewrapped_tv svc x (?g (h x))" if x: "x \<in> set (transit_versions s0)" for x
  proof (cases "tvn_id (h x) = w_id w \<and> tvn_kek (h x) = kek")
    case True
    have "h x \<in> set (transit_versions s)" using x by (subst h(1)) simp
    with True v transit_okD(2) [OF ok] have "h x = v" using distinct_map_eq by (fastforce simp: transit_wrap_def)
    moreover from bspec [OF h(2) x] obtain k d dn where
      "h x = x\<lparr>tvn_dek := d, tvn_dek_nonce := dn, tvn_kek := k\<rparr>"
      "same_dek svc (tvn_kek x, tvn_dek x, tvn_dek_nonce x) (k, d, dn)" by (auto simp: rewrapped_tv_def)
    ultimately have r: "k = kek" "d = w_dek w" "dn = w_dek_nonce w"
        "?g (h x) = x\<lparr>tvn_dek := wr, tvn_dek_nonce := n, tvn_kek := KeyID (Active (svc_ring svc))\<rparr>"
        "same_dek svc (tvn_kek x, tvn_dek x, tvn_dek_nonce x) (k, d, dn)"
      using v by (auto simp: rewrap_tv_def transit_wrap_def)
    from same_dek_step [OF r(5) [unfolded r(1-3)] ring kek rw] r(4) show ?thesis
      by (auto simp: rewrapped_tv_def)
  next
    case False
    then show ?thesis using bspec [OF h(2) x] by (simp only: rewrap_tv_def if_False)
  qed
  moreover have "t = s0\<lparr>transit_versions := map (\<lambda>x. ?g (h x)) (transit_versions s0)\<rparr>"
    by (simp add: t h(1) comp_def)
  ultimately show "only_rewrapped_tv svc s0 t" unfolding only_rewrapped_tv_def by blast
qed

lemma transit_rewrap_pass:
  assumes ok: "transit_ok s" and ring: "ring_ok svc" and b: "batch < 2 ^ 31"
    and kek: "kek \<noteq> []" "kek \<noteq> KeyID (Active (svc_ring svc))" "Provider (svc_ring svc) kek = Inr from"
  shows "\<exists>r t. RewrapAll (Some TransitRewrap) (Some (svc_ring svc)) rnd kek batch s = Some (r, t)
    \<and> transit_ok t \<and> only_rewrapped_tv svc s t \<and> (\<forall>rep. r = Inr rep \<longrightarrow> transit_pending kek t = [])"
proof -
  have keep: "\<And>s' r t. only_rewrapped_tv svc s s' \<Longrightarrow> RetireRootKey TransitRewrap kek s' = (r, t) \<Longrightarrow> only_rewrapped_tv svc s t"
    by (simp add: transit_RetireRootKey_def ret_run)
  from tr.RewrapAll_spec [OF ok b kek(2,3) only_rewrapped_tv_step [OF ring kek] only_rewrapped_tv_refl keep, where rnd = rnd]
  show ?thesis by fastforce
qed

lemma serves_only_rewrapped_tv: "only_rewrapped_tv svc s t \<Longrightarrow> serves svc s t"
  unfolding only_rewrapped_tv_def using serves_rewrapped by blast

section \<open>Update and delete\<close>

lemma UpdateTransitKey_ok:
  assumes "UpdateTransitKey inp s = (Inr view, t)" "distinct (map tk_uuid (transit_keys s))"
  shows "\<exists>key tenant status floor. finds s (tu_tenant inp) (tu_project inp) (tu_name inp) key tenant
    \<and> floor = (if tu_min inp \<le> 0 then tk_min key else tu_min inp) \<and> floor \<le> tk_current key
    \<and> status = (if tu_status inp = [] then tk_status key else tu_status inp) \<and> status \<in> {tk_status key, ''active'', ''disabled''}
    \<and> t = s\<lparr>transit_keys := map (\<lambda>k. if k = key then k\<lparr>tk_description := tu_description inp, tk_status := status, tk_min := floor\<rparr> else k)
        (transit_keys s)\<rparr> \<and> transit_keys_error (transit_keys t) = None"
proof -
  from assms(1) obtain key tenant status where f: "finds s (tu_tenant inp) (tu_project inp) (tu_name inp) key tenant"
      and st: "status = (if tu_status inp = [] then tk_status key else tu_status inp)" "status \<in> {tk_status key, ''active'', ''disabled''}"
      and fl: "(if tu_min inp \<le> 0 then tk_min key else tu_min inp) \<le> tk_current key"
      and u: "\<exists>r. UpdateTransitKeyRow (tu_description inp) status (if tu_min inp \<le> 0 then tk_min key else tu_min inp)
          (t_id tenant) (tk_uuid key) s = (Inr r, t)"
    by (auto simp: UpdateTransitKey_def Let_def run_ok transitKeyByName_ok not_less split: if_splits)
  let ?floor = "if tu_min inp \<le> 0 then tk_min key else tu_min inp"
  let ?P = "\<lambda>k. tk_tenant k = t_id tenant \<and> tk_uuid k = tk_uuid key \<and> live_transit k"
  let ?f = "\<lambda>k. k\<lparr>tk_description := tu_description inp, tk_status := status, tk_min := ?floor\<rparr>"
  from u have t: "t = s\<lparr>transit_keys := updating ?P ?f (transit_keys s)\<rparr>" "transit_keys_error (updating ?P ?f (transit_keys s)) = None"
    unfolding UpdateTransitKeyRow_def update_transit_key_ok by blast+
  have key: "key \<in> set (transit_keys s)" "?P key"
    using f by (auto simp: finds_def keys_named_def dest!: filter_Cons_in)
  have "(if ?P k then ?f k else k) = (if k = key then ?f k else k)" if "k \<in> set (transit_keys s)" for k
    using distinct_map_eq [OF assms(2) that key(1)] key(2) by auto
  then have "updating ?P ?f (transit_keys s) = map (\<lambda>k. if k = key then ?f k else k) (transit_keys s)"
    unfolding updating_def by (intro map_cong refl) blast
  with f st fl t show ?thesis
    by (intro exI [of _ key] exI [of _ tenant] exI [of _ status] exI [of _ ?floor]) simp
qed

section \<open>Every transit operation keeps the invariant\<close>

lemma CreateTransitKey_transit_ok:
  "CreateTransitKey svc mat rnd inp s = (Inr view, t) \<Longrightarrow> transit_ok s \<Longrightarrow> transit_ok t"
proof -
  assume run: "CreateTransitKey svc mat rnd inp s = (Inr view, t)" and ok: "transit_ok s"
  from CreateTransitKey_ok [OF run ok] obtain tenant proj key v where "created_key svc inp s tenant proj key v t" by blast
  note key = created_keyD [OF this]
  note t = key(12)
  have ids: "seq s \<notin> tk_id ` set (transit_keys s)" "Suc (seq s) \<notin> tvn_id ` set (transit_versions s)"
    using transit_okD(4,5) [OF ok] by (force simp: transit_key_ok_def transit_version_ok_def)+
  have "transit_key_ok t key"
    using key(1-8) by (auto simp: transit_key_ok_def t)
  moreover have "transit_key_ok t k" if "k \<in> set (transit_keys s)" for k
    using transit_okD(4) [OF ok that] by (fastforce simp: transit_key_ok_def t)
  moreover have "transit_version_ok t v" using key(1,4,7-9) by (simp add: transit_version_ok_def t)
  moreover have "transit_version_ok t w" if "w \<in> set (transit_versions s)" for w
    using transit_okD(5) [OF ok that] by (fastforce simp: transit_version_ok_def t)
  ultimately show ?thesis
    using transit_okD(1,2) [OF ok] ids key(1,9,10,11) by (auto simp: transit_ok_def t uq_transit_keys_def)
qed

text \<open>A change of keys that touches neither id, name nor current version.\<close>

lemma transit_ok_map_keys:
  assumes ok: "transit_ok s"
    and h: "\<And>k. k \<in> set (transit_keys s) \<Longrightarrow> tk_id (h k) = tk_id k \<and> tk_uuid (h k) = tk_uuid k \<and> tk_name (h k) = tk_name k
      \<and> tk_current (h k) = tk_current k \<and> 1 \<le> tk_min (h k) \<and> tk_min (h k) \<le> tk_current k"
  shows "transit_ok (s\<lparr>transit_keys := map h (transit_keys s)\<rparr>)"
proof -
  have "map (tk_id \<circ> h) (transit_keys s) = map tk_id (transit_keys s)"
    "map (tk_uuid \<circ> h) (transit_keys s) = map tk_uuid (transit_keys s)" using h by simp_all
  then have "distinct (map tk_id (map h (transit_keys s)))" "distinct (map tk_uuid (map h (transit_keys s)))"
    using transit_okD(1,6) [OF ok] by (simp_all del: map_eq_conv)
  moreover have "transit_key_ok (s\<lparr>transit_keys := map h (transit_keys s)\<rparr>) (h k)" if "k \<in> set (transit_keys s)" for k
    using transit_okD(4) [OF ok that] h [OF that] by (simp add: transit_key_ok_def)
  moreover have "transit_version_ok (s\<lparr>transit_keys := map h (transit_keys s)\<rparr>) v" if "v \<in> set (transit_versions s)" for v
    using transit_okD(5) [OF ok that] h by (fastforce simp: transit_version_ok_def)
  ultimately show ?thesis using ok by (auto simp: transit_ok_def)
qed

lemma UpdateTransitKey_transit_ok:
  "UpdateTransitKey inp s = (Inr view, t) \<Longrightarrow> transit_ok s \<Longrightarrow> transit_ok t"
proof -
  assume run: "UpdateTransitKey inp s = (Inr view, t)" and ok: "transit_ok s"
  from UpdateTransitKey_ok [OF run transit_okD(6) [OF ok]] obtain key status floor where
    k: "key \<in> set (transit_keys s)" "floor = (if tu_min inp \<le> 0 then tk_min key else tu_min inp)" "floor \<le> tk_current key"
    "t = s\<lparr>transit_keys := map (\<lambda>k. if k = key then k\<lparr>tk_description := tu_description inp, tk_status := status, tk_min := floor\<rparr> else k)
        (transit_keys s)\<rparr>" using finds_in by blast
  have key: "transit_key_ok s q" if "q \<in> set (transit_keys s)" for q using transit_okD(4) [OF ok that] .
  show ?thesis unfolding k(4)
    by (rule transit_ok_map_keys [OF ok]) (use k(1-3) key in \<open>auto simp: transit_key_ok_def\<close>)
qed

lemma DeleteTransitKey_run:
  assumes "DeleteTransitKey tu pr name s = (r, t)"
  shows "t = s \<or> (\<exists>P. t = s\<lparr>transit_keys := updating P (\<lambda>k. k\<lparr>tk_deleted := Some (db_now s)\<rparr>) (transit_keys s)\<rparr>)"
proof (cases "transitKeyByName tu pr name s")
  case (Pair q u)
  then have "u = s" using pure_opD [OF pure_transitKeyByName] by blast
  with Pair assms show ?thesis
    by (cases q) (auto simp: DeleteTransitKey_def bindM_def mapErr_def SoftDeleteTransitKey_def Let_def fail_def ret_def
        split: if_splits)
qed

lemma DeleteTransitKey_transit_ok: "DeleteTransitKey tu pr name s = (r, t) \<Longrightarrow> transit_ok s \<Longrightarrow> transit_ok t"
  using DeleteTransitKey_run [of tu pr name s r t] transit_okD(4) [of s]
  by (auto simp: updating_def transit_key_ok_def intro!: transit_ok_map_keys)

section \<open>The secret tables are not touched\<close>

lemma store_ok_transit:
  assumes "secrets t = secrets s" "versions t = versions s" "folders t = folders s" "seq s \<le> seq t"
  shows "store_ok s \<Longrightarrow> store_ok t"
  using assms store_okD(8,9) [of s] by (intro store_ok_cong [of t s]) fastforce+

lemma CreateTransitKey_store_ok:
  "CreateTransitKey svc mat rnd inp s = (Inr view, t) \<Longrightarrow> transit_ok s \<Longrightarrow> store_ok s \<Longrightarrow> store_ok t"
  using CreateTransitKey_ok [of svc mat rnd inp s view t]
  by (auto intro: store_ok_transit dest!: created_keyD(12))

lemma finds_cong:
  "tenants t = tenants s \<Longrightarrow> projects t = projects s \<Longrightarrow> transit_keys t = transit_keys s \<Longrightarrow>
     finds t tu pr name key tenant = finds s tu pr name key tenant"
  by (simp add: finds_def resolveProject_ok)

end
