(* ===== verification/RootKeyProps.thy ===== *)
theory RootKeyProps
  imports RootKeys SecretProps
begin

text \<open>
  The properties of root key rotation. The instances rotate the key of the sample store: a secret
  written under the old key, a service restarted with a new one, and the rewrap of the old key.
\<close>

section \<open>A rotation on the sample store\<close>

definition new_kek :: string where
  "new_kek = fingerprint sample_prims ''env'' (replicate 32 5)"

definition old_kek :: string where
  "old_kek = fingerprint sample_prims ''env'' (replicate 32 9)"

definition rotated_ring :: keyring where
  "rotated_ring = \<lparr>active = aesKEK sample_prims ''env'' (replicate 32 5),
     byID = [new_kek \<mapsto> aesKEK sample_prims ''env'' (replicate 32 5),
             old_kek \<mapsto> aesKEK sample_prims ''env'' (replicate 32 9)]\<rparr>"

definition rotated_svc :: service where
  "rotated_svc = sample_svc\<lparr>svc_ring := rotated_ring\<rparr>"

definition sample_rnd :: "nat \<Rightarrow> bytes option" where
  "sample_rnd n = Some (replicate 12 (of_nat n))"

definition written_db :: db where
  "written_db = snd (EnsureActiveRootKey rotated_svc (snd (PutSecret sample_svc sample_draws sample_put sample_db)))"

lemma written_put: "PutSecret sample_svc sample_draws sample_put sample_db = (Inr r, t) \<Longrightarrow>
    written_db = snd (EnsureActiveRootKey rotated_svc t)"
  by (simp add: written_db_def)

lemma keys_differ: "new_kek \<noteq> old_kek"
  by code_simp

lemma rotated_ring_ok: "ring_ok rotated_svc"
  using keys_differ aes.root_key_provider_axioms
  by (simp add: ring_ok_def rotated_svc_def rotated_ring_def Provider_def Active_def aesKEK_def Let_def new_kek_def)

lemma rotated_batch: "RewrapBatch (svc_policy rotated_svc) < 2 ^ 31"
  by (simp add: rotated_svc_def sample_svc_def)

lemma rotation_runs:
  "(case RewrapRootKey rotated_svc sample_rnd old_kek written_db of
      Some (Inr rep, t) \<Rightarrow> Rewrapped rep = 1 \<and> Retired rep \<and> map v_kek (versions t) = [new_kek]
        \<and> map k_state (root_keys t) = [''retired'', ''active'']
    | _ \<Rightarrow> False)"
  by code_simp

lemma EnsureActiveRootKey_same:
  "EnsureActiveRootKey svc s = (r, t) \<Longrightarrow> t = s\<lparr>root_keys := root_keys t\<rparr>"
  by (auto simp: EnsureActiveRootKey_def Let_def fail_def InTx_def bindM_def mapErr_def MarkOtherRootKeysRetiring_def
      UpsertActiveRootKey_def q_exec_def split: if_splits list.splits option.splits sum.splits prod.splits)

lemma store_ok_root_keys: "t = s\<lparr>root_keys := root_keys t\<rparr> \<Longrightarrow> store_ok s \<Longrightarrow> store_ok t"
  by (rule store_ok_cong [of t s])
     (metis db.select_convs db.surjective db.update_convs(7) order_refl store_okD(8,9))+

lemma EnsureActiveRootKey_store_ok: "EnsureActiveRootKey svc s = (r, t) \<Longrightarrow> store_ok s \<Longrightarrow> store_ok t"
  using EnsureActiveRootKey_same store_ok_root_keys by blast

lemma written_ok: "store_ok written_db"
proof -
  obtain r t where r: "PutSecret sample_svc sample_draws sample_put sample_db = (Inr r, t)" "\<not> pr_unchanged r"
      "pr_version r = 1" by (rule sample_put_obtain)
  have "store_ok t" using PutSecret_store_ok [OF r(1) sample_ok] .
  then show ?thesis unfolding written_put [OF r(1)]
    using EnsureActiveRootKey_store_ok by (cases "EnsureActiveRootKey rotated_svc t") auto
qed

text \<open>
  C25: completing a rotation ends: on every store within the invariant \<open>RewrapRootKey\<close> returns,
  whatever the random source yields and whichever key is asked for, and keeps the invariant. When
  it reports the key retired, no version is wrapped under that key any more, and the number it
  reports is the number of versions that were.
\<close>

theorem rewrap_root_key_completes:
  assumes "store_ok s" "ring_ok svc" "RewrapBatch (svc_policy svc) < 2 ^ 31"
  shows "\<exists>r t. RewrapRootKey svc rnd kek s = Some (r, t) \<and> store_ok t
    \<and> (\<forall>rep. r = Inr rep \<and> Retired rep \<longrightarrow>
         kek \<notin> v_kek ` set (versions t) \<and> Rewrapped rep = length (filter (\<lambda>v. v_kek v = kek) (versions s)))"
proof -
  from RewrapRootKey_spec [OF assms, of rnd kek] obtain r t where
    r: "RewrapRootKey svc rnd kek s = Some (r, t)" "store_ok t"
       "(t = s \<and> ((\<exists>e. r = Inl (RotationRefused e)) \<or> (\<exists>e rep. r = Inl (RotationFailed (NoSource e) rep) \<and> Rewrapped rep = 0)
         \<or> kek = KeyID (Active (svc_ring svc)) \<and> r = Inr (empty_report kek kek))
       \<or> kek \<noteq> KeyID (Active (svc_ring svc)) \<and> pass_end svc kek s r t)" by blast
  have "kek \<notin> v_kek ` set (versions t) \<and> Rewrapped rep = length (filter (\<lambda>v. v_kek v = kek) (versions s))"
    if rep: "r = Inr rep" "Retired rep" for rep
  proof -
    from r(3) rep have "secret_pending kek t = []" "Rewrapped rep = length (secret_pending kek s)"
      by (auto simp: pass_end_def empty_report_def)
    then show ?thesis by (auto simp: secret_pending_def filter_empty_conv)
  qed
  with r(1,2) show ?thesis by blast
qed

theorem rewrap_root_key_completes_witness:
  "\<exists>r t. RewrapRootKey rotated_svc sample_rnd old_kek written_db = Some (r, t) \<and> store_ok t
    \<and> old_kek \<notin> v_kek ` set (versions t)"
  using rewrap_root_key_completes [OF written_ok rotated_ring_ok rotated_batch, of sample_rnd old_kek] rotation_runs
  by (auto split: option.splits prod.splits sum.splits)

text \<open>
  C24: a rotation never loses a value: after \<open>RewrapRootKey\<close>, whether it completed, was refused or
  failed on the way, every read of a secret or of one of its versions that succeeded before returns
  the same result, and no column of a version but the wrapped DEK, its nonce and the key id has changed.
\<close>

theorem rewrap_keeps_values:
  assumes "RewrapRootKey svc rnd kek s = Some (r, t)" "store_ok s" "ring_ok svc" "RewrapBatch (svc_policy svc) < 2 ^ 31"
    and "getVersion svc ref n s = (Inr val, u)"
  shows "getVersion svc ref n t = (Inr val, t)
    \<and> map (\<lambda>v. (v_id v, v_secret v, v_version v, v_ciphertext v, v_nonce v, v_type v, v_checksum v)) (versions t)
      = map (\<lambda>v. (v_id v, v_secret v, v_version v, v_ciphertext v, v_nonce v, v_type v, v_checksum v)) (versions s)"
proof -
  have only: "only_rewrapped svc s t" using RewrapRootKey_spec [OF assms(2-4), of rnd kek] assms(1) by auto
  then obtain h ks where h: "t = s\<lparr>versions := map h (versions s), root_keys := ks\<rparr>"
      "\<forall>v \<in> set (versions s). rewrapped svc v (h v)" by (auto simp: only_rewrapped_def)
  show ?thesis
    using getVersion_rewrapped [OF assms(5,3) only] rewrapped_fields h by auto
qed

theorem rewrap_keeps_values_witness:
  "\<exists>r t val. RewrapRootKey rotated_svc sample_rnd old_kek written_db = Some (r, t)
     \<and> GetSecret rotated_svc sample_ref written_db = (Inr val, written_db)
     \<and> GetSecret rotated_svc sample_ref t = (Inr val, t) \<and> rv_value val = bytes_of ''pw''"
proof -
  have g: "(case GetSecret rotated_svc sample_ref written_db of (Inr val, _) \<Rightarrow> rv_value val = bytes_of ''pw'' | _ \<Rightarrow> False)"
    by code_simp
  obtain val u where val: "GetSecret rotated_svc sample_ref written_db = (Inr val, u)" "rv_value val = bytes_of ''pw''"
    using g by (cases "GetSecret rotated_svc sample_ref written_db") (auto split: sum.splits)
  have u: "u = written_db"
    using val(1) by (auto simp: GetSecret_def getVersion_def run_ok GetLatestSecretVersion_def q_ok secret_at_def
        GetSecretByAddress_def dest: resolveAddress_ok)
  obtain r t where r: "RewrapRootKey rotated_svc sample_rnd old_kek written_db = Some (r, t)"
    using rotation_runs by (auto split: option.splits)
  from rewrap_keeps_values [OF r written_ok rotated_ring_ok rotated_batch val(1) [unfolded GetSecret_def]] r val u
  show ?thesis unfolding GetSecret_def by auto
qed

text \<open>
  An interrupted rotation is resumed by running it again: a pass that failed after \<open>k\<close> rows has
  moved the first \<open>k\<close> of the queue and left the rest as it was, and a later pass that completes moves
  exactly the rest, so that no row is skipped or moved twice.
\<close>

theorem rewrap_resumes:
  assumes "RewrapRootKey svc rnd kek s = Some (Inl (RotationFailed e rep), t)"
    and "RewrapRootKey svc rnd' kek t = Some (Inr rep', u)" "Retired rep'"
    and "store_ok s" "ring_ok svc" "RewrapBatch (svc_policy svc) < 2 ^ 31"
  shows "secret_pending kek t = drop (Rewrapped rep) (secret_pending kek s) \<and> secret_pending kek u = []
    \<and> Rewrapped rep + Rewrapped rep' = length (secret_pending kek s)"
proof -
  have t: "store_ok t" "Rewrapped rep \<le> length (secret_pending kek s)"
      "secret_pending kek t = drop (Rewrapped rep) (secret_pending kek s)"
    using RewrapRootKey_spec [OF assms(4-6), of rnd kek] assms(1) by (auto simp: pass_end_def)
  have "pass_end svc kek t (Inr rep') u"
    using RewrapRootKey_spec [OF t(1) assms(5,6), of rnd' kek] assms(2,3) by (auto simp: empty_report_def)
  with t show ?thesis by (auto simp: pass_end_def)
qed

definition failing_rnd :: "nat \<Rightarrow> bytes option" where
  "failing_rnd n = (if n < 1 then Some (replicate 12 3) else None)"

definition two_put :: put_input where
  "two_put = sample_put\<lparr>pi_value := Some (bytes_of ''pw2'')\<rparr>"

definition two_db :: db where
  "two_db = snd (EnsureActiveRootKey rotated_svc (snd (PutSecret sample_svc sample_draws two_put
     (snd (PutSecret sample_svc sample_draws sample_put sample_db)))))"

lemma PutSecret_keeps: "store_ok s \<Longrightarrow> store_ok (snd (PutSecret svc rnd inp s))"
  using PutSecret_store_ok by (cases "PutSecret svc rnd inp s") auto

lemma two_ok: "store_ok two_db"
  unfolding two_db_def
  using EnsureActiveRootKey_store_ok [OF surjective_pairing PutSecret_keeps [OF PutSecret_keeps [OF sample_ok]]] .

definition two_mid :: db where
  "two_mid = snd (the (RewrapRootKey rotated_svc failing_rnd old_kek two_db))"

lemma two_fails:
  "(case RewrapRootKey rotated_svc failing_rnd old_kek two_db of
      Some (Inl (RotationFailed e rep), t) \<Rightarrow> Rewrapped rep = 1 | _ \<Rightarrow> False)"
  by code_simp

lemma two_resumes:
  "(case RewrapRootKey rotated_svc sample_rnd old_kek two_mid of
      Some (Inr rep', u) \<Rightarrow> Retired rep' \<and> Rewrapped rep' = 1 | _ \<Rightarrow> False)"
  by code_simp

theorem rewrap_resumes_witness:
  "\<exists>e rep t rep' u. RewrapRootKey rotated_svc failing_rnd old_kek two_db = Some (Inl (RotationFailed e rep), t)
     \<and> RewrapRootKey rotated_svc sample_rnd old_kek t = Some (Inr rep', u)
     \<and> Rewrapped rep = 1 \<and> length (secret_pending old_kek two_db) = 2 \<and> secret_pending old_kek u = []"
proof -
  obtain e rep t where r: "RewrapRootKey rotated_svc failing_rnd old_kek two_db = Some (Inl (RotationFailed e rep), t)"
      "Rewrapped rep = 1"
    using two_fails by (auto split: option.splits prod.splits sum.splits rotation_error.splits)
  then have "two_mid = t" by (simp add: two_mid_def)
  then obtain rep' u where r': "RewrapRootKey rotated_svc sample_rnd old_kek t = Some (Inr rep', u)" "Retired rep'"
      "Rewrapped rep' = 1"
    using two_resumes by (auto split: option.splits prod.splits sum.splits)
  from rewrap_resumes [OF r(1) r'(1,2) two_ok rotated_ring_ok rotated_batch] r r' show ?thesis by auto
qed

text \<open>What the registration writes: the others retiring, the row of the active key settled.\<close>

definition settled :: "string \<Rightarrow> string \<Rightarrow> root_key \<Rightarrow> bool" where
  "settled kek provider k \<longleftrightarrow> k_id k = kek \<and> k_provider k = provider \<and> k_state k = ''active''
     \<and> k_activated k \<noteq> None \<and> k_retired k = None"

lemma UpsertActiveRootKey_settled:
  assumes "\<forall>k \<in> set (root_keys s). k_state k = ''active'' \<longrightarrow> k_id k = kek" "distinct (map k_id (root_keys s))"
    and "filter (\<lambda>k. k_id k = kek) (root_keys s) = [row]" "settled kek provider row"
    and "provider \<in> {''env'', ''file'', ''aws_kms'', ''gcp_kms'', ''azure_kv'', ''ephemeral''}"
  shows "UpsertActiveRootKey kek provider s = (Inr row, s)"
proof -
  have mem: "row \<in> set (root_keys s)" using assms(3) by (metis filter_Cons_in)
  have uniq: "k = row" if "k \<in> set (root_keys s)" "k_id k = kek" for k
  proof -
    have "k \<in> set (filter (\<lambda>k. k_id k = kek) (root_keys s))" using that by simp
    with assms(3) show ?thesis by simp
  qed
  have same: "updating (\<lambda>k. k_id k = kek) f (root_keys s) = root_keys s" if "f row = row" for f
    unfolding updating_def using that uniq by (intro map_idI) auto
  have "filter (\<lambda>k. k_state k = ''active'') (root_keys s) = filter (\<lambda>k. k_id k = kek) (root_keys s)"
    using assms(1,4) uniq by (intro filter_cong) (auto simp: settled_def)
  then have "uq_root_keys (root_keys s)" using assms(3) by (simp add: uq_root_keys_def)
  moreover have "kek \<in> k_id ` set (root_keys s)" using mem assms(4) by (force simp: settled_def)
  moreover have "updating (\<lambda>k. k_id k = kek) (\<lambda>k. k\<lparr>k_state := ''active'', k_provider := provider,
      k_activated := (case k_activated k of None \<Rightarrow> Some (db_now s) | Some t \<Rightarrow> Some t), k_retired := None\<rparr>)
      (root_keys s) = root_keys s"
    using assms(4) by (intro same) (auto simp: settled_def intro: root_key.equality)
  ultimately show ?thesis
    using assms(3,5) by (simp add: UpsertActiveRootKey_def Let_def q_exec_def)
qed

lemma UpsertActiveRootKey_ok:
  assumes "UpsertActiveRootKey kek provider s = (Inr row, t)" "distinct (map k_id (root_keys s))"
  shows "t = s\<lparr>root_keys := root_keys t\<rparr> \<and> distinct (map k_id (root_keys t))
    \<and> filter (\<lambda>k. k_id k = kek) (root_keys t) = [row] \<and> settled kek provider row
    \<and> provider \<in> {''env'', ''file'', ''aws_kms'', ''gcp_kms'', ''azure_kv'', ''ephemeral''}
    \<and> filter (\<lambda>k. k_id k \<noteq> kek) (root_keys t) = filter (\<lambda>k. k_id k \<noteq> kek) (root_keys s)"
proof -
  let ?again = "\<lambda>k. k\<lparr>k_state := ''active'', k_provider := provider,
     k_activated := (case k_activated k of None \<Rightarrow> Some (db_now s) | Some t \<Rightarrow> Some t), k_retired := None\<rparr>"
  let ?fresh = "\<lparr>k_id = kek, k_provider = provider, k_state = ''active'', k_created = db_now s,
     k_activated = Some (db_now s), k_retired = None\<rparr>"
  define ks where "ks = (if kek \<in> k_id ` set (root_keys s)
    then updating (\<lambda>k. k_id k = kek) ?again (root_keys s) else root_keys s @ [?fresh])"
  have "UpsertActiveRootKey kek provider s = (case filter (\<lambda>k. k_id k = kek) ks of [] \<Rightarrow> (Inl NoRows, s)
      | r # _ \<Rightarrow> q_exec (if provider \<notin> {''env'', ''file'', ''aws_kms'', ''gcp_kms'', ''azure_kv'', ''ephemeral''}
          then Some (CheckViolation ''chk_root_keys_provider'')
          else if \<not> uq_root_keys ks then Some UniqueViolation else None) (s\<lparr>root_keys := ks\<rparr>) r s)"
    by (simp only: UpsertActiveRootKey_def Let_def ks_def)
  with assms(1) obtain rs where t: "filter (\<lambda>k. k_id k = kek) ks = row # rs" "t = s\<lparr>root_keys := ks\<rparr>"
      and p: "provider \<in> {''env'', ''file'', ''aws_kms'', ''gcp_kms'', ''azure_kv'', ''ephemeral''}"
    by (cases "filter (\<lambda>k. k_id k = kek) ks")
       (simp_all add: q_exec_ok split: if_splits)
  have d: "distinct (map k_id ks)" using assms(2) by (auto simp: ks_def updating_map)
  have row: "row \<in> set ks" "k_id row = kek" using filter_Cons_in [OF t(1)] by auto
  have "settled kek provider row"
  proof (cases "kek \<in> k_id ` set (root_keys s)")
    case True
    then obtain k where "k_id k = kek" "row = ?again k" using row by (auto simp: ks_def updating_set split: if_splits)
    then show ?thesis by (simp add: settled_def split: option.splits)
  next
    case False
    then have "row = ?fresh" using row by (auto simp: ks_def)
    then show ?thesis by (simp add: settled_def)
  qed
  moreover have "filter (\<lambda>k. k_id k = kek) ks = [row]" using filter_unique [OF d row(1)] row(2) by simp
  moreover have "filter (\<lambda>k. k_id k \<noteq> kek) (updating (\<lambda>k. k_id k = kek) ?again xs) = filter (\<lambda>k. k_id k \<noteq> kek) xs" for xs :: "root_key list"
    by (induction xs) (auto simp: updating_def)
  then have "filter (\<lambda>k. k_id k \<noteq> kek) ks = filter (\<lambda>k. k_id k \<noteq> kek) (root_keys s)" by (simp add: ks_def)
  ultimately show ?thesis using t(2) d p by simp
qed

text \<open>
  The registration at boot leaves exactly one active root key, the ring's, turns every other
  active one to \<open>retiring\<close>, changes nothing but the registry, and is idempotent: a restart with the
  same key finds the registry as it is and leaves it.
\<close>

theorem ensure_active_root_key:
  assumes "EnsureActiveRootKey svc s = (Inr row, t)" "distinct (map k_id (root_keys s))"
  shows "filter (\<lambda>k. k_state k = ''active'') (root_keys t) = [row] \<and> k_id row = KeyID (Active (svc_ring svc))
    \<and> filter (\<lambda>k. k_id k \<noteq> k_id row) (root_keys t)
      = map (\<lambda>k. if k_state k = ''active'' then k\<lparr>k_state := ''retiring''\<rparr> else k)
          (filter (\<lambda>k. k_id k \<noteq> k_id row) (root_keys s))
    \<and> t = s\<lparr>root_keys := root_keys t\<rparr>
    \<and> EnsureActiveRootKey svc t = (Inr row, t)"
proof -
  let ?kek = "KeyID (Active (svc_ring svc))"
  let ?P = "\<lambda>k. k_state k = ''active'' \<and> k_id k \<noteq> ?kek"
  let ?marked = "updating ?P (\<lambda>k. k\<lparr>k_state := ''retiring''\<rparr>) (root_keys s)"
  let ?s = "s\<lparr>guc_delete := [], guc_rewrap := [], guc_transit := []\<rparr>"
  from assms(1) obtain u where u: "UpsertActiveRootKey ?kek (ProviderOf ?kek) (?s\<lparr>root_keys := ?marked\<rparr>) = (Inr row, u)"
      and t: "t = u\<lparr>guc_delete := guc_delete s, guc_rewrap := guc_rewrap s, guc_transit := guc_transit s\<rparr>"
      and ne: "ProviderOf ?kek \<noteq> []"
    by (auto simp: EnsureActiveRootKey_def Let_def InTx_ok run_ok MarkOtherRootKeysRetiring_def split: if_splits)
  have d: "distinct (map k_id ?marked)" using assms(2) by (simp add: updating_map)
  note up = UpsertActiveRootKey_ok [OF u, simplified, OF d]
  have ks: "root_keys t = root_keys u" using t by simp
  have others: "filter (\<lambda>k. k_id k \<noteq> ?kek) (root_keys t) = map (\<lambda>k. if k_state k = ''active'' then k\<lparr>k_state := ''retiring''\<rparr> else k)
      (filter (\<lambda>k. k_id k \<noteq> ?kek) (root_keys s))"
  proof -
    have "filter (\<lambda>k. k_id k \<noteq> ?kek) (updating ?P (\<lambda>k. k\<lparr>k_state := ''retiring''\<rparr>) xs)
        = map (\<lambda>k. if k_state k = ''active'' then k\<lparr>k_state := ''retiring''\<rparr> else k) (filter (\<lambda>k. k_id k \<noteq> ?kek) xs)" for xs :: "root_key list"
      by (induction xs) (auto simp: updating_def)
    with up show ?thesis by (simp add: ks)
  qed
  have act: "k_state k = ''active'' \<longleftrightarrow> k_id k = ?kek" if k: "k \<in> set (root_keys t)" for k
  proof (cases "k_id k = ?kek")
    case True
    then have "k \<in> set (filter (\<lambda>k. k_id k = ?kek) (root_keys u))" using k ks by simp
    with up True show ?thesis by (auto simp: settled_def)
  next
    case False
    then have "k \<in> set (filter (\<lambda>k. k_id k \<noteq> ?kek) (root_keys t))" using k by simp
    with others False show ?thesis by auto
  qed
  then have "filter (\<lambda>k. k_state k = ''active'') (root_keys t) = filter (\<lambda>k. k_id k = ?kek) (root_keys t)"
    by (rule filter_cong [OF refl])
  then have one: "filter (\<lambda>k. k_state k = ''active'') (root_keys t) = [row]" using up ks by simp
  have same: "t = s\<lparr>root_keys := root_keys t\<rparr>" by (metis EnsureActiveRootKey_same [OF assms(1)])
  have "UpsertActiveRootKey ?kek (ProviderOf ?kek) (t\<lparr>guc_delete := [], guc_rewrap := [], guc_transit := []\<rparr>)
      = (Inr row, t\<lparr>guc_delete := [], guc_rewrap := [], guc_transit := []\<rparr>)"
    using up act by (intro UpsertActiveRootKey_settled) (auto simp: ks)
  moreover have "updating ?P f (root_keys t) = root_keys t" for f
    using act by (intro updating_none) (auto simp: filter_empty_conv)
  ultimately have "EnsureActiveRootKey svc t = (Inr row, t)"
    using ne by (simp add: EnsureActiveRootKey_def Let_def InTx_def bindM_def mapErr_def MarkOtherRootKeysRetiring_def)
  with one others same up show ?thesis by (auto simp: settled_def)
qed

theorem ensure_active_root_key_witness:
  "\<exists>row t. EnsureActiveRootKey rotated_svc sample_db = (Inr row, t) \<and> k_id row = new_kek
     \<and> EnsureActiveRootKey rotated_svc t = (Inr row, t)"
proof -
  have "(case EnsureActiveRootKey rotated_svc sample_db of (Inr row, t) \<Rightarrow> k_id row = new_kek | _ \<Rightarrow> False)" by code_simp
  then obtain row t where r: "EnsureActiveRootKey rotated_svc sample_db = (Inr row, t)" "k_id row = new_kek"
    by (auto split: prod.split_asm sum.split_asm)
  have "distinct (map k_id (root_keys sample_db))" by (simp add: sample_db_def)
  from ensure_active_root_key [OF r(1) this] r show ?thesis by blast
qed

end
