(* ===== verification/TransitProps.thy ===== *)
theory TransitProps
  imports TransitLaws RootKeyProps
begin

text \<open>
  The properties of encryption as a service, and of the transit side of a root key rotation. The
  instances create a key in the sample store, seal a payload under it and rotate both keys.
\<close>

section \<open>Encrypt, then decrypt\<close>

lemma FormatNat_length: "n < 10 ^ Suc k \<Longrightarrow> length (FormatNat n) \<le> Suc k"
proof (induction n arbitrary: k rule: FormatNat.induct)
  case (1 n)
  show ?case
  proof (cases "n < 10")
    case False
    then obtain j where j: "k = Suc j" using 1(2) by (cases k) auto
    then have "n div 10 < 10 ^ Suc j" using 1(2) by (simp add: less_mult_imp_div_less)
    with 1(1) False j show ?thesis by (subst FormatNat.simps) auto
  qed (subst FormatNat.simps, simp)
qed

lemma slug_free: "slugPattern s \<Longrightarrow> s \<noteq> [] \<and> CHR '':'' \<notin> set s \<and> length s \<le> 63"
proof -
  assume s: "slugPattern s"
  have "CHR '':'' \<notin> set s" using s unfolding slugPattern_def by (rule ends_pattern_free) (auto simp: alnum_lower_def is_lower_def is_digit_def)
  moreover have "ValidateSlug [] s = None" using s by (simp add: ValidateSlug_None)
  ultimately show ?thesis by (auto simp: ValidateSlug_def path_limits split: if_splits)
qed

lemma encrypt_decrypt:
  assumes "TransitEncrypt svc draw tu pr name (Some pt) s = (Inr (raw, n), t)" "transit_ok s" "length pt \<le> 786000"
  shows "t = s \<and> TransitDecrypt svc tu pr raw s = (Inr (pt, name, n), s)"
proof -
  from assms(1) [unfolded TransitEncrypt_ok] obtain key tenant material token where
    e: "t = s" "finds s tu pr name key tenant" "1 \<le> tk_current key" "n = tk_current key"
      "opens svc s (t_uuid tenant) key n material"
      "transit_Seal (svc_prims svc) draw material (tk_name key) (row_identity tenant key n) (Some pt) = Inr token"
      "raw = token_String token" by blast
  note key = finds_in [OF e(2)]
  have ok: "slugPattern (tk_name key)" "tk_min key \<le> n" "n < 2 ^ 31"
    using transit_okD(4) [OF assms(2)] key e(4) by (auto simp: transit_key_ok_def)
  note slug = slug_free [OF ok(1)]
  have t: "token_ok token" "KeyName token = tk_name key" "KeyVersion token = n" "length (TokCiphertext token) = length pt + 16"
    using transit_Seal_ok [OF e(6)] slug ok(3) by (auto simp: row_identity_def tokenSeparator_def)
  have "length (FormatInt n) \<le> 10"
    using FormatNat_length [of "nat n" 9] ok(3) e(3,4) by (simp add: FormatInt_def)
  moreover have "(114 + 4 * length pt) div 3 \<le> (114 + 4 * 786000) div 3"
    using assms(3) by (intro div_le_mono) simp
  ultimately have "length (token_String token) \<le> MaxCiphertextChars"
    using assms(3) slug t by (simp add: token_String_length MaxCiphertextChars_def token_ok_def tokNonceSize_def)
  then have "ParseToken raw = Inr token" using parse_token_String t(1) e(7) by blast
  moreover have "transit_Open (svc_prims svc) material (row_identity tenant key n) token = Inr pt"
    using transit_open_seal [OF e(6)] by simp
  ultimately show ?thesis
    unfolding TransitDecrypt_ok using e t key ok
    by (intro conjI exI [of _ token] exI [of _ key] exI [of _ tenant] exI [of _ material]) auto
qed

text \<open>
  C27: what was encrypted decrypts: on a store within the invariant, a payload of at most 786000 bytes
  (the API bound is 32 KiB) that \<open>TransitEncrypt\<close> sealed is returned by \<open>TransitDecrypt\<close> of its
  token, with the key's name and the version that sealed it, and neither call changes the store.
\<close>

theorem transit_encrypt_decrypt:
  assumes "TransitEncrypt svc draw tu pr name (Some pt) s = (Inr (raw, n), t)" "transit_ok s" "length pt \<le> 786000"
  shows "t = s \<and> TransitDecrypt svc tu pr raw s = (Inr (pt, name, n), s)"
  using assms by (rule encrypt_decrypt)

definition sample_transit :: transit_input where
  "sample_transit = \<lparr>ti_tenant = ''tu'', ti_project = ''web'', ti_name = ''orders'', ti_description = []\<rparr>"

definition keyed_db :: db where
  "keyed_db = snd (CreateTransitKey sample_svc (Some (replicate 32 4)) sample_draws sample_transit sample_db)"

definition sample_raw :: string where
  "sample_raw = (case fst (TransitEncrypt sample_svc (Some (replicate 12 8)) ''tu'' ''web'' ''orders'' (Some (bytes_of ''4111'')) keyed_db) of
     Inr (raw, _) \<Rightarrow> raw | Inl _ \<Rightarrow> [])"

lemma keyed_runs: "(case fst (CreateTransitKey sample_svc (Some (replicate 32 4)) sample_draws sample_transit sample_db) of
    Inr v \<Rightarrow> tv_current v = 1 | _ \<Rightarrow> False)"
  by code_simp

lemma sample_transit_ok: "transit_ok sample_db"
  by (simp add: transit_ok_def sample_db_def uq_transit_versions_def)

lemma encrypt_runs:
  "(case fst (TransitEncrypt sample_svc (Some (replicate 12 8)) ''tu'' ''web'' ''orders'' (Some (bytes_of ''4111'')) keyed_db) of
     Inr (raw, n) \<Rightarrow> n = 1 | Inl _ \<Rightarrow> False)"
  by code_simp

lemma keyed_ok: "transit_ok keyed_db"
proof -
  obtain v t where "CreateTransitKey sample_svc (Some (replicate 32 4)) sample_draws sample_transit sample_db = (Inr v, t)"
    using keyed_runs by (cases "CreateTransitKey sample_svc (Some (replicate 32 4)) sample_draws sample_transit sample_db")
      (auto split: sum.splits)
  then show ?thesis using CreateTransitKey_transit_ok [OF _ sample_transit_ok] by (simp add: keyed_db_def)
qed

lemma encrypted:
  "TransitEncrypt sample_svc (Some (replicate 12 8)) ''tu'' ''web'' ''orders'' (Some (bytes_of ''4111'')) keyed_db
     = (Inr (sample_raw, 1), keyed_db)"
proof -
  obtain raw n t where r: "TransitEncrypt sample_svc (Some (replicate 12 8)) ''tu'' ''web'' ''orders'' (Some (bytes_of ''4111'')) keyed_db
      = (Inr (raw, n), t)" "n = 1"
    using encrypt_runs
    by (cases "TransitEncrypt sample_svc (Some (replicate 12 8)) ''tu'' ''web'' ''orders'' (Some (bytes_of ''4111'')) keyed_db")
       (auto split: sum.splits)
  then have "t = keyed_db" by (auto simp: TransitEncrypt_ok)
  with r show ?thesis by (simp add: sample_raw_def)
qed

theorem transit_encrypt_decrypt_witness:
  "TransitDecrypt sample_svc ''tu'' ''web'' sample_raw keyed_db = (Inr (bytes_of ''4111'', ''orders'', 1), keyed_db)"
  using transit_encrypt_decrypt [OF encrypted keyed_ok] by simp

lemma sample_decrypts:
  "TransitDecrypt sample_svc ''tu'' ''web'' sample_raw keyed_db = (Inr (bytes_of ''4111'', ''orders'', 1), keyed_db)"
  using encrypt_decrypt [OF encrypted keyed_ok] by simp

section \<open>Rotation and the decrypt floor\<close>

text \<open>
  C28: rotating a transit key loses no ciphertext: after a successful \<open>RotateTransitKey\<close> every token,
  of that key or of any other, that decrypted before decrypts to the same result, the key's current
  version is the next one, and the tables stay within their invariant.
\<close>

theorem rotate_keeps_tokens:
  assumes "RotateTransitKey svc mat rnd tu pr name s = (Inr view, t)" "transit_ok s" "ring_ok svc"
    and "TransitDecrypt svc tu' pr' raw s = (Inr r, u)"
  shows "TransitDecrypt svc tu' pr' raw t = (Inr r, t) \<and> transit_ok t
    \<and> (\<exists>old. GetTransitKey tu pr name s = (Inr old, s) \<and> tv_current view = tv_current old + 1)"
proof -
  from RotateTransitKey_ok [OF assms(1) transit_okD(1) [OF assms(2)]] obtain key tenant v where
    k: "finds s tu pr name key tenant" "tvn_version v = int32 (tk_current key + 1)" "1 \<le> tvn_version v"
      "view = toTransitKey (publish (tk_id key) (tvn_version v) key)"
      "t = s\<lparr>transit_keys := map (publish (tk_id key) (tvn_version v)) (transit_keys s),
           transit_versions := transit_versions s @ [v], seq := Suc (seq s)\<rparr>" by blast
  have "0 \<le> tk_current key" "tk_current key < 2 ^ 31"
    using transit_current [OF assms(2)] finds_in [OF k(1)] by force+
  then have cur: "tvn_version v = tk_current key + 1" using int32_step [of "tk_current key"] k(2,3) by simp
  have "serves svc s t" by (rule serves_published [where kid = "tk_id key" and ver = "tvn_version v"]) (simp_all add: k(5))
  then have "TransitDecrypt svc tu' pr' raw t = (Inr r, t)" by (rule decrypt_serves [OF assms(4) _ assms(3)])
  moreover have "GetTransitKey tu pr name s = (Inr (toTransitKey key), s)"
    using k(1) by (simp add: GetTransitKey_def bindM_def ret_def transitKeyByName_ok [THEN iffD2])
  ultimately show ?thesis
    using RotateTransitKey_transit_ok [OF assms(1,2)] cur k(4) by (auto simp: toTransitKey_def publish_def)
qed

lemma rotate_runs: "(case fst (RotateTransitKey sample_svc (Some (replicate 32 6)) sample_draws ''tu'' ''web'' ''orders'' keyed_db) of
    Inr v \<Rightarrow> tv_current v = 2 | _ \<Rightarrow> False)"
  by code_simp

theorem rotate_keeps_tokens_witness:
  "\<exists>view t. RotateTransitKey sample_svc (Some (replicate 32 6)) sample_draws ''tu'' ''web'' ''orders'' keyed_db = (Inr view, t)
     \<and> tv_current view = 2 \<and> TransitDecrypt sample_svc ''tu'' ''web'' sample_raw t = (Inr (bytes_of ''4111'', ''orders'', 1), t)"
proof -
  obtain v t where r: "RotateTransitKey sample_svc (Some (replicate 32 6)) sample_draws ''tu'' ''web'' ''orders'' keyed_db = (Inr v, t)"
      "tv_current v = 2"
    using rotate_runs by (cases "RotateTransitKey sample_svc (Some (replicate 32 6)) sample_draws ''tu'' ''web'' ''orders'' keyed_db")
      (auto split: sum.splits)
  from rotate_keeps_tokens [OF r(1) keyed_ok sample_ring_ok sample_decrypts] r show ?thesis by blast
qed

text \<open>
  The decrypt floor retires old versions and nothing else: after \<open>UpdateTransitKey\<close> raised the floor
  of a key, a token of that key below the floor is refused as forbidden, and one at or above the
  floor decrypts exactly as it did.
\<close>

theorem transit_floor:
  assumes "UpdateTransitKey inp s = (Inr view, t)" "transit_ok s" "0 < tu_min inp"
    and "ParseToken raw = Inr token" "KeyName token = tu_name inp"
  shows "(KeyVersion token < tu_min inp \<longrightarrow>
      (\<exists>msg. TransitDecrypt svc (tu_tenant inp) (tu_project inp) raw t = (Inl (ForbiddenError msg), t)))
    \<and> (tu_min inp \<le> KeyVersion token \<longrightarrow>
      (\<forall>r. TransitDecrypt svc (tu_tenant inp) (tu_project inp) raw s = (Inr r, s) \<longrightarrow>
           TransitDecrypt svc (tu_tenant inp) (tu_project inp) raw t = (Inr r, t)))"
proof -
  from UpdateTransitKey_ok [OF assms(1) transit_okD(6) [OF assms(2)]] assms(3) obtain key tenant status where
    k: "finds s (tu_tenant inp) (tu_project inp) (tu_name inp) key tenant"
    and t: "t = s\<lparr>transit_keys := map (\<lambda>k. if k = key then k\<lparr>tk_description := tu_description inp, tk_status := status, tk_min := tu_min inp\<rparr> else k)
        (transit_keys s)\<rparr>" by auto
  let ?h = "\<lambda>k. if k = key then k\<lparr>tk_description := tu_description inp, tk_status := status, tk_min := tu_min inp\<rparr> else k"
  obtain proj ks where p: "resolveProject (tu_tenant inp) (tu_project inp) s = (Inr (tenant, proj), s)"
      "filter (keys_named (t_id tenant) (p_id proj) (tu_name inp)) (transit_keys s) = key # ks"
    using k by (auto simp: finds_def)
  have "keys_named a b c (?h q) = keys_named a b c q" for a b c q by (simp add: keys_named_def live_transit_def)
  then have "filter (keys_named (t_id tenant) (p_id proj) (tu_name inp)) (transit_keys t) = map ?h (key # ks)"
    using filter_map_same [of "transit_keys s" "keys_named (t_id tenant) (p_id proj) (tu_name inp)" ?h] p(2)
    by (simp add: t)
  moreover have "resolveProject (tu_tenant inp) (tu_project inp) t = (Inr (tenant, proj), t)"
    using p(1) by (simp add: resolveProject_ok t)
  ultimately have f: "finds t (tu_tenant inp) (tu_project inp) (tu_name inp) (?h key) tenant"
    by (auto simp: finds_def)
  have "\<exists>msg. TransitDecrypt svc (tu_tenant inp) (tu_project inp) raw t = (Inl (ForbiddenError msg), t)"
    if "KeyVersion token < tu_min inp"
    using f that assms(4,5) transitKeyByName_ok [THEN iffD2, OF conjI [OF refl f]]
    by (simp add: TransitDecrypt_def bindM_def liftR_def fail_def)
  moreover have "TransitDecrypt svc (tu_tenant inp) (tu_project inp) raw t = (Inr r, t)"
    if d: "TransitDecrypt svc (tu_tenant inp) (tu_project inp) raw s = (Inr r, s)" and fl: "tu_min inp \<le> KeyVersion token" for r
  proof -
    obtain pt name n where r: "r = (pt, name, n)" by (cases r) auto
    from d [unfolded r TransitDecrypt_ok] assms(4,5) finds_unique [OF k] obtain material where
      o: "opens svc s (t_uuid tenant) key n material" "n = KeyVersion token" "name = tk_name key"
      "transit_Open (svc_prims svc) material (row_identity tenant key n) token = Inr pt" by auto
    have "opens svc t (t_uuid tenant) (?h key) n material" using o(1) by (simp add: opens_def t)
    moreover have "row_identity tenant (?h key) n = row_identity tenant key n" by (simp add: row_identity_def)
    ultimately show ?thesis
      unfolding r TransitDecrypt_ok using f o assms(4,5) fl
      by (intro conjI refl exI [of _ token] exI [of _ "?h key"] exI [of _ tenant] exI [of _ material]) simp_all
  qed
  ultimately show ?thesis by blast
qed

definition two_versions_db :: db where
  "two_versions_db = snd (RotateTransitKey sample_svc (Some (replicate 32 6)) sample_draws ''tu'' ''web'' ''orders'' keyed_db)"

definition raise_floor :: transit_update where
  "raise_floor = \<lparr>tu_tenant = ''tu'', tu_project = ''web'', tu_name = ''orders'', tu_description = [], tu_status = [], tu_min = 2\<rparr>"

lemma two_versions_ok: "transit_ok two_versions_db"
proof -
  obtain v t where "RotateTransitKey sample_svc (Some (replicate 32 6)) sample_draws ''tu'' ''web'' ''orders'' keyed_db = (Inr v, t)"
    using rotate_runs by (cases "RotateTransitKey sample_svc (Some (replicate 32 6)) sample_draws ''tu'' ''web'' ''orders'' keyed_db")
      (auto split: sum.splits)
  then show ?thesis using RotateTransitKey_transit_ok [OF _ keyed_ok] by (simp add: two_versions_db_def)
qed

lemma floor_runs: "(case fst (UpdateTransitKey raise_floor two_versions_db) of Inr v \<Rightarrow> tv_min v = 2 | _ \<Rightarrow> False)"
  by code_simp

lemma sample_token_parses: "\<exists>token. ParseToken sample_raw = Inr token \<and> KeyName token = ''orders'' \<and> KeyVersion token = 1"
  using sample_decrypts by (auto simp: TransitDecrypt_ok dest!: finds_in)

theorem transit_floor_witness:
  "\<exists>view t msg. UpdateTransitKey raise_floor two_versions_db = (Inr view, t)
     \<and> TransitDecrypt sample_svc ''tu'' ''web'' sample_raw t = (Inl (ForbiddenError msg), t)"
proof -
  obtain v t where u: "UpdateTransitKey raise_floor two_versions_db = (Inr v, t)"
    using floor_runs by (cases "UpdateTransitKey raise_floor two_versions_db") (auto split: sum.splits)
  obtain token where p: "ParseToken sample_raw = Inr token" "KeyName token = tu_name raise_floor" "KeyVersion token = 1"
    using sample_token_parses by (auto simp: raise_floor_def)
  have "0 < tu_min raise_floor" by (simp add: raise_floor_def)
  from transit_floor [OF u two_versions_ok this p(1,2), of sample_svc] u p(3) show ?thesis
    by (auto simp: raise_floor_def)
qed

section \<open>Transit keys under a root key rotation\<close>

text \<open>
  C26: \<open>RewrapRootKey\<close> retires a root key that transit key material is still wrapped under: it moves and
  counts secret versions only. Whenever it reports the key retired, the registry shows it retired
  and every transit version under it is left as it was; once the service runs without that key,
  which is what the registry's state tells the operator is safe, every token of such a version is
  refused as unavailable.
\<close>

theorem retirement_strands_transit:
  assumes "RewrapRootKey svc rnd kek s = Some (Inr rep, t)" "Retired rep"
    and "store_ok s" "ring_ok svc" "RewrapBatch (svc_policy svc) < 2 ^ 31"
    and "finds s tu pr (KeyName token) key tenant" "tk_min key \<le> KeyVersion token" "ParseToken raw = Inr token"
    and "filter (\<lambda>v. tvn_key v = tk_id key \<and> tvn_version v = KeyVersion token) (transit_versions s) = v # vs" "tvn_kek v = kek"
    and "Provider (svc_ring svc') kek = Inl e"
  shows "(\<exists>k \<in> set (root_keys t). k_id k = kek \<and> k_state k = ''retired'')
    \<and> transit_versions t = transit_versions s
    \<and> TransitDecrypt svc' tu pr raw t = (Inl (UnavailableError e), t)"
proof -
  have only: "only_rewrapped svc s t" and p: "pass_end svc kek s (Inr rep) t"
    using RewrapRootKey_spec [OF assms(3-5), of rnd kek] assms(1,2) by (auto simp: empty_report_def)
  from p obtain u where "secret_RetireRootKey kek u = (Inr (), t)" by (auto simp: pass_end_def)
  from secret_RetireRootKey_ok [OF this] obtain k where k: "k \<in> set (root_keys u)" "k_id k = kek" "k_state k \<noteq> ''active''"
      and t: "root_keys t = updating (\<lambda>k. k_id k = kek \<and> k_state k \<noteq> ''active'')
       (\<lambda>k. k\<lparr>k_state := ''retired'', k_retired := Some (db_now u)\<rparr>) (root_keys u)" by auto
  have "k\<lparr>k_state := ''retired'', k_retired := Some (db_now u)\<rparr> \<in> set (root_keys t)"
    unfolding t updating_set using k by (intro bexI [of _ k]) auto
  then have 1: "\<exists>k \<in> set (root_keys t). k_id k = kek \<and> k_state k = ''retired''"
    using k(2) by (rule_tac bexI) auto
  from only have same: "tenants t = tenants s" "projects t = projects s" "transit_keys t = transit_keys s"
      "transit_versions t = transit_versions s" by (auto simp: only_rewrapped_def)
  have f: "transitKeyByName tu pr (KeyName token) t = (Inr (key, tenant), t)"
    using assms(6) finds_cong [OF same(1-3)] by (simp add: transitKeyByName_ok)
  have "openTransitMaterial svc' (t_uuid tenant) key (KeyVersion token) t = (Inl (UnavailableError e), t)"
    using assms(9-11) by (simp add: openTransitMaterial_def GetTransitKeyVersion_def q_one_def same bindM_def mapErr_def liftR_def)
  then have "TransitDecrypt svc' tu pr raw t = (Inl (UnavailableError e), t)"
    using assms(7,8) f by (simp add: TransitDecrypt_def bindM_def liftR_def)
  with 1 same show ?thesis by blast
qed

definition stranded_db :: db where
  "stranded_db = snd (EnsureActiveRootKey rotated_svc keyed_db)"

definition new_only_svc :: service where
  "new_only_svc = rotated_svc\<lparr>svc_ring := \<lparr>active = aesKEK sample_prims ''env'' (replicate 32 5),
     byID = [new_kek \<mapsto> aesKEK sample_prims ''env'' (replicate 32 5)]\<rparr>\<rparr>"

lemma stranded_runs:
  "(case RewrapRootKey rotated_svc sample_rnd old_kek stranded_db of Some (Inr rep, t) \<Rightarrow> Retired rep | _ \<Rightarrow> False)"
  by code_simp

lemma keyed_create: "\<exists>v. CreateTransitKey sample_svc (Some (replicate 32 4)) sample_draws sample_transit sample_db = (Inr v, keyed_db)"
  using keyed_runs by (cases "CreateTransitKey sample_svc (Some (replicate 32 4)) sample_draws sample_transit sample_db")
    (auto simp: keyed_db_def split: sum.splits)

lemma stranded_ok: "store_ok stranded_db" "transit_ok stranded_db"
proof -
  have "store_ok keyed_db" using keyed_create CreateTransitKey_store_ok sample_transit_ok sample_ok by blast
  moreover have e: "stranded_db = keyed_db\<lparr>root_keys := root_keys stranded_db\<rparr>"
    unfolding stranded_db_def by (rule EnsureActiveRootKey_same [OF surjective_pairing])
  ultimately show "store_ok stranded_db" using store_ok_root_keys by blast
  show "transit_ok stranded_db" by (subst e) (rule transit_ok_cong [OF _ _ _ keyed_ok]; simp)
qed

definition stranded_raw :: string where
  "stranded_raw = (case fst (TransitEncrypt rotated_svc (Some (replicate 12 8)) ''tu'' ''web'' ''orders'' (Some (bytes_of ''4111'')) stranded_db) of
     Inr (raw, _) \<Rightarrow> raw | Inl _ \<Rightarrow> [])"

lemma stranded_encrypt_runs:
  "(case fst (TransitEncrypt rotated_svc (Some (replicate 12 8)) ''tu'' ''web'' ''orders'' (Some (bytes_of ''4111'')) stranded_db) of
     Inr (raw, n) \<Rightarrow> n = 1 | Inl _ \<Rightarrow> False)"
  by code_simp

lemma stranded_decrypts:
  "TransitDecrypt rotated_svc ''tu'' ''web'' stranded_raw stranded_db = (Inr (bytes_of ''4111'', ''orders'', 1), stranded_db)"
proof -
  obtain raw n t where r: "TransitEncrypt rotated_svc (Some (replicate 12 8)) ''tu'' ''web'' ''orders'' (Some (bytes_of ''4111'')) stranded_db
      = (Inr (raw, n), t)" "n = 1"
    using stranded_encrypt_runs
    by (cases "TransitEncrypt rotated_svc (Some (replicate 12 8)) ''tu'' ''web'' ''orders'' (Some (bytes_of ''4111'')) stranded_db")
       (auto split: sum.splits)
  from encrypt_decrypt [OF r(1) stranded_ok(2)] r show ?thesis by (simp add: stranded_raw_def)
qed

lemma stranded_kek: "\<forall>v \<in> set (transit_versions stranded_db). tvn_kek v = old_kek"
  by code_simp

theorem retirement_strands_transit_witness:
  "\<exists>rep t e. RewrapRootKey rotated_svc sample_rnd old_kek stranded_db = Some (Inr rep, t) \<and> Retired rep
     \<and> TransitDecrypt new_only_svc ''tu'' ''web'' stranded_raw t = (Inl (UnavailableError e), t)"
proof -
  obtain rep t where r: "RewrapRootKey rotated_svc sample_rnd old_kek stranded_db = Some (Inr rep, t)" "Retired rep"
    using stranded_runs by (auto split: option.splits prod.splits sum.splits)
  from stranded_decrypts obtain token key tenant material where d: "ParseToken stranded_raw = Inr token"
      "finds stranded_db ''tu'' ''web'' (KeyName token) key tenant" "tk_min key \<le> KeyVersion token"
      "opens rotated_svc stranded_db (t_uuid tenant) key (KeyVersion token) material" by (auto simp: TransitDecrypt_ok)
  then obtain v vs where v: "filter (\<lambda>v. tvn_key v = tk_id key \<and> tvn_version v = KeyVersion token) (transit_versions stranded_db) = v # vs"
    by (auto simp: opens_def)
  then have k: "tvn_kek v = old_kek" using stranded_kek filter_Cons_in by fast
  have "Provider (svc_ring new_only_svc) old_kek = Inl (NoProviderFor old_kek)"
    using keys_differ by (simp add: new_only_svc_def Provider_def)
  from retirement_strands_transit [OF r stranded_ok(1) rotated_ring_ok rotated_batch d(2,3,1) v k this] r show ?thesis by blast
qed

text \<open>
  C38: the pass over the transit tables, which \<open>TransitRewrap\<close> makes possible, returns on every store
  within the invariant, leaves no key material under the drained key when it reports success, and
  keeps every token decrypting to the same result, also when it fails on the way.
\<close>

theorem transit_rewrap_keeps_tokens:
  assumes "transit_ok s" "ring_ok svc" "batch < 2 ^ 31" "kek \<noteq> []" "kek \<noteq> KeyID (Active (svc_ring svc))"
    and "Provider (svc_ring svc) kek = Inr from"
  shows "\<exists>r t. RewrapAll (Some TransitRewrap) (Some (svc_ring svc)) rnd kek batch s = Some (r, t) \<and> transit_ok t
    \<and> (\<forall>rep. r = Inr rep \<longrightarrow> kek \<notin> tvn_kek ` set (transit_versions t))
    \<and> (\<forall>tu pr raw x u. TransitDecrypt svc tu pr raw s = (Inr x, u) \<longrightarrow> TransitDecrypt svc tu pr raw t = (Inr x, t))"
proof -
  from transit_rewrap_pass [OF assms, of rnd] obtain r t where
    r: "RewrapAll (Some TransitRewrap) (Some (svc_ring svc)) rnd kek batch s = Some (r, t)" "transit_ok t"
      "only_rewrapped_tv svc s t" "\<forall>rep. r = Inr rep \<longrightarrow> transit_pending kek t = []" by blast
  then show ?thesis
    using decrypt_serves [OF _ serves_only_rewrapped_tv [OF r(3)] assms(2)]
    by (intro exI [of _ r] exI [of _ t]) (auto simp: transit_pending_def filter_empty_conv)
qed

lemma transit_pass_runs:
  "(case RewrapAll (Some TransitRewrap) (Some rotated_ring) sample_rnd old_kek 100 stranded_db of
      Some (Inr rep, t) \<Rightarrow> Rewrapped rep = 1 | _ \<Rightarrow> False)"
  by code_simp

theorem transit_rewrap_keeps_tokens_witness:
  "\<exists>rep t. RewrapAll (Some TransitRewrap) (Some rotated_ring) sample_rnd old_kek 100 stranded_db = Some (Inr rep, t)
     \<and> old_kek \<notin> tvn_kek ` set (transit_versions t)
     \<and> TransitDecrypt rotated_svc ''tu'' ''web'' stranded_raw t = (Inr (bytes_of ''4111'', ''orders'', 1), t)"
proof -
  have ring: "svc_ring rotated_svc = rotated_ring" by (simp add: rotated_svc_def)
  have a: "old_kek \<noteq> []" by code_simp
  have b: "old_kek \<noteq> KeyID (Active (svc_ring rotated_svc))" by code_simp
  have c: "Provider (svc_ring rotated_svc) old_kek = Inr (aesKEK sample_prims ''env'' (replicate 32 9))"
    using keys_differ by (simp add: ring rotated_ring_def Provider_def)
  from transit_rewrap_keeps_tokens [OF stranded_ok(2) rotated_ring_ok _ a b c, of 100 sample_rnd] transit_pass_runs stranded_decrypts
  show ?thesis unfolding ring by (auto split: sum.splits)
qed

end
