(* ===== verification/Imports.thy ===== *)
theory Imports
  imports SecretLaws Decimals
begin

text \<open>
  Scope imports (\<open>internal/store/imports.go\<close> and the queries of \<open>scope_import.sql\<close>): one folder reads
  through to another's secrets. An edge is a row of \<open>scope_imports\<close>; \<open>CreateImport\<close> refuses an edge
  that would close a cycle, and \<open>ResolveImportChain\<close> flattens the edges of a folder breadth-first.

  The rows carry the joined columns of the listings. \<open>ListEnvironmentImports\<close> orders by the collation
  of the database, which is not modelled; neither is the metadata column, always the empty object here.
\<close>

section \<open>Queries\<close>

definition live_import :: "scope_import \<Rightarrow> bool" where
  "live_import i \<longleftrightarrow> i_deleted i = None"

record import_row =
  ir_edge :: scope_import
  ir_env_slug :: string
  ir_folder_path :: string
  ir_project_slug :: string

text \<open>The joins of the listing: the source environment, its project and the source folder.\<close>

definition join_import :: "db \<Rightarrow> scope_import \<Rightarrow> import_row option" where
  "join_import s i =
     (case find (\<lambda>e. e_id e = i_source_env i \<and> live_env e) (environments s) of
        None \<Rightarrow> None
      | Some e \<Rightarrow>
          (case find (\<lambda>p. p_id p = e_project e) (projects s) of
             None \<Rightarrow> None
           | Some p \<Rightarrow>
               (case find (\<lambda>f. f_id f = i_source i \<and> live_folder f) (folders s) of
                  None \<Rightarrow> None
                | Some f \<Rightarrow> Some \<lparr>ir_edge = i, ir_env_slug = e_slug e, ir_folder_path = f_path f,
                    ir_project_slug = p_slug p\<rparr>)))"

definition by_position :: "scope_import list \<Rightarrow> scope_import list" where
  "by_position is = sort_key i_position (sort_key (\<lambda>i. int (i_id i)) is)"

definition import_rows :: "nat \<Rightarrow> nat \<Rightarrow> db \<Rightarrow> import_row list" where
  "import_rows tid fid s = List.map_filter (join_import s)
     (by_position (filter (\<lambda>i. i_tenant i = tid \<and> i_folder i = fid \<and> live_import i \<and> i_enabled i) (scope_imports s)))"

definition ListScopeImportsByTarget :: "nat \<Rightarrow> nat \<Rightarrow> import_row list query" where
  "ListScopeImportsByTarget tid fid = q_many (import_rows tid fid)"

definition uq_imports :: "scope_import list \<Rightarrow> bool" where
  "uq_imports is \<longleftrightarrow> distinct (map i_uuid is)
     \<and> distinct (map (\<lambda>i. (i_folder i, i_source i)) (filter live_import is))"

definition imports_error :: "scope_import list \<Rightarrow> dberr option" where
  "imports_error is =
     (if \<exists>i \<in> set is. i_folder i = i_source i then Some (CheckViolation ''chk_scope_imports_not_self'')
      else if \<not> uq_imports is then Some UniqueViolation else None)"

definition CreateScopeImport ::
    "nat \<Rightarrow> nat \<Rightarrow> nat \<Rightarrow> nat \<Rightarrow> nat \<Rightarrow> int \<Rightarrow> bool \<Rightarrow> scope_import query" where
  "CreateScopeImport tid eid fid seid sfid position enabled = (\<lambda>s.
     let i = \<lparr>i_id = seq s, i_uuid = uuid_at s (seq s), i_tenant = tid, i_env = eid, i_folder = fid,
           i_source_env = seid, i_source = sfid, i_position = position, i_enabled = enabled,
           i_created = db_now s, i_updated = db_now s, i_deleted = None\<rparr>;
         is = scope_imports s @ [i]
     in q_exec (case imports_error is of
            Some e \<Rightarrow> Some e
          | None \<Rightarrow> if tid \<notin> t_id ` set (tenants s) \<or> eid \<notin> e_id ` set (environments s)
                \<or> seid \<notin> e_id ` set (environments s) \<or> fid \<notin> f_id ` set (folders s) \<or> sfid \<notin> f_id ` set (folders s)
              then Some ForeignKeyViolation else None)
          (s\<lparr>scope_imports := is, seq := Suc (seq s)\<rparr>) i s)"

definition SetScopeImportEnabled :: "bool \<Rightarrow> int \<Rightarrow> nat \<Rightarrow> uuid \<Rightarrow> scope_import query" where
  "SetScopeImportEnabled enabled position tid u = (\<lambda>s.
     let P = (\<lambda>i. i_tenant i = tid \<and> i_uuid i = u \<and> live_import i);
         f = (\<lambda>i. i\<lparr>i_enabled := enabled, i_position := position, i_updated := db_now s\<rparr>);
         is = updating P f (scope_imports s)
     in (case filter P (scope_imports s) of
           [] \<Rightarrow> (Inl NoRows, s)
         | i # _ \<Rightarrow> q_exec (imports_error is) (s\<lparr>scope_imports := is\<rparr>) (f i) s))"

definition SoftDeleteScopeImport :: "nat \<Rightarrow> uuid \<Rightarrow> nat query" where
  "SoftDeleteScopeImport tid u = (\<lambda>s.
     let P = (\<lambda>i. i_tenant i = tid \<and> i_uuid i = u \<and> live_import i) in
     (Inr (length (filter P (scope_imports s))),
      s\<lparr>scope_imports := updating P (\<lambda>i. i\<lparr>i_deleted := Some (db_now s), i_updated := db_now s\<rparr>) (scope_imports s)\<rparr>))"

section \<open>Operations\<close>

definition maxImportDepth :: nat where "maxImportDepth = 8"

record folder_scope =
  fs_scope :: scope
  fs_folder :: folder

definition resolveFolder :: "uuid \<Rightarrow> string \<Rightarrow> string \<Rightarrow> string \<Rightarrow> folder_scope op" where
  "resolveFolder tenantUUID project environment normalizedPath =
     bindM (resolveEnvironment tenantUUID project environment) (\<lambda>sc.
     bindM (mapErr (mapReadError ''folder'') (folder_at sc normalizedPath)) (\<lambda>folder.
     ret \<lparr>fs_scope = sc, fs_folder = folder\<rparr>))"

text \<open>
  The walk of \<open>assertNoImportCycle\<close>. The state of the loops is the visited set, the next frontier and
  the path so far; the row loop and the frontier loop are structural, the depth loop counts the rounds left.
\<close>

type_synonym walk = "nat set \<times> nat list \<times> nat list"

definition cycle_message :: "import_row \<Rightarrow> string" where
  "cycle_message r = ''this import would create a cycle: '' @ ir_project_slug r @ ''/'' @ ir_env_slug r
     @ ir_folder_path r @ '' already imports the scope you are importing into''"

fun cycle_rows :: "nat \<Rightarrow> import_row list \<Rightarrow> walk \<Rightarrow> apperr + walk" where
  "cycle_rows target [] w = Inr w"
| "cycle_rows target (r # rs) (visited, next, path) =
     (let src = i_source (ir_edge r) in
      if src = target then Inl (ValidationError (Msg (cycle_message r)))
      else if src \<in> visited then cycle_rows target rs (visited, next, path)
      else cycle_rows target rs (insert src visited, next @ [src], path @ [src]))"

fun cycle_frontier :: "nat \<Rightarrow> nat \<Rightarrow> nat list \<Rightarrow> walk \<Rightarrow> walk op" where
  "cycle_frontier tid target [] w = ret w"
| "cycle_frontier tid target (current # rest) w =
     bindM (mapErr (\<lambda>e. InternalError ''check import cycle'' (DbCause e)) (ListScopeImportsByTarget tid current)) (\<lambda>rows.
     bindM (liftR (cycle_rows target rows w)) (\<lambda>w'.
     cycle_frontier tid target rest w'))"

fun cycle_levels :: "nat \<Rightarrow> nat \<Rightarrow> nat \<Rightarrow> nat set \<Rightarrow> nat list \<Rightarrow> nat list \<Rightarrow> nat list op" where
  "cycle_levels tid target 0 visited frontier path = ret path"
| "cycle_levels tid target (Suc n) visited frontier path =
     (if frontier = [] then ret path
      else bindM (cycle_frontier tid target frontier (visited, [], path)) (\<lambda>(visited', next, path').
        cycle_levels tid target n visited' next path'))"

definition assertNoImportCycle :: "nat \<Rightarrow> nat \<Rightarrow> nat \<Rightarrow> unit op" where
  "assertNoImportCycle tid source target =
     bindM (cycle_levels tid target (Suc maxImportDepth) {} [source] [source]) (\<lambda>path.
     if length path > maxImportDepth
     then fail (ValidationError (Msg (''the import chain reachable from this source is deeper than the ''
       @ FormatInt (int maxImportDepth) @ '' levels this service resolves'')))
     else ret ())"

record import_input =
  ci_tenant :: uuid
  ci_project :: string
  ci_environment :: string
  ci_folder :: string
  ci_source_project :: string
  ci_source_environment :: string
  ci_source_folder :: string
  ci_position :: int

record import_view =
  iv_uuid :: uuid
  iv_folder :: string
  iv_project :: string
  iv_environment :: string
  iv_source :: string
  iv_position :: int
  iv_enabled :: bool
  iv_created :: instant
  iv_updated :: instant

definition CreateImport :: "import_input \<Rightarrow> import_view op" where
  "CreateImport inp =
     bindM (liftR (checkPath (ci_folder inp))) (\<lambda>targetPath.
     bindM (liftR (checkPath (ci_source_folder inp))) (\<lambda>sourcePath.
     InTx (
       bindM (resolveFolder (ci_tenant inp) (ci_project inp) (ci_environment inp) targetPath) (\<lambda>target.
       bindM (resolveFolder (ci_tenant inp) (ci_source_project inp) (ci_source_environment inp) sourcePath) (\<lambda>source.
       bindM (guardM (f_id (fs_folder target) \<noteq> f_id (fs_folder source))
           (ValidationError (Msg ''a scope cannot import itself''))) (\<lambda>_.
       bindM (assertNoImportCycle (t_id (sc_tenant (fs_scope target))) (f_id (fs_folder source)) (f_id (fs_folder target))) (\<lambda>_.
       bindM (mapErr (mapWriteError ''scope import'' ''this scope already imports that one'')
           (CreateScopeImport (t_id (sc_tenant (fs_scope target))) (e_id (sc_env (fs_scope target))) (f_id (fs_folder target))
             (e_id (sc_env (fs_scope source))) (f_id (fs_folder source)) (ci_position inp) True)) (\<lambda>row.
       ret \<lparr>iv_uuid = i_uuid row, iv_folder = f_path (fs_folder target),
            iv_project = p_slug (sc_project (fs_scope source)), iv_environment = e_slug (sc_env (fs_scope source)),
            iv_source = f_path (fs_folder source), iv_position = i_position row, iv_enabled = i_enabled row,
            iv_created = i_created row, iv_updated = i_updated row\<rparr>))))))))"

definition row_view :: "string \<Rightarrow> import_row \<Rightarrow> import_view" where
  "row_view path r = \<lparr>iv_uuid = i_uuid (ir_edge r), iv_folder = path, iv_project = ir_project_slug r,
     iv_environment = ir_env_slug r, iv_source = ir_folder_path r, iv_position = i_position (ir_edge r),
     iv_enabled = i_enabled (ir_edge r), iv_created = i_created (ir_edge r), iv_updated = i_updated (ir_edge r)\<rparr>"

definition ListImports :: "uuid \<Rightarrow> string \<Rightarrow> string \<Rightarrow> string \<Rightarrow> import_view list op" where
  "ListImports tenantUUID project environment folderPath =
     bindM (liftR (checkPath folderPath)) (\<lambda>normalized.
     bindM (resolveFolder tenantUUID project environment normalized) (\<lambda>target.
     bindM (mapErr (\<lambda>e. InternalError ''list scope imports'' (DbCause e))
         (ListScopeImportsByTarget (t_id (sc_tenant (fs_scope target))) (f_id (fs_folder target)))) (\<lambda>rows.
     ret (map (row_view normalized) rows))))"

definition SetImportEnabled :: "uuid \<Rightarrow> uuid \<Rightarrow> bool \<Rightarrow> int \<Rightarrow> import_view op" where
  "SetImportEnabled tenantUUID importUUID enabled position =
     bindM (mapErr (mapReadError ''tenant'') (GetTenantByUUID tenantUUID)) (\<lambda>tenant.
     bindM (mapErr (mapReadError ''scope import'') (SetScopeImportEnabled enabled position (t_id tenant) importUUID)) (\<lambda>row.
     ret \<lparr>iv_uuid = i_uuid row, iv_folder = [], iv_project = [], iv_environment = [], iv_source = [],
          iv_position = i_position row, iv_enabled = i_enabled row, iv_created = i_created row, iv_updated = i_updated row\<rparr>))"

definition DeleteImport :: "uuid \<Rightarrow> uuid \<Rightarrow> unit op" where
  "DeleteImport tenantUUID importUUID =
     bindM (mapErr (mapReadError ''tenant'') (GetTenantByUUID tenantUUID)) (\<lambda>tenant.
     bindM (mapErr (\<lambda>e. InternalError ''delete scope import'' (DbCause e)) (SoftDeleteScopeImport (t_id tenant) importUUID)) (\<lambda>n.
     if n = 0 then fail (NotFoundError ''scope import'') else ret ()))"

section \<open>Resolution\<close>

record imported_source =
  is_project :: string
  is_environment :: string
  is_folder :: string
  is_id :: nat

definition source_of :: "import_row \<Rightarrow> imported_source" where
  "source_of r = \<lparr>is_project = ir_project_slug r, is_environment = ir_env_slug r, is_folder = ir_folder_path r,
     is_id = i_source (ir_edge r)\<rparr>"

fun chain_rows :: "import_row list \<Rightarrow> nat set \<times> nat list \<times> imported_source list \<Rightarrow> nat set \<times> nat list \<times> imported_source list" where
  "chain_rows [] w = w"
| "chain_rows (r # rs) (visited, next, out) =
     (let src = i_source (ir_edge r) in
      if src \<in> visited then chain_rows rs (visited, next, out)
      else chain_rows rs (insert src visited, next @ [src], out @ [source_of r]))"

fun chain_frontier :: "nat \<Rightarrow> nat list \<Rightarrow> nat set \<times> nat list \<times> imported_source list \<Rightarrow>
    (nat set \<times> nat list \<times> imported_source list) op" where
  "chain_frontier tid [] w = ret w"
| "chain_frontier tid (current # rest) w =
     bindM (mapErr (\<lambda>e. InternalError ''resolve import chain'' (DbCause e)) (ListScopeImportsByTarget tid current)) (\<lambda>rows.
     chain_frontier tid rest (chain_rows rows w))"

fun chain_levels :: "nat \<Rightarrow> nat \<Rightarrow> nat set \<Rightarrow> nat list \<Rightarrow> imported_source list \<Rightarrow> imported_source list op" where
  "chain_levels tid 0 visited frontier out = ret out"
| "chain_levels tid (Suc n) visited frontier out =
     (if frontier = [] then ret out
      else bindM (chain_frontier tid frontier (visited, [], out)) (\<lambda>(visited', next, out').
        chain_levels tid n visited' next out'))"

definition ResolveImportChain :: "nat \<Rightarrow> nat \<Rightarrow> imported_source list op" where
  "ResolveImportChain tid fid = chain_levels tid maxImportDepth {fid} [fid] []"

definition ImportChainFor :: "uuid \<Rightarrow> string \<Rightarrow> string \<Rightarrow> string \<Rightarrow> imported_source list op" where
  "ImportChainFor tenantUUID project environment folderPath =
     bindM (liftR (checkPath folderPath)) (\<lambda>normalized.
     bindM (resolveFolder tenantUUID project environment normalized) (\<lambda>target.
     ResolveImportChain (t_id (sc_tenant (fs_scope target))) (f_id (fs_folder target))))"

end
