(* ===== verification/ImportProps.thy ===== *)
theory ImportProps
  imports Imports SecretProps
begin

text \<open>
  The import graph of a store: the walk of \<open>assertNoImportCycle\<close> is complete whenever it accepts, so
  \<open>CreateImport\<close> keeps the graph acyclic; \<open>ResolveImportChain\<close> is an exact breadth-first search; and the
  one write that is not checked, re-enabling an edge, can close a cycle.
\<close>

section \<open>The graph\<close>

definition import_sources :: "nat \<Rightarrow> db \<Rightarrow> nat \<Rightarrow> nat list" where
  "import_sources tid s f = map (\<lambda>r. i_source (ir_edge r)) (import_rows tid f s)"

definition import_edges :: "nat \<Rightarrow> db \<Rightarrow> (nat \<times> nat) set" where
  "import_edges tid s = {(f, g). g \<in> set (import_sources tid s f)}"

lemma join_edge: "join_import s i = Some r \<Longrightarrow> ir_edge r = i"
  by (auto simp: join_import_def split: option.splits)

lemma set_map_filter_option: "set (List.map_filter f xs) = {y. \<exists>x \<in> set xs. f x = Some y}"
  by (force simp: List.map_filter_def)

lemma import_edges_iff: "(f, g) \<in> import_edges tid s \<longleftrightarrow>
    (\<exists>i \<in> set (scope_imports s). i_tenant i = tid \<and> i_folder i = f \<and> i_source i = g \<and> live_import i
       \<and> i_enabled i \<and> join_import s i \<noteq> None)"
  by (fastforce simp: import_edges_def import_sources_def import_rows_def set_map_filter_option by_position_def
      dest: join_edge)

lemma import_edges_Image: "import_edges tid s `` set fs = (\<Union>f \<in> set fs. set (import_sources tid s f))"
  by (auto simp: import_edges_def)

lemma join_import_cong:
  "environments t = environments s \<Longrightarrow> projects t = projects s \<Longrightarrow> folders t = folders s \<Longrightarrow>
   join_import t = join_import s"
  by (simp add: join_import_def fun_eq_iff cong: option.case_cong)

lemma import_edges_cong:
  assumes "environments t = environments s" "projects t = projects s" "folders t = folders s"
    and "scope_imports t = scope_imports s"
  shows "import_edges tid t = import_edges tid s"
  using join_import_cong [OF assms(1-3)] by (auto simp: import_edges_iff assms(4))

section \<open>The walk of the cycle check\<close>

definition walked :: "nat set \<Rightarrow> nat set \<Rightarrow> nat list \<Rightarrow> nat list \<Rightarrow> nat set \<Rightarrow> nat list \<Rightarrow> nat list \<Rightarrow> bool" where
  "walked A V N P V' N' P' \<longleftrightarrow> V' = V \<union> A \<and> (\<exists>new. N' = N @ new \<and> P' = P @ new \<and> distinct new \<and> set new = A - V)"

lemma walked_trans:
  assumes "walked A V N P V1 N1 P1" "walked B V1 N1 P1 V2 N2 P2"
  shows "walked (A \<union> B) V N P V2 N2 P2"
proof -
  obtain new1 where n1: "N1 = N @ new1" "P1 = P @ new1" "distinct new1" "set new1 = A - V" using assms(1) by (auto simp: walked_def)
  obtain new2 where n2: "N2 = N1 @ new2" "P2 = P1 @ new2" "distinct new2" "set new2 = B - V1" using assms(2) by (auto simp: walked_def)
  have V: "V1 = V \<union> A" "V2 = V1 \<union> B" using assms by (simp_all add: walked_def)
  have "distinct (new1 @ new2)" "set (new1 @ new2) = (A \<union> B) - V" using n1 n2 V by auto
  moreover have "V2 = V \<union> (A \<union> B)" using V by auto
  ultimately show ?thesis unfolding walked_def using n1 n2 by (intro conjI exI [of _ "new1 @ new2"]) simp_all
qed

lemma cycle_rows_ok:
  "cycle_rows target rs (V, N, P) = Inr (V', N', P') \<Longrightarrow>
   target \<notin> (\<lambda>r. i_source (ir_edge r)) ` set rs \<and> walked ((\<lambda>r. i_source (ir_edge r)) ` set rs) V N P V' N' P'"
proof (induction rs arbitrary: V N P)
  case (Cons r rs)
  let ?x = "i_source (ir_edge r)"
  have ne: "?x \<noteq> target" using Cons.prems by (auto simp: Let_def)
  show ?case
  proof (cases "?x \<in> V")
    case True
    with Cons.prems ne have "cycle_rows target rs (V, N, P) = Inr (V', N', P')" by (simp add: Let_def)
    from Cons.IH [OF this] have IH: "target \<notin> (\<lambda>r. i_source (ir_edge r)) ` set rs"
      "walked ((\<lambda>r. i_source (ir_edge r)) ` set rs) V N P V' N' P'" by blast+
    have "walked {?x} V N P V N P" using True by (auto simp: walked_def)
    from walked_trans [OF this IH(2)] IH(1) ne show ?thesis by simp
  next
    case False
    with Cons.prems ne have "cycle_rows target rs (insert ?x V, N @ [?x], P @ [?x]) = Inr (V', N', P')" by (simp add: Let_def)
    from Cons.IH [OF this] have IH: "target \<notin> (\<lambda>r. i_source (ir_edge r)) ` set rs"
      "walked ((\<lambda>r. i_source (ir_edge r)) ` set rs) (insert ?x V) (N @ [?x]) (P @ [?x]) V' N' P'" by blast+
    have "walked {?x} V N P (insert ?x V) (N @ [?x]) (P @ [?x])"
      unfolding walked_def using False by (intro conjI exI [of _ "[?x]"]) auto
    from walked_trans [OF this IH(2)] IH(1) ne show ?thesis by simp
  qed
qed (auto simp: walked_def)

lemma cycle_frontier_ok:
  "cycle_frontier tid target fs (V, N, P) s = (Inr (V', N', P'), t) \<Longrightarrow>
   t = s \<and> target \<notin> import_edges tid s `` set fs \<and> walked (import_edges tid s `` set fs) V N P V' N' P'"
proof (induction fs arbitrary: V N P)
  case (Cons f fs)
  obtain w where w: "cycle_rows target (import_rows tid f s) (V, N, P) = Inr w"
      "cycle_frontier tid target fs w s = (Inr (V', N', P'), t)"
    using Cons.prems by (auto simp: run_ok q_many_def ListScopeImportsByTarget_def)
  obtain V1 N1 P1 where e: "w = (V1, N1, P1)" by (cases w) auto
  have im: "import_edges tid s `` set (f # fs)
      = (\<lambda>r. i_source (ir_edge r)) ` set (import_rows tid f s) \<union> import_edges tid s `` set fs"
    by (auto simp: import_edges_def import_sources_def)
  note r = cycle_rows_ok [OF w(1) [unfolded e]] and IH = Cons.IH [OF w(2) [unfolded e]]
  have "walked ((\<lambda>r. i_source (ir_edge r)) ` set (import_rows tid f s)) V N P V1 N1 P1"
      "walked (import_edges tid s `` set fs) V1 N1 P1 V' N' P'"
    using r IH by blast+
  from walked_trans [OF this] r IH show ?case unfolding im by blast
qed (auto simp: run_ok walked_def)

text \<open>What the levels maintain: everything visited is not the target, and only the frontier is unexplored.\<close>

definition explored :: "(nat \<times> nat) set \<Rightarrow> nat \<Rightarrow> nat \<Rightarrow> nat set \<Rightarrow> nat list \<Rightarrow> bool" where
  "explored E source target V F \<longleftrightarrow> target \<notin> V \<and> E `` (insert source V - set F) \<subseteq> V"

lemma explored_closed: "explored E source target V [] \<Longrightarrow> (source, target) \<notin> E\<^sup>+"
proof
  assume ex: "explored E source target V []" and "(source, target) \<in> E\<^sup>+"
  have "g \<in> V" if "(source, g) \<in> E\<^sup>+" for g
    using that by induction (use ex in \<open>auto simp: explored_def\<close>)
  with \<open>(source, target) \<in> E\<^sup>+\<close> ex show False by (auto simp: explored_def)
qed

lemma cycle_levels_ok:
  "cycle_levels tid target n V F P s = (Inr P', t) \<Longrightarrow> explored (import_edges tid s) source target V F \<Longrightarrow>
   t = s \<and> ((source, target) \<notin> (import_edges tid s)\<^sup>+ \<or> length P + n \<le> length P' \<and> F \<noteq> [] \<or> n = 0)"
proof (induction n arbitrary: V F P)
  case (Suc n)
  let ?E = "import_edges tid s"
  show ?case
  proof (cases "F = []")
    case True
    with Suc.prems explored_closed show ?thesis by (auto simp: run_ok)
  next
    case False
    with Suc.prems(1) obtain V1 N1 P1 u where f: "cycle_frontier tid target F (V, [], P) s = (Inr (V1, N1, P1), u)"
        "cycle_levels tid target n V1 N1 P1 u = (Inr P', t)"
      by (auto simp: run_ok)
    from cycle_frontier_ok [OF f(1)] have r: "u = s" "target \<notin> ?E `` set F" "V1 = V \<union> ?E `` set F"
        "P1 = P @ N1" "distinct N1" "set N1 = ?E `` set F - V" by (auto simp: walked_def)
    have ex: "explored ?E source target V1 N1"
      using Suc.prems(2) r(2,3,6) unfolding explored_def by blast
    from Suc.IH [OF f(2) [unfolded r(1)] ex]
    have IH: "t = s" "(source, target) \<notin> ?E\<^sup>+ \<or> length P1 + n \<le> length P' \<and> N1 \<noteq> [] \<or> n = 0" by auto
    show ?thesis
    proof (cases "N1 = []")
      case True
      with ex explored_closed IH(1) show ?thesis by auto
    next
      case ne: False
      then have "length P + 1 \<le> length P1" using r(4) by (cases N1) auto
      moreover have "length P1 \<le> length P'" if "n = 0" using f(2) that by (simp add: run_ok)
      ultimately show ?thesis using IH False by auto
    qed
  qed
qed (auto simp: run_ok)

lemma assertNoImportCycle_ok:
  assumes "assertNoImportCycle tid source target s = (Inr u, t)"
  shows "t = s" "(source, target) \<notin> (import_edges tid s)\<^sup>+"
proof -
  obtain path where p: "cycle_levels tid target (Suc maxImportDepth) {} [source] [source] s = (Inr path, t)"
      "length path \<le> maxImportDepth"
    using assms by (auto simp: assertNoImportCycle_def run_ok split: if_splits)
  have "explored (import_edges tid s) source target {} [source]" by (simp add: explored_def)
  from cycle_levels_ok [OF p(1) this] p(2)
  show "t = s" "(source, target) \<notin> (import_edges tid s)\<^sup>+" by auto
qed

section \<open>No operation but re-enabling closes a cycle\<close>

lemma CreateScopeImport_edges:
  assumes "CreateScopeImport tid eid fid seid sfid pos en s = (Inr i, t)"
  shows "import_edges tid' t \<subseteq> (if tid' = tid then insert (fid, sfid) (import_edges tid' s) else import_edges tid' s)"
    "fid \<noteq> sfid"
proof -
  have t: "t = s\<lparr>scope_imports := scope_imports s @ [i], seq := Suc (seq s)\<rparr>" "i_tenant i = tid" "i_folder i = fid"
      "i_source i = sfid" "imports_error (scope_imports s @ [i]) = None"
    using assms by (auto simp: CreateScopeImport_def Let_def q_exec_ok split: option.splits)
  have "join_import t = join_import s" by (rule join_import_cong) (simp_all add: t(1))
  then show "import_edges tid' t \<subseteq> (if tid' = tid then insert (fid, sfid) (import_edges tid' s) else import_edges tid' s)"
    using t(2-4) by (auto simp: import_edges_iff t(1))
  show "fid \<noteq> sfid" using t(3-5) by (auto simp: imports_error_def split: if_splits)
qed

lemma pure_ListScopeImports [intro!, simp, pure_rules]: "pure_op (ListScopeImportsByTarget tid fid)"
  by (simp add: ListScopeImportsByTarget_def)

lemma pure_resolveFolder [intro!, simp, pure_rules]: "pure_op (resolveFolder tu pr en p)"
  by (auto simp: resolveFolder_def)

lemma assert_run: "assertNoImportCycle a b c s = (Inr u, t) \<longleftrightarrow> t = s \<and> fst (assertNoImportCycle a b c s) = Inr u"
  using assertNoImportCycle_ok(1) by (cases "assertNoImportCycle a b c s") auto

lemma create_import_steps:
  assumes "CreateImport inp s = (Inr v, t)"
  shows "\<exists>(tgt :: folder_scope) (src :: folder_scope) row u. fst (assertNoImportCycle (t_id (sc_tenant (fs_scope tgt))) (f_id (fs_folder src)) (f_id (fs_folder tgt))
        (s\<lparr>guc_delete := [], guc_rewrap := [], guc_transit := []\<rparr>)) = Inr ()
     \<and> CreateScopeImport (t_id (sc_tenant (fs_scope tgt))) (e_id (sc_env (fs_scope tgt))) (f_id (fs_folder tgt))
             (e_id (sc_env (fs_scope src))) (f_id (fs_folder src)) (ci_position inp) True
        (s\<lparr>guc_delete := [], guc_rewrap := [], guc_transit := []\<rparr>) = (Inr row, u)
     \<and> t = u\<lparr>guc_delete := guc_delete s, guc_rewrap := guc_rewrap s, guc_transit := guc_transit s\<rparr>"
  using assms unfolding CreateImport_def
  by (auto simp: run_ok InTx_ok pure_run [OF pure_resolveFolder] assert_run)

text \<open>
  C29: an import never closes a cycle: when \<open>CreateImport\<close> accepts an edge, the target was not reachable
  from the source over the enabled imports, so a store whose import graphs are acyclic keeps them
  acyclic, for every tenant. The bound of the walk costs nothing: a walk that runs out of levels has
  collected more folders than the check admits.
\<close>

theorem create_import_acyclic:
  assumes "CreateImport inp s = (Inr v, t)" "\<forall>tid. acyclic (import_edges tid s)"
  shows "acyclic (import_edges tid t)"
proof -
  let ?u = "s\<lparr>guc_delete := [], guc_rewrap := [], guc_transit := []\<rparr>"
  obtain tgt src :: folder_scope and row u where r: "assertNoImportCycle (t_id (sc_tenant (fs_scope tgt))) (f_id (fs_folder src)) (f_id (fs_folder tgt)) ?u
        = (Inr (), ?u)"
      "CreateScopeImport (t_id (sc_tenant (fs_scope tgt))) (e_id (sc_env (fs_scope tgt))) (f_id (fs_folder tgt))
             (e_id (sc_env (fs_scope src))) (f_id (fs_folder src)) (ci_position inp) True ?u = (Inr row, u)"
      "t = u\<lparr>guc_delete := guc_delete s, guc_rewrap := guc_rewrap s, guc_transit := guc_transit s\<rparr>"
    using create_import_steps [OF assms(1)] by (auto simp: assert_run)
  let ?E = "import_edges tid"
  have t: "?E t = ?E u" and u: "?E ?u = ?E s" by (rule import_edges_cong; simp add: r(3))+
  have sub: "?E t \<subseteq> (if tid = t_id (sc_tenant (fs_scope tgt)) then insert (f_id (fs_folder tgt), f_id (fs_folder src)) (?E s) else ?E s)"
    using CreateScopeImport_edges(1) [OF r(2), of tid] unfolding t u .
  show ?thesis
  proof (cases "tid = t_id (sc_tenant (fs_scope tgt))")
    case True
    have "(f_id (fs_folder src), f_id (fs_folder tgt)) \<notin> (?E s)\<^sup>+"
      using assertNoImportCycle_ok(2) [OF r(1)] u True by simp
    then have "(f_id (fs_folder src), f_id (fs_folder tgt)) \<notin> (?E s)\<^sup>*"
      using CreateScopeImport_edges(2) [OF r(2)] by (auto simp: rtrancl_eq_or_trancl)
    then have "acyclic (insert (f_id (fs_folder tgt), f_id (fs_folder src)) (?E s))"
      using assms(2) by (simp add: acyclic_insert)
    with sub True show ?thesis by (auto intro: acyclic_subset)
  next
    case False
    with sub assms(2) show ?thesis by (auto intro: acyclic_subset)
  qed
qed

text \<open>The sample store with three folders beside the root, and two imports in a row.\<close>

definition folder_row :: "nat \<Rightarrow> string \<Rightarrow> folder" where
  "folder_row n name = \<lparr>f_id = n, f_uuid = name, f_env = 3, f_parent = Some 4, f_name = name, f_path = CHR ''/'' # name,
     f_deleted = None\<rparr>"

definition folders_db :: db where
  "folders_db = sample_db\<lparr>folders := folders sample_db @ [folder_row 5 ''a'', folder_row 6 ''b'', folder_row 7 ''c''], seq := 8\<rparr>"

definition import_of :: "string \<Rightarrow> string \<Rightarrow> import_input" where
  "import_of target source = \<lparr>ci_tenant = ''tu'', ci_project = ''web'', ci_environment = ''prod'', ci_folder = target,
     ci_source_project = ''web'', ci_source_environment = ''prod'', ci_source_folder = source, ci_position = 0\<rparr>"

definition imported_db :: db where
  "imported_db = snd (CreateImport (import_of ''/a'' ''/b'') folders_db)"

lemma folders_acyclic: "\<forall>tid. acyclic (import_edges tid folders_db)"
  by (auto simp: acyclic_def import_edges_def import_sources_def import_rows_def folders_db_def sample_db_def
      by_position_def List.map_filter_def)

lemma imports_run:
  "(case fst (CreateImport (import_of ''/a'' ''/b'') folders_db) of Inl e \<Rightarrow> False | Inr v \<Rightarrow> True)
   \<and> (case fst (CreateImport (import_of ''/b'' ''/a'') imported_db) of Inl e \<Rightarrow> True | Inr v \<Rightarrow> False)"
  by code_simp

theorem create_import_acyclic_witness:
  "acyclic (import_edges 1 imported_db) \<and> imported_db \<noteq> folders_db"
proof -
  obtain v where v: "CreateImport (import_of ''/a'' ''/b'') folders_db = (Inr v, imported_db)"
    using imports_run by (cases "CreateImport (import_of ''/a'' ''/b'') folders_db") (auto simp: imported_db_def split: sum.splits)
  have "seq imported_db = 9 \<and> seq folders_db = 8" by code_simp
  with create_import_acyclic [OF v folders_acyclic] show ?thesis by auto
qed

text \<open>An edge is disabled, the opposite edge is created, and the first one is enabled again.\<close>

definition first_edge :: uuid where "first_edge = uuid_at sample_db 8"

definition disabled_db :: db where
  "disabled_db = snd (SetImportEnabled ''tu'' first_edge False 0 imported_db)"

definition opposite_db :: db where
  "opposite_db = snd (CreateImport (import_of ''/b'' ''/a'') disabled_db)"

definition reenabled_db :: db where
  "reenabled_db = snd (SetImportEnabled ''tu'' first_edge True 0 opposite_db)"

lemma reenabled_runs:
  "succeeds (fst (SetImportEnabled ''tu'' first_edge False 0 imported_db))
   \<and> succeeds (fst (CreateImport (import_of ''/b'' ''/a'') disabled_db))
   \<and> succeeds (fst (SetImportEnabled ''tu'' first_edge True 0 opposite_db))
   \<and> import_sources 1 reenabled_db 5 = [6] \<and> import_sources 1 reenabled_db 6 = [5]"
  by code_simp

text \<open>
  C37: what \<open>CreateImport\<close> refuses, \<open>SetImportEnabled\<close> lets through: the cycle check reads the enabled
  edges only, and enabling one runs no check. With \<open>a\<close> importing \<open>b\<close> disabled, \<open>b\<close> may import \<open>a\<close>, and
  enabling the first edge again succeeds and leaves a cycle of two imports, although the direct request
  to create the second one is refused while the first is enabled.
\<close>

theorem reenabling_closes_cycle:
  "succeeds (fst (SetImportEnabled ''tu'' first_edge True 0 opposite_db))
   \<and> \<not> succeeds (fst (CreateImport (import_of ''/b'' ''/a'') imported_db))
   \<and> acyclic (import_edges 1 opposite_db) \<and> \<not> acyclic (import_edges 1 reenabled_db)"
proof -
  obtain v where v: "CreateImport (import_of ''/a'' ''/b'') folders_db = (Inr v, imported_db)"
    using imports_run by (cases "CreateImport (import_of ''/a'' ''/b'') folders_db") (auto simp: imported_db_def split: sum.splits)
  have one: "scope_imports opposite_db \<noteq> [] \<and> map i_enabled (scope_imports opposite_db) = [False, True]
      \<and> map i_folder (scope_imports opposite_db) = [5, 6] \<and> map i_source (scope_imports opposite_db) = [6, 5]" by code_simp
  have "import_edges 1 opposite_db \<subseteq> {(6, 5)}"
  proof (clarsimp simp: import_edges_iff)
    fix i y
    assume i: "i \<in> set (scope_imports opposite_db)" "i_enabled i"
    obtain i1 i2 where "scope_imports opposite_db = [i1, i2]" using one by (auto simp: length_Suc_conv map_eq_Cons_conv)
    with one i show "i_folder i = 6 \<and> i_source i = 5" by auto
  qed
  moreover have "acyclic {(6 :: nat, 5 :: nat)}" by (simp add: acyclic_insert) (simp add: acyclic_def)
  ultimately have "acyclic (import_edges 1 opposite_db)" by (rule acyclic_subset [rotated])
  moreover have "(5, 6) \<in> import_edges 1 reenabled_db" "(6, 5) \<in> import_edges 1 reenabled_db"
    using reenabled_runs by (simp_all add: import_edges_def)
  then have "(5, 5) \<in> (import_edges 1 reenabled_db)\<^sup>+" by (meson trancl.intros)
  then have "\<not> acyclic (import_edges 1 reenabled_db)" by (auto simp: acyclic_def)
  moreover have "\<not> succeeds (fst (CreateImport (import_of ''/b'' ''/a'') imported_db))"
    using imports_run by (auto simp: succeeds_def split: sum.splits)
  ultimately show ?thesis using reenabled_runs by blast
qed

section \<open>Resolution is breadth-first\<close>

text \<open>\<open>at_distance E f k\<close>: the folders whose shortest import path from \<open>f\<close> has \<open>k\<close> edges.\<close>

definition within :: "(nat \<times> nat) set \<Rightarrow> nat \<Rightarrow> nat \<Rightarrow> nat set" where
  "within E f k = {g. \<exists>j \<le> k. (f, g) \<in> E ^^ j}"

definition at_distance :: "(nat \<times> nat) set \<Rightarrow> nat \<Rightarrow> nat \<Rightarrow> nat set" where
  "at_distance E f k = {g. (f, g) \<in> E ^^ k \<and> (\<forall>j < k. (f, g) \<notin> E ^^ j)}"

lemma within_Suc: "within E f (Suc k) = within E f k \<union> E `` at_distance E f k"
proof (intro equalityI subsetI)
  fix g assume "g \<in> within E f (Suc k)"
  then obtain j where j: "j \<le> Suc k" "(f, g) \<in> E ^^ j" by (auto simp: within_def)
  show "g \<in> within E f k \<union> E `` at_distance E f k"
  proof (cases "j \<le> k")
    case True
    with j show ?thesis by (auto simp: within_def)
  next
    case False
    with j have jk: "(f, g) \<in> E ^^ Suc k" using le_Suc_eq by auto
    then obtain h where h: "(f, h) \<in> E ^^ k" "(h, g) \<in> E" by auto
    show ?thesis
    proof (cases "h \<in> at_distance E f k")
      case False
      then obtain i where i: "i < k" "(f, h) \<in> E ^^ i" using h(1) by (auto simp: at_distance_def)
      then have "(f, g) \<in> E ^^ Suc i" using h(2) by auto
      then show ?thesis using i(1) by (auto simp: within_def intro!: exI [of _ "Suc i"])
    qed (use h in auto)
  qed
next
  fix g assume "g \<in> within E f k \<union> E `` at_distance E f k"
  then show "g \<in> within E f (Suc k)"
  proof
    assume "g \<in> within E f k" then show ?thesis unfolding within_def using le_SucI by blast
  next
    assume "g \<in> E `` at_distance E f k"
    then have "(f, g) \<in> E ^^ Suc k" by (auto simp: at_distance_def)
    then show ?thesis unfolding within_def by blast
  qed
qed

lemma at_distance_Suc: "at_distance E f (Suc k) = within E f (Suc k) - within E f k"
proof -
  have "within E f (Suc k) = within E f k \<union> {g. (f, g) \<in> E ^^ Suc k}"
    unfolding within_def using le_Suc_eq by blast
  moreover have "at_distance E f (Suc k) = {g. (f, g) \<in> E ^^ Suc k} - within E f k"
    unfolding at_distance_def within_def less_Suc_eq_le by blast
  ultimately show ?thesis by blast
qed

lemma at_distance_step: "at_distance E f (Suc k) = E `` at_distance E f k - within E f k"
  by (auto simp: at_distance_Suc within_Suc)

definition collected :: "nat \<Rightarrow> db \<Rightarrow> nat set \<Rightarrow> imported_source list \<Rightarrow> bool" where
  "collected tid s A ys \<longleftrightarrow> distinct (map is_id ys) \<and> set (map is_id ys) = A
     \<and> (\<forall>y \<in> set ys. \<exists>h. \<exists>r \<in> set (import_rows tid h s). y = source_of r)"

lemma collected_append:
  "collected tid s A xs \<Longrightarrow> collected tid s B ys \<Longrightarrow> A \<inter> B = {} \<Longrightarrow> collected tid s (A \<union> B) (xs @ ys)"
  by (auto simp: collected_def)

lemma chain_rows_spec:
  "set rs \<subseteq> set (import_rows tid h s) \<Longrightarrow> \<exists>new. chain_rows rs (V, N, out)
     = (V \<union> (\<lambda>r. i_source (ir_edge r)) ` set rs, N @ map is_id new, out @ new)
     \<and> collected tid s ((\<lambda>r. i_source (ir_edge r)) ` set rs - V) new"
proof (induction rs arbitrary: V N out)
  case (Cons r rs)
  let ?x = "i_source (ir_edge r)" and ?S = "(\<lambda>r. i_source (ir_edge r)) ` set rs"
  show ?case
  proof (cases "?x \<in> V")
    case True
    have "?S - V = (\<lambda>r. i_source (ir_edge r)) ` set (r # rs) - V" "V \<union> ?S = V \<union> (\<lambda>r. i_source (ir_edge r)) ` set (r # rs)"
      using True by auto
    moreover have "chain_rows (r # rs) (V, N, out) = chain_rows rs (V, N, out)" using True by (simp add: Let_def)
    moreover have "set rs \<subseteq> set (import_rows tid h s)" using Cons.prems by simp
    ultimately show ?thesis using Cons.IH [of V N out] by (simp only:)
  next
    case False
    have "set rs \<subseteq> set (import_rows tid h s)" using Cons.prems by simp
    from Cons.IH [OF this, of "insert ?x V" "N @ [?x]" "out @ [source_of r]"] obtain new where new: "chain_rows rs (insert ?x V, N @ [?x], out @ [source_of r])
        = (insert ?x V \<union> ?S, (N @ [?x]) @ map is_id new, (out @ [source_of r]) @ new)"
        "collected tid s (?S - insert ?x V) new"
      by blast
    have "collected tid s {?x} [source_of r]" using Cons.prems by (auto simp: collected_def source_of_def)
    from collected_append [OF this new(2)] have "collected tid s ({?x} \<union> (?S - insert ?x V)) (source_of r # new)" by simp
    moreover have "{?x} \<union> (?S - insert ?x V) = (\<lambda>r. i_source (ir_edge r)) ` set (r # rs) - V" using False by auto
    ultimately show ?thesis using False new(1)
      by (intro exI [of _ "source_of r # new"]) (simp add: Let_def source_of_def)
  qed
qed (auto simp: collected_def)

lemma chain_frontier_spec:
  "\<exists>new. chain_frontier tid fs (V, N, out) s
     = (Inr (V \<union> import_edges tid s `` set fs, N @ map is_id new, out @ new), s)
     \<and> collected tid s (import_edges tid s `` set fs - V) new"
proof (induction fs arbitrary: V N out)
  case (Cons f fs)
  let ?S = "(\<lambda>r. i_source (ir_edge r)) ` set (import_rows tid f s)" and ?B = "import_edges tid s `` set fs"
  obtain n1 where n1: "chain_rows (import_rows tid f s) (V, N, out) = (V \<union> ?S, N @ map is_id n1, out @ n1)"
      "collected tid s (?S - V) n1"
    using chain_rows_spec [OF subset_refl] by blast
  obtain n2 where n2: "chain_frontier tid fs (V \<union> ?S, N @ map is_id n1, out @ n1) s
        = (Inr (V \<union> ?S \<union> ?B, (N @ map is_id n1) @ map is_id n2, (out @ n1) @ n2), s)"
      "collected tid s (?B - (V \<union> ?S)) n2"
    using Cons.IH by blast
  have im: "import_edges tid s `` set (f # fs) = ?S \<union> ?B" by (auto simp: import_edges_def import_sources_def)
  have "collected tid s ((?S - V) \<union> (?B - (V \<union> ?S))) (n1 @ n2)" by (rule collected_append [OF n1(2) n2(2)]) blast
  moreover have "(?S - V) \<union> (?B - (V \<union> ?S)) = import_edges tid s `` set (f # fs) - V" unfolding im by blast
  moreover have "chain_frontier tid (f # fs) (V, N, out) s
      = chain_frontier tid fs (chain_rows (import_rows tid f s) (V, N, out)) s"
    by (simp add: bindM_def mapErr_def ListScopeImportsByTarget_def q_many_def)
  ultimately show ?case unfolding im using n1(1) n2(1) by (intro exI [of _ "n1 @ n2"]) (simp add: Un_assoc)
qed (auto simp: ret_def collected_def)

lemma chain_levels_spec:
  assumes "V = within (import_edges tid s) f k" "set F = at_distance (import_edges tid s) f k"
  shows "\<exists>L. chain_levels tid n V F out s = (Inr (out @ concat (map L [Suc k..<Suc k + n])), s)
     \<and> (\<forall>j \<in> {Suc k..<Suc k + n}. collected tid s (at_distance (import_edges tid s) f j) (L j))"
  using assms
proof (induction n arbitrary: V F out k)
  case (Suc n)
  let ?E = "import_edges tid s"
  show ?case
  proof (cases "F = []")
    case True
    have "at_distance ?E f (k + j) = {}" for j
      using True Suc.prems(2) by (induction j) (simp_all add: at_distance_step)
    then have "collected tid s (at_distance ?E f j) []" if "k < j" for j
      using that by (metis collected_def empty_set le_add_diff_inverse less_imp_le list.simps(8) distinct.simps(1) empty_iff)
    with True show ?thesis by (intro exI [of _ "\<lambda>_. []"]) (auto simp: ret_def)
  next
    case False
    obtain new where new: "chain_frontier tid F (V, [], out) s
        = (Inr (V \<union> ?E `` set F, [] @ map is_id new, out @ new), s)" "collected tid s (?E `` set F - V) new"
      using chain_frontier_spec by blast
    have d: "?E `` set F - V = at_distance ?E f (Suc k)" unfolding Suc.prems at_distance_step ..
    have "V \<union> ?E `` set F = within ?E f (Suc k)" unfolding Suc.prems within_Suc ..
    moreover have "set (map is_id new) = at_distance ?E f (Suc k)" using new(2) unfolding d collected_def by simp
    ultimately obtain L where L: "chain_levels tid n (V \<union> ?E `` set F) (map is_id new) (out @ new) s
        = (Inr ((out @ new) @ concat (map L [Suc (Suc k)..<Suc (Suc k) + n])), s)"
        "\<forall>j \<in> {Suc (Suc k)..<Suc (Suc k) + n}. collected tid s (at_distance ?E f j) (L j)"
      using Suc.IH by blast
    let ?L = "L(Suc k := new)"
    have "map ?L [Suc k..<Suc k + Suc n] = new # map L [Suc (Suc k)..<Suc (Suc k) + n]"
      by (subst upt_conv_Cons) (auto intro!: map_cong simp del: upt_Suc)
    then have "out @ concat (map ?L [Suc k..<Suc k + Suc n]) = (out @ new) @ concat (map L [Suc (Suc k)..<Suc (Suc k) + n])"
      by (simp only: concat.simps append_assoc)
    moreover have "\<forall>j \<in> {Suc k..<Suc k + Suc n}. collected tid s (at_distance ?E f j) (?L j)"
      using new(2) L(2) unfolding d by auto
    moreover have "chain_levels tid (Suc n) V F out s = chain_levels tid n (V \<union> ?E `` set F) (map is_id new) (out @ new) s"
      using False new(1) by (simp add: bindM_def)
    ultimately show ?thesis using L(1) by (intro exI [of _ ?L] conjI) (simp_all only:)
  qed
qed (auto simp: ret_def)

text \<open>
  C30: \<open>ResolveImportChain\<close> always returns, also on a cyclic graph, changes nothing, and is exactly the
  breadth-first order the code promises: the list is the concatenation, for the distances 1 to 8, of
  the folders at that distance, each folder once, every entry carrying the names of an edge that leads
  to it; so each direct import comes before any indirect one and a diamond is consulted once.
\<close>

theorem resolve_chain_breadth_first:
  "\<exists>L. ResolveImportChain tid f s = (Inr (concat (map L [1..<Suc maxImportDepth])), s)
     \<and> (\<forall>k \<in> {1..<Suc maxImportDepth}. distinct (map is_id (L k))
          \<and> is_id ` set (L k) = at_distance (import_edges tid s) f k
          \<and> (\<forall>y \<in> set (L k). \<exists>h. \<exists>r \<in> set (import_rows tid h s). y = source_of r))"
proof -
  have "{f} = within (import_edges tid s) f 0" "set [f] = at_distance (import_edges tid s) f 0"
    by (auto simp: within_def at_distance_def)
  from chain_levels_spec [OF this, of maxImportDepth "[]"] show ?thesis
    by (simp add: ResolveImportChain_def collected_def)
qed

theorem resolve_chain_breadth_first_witness:
  "\<exists>out. ResolveImportChain 1 5 imported_db = (Inr out, imported_db) \<and> map is_id (take 1 out) = [6]"
proof -
  obtain L where L: "ResolveImportChain 1 5 imported_db = (Inr (concat (map L [1..<Suc maxImportDepth])), imported_db)"
      "distinct (map is_id (L 1))" "is_id ` set (L 1) = at_distance (import_edges 1 imported_db) 5 1"
    using resolve_chain_breadth_first [of 1 5 imported_db] by (fastforce simp: maxImportDepth_def)
  have "import_sources 1 imported_db 5 = [6]" by code_simp
  then have "at_distance (import_edges 1 imported_db) 5 1 = {6}"
    by (auto simp: at_distance_def import_edges_def)
  then have "distinct (map is_id (L 1))" "set (map is_id (L 1)) = {6}" using L(2,3) by simp_all
  then have "map is_id (L 1) = [6]"
    by (cases "map is_id (L 1)"; cases "tl (map is_id (L 1))") auto
  then obtain x where x: "L 1 = [x]" "is_id x = 6" by auto
  have "[1..<Suc maxImportDepth] = 1 # [2..<Suc maxImportDepth]" by (simp add: maxImportDepth_def upt_rec)
  with L(1) x show ?thesis by simp
qed

end
