(* ===== verification/Lease.thy ===== *)
theory Lease
  imports Storage Decimals
begin

text \<open>
  \<open>internal/lease/lease.go\<close>: the decision over one read of a lease-governed secret, a pure function of
  the policy, the requester's lease, the secret's expiry and the time. Durations and instants are
  nanoseconds; a refusal carries the facts its message prints.
\<close>

definition Second :: int where "Second = 1000000000"

definition DefaultTTL :: int where "DefaultTTL = 3600 * Second"

record lease_policy =
  TTL :: int
  MaxTTL :: int
  MaxReads :: int

definition Enabled :: "lease_policy \<Rightarrow> bool" where
  "Enabled p \<longleftrightarrow> TTL p > 0"

text \<open>The error of \<open>ResolveTTL\<close>: what was requested and the ceiling.\<close>

definition ResolveTTL :: "lease_policy \<Rightarrow> int \<Rightarrow> (int \<times> int) + int" where
  "ResolveTTL p requested =
     (let ttl = (if TTL p \<le> 0 then DefaultTTL else TTL p) in
      if requested \<le> 0 then Inr ttl
      else let ceiling = (if MaxTTL p \<le> 0 then ttl else MaxTTL p) in
        if requested > ceiling then Inl (requested, ceiling) else Inr requested)"

record lease_state =
  ls_expires :: instant
  ls_max :: int
  ls_used :: int

definition Remaining :: "lease_state \<Rightarrow> int \<times> bool" where
  "Remaining s =
     (if ls_max s \<le> 0 then (0, False)
      else let left = int32 (ls_max s - ls_used s) in ((if left < 0 then 0 else left), True))"

datatype decision = Issue | Consume | Supersede | Refuse

definition decision_String :: "decision \<Rightarrow> string" where
  "decision_String d = (case d of Issue \<Rightarrow> ''issue'' | Consume \<Rightarrow> ''consume'' | Supersede \<Rightarrow> ''supersede'' | Refuse \<Rightarrow> ''refuse'')"

record lease_request =
  lr_policy :: lease_policy
  lr_existing :: "lease_state option"
  lr_expires :: "instant option"
  lr_now :: instant

text \<open>The checks that follow the one of the secret's own expiry.\<close>

definition evaluate_lease :: "lease_request \<Rightarrow> decision \<times> refusal option" where
  "evaluate_lease req =
     (case lr_existing req of
        None \<Rightarrow> (Issue, None)
      | Some l \<Rightarrow>
          if ls_expires l \<le> lr_now req then (Supersede, None)
          else (case Remaining l of (remaining, capped) \<Rightarrow>
            if capped \<and> remaining \<le> 0 then (Refuse, Some (LeaseExhausted (ls_max l) (ls_expires l)))
            else (Consume, None)))"

text \<open>The reason is given with a refusal only, where the code returns the empty string otherwise.\<close>

definition Evaluate :: "lease_request \<Rightarrow> decision \<times> refusal option" where
  "Evaluate req =
     (if \<not> Enabled (lr_policy req) then (Consume, None)
      else case lr_expires req of
        Some e \<Rightarrow> if e \<le> lr_now req then (Refuse, Some (SecretExpired e)) else evaluate_lease req
      | None \<Rightarrow> evaluate_lease req)"

section \<open>What the decision guarantees\<close>

lemma ResolveTTL_bounds:
  assumes "ResolveTTL p requested = Inr ttl" "Enabled p"
  shows "0 < ttl" "ttl \<le> max (TTL p) (MaxTTL p)"
  using assms by (auto simp: ResolveTTL_def Enabled_def Let_def split: if_splits)

lemma Evaluate_Consume:
  assumes "Enabled (lr_policy req)" "fst (Evaluate req) = Consume"
  shows "\<exists>l. lr_existing req = Some l \<and> lr_now req < ls_expires l
     \<and> (0 < ls_max l \<and> 0 \<le> ls_used l \<and> ls_max l < 2 ^ 31 \<and> ls_used l < 2 ^ 31 \<longrightarrow> ls_used l < ls_max l)
     \<and> (\<forall>e. lr_expires req = Some e \<longrightarrow> lr_now req < e)"
proof -
  obtain l where l: "lr_existing req = Some l" "lr_now req < ls_expires l" "\<not> (snd (Remaining l) \<and> fst (Remaining l) \<le> 0)"
      "\<forall>e. lr_expires req = Some e \<longrightarrow> lr_now req < e"
    using assms by (auto simp: Evaluate_def evaluate_lease_def split: option.splits if_splits prod.splits)
  have "ls_used l < ls_max l" if "0 < ls_max l" "0 \<le> ls_used l" "ls_max l < 2 ^ 31" "ls_used l < 2 ^ 31"
  proof -
    have "int32 (ls_max l - ls_used l) = ls_max l - ls_used l" using that by (intro int32_id) auto
    then show ?thesis using l(3) that by (auto simp: Remaining_def Let_def split: if_splits)
  qed
  with l show ?thesis by blast
qed

lemma Evaluate_Supersede:
  assumes "Enabled (lr_policy req)"
  shows "fst (Evaluate req) = Supersede \<longleftrightarrow> (\<exists>l. lr_existing req = Some l \<and> ls_expires l \<le> lr_now req)
     \<and> (\<forall>e. lr_expires req = Some e \<longrightarrow> lr_now req < e)"
  using assms by (auto simp: Evaluate_def evaluate_lease_def split: option.splits if_splits prod.splits)

lemma Evaluate_Issue:
  assumes "Enabled (lr_policy req)"
  shows "fst (Evaluate req) = Issue \<longleftrightarrow> lr_existing req = None \<and> (\<forall>e. lr_expires req = Some e \<longrightarrow> lr_now req < e)"
  using assms by (auto simp: Evaluate_def evaluate_lease_def split: option.splits if_splits prod.splits)

lemma Evaluate_Refuse: "Evaluate req = (Refuse, r) \<Longrightarrow> \<exists>x. r = Some x"
  by (auto simp: Evaluate_def evaluate_lease_def split: option.splits if_splits prod.splits)

end
