(* ===== verification/Leases.thy ===== *)
theory Leases
  imports SecretLaws Lease
begin

text \<open>
  Read leases (\<open>internal/store/leases.go\<close> and the queries of \<open>secret_lease.sql\<close>): the policy on a
  secret, the leases issued under it, and the one transaction that decides whether a reveal is served.
  The decision reads the clock of the process, \<open>ConsumeSecretLease\<close> that of the database.

  The text of a refused TTL quotes two durations; the model keeps the fixed part of the message.
\<close>

section \<open>Queries\<close>

definition live_lease :: "secret_lease \<Rightarrow> bool" where
  "live_lease l \<longleftrightarrow> l_revoked l = None"

text \<open>The CHECK constraints, and the range of the INT column a read increments.\<close>

definition chk_secret_lease :: "secret_lease \<Rightarrow> dberr option" where
  "chk_secret_lease l =
     (if (case l_max_reads l of None \<Rightarrow> False | Some m \<Rightarrow> m < 1) then Some (CheckViolation ''chk_secret_leases_max_reads'')
      else if l_used l < 0 then Some (CheckViolation ''chk_secret_leases_reads_used'')
      else if l_reason l \<notin> {[], ''expired'', ''explicit'', ''policy''} then Some (CheckViolation ''chk_secret_leases_revoke_reason'')
      else if l_revoked l \<noteq> None \<and> l_reason l = [] then Some (CheckViolation ''chk_secret_leases_revoked_has_reason'')
      else if (case l_max_reads l of None \<Rightarrow> False | Some m \<Rightarrow> m < l_used l)
        then Some (CheckViolation ''chk_secret_leases_within_cap'')
      else if l_used l \<ge> 2 ^ 31 then Some (RaisedException ''integer out of range'')
      else None)"

definition uq_leases :: "secret_lease list \<Rightarrow> bool" where
  "uq_leases ls \<longleftrightarrow> distinct (map l_uuid ls)
     \<and> distinct (map (\<lambda>l. (l_secret l, l_requester l)) (filter live_lease ls))"

definition leases_error :: "secret_lease list \<Rightarrow> dberr option" where
  "leases_error ls = (case first_error chk_secret_lease ls of
     Some e \<Rightarrow> Some e | None \<Rightarrow> if \<not> uq_leases ls then Some UniqueViolation else None)"

definition leases_of :: "nat \<Rightarrow> nat \<Rightarrow> string \<Rightarrow> secret_lease \<Rightarrow> bool" where
  "leases_of tid sid requester l \<longleftrightarrow> l_tenant l = tid \<and> l_secret l = sid \<and> l_requester l = requester \<and> live_lease l"

definition GetLiveSecretLeaseForUpdate :: "nat \<Rightarrow> nat \<Rightarrow> string \<Rightarrow> secret_lease query" where
  "GetLiveSecretLeaseForUpdate tid sid requester = q_one (\<lambda>s. filter (leases_of tid sid requester) (secret_leases s))"

definition CreateSecretLease ::
    "nat \<Rightarrow> nat \<Rightarrow> string \<Rightarrow> string \<Rightarrow> string \<Rightarrow> instant \<Rightarrow> int option \<Rightarrow> secret_lease query" where
  "CreateSecretLease tid sid resourceMRN requester knd expires maxReads = (\<lambda>s.
     let l = \<lparr>l_id = seq s, l_uuid = uuid_at s (seq s), l_tenant = tid, l_secret = sid, l_mrn = resourceMRN,
           l_requester = requester, l_kind = knd, l_issued = db_now s, l_expires = expires, l_max_reads = maxReads,
           l_used = 0, l_last_read = None, l_revoked = None, l_reason = [], l_created = db_now s\<rparr>;
         ls = secret_leases s @ [l]
     in q_exec (case leases_error ls of
            Some e \<Rightarrow> Some e
          | None \<Rightarrow> if tid \<notin> t_id ` set (tenants s) \<or> sid \<notin> s_id ` set (secrets s) then Some ForeignKeyViolation else None)
          (s\<lparr>secret_leases := ls, seq := Suc (seq s)\<rparr>) l s)"

definition update_leases :: "(secret_lease \<Rightarrow> bool) \<Rightarrow> (secret_lease \<Rightarrow> secret_lease) \<Rightarrow> nat query" where
  "update_leases P f = (\<lambda>s.
     let ls = updating P f (secret_leases s) in
     q_exec (leases_error ls) (s\<lparr>secret_leases := ls\<rparr>) (length (filter P (secret_leases s))) s)"

definition consumable :: "nat \<Rightarrow> instant \<Rightarrow> secret_lease \<Rightarrow> bool" where
  "consumable lid now l \<longleftrightarrow> l_id l = lid \<and> live_lease l \<and> now < l_expires l
     \<and> (case l_max_reads l of None \<Rightarrow> True | Some m \<Rightarrow> l_used l < m)"

definition ConsumeSecretLease :: "nat \<Rightarrow> nat query" where
  "ConsumeSecretLease lid = (\<lambda>s. update_leases (consumable lid (db_now s))
     (\<lambda>l. l\<lparr>l_used := l_used l + 1, l_last_read := Some (db_now s)\<rparr>) s)"

definition one_read :: "instant \<Rightarrow> secret_lease \<Rightarrow> secret_lease" where
  "one_read now l = l\<lparr>l_used := l_used l + 1, l_last_read := Some now\<rparr>"

definition revoked :: "string \<Rightarrow> instant \<Rightarrow> secret_lease \<Rightarrow> secret_lease" where
  "revoked reason now l = l\<lparr>l_revoked := Some now, l_reason := reason\<rparr>"

definition RevokeSecretLease :: "string \<Rightarrow> nat \<Rightarrow> nat query" where
  "RevokeSecretLease reason lid = (\<lambda>s.
     update_leases (\<lambda>l. l_id l = lid \<and> live_lease l) (revoked reason (db_now s)) s)"

definition RevokeSecretLeasesForSecret :: "string \<Rightarrow> nat \<Rightarrow> nat \<Rightarrow> nat query" where
  "RevokeSecretLeasesForSecret reason tid sid = (\<lambda>s.
     update_leases (\<lambda>l. l_tenant l = tid \<and> l_secret l = sid \<and> live_lease l) (revoked reason (db_now s)) s)"

text \<open>The order among leases of the same expiry is the database's; the model takes the order of the table.\<close>

definition ExpireDueSecretLeasesRows :: "int \<Rightarrow> nat query" where
  "ExpireDueSecretLeasesRows limit = (\<lambda>s.
     if limit < 0 then (Inl (RaisedException ''LIMIT must not be negative''), s)
     else let due = take (nat limit) (sort_key l_expires (filter (\<lambda>l. live_lease l \<and> l_expires l \<le> db_now s) (secret_leases s)))
     in update_leases (\<lambda>l. l_id l \<in> l_id ` set due) (revoked ''expired'' (db_now s)) s)"

definition ListSecretLeasesRows :: "nat \<Rightarrow> nat \<Rightarrow> int \<Rightarrow> int \<Rightarrow> secret_lease list query" where
  "ListSecretLeasesRows tid sid offset limit = q_page limit offset (\<lambda>s.
     (sort_key (\<lambda>l. - l_created l) (filter (\<lambda>l. l_tenant l = tid \<and> l_secret l = sid) (secret_leases s))))"

definition CountSecretLeases :: "nat \<Rightarrow> nat \<Rightarrow> nat query" where
  "CountSecretLeases tid sid = q_many (\<lambda>s. length (filter (\<lambda>l. l_tenant l = tid \<and> l_secret l = sid) (secret_leases s)))"

definition SetSecretLeasePolicyRow :: "int option \<Rightarrow> int option \<Rightarrow> int option \<Rightarrow> nat \<Rightarrow> uuid \<Rightarrow> secret query" where
  "SetSecretLeasePolicyRow ttl maxTtl reads tid u = update_secrets
     (\<lambda>r. s_tenant r = tid \<and> s_uuid r = u \<and> live_secret r)
     (\<lambda>r. r\<lparr>s_lease_ttl := ttl, s_lease_max := maxTtl, s_lease_reads := reads\<rparr>)"

section \<open>The policy\<close>

record secret_lease_policy =
  TTLSeconds :: "int option"
  MaxTTLSeconds :: "int option"
  MaxReadsOpt :: "int option"

definition policy_Enabled :: "secret_lease_policy \<Rightarrow> bool" where
  "policy_Enabled p = (case TTLSeconds p of None \<Rightarrow> False | Some n \<Rightarrow> n > 0)"

definition toLeasePolicy :: "secret_lease_policy \<Rightarrow> lease_policy" where
  "toLeasePolicy p = \<lparr>TTL = (case TTLSeconds p of None \<Rightarrow> 0 | Some n \<Rightarrow> n * Second),
     MaxTTL = (case MaxTTLSeconds p of None \<Rightarrow> 0 | Some n \<Rightarrow> n * Second),
     MaxReads = (case MaxReadsOpt p of None \<Rightarrow> 0 | Some n \<Rightarrow> n)\<rparr>"

definition leasePolicyFromRow :: "secret \<Rightarrow> secret_lease_policy" where
  "leasePolicyFromRow r = \<lparr>TTLSeconds = s_lease_ttl r, MaxTTLSeconds = s_lease_max r, MaxReadsOpt = s_lease_reads r\<rparr>"

definition MinLeaseTTL :: int where "MinLeaseTTL = 60 * Second"
definition MaxLeaseTTL :: int where "MaxLeaseTTL = 30 * 24 * 3600 * Second"
definition MaxLeaseReads :: int where "MaxLeaseReads = 2 ^ 20"

definition validate_reads :: "secret_lease_policy \<Rightarrow> string + unit" where
  "validate_reads p =
     (case MaxReadsOpt p of
        None \<Rightarrow> Inr ()
      | Some k \<Rightarrow>
          if k < 1 then Inl ''lease_max_reads must be at least 1; omit it for unlimited reads within the TTL''
          else if k > MaxLeaseReads then Inl (''lease_max_reads must be at most '' @ FormatInt MaxLeaseReads)
          else Inr ())"

definition validateLeasePolicy :: "secret_lease_policy \<Rightarrow> string + unit" where
  "validateLeasePolicy p =
     (case TTLSeconds p of
        None \<Rightarrow>
          if MaxTTLSeconds p \<noteq> None \<or> MaxReadsOpt p \<noteq> None
          then Inl ''lease_max_ttl_seconds and lease_max_reads require lease_ttl_seconds; clear all three to remove the policy''
          else Inr ()
      | Some n \<Rightarrow>
          let ttl = n * Second in
          if ttl < MinLeaseTTL then Inl ''lease_ttl_seconds must be at least 60 (1m0s)''
          else if ttl > MaxLeaseTTL then Inl ''lease_ttl_seconds must be at most 2592000 (720h0m0s)''
          else (case MaxTTLSeconds p of
              Some m \<Rightarrow>
                if m * Second < ttl
                then Inl (''lease_max_ttl_seconds ('' @ FormatInt m @ '') must not be shorter than lease_ttl_seconds ('' @ FormatInt n @ '')'')
                else if m * Second > MaxLeaseTTL then Inl ''lease_max_ttl_seconds must be at most 2592000 (720h0m0s)''
                else validate_reads p
            | None \<Rightarrow> validate_reads p))"

section \<open>Operations\<close>

record lease_view =
  lv_uuid :: uuid
  lv_mrn :: string
  lv_requester :: string
  lv_kind :: string
  lv_issued :: instant
  lv_expires :: instant
  lv_max :: "int option"
  lv_used :: int
  lv_last :: "instant option"
  lv_revoked :: "instant option"
  lv_reason :: string

definition toSecretLease :: "secret_lease \<Rightarrow> lease_view" where
  "toSecretLease r = \<lparr>lv_uuid = l_uuid r, lv_mrn = l_mrn r, lv_requester = l_requester r, lv_kind = l_kind r,
     lv_issued = l_issued r, lv_expires = l_expires r, lv_max = l_max_reads r, lv_used = l_used r,
     lv_last = l_last_read r, lv_revoked = l_revoked r, lv_reason = l_reason r\<rparr>"

definition lease_Remaining :: "lease_view \<Rightarrow> int \<times> bool" where
  "lease_Remaining l = (case lv_max l of
      None \<Rightarrow> (0, False)
    | Some m \<Rightarrow> if m \<le> 0 then (0, False)
        else let left = int32 (m - lv_used l) in ((if left < 0 then 0 else left), True))"

definition secretRowByRef :: "secret_ref \<Rightarrow> (secret \<times> address) op" where
  "secretRowByRef ref =
     bindM (resolveAddress ref) (\<lambda>addr.
     bindM (mapErr (mapReadError ''secret'')
         (GetSecretByAddress (t_id (sc_tenant (ad_scope addr))) (e_id (sc_env (ad_scope addr))) (f_id (ad_folder addr)) (ad_key addr)))
       (\<lambda>row. ret (row, addr)))"

definition SetSecretLeasePolicy :: "service \<Rightarrow> secret_ref \<Rightarrow> secret_lease_policy \<Rightarrow> secret_meta op" where
  "SetSecretLeasePolicy svc ref policy =
     bindM (liftR (mapL (\<lambda>e. ValidationError (Msg e)) (validateLeasePolicy policy))) (\<lambda>_.
     bindM (resolveAddress ref) (\<lambda>addr.
     let tid = t_id (sc_tenant (ad_scope addr)) in
     InTx (
       bindM (mapErr (mapReadError ''secret'')
           (GetSecretByAddress tid (e_id (sc_env (ad_scope addr))) (f_id (ad_folder addr)) (ad_key addr))) (\<lambda>row.
       bindM (mapErr (mapWriteError ''secret lease policy'' ''that lease policy could not be applied'')
           (SetSecretLeasePolicyRow (TTLSeconds policy) (MaxTTLSeconds policy) (MaxReadsOpt policy) tid (s_uuid row))) (\<lambda>updated.
       bindM (if \<not> policy_Enabled policy
              then mapErr (\<lambda>e. InternalError ''revoke leases for unleased secret'' (DbCause e))
                (RevokeSecretLeasesForSecret ''policy'' tid (s_id row))
              else ret 0) (\<lambda>_.
       ret (secretRowToMeta updated (f_path (ad_folder addr)) (KeepVersions (svc_policy svc)))))))))"

definition GetSecretLeasePolicy :: "secret_ref \<Rightarrow> secret_lease_policy op" where
  "GetSecretLeasePolicy ref = bindM (secretRowByRef ref) (\<lambda>(row, _). ret (leasePolicyFromRow row))"

record lease_decision =
  Governed :: bool
  DecidedLease :: "lease_view option"
  Issued :: bool

text \<open>What the enforcement fails with: an application error, or the typed refusal of the lease package.\<close>

datatype lease_error = LeaseApp apperr | Refusal refusal

definition defaultRequesterKind :: "string \<Rightarrow> string" where
  "defaultRequesterKind knd = (if knd = [] then ''service'' else knd)"

definition lease_state_of :: "secret_lease \<Rightarrow> lease_state" where
  "lease_state_of l = \<lparr>ls_expires = l_expires l, ls_max = (case l_max_reads l of None \<Rightarrow> 0 | Some m \<Rightarrow> m), ls_used = l_used l\<rparr>"

text \<open>The insert of a lease, and the consumption of one read that ends every served path.\<close>

definition issue_lease ::
    "service \<Rightarrow> secret \<Rightarrow> string \<Rightarrow> string \<Rightarrow> string \<Rightarrow> int \<Rightarrow> (db, lease_error, secret_lease) comp" where
  "issue_lease svc row requester knd resourceMRN ttl =
     mapErr (\<lambda>e. LeaseApp (mapWriteError ''secret lease'' ''a lease for this requester already exists on this secret'' e))
       (CreateSecretLease (s_tenant row) (s_id row) resourceMRN requester (defaultRequesterKind knd)
         (svc_now svc + ttl) (s_lease_reads row))"

definition consume_lease :: "secret_lease \<Rightarrow> bool \<Rightarrow> (db, lease_error, lease_decision) comp" where
  "consume_lease existing issued =
     bindM (mapErr (\<lambda>e. LeaseApp (InternalError ''consume secret lease'' (DbCause e))) (ConsumeSecretLease (l_id existing))) (\<lambda>n.
     if n = 0
     then fail (Refusal (case l_max_reads existing of
         Some m \<Rightarrow> LeaseExhausted m (l_expires existing) | None \<Rightarrow> LeaseExpired (l_expires existing)))
     else ret \<lparr>Governed = True, DecidedLease = Some (toSecretLease (existing\<lparr>l_used := int32 (l_used existing + 1)\<rparr>)),
       Issued = issued\<rparr>)"

text \<open>
  The switch on the decision. Its last branch is the decision to consume; without a lease, which an
  enabled policy never decides, the code would consume the lease of id 0.
\<close>

definition lease_decide ::
    "service \<Rightarrow> secret \<Rightarrow> lease_policy \<Rightarrow> int \<Rightarrow> string \<Rightarrow> string \<Rightarrow> string \<Rightarrow> secret_lease option \<Rightarrow>
     (db, lease_error, lease_decision) comp" where
  "lease_decide svc row lp ttl requester knd resourceMRN existing =
     (case Evaluate \<lparr>lr_policy = lp, lr_existing = map_option lease_state_of existing, lr_expires = s_expires row,
         lr_now = svc_now svc\<rparr> of
       (Refuse, Some reason) \<Rightarrow> fail (Refusal reason)
     | (Supersede, _) \<Rightarrow>
         bindM (case existing of
             Some l \<Rightarrow> mapErr (\<lambda>e. LeaseApp (InternalError ''retire expired secret lease'' (DbCause e)))
               (RevokeSecretLease ''expired'' (l_id l))
           | None \<Rightarrow> ret 0) (\<lambda>_.
         bindM (issue_lease svc row requester knd resourceMRN ttl) (\<lambda>issued. consume_lease issued True))
     | (Issue, _) \<Rightarrow> bindM (issue_lease svc row requester knd resourceMRN ttl) (\<lambda>issued. consume_lease issued True)
     | (_, _) \<Rightarrow> (case existing of Some l \<Rightarrow> consume_lease l False | None \<Rightarrow> fail (Refusal (LeaseExpired 0))))"

text \<open>The body of the transaction.\<close>

definition lease_tx ::
    "service \<Rightarrow> secret \<Rightarrow> lease_policy \<Rightarrow> int \<Rightarrow> string \<Rightarrow> string \<Rightarrow> string \<Rightarrow> (db, lease_error, lease_decision) comp" where
  "lease_tx svc row lp ttl requester knd resourceMRN =
     bindM (tryM (GetLiveSecretLeaseForUpdate (s_tenant row) (s_id row) requester)) (\<lambda>found.
     case found of
       Inr l \<Rightarrow> lease_decide svc row lp ttl requester knd resourceMRN (Some l)
     | Inl e \<Rightarrow> if e = NoRows then lease_decide svc row lp ttl requester knd resourceMRN None
         else fail (LeaseApp (InternalError ''read secret lease'' (DbCause e))))"

definition AuthorizeLeasedRead ::
    "service \<Rightarrow> secret_ref \<Rightarrow> string \<Rightarrow> string \<Rightarrow> string \<Rightarrow> int \<Rightarrow> (db, lease_error, lease_decision) comp" where
  "AuthorizeLeasedRead svc ref requester knd resourceMRN requestedTTL =
     bindM (mapErr LeaseApp (secretRowByRef ref)) (\<lambda>(row, _).
     let policy = leasePolicyFromRow row in
     if \<not> policy_Enabled policy then ret \<lparr>Governed = False, DecidedLease = None, Issued = False\<rparr>
     else
       let lp = toLeasePolicy policy in
       bindM (liftR (mapL (\<lambda>_. LeaseApp (ValidationError (Msg ''a lease was requested above this secret's maximum'')))
         (ResolveTTL lp requestedTTL))) (\<lambda>ttl.
       InTx (lease_tx svc row lp ttl requester knd resourceMRN)))"

definition ListSecretLeases :: "secret_ref \<Rightarrow> int \<Rightarrow> int \<Rightarrow> (lease_view list \<times> nat) op" where
  "ListSecretLeases ref page limit =
     bindM (secretRowByRef ref) (\<lambda>(row, _).
     let pl = normalizePage page limit in
     bindM (mapErr (\<lambda>e. InternalError ''list secret leases'' (DbCause e))
         (ListSecretLeasesRows (s_tenant row) (s_id row) (int32 ((fst pl - 1) * snd pl)) (int32 (snd pl)))) (\<lambda>rows.
     bindM (mapErr (\<lambda>e. InternalError ''count secret leases'' (DbCause e)) (CountSecretLeases (s_tenant row) (s_id row))) (\<lambda>total.
     ret (map toSecretLease rows, total))))"

definition RevokeSecretLeases :: "secret_ref \<Rightarrow> nat op" where
  "RevokeSecretLeases ref =
     bindM (secretRowByRef ref) (\<lambda>(row, _).
     mapErr (\<lambda>e. InternalError ''revoke secret leases'' (DbCause e))
       (RevokeSecretLeasesForSecret ''explicit'' (s_tenant row) (s_id row)))"

definition ExpireDueSecretLeases :: "int \<Rightarrow> nat op" where
  "ExpireDueSecretLeases limit =
     mapErr (\<lambda>e. InternalError ''expire due secret leases'' (DbCause e))
       (ExpireDueSecretLeasesRows (int32 (if limit < 1 then 100 else limit)))"

end
