(* ===== verification/LeaseProps.thy ===== *)
theory LeaseProps
  imports Leases SecretProps
begin

text \<open>
  What the leases promise: the tables keep their invariant; over any sequence of reveals inside the
  window of a lease, the served ones are exactly the reads it counts and never more than its cap; and
  what two clocks that disagree do to it.
\<close>

section \<open>The lease table\<close>

definition leases_ok :: "db \<Rightarrow> bool" where
  "leases_ok s \<longleftrightarrow> distinct (map l_id (secret_leases s)) \<and> (\<forall>l \<in> set (secret_leases s). l_id l < seq s)
     \<and> leases_error (secret_leases s) = None"

lemma leases_okD:
  assumes "leases_ok s"
  shows "distinct (map l_id (secret_leases s))" "l \<in> set (secret_leases s) \<Longrightarrow> l_id l < seq s"
    "leases_error (secret_leases s) = None" "uq_leases (secret_leases s)"
    "l \<in> set (secret_leases s) \<Longrightarrow> chk_secret_lease l = None"
proof -
  show "leases_error (secret_leases s) = None" "distinct (map l_id (secret_leases s))"
    "l \<in> set (secret_leases s) \<Longrightarrow> l_id l < seq s" using assms by (simp_all add: leases_ok_def)
  then show "uq_leases (secret_leases s)" "l \<in> set (secret_leases s) \<Longrightarrow> chk_secret_lease l = None"
    by (auto simp: leases_error_def split: option.splits if_splits)
qed

lemma leases_error_None:
  "leases_error ls = None \<longleftrightarrow> (\<forall>l \<in> set ls. chk_secret_lease l = None) \<and> uq_leases ls"
proof (cases "first_error chk_secret_lease ls")
  case (Some e)
  then have "\<not> (\<forall>l \<in> set ls. chk_secret_lease l = None)" by (metis first_error_None option.distinct(1))
  with Some show ?thesis by (simp add: leases_error_def)
next
  case None
  moreover have "\<forall>l \<in> set ls. chk_secret_lease l = None" using None by simp
  ultimately show ?thesis by (simp add: leases_error_def del: first_error_None)
qed

lemma leases_ok_frame [simp]:
  "leases_ok (s\<lparr>guc_delete := a, guc_rewrap := b, guc_transit := c\<rparr>) = leases_ok s"
  "leases_ok (s\<lparr>db_now := n\<rparr>) = leases_ok s"
  by (simp_all add: leases_ok_def)

lemma lease_unique:
  assumes "leases_ok s" "l \<in> set (secret_leases s)" "m \<in> set (secret_leases s)"
    and "leases_of tid sid req l" "leases_of tid sid req m"
  shows "l = m"
proof -
  have "inj_on (\<lambda>l. (l_secret l, l_requester l)) (set (filter live_lease (secret_leases s)))"
    using leases_okD(4) [OF assms(1)] by (simp add: uq_leases_def distinct_map)
  with assms(2-5) show ?thesis by (auto simp: leases_of_def dest: inj_onD)
qed

lemma lease_found:
  assumes "leases_ok s" "l \<in> set (secret_leases s)" "leases_of tid sid req l"
  shows "GetLiveSecretLeaseForUpdate tid sid req s = (Inr l, s)"
proof (cases "filter (leases_of tid sid req) (secret_leases s)")
  case Nil
  with assms(2,3) show ?thesis by (auto simp: filter_empty_conv)
next
  case (Cons m ms)
  then have "m \<in> set (secret_leases s)" "leases_of tid sid req m" by (auto dest!: filter_Cons_in)
  with lease_unique [OF assms(1,2) _ assms(3)] Cons show ?thesis
    by (simp add: GetLiveSecretLeaseForUpdate_def q_one_def)
qed

lemma lease_absent:
  "(\<forall>l \<in> set (secret_leases s). \<not> leases_of tid sid req l) \<Longrightarrow>
   GetLiveSecretLeaseForUpdate tid sid req s = (Inl NoRows, s)"
  by (simp add: GetLiveSecretLeaseForUpdate_def q_one_def split: list.splits)

lemma lease_tx_found:
  "leases_ok s \<Longrightarrow> l \<in> set (secret_leases s) \<Longrightarrow> leases_of (s_tenant row) (s_id row) requester l \<Longrightarrow>
   lease_tx svc row lp ttl requester knd rmrn s = lease_decide svc row lp ttl requester knd rmrn (Some l) s"
  by (simp add: lease_tx_def bindM_def tryM_def lease_found)

lemma lease_tx_absent:
  "\<forall>l \<in> set (secret_leases s). \<not> leases_of (s_tenant row) (s_id row) requester l \<Longrightarrow>
   lease_tx svc row lp ttl requester knd rmrn s = lease_decide svc row lp ttl requester knd rmrn None s"
  by (simp add: lease_tx_def bindM_def tryM_def lease_absent)

section \<open>One consumption\<close>

definition with_lease :: "secret_lease \<Rightarrow> (secret_lease \<Rightarrow> secret_lease) \<Rightarrow> db \<Rightarrow> db" where
  "with_lease l f s = s\<lparr>secret_leases := map (\<lambda>x. if x = l then f x else x) (secret_leases s)\<rparr>"

lemma updating_one:
  assumes "distinct (map k xs)" "x \<in> set xs" "\<And>y. P y \<Longrightarrow> k y = k x" "P x"
  shows "updating P f xs = map (\<lambda>y. if y = x then f y else y) xs" "length (filter P xs) = 1"
proof -
  have iff: "P y \<longleftrightarrow> y = x" if "y \<in> set xs" for y
    using assms that by (metis distinct_map inj_onD)
  then show "updating P f xs = map (\<lambda>y. if y = x then f y else y) xs" by (simp add: updating_def)
  have "filter P xs = filter (\<lambda>y. y = x) xs" by (rule filter_cong) (simp_all add: iff)
  moreover have "distinct xs" using assms(1) by (simp add: distinct_map)
  ultimately show "length (filter P xs) = 1" using assms(2)
    by (simp add: distinct_length_filter Collect_conv_if Int_def)
qed

lemma one_read_key [simp]: "l_id (one_read n l) = l_id l" "l_uuid (one_read n l) = l_uuid l"
  "l_secret (one_read n l) = l_secret l" "l_requester (one_read n l) = l_requester l"
  "l_expires (one_read n l) = l_expires l" "l_max_reads (one_read n l) = l_max_reads l"
  "l_revoked (one_read n l) = l_revoked l" "l_tenant (one_read n l) = l_tenant l"
  "l_used (one_read n l) = l_used l + 1" "l_reason (one_read n l) = l_reason l"
  "live_lease (one_read n l) = live_lease l"
  by (simp_all add: one_read_def live_lease_def)

lemma consume_lease_run:
  assumes ok: "leases_ok s" and l: "l \<in> set (secret_leases s)" and run: "consume_lease l issued s = (r, t)"
  shows "(\<exists>e. r = Inl e) \<and> t = s \<and> (\<not> consumable (l_id l) (db_now s) l \<or> l_used l = 2 ^ 31 - 1)
    \<or> (\<exists>d. r = Inr d \<and> Governed d \<and> Issued d = issued) \<and> consumable (l_id l) (db_now s) l
       \<and> t = with_lease l (one_read (db_now s)) s \<and> leases_ok t"
proof (cases "consumable (l_id l) (db_now s) l")
  case True
  let ?ls = "map (\<lambda>x. if x = l then one_read (db_now s) x else x) (secret_leases s)"
  have up: "updating (consumable (l_id l) (db_now s)) (one_read (db_now s)) (secret_leases s) = ?ls"
      "length (filter (consumable (l_id l) (db_now s)) (secret_leases s)) = 1"
    by (rule updating_one [where k = l_id], rule leases_okD(1) [OF ok], rule l, simp add: consumable_def, rule True)+
  have f: "(\<lambda>l. l\<lparr>l_used := l_used l + 1, l_last_read := Some (db_now s)\<rparr>) = one_read (db_now s)"
    by (simp add: one_read_def fun_eq_iff)
  have run': "ConsumeSecretLease (l_id l) s = q_exec (leases_error ?ls) (s\<lparr>secret_leases := ?ls\<rparr>) 1 s"
    unfolding ConsumeSecretLease_def update_leases_def f Let_def using up by simp
  have chk: "chk_secret_lease (one_read (db_now s) l) = None \<or> l_used l = 2 ^ 31 - 1"
    using leases_okD(5) [OF ok l] True by (auto simp: chk_secret_lease_def consumable_def split: option.splits if_splits)
  have "uq_leases ?ls"
  proof -
    have "map l_uuid ?ls = map l_uuid (secret_leases s)" by simp
    moreover have "map (\<lambda>l. (l_secret l, l_requester l)) (filter live_lease ?ls)
        = map (\<lambda>l. (l_secret l, l_requester l)) (filter live_lease (secret_leases s))"
      by (simp add: filter_map comp_def) (auto intro!: map_cong filter_cong)
    ultimately show ?thesis using leases_okD(4) [OF ok] unfolding uq_leases_def by metis
  qed
  then have le: "leases_error ?ls = None" if "l_used l \<noteq> 2 ^ 31 - 1"
    using chk that leases_okD(5) [OF ok] by (auto simp: leases_error_None)
  show ?thesis
  proof (cases "leases_error ?ls")
    case None
    have "map l_id ?ls = map l_id (secret_leases s)" by simp
    then have "leases_ok (s\<lparr>secret_leases := ?ls\<rparr>)"
      using leases_okD(1,2) [OF ok] None unfolding leases_ok_def by (auto simp del: map_map)
    then have "leases_ok (with_lease l (one_read (db_now s)) s)" by (simp only: with_lease_def)
    moreover have "consume_lease l issued s = (Inr \<lparr>Governed = True,
        DecidedLease = Some (toSecretLease (l\<lparr>l_used := int32 (l_used l + 1)\<rparr>)), Issued = issued\<rparr>,
        with_lease l (one_read (db_now s)) s)"
      unfolding consume_lease_def bindM_def mapErr_def run' q_exec_def ret_def with_lease_def None by simp
    ultimately show ?thesis using run True by simp
  next
    case (Some e)
    with le run show ?thesis by (auto simp: consume_lease_def bindM_def mapErr_def run' q_exec_def)
  qed
next
  case False
  have "filter (consumable (l_id l) (db_now s)) (secret_leases s) = []"
    using False l leases_okD(1) [OF ok] by (auto simp: filter_empty_conv consumable_def dest: distinct_map_eq)
  then have "ConsumeSecretLease (l_id l) s = q_exec (leases_error (secret_leases s)) s 0 s"
    unfolding ConsumeSecretLease_def update_leases_def Let_def by (simp add: updating_none)
  with run False leases_okD(3) [OF ok] show ?thesis
    by (auto simp: consume_lease_def bindM_def mapErr_def q_exec_def fail_def)
qed

section \<open>The rest of the store\<close>

lemma store_ok_leases [simp]: "store_ok (s\<lparr>secret_leases := ls\<rparr>) = store_ok s"
  by (simp add: store_ok_def version_ok_def secret_ok_def versions_of_def)

lemma store_ok_leases_seq: "store_ok s \<Longrightarrow> store_ok (s\<lparr>secret_leases := ls, seq := Suc (seq s)\<rparr>)"
  by (auto simp: store_ok_def version_ok_def secret_ok_def versions_of_def less_Suc_eq)

lemma keeps_update_leases [keeps_rules]: "keeps store_ok (update_leases P f)"
  by (auto simp: keeps_def update_leases_def Let_def q_exec_def split: option.splits)

lemma keeps_lease_queries [keeps_rules]:
  "keeps store_ok (ConsumeSecretLease lid)" "keeps store_ok (RevokeSecretLease reason lid)"
  "keeps store_ok (RevokeSecretLeasesForSecret reason tid sid)" "keeps store_ok (ExpireDueSecretLeasesRows limit)"
  "keeps store_ok (CreateSecretLease tid sid m req knd ex mr)"
  "keeps store_ok (SetSecretLeasePolicyRow ttl mx rd tid u)"
  using keeps_update_leases
  by (auto simp: keeps_def ConsumeSecretLease_def RevokeSecretLease_def RevokeSecretLeasesForSecret_def
      ExpireDueSecretLeasesRows_def CreateSecretLease_def Let_def q_exec_def SetSecretLeasePolicyRow_def
      store_ok_leases_seq split: option.splits if_splits elim!: update_secrets_store_ok)

lemma pure_lease_reads [intro!, simp, pure_rules]:
  "pure_op (GetLiveSecretLeaseForUpdate tid sid req)" "pure_op (GetSecretByAddress tid eid fid key)"
  by (simp_all add: GetLiveSecretLeaseForUpdate_def GetSecretByAddress_def)

lemma pure_secretRowByRef [intro!, simp, pure_rules]: "pure_op (secretRowByRef ref)"
  by (auto simp: secretRowByRef_def)

lemma keeps_lease_reads [keeps_rules]:
  "keeps I (GetLiveSecretLeaseForUpdate tid sid req)" "keeps I (GetSecretByAddress tid eid fid key)" "keeps I (secretRowByRef ref)"
  by (auto intro: pure_keeps)

lemma keeps_lease_decide [keeps_rules]: "keeps store_ok (lease_decide svc row lp ttl requester knd m ex)"
  unfolding lease_decide_def issue_lease_def consume_lease_def
  by (auto intro!: keeps_rules split: prod.splits option.splits decision.splits)

lemma lease_ops_keep [keeps_rules]:
  "keeps store_ok (AuthorizeLeasedRead svc ref requester knd m req)" "keeps store_ok (SetSecretLeasePolicy svc ref policy)"
  "keeps store_ok (RevokeSecretLeases ref)" "keeps store_ok (ExpireDueSecretLeases limit)"
  unfolding AuthorizeLeasedRead_def lease_tx_def SetSecretLeasePolicy_def RevokeSecretLeases_def ExpireDueSecretLeases_def Let_def
  by (auto intro!: keeps_rules split: prod.splits option.splits sum.splits)

section \<open>Reads within a window\<close>

definition governed_row :: "secret \<Rightarrow> bool" where
  "governed_row row \<longleftrightarrow> (\<exists>k > 0. s_lease_ttl row = Some k)"

lemma governed_Enabled:
  "governed_row row \<Longrightarrow> policy_Enabled (leasePolicyFromRow row) \<and> Enabled (toLeasePolicy (leasePolicyFromRow row))"
  by (auto simp: governed_row_def policy_Enabled_def leasePolicyFromRow_def toLeasePolicy_def Enabled_def Second_def)

lemma lease_state_of_sel [simp]: "ls_expires (lease_state_of l) = l_expires l" "ls_used (lease_state_of l) = l_used l"
  by (simp_all add: lease_state_of_def)

lemma lease_tx_window:
  assumes ok: "leases_ok s" and l: "l \<in> set (secret_leases s)" "leases_of (s_tenant row) (s_id row) requester l"
    and now: "svc_now svc < l_expires l" and en: "Enabled lp"
    and run: "lease_tx svc row lp ttl requester knd rmrn s = (r, t)"
  shows "(\<exists>e. r = Inl e) \<and> t = s
    \<or> (\<exists>d. r = Inr d \<and> Governed d \<and> \<not> Issued d) \<and> consumable (l_id l) (db_now s) l
       \<and> t = with_lease l (one_read (db_now s)) s \<and> leases_ok t"
proof -
  let ?E = "Evaluate \<lparr>lr_policy = lp, lr_existing = Some (lease_state_of l), lr_expires = s_expires row, lr_now = svc_now svc\<rparr>"
  have ev: "?E = (Consume, None) \<or> (\<exists>x. ?E = (Refuse, Some x))"
    using now en by (auto simp: Evaluate_def evaluate_lease_def split: option.splits prod.splits)
  have "lease_tx svc row lp ttl requester knd rmrn s = (case ?E of
       (Refuse, Some reason) \<Rightarrow> (Inl (Refusal reason), s)
     | _ \<Rightarrow> consume_lease l False s)"
    using lease_tx_found [OF ok l] ev by (auto simp: lease_decide_def fail_def)
  then show ?thesis
    using ev run consume_lease_run [OF ok l(1), of False r t] by auto
qed

text \<open>The lookup of the secret does not read the leases, the clock or the sequence.\<close>

lemma folder_query_cong:
  assumes "projects t = projects s" "environments t = environments s" "folders t = folders s"
  shows "fst (folder_at sc path t) = fst (folder_at sc path s)"
  by (simp add: folder_at_def GetFolderByPath_def q_one_def tenant_env_ids_def assms split: list.splits)

lemma secretRowByRef_cong:
  assumes "tenants t = tenants s" "projects t = projects s" "environments t = environments s" "folders t = folders s"
    and "secrets t = secrets s" and run: "secretRowByRef ref s = (Inr x, s)"
  shows "secretRowByRef ref t = (Inr x, t)"
proof -
  obtain row a where x: "x = (row, a)" by (cases x)
  have "resolveAddress ref s = (Inr a, s)"
      "GetSecretByAddress (t_id (sc_tenant (ad_scope a))) (e_id (sc_env (ad_scope a))) (f_id (ad_folder a)) (ad_key a) s = (Inr row, s)"
    using run x by (auto simp: secretRowByRef_def run_ok pure_run [OF pure_resolveAddress] GetSecretByAddress_def q_ok)
  moreover have "resolveAddress ref t = (Inr a, t)"
  proof -
    obtain p sc f where "ValidateKey (r_key ref) = None" "NormalizePath (r_folder ref) = Inr p"
        "resolveEnvironment (r_tenant ref) (r_project ref) (r_environment ref) s = (Inr sc, s)"
        "folder_at sc p s = (Inr f, s)" and a: "a = \<lparr>ad_scope = sc, ad_folder = f, ad_key = r_key ref\<rparr>"
      using calculation(1) by (auto simp: resolveAddress_def run_ok pure_run [OF pure_resolveEnvironment] pure_run [OF pure_folder_at])
    then show ?thesis unfolding a
      using resolveEnvironment_cong [OF assms(1-3)] folder_at_cong [OF assms(2-4)] by (intro resolveAddress_run)
  qed
  moreover have "GetSecretByAddress (t_id (sc_tenant (ad_scope a))) (e_id (sc_env (ad_scope a))) (f_id (ad_folder a)) (ad_key a) t
      = (Inr row, t)"
    using calculation(2) assms(5) by (auto simp: GetSecretByAddress_def q_ok)
  ultimately show ?thesis by (simp add: secretRowByRef_def bindM_def mapErr_def ret_def x)
qed

lemma secretRowByRef_row:
  assumes "secretRowByRef ref s = (Inr (row, a), t)"
  shows "t = s" "resolveAddress ref s = (Inr a, s)" "row \<in> set (secrets s)"
    "at_address (t_id (sc_tenant (ad_scope a))) (e_id (sc_env (ad_scope a))) (f_id (ad_folder a)) (ad_key a) row"
  using assms by (auto simp: secretRowByRef_def run_ok pure_run [OF pure_resolveAddress] GetSecretByAddress_def q_ok
      dest!: filter_Cons_in)

lemma InTx_frame:
  assumes "InTx fn s = (r, t)"
    and "\<forall>r u. fn (s\<lparr>guc_delete := [], guc_rewrap := [], guc_transit := []\<rparr>) = (r, u) \<longrightarrow> P r u"
  shows "(\<exists>e u. r = Inl e \<and> t = s \<and> P r u) \<or> (\<exists>d u. r = Inr d \<and> P r u
    \<and> t = u\<lparr>guc_delete := guc_delete s, guc_rewrap := guc_rewrap s, guc_transit := guc_transit s\<rparr>)"
  using assms by (cases r) (auto simp: InTx_ok InTx_err)

lemma with_lease_frame: "with_lease l f (s\<lparr>guc_delete := a, guc_rewrap := b, guc_transit := c\<rparr>)
    = (with_lease l f s)\<lparr>guc_delete := a, guc_rewrap := b, guc_transit := c\<rparr>"
  by (simp add: with_lease_def)

lemma authorize_run:
  assumes "secretRowByRef ref s = (Inr (row, a), s)" "governed_row row"
  shows "AuthorizeLeasedRead svc ref requester knd rmrn req s = (case ResolveTTL (toLeasePolicy (leasePolicyFromRow row)) req of
       Inl _ \<Rightarrow> (Inl (LeaseApp (ValidationError (Msg ''a lease was requested above this secret's maximum''))), s)
     | Inr ttl \<Rightarrow> InTx (lease_tx svc row (toLeasePolicy (leasePolicyFromRow row)) ttl requester knd rmrn) s)"
  using assms governed_Enabled [OF assms(2)]
  by (auto simp: AuthorizeLeasedRead_def bindM_def mapErr_def liftR_def mapL_def Let_def split: sum.splits)

lemma authorize_window:
  assumes ok: "leases_ok s" and row: "secretRowByRef ref s = (Inr (row, a), s)" "governed_row row"
    and l: "l \<in> set (secret_leases s)" "leases_of (s_tenant row) (s_id row) requester l"
    and now: "svc_now svc < l_expires l"
    and run: "AuthorizeLeasedRead svc ref requester knd rmrn req s = (r, t)"
  shows "(\<exists>e. r = Inl e) \<and> t = s
    \<or> (\<exists>d. r = Inr d \<and> Governed d \<and> \<not> Issued d) \<and> consumable (l_id l) (db_now s) l
       \<and> t = with_lease l (one_read (db_now s)) s \<and> leases_ok t"
proof -
  let ?lp = "toLeasePolicy (leasePolicyFromRow row)" and ?s = "s\<lparr>guc_delete := [], guc_rewrap := [], guc_transit := []\<rparr>"
  note a = authorize_run [OF row]
  show ?thesis
  proof (cases "ResolveTTL ?lp req")
    case (Inr ttl)
    define P where "P r u \<longleftrightarrow> (\<exists>e. r = Inl e) \<and> u = ?s
        \<or> (\<exists>d. r = Inr d \<and> Governed d \<and> \<not> Issued d) \<and> consumable (l_id l) (db_now s) l
           \<and> u = with_lease l (one_read (db_now s)) ?s \<and> leases_ok u" for r :: "lease_error + lease_decision" and u
    have tx: "\<forall>r u. lease_tx svc row ?lp ttl requester knd rmrn ?s = (r, u) \<longrightarrow> P r u"
      using lease_tx_window [of ?s l row requester svc ?lp ttl knd rmrn] ok l now governed_Enabled [OF row(2)]
      by (simp add: P_def)
    from run a Inr have i: "InTx (lease_tx svc row ?lp ttl requester knd rmrn) s = (r, t)" by simp
    have w: "(with_lease l (one_read (db_now s)) ?s)\<lparr>guc_delete := guc_delete s, guc_rewrap := guc_rewrap s, guc_transit := guc_transit s\<rparr>
        = with_lease l (one_read (db_now s)) s" by (simp add: with_lease_def)
    have lk: "leases_ok (with_lease l (one_read (db_now s)) ?s) = leases_ok (with_lease l (one_read (db_now s)) s)"
      by (subst w [symmetric]) simp
    from InTx_frame [OF i tx] show ?thesis
    proof (elim disjE exE conjE)
      fix d u assume "r = Inr d" "P r u"
        "t = u\<lparr>guc_delete := guc_delete s, guc_rewrap := guc_rewrap s, guc_transit := guc_transit s\<rparr>"
      then show ?thesis using w lk by (auto simp: P_def)
    qed simp
  qed (use run a in auto)
qed

text \<open>
  A run of reveals of one secret by one requester: each is given the time of the process and that of
  the database; the results and the final store.
\<close>

fun reads :: "service \<Rightarrow> secret_ref \<Rightarrow> string \<Rightarrow> string \<Rightarrow> string \<Rightarrow> int \<Rightarrow> (instant \<times> instant) list \<Rightarrow> db \<Rightarrow>
    (lease_error + lease_decision) list \<times> db" where
  "reads svc ref requester knd rmrn req [] s = ([], s)"
| "reads svc ref requester knd rmrn req ((n, d) # ts) s =
     (let (r, t) = AuthorizeLeasedRead (svc\<lparr>svc_now := n\<rparr>) ref requester knd rmrn req (s\<lparr>db_now := d\<rparr>);
          (rs, u) = reads svc ref requester knd rmrn req ts t
      in (r # rs, u))"

lemma with_lease_mem: "l \<in> set (secret_leases s) \<Longrightarrow> f l \<in> set (secret_leases (with_lease l f s))"
  by (force simp: with_lease_def)

lemma with_lease_tables [simp]:
  "tenants (with_lease l f s) = tenants s" "projects (with_lease l f s) = projects s"
  "environments (with_lease l f s) = environments s" "folders (with_lease l f s) = folders s"
  "secrets (with_lease l f s) = secrets s"
  by (simp_all add: with_lease_def)

lemma reads_window:
  assumes "leases_ok s" "secretRowByRef ref s = (Inr (row, a), s)" "governed_row row"
    and "l \<in> set (secret_leases s)" "leases_of (s_tenant row) (s_id row) requester l"
    and "\<forall>(n, d) \<in> set ts. n < l_expires l" "reads svc ref requester knd rmrn req ts s = (rs, t)"
  shows "\<exists>l' \<in> set (secret_leases t). l_id l' = l_id l \<and> l_used l' = l_used l + int (length (filter succeeds rs))
     \<and> l_max_reads l' = l_max_reads l \<and> (\<forall>m. l_max_reads l = Some m \<longrightarrow> l_used l' \<le> m)"
  using assms
proof (induction ts arbitrary: s l rs)
  case Nil
  have "l_used l \<le> m" if "l_max_reads l = Some m" for m
    using leases_okD(5) [OF Nil.prems(1,4)] that by (auto simp: chk_secret_lease_def split: if_splits)
  with Nil show ?case by auto
next
  case (Cons x ts)
  obtain n d where x: "x = (n, d)" by (cases x)
  let ?s = "s\<lparr>db_now := d\<rparr>" and ?svc = "svc\<lparr>svc_now := n\<rparr>"
  obtain r u rs' where run: "AuthorizeLeasedRead ?svc ref requester knd rmrn req ?s = (r, u)"
      "reads svc ref requester knd rmrn req ts u = (rs', t)" "rs = r # rs'"
    using Cons.prems(7) by (auto simp: x Let_def split: prod.splits)
  have row: "secretRowByRef ref v = (Inr (row, a), v)"
    if "tenants v = tenants s" "projects v = projects s" "environments v = environments s" "folders v = folders s"
      "secrets v = secrets s" for v
    using secretRowByRef_cong [OF that Cons.prems(2)] .
  have later: "\<forall>(n, d) \<in> set ts. n < l_expires l" using Cons.prems(6) by simp
  have "(\<exists>e. r = Inl e) \<and> u = ?s
    \<or> (\<exists>dd. r = Inr dd \<and> Governed dd \<and> \<not> Issued dd) \<and> consumable (l_id l) (db_now ?s) l
       \<and> u = with_lease l (one_read (db_now ?s)) ?s \<and> leases_ok u"
    by (rule authorize_window [OF _ row Cons.prems(3) _ Cons.prems(5) _ run(1)])
       (use Cons.prems(1,4,6) x in simp_all)
  then show ?case
  proof (elim disjE conjE exE)
    fix e assume r: "r = Inl e" and u: "u = ?s"
    have "leases_ok u" "secretRowByRef ref u = (Inr (row, a), u)" "l \<in> set (secret_leases u)"
      using Cons.prems(1,4) row by (simp_all add: u)
    from Cons.IH [OF this(1,2) Cons.prems(3) this(3) Cons.prems(5) later run(2)] r
    show ?thesis by (auto simp: run(3))
  next
    fix dd assume r: "r = Inr dd" and u: "u = with_lease l (one_read (db_now ?s)) ?s" and ok: "leases_ok u"
    let ?l = "one_read (db_now ?s) l"
    have "secretRowByRef ref u = (Inr (row, a), u)" using row by (simp add: u)
    moreover have "?l \<in> set (secret_leases u)" using Cons.prems(4) unfolding u by (intro with_lease_mem) simp
    moreover have "leases_of (s_tenant row) (s_id row) requester ?l" using Cons.prems(5) by (simp add: leases_of_def)
    moreover have "\<forall>(n, d) \<in> set ts. n < l_expires ?l" using later by simp
    ultimately obtain l' where "l' \<in> set (secret_leases t)" "l_id l' = l_id ?l"
        "l_used l' = l_used ?l + int (length (filter succeeds rs'))" "l_max_reads l' = l_max_reads ?l"
        "\<forall>m. l_max_reads ?l = Some m \<longrightarrow> l_used l' \<le> m"
      using Cons.IH [OF ok _ Cons.prems(3) _ _ _ run(2)] by blast
    with r show ?thesis by (intro bexI [of _ l']) (simp_all add: run(3))
  qed
qed

text \<open>
  C31: a lease counts exactly and never serves past its cap: over any run of reveals of a governed
  secret by one requester, at any times of the two clocks as long as the process sees the lease
  unexpired, the lease row grows by exactly the number of reveals that were served, and stays within
  \<open>max_reads\<close>; a refused reveal costs nothing.
\<close>

theorem lease_window_cap:
  assumes "reads svc ref requester knd rmrn req ts s = (rs, t)" "leases_ok s"
    and "secretRowByRef ref s = (Inr (row, a), s)" "governed_row row"
    and "l \<in> set (secret_leases s)" "leases_of (s_tenant row) (s_id row) requester l"
    and "\<forall>(n, d) \<in> set ts. n < l_expires l"
  shows "\<exists>l' \<in> set (secret_leases t). l_id l' = l_id l \<and> l_used l' = l_used l + int (length (filter succeeds rs))
     \<and> l_max_reads l' = l_max_reads l \<and> (\<forall>m. l_max_reads l = Some m \<longrightarrow> l_used l' \<le> m)"
  by (rule reads_window [OF assms(2-7,1)])

text \<open>The sample secret under a policy of two reads per minute, and its first reveal.\<close>

definition two_reads :: secret_lease_policy where
  "two_reads = \<lparr>TTLSeconds = Some 60, MaxTTLSeconds = None, MaxReadsOpt = Some 2\<rparr>"

definition leased_db :: db where
  "leased_db = snd (AuthorizeLeasedRead sample_svc sample_ref ''ci'' [] ''m'' 0
     (snd (SetSecretLeasePolicy sample_svc sample_ref two_reads sample_one)))"

definition leased_check :: "db \<Rightarrow> bool" where
  "leased_check s = (case (secrets s, secret_leases s) of
     ([row], [l]) \<Rightarrow> l_used l = 1 \<and> l_max_reads l = Some 2 \<and> l_expires l = 60000000100 \<and> l_id l < seq s
       \<and> s_lease_ttl row = Some 60 \<and> leases_of (s_tenant row) (s_id row) ''ci'' l \<and> leases_error [l] = None
       \<and> s_lease_max row = None \<and> s_lease_reads row = Some 2 \<and> s_expires row = None \<and> l_uuid l \<noteq> uuid_at s (seq s)
       \<and> succeeds (fst (secretRowByRef sample_ref s))
   | _ \<Rightarrow> False)"

lemma leased_facts: "leased_check leased_db"
  by code_simp

lemma leased_ok: "leases_ok leased_db"
  using leased_facts by (auto simp: leases_ok_def leased_check_def split: list.splits)

lemma leased_obtain:
  obtains row a l where "secretRowByRef sample_ref leased_db = (Inr (row, a), leased_db)" "governed_row row"
    "l \<in> set (secret_leases leased_db)" "leases_of (s_tenant row) (s_id row) ''ci'' l" "l_used l = 1"
    "l_max_reads l = Some 2" "l_expires l = 60000000100"
proof -
  obtain row l where f: "secrets leased_db = [row]" "secret_leases leased_db = [l]" "l_used l = 1" "l_max_reads l = Some 2"
      "l_expires l = 60000000100" "s_lease_ttl row = Some 60" "leases_of (s_tenant row) (s_id row) ''ci'' l"
      "succeeds (fst (secretRowByRef sample_ref leased_db))"
    using leased_facts by (auto simp: leased_check_def split: list.splits)
  obtain row' a where x: "secretRowByRef sample_ref leased_db = (Inr (row', a), snd (secretRowByRef sample_ref leased_db))"
    using succeeds_obtain [of "secretRowByRef sample_ref" leased_db] f(8) by auto
  note secretRowByRef_row(1,3) [OF x]
  with x f that show ?thesis by (auto simp: governed_row_def)
qed

theorem lease_window_cap_witness:
  "\<exists>rs t. reads sample_svc sample_ref ''ci'' [] ''m'' 0 [(100, 100), (200, 200), (300, 300)] leased_db = (rs, t)
     \<and> length (filter succeeds rs) \<le> 1"
proof -
  obtain row a l where r: "secretRowByRef sample_ref leased_db = (Inr (row, a), leased_db)" "governed_row row"
    "l \<in> set (secret_leases leased_db)" "leases_of (s_tenant row) (s_id row) ''ci'' l" "l_used l = 1"
    "l_max_reads l = Some 2" "l_expires l = 60000000100" by (rule leased_obtain)
  obtain rs t where run: "reads sample_svc sample_ref ''ci'' [] ''m'' 0 [(100, 100), (200, 200), (300, 300)] leased_db = (rs, t)"
    by (cases "reads sample_svc sample_ref ''ci'' [] ''m'' 0 [(100, 100), (200, 200), (300, 300)] leased_db") auto
  have "\<forall>(n, d) \<in> set [(100, 100), (200, 200), (300, 300)]. n < l_expires l" by (simp add: r(7))
  from lease_window_cap [OF run leased_ok r(1-4) this] r(5,6) run show ?thesis by auto
qed

section \<open>Two clocks\<close>

lemma consume_lease_late:
  assumes "\<forall>x \<in> set (secret_leases s). l_id x = l_id l \<longrightarrow> l_expires x \<le> db_now s"
  shows "\<exists>e u. consume_lease l issued s = (Inl e, u)"
proof -
  have "filter (consumable (l_id l) (db_now s)) (secret_leases s) = []"
    using assms by (auto simp: filter_empty_conv consumable_def)
  then show ?thesis
    by (cases "leases_error (updating (consumable (l_id l) (db_now s))
        (\<lambda>l. l\<lparr>l_used := l_used l + 1, l_last_read := Some (db_now s)\<rparr>) (secret_leases s))")
       (auto simp: consume_lease_def ConsumeSecretLease_def update_leases_def bindM_def mapErr_def q_exec_def fail_def)
qed

lemma issue_late:
  assumes "leases_ok s \<or> (\<forall>x \<in> set (secret_leases s). l_id x < seq s)" and "svc_now svc + ttl \<le> db_now s"
  shows "\<exists>e u. bindM (issue_lease svc row requester knd rmrn ttl) (\<lambda>issued. consume_lease issued True) s = (Inl e, u)"
proof (cases "issue_lease svc row requester knd rmrn ttl s")
  case (Pair r u)
  show ?thesis
  proof (cases r)
    case (Inr l)
    then have u: "secret_leases u = secret_leases s @ [l]" "db_now u = db_now s" "l_id l = seq s"
        "l_expires l = svc_now svc + ttl"
      using Pair by (auto simp: issue_lease_def mapErr_ok CreateSecretLease_def Let_def q_exec_ok)
    have "\<forall>x \<in> set (secret_leases u). l_id x = l_id l \<longrightarrow> l_expires x \<le> db_now u"
      using assms u leases_okD(2) [of s] by fastforce
    from consume_lease_late [OF this] Pair Inr show ?thesis by (simp add: bindM_def)
  qed (use Pair in \<open>auto simp: bindM_def\<close>)
qed

lemma lease_tx_late:
  assumes ok: "leases_ok s" and en: "Enabled lp" and late: "svc_now svc + ttl \<le> db_now s"
    and old: "\<forall>l \<in> set (secret_leases s). leases_of (s_tenant row) (s_id row) requester l \<longrightarrow> l_expires l \<le> db_now s"
  shows "\<exists>e u. lease_tx svc row lp ttl requester knd rmrn s = (Inl e, u)"
proof (cases "\<exists>l \<in> set (secret_leases s). leases_of (s_tenant row) (s_id row) requester l")
  case True
  then obtain l where l: "l \<in> set (secret_leases s)" "leases_of (s_tenant row) (s_id row) requester l" by blast
  let ?E = "Evaluate \<lparr>lr_policy = lp, lr_existing = Some (lease_state_of l), lr_expires = s_expires row, lr_now = svc_now svc\<rparr>"
  have "\<forall>x \<in> set (secret_leases s). l_id x = l_id l \<longrightarrow> l_expires x \<le> db_now s"
    using old l distinct_map_eq [OF leases_okD(1) [OF ok]] by fast
  from consume_lease_late [OF this] have c: "\<exists>e u. consume_lease l False s = (Inl e, u)" .
  have sup: "\<exists>e u. bindM (mapErr (\<lambda>e. LeaseApp (InternalError ''retire expired secret lease'' (DbCause e)))
      (RevokeSecretLease ''expired'' (l_id l))) (\<lambda>_. bindM (issue_lease svc row requester knd rmrn ttl) (\<lambda>issued. consume_lease issued True)) s
      = (Inl e, u)"
  proof (cases "RevokeSecretLease ''expired'' (l_id l) s")
    case (Pair r u)
    show ?thesis
    proof (cases r)
      case (Inr n)
      then have "map l_id (secret_leases u) = map l_id (secret_leases s)" "seq u = seq s" "db_now u = db_now s"
        using Pair by (auto simp: RevokeSecretLease_def update_leases_def Let_def q_exec_ok updating_def revoked_def)
      then have "\<forall>x \<in> set (secret_leases u). l_id x < seq u"
        using leases_okD(2) [OF ok] by (metis (no_types, lifting) imageE image_eqI list.set_map)
      with issue_late [of u svc ttl row requester knd rmrn] late \<open>db_now u = db_now s\<close> Pair Inr
      show ?thesis by (simp add: bindM_def mapErr_def)
    qed (use Pair in \<open>auto simp: bindM_def mapErr_def\<close>)
  qed
  obtain d r where e: "?E = (d, r)" by (cases ?E)
  have "d \<noteq> Issue" using Evaluate_Issue [of "\<lparr>lr_policy = lp, lr_existing = Some (lease_state_of l),
      lr_expires = s_expires row, lr_now = svc_now svc\<rparr>"] en e by auto
  moreover have "\<exists>x. r = Some x" if "d = Refuse" using Evaluate_Refuse e that by blast
  ultimately show ?thesis unfolding lease_tx_found [OF ok l] lease_decide_def option.map e
    using c sup by (cases d) (auto simp: fail_def)
next
  case False
  let ?R = "\<lparr>lr_policy = lp, lr_existing = None, lr_expires = s_expires row, lr_now = svc_now svc\<rparr>"
  have "fst (Evaluate ?R) = Issue \<or> (\<exists>x. Evaluate ?R = (Refuse, Some x))"
    using en by (auto simp: Evaluate_def evaluate_lease_def split: option.splits)
  moreover have "lease_tx svc row lp ttl requester knd rmrn s = lease_decide svc row lp ttl requester knd rmrn None s"
    by (rule lease_tx_absent) (use False in blast)
  ultimately show ?thesis
    using issue_late [OF disjI1 [OF ok] late, of row requester knd rmrn]
    by (cases "Evaluate ?R") (auto simp: lease_decide_def fail_def)
qed

text \<open>
  Two clocks that disagree stop the reads: when the database's clock is ahead of the process's by
  at least the lifetime of a lease, and past the expiry of the requester's lease if it has one, no
  reveal of a governed secret is served, however often it is retried: the lease that would be issued is
  already expired for \<open>ConsumeSecretLease\<close>, and the refusal rolls it back.
\<close>

theorem skewed_clock_refuses:
  assumes "leases_ok s" "secretRowByRef ref s = (Inr (row, a), s)" "governed_row row"
    and "ResolveTTL (toLeasePolicy (leasePolicyFromRow row)) req = Inr ttl" "svc_now svc + ttl \<le> db_now s"
    and "\<forall>l \<in> set (secret_leases s). leases_of (s_tenant row) (s_id row) requester l \<longrightarrow> l_expires l \<le> db_now s"
  shows "\<exists>e. AuthorizeLeasedRead svc ref requester knd rmrn req s = (Inl e, s)"
proof -
  let ?s = "s\<lparr>guc_delete := [], guc_rewrap := [], guc_transit := []\<rparr>" and ?lp = "toLeasePolicy (leasePolicyFromRow row)"
  have "\<exists>e u. lease_tx svc row ?lp ttl requester knd rmrn ?s = (Inl e, u)"
    using assms by (intro lease_tx_late) (simp_all add: governed_Enabled)
  then obtain e where "InTx (lease_tx svc row ?lp ttl requester knd rmrn) s = (Inl e, s)" by (auto simp: InTx_def)
  then show ?thesis by (simp add: authorize_run [OF assms(2,3)] assms(4))
qed

theorem skewed_clock_refuses_witness:
  "\<exists>e. AuthorizeLeasedRead sample_svc sample_ref ''cd'' [] ''m'' 0 (leased_db\<lparr>db_now := 60000000100\<rparr>)
     = (Inl e, leased_db\<lparr>db_now := 60000000100\<rparr>)"
proof -
  let ?s = "leased_db\<lparr>db_now := 60000000100\<rparr>"
  obtain row a l where r: "secretRowByRef sample_ref leased_db = (Inr (row, a), leased_db)" "governed_row row"
    "l \<in> set (secret_leases leased_db)" "leases_of (s_tenant row) (s_id row) ''ci'' l" "l_expires l = 60000000100"
    by (rule leased_obtain)
  have "secretRowByRef sample_ref ?s = (Inr (row, a), ?s)" by (rule secretRowByRef_cong [OF _ _ _ _ _ r(1)]) simp_all
  moreover obtain row' where f: "secrets leased_db = [row']" "s_lease_ttl row' = Some 60" "secret_leases leased_db = [l]"
    using leased_facts r(3) by (auto simp: leased_check_def split: list.splits)
  moreover have "row = row'"
    using secretRowByRef_row(3) [OF r(1)] f(1) by simp
  ultimately show ?thesis
    using skewed_clock_refuses [of ?s sample_ref row a 0 60000000000 sample_svc "''cd''" "[]" "''m''"] leased_ok r(2,5)
    by (simp add: ResolveTTL_def toLeasePolicy_def leasePolicyFromRow_def Second_def sample_svc_def)
qed

section \<open>Renewal\<close>

text \<open>What an issue needs: the requester's own leases are out of the way and the row can be inserted.\<close>

lemma issue_consume_ok:
  assumes ok: "leases_ok s" and fresh: "uuid_at s (seq s) \<notin> l_uuid ` set (secret_leases s)"
    and none: "\<forall>l \<in> set (secret_leases s). live_lease l \<longrightarrow> \<not> (l_secret l = s_id row \<and> l_requester l = requester)"
    and fk: "s_tenant row \<in> t_id ` set (tenants s)" "row \<in> set (secrets s)"
    and reads: "\<forall>k. s_lease_reads row = Some k \<longrightarrow> 1 \<le> k" and time: "db_now s < svc_now svc + ttl"
  shows "\<exists>d t. bindM (issue_lease svc row requester knd rmrn ttl) (\<lambda>issued. consume_lease issued True) s = (Inr d, t)
     \<and> Governed d \<and> Issued d \<and> leases_ok t
     \<and> (\<exists>l \<in> set (secret_leases t). leases_of (s_tenant row) (s_id row) requester l \<and> l_used l = 1
          \<and> l_max_reads l = s_lease_reads row \<and> l_expires l = svc_now svc + ttl)"
proof -
  define l where "l = \<lparr>l_id = seq s, l_uuid = uuid_at s (seq s), l_tenant = s_tenant row, l_secret = s_id row, l_mrn = rmrn,
           l_requester = requester, l_kind = defaultRequesterKind knd, l_issued = db_now s, l_expires = svc_now svc + ttl,
           l_max_reads = s_lease_reads row, l_used = 0, l_last_read = None, l_revoked = None, l_reason = [], l_created = db_now s\<rparr>"
  let ?u = "s\<lparr>secret_leases := secret_leases s @ [l], seq := Suc (seq s)\<rparr>"
  have l: "l_id l = seq s" "l_uuid l = uuid_at s (seq s)" "l_tenant l = s_tenant row" "l_secret l = s_id row"
      "l_requester l = requester" "l_expires l = svc_now svc + ttl" "l_max_reads l = s_lease_reads row" "l_used l = 0"
      "live_lease l"
    by (simp_all add: l_def live_lease_def)
  have "chk_secret_lease l = None" using reads by (auto simp: chk_secret_lease_def l_def split: option.splits)
  moreover have "uq_leases (secret_leases s @ [l])"
    using leases_okD(4) [OF ok] fresh none l by (auto simp: uq_leases_def)
  ultimately have err: "leases_error (secret_leases s @ [l]) = None"
    using leases_okD(5) [OF ok] by (auto simp: leases_error_None)
  have i: "issue_lease svc row requester knd rmrn ttl s = (Inr l, ?u)"
    unfolding issue_lease_def mapErr_ok CreateSecretLease_def Let_def l_def [symmetric] using err fk by (simp add: q_exec_ok)
  have "l_id l \<notin> l_id ` set (secret_leases s)" using leases_okD(2) [OF ok] l(1) by (metis imageE less_irrefl)
  then have u: "leases_ok ?u" "l \<in> set (secret_leases ?u)"
    using leases_okD(1,2) [OF ok] err l(1) by (auto simp: leases_ok_def less_Suc_eq)
  obtain r t where c: "consume_lease l True ?u = (r, t)" by (cases "consume_lease l True ?u")
  have "consumable (l_id l) (db_now ?u) l" using time reads l by (auto simp: consumable_def split: option.splits)
  with consume_lease_run [OF u c] l(8) obtain d where d: "r = Inr d" "Governed d" "Issued d" "leases_ok t"
      "t = with_lease l (one_read (db_now s)) ?u"
    by auto
  have m: "one_read (db_now s) l \<in> set (secret_leases t)" unfolding d(5) by (intro with_lease_mem u(2))
  have "leases_of (s_tenant row) (s_id row) requester (one_read (db_now s) l)" using l by (simp add: leases_of_def)
  with m d(2-4) i c l show ?thesis unfolding d(1)
    by (intro exI [of _ d] exI [of _ t] conjI bexI [of _ "one_read (db_now s) l"]) (simp_all add: bindM_def)
qed

lemma revoke_run:
  assumes ok: "leases_ok s" and l: "l \<in> set (secret_leases s)" "live_lease l" and r: "reason \<in> {''expired'', ''explicit'', ''policy''}"
  shows "RevokeSecretLease reason (l_id l) s = (Inr 1, with_lease l (revoked reason (db_now s)) s)
     \<and> leases_ok (with_lease l (revoked reason (db_now s)) s)"
proof -
  let ?f = "revoked reason (db_now s)" and ?P = "\<lambda>x. l_id x = l_id l \<and> live_lease x"
  let ?ls = "map (\<lambda>x. if x = l then ?f x else x) (secret_leases s)"
  have up: "updating ?P ?f (secret_leases s) = ?ls" "length (filter ?P (secret_leases s)) = 1"
    by (rule updating_one [where k = l_id], rule leases_okD(1) [OF ok], rule l(1), simp, use l in simp)+
  have sel: "l_id (?f x) = l_id x" "l_uuid (?f x) = l_uuid x" "\<not> live_lease (?f x)" for x
    by (simp_all add: revoked_def live_lease_def)
  have "chk_secret_lease (?f l) = None"
    using leases_okD(5) [OF ok l(1)] r by (auto simp: chk_secret_lease_def revoked_def split: if_splits option.splits)
  moreover have "uq_leases ?ls"
  proof -
    have "map l_uuid ?ls = map l_uuid (secret_leases s)" using sel by simp
    moreover have "filter live_lease ?ls = filter (\<lambda>x. x \<noteq> l) (filter live_lease (secret_leases s))"
    proof -
      have "filter live_lease (map (\<lambda>x. if x = l then ?f x else x) xs) = filter (\<lambda>x. x \<noteq> l) (filter live_lease xs)" for xs
        using sel by (induction xs) auto
      then show ?thesis .
    qed
    ultimately show ?thesis using leases_okD(4) [OF ok] by (simp add: uq_leases_def distinct_map_filter del: map_map filter_filter)
  qed
  ultimately have err: "leases_error ?ls = None" using leases_okD(5) [OF ok] by (auto simp: leases_error_None)
  moreover have "map l_id ?ls = map l_id (secret_leases s)" using sel by simp
  ultimately have "leases_ok (s\<lparr>secret_leases := ?ls\<rparr>)"
    using leases_okD(1,2) [OF ok] sel unfolding leases_ok_def by (auto simp del: map_map)
  with err show ?thesis unfolding RevokeSecretLease_def update_leases_def Let_def up with_lease_def by (simp add: q_exec_def)
qed

lemma lease_tx_renews:
  assumes ok: "leases_ok s" and en: "Enabled lp" and fresh: "uuid_at s (seq s) \<notin> l_uuid ` set (secret_leases s)"
    and alive: "\<forall>e. s_expires row = Some e \<longrightarrow> svc_now svc < e" and time: "db_now s < svc_now svc + ttl"
    and old: "\<forall>l \<in> set (secret_leases s). leases_of (s_tenant row) (s_id row) requester l \<longrightarrow> l_expires l \<le> svc_now svc"
    and same: "\<forall>l \<in> set (secret_leases s). l_secret l = s_id row \<longrightarrow> l_tenant l = s_tenant row"
    and fk: "s_tenant row \<in> t_id ` set (tenants s)" "row \<in> set (secrets s)"
    and reads: "\<forall>k. s_lease_reads row = Some k \<longrightarrow> 1 \<le> k"
  shows "\<exists>d t. lease_tx svc row lp ttl requester knd rmrn s = (Inr d, t) \<and> Governed d \<and> Issued d \<and> leases_ok t
     \<and> (\<exists>l \<in> set (secret_leases t). leases_of (s_tenant row) (s_id row) requester l \<and> l_used l = 1
          \<and> l_max_reads l = s_lease_reads row \<and> l_expires l = svc_now svc + ttl)"
proof (cases "\<exists>l \<in> set (secret_leases s). leases_of (s_tenant row) (s_id row) requester l")
  case True
  then obtain l where l: "l \<in> set (secret_leases s)" "leases_of (s_tenant row) (s_id row) requester l" by blast
  let ?R = "\<lparr>lr_policy = lp, lr_existing = Some (lease_state_of l), lr_expires = s_expires row, lr_now = svc_now svc\<rparr>"
  let ?u = "with_lease l (revoked ''expired'' (db_now s)) s"
  have "fst (Evaluate ?R) = Supersede" using Evaluate_Supersede [of ?R] en alive old l by simp
  then obtain x where e: "Evaluate ?R = (Supersede, x)" by (cases "Evaluate ?R") auto
  have rv: "RevokeSecretLease ''expired'' (l_id l) s = (Inr 1, ?u)" "leases_ok ?u"
    using revoke_run [OF ok l(1), of "''expired''"] l(2) by (simp_all add: leases_of_def)
  have set: "set (secret_leases ?u) \<subseteq> insert (revoked ''expired'' (db_now s) l) (set (secret_leases s) - {l})"
    by (auto simp: with_lease_def)
  have dead: "\<not> live_lease (revoked ''expired'' (db_now s) l)" by (simp add: revoked_def live_lease_def)
  have "\<not> (l_secret x = s_id row \<and> l_requester x = requester)" if "x \<in> set (secret_leases ?u)" "live_lease x" for x
  proof
    assume "l_secret x = s_id row \<and> l_requester x = requester"
    moreover have "x \<in> set (secret_leases s)" "x \<noteq> l" using that set dead l(2) by (auto simp: leases_of_def)
    ultimately show False using lease_unique [OF ok l(1) _ l(2)] same that(2) by (auto simp: leases_of_def)
  qed
  moreover have "l_uuid ` set (secret_leases ?u) \<subseteq> l_uuid ` set (secret_leases s)" using set l(1) by (auto simp: revoked_def)
  ultimately have "\<exists>d t. bindM (issue_lease svc row requester knd rmrn ttl) (\<lambda>issued. consume_lease issued True) ?u = (Inr d, t)
     \<and> Governed d \<and> Issued d \<and> leases_ok t
     \<and> (\<exists>l \<in> set (secret_leases t). leases_of (s_tenant row) (s_id row) requester l \<and> l_used l = 1
          \<and> l_max_reads l = s_lease_reads row \<and> l_expires l = svc_now svc + ttl)"
    using rv(2) fresh fk reads time by (intro issue_consume_ok) (auto simp: with_lease_def)
  then obtain d t where issue: "bindM (issue_lease svc row requester knd rmrn ttl) (\<lambda>issued. consume_lease issued True) ?u = (Inr d, t)"
     "Governed d" "Issued d" "leases_ok t" "\<exists>l \<in> set (secret_leases t). leases_of (s_tenant row) (s_id row) requester l \<and> l_used l = 1
          \<and> l_max_reads l = s_lease_reads row \<and> l_expires l = svc_now svc + ttl" by blast
  moreover have "mapErr (\<lambda>e. LeaseApp (InternalError ''retire expired secret lease'' (DbCause e)))
      (RevokeSecretLease ''expired'' (l_id l)) s = (Inr 1, ?u)" using rv(1) by (simp add: mapErr_ok)
  ultimately have "lease_tx svc row lp ttl requester knd rmrn s = (Inr d, t)"
    unfolding lease_tx_found [OF ok l] lease_decide_def option.map e by (auto simp: bindM_ok)
  with issue show ?thesis by blast
next
  case False
  let ?R = "\<lparr>lr_policy = lp, lr_existing = None, lr_expires = s_expires row, lr_now = svc_now svc\<rparr>"
  have "fst (Evaluate ?R) = Issue" using Evaluate_Issue [of ?R] en alive by simp
  then obtain x where e: "Evaluate ?R = (Issue, x)" by (cases "Evaluate ?R") auto
  have "lease_tx svc row lp ttl requester knd rmrn s = lease_decide svc row lp ttl requester knd rmrn None s"
    by (rule lease_tx_absent) (use False in blast)
  then show ?thesis unfolding lease_decide_def option.map e
    using issue_consume_ok [OF ok fresh _ fk reads time, of requester knd rmrn] False same
    by (auto simp: leases_of_def)
qed

text \<open>
  C32: the cap is a rate, not a budget: once the requester has no lease, or its lease has run out on the
  process's clock (exhausted or not), the next reveal of a governed secret that has not itself expired
  is served, as the first read of a fresh lease with the full allowance of the policy, provided the
  database's clock is not past that lease's expiry.
\<close>

theorem expired_lease_renews:
  assumes "leases_ok s" "store_ok s" "secretRowByRef ref s = (Inr (row, a), s)" "governed_row row"
    and "ResolveTTL (toLeasePolicy (leasePolicyFromRow row)) req = Inr ttl" "db_now s < svc_now svc + ttl"
    and "\<forall>e. s_expires row = Some e \<longrightarrow> svc_now svc < e" "uuid_at s (seq s) \<notin> l_uuid ` set (secret_leases s)"
    and "\<forall>l \<in> set (secret_leases s). leases_of (s_tenant row) (s_id row) requester l \<longrightarrow> l_expires l \<le> svc_now svc"
    and "\<forall>l \<in> set (secret_leases s). l_secret l = s_id row \<longrightarrow> l_tenant l = s_tenant row"
  shows "\<exists>d t. AuthorizeLeasedRead svc ref requester knd rmrn req s = (Inr d, t) \<and> Governed d \<and> Issued d \<and> leases_ok t
     \<and> (\<exists>l \<in> set (secret_leases t). leases_of (s_tenant row) (s_id row) requester l \<and> l_used l = 1
          \<and> l_max_reads l = s_lease_reads row \<and> l_expires l = svc_now svc + ttl)"
proof -
  let ?s = "s\<lparr>guc_delete := [], guc_rewrap := [], guc_transit := []\<rparr>" and ?lp = "toLeasePolicy (leasePolicyFromRow row)"
  note row = secretRowByRef_row [OF assms(3)]
  have "chk_secret row = None" using store_okD(2) [OF assms(2)] row(3) by (simp add: secrets_error_None)
  then have reads: "\<forall>k. s_lease_reads row = Some k \<longrightarrow> 1 \<le> k"
    by (auto simp: chk_secret_def chk_lease_def split: if_splits)
  have "scope_in s (ad_scope a)" using resolveAddress_ok [OF row(2)] by blast
  then have tenant: "s_tenant row \<in> t_id ` set (tenants s)" using row(4) by (auto simp: at_address_def scope_in_def)
  have "\<exists>d t. lease_tx svc row ?lp ttl requester knd rmrn ?s = (Inr d, t) \<and> Governed d \<and> Issued d \<and> leases_ok t
     \<and> (\<exists>l \<in> set (secret_leases t). leases_of (s_tenant row) (s_id row) requester l \<and> l_used l = 1
          \<and> l_max_reads l = s_lease_reads row \<and> l_expires l = svc_now svc + ttl)"
    using assms row(3) tenant reads governed_Enabled [OF assms(4)] by (intro lease_tx_renews) simp_all
  then obtain d t where tx: "lease_tx svc row ?lp ttl requester knd rmrn ?s = (Inr d, t)" "Governed d" "Issued d" "leases_ok t"
      "\<exists>l \<in> set (secret_leases t). leases_of (s_tenant row) (s_id row) requester l \<and> l_used l = 1
          \<and> l_max_reads l = s_lease_reads row \<and> l_expires l = svc_now svc + ttl" by blast
  have "AuthorizeLeasedRead svc ref requester knd rmrn req s
      = (Inr d, t\<lparr>guc_delete := guc_delete s, guc_rewrap := guc_rewrap s, guc_transit := guc_transit s\<rparr>)"
    using tx(1) by (simp add: authorize_run [OF assms(3,4)] assms(5) InTx_def)
  with tx(2-5) show ?thesis
    by (intro exI [of _ d] exI [of _ "t\<lparr>guc_delete := guc_delete s, guc_rewrap := guc_rewrap s, guc_transit := guc_transit s\<rparr>"]) simp
qed

lemma leased_store_ok: "store_ok leased_db"
  unfolding leased_db_def
  by (rule keepsD [OF lease_ops_keep(1) surjective_pairing], rule keepsD [OF lease_ops_keep(2) surjective_pairing],
      rule sample_one_ok)

theorem expired_lease_renews_witness:
  "\<exists>d t. AuthorizeLeasedRead (sample_svc\<lparr>svc_now := 60000000100\<rparr>) sample_ref ''ci'' [] ''m'' 0 leased_db = (Inr d, t)
     \<and> Issued d"
proof -
  let ?svc = "sample_svc\<lparr>svc_now := 60000000100\<rparr>"
  obtain row a l where r: "secretRowByRef sample_ref leased_db = (Inr (row, a), leased_db)" "governed_row row"
    "l \<in> set (secret_leases leased_db)" "leases_of (s_tenant row) (s_id row) ''ci'' l" "l_expires l = 60000000100"
    by (rule leased_obtain)
  obtain row' where f: "secrets leased_db = [row']" "s_lease_ttl row' = Some 60" "secret_leases leased_db = [l]"
      "s_expires row' = None" "s_lease_max row' = None" "l_uuid l \<noteq> uuid_at leased_db (seq leased_db)"
    using leased_facts r(3) by (auto simp: leased_check_def split: list.splits)
  have row: "row = row'" using secretRowByRef_row(3) [OF r(1)] f(1) by simp
  have ttl: "ResolveTTL (toLeasePolicy (leasePolicyFromRow row)) 0 = Inr 60000000000"
    by (simp add: row f ResolveTTL_def toLeasePolicy_def leasePolicyFromRow_def Second_def)
  have now: "db_now leased_db < svc_now ?svc + 60000000000" by code_simp
  have l: "l_tenant l = s_tenant row" using r(4) by (simp add: leases_of_def)
  have "\<exists>d t. AuthorizeLeasedRead ?svc sample_ref ''ci'' [] ''m'' 0 leased_db = (Inr d, t) \<and> Governed d \<and> Issued d \<and> leases_ok t
     \<and> (\<exists>l \<in> set (secret_leases t). leases_of (s_tenant row) (s_id row) ''ci'' l \<and> l_used l = 1
          \<and> l_max_reads l = s_lease_reads row \<and> l_expires l = svc_now ?svc + 60000000000)"
    by (rule expired_lease_renews [OF leased_ok leased_store_ok r(1,2) ttl now])
       (use f f(6) [symmetric] l r(5) in \<open>auto simp: row\<close>)
  then show ?thesis by blast
qed

end
