(* ===== verification/Vault.thy ===== *)
theory Vault
  imports SecretProps
begin

text \<open>
  The abstract view of the store: a map from references to contents (value type and plaintext). A put
  that writes a version refines the update of the map at the place of its reference, a delete the removal
  of that place; every other reference reads what it read before.
\<close>

section \<open>The abstraction\<close>

definition place :: "db \<Rightarrow> secret_ref \<Rightarrow> address option" where
  "place s ref = (case fst (resolveAddress ref s) of Inr a \<Rightarrow> Some a | Inl e \<Rightarrow> None)"

type_synonym vault = "secret_ref \<Rightarrow> (string \<times> bytes) option"

definition vault :: "service \<Rightarrow> db \<Rightarrow> vault" where
  "vault svc s ref = (case fst (GetSecret svc ref s) of Inr r \<Rightarrow> Some (rv_type r, rv_value r) | Inl e \<Rightarrow> None)"

text \<open>The abstract operation: all references to one place are given one content.\<close>

definition set_place :: "(secret_ref \<Rightarrow> address option) \<Rightarrow> secret_ref \<Rightarrow> (string \<times> bytes) option \<Rightarrow> vault \<Rightarrow> vault" where
  "set_place pl ref x m = (\<lambda>r. if pl r = pl ref then x else m r)"

section \<open>What a reference reads\<close>

definition rows_at :: "address \<Rightarrow> db \<Rightarrow> secret list" where
  "rows_at a s = filter (at_address (t_id (sc_tenant (ad_scope a))) (e_id (sc_env (ad_scope a))) (f_id (ad_folder a)) (ad_key a)) (secrets s)"

lemma resolve_cases:
  obtains e where "resolveAddress ref s = (Inl e, s)" | a where "resolveAddress ref s = (Inr a, s)"
proof (cases "resolveAddress ref s")
  case (Pair r t)
  with pure_opD [OF pure_resolveAddress Pair] that show thesis by (cases r) auto
qed

lemma vault_unresolved: "resolveAddress ref s = (Inl e, s) \<Longrightarrow> vault svc s ref = None"
  by (simp add: vault_def GetSecret_def getVersion_def bindM_def)

lemma vault_no_row: "resolveAddress ref s = (Inr a, s) \<Longrightarrow> rows_at a s = [] \<Longrightarrow> vault svc s ref = None"
  by (simp add: vault_def GetSecret_def getVersion_def bindM_def secret_at_def mapErr_def GetSecretByAddress_def q_one_def rows_at_def)

lemma vault_frame:
  assumes "resolveAddress ref s = (Inr a, s)" "resolveAddress ref t = (Inr a, t)" "rows_at a t = rows_at a s"
    and "\<And>x. x \<in> set (rows_at a s) \<Longrightarrow> versions_desc (s_id x) t = versions_desc (s_id x) s"
  shows "vault svc t ref = vault svc s ref"
proof (cases "rows_at a s")
  case Nil
  with assms vault_no_row show ?thesis by metis
next
  case (Cons x xs)
  then have v: "versions_desc (s_id x) t = versions_desc (s_id x) s" using assms(4) by simp
  have at: "secret_at a u = (Inr x, u)" if "rows_at a u = x # xs" for u
    using that by (simp add: secret_at_def mapErr_def GetSecretByAddress_def q_one_def rows_at_def)
  have "secret_at a s = (Inr x, s)" "secret_at a t = (Inr x, t)" using at Cons assms(3) by simp_all
  with assms(1,2) v show ?thesis
    by (cases "versions_desc (s_id x) s")
      (simp_all add: vault_def GetSecret_def getVersion_def bindM_def mapErr_def GetLatestSecretVersion_def q_one_def
        liftR_def ret_def split: sum.split)
qed

lemma resolveAddress_iff: "resolveAddress ref s = (Inr a, s) \<longleftrightarrow> ValidateKey (r_key ref) = None
    \<and> (\<exists>path sc f. NormalizePath (r_folder ref) = Inr path
      \<and> resolveEnvironment (r_tenant ref) (r_project ref) (r_environment ref) s = (Inr sc, s)
      \<and> folder_at sc path s = (Inr f, s) \<and> a = \<lparr>ad_scope = sc, ad_folder = f, ad_key = r_key ref\<rparr>)"
  by (auto simp: resolveAddress_def run_ok pure_run [OF pure_resolveEnvironment] pure_run [OF pure_folder_at])

text \<open>More folders resolve more references, the old ones as before.\<close>

lemma resolve_more:
  assumes "tenants t = tenants s" "projects t = projects s" "environments t = environments s" "folders t = folders s @ new"
  shows "resolveAddress ref s = (Inr a, s) \<Longrightarrow> resolveAddress ref t = (Inr a, t)"
    and "resolveAddress ref t = (Inr a, t) \<Longrightarrow> resolveAddress ref s = (Inr a, s) \<or> ad_folder a \<in> set new"
proof -
  have tei: "tenant_env_ids tid t = tenant_env_ids tid s" for tid by (simp add: tenant_env_ids_def assms)
  have env: "resolveEnvironment tu p e t = (Inr sc, t) \<longleftrightarrow> resolveEnvironment tu p e s = (Inr sc, s)" for tu p e sc
    using resolveEnvironment_cong [of t s] resolveEnvironment_cong [of s t] assms by metis
  have old: "folder_at sc path s = (Inr f, s) \<Longrightarrow> folder_at sc path t = (Inr f, t)" for sc path f
    by (auto simp: folder_at_def GetFolderByPath_def q_ok tei assms(4))
  have new: "folder_at sc path t = (Inr f, t) \<Longrightarrow> folder_at sc path s = (Inr f, s) \<or> f \<in> set new" for sc path f
  proof -
    let ?P = "\<lambda>f. f_env f = e_id (sc_env sc) \<and> f_path f = path \<and> live_folder f
        \<and> f_env f \<in> set (tenant_env_ids (t_id (sc_tenant sc)) s)"
    assume "folder_at sc path t = (Inr f, t)"
    then obtain rs where rs: "filter ?P (folders s) @ filter ?P new = f # rs"
      by (auto simp: folder_at_def GetFolderByPath_def q_ok tei assms(4))
    show ?thesis
    proof (cases "filter ?P (folders s)")
      case Nil
      with rs show ?thesis by (auto dest!: filter_Cons_in)
    next
      case (Cons g gs)
      with rs have "filter ?P (folders s) = f # gs" by simp
      then show ?thesis by (simp add: folder_at_def GetFolderByPath_def q_one_def)
    qed
  qed
  show "resolveAddress ref s = (Inr a, s) \<Longrightarrow> resolveAddress ref t = (Inr a, t)"
    using old env unfolding resolveAddress_iff by blast
  show "resolveAddress ref t = (Inr a, t) \<Longrightarrow> resolveAddress ref s = (Inr a, s) \<or> ad_folder a \<in> set new"
    using new env unfolding resolveAddress_iff by fastforce
qed

section \<open>Put refines the update of a place\<close>

lemma put_effect:
  assumes run: "PutSecret svc rnd inp s = (Inr res, t)" and ok: "store_ok s" and new: "\<not> pr_unchanged res"
  obtains a added row ss v where "resolveAddress (pi_ref inp) t = (Inr a, t)"
    "tenants t = tenants s" "projects t = projects s" "environments t = environments s" "folders t = folders s @ added"
    "\<forall>f \<in> set added. seq s \<le> f_id f" "row \<in> set ss" "ss = secrets s \<or> ss = secrets s @ [row]"
    "secrets t = map (\<lambda>r. if s_id r = s_id row then v else r) ss" "distinct (map s_id ss)"
    "at_address (t_id (sc_tenant (ad_scope a))) (e_id (sc_env (ad_scope a))) (f_id (ad_folder a)) (ad_key a) row"
    "\<And>tid eid fid key. at_address tid eid fid key v = at_address tid eid fid key row"
    "\<And>i. i \<noteq> s_id row \<Longrightarrow> versions_desc i t = versions_desc i s"
proof -
  let ?s = "s\<lparr>guc_delete := [], guc_rewrap := [], guc_transit := []\<rparr>"
  obtain val path u where v: "ValidateKey (r_key (pi_ref inp)) = None" "NormalizePath (r_folder (pi_ref inp)) = Inr path"
      "put_tx svc rnd inp val (if pi_type inp = [] then ''opaque'' else pi_type inp) path ?s = (Inr res, u)"
      "t = u\<lparr>guc_delete := guc_delete s, guc_rewrap := guc_rewrap s, guc_transit := guc_transit s\<rparr>"
    using PutSecret_ok [OF run] by blast
  have "store_ok ?s" using ok by simp
  from put_tx_ok [OF v(3) this Normalize_canonical [OF v(2)]] show thesis
  proof (rule put_shapeE)
    assume "pr_unchanged res"
    with new show ?thesis by simp
  next
    fix sc folder s1 row s2 created
    let ?addr = "\<lparr>ad_scope = sc, ad_folder = folder, ad_key = r_key (pi_ref inp)\<rparr>"
    assume e: "resolveEnvironment (r_tenant (pi_ref inp)) (r_project (pi_ref inp)) (r_environment (pi_ref inp)) ?s = (Inr sc, ?s)"
      and m: "more_folders ?s s1" and f: "folder_at sc path s1 = (Inr folder, s1)"
      and at: "at_address (t_id (sc_tenant sc)) (e_id (sc_env sc)) (f_id folder) (r_key (pi_ref inp)) row"
      and ok2: "store_ok s2" and row: "row \<in> set (secrets s2)"
      and s2: "s2 = s1 \<and> \<not> created \<or> created \<and> s2 = s1\<lparr>secrets := secrets s1 @ [row], seq := Suc (seq s1)\<rparr> \<and> s_current row = 0"
      and run2: "put_append svc rnd inp val (if pi_type inp = [] then ''opaque'' else pi_type inp) ?addr row created s2 = (Inr res, u)"
    obtain added where added: "folders s1 = folders s @ added" "\<forall>f \<in> set added. seq s \<le> f_id f"
      using m unfolding more_folders_def by auto
    have s1: "tenants s1 = tenants s" "projects s1 = projects s" "environments s1 = environments s" "secrets s1 = secrets s"
        "versions s1 = versions s"
      using more_folders_same [OF m] by simp_all
    have l: "s_tenant row = t_id (sc_tenant (ad_scope ?addr))" "live_secret row" using at by (simp_all add: at_address_def)
    obtain w g where w: "v_secret w = s_id row"
      and u: "u = appended s2 row w (advanced svc s2 row) (effectiveKeepVersions svc (advanced svc s2 row)) g"
      using put_append_ok [OF run2 ok2 row l] by blast
    have t: "tenants t = tenants s" "projects t = projects s" "environments t = environments s" "folders t = folders s @ added"
        "secrets t = map (\<lambda>r. if s_id r = s_id row then advanced svc s2 row else r) (secrets s2)"
      using s2 s1 added(1) by (auto simp: v(4) u)
    have "resolveEnvironment (r_tenant (pi_ref inp)) (r_project (pi_ref inp)) (r_environment (pi_ref inp)) t = (Inr sc, t)"
      by (rule resolveEnvironment_cong [OF _ _ _ e]) (simp_all add: t)
    moreover have "folder_at sc path t = (Inr folder, t)"
      by (rule folder_at_cong [OF _ _ _ f]) (simp_all add: t s1 added(1))
    ultimately have a: "resolveAddress (pi_ref inp) t = (Inr ?addr, t)" using resolveAddress_run [OF v(1,2)] by blast
    have vs: "versions_desc i t = versions_desc i s" if "i \<noteq> s_id row" for i
    proof -
      have "versions_of i t = versions_of i s"
        using that s2 s1(5) w by (auto simp: v(4) u versions_of_def kept_versions_def filter_filter intro: filter_cong)
      then show ?thesis by (simp add: versions_desc_def)
    qed
    show thesis
      by (rule that [OF a t(1-4) added(2) row _ t(5) store_okD(1) [OF ok2]])
        (use s2 s1(4) at vs in \<open>auto simp: at_address_def advanced_def live_secret_def\<close>)
  qed
qed

text \<open>The primary keys of the tables that hold the scopes.\<close>

definition scope_keys :: "db \<Rightarrow> bool" where
  "scope_keys s \<longleftrightarrow> distinct (map t_id (tenants s)) \<and> distinct (map p_id (projects s)) \<and> distinct (map e_id (environments s))"

definition same_ids :: "address \<Rightarrow> address \<Rightarrow> bool" where
  "same_ids a b \<longleftrightarrow> t_id (sc_tenant (ad_scope a)) = t_id (sc_tenant (ad_scope b)) \<and> e_id (sc_env (ad_scope a)) = e_id (sc_env (ad_scope b))
     \<and> f_id (ad_folder a) = f_id (ad_folder b) \<and> ad_key a = ad_key b"

lemma same_ids_eq:
  assumes "resolveAddress ref s = (Inr a, s)" "resolveAddress ref' s = (Inr b, s)" "scope_keys s" "distinct (map f_id (folders s))"
    and "same_ids a b"
  shows "a = b"
proof -
  have in_s: "scope_in s (ad_scope c) \<and> ad_folder c \<in> set (folders s)" if "resolveAddress q s = (Inr c, s)" for q c
    using that unfolding resolveAddress_iff
    by (auto dest: resolveEnvironment_ok simp: folder_at_def GetFolderByPath_def q_ok dest!: filter_Cons_in)
  note A = in_s [OF assms(1)] and B = in_s [OF assms(2)]
  note eq = assms(3) [unfolded scope_keys_def]
  have t: "sc_tenant (ad_scope a) = sc_tenant (ad_scope b)"
    using A B assms(5) eq by (auto simp: scope_in_def same_ids_def intro: distinct_map_eq)
  moreover have e: "sc_env (ad_scope a) = sc_env (ad_scope b)"
    using A B assms(5) eq by (auto simp: scope_in_def same_ids_def intro: distinct_map_eq)
  moreover have "sc_project (ad_scope a) = sc_project (ad_scope b)"
    using A B e eq by (auto simp: scope_in_def intro: distinct_map_eq)
  moreover have "ad_folder a = ad_folder b"
    using A B assms(4,5) by (auto simp: same_ids_def intro: distinct_map_eq)
  ultimately show ?thesis using assms(5) by (simp add: same_ids_def)
qed

lemma not_same_ids: "\<not> same_ids a b \<Longrightarrow>
    at_address (t_id (sc_tenant (ad_scope a))) (e_id (sc_env (ad_scope a))) (f_id (ad_folder a)) (ad_key a) row \<Longrightarrow>
    \<not> at_address (t_id (sc_tenant (ad_scope b))) (e_id (sc_env (ad_scope b))) (f_id (ad_folder b)) (ad_key b) row"
  by (auto simp: at_address_def same_ids_def)

lemma vault_elsewhere:
  assumes ok: "store_ok s" and same: "tenants t = tenants s" "projects t = projects s" "environments t = environments s"
      "folders t = folders s @ added" "\<forall>f \<in> set added. seq s \<le> f_id f"
    and ss: "row \<in> set ss" "ss = secrets s \<or> ss = secrets s @ [row]" "distinct (map s_id ss)"
    and t: "secrets t = map (\<lambda>r. if s_id r = s_id row then v else r) ss"
    and b: "resolveAddress ref t = (Inr b, t)"
    and nat: "\<not> at_address (t_id (sc_tenant (ad_scope b))) (e_id (sc_env (ad_scope b))) (f_id (ad_folder b)) (ad_key b) row"
      "\<not> at_address (t_id (sc_tenant (ad_scope b))) (e_id (sc_env (ad_scope b))) (f_id (ad_folder b)) (ad_key b) v"
    and vs: "\<And>i. i \<noteq> s_id row \<Longrightarrow> versions_desc i t = versions_desc i s"
  shows "vault svc t ref = vault svc s ref"
proof -
  let ?at = "at_address (t_id (sc_tenant (ad_scope b))) (e_id (sc_env (ad_scope b))) (f_id (ad_folder b)) (ad_key b)"
  have other: "s_id r \<noteq> s_id row" if "r \<in> set ss" "?at r" for r
    using that distinct_map_eq [OF ss(3) that(1) ss(1)] nat(1) by metis
  have "filter ?at (map (\<lambda>r. if s_id r = s_id row then v else r) xs) = filter ?at xs" if "set xs \<subseteq> set ss" for xs
    using that
  proof (induction xs)
    case (Cons x xs)
    then show ?case using other [of x] nat(2) by auto
  qed simp
  then have "rows_at b t = filter ?at ss" by (simp add: rows_at_def t)
  then have rows: "rows_at b t = rows_at b s" using ss(2) nat(1) by (auto simp: rows_at_def)
  have ids: "s_id x \<noteq> s_id row" if "x \<in> set (rows_at b s)" for x
    using that ss(2) other by (auto simp: rows_at_def)
  show ?thesis
  proof (rule resolve_cases [of ref s])
    fix a assume a: "resolveAddress ref s = (Inr a, s)"
    with resolve_more(1) [OF same(1-4) a] b have a': "resolveAddress ref s = (Inr b, s)" by simp
    show ?thesis by (rule vault_frame [OF a' b rows vs [OF ids]])
  next
    fix e assume e: "resolveAddress ref s = (Inl e, s)"
    then have "ad_folder b \<in> set added" using resolve_more(2) [OF same(1-4) b] by auto
    then have "seq s \<le> f_id (ad_folder b)" using same(5) by blast
    then have "rows_at b s = []"
      using store_okD(7) [OF ok] by (force simp: rows_at_def filter_empty_conv at_address_def secret_ok_def)
    with rows vault_no_row [OF b] vault_unresolved [OF e] show ?thesis by simp
  qed
qed

lemma vault_unresolved_both:
  assumes "tenants t = tenants s" "projects t = projects s" "environments t = environments s" "folders t = folders s @ added"
    and "resolveAddress ref t = (Inl e, t)"
  shows "vault svc t ref = vault svc s ref"
proof (rule resolve_cases [of ref s])
  fix a assume "resolveAddress ref s = (Inr a, s)"
  from resolve_more(1) [OF assms(1-4) this] assms(5) show ?thesis by simp
next
  fix d assume "resolveAddress ref s = (Inl d, s)"
  with assms(5) show ?thesis by (simp add: vault_unresolved)
qed

text \<open>
  C14: \<open>PutSecret\<close> refines the update of a map. In the abstract view of the store, a map from
  references to type and plaintext, a put that writes a version is exactly the assignment of the new type and value at the place of its reference: every reference to that
  place reads them, and every other reference, of whatever tenant, reads what it read before.
\<close>

theorem put_refines_update:
  assumes "PutSecret svc rnd inp s = (Inr res, t)" "\<not> pr_unchanged res" "store_ok s" "scope_keys s" "ring_ok svc"
    and "pi_value inp = Some val"
  shows "place t (pi_ref inp) \<noteq> None
     \<and> vault svc t = set_place (place t) (pi_ref inp) (Some (if pi_type inp = [] then ''opaque'' else pi_type inp, val)) (vault svc s)"
proof -
  obtain a added row ss v where
      a: "resolveAddress (pi_ref inp) t = (Inr a, t)"
    and same: "tenants t = tenants s" "projects t = projects s" "environments t = environments s" "folders t = folders s @ added"
      "\<forall>f \<in> set added. seq s \<le> f_id f"
    and ss: "row \<in> set ss" "ss = secrets s \<or> ss = secrets s @ [row]"
    and t: "secrets t = map (\<lambda>r. if s_id r = s_id row then v else r) ss" "distinct (map s_id ss)"
    and at: "at_address (t_id (sc_tenant (ad_scope a))) (e_id (sc_env (ad_scope a))) (f_id (ad_folder a)) (ad_key a) row"
      "\<And>tid eid fid key. at_address tid eid fid key v = at_address tid eid fid key row"
      "\<And>i. i \<noteq> s_id row \<Longrightarrow> versions_desc i t = versions_desc i s"
    by (rule put_effect [OF assms(1,3,2)], rule that) blast+
  have keys: "scope_keys t" "distinct (map f_id (folders t))"
    using assms(4) store_okD(9) [OF PutSecret_store_ok [OF assms(1,3)]] by (simp_all add: scope_keys_def same)
  obtain r where r: "GetSecret svc (pi_ref inp) t = (Inr r, t)" "rv_value r = val"
      "rv_type r = (if pi_type inp = [] then ''opaque'' else pi_type inp)"
    using put_get [OF assms(1,3,5,2)] assms(6) by auto
  have "vault svc t ref = (if place t ref = Some a
      then Some (if pi_type inp = [] then ''opaque'' else pi_type inp, val) else vault svc s ref)" for ref
  proof (rule resolve_cases [of ref t])
    fix e assume e: "resolveAddress ref t = (Inl e, t)"
    from vault_unresolved_both [OF same(1-4) e, of svc] e show ?thesis by (simp add: place_def)
  next
    fix b assume b: "resolveAddress ref t = (Inr b, t)"
    show ?thesis
    proof (cases "b = a")
      case True
      have "vault svc t ref = vault svc t (pi_ref inp)"
        using a b True by (simp add: vault_def GetSecret_def getVersion_def bindM_def)
      with b True r show ?thesis by (simp add: place_def vault_def)
    next
      case False
      then have "\<not> same_ids a b" using same_ids_eq [OF a b keys] by blast
      from not_same_ids [OF this at(1)] at(2)
      have "vault svc t ref = vault svc s ref"
        by (intro vault_elsewhere [OF assms(3) same ss t(2,1) b]) (simp_all add: at(3))
      with b False show ?thesis by (simp add: place_def)
    qed
  qed
  moreover have "place t (pi_ref inp) = Some a" by (simp add: place_def a)
  ultimately show ?thesis by (simp add: set_place_def fun_eq_iff)
qed

lemma sample_scope_keys: "scope_keys sample_db"
  by code_simp

theorem put_refines_update_witness:
  "\<exists>res t. PutSecret sample_svc sample_draws sample_put sample_db = (Inr res, t)
     \<and> vault sample_svc t = set_place (place t) sample_ref (Some (''opaque'', bytes_of ''pw'')) (vault sample_svc sample_db)"
proof -
  obtain res t where r: "PutSecret sample_svc sample_draws sample_put sample_db = (Inr res, t)" "\<not> pr_unchanged res"
    by (rule sample_put_obtain)
  from put_refines_update [OF r sample_ok sample_scope_keys sample_ring_ok, of "bytes_of ''pw''"] r(1) show ?thesis
    by (simp add: sample_put_def)
qed

text \<open>
  C15: \<open>DeleteSecret\<close> refines the removal from the map: every reference to the place of the deleted secret
  reads nothing, every other reference reads what it read before.
\<close>

theorem delete_refines_removal:
  assumes "DeleteSecret svc ref win s = (Inr d, t)" "store_ok s" "scope_keys s"
  shows "place s ref \<noteq> None \<and> vault svc t = set_place (place s) ref None (vault svc s)"
proof -
  obtain a row where a: "resolveAddress ref s = (Inr a, s)" "secret_at a s = (Inr row, s)" "row \<in> set (secrets s)"
    and t: "t = s\<lparr>secrets := map (\<lambda>r. if s_id r = s_id row then row\<lparr>s_deleted := Some (db_now s),
         s_destroy := Some (destroyAfter svc win)\<rparr> else r) (secrets s)\<rparr>"
    using DeleteSecret_state [OF assms(1,2)] by blast
  define v where "v = row\<lparr>s_deleted := Some (db_now s), s_destroy := Some (destroyAfter svc win)\<rparr>"
  have same: "tenants t = tenants s" "projects t = projects s" "environments t = environments s" "folders t = folders s @ []"
      "\<forall>f \<in> set []. seq s \<le> f_id f" "secrets t = map (\<lambda>r. if s_id r = s_id row then v else r) (secrets s)"
      "\<And>i. versions_desc i t = versions_desc i s"
    by (simp_all add: t v_def versions_desc_def versions_of_def)
  have unsame: "tenants s = tenants t" "projects s = projects t" "environments s = environments t" "folders s = folders t @ []"
    by (simp_all add: t)
  have gone: "\<not> at_address tid eid fid key v" for tid eid fid key by (simp add: v_def at_address_def live_secret_def)
  have at: "at_address (t_id (sc_tenant (ad_scope a))) (e_id (sc_env (ad_scope a))) (f_id (ad_folder a)) (ad_key a) row"
    using secret_at_ok [OF a(2)] by blast
  have f: "distinct (map f_id (folders s))" using store_okD(9) [OF assms(2)] .
  have "vault svc t q = (if place s q = Some a then None else vault svc s q)" for q
  proof (rule resolve_cases [of q s])
    fix e assume e: "resolveAddress q s = (Inl e, s)"
    from vault_unresolved_both [OF unsame e, of svc] e show ?thesis by (simp add: place_def)
  next
    fix b assume b: "resolveAddress q s = (Inr b, s)"
    have bt: "resolveAddress q t = (Inr b, t)" by (rule resolve_more(1) [OF same(1-4) b])
    show ?thesis
    proof (cases "b = a")
      case True
      have other: "\<not> at_address (t_id (sc_tenant (ad_scope a))) (e_id (sc_env (ad_scope a))) (f_id (ad_folder a)) (ad_key a) x"
        if x: "x \<in> set (secrets s)" "s_id x \<noteq> s_id row" for x
      proof
        assume "at_address (t_id (sc_tenant (ad_scope a))) (e_id (sc_env (ad_scope a))) (f_id (ad_folder a)) (ad_key a) x"
        then have "x \<in> set [row]"
          unfolding at_address_unique [OF assms(2) a(3) at, symmetric] using x(1) by simp
        with x(2) show False by simp
      qed
      then have "rows_at b t = []" using gone by (auto simp: rows_at_def same(6) filter_empty_conv True)
      with vault_no_row [OF bt] b True show ?thesis by (simp add: place_def)
    next
      case False
      then have "\<not> same_ids a b" using same_ids_eq [OF a(1) b assms(3) f] by blast
      from vault_elsewhere [OF assms(2) same(1-5) a(3) _ store_okD(1) [OF assms(2)] same(6) bt not_same_ids [OF this at] gone same(7)]
      have "vault svc t q = vault svc s q" by simp
      with b False show ?thesis by (simp add: place_def)
    qed
  qed
  moreover have "place s ref = Some a" by (simp add: place_def a)
  ultimately show ?thesis by (simp add: set_place_def fun_eq_iff)
qed

theorem delete_refines_removal_witness:
  "\<exists>d t. DeleteSecret sample_svc sample_ref (Some 5) sample_one = (Inr d, t)
     \<and> vault sample_svc t = set_place (place sample_one) sample_ref None (vault sample_svc sample_one)"
proof -
  obtain d t where d: "DeleteSecret sample_svc sample_ref (Some 5) sample_one = (Inr d, t)"
    using sample_delete by (cases "DeleteSecret sample_svc sample_ref (Some 5) sample_one") (auto split: sum.splits)
  have "scope_keys sample_one" by code_simp
  from delete_refines_removal [OF d sample_one_ok this] d show ?thesis by blast
qed

end
