(* ===== verification/AuditTrail.thy ===== *)
theory AuditTrail
  imports SecretLaws
begin

text \<open>
  The access trail: \<open>internal/store/audit.go\<close> (the event and its append), the statement of
  \<open>audit_log.sql\<close> with the constraints of the migration, and \<open>internal/audit/audit.go\<close>, which decides
  when an event is written. A nil \<open>*Auditor\<close>, or one over a nil recorder, is the value \<open>False\<close> of the
  first argument. Error logging is left out; timestamps inside the metadata are kept as instants.
\<close>

section \<open>Text columns\<close>

text \<open>
  PostgreSQL takes a text only if it is UTF-8 without NUL. \<open>utf8_chars\<close> splits it into its
  characters, the ranges of the second byte being those of the server's check.
\<close>

definition cont :: "nat \<Rightarrow> bool" where
  "cont b \<longleftrightarrow> 128 \<le> b \<and> b \<le> 191"

definition second3 :: "nat \<Rightarrow> nat \<Rightarrow> bool" where
  "second3 a b \<longleftrightarrow> (if a = 224 then 160 \<le> b \<and> b \<le> 191 else if a = 237 then 128 \<le> b \<and> b \<le> 159 else cont b)"

definition second4 :: "nat \<Rightarrow> nat \<Rightarrow> bool" where
  "second4 a b \<longleftrightarrow> (if a = 240 then 144 \<le> b \<and> b \<le> 191 else if a = 244 then 128 \<le> b \<and> b \<le> 143 else cont b)"

definition char_len :: "nat list \<Rightarrow> nat option" where
  "char_len bs = (case bs of
      [] \<Rightarrow> None
    | a # r \<Rightarrow>
        if 0 < a \<and> a < 128 then Some 1
        else if 194 \<le> a \<and> a \<le> 223 \<and> r \<noteq> [] \<and> cont (hd r) then Some 2
        else if 224 \<le> a \<and> a \<le> 239 \<and> length r \<ge> 2 \<and> second3 a (hd r) \<and> cont (r ! 1) then Some 3
        else if 240 \<le> a \<and> a \<le> 244 \<and> length r \<ge> 3 \<and> second4 a (hd r) \<and> cont (r ! 1) \<and> cont (r ! 2) then Some 4
        else None)"

fun utf8_split :: "nat \<Rightarrow> string \<Rightarrow> string list option" where
  "utf8_split fuel [] = Some []"
| "utf8_split 0 s = None"
| "utf8_split (Suc fuel) s =
     (case char_len (map of_char s) of
        None \<Rightarrow> None
      | Some n \<Rightarrow> map_option (\<lambda>cs. take n s # cs) (utf8_split fuel (drop n s)))"

text \<open>Every character takes at least one byte, so the length of the text is fuel enough.\<close>

definition utf8_chars :: "string \<Rightarrow> string list option" where
  "utf8_chars s = utf8_split (length s) s"

definition text_value :: "string \<Rightarrow> dberr + string" where
  "text_value s = (case utf8_chars s of
      None \<Rightarrow> Inl (RaisedException ''invalid byte sequence for encoding UTF8'') | Some _ \<Rightarrow> Inr s)"

text \<open>Evaluation reads a character of one byte off its bits.\<close>

lemma utf8_split_code [code]: "utf8_split n [] = Some []" "utf8_split 0 (c # s) = None"
  "utf8_split (Suc n) (Char b0 b1 b2 b3 b4 b5 b6 b7 # s) =
     (if \<not> b7 \<and> (b0 \<or> b1 \<or> b2 \<or> b3 \<or> b4 \<or> b5 \<or> b6)
      then map_option ((#) [Char b0 b1 b2 b3 b4 b5 b6 b7]) (utf8_split n s)
      else case char_len (map of_char (Char b0 b1 b2 b3 b4 b5 b6 b7 # s)) of
          None \<Rightarrow> None
        | Some m \<Rightarrow> map_option (\<lambda>cs. take m (Char b0 b1 b2 b3 b4 b5 b6 b7 # s) # cs)
            (utf8_split n (drop m (Char b0 b1 b2 b3 b4 b5 b6 b7 # s))))"
proof -
  show "utf8_split n [] = Some []" "utf8_split 0 (c # s) = None" by simp_all
  show "utf8_split (Suc n) (Char b0 b1 b2 b3 b4 b5 b6 b7 # s) =
     (if \<not> b7 \<and> (b0 \<or> b1 \<or> b2 \<or> b3 \<or> b4 \<or> b5 \<or> b6)
      then map_option ((#) [Char b0 b1 b2 b3 b4 b5 b6 b7]) (utf8_split n s)
      else case char_len (map of_char (Char b0 b1 b2 b3 b4 b5 b6 b7 # s)) of
          None \<Rightarrow> None
        | Some m \<Rightarrow> map_option (\<lambda>cs. take m (Char b0 b1 b2 b3 b4 b5 b6 b7 # s) # cs)
            (utf8_split n (drop m (Char b0 b1 b2 b3 b4 b5 b6 b7 # s))))"
    by (cases b0; cases b1; cases b2; cases b3; cases b4; cases b5; cases b6; cases b7)
      (simp_all add: char_len_def of_char_def)
qed

text \<open>\<open>VARCHAR(n)\<close> counts characters and cuts off trailing spaces that do not fit.\<close>

definition varchar :: "nat \<Rightarrow> string \<Rightarrow> dberr + string" where
  "varchar n s = (case utf8_chars s of
      None \<Rightarrow> Inl (RaisedException ''invalid byte sequence for encoding UTF8'')
    | Some cs \<Rightarrow>
        if length cs \<le> n then Inr s
        else if \<forall>c \<in> set (drop n cs). c = '' '' then Inr (concat (take n cs))
        else Inl (RaisedException ''value too long for type character varying''))"

definition reason_value :: "audit_reason \<Rightarrow> dberr + audit_reason" where
  "reason_value r = (case r of ReasonText s \<Rightarrow> bindR (text_value s) (\<lambda>t. Inr (ReasonText t)) | _ \<Rightarrow> Inr r)"

section \<open>The append\<close>

record audit_event =
  ae_tenant :: "uuid option"
  ae_subject :: string
  ae_kind :: string
  ae_action :: string
  ae_mrn :: string
  ae_secret :: "uuid option"
  ae_version :: "int option"
  ae_outcome :: string
  ae_reason :: audit_reason
  ae_agent :: string
  ae_request :: string
  ae_metadata :: object

definition audit_columns :: "audit_event \<Rightarrow> dberr + audit_event" where
  "audit_columns ev =
     bindR (varchar 255 (ae_subject ev)) (\<lambda>subject.
     bindR (varchar 20 (ae_kind ev)) (\<lambda>knd.
     bindR (varchar 50 (ae_action ev)) (\<lambda>action.
     bindR (text_value (ae_mrn ev)) (\<lambda>resource.
     bindR (varchar 20 (ae_outcome ev)) (\<lambda>outcome.
     bindR (reason_value (ae_reason ev)) (\<lambda>reason.
     bindR (text_value (ae_agent ev)) (\<lambda>agent.
     bindR (varchar 255 (ae_request ev)) (\<lambda>request.
     Inr (ev\<lparr>ae_subject := subject, ae_kind := knd, ae_action := action, ae_mrn := resource, ae_outcome := outcome,
       ae_reason := reason, ae_agent := agent, ae_request := request\<rparr>)))))))))"

definition audit_row_of :: "audit_event \<Rightarrow> nat option \<Rightarrow> nat option \<Rightarrow> db \<Rightarrow> audit_row" where
  "audit_row_of ev tid sid s = \<lparr>a_id = seq s, a_uuid = uuid_at s (seq s), a_tenant = tid, a_subject = ae_subject ev,
     a_kind = ae_kind ev, a_action = ae_action ev, a_mrn = ae_mrn ev, a_secret = sid, a_version = ae_version ev,
     a_outcome = ae_outcome ev, a_reason = ae_reason ev, a_agent = ae_agent ev, a_request = ae_request ev,
     a_metadata = ae_metadata ev, a_created = db_now s\<rparr>"

definition audit_error :: "audit_row \<Rightarrow> db \<Rightarrow> dberr option" where
  "audit_error r s =
     (if a_kind r \<notin> {''user'', ''service'', ''setup''} then Some (CheckViolation ''chk_audit_log_actor_kind'')
      else if a_outcome r \<notin> {''success'', ''denied'', ''error''} then Some (CheckViolation ''chk_audit_log_outcome'')
      else if a_uuid r \<in> a_uuid ` set (audit_log s) then Some UniqueViolation
      else if (case a_tenant r of None \<Rightarrow> False | Some i \<Rightarrow> i \<notin> t_id ` set (tenants s)) then Some ForeignKeyViolation
      else if (case a_secret r of None \<Rightarrow> False | Some i \<Rightarrow> i \<notin> s_id ` set (secrets s)) then Some ForeignKeyViolation
      else None)"

definition AppendAuditEvent :: "audit_event \<Rightarrow> nat option \<Rightarrow> nat option \<Rightarrow> audit_row query" where
  "AppendAuditEvent ev tid sid = (\<lambda>s.
     case audit_columns ev of
       Inl e \<Rightarrow> (Inl e, s)
     | Inr ev' \<Rightarrow> let r = audit_row_of ev' tid sid s in
         q_exec (audit_error r s) (s\<lparr>audit_log := audit_log s @ [r], seq := Suc (seq s)\<rparr>) r s)"

definition GetSecretByUUID :: "nat \<Rightarrow> uuid \<Rightarrow> secret query" where
  "GetSecretByUUID tid u = q_one (\<lambda>s. filter (\<lambda>r. s_tenant r = tid \<and> s_uuid r = u \<and> live_secret r) (secrets s))"

definition RecordAudit :: "audit_event \<Rightarrow> unit op" where
  "RecordAudit ev0 =
     (if ae_action ev0 = [] then fail (invalid ''audit action is required'')
      else
        let ev1 = (if ae_kind ev0 = [] then ev0\<lparr>ae_kind := ''service''\<rparr> else ev0);
            ev = (if ae_outcome ev1 = [] then ev1\<lparr>ae_outcome := ''success''\<rparr> else ev1)
        in bindM (case ae_tenant ev of
              None \<Rightarrow> ret (None, None)
            | Some tu \<Rightarrow>
                bindM (mapErr (mapReadError ''tenant'') (GetTenantByUUID tu)) (\<lambda>tenant.
                case ae_secret ev of
                  None \<Rightarrow> ret (Some (t_id tenant), None)
                | Some su \<Rightarrow>
                    bindM (tryM (GetSecretByUUID (t_id tenant) su)) (\<lambda>r.
                    ret (Some (t_id tenant), case r of Inl _ \<Rightarrow> None | Inr row \<Rightarrow> Some (s_id row))))) (\<lambda>(tid, sid).
           bindM (mapErr (\<lambda>e. InternalError ''append audit event'' (DbCause e)) (AppendAuditEvent ev tid sid)) (\<lambda>_.
           ret ())))"

definition AuditActions :: "string list" where
  "AuditActions = [
     ''secret.read'', ''secret.reveal'', ''secret.write'', ''secret.rotate'', ''secret.delete'',
     ''secret.restore'', ''secret.destroy'', ''secret.list'', ''secret.rollback'', ''secret.reference'',
     ''secret.metadata'',
     ''project.create'', ''project.update'', ''project.delete'',
     ''environment.create'', ''environment.update'', ''environment.delete'',
     ''folder.create'', ''folder.move'', ''folder.delete'',
     ''import.create'', ''import.update'', ''import.delete'',
     ''webhook.create'', ''webhook.update'', ''webhook.delete'', ''webhook.deliver'',
     ''audit.read'', ''rootkey.rotate'',
     ''setup.provision'', ''setup.complete'', ''setup.status'',
     ''rotation.policy'', ''rotation.scheduled'',
     ''dynamic.role.create'', ''dynamic.role.update'', ''dynamic.role.delete'',
     ''dynamic.issue'', ''dynamic.revoke'',
     ''transit.key.create'', ''transit.key.update'', ''transit.key.delete'',
     ''transit.key.rotate'', ''transit.encrypt'', ''transit.decrypt'',
     ''lease.policy'', ''lease.issue'', ''lease.revoke'', ''lease.refused'']"

definition AuditOutcomes :: "string list" where
  "AuditOutcomes = [''success'', ''denied'', ''error'']"

section \<open>The auditor\<close>

record actor =
  ac_subject :: string
  ac_kind :: string
  ac_agent :: string
  ac_request :: string

record event =
  ev_tenant :: "uuid option"
  ev_action :: string
  ev_mrn :: string
  ev_secret :: "uuid option"
  ev_version :: "int option"
  ev_outcome :: string
  ev_reason :: audit_reason
  ev_metadata :: object

text \<open>The errors of the layer above the store: an application error, a lease refusal (which the
  transports see as forbidden), a missing auditor, or an error that is
  not of the package.\<close>

datatype api_error = AppErr apperr | LeaseRefused refusal | ErrNoAuditor | RawErr reason

text \<open>\<open>audit.New\<close>: a recorder that is nil gives no auditor.\<close>

definition NewAuditor :: "bool \<Rightarrow> api_error + bool" where
  "NewAuditor recorder = (if recorder then Inr True else Inl ErrNoAuditor)"

definition Record :: "bool \<Rightarrow> actor \<Rightarrow> event \<Rightarrow> (db, api_error, unit) comp" where
  "Record auditor actor ev =
     (if \<not> auditor then fail ErrNoAuditor
      else if ev_action ev = [] then fail (RawErr (Msg ''audit: action is required''))
      else mapErr AppErr (RecordAudit
        \<lparr>ae_tenant = ev_tenant ev, ae_subject = ac_subject actor,
         ae_kind = (if ac_kind actor = [] then ''service'' else ac_kind actor),
         ae_action = ev_action ev, ae_mrn = ev_mrn ev, ae_secret = ev_secret ev, ae_version = ev_version ev,
         ae_outcome = (if ev_outcome ev = [] then ''success'' else ev_outcome ev),
         ae_reason = ev_reason ev, ae_agent = ac_agent actor, ae_request = ac_request actor,
         ae_metadata = ev_metadata ev\<rparr>))"

definition RecordDenied :: "bool \<Rightarrow> actor \<Rightarrow> event \<Rightarrow> (db, api_error, unit) comp" where
  "RecordDenied auditor actor ev =
     bindM (tryM (Record auditor actor (ev\<lparr>ev_outcome := ''denied''\<rparr>))) (\<lambda>_. ret ())"

definition RecordError :: "bool \<Rightarrow> actor \<Rightarrow> event \<Rightarrow> (db, api_error, unit) comp" where
  "RecordError auditor actor ev =
     bindM (tryM (Record auditor actor (ev\<lparr>ev_outcome := ''error''\<rparr>))) (\<lambda>_. ret ())"

end
