(* ===== verification/Setup.thy ===== *)
theory Setup
  imports Hierarchy AuditTrail
begin

text \<open>
  First-run setup: the row of \<open>setup_state\<close> with its three statements, the store's
  \<open>SetupState\<close> and \<open>CompleteSetup\<close> (\<open>internal/store/setup.go\<close>), the service of \<open>internal/setup\<close> and
  the two surfaces that reach it (\<open>internal/httpapi/handlers_setup.go\<close>, \<open>internal/grpcserver/setup.go\<close>).
  The mutex that serializes calls of one process is the sequence of the steps; the log lines and the
  rendering of the completion time are left out.
\<close>

section \<open>The lock row\<close>

record setup_row =
  su_completed :: "instant option"
  su_controller :: string
  su_kind :: string

record setup_world =
  sw_db :: db
  sw_setup :: "setup_row option"

type_synonym ('e, 'a) setup_comp = "(setup_world, 'e, 'a) comp"

definition inStore :: "(db, 'e, 'a) comp \<Rightarrow> ('e, 'a) setup_comp" where
  "inStore m = (\<lambda>w. case m (sw_db w) of (r, t) \<Rightarrow> (r, w\<lparr>sw_db := t\<rparr>))"

definition EnsureSetupState :: "(dberr, unit) setup_comp" where
  "EnsureSetupState = (\<lambda>w. (Inr (), case sw_setup w of
       Some _ \<Rightarrow> w
     | None \<Rightarrow> w\<lparr>sw_setup := Some \<lparr>su_completed = None, su_controller = [], su_kind = []\<rparr>\<rparr>))"

definition GetSetupState :: "(dberr, setup_row) setup_comp" where
  "GetSetupState = (\<lambda>w. (case sw_setup w of None \<Rightarrow> Inl NoRows | Some row \<Rightarrow> Inr row, w))"

text \<open>The upsert: its update branch is guarded on \<open>completed_at IS NULL\<close>.\<close>

definition CompleteSetupRow :: "string \<Rightarrow> string \<Rightarrow> (dberr, setup_row) setup_comp" where
  "CompleteSetupRow controller knd = (\<lambda>w.
     case varchar 255 controller of
       Inl e \<Rightarrow> (Inl e, w)
     | Inr c \<Rightarrow>
         if knd \<notin> {[], ''service'', ''operator''} then (Inl (CheckViolation ''chk_setup_state_controller_kind''), w)
         else if c = [] \<or> knd = [] then (Inl (CheckViolation ''chk_setup_state_completed''), w)
         else if (case sw_setup w of Some row \<Rightarrow> su_completed row \<noteq> None | None \<Rightarrow> False) then (Inl NoRows, w)
         else let row = \<lparr>su_completed = Some (db_now (sw_db w)), su_controller = c, su_kind = knd\<rparr>
           in (Inr row, w\<lparr>sw_setup := Some row\<rparr>))"

text \<open>A transaction over both.\<close>

definition SetupTx :: "('e, 'a) setup_comp \<Rightarrow> ('e, 'a) setup_comp" where
  "SetupTx fn = (\<lambda>w. case fn w of (Inl e, _) \<Rightarrow> (Inl e, w) | (Inr x, t) \<Rightarrow> (Inr x, t))"

section \<open>The store\<close>

record setup_state =
  ss_complete :: bool
  ss_completed :: "instant option"
  ss_controller :: string
  ss_kind :: string

definition toSetupState :: "setup_row \<Rightarrow> setup_state" where
  "toSetupState r = \<lparr>ss_complete = (su_completed r \<noteq> None), ss_completed = su_completed r,
     ss_controller = su_controller r, ss_kind = su_kind r\<rparr>"

definition open_state :: setup_state where
  "open_state = \<lparr>ss_complete = False, ss_completed = None, ss_controller = [], ss_kind = []\<rparr>"

definition SetupState :: "(apperr, setup_state) setup_comp" where
  "SetupState =
     bindM (tryM GetSetupState) (\<lambda>r. case r of
         Inr row \<Rightarrow> ret (toSetupState row)
       | Inl e \<Rightarrow> if e = NoRows then ret open_state else fail (InternalError ''read setup state'' (DbCause e)))"

definition CompleteSetup :: "string \<Rightarrow> string \<Rightarrow> (apperr, setup_state) setup_comp" where
  "CompleteSetup controller0 kind0 =
     (let controller = TrimSpace controller0 in
      if controller = [] then fail (ValidationError (Msg ''controller is required''))
      else if length controller > 255 then fail (ValidationError (Msg ''controller must be at most 255 characters''))
      else if kind0 \<notin> {''service'', ''operator'', []}
        then fail (ValidationError (Msg (''controller kind '' @ kind0 @ '' must be service or operator'')))
      else let knd = (if kind0 = [] then ''service'' else kind0) in
        SetupTx (
          bindM (mapErr (\<lambda>e. InternalError ''initialize setup state'' (DbCause e)) EnsureSetupState) (\<lambda>_.
          bindM (mapErr (\<lambda>e. if e = NoRows then ConflictError ''setup is already complete''
              else InternalError ''complete setup'' (DbCause e)) (CompleteSetupRow controller knd)) (\<lambda>row.
          ret (toSetupState row)))))"

section \<open>The service\<close>

record setup_options =
  so_token :: string
  so_development :: bool
  so_tenant :: string
  so_project :: string
  so_environment :: string
  so_permissions :: "string list"
  so_core :: bool

record setup_service =
  sv_auditor :: bool
  sv_opts :: setup_options

definition NewSetup :: "bool \<Rightarrow> bool \<Rightarrow> setup_options \<Rightarrow> api_error + setup_service" where
  "NewSetup st auditor opts =
     (if \<not> st then Inl (RawErr (Msg ''setup: store is required''))
      else if \<not> auditor then Inl ErrNoAuditor
      else Inr \<lparr>sv_auditor = auditor, sv_opts = opts\<rparr>)"

text \<open>The errors of the setup surfaces: setup disabled, setup orchestrated, a malformed request, or the store's.\<close>

datatype setup_error = SetupDisabled | SetupOrchestrated | BadRequest string | SetupApi api_error

definition CheckToken :: "setup_service \<Rightarrow> string \<Rightarrow> setup_error + unit" where
  "CheckToken s presented =
     (if so_token (sv_opts s) = [] then if so_development (sv_opts s) then Inr () else Inl SetupDisabled
      else if presented = so_token (sv_opts s) then Inr ()
      else Inl (SetupApi (AppErr (ForbiddenError ''invalid bootstrap token''))))"

record setup_status =
  st_completed :: bool
  st_controller :: string
  st_kind :: string
  st_mode :: string
  st_at :: "instant option"
  st_tenant :: string
  st_auth :: string
  st_project :: string
  st_environment :: string
  st_permissions :: "string list"
  st_wizard :: bool

definition AnonymousStatus :: "setup_status \<Rightarrow> setup_status" where
  "AnonymousStatus full = \<lparr>st_completed = st_completed full, st_controller = [], st_kind = [], st_mode = [], st_at = None,
     st_tenant = [], st_auth = [], st_project = [], st_environment = [], st_permissions = [], st_wizard = False\<rparr>"

definition orchestrated :: "setup_service \<Rightarrow> setup_state \<Rightarrow> bool" where
  "orchestrated s state \<longleftrightarrow> so_core (sv_opts s) \<or> (ss_complete state \<and> ss_kind state = ''service'')"

definition uuidString :: "uuid option \<Rightarrow> string" where
  "uuidString u = (case u of None \<Rightarrow> [] | Some v \<Rightarrow> v)"

definition Status :: "setup_service \<Rightarrow> (apperr, setup_status) setup_comp" where
  "Status s =
     bindM SetupState (\<lambda>state.
     bindM (tryM (inStore (GetTenantByName (so_tenant (sv_opts s))))) (\<lambda>t.
     let base = \<lparr>st_completed = ss_complete state, st_controller = ss_controller state, st_kind = ss_kind state,
           st_mode = (if ss_kind state = ''service'' then ''controlled'' else if ss_kind state = ''operator'' then ''standalone'' else []),
           st_at = ss_completed state, st_tenant = [], st_auth = [], st_project = [], st_environment = [],
           st_permissions = so_permissions (sv_opts s), st_wizard = \<not> orchestrated s state\<rparr>
     in ret (case t :: apperr + tenant_view of
          Inl _ \<Rightarrow> base
        | Inr tenant \<Rightarrow> base\<lparr>st_tenant := tv_name tenant, st_auth := uuidString (tv_auth tenant),
            st_project := so_project (sv_opts s), st_environment := so_environment (sv_opts s)\<rparr>)))"

definition RefuseWhenOrchestrated :: "setup_service \<Rightarrow> (apperr, bool) setup_comp" where
  "RefuseWhenOrchestrated s =
     (if so_core (sv_opts s) then ret True else bindM SetupState (\<lambda>state. ret (orchestrated s state)))"

fun firstNonEmpty :: "string list \<Rightarrow> string" where
  "firstNonEmpty [] = []"
| "firstNonEmpty (v # vs) = (if TrimSpace v \<noteq> [] then TrimSpace v else firstNonEmpty vs)"

record provision_input =
  pn_tenant :: string
  pn_display :: string
  pn_auth :: "uuid option"
  pn_project :: string
  pn_environment :: string
  pn_controller :: string
  pn_mode :: string

record provision_result =
  pr_tenant_uuid :: uuid
  pr_tenant :: string
  pr_project :: string
  pr_environment :: string
  pr_existed :: bool
  pr_permissions :: "string list"

text \<open>The tenant of a provision: found, created, or created by another replica meanwhile.\<close>

definition provision_tenant :: "provision_input \<Rightarrow> string \<Rightarrow> (apperr, tenant_view \<times> bool) setup_comp" where
  "provision_tenant inp name =
     bindM (tryM (inStore (GetTenantByName name))) (\<lambda>r. case r of
         Inr tenant \<Rightarrow> ret (tenant, True)
       | Inl e \<Rightarrow>
           if \<not> IsNotFound e then fail e
           else bindM (tryM (inStore (CreateTenant (pn_auth inp) name (firstNonEmpty [pn_display inp, name]) True))) (\<lambda>c. case c of
               Inr tenant \<Rightarrow> ret (tenant, False)
             | Inl e \<Rightarrow>
                 if \<not> IsConflict e then fail e
                 else bindM (inStore (GetTenantByName name)) (\<lambda>tenant. ret (tenant, True))))"

text \<open>A project or environment is created when the read finds none; losing the race is success.\<close>

definition ensure_part :: "'a op \<Rightarrow> 'a op \<Rightarrow> (apperr, unit) setup_comp" where
  "ensure_part get create =
     bindM (tryM (inStore get)) (\<lambda>r. case r of
         Inr _ \<Rightarrow> ret ()
       | Inl e \<Rightarrow>
           if \<not> IsNotFound e then fail e
           else bindM (tryM (inStore create)) (\<lambda>c. case c of
               Inr _ \<Rightarrow> ret ()
             | Inl e \<Rightarrow> if IsConflict e then ret () else fail e))"

definition setup_actor :: "actor \<Rightarrow> string \<Rightarrow> actor" where
  "setup_actor a controller = \<lparr>ac_subject = (if ac_subject a = [] then controller else ac_subject a),
     ac_kind = (if ac_kind a = [] then ''setup'' else ac_kind a), ac_agent = ac_agent a, ac_request = ac_request a\<rparr>"

definition provision_event :: "provision_input \<Rightarrow> string \<Rightarrow> string \<Rightarrow> string \<Rightarrow> tenant_view \<Rightarrow> bool \<Rightarrow> event" where
  "provision_event inp tenantName project environment tenant existed =
     \<lparr>ev_tenant = Some (tv_uuid tenant), ev_action = ''setup.provision'', ev_mrn = mrn tenantName [] ResourceSetup,
      ev_secret = None, ev_version = None, ev_outcome = [], ev_reason = ReasonText [],
      ev_metadata = [(''already_existed'', JBool existed), (''auth_tenant_uuid'', JStr (uuidString (pn_auth inp))),
        (''controller'', JStr (pn_controller inp)), (''environment'', JStr environment), (''mode'', JStr (pn_mode inp)),
        (''project'', JStr project)]\<rparr>"

definition Provision :: "setup_service \<Rightarrow> provision_input \<Rightarrow> actor \<Rightarrow> (api_error, provision_result) setup_comp" where
  "Provision s inp act =
     (let tenantName = firstNonEmpty [pn_tenant inp, so_tenant (sv_opts s)];
          project = firstNonEmpty [pn_project inp, so_project (sv_opts s)];
          environment = firstNonEmpty [pn_environment inp, so_environment (sv_opts s)]
      in if tenantName = [] \<or> project = [] \<or> environment = []
         then fail (AppErr (ValidationError (Msg ''tenant, project and environment names are all required'')))
         else if pn_controller inp = [] then fail (AppErr (ValidationError (Msg ''controller is required'')))
         else
           bindM (mapErr AppErr (provision_tenant inp tenantName)) (\<lambda>(tenant, existed).
           bindM (mapErr AppErr (ensure_part (GetProject (tv_uuid tenant) project) (CreateProject (tv_uuid tenant) project project []))) (\<lambda>_.
           bindM (mapErr AppErr (ensure_part (GetEnvironment (tv_uuid tenant) project environment)
               (CreateEnvironment (tv_uuid tenant) project environment environment [] 0))) (\<lambda>_.
           bindM (inStore (Record (sv_auditor s) (setup_actor act (pn_controller inp))
               (provision_event inp tenantName project environment tenant existed))) (\<lambda>_.
           ret \<lparr>pr_tenant_uuid = tv_uuid tenant, pr_tenant = tenantName, pr_project = project, pr_environment = environment,
             pr_existed = existed, pr_permissions = so_permissions (sv_opts s)\<rparr>)))))"

definition complete_event :: "setup_service \<Rightarrow> string \<Rightarrow> string \<Rightarrow> string \<Rightarrow> event" where
  "complete_event s controller mode knd =
     \<lparr>ev_tenant = None, ev_action = ''setup.complete'', ev_mrn = mrn (so_tenant (sv_opts s)) [] ResourceSetup,
      ev_secret = None, ev_version = None, ev_outcome = [], ev_reason = ReasonText [],
      ev_metadata = [(''controller'', JStr controller), (''controller_kind'', JStr knd), (''mode'', JStr mode)]\<rparr>"

definition Complete :: "setup_service \<Rightarrow> string \<Rightarrow> string \<Rightarrow> actor \<Rightarrow> (api_error, setup_status) setup_comp" where
  "Complete s controller mode act =
     (let knd = (if mode = ''standalone'' then ''operator'' else ''service'') in
      bindM (mapErr AppErr (CompleteSetup controller knd)) (\<lambda>state.
      bindM (tryM (inStore (Record (sv_auditor s) (setup_actor act controller) (complete_event s controller mode knd)))) (\<lambda>_.
      bindM (tryM (Status s)) (\<lambda>r.
      ret (case r of
          Inr out \<Rightarrow> out
        | Inl _ \<Rightarrow> \<lparr>st_completed = ss_complete state, st_controller = ss_controller state, st_kind = ss_kind state,
            st_mode = mode, st_at = None, st_tenant = [], st_auth = [], st_project = [], st_environment = [],
            st_permissions = [], st_wizard = False\<rparr>)))))"

definition ProvisionAndComplete :: "setup_service \<Rightarrow> provision_input \<Rightarrow> actor \<Rightarrow>
    (api_error, provision_result \<times> setup_status) setup_comp" where
  "ProvisionAndComplete s inp act =
     bindM (Provision s (inp\<lparr>pn_mode := ''standalone''\<rparr>) act) (\<lambda>result.
     bindM (Complete s (pn_controller inp) ''standalone'' act) (\<lambda>status.
     ret (result, status)))"

section \<open>The two surfaces\<close>

text \<open>
  \<open>privileged\<close> of both surfaces: a presented token, or the grant \<open>secret:Admin\<close> in the claims (the argument). The
  REST handler trims the header first.
\<close>

definition privileged :: "setup_service \<Rightarrow> string \<Rightarrow> bool \<Rightarrow> bool" where
  "privileged s token admin \<longleftrightarrow> (token \<noteq> [] \<and> CheckToken s token = Inr ()) \<or> admin"

definition getSetupStatus :: "setup_service \<Rightarrow> string \<Rightarrow> bool \<Rightarrow> (setup_error, setup_status) setup_comp" where
  "getSetupStatus s token admin =
     bindM (mapErr (\<lambda>e. SetupApi (AppErr e)) (Status s)) (\<lambda>full.
     ret (if privileged s token admin then full else AnonymousStatus full))"

record setup_request =
  rq_tenant :: string
  rq_display :: string
  rq_project :: string
  rq_environment :: string
  rq_auth :: string
  rq_controller :: string

definition request_input :: "setup_request \<Rightarrow> uuid option \<Rightarrow> string \<Rightarrow> provision_input" where
  "request_input r auth mode = \<lparr>pn_tenant = rq_tenant r, pn_display = rq_display r, pn_auth = auth, pn_project = rq_project r,
     pn_environment = rq_environment r, pn_controller = rq_controller r, pn_mode = mode\<rparr>"

definition with_auth_uuid :: "(string \<Rightarrow> uuid option) \<Rightarrow> string \<Rightarrow> (uuid option \<Rightarrow> (setup_error, 'a) setup_comp) \<Rightarrow>
    (setup_error, 'a) setup_comp" where
  "with_auth_uuid parse raw k =
     (if raw = [] then k None
      else case parse raw of None \<Rightarrow> fail (BadRequest ''auth_tenant_uuid must be a UUID'') | Some u \<Rightarrow> k (Some u))"

text \<open>The REST wizard; \<open>act\<close> is the actor of the request, whose subject and kind it replaces.\<close>

definition postSetup :: "setup_service \<Rightarrow> (string \<Rightarrow> uuid option) \<Rightarrow> string \<Rightarrow> setup_request \<Rightarrow> actor \<Rightarrow>
    (setup_error, provision_result \<times> setup_status) setup_comp" where
  "postSetup s parse header r act =
     bindM (mapErr (\<lambda>e. SetupApi (AppErr e)) (RefuseWhenOrchestrated s)) (\<lambda>refuse.
     if refuse then fail SetupOrchestrated
     else
       bindM (liftR (CheckToken s (TrimSpace header))) (\<lambda>_.
       if TrimSpace (rq_controller r) = [] then fail (BadRequest ''controller is required'')
       else with_auth_uuid parse (rq_auth r) (\<lambda>auth.
         mapErr SetupApi (ProvisionAndComplete s (request_input r auth [])
           (act\<lparr>ac_subject := rq_controller r, ac_kind := ''setup''\<rparr>)))))"

definition grpcSetup :: "setup_service \<Rightarrow> (string \<Rightarrow> uuid option) \<Rightarrow> string \<Rightarrow> setup_request \<Rightarrow> actor \<Rightarrow>
    (setup_error, provision_result) setup_comp" where
  "grpcSetup s parse token r act =
     bindM (liftR (CheckToken s token)) (\<lambda>_.
     if rq_controller r = [] then fail (BadRequest ''controller is required'')
     else with_auth_uuid parse (rq_auth r) (\<lambda>auth.
       mapErr SetupApi (Provision s (request_input r auth ''controlled'')
         (act\<lparr>ac_subject := rq_controller r, ac_kind := ''setup''\<rparr>))))"

definition grpcCompleteSetup :: "setup_service \<Rightarrow> string \<Rightarrow> string \<Rightarrow> actor \<Rightarrow> (setup_error, setup_status) setup_comp" where
  "grpcCompleteSetup s token controller act =
     bindM (liftR (CheckToken s token)) (\<lambda>_.
     if controller = [] then fail (BadRequest ''controller is required'')
     else mapErr SetupApi (Complete s controller ''controlled'' (act\<lparr>ac_subject := controller, ac_kind := ''setup''\<rparr>)))"

end
