(* ===== verification/SetupProps.thy ===== *)
theory SetupProps
  imports Setup SecretProps
begin

text \<open>
  The properties of first-run setup: the lock row is written once, over any interleaving of setup
  calls with anything else that happens in the store; after a service completed setup the REST wizard
  is refused for good; after an operator completed it the wizard still provisions.
\<close>

section \<open>Sequences of setup calls\<close>

text \<open>\<open>StoreStep\<close> stands for whatever else runs between two setup calls, the clock included.\<close>

datatype setup_call =
    StatusCall string bool
  | WizardCall string setup_request actor
  | AttachCall string setup_request actor
  | CompleteCall string string actor
  | StoreStep "db \<Rightarrow> db"

fun setup_step :: "setup_service \<Rightarrow> (string \<Rightarrow> uuid option) \<Rightarrow> setup_call \<Rightarrow> setup_world \<Rightarrow> setup_world" where
  "setup_step s parse (StatusCall token admin) w = snd (getSetupStatus s token admin w)"
| "setup_step s parse (WizardCall token r act) w = snd (postSetup s parse token r act w)"
| "setup_step s parse (AttachCall token r act) w = snd (grpcSetup s parse token r act w)"
| "setup_step s parse (CompleteCall token controller act) w = snd (grpcCompleteSetup s token controller act w)"
| "setup_step s parse (StoreStep f) w = w\<lparr>sw_db := f (sw_db w)\<rparr>"

definition setup_run :: "setup_service \<Rightarrow> (string \<Rightarrow> uuid option) \<Rightarrow> setup_call list \<Rightarrow> setup_world \<Rightarrow> setup_world" where
  "setup_run s parse = fold (setup_step s parse)"

definition locked :: "setup_row \<Rightarrow> setup_world \<Rightarrow> bool" where
  "locked row w \<longleftrightarrow> sw_setup w = Some row"

section \<open>The lock holds\<close>

lemma keeps_inStore [keeps_rules]: "keeps (locked row) (inStore m)"
  by (auto simp: keeps_def inStore_def locked_def split: prod.splits)

lemma keeps_Ensure [keeps_rules]: "keeps (locked row) EnsureSetupState"
  by (auto simp: keeps_def EnsureSetupState_def locked_def)

lemma keeps_GetSetupState [keeps_rules]: "keeps P GetSetupState"
  by (auto simp: keeps_def GetSetupState_def)

lemma CompleteSetupRow_locked:
  "locked row w \<Longrightarrow> su_completed row \<noteq> None \<Longrightarrow> \<exists>e. CompleteSetupRow c k w = (Inl e, w)"
  by (auto simp: CompleteSetupRow_def locked_def split: sum.splits)

lemma keeps_CompleteSetupRow [keeps_rules]:
  "su_completed row \<noteq> None \<Longrightarrow> keeps (locked row) (CompleteSetupRow c k)"
  unfolding keeps_def using CompleteSetupRow_locked by (metis Pair_inject)

lemma keeps_SetupTx [keeps_rules]: "keeps P m \<Longrightarrow> keeps P (SetupTx m)"
  by (fastforce simp: keeps_def SetupTx_def split: prod.splits sum.splits)

lemma keeps_with_auth [keeps_rules]: "(\<And>u. keeps P (k u)) \<Longrightarrow> keeps P (with_auth_uuid parse raw k)"
  unfolding with_auth_uuid_def by (intro keeps_rules)

lemma keeps_Status [keeps_rules]: "keeps (locked row) (Status s)"
  unfolding Status_def SetupState_def Let_def by (intro keeps_rules)

lemma keeps_Provision [keeps_rules]: "keeps (locked row) (Provision s inp act)"
  unfolding Provision_def provision_tenant_def ensure_part_def Let_def by (intro keeps_rules)

lemma keeps_Complete [keeps_rules]:
  "su_completed row \<noteq> None \<Longrightarrow> keeps (locked row) (Complete s controller mode act)"
  unfolding Complete_def CompleteSetup_def Let_def by (intro keeps_rules)

lemma keeps_setup_step:
  assumes "su_completed row \<noteq> None"
  shows "locked row w \<Longrightarrow> locked row (setup_step s parse call w)"
proof (cases call)
  case (StoreStep f)
  then show "locked row w \<Longrightarrow> ?thesis" by (simp add: locked_def)
next
  case (StatusCall token admin)
  have "keeps (locked row) (getSetupStatus s token admin)"
    unfolding getSetupStatus_def by (intro keeps_rules)
  then show "locked row w \<Longrightarrow> ?thesis" by (simp add: StatusCall keeps_def) (metis prod.collapse)
next
  case (WizardCall token r act)
  have "keeps (locked row) (postSetup s parse token r act)"
    unfolding postSetup_def RefuseWhenOrchestrated_def SetupState_def ProvisionAndComplete_def
    by (intro keeps_rules assms)
  then show "locked row w \<Longrightarrow> ?thesis" by (simp add: WizardCall keeps_def) (metis prod.collapse)
next
  case (AttachCall token r act)
  have "keeps (locked row) (grpcSetup s parse token r act)"
    unfolding grpcSetup_def by (intro keeps_rules)
  then show "locked row w \<Longrightarrow> ?thesis" by (simp add: AttachCall keeps_def) (metis prod.collapse)
next
  case (CompleteCall token controller act)
  have "keeps (locked row) (grpcCompleteSetup s token controller act)"
    unfolding grpcCompleteSetup_def by (intro keeps_rules assms)
  then show "locked row w \<Longrightarrow> ?thesis" by (simp add: CompleteCall keeps_def) (metis prod.collapse)
qed

lemma keeps_setup_run:
  "su_completed row \<noteq> None \<Longrightarrow> locked row w \<Longrightarrow> locked row (setup_run s parse calls w)"
  unfolding setup_run_def by (induction calls arbitrary: w) (auto intro: keeps_setup_step)

lemma bindM_kept:
  assumes "bindM m k w = (Inr x, t)"
  obtains y u where "m w = (Inr y, u)" "\<And>P. (\<And>y. keeps P (k y)) \<Longrightarrow> P u \<Longrightarrow> P t"
  using assms unfolding bindM_ok keeps_def by metis

definition window_open :: "setup_world \<Rightarrow> bool" where
  "window_open w \<longleftrightarrow> (case sw_setup w of None \<Rightarrow> True | Some r \<Rightarrow> su_completed r = None)"

lemma CompleteSetup_writes:
  assumes "CompleteSetup c k w = (Inr st, t)"
  obtains row where "locked row t" "su_completed row = Some (db_now (sw_db w))"
    "su_kind row = (if k = [] then ''service'' else k)" "window_open w"
  using assms
  by (intro that [of "the (sw_setup t)"])
     (auto simp: CompleteSetup_def Let_def fail_def SetupTx_def run_ok EnsureSetupState_def CompleteSetupRow_def
      locked_def window_open_def split: if_splits sum.splits option.splits prod.splits)

lemma Complete_writes:
  assumes "Complete s c mode act w = (Inr out, t)"
  obtains row where "locked row t" "su_completed row \<noteq> None"
    "su_kind row = (if mode = ''standalone'' then ''operator'' else ''service'')" "window_open w"
proof -
  let ?k = "if mode = ''standalone'' then ''operator'' else ''service''"
  from assms obtain st u where c: "mapErr AppErr (CompleteSetup c ?k) w = (Inr st, u)"
    and rest: "\<And>row. locked row u \<Longrightarrow> locked row t"
    unfolding Complete_def Let_def by (rule bindM_kept) (metis keeps_bindM keeps_tryM keeps_inStore keeps_Status keeps_simple(1))
  from c have "CompleteSetup c ?k w = (Inr st, u)" by (simp add: mapErr_ok)
  then show ?thesis
  proof (rule CompleteSetup_writes)
    fix row assume "locked row u" "su_completed row = Some (db_now (sw_db w))"
      "su_kind row = (if ?k = [] then ''service'' else ?k)" "window_open w"
    with rest show ?thesis by (intro that [of row]) auto
  qed
qed

section \<open>The properties\<close>

text \<open>
  C22: Setup completes once. After a call of \<open>grpcCompleteSetup\<close> succeeded the lock row holds a completion
  time and the kind \<open>service\<close>, the window was open before it, and over any sequence of setup calls and of
  anything else in the store the row stays as it is, every further completion fails, and the REST wizard is
  refused and changes nothing.
\<close>
theorem setup_completes_once:
  assumes "grpcCompleteSetup s token controller act w = (Inr out, w')"
  shows "window_open w \<and> (\<exists>row. su_completed row \<noteq> None \<and> su_kind row = ''service'' \<and>
    (\<forall>calls. let v = setup_run s parse calls w' in
       sw_setup v = Some row \<and>
       (\<forall>t c a. \<exists>e. fst (grpcCompleteSetup s t c a v) = Inl e) \<and>
       (\<forall>h r a. postSetup s parse h r a v = (Inl SetupOrchestrated, v))))"
proof -
  from assms obtain m where "Complete s controller ''controlled'' m w = (Inr out, w')"
    by (auto simp: grpcCompleteSetup_def run_ok split: if_splits)
  then obtain row where row: "locked row w'" "su_completed row \<noteq> None" "su_kind row = ''service''" "window_open w"
    by (rule Complete_writes) (auto intro: that)
  have stays: "sw_setup (setup_run s parse calls w') = Some row" for calls
    using keeps_setup_run [OF row(2,1)] by (simp add: locked_def)
  have fails: "\<exists>e. fst (grpcCompleteSetup s t c a v) = Inl e" if v: "sw_setup v = Some row" for t c a v
  proof (rule ccontr)
    assume "\<not> ?thesis"
    then obtain out' u where "grpcCompleteSetup s t c a v = (Inr out', u)"
      by (cases "grpcCompleteSetup s t c a v"; cases "fst (grpcCompleteSetup s t c a v)") auto
    then obtain m where "Complete s c ''controlled'' m v = (Inr out', u)"
      by (auto simp: grpcCompleteSetup_def run_ok split: if_splits)
    then have "window_open v" by (rule Complete_writes)
    with v row(2) show False by (simp add: window_open_def)
  qed
  have refused: "postSetup s parse h r a v = (Inl SetupOrchestrated, v)" if "sw_setup v = Some row" for h r a v
    using that row(2,3)
    by (simp add: postSetup_def RefuseWhenOrchestrated_def SetupState_def GetSetupState_def run_defs tryM_def
      orchestrated_def toSetupState_def)
  from row stays fails refused show ?thesis by (auto simp: Let_def)
qed

definition sample_setup :: setup_service where
  "sample_setup = \<lparr>sv_auditor = True, sv_opts = \<lparr>so_token = ''boot'', so_development = False, so_tenant = ''acme'',
     so_project = ''web'', so_environment = ''prod'', so_permissions = [], so_core = False\<rparr>\<rparr>"

definition sample_world :: "setup_row option \<Rightarrow> setup_world" where
  "sample_world row = \<lparr>sw_db = sample_db, sw_setup = row\<rparr>"

definition sample_actor :: actor where
  "sample_actor = \<lparr>ac_subject = ''ops'', ac_kind = [], ac_agent = [], ac_request = []\<rparr>"

lemma sample_completes: "case fst (grpcCompleteSetup sample_setup ''boot'' ''core'' sample_actor (sample_world None)) of
    Inl e \<Rightarrow> False | Inr out \<Rightarrow> st_completed out"
  by code_simp

lemma setup_completes_once_witness:
  "\<exists>w'. \<forall>calls h r a. fst (postSetup sample_setup (\<lambda>x. Some x) h r a (setup_run sample_setup (\<lambda>x. Some x) calls w'))
     = Inl SetupOrchestrated"
proof -
  obtain out w' where "grpcCompleteSetup sample_setup ''boot'' ''core'' sample_actor (sample_world None) = (Inr out, w')"
    using sample_completes
    by (cases "grpcCompleteSetup sample_setup ''boot'' ''core'' sample_actor (sample_world None)") (auto split: sum.splits)
  from setup_completes_once [OF this, of "\<lambda>x. Some x"] show ?thesis
    by (intro exI [of _ w'] allI) (auto simp: Let_def)
qed

text \<open>
  C23: A completed standalone setup does not close the wizard. When an operator has completed setup, a wizard
  call with the token and a well-formed request provisions all the same (tenant, project and environment are
  created, the trail row is written), and only then fails because setup is complete: its effect on the store
  is that of \<open>Provision\<close>, and it never succeeds.
\<close>
theorem completed_wizard_still_provisions:
  assumes "sw_setup w = Some row" "su_completed row \<noteq> None" "su_kind row = ''operator''"
    and "\<not> so_core (sv_opts s)" "CheckToken s (TrimSpace header) = Inr ()"
    and "TrimSpace (rq_controller r) \<noteq> []" "rq_auth r = []"
  shows "\<exists>e. postSetup s parse header r act w =
    (Inl (SetupApi e), snd (Provision s ((request_input r None [])\<lparr>pn_mode := ''standalone''\<rparr>)
      (act\<lparr>ac_subject := rq_controller r, ac_kind := ''setup''\<rparr>) w))"
proof -
  let ?in = "request_input r None []" and ?act = "act\<lparr>ac_subject := rq_controller r, ac_kind := ''setup''\<rparr>"
  obtain x v where p: "Provision s (?in\<lparr>pn_mode := ''standalone''\<rparr>) ?act w = (x, v)" by (cases "Provision s (?in\<lparr>pn_mode := ''standalone''\<rparr>) ?act w")
  have "locked row v" using keeps_Provision p assms(1) unfolding keeps_def locked_def by metis
  then have c: "\<exists>e. Complete s c m a v = (Inl e, v)" for c m a
  proof -
    let ?k = "if m = ''standalone'' then ''operator'' else ''service''"
    obtain f where "CompleteSetupRow (TrimSpace c) ?k v = (Inl f, v)"
      using CompleteSetupRow_locked [OF \<open>locked row v\<close> assms(2)] by metis
    then have "\<exists>e. CompleteSetup c ?k v = (Inl e, v)"
      using \<open>locked row v\<close>
      by (cases "m = ''standalone''") (simp_all add: CompleteSetup_def Let_def SetupTx_def run_defs EnsureSetupState_def locked_def)
    then show ?thesis by (auto simp: Complete_def Let_def bindM_def mapErr_def)
  qed
  have "\<exists>e. ProvisionAndComplete s ?in ?act w = (Inl e, v)"
    using c [of "pn_controller ?in" "''standalone''" ?act]
    by (cases x) (auto simp: ProvisionAndComplete_def bindM_def p)
  with assms show ?thesis
    by (auto simp: p postSetup_def RefuseWhenOrchestrated_def SetupState_def GetSetupState_def run_defs tryM_def
      orchestrated_def toSetupState_def with_auth_uuid_def)
qed

definition late_request :: setup_request where
  "late_request = \<lparr>rq_tenant = [], rq_display = [], rq_project = ''late'', rq_environment = [], rq_auth = [], rq_controller = ''ops''\<rparr>"

lemma late_provision: "fst (Provision sample_setup ((request_input late_request None [])\<lparr>pn_mode := ''standalone''\<rparr>)
   (sample_actor\<lparr>ac_subject := ''ops'', ac_kind := ''setup''\<rparr>)
   (sample_world (Some \<lparr>su_completed = Some 5, su_controller = ''ops'', su_kind = ''operator''\<rparr>))) =
   Inr \<lparr>pr_tenant_uuid = ''tu'', pr_tenant = ''acme'', pr_project = ''late'', pr_environment = ''prod'', pr_existed = True,
     pr_permissions = []\<rparr> \<and>
   map p_slug (projects (sw_db (snd (Provision sample_setup ((request_input late_request None [])\<lparr>pn_mode := ''standalone''\<rparr>)
   (sample_actor\<lparr>ac_subject := ''ops'', ac_kind := ''setup''\<rparr>)
   (sample_world (Some \<lparr>su_completed = Some 5, su_controller = ''ops'', su_kind = ''operator''\<rparr>)))))) = [''web'', ''late'']"
  by code_simp

lemma completed_wizard_still_provisions_witness:
  "map p_slug (projects (sw_db (snd (postSetup sample_setup (\<lambda>x. Some x) ''boot'' late_request sample_actor
     (sample_world (Some \<lparr>su_completed = Some 5, su_controller = ''ops'', su_kind = ''operator''\<rparr>)))))) = [''web'', ''late'']"
proof -
  have "CheckToken sample_setup (TrimSpace ''boot'') = Inr ()" "TrimSpace (rq_controller late_request) \<noteq> []"
    by code_simp+
  then have "\<exists>e. postSetup sample_setup (\<lambda>x. Some x) ''boot'' late_request sample_actor
     (sample_world (Some \<lparr>su_completed = Some 5, su_controller = ''ops'', su_kind = ''operator''\<rparr>)) =
    (Inl (SetupApi e), snd (Provision sample_setup ((request_input late_request None [])\<lparr>pn_mode := ''standalone''\<rparr>)
      (sample_actor\<lparr>ac_subject := rq_controller late_request, ac_kind := ''setup''\<rparr>)
      (sample_world (Some \<lparr>su_completed = Some 5, su_controller = ''ops'', su_kind = ''operator''\<rparr>))))"
    by (intro completed_wizard_still_provisions
        [where row = "\<lparr>su_completed = Some 5, su_controller = ''ops'', su_kind = ''operator''\<rparr>"]) (simp_all add: sample_world_def sample_setup_def late_request_def)
  with late_provision show ?thesis by (auto simp: late_request_def)
qed

end
