(* ===== verification/Hooks.thy ===== *)
theory Hooks
  imports Transit
begin

text \<open>
  Webhook endpoints and their delivery log: the two tables of migration 00011 with the statements of
  \<open>internal/storage/webhook.sql.go\<close>, and \<open>internal/store/webhooks.go\<close> over them.

  The tables are kept beside the database in a state of their own. \<open>url.Parse\<close> is a parameter that
  gives the scheme, the host and whether there is user information: which hosts it accepts differs between
  patch releases of the toolchain. The columns of JSON hold their decoded value. The clean-up of
  decrypted keys in memory is left out.
\<close>

section \<open>Rows\<close>

record endpoint =
  we_id :: nat
  we_uuid :: uuid
  we_tenant :: nat
  we_project :: nat
  we_url :: string
  we_description :: string
  we_ciphertext :: bytes
  we_nonce :: bytes
  we_dek :: bytes
  we_dek_nonce :: bytes
  we_kek :: string
  we_events :: "string list"
  we_status :: string
  we_timeout :: int
  we_attempts :: int
  we_triggered :: "instant option"
  we_created :: instant
  we_deleted :: "instant option"

record delivery =
  wd_id :: nat
  wd_uuid :: uuid
  wd_endpoint :: nat
  wd_tenant :: nat
  wd_event :: string
  wd_mrn :: string
  wd_version :: "int option"
  wd_count :: int
  wd_status :: string
  wd_response :: "int option"
  wd_error :: string
  wd_payload :: object
  wd_next :: "instant option"
  wd_redrives :: int
  wd_created :: instant

record hooks =
  hk_db :: db
  hk_endpoints :: "endpoint list"
  hk_deliveries :: "delivery list"

type_synonym ('e, 'a) hook_comp = "(hooks, 'e, 'a) comp"
type_synonym 'a hook_query = "(dberr, 'a) hook_comp"
type_synonym 'a hook_op = "(apperr, 'a) hook_comp"

definition live_endpoint :: "endpoint \<Rightarrow> bool" where "live_endpoint e \<longleftrightarrow> we_deleted e = None"

definition inDb :: "(db, 'e, 'a) comp \<Rightarrow> ('e, 'a) hook_comp" where
  "inDb m = (\<lambda>w. case m (hk_db w) of (r, t) \<Rightarrow> (r, w\<lparr>hk_db := t\<rparr>))"

section \<open>Statements on endpoints\<close>

definition hook_one :: "(hooks \<Rightarrow> 'r list) \<Rightarrow> 'r hook_query" where
  "hook_one f = (\<lambda>w. (case f w of [] \<Rightarrow> Inl NoRows | r # _ \<Rightarrow> Inr r, w))"

definition hook_many :: "(hooks \<Rightarrow> 'r) \<Rightarrow> 'r hook_query" where
  "hook_many f = (\<lambda>w. (Inr (f w), w))"

definition hook_page :: "int \<Rightarrow> int \<Rightarrow> (hooks \<Rightarrow> 'r list) \<Rightarrow> 'r list hook_query" where
  "hook_page limit offset f = (\<lambda>w.
     if limit < 0 then (Inl (RaisedException ''LIMIT must not be negative''), w)
     else if offset < 0 then (Inl (RaisedException ''OFFSET must not be negative''), w)
     else (Inr (page_rows (nat limit) (nat offset) (f w)), w))"

definition chk_endpoint :: "endpoint \<Rightarrow> dberr option" where
  "chk_endpoint e =
     (if we_status e \<notin> {''active'', ''disabled''} then Some (CheckViolation ''chk_webhook_endpoints_status'')
      else if we_timeout e < 1 \<or> we_timeout e > 60 then Some (CheckViolation ''chk_webhook_endpoints_timeout'')
      else if we_attempts e < 1 \<or> we_attempts e > 10 then Some (CheckViolation ''chk_webhook_endpoints_attempts'')
      else None)"

definition uq_endpoints :: "endpoint list \<Rightarrow> bool" where
  "uq_endpoints es \<longleftrightarrow> distinct (map we_uuid es)
     \<and> distinct (map (\<lambda>e. (we_project e, we_url e)) (filter live_endpoint es))"

definition endpoints_error :: "endpoint list \<Rightarrow> dberr option" where
  "endpoints_error es = (case first_error chk_endpoint es of
     Some e \<Rightarrow> Some e | None \<Rightarrow> if \<not> uq_endpoints es then Some UniqueViolation else None)"

definition CreateWebhookEndpointRow ::
    "uuid \<Rightarrow> nat \<Rightarrow> nat \<Rightarrow> string \<Rightarrow> string \<Rightarrow> envelope \<Rightarrow> string list \<Rightarrow> string \<Rightarrow> int \<Rightarrow> int \<Rightarrow> endpoint hook_query" where
  "CreateWebhookEndpointRow u tid pid url description env events status timeout attempts = (\<lambda>w.
     let s = hk_db w;
         e = \<lparr>we_id = seq s, we_uuid = u, we_tenant = tid, we_project = pid, we_url = url, we_description = description,
           we_ciphertext = Ciphertext env, we_nonce = Nonce env, we_dek = DEKWrapped env, we_dek_nonce = DEKNonce env,
           we_kek = KEKID env, we_events = events, we_status = status, we_timeout = timeout, we_attempts = attempts,
           we_triggered = None, we_created = db_now s, we_deleted = None\<rparr>;
         es = hk_endpoints w @ [e]
     in case (case endpoints_error es of Some x \<Rightarrow> Some x
          | None \<Rightarrow> if tid \<notin> t_id ` set (tenants s) \<or> pid \<notin> p_id ` set (projects s) \<or> KEKID env \<notin> k_id ` set (root_keys s)
              then Some ForeignKeyViolation else None) of
        Some x \<Rightarrow> (Inl x, w)
      | None \<Rightarrow> (Inr e, w\<lparr>hk_endpoints := es, hk_db := s\<lparr>seq := Suc (seq s)\<rparr>\<rparr>))"

definition GetWebhookEndpointByUUID :: "nat \<Rightarrow> uuid \<Rightarrow> endpoint hook_query" where
  "GetWebhookEndpointByUUID tid u = hook_one (\<lambda>w. filter (\<lambda>e. we_tenant e = tid \<and> we_uuid e = u \<and> live_endpoint e) (hk_endpoints w))"

text \<open>Joined with the tenant, deleted or not.\<close>

definition GetSignedWebhookEndpointByID :: "nat \<Rightarrow> (endpoint \<times> uuid) hook_query" where
  "GetSignedWebhookEndpointByID eid = hook_one (\<lambda>w. concat (map (\<lambda>e.
     map (\<lambda>t. (e, t_uuid t)) (filter (\<lambda>t. t_id t = we_tenant e) (tenants (hk_db w))))
     (filter (\<lambda>e. we_id e = eid \<and> live_endpoint e) (hk_endpoints w))))"

definition ListActiveWebhookEndpointsByProject :: "nat \<Rightarrow> nat \<Rightarrow> endpoint list hook_query" where
  "ListActiveWebhookEndpointsByProject tid pid = hook_many (\<lambda>w. sort_key we_id
     (filter (\<lambda>e. we_tenant e = tid \<and> we_project e = pid \<and> live_endpoint e \<and> we_status e = ''active'') (hk_endpoints w)))"

definition project_endpoints :: "nat \<Rightarrow> nat \<Rightarrow> hooks \<Rightarrow> endpoint list" where
  "project_endpoints tid pid w = filter (\<lambda>e. we_tenant e = tid \<and> we_project e = pid \<and> live_endpoint e) (hk_endpoints w)"

text \<open>Rows of the same creation time come in table order.\<close>

definition ListWebhookEndpointMetaByProject :: "nat \<Rightarrow> nat \<Rightarrow> int \<Rightarrow> int \<Rightarrow> endpoint list hook_query" where
  "ListWebhookEndpointMetaByProject tid pid limit offset =
     hook_page limit offset (\<lambda>w. sort_key we_created (project_endpoints tid pid w))"

definition CountWebhookEndpointsByProject :: "nat \<Rightarrow> nat \<Rightarrow> nat hook_query" where
  "CountWebhookEndpointsByProject tid pid = hook_many (\<lambda>w. length (project_endpoints tid pid w))"

definition UpdateWebhookEndpointRow ::
    "string \<Rightarrow> string \<Rightarrow> string list \<Rightarrow> string \<Rightarrow> int \<Rightarrow> int \<Rightarrow> nat \<Rightarrow> uuid \<Rightarrow> endpoint hook_query" where
  "UpdateWebhookEndpointRow url description events status timeout attempts tid u = (\<lambda>w.
     let P = (\<lambda>e. we_tenant e = tid \<and> we_uuid e = u \<and> live_endpoint e);
         f = (\<lambda>e. e\<lparr>we_url := url, we_description := description, we_events := events, we_status := status,
           we_timeout := timeout, we_attempts := attempts\<rparr>);
         es = updating P f (hk_endpoints w)
     in case filter P (hk_endpoints w) of
        [] \<Rightarrow> (Inl NoRows, w)
      | e # _ \<Rightarrow> (case endpoints_error es of Some x \<Rightarrow> (Inl x, w) | None \<Rightarrow> (Inr (f e), w\<lparr>hk_endpoints := es\<rparr>)))"

definition SoftDeleteWebhookEndpoint :: "nat \<Rightarrow> uuid \<Rightarrow> nat hook_query" where
  "SoftDeleteWebhookEndpoint tid u = (\<lambda>w.
     let P = (\<lambda>e. we_tenant e = tid \<and> we_uuid e = u \<and> live_endpoint e) in
     (Inr (length (filter P (hk_endpoints w))),
      w\<lparr>hk_endpoints := updating P (\<lambda>e. e\<lparr>we_deleted := Some (db_now (hk_db w))\<rparr>) (hk_endpoints w)\<rparr>))"

definition TouchWebhookEndpointRow :: "nat \<Rightarrow> nat hook_query" where
  "TouchWebhookEndpointRow eid = (\<lambda>w.
     let P = (\<lambda>e. we_id e = eid) in
     (Inr (length (filter P (hk_endpoints w))),
      w\<lparr>hk_endpoints := updating P (\<lambda>e. e\<lparr>we_triggered := Some (db_now (hk_db w))\<rparr>) (hk_endpoints w)\<rparr>))"

section \<open>Statements on deliveries\<close>

definition chk_delivery :: "delivery \<Rightarrow> dberr option" where
  "chk_delivery d =
     (if wd_status d \<notin> {''pending'', ''success'', ''retrying'', ''failed''} then Some (CheckViolation ''chk_webhook_deliveries_status'')
      else if wd_next d \<noteq> None \<and> wd_status d \<noteq> ''retrying'' then Some (CheckViolation ''chk_webhook_deliveries_next_attempt'')
      else if wd_redrives d < 0 then Some (CheckViolation ''chk_webhook_deliveries_redrive_attempts'')
      else if wd_count d \<ge> 2 ^ 31 \<or> wd_redrives d \<ge> 2 ^ 31 then Some (RaisedException ''integer out of range'')
      else None)"

text \<open>An UPDATE of deliveries: every row it writes is checked.\<close>

definition update_deliveries :: "(delivery \<Rightarrow> bool) \<Rightarrow> (delivery \<Rightarrow> delivery) \<Rightarrow> delivery list hook_query" where
  "update_deliveries P f = (\<lambda>w.
     let hit = map f (filter P (hk_deliveries w)) in
     case first_error chk_delivery hit of
        Some x \<Rightarrow> (Inl x, w)
      | None \<Rightarrow> (Inr hit, w\<lparr>hk_deliveries := updating P f (hk_deliveries w)\<rparr>))"

definition CreateWebhookDelivery :: "nat \<Rightarrow> nat \<Rightarrow> string \<Rightarrow> string \<Rightarrow> int option \<Rightarrow> object \<Rightarrow> delivery hook_query" where
  "CreateWebhookDelivery eid tid event resource ver payload = (\<lambda>w.
     let s = hk_db w;
         d = \<lparr>wd_id = seq s, wd_uuid = uuid_at s (seq s), wd_endpoint = eid, wd_tenant = tid, wd_event = event,
           wd_mrn = resource, wd_version = ver, wd_count = 0, wd_status = ''pending'', wd_response = None, wd_error = [],
           wd_payload = payload, wd_next = None, wd_redrives = 0, wd_created = db_now s\<rparr>
     in if wd_uuid d \<in> wd_uuid ` set (hk_deliveries w) then (Inl UniqueViolation, w)
        else if eid \<notin> we_id ` set (hk_endpoints w) \<or> tid \<notin> t_id ` set (tenants s) then (Inl ForeignKeyViolation, w)
        else (Inr d, w\<lparr>hk_deliveries := hk_deliveries w @ [d], hk_db := s\<lparr>seq := Suc (seq s)\<rparr>\<rparr>))"

definition FinishWebhookDeliveryRow ::
    "int \<Rightarrow> string \<Rightarrow> int option \<Rightarrow> string \<Rightarrow> instant option \<Rightarrow> nat \<Rightarrow> delivery hook_query" where
  "FinishWebhookDeliveryRow attempts status response failure nextAt did =
     bindM (update_deliveries (\<lambda>d. wd_id d = did)
       (\<lambda>d. d\<lparr>wd_count := attempts, wd_status := status, wd_response := response, wd_error := failure, wd_next := nextAt\<rparr>))
     (\<lambda>rows. case rows of [] \<Rightarrow> fail NoRows | d # _ \<Rightarrow> ret d)"

definition due_delivery :: "instant \<Rightarrow> delivery \<Rightarrow> bool" where
  "due_delivery now d \<longleftrightarrow> wd_status d = ''retrying'' \<and> (case wd_next d of None \<Rightarrow> False | Some t \<Rightarrow> t \<le> now)"

text \<open>
  The claim, with the rows in the order they fell due. It is one statement: no row is locked by another transaction
  between two steps of this model, so nothing is skipped.
\<close>

definition due_batch :: "int \<Rightarrow> hooks \<Rightarrow> delivery list" where
  "due_batch limit w = take (nat limit) (sort_key (\<lambda>d. the (wd_next d)) (filter (due_delivery (db_now (hk_db w))) (hk_deliveries w)))"

definition ClaimWebhookDeliveriesForRedrive :: "int \<Rightarrow> int \<Rightarrow> delivery list hook_query" where
  "ClaimWebhookDeliveriesForRedrive leaseSeconds limit = (\<lambda>w.
     if limit < 0 then (Inl (RaisedException ''LIMIT must not be negative''), w)
     else let hit = due_batch limit w;
              f = (\<lambda>d. d\<lparr>wd_next := Some (db_now (hk_db w) + leaseSeconds * 1000000000)\<rparr>)
       in (Inr (map f hit), w\<lparr>hk_deliveries := updating (\<lambda>d. wd_id d \<in> wd_id ` set hit) f (hk_deliveries w)\<rparr>))"

definition RecordWebhookRedriveOutcome ::
    "string \<Rightarrow> int option \<Rightarrow> string \<Rightarrow> instant option \<Rightarrow> nat \<Rightarrow> nat hook_query" where
  "RecordWebhookRedriveOutcome status response failure nextAt did =
     bindM (update_deliveries (\<lambda>d. wd_id d = did)
       (\<lambda>d. d\<lparr>wd_count := wd_count d + 1, wd_redrives := wd_redrives d + 1, wd_status := status, wd_response := response,
         wd_error := failure, wd_next := nextAt\<rparr>)) (\<lambda>rows. ret (length rows))"

definition AbandonWebhookDelivery :: "string \<Rightarrow> nat \<Rightarrow> nat hook_query" where
  "AbandonWebhookDelivery failure did =
     bindM (update_deliveries (\<lambda>d. wd_id d = did) (\<lambda>d. d\<lparr>wd_status := ''failed'', wd_error := failure, wd_next := None\<rparr>))
       (\<lambda>rows. ret (length rows))"

definition CountWebhookDeliveriesAwaitingRedrive :: "nat hook_query" where
  "CountWebhookDeliveriesAwaitingRedrive = hook_many (\<lambda>w. length (filter (\<lambda>d. wd_status d = ''retrying'') (hk_deliveries w)))"

definition endpoint_deliveries :: "nat \<Rightarrow> nat \<Rightarrow> hooks \<Rightarrow> delivery list" where
  "endpoint_deliveries tid eid w = filter (\<lambda>d. wd_tenant d = tid \<and> wd_endpoint d = eid) (hk_deliveries w)"

definition ListWebhookDeliveriesByEndpoint :: "nat \<Rightarrow> nat \<Rightarrow> int \<Rightarrow> int \<Rightarrow> delivery list hook_query" where
  "ListWebhookDeliveriesByEndpoint tid eid limit offset =
     hook_page limit offset (\<lambda>w. sort_key (\<lambda>d. - wd_created d) (endpoint_deliveries tid eid w))"

definition CountWebhookDeliveriesByEndpoint :: "nat \<Rightarrow> nat \<Rightarrow> nat hook_query" where
  "CountWebhookDeliveriesByEndpoint tid eid = hook_many (\<lambda>w. length (endpoint_deliveries tid eid w))"

end
