(* ===== verification/HookStore.thy ===== *)
theory HookStore
  imports Hooks
begin

text \<open>
  \<open>internal/store/webhooks.go\<close>: endpoints with their sealed signing keys, the delivery log, and the
  operations of the re-drive worker.
\<close>

section \<open>Events, statuses and URLs\<close>

definition WebhookEvents :: "string list" where
  "WebhookEvents = [''secret.changed'', ''secret.rotated'']"

definition IsKnownWebhookEvent :: "string \<Rightarrow> bool" where
  "IsKnownWebhookEvent event \<longleftrightarrow> TrimSpace event \<in> set WebhookEvents"

definition WebhookStatuses :: "string list" where
  "WebhookStatuses = [''active'', ''disabled'']"

text \<open>What the code reads of a parsed URL, and the parser, \<open>None\<close> where it fails.\<close>

record url_parts =
  ur_scheme :: string
  ur_host :: string
  ur_user :: bool

type_synonym url_parser = "string \<Rightarrow> url_parts option"

definition ValidateWebhookURL :: "url_parser \<Rightarrow> string \<Rightarrow> string option" where
  "ValidateWebhookURL parse raw0 =
     (let raw = TrimSpace raw0 in
      if raw = [] then Some ''webhook url is required''
      else if length raw > 2048 then Some ''webhook url must be at most 2048 characters''
      else case parse raw of
          None \<Rightarrow> Some ''webhook url is not a valid URL''
        | Some u \<Rightarrow>
            if ur_scheme u \<noteq> ''https'' then Some ''webhook url must use https''
            else if ur_host u = [] then Some ''webhook url must include a host''
            else if ur_user u then Some ''webhook url must not embed credentials''
            else None)"

fun normalize_events :: "string list \<Rightarrow> string list \<Rightarrow> apperr + string list" where
  "normalize_events out [] = Inr out"
| "normalize_events out (e0 # es) =
     (let e = TrimSpace e0 in
      if e = [] then normalize_events out es
      else if e \<notin> set WebhookEvents
        then Inl (ValidationError (Msg (''webhook event '' @ quoted e @ '' is not one of secret.changed, secret.rotated'')))
      else if e \<in> set out then normalize_events out es
      else normalize_events (out @ [e]) es)"

definition normalizeWebhookEvents :: "string list \<Rightarrow> apperr + string list" where
  "normalizeWebhookEvents events = normalize_events [] events"

definition webhookIdentity :: "uuid \<Rightarrow> uuid \<Rightarrow> identity" where
  "webhookIdentity tenantUUID endpointUUID = \<lparr>TenantUUID = tenantUUID, SecretUUID = endpointUUID, Version = 1\<rparr>"

text \<open>\<open>base64.StdEncoding\<close>: the other two letters and padding.\<close>

definition std_char :: "char \<Rightarrow> char" where
  "std_char c = (if c = CHR ''-'' then CHR ''+'' else if c = CHR ''_'' then CHR 0x2F else c)"

definition b64_std :: "bytes \<Rightarrow> string" where
  "b64_std bs = (let cs = map std_char (b64_encode bs) in cs @ replicate ((4 - length cs mod 4) mod 4) (CHR ''=''))"

section \<open>Endpoints\<close>

record hook_view =
  hv_uuid :: uuid
  hv_url :: string
  hv_description :: string
  hv_events :: "string list"
  hv_status :: string
  hv_timeout :: int
  hv_attempts :: int
  hv_triggered :: "instant option"
  hv_created :: instant

definition toWebhookEndpoint :: "endpoint \<Rightarrow> hook_view" where
  "toWebhookEndpoint e = \<lparr>hv_uuid = we_uuid e, hv_url = we_url e, hv_description = we_description e, hv_events = we_events e,
     hv_status = we_status e, hv_timeout = we_timeout e, hv_attempts = we_attempts e, hv_triggered = we_triggered e,
     hv_created = we_created e\<rparr>"

record signed_endpoint =
  sg_id :: nat
  sg_uuid :: uuid
  sg_url :: string
  sg_events :: "string list"
  sg_timeout :: int
  sg_attempts :: int
  sg_key :: bytes

definition Subscribes :: "signed_endpoint \<Rightarrow> string \<Rightarrow> bool" where
  "Subscribes e event \<longleftrightarrow> sg_events e = [] \<or> event \<in> set (sg_events e)"

record hook_create =
  hc_tenant :: uuid
  hc_project :: string
  hc_url :: string
  hc_description :: string
  hc_events :: "string list"
  hc_timeout :: int
  hc_attempts :: int

definition endpoint_timeout :: "int \<Rightarrow> int" where "endpoint_timeout t = (if t \<le> 0 then 10 else t)"
definition endpoint_attempts :: "int \<Rightarrow> int" where "endpoint_attempts n = (if n \<le> 0 then 3 else n)"

definition hook_project :: "uuid \<Rightarrow> string \<Rightarrow> (tenant \<times> project) hook_op" where
  "hook_project tenantUUID project =
     bindM (inDb (mapErr (mapReadError ''tenant'') (GetTenantByUUID tenantUUID))) (\<lambda>tenant.
     bindM (inDb (mapErr (mapReadError ''project'') (GetProjectBySlug (t_id tenant) project))) (\<lambda>proj.
     ret (tenant, proj)))"

text \<open>\<open>mat\<close> is the draw of the signing key, \<open>u\<close> the UUID drawn for the endpoint, \<open>rnd\<close> the draws of the envelope.\<close>

definition CreateWebhookEndpoint ::
    "service \<Rightarrow> url_parser \<Rightarrow> bytes option \<Rightarrow> uuid \<Rightarrow> draws \<Rightarrow> hook_create \<Rightarrow> (hook_view \<times> string) hook_op" where
  "CreateWebhookEndpoint svc parse mat u rnd inp =
     (case ValidateWebhookURL parse (hc_url inp) of
        Some e \<Rightarrow> fail (ValidationError (Msg e))
      | None \<Rightarrow>
          bindM (liftR (normalizeWebhookEvents (hc_events inp))) (\<lambda>events.
          bindM (hook_project (hc_tenant inp) (hc_project inp)) (\<lambda>(tenant, project).
          bindM (liftR (mapL (\<lambda>e. InternalError ''generate webhook signing key'' (CryptoCause e)) (NewRandomKey mat))) (\<lambda>key.
          bindM (liftR (mapL (\<lambda>e. InternalError ''seal webhook signing key'' (CryptoCause e))
              (Seal (svc_prims svc) (Some (Active (svc_ring svc))) (webhookIdentity (t_uuid tenant) u) rnd key))) (\<lambda>env.
          bindM (mapErr (mapWriteError ''webhook endpoint'' (''an endpoint for '' @ hc_url inp @ '' already exists in this project''))
              (CreateWebhookEndpointRow u (t_id tenant) (p_id project) (hc_url inp) (hc_description inp) env events ''active''
                (endpoint_timeout (hc_timeout inp)) (endpoint_attempts (hc_attempts inp)))) (\<lambda>row.
          ret (toWebhookEndpoint row, b64_std key)))))))"

definition ListWebhookEndpoints :: "uuid \<Rightarrow> string \<Rightarrow> int \<Rightarrow> int \<Rightarrow> (hook_view list \<times> nat) hook_op" where
  "ListWebhookEndpoints tenantUUID project page0 limit0 =
     bindM (hook_project tenantUUID project) (\<lambda>(tenant, proj).
     let (page, limit) = normalizePage page0 limit0 in
     bindM (mapErr (\<lambda>e. InternalError ''list webhook endpoints'' (DbCause e))
         (ListWebhookEndpointMetaByProject (t_id tenant) (p_id proj) (int32 limit) (int32 ((page - 1) * limit)))) (\<lambda>rows.
     bindM (mapErr (\<lambda>e. InternalError ''count webhook endpoints'' (DbCause e))
         (CountWebhookEndpointsByProject (t_id tenant) (p_id proj))) (\<lambda>total.
     ret (map toWebhookEndpoint rows, total))))"

record hook_update =
  hu_tenant :: uuid
  hu_endpoint :: uuid
  hu_url :: string
  hu_description :: string
  hu_events :: "string list"
  hu_status :: string
  hu_timeout :: int
  hu_attempts :: int

definition UpdateWebhookEndpoint :: "url_parser \<Rightarrow> hook_update \<Rightarrow> hook_view hook_op" where
  "UpdateWebhookEndpoint parse inp =
     (case ValidateWebhookURL parse (hu_url inp) of
        Some e \<Rightarrow> fail (ValidationError (Msg e))
      | None \<Rightarrow>
          bindM (if hu_status inp \<in> {''active'', ''disabled''} then ret (hu_status inp)
                 else if hu_status inp = [] then ret ''active''
                 else fail (ValidationError (Msg (''status '' @ quoted (hu_status inp) @ '' must be active or disabled'')))) (\<lambda>status.
          bindM (liftR (normalizeWebhookEvents (hu_events inp))) (\<lambda>events.
          bindM (inDb (mapErr (mapReadError ''tenant'') (GetTenantByUUID (hu_tenant inp)))) (\<lambda>tenant.
          bindM (mapErr (mapWriteError ''webhook endpoint'' ''an endpoint for that URL already exists in this project'')
              (UpdateWebhookEndpointRow (hu_url inp) (hu_description inp) events status (endpoint_timeout (hu_timeout inp))
                (endpoint_attempts (hu_attempts inp)) (t_id tenant) (hu_endpoint inp))) (\<lambda>row.
          ret (toWebhookEndpoint row))))))"

definition DeleteWebhookEndpoint :: "uuid \<Rightarrow> uuid \<Rightarrow> unit hook_op" where
  "DeleteWebhookEndpoint tenantUUID endpointUUID =
     bindM (inDb (mapErr (mapReadError ''tenant'') (GetTenantByUUID tenantUUID))) (\<lambda>tenant.
     bindM (mapErr (\<lambda>e. InternalError ''delete webhook endpoint'' (DbCause e)) (SoftDeleteWebhookEndpoint (t_id tenant) endpointUUID)) (\<lambda>n.
     if n = 0 then fail (NotFoundError ''webhook endpoint'') else ret ()))"

section \<open>Signing keys\<close>

definition endpoint_envelope :: "endpoint \<Rightarrow> envelope" where
  "endpoint_envelope e = \<lparr>Ciphertext = we_ciphertext e, Nonce = we_nonce e, DEKWrapped = we_dek e,
     DEKNonce = we_dek_nonce e, KEKID = we_kek e, Checksum = []\<rparr>"

definition signed_of :: "endpoint \<Rightarrow> bytes \<Rightarrow> signed_endpoint" where
  "signed_of e key = \<lparr>sg_id = we_id e, sg_uuid = we_uuid e, sg_url = we_url e, sg_events = we_events e,
     sg_timeout = we_timeout e, sg_attempts = we_attempts e, sg_key = key\<rparr>"

text \<open>An endpoint whose key this process cannot open is passed over.\<close>

definition signed_row :: "service \<Rightarrow> uuid \<Rightarrow> endpoint \<Rightarrow> signed_endpoint option" where
  "signed_row svc tenantUUID e =
     (case Provider (svc_ring svc) (we_kek e) of
        Inl _ \<Rightarrow> None
      | Inr provider \<Rightarrow>
          (case Open (svc_prims svc) (Some provider) (webhookIdentity tenantUUID (we_uuid e)) (endpoint_envelope e) of
             Inl _ \<Rightarrow> None
           | Inr key \<Rightarrow> Some (signed_of e key)))"

definition SignedEndpointsForProject :: "service \<Rightarrow> uuid \<Rightarrow> string \<Rightarrow> signed_endpoint list hook_op" where
  "SignedEndpointsForProject svc tenantUUID project =
     bindM (hook_project tenantUUID project) (\<lambda>(tenant, proj).
     bindM (mapErr (\<lambda>e. InternalError ''list active webhook endpoints'' (DbCause e))
         (ListActiveWebhookEndpointsByProject (t_id tenant) (p_id proj))) (\<lambda>rows.
     ret (List.map_filter (signed_row svc (t_uuid tenant)) rows)))"

definition SignedEndpointByID :: "service \<Rightarrow> nat \<Rightarrow> signed_endpoint hook_op" where
  "SignedEndpointByID svc eid =
     bindM (mapErr (mapReadError ''webhook endpoint'') (GetSignedWebhookEndpointByID eid)) (\<lambda>(row, tenantUUID).
     bindM (liftR (mapL (\<lambda>e. UnavailableError (CryptoMsg ''the webhook signing key is wrapped under a root key this process does not hold''))
         (Provider (svc_ring svc) (we_kek row)))) (\<lambda>provider.
     bindM (liftR (mapL (\<lambda>e. InternalError ''open webhook signing key'' (CryptoCause e))
         (Open (svc_prims svc) (Some provider) (webhookIdentity tenantUUID (we_uuid row)) (endpoint_envelope row)))) (\<lambda>key.
     ret (signed_of row key))))"

section \<open>Deliveries\<close>

record delivery_view =
  dv_uuid :: uuid
  dv_event :: string
  dv_mrn :: string
  dv_version :: "int option"
  dv_count :: int
  dv_status :: string
  dv_response :: "int option"
  dv_error :: string
  dv_payload :: object
  dv_created :: instant

definition delivery_of :: "delivery \<Rightarrow> delivery_view" where
  "delivery_of d = \<lparr>dv_uuid = wd_uuid d, dv_event = wd_event d, dv_mrn = wd_mrn d, dv_version = wd_version d,
     dv_count = wd_count d, dv_status = wd_status d, dv_response = wd_response d, dv_error = wd_error d,
     dv_payload = wd_payload d, dv_created = wd_created d\<rparr>"

definition OpenWebhookDelivery :: "uuid \<Rightarrow> nat \<Rightarrow> string \<Rightarrow> string \<Rightarrow> int option \<Rightarrow> object \<Rightarrow> (nat \<times> uuid) hook_op" where
  "OpenWebhookDelivery tenantUUID eid eventType resourceMRN ver payload =
     bindM (inDb (mapErr (mapReadError ''tenant'') (GetTenantByUUID tenantUUID))) (\<lambda>tenant.
     bindM (mapErr (\<lambda>e. InternalError ''record webhook delivery'' (DbCause e))
         (CreateWebhookDelivery eid (t_id tenant) eventType resourceMRN ver payload)) (\<lambda>row.
     ret (wd_id row, wd_uuid row)))"

definition FinishWebhookDelivery :: "nat \<Rightarrow> int \<Rightarrow> string \<Rightarrow> int option \<Rightarrow> string \<Rightarrow> instant option \<Rightarrow> unit hook_op" where
  "FinishWebhookDelivery did attempts status response failure nextAt =
     bindM (mapErr (\<lambda>e. InternalError ''finish webhook delivery'' (DbCause e))
       (FinishWebhookDeliveryRow attempts status response failure nextAt did)) (\<lambda>_. ret ())"

record redrive_delivery =
  rd_id :: nat
  rd_uuid :: uuid
  rd_endpoint :: nat
  rd_tenant :: uuid
  rd_event :: string
  rd_payload :: object
  rd_redrives :: int
  rd_count :: int
  rd_mrn :: string

definition GetTenantByID :: "nat \<Rightarrow> tenant query" where
  "GetTenantByID tid = q_one (\<lambda>s. filter (\<lambda>t. t_id t = tid \<and> live_tenant t) (tenants s))"

definition redrive_of :: "delivery \<Rightarrow> tenant \<Rightarrow> redrive_delivery" where
  "redrive_of d t = \<lparr>rd_id = wd_id d, rd_uuid = wd_uuid d, rd_endpoint = wd_endpoint d, rd_tenant = t_uuid t,
     rd_event = wd_event d, rd_payload = wd_payload d, rd_redrives = wd_redrives d, rd_count = wd_count d, rd_mrn = wd_mrn d\<rparr>"

fun claimed_rows :: "delivery list \<Rightarrow> redrive_delivery list hook_op" where
  "claimed_rows [] = ret []"
| "claimed_rows (d # ds) =
     bindM (tryM (inDb (GetTenantByID (wd_tenant d)))) (\<lambda>t.
     bindM (claimed_rows ds) (\<lambda>out.
     ret (case t of Inl _ \<Rightarrow> out | Inr tenant \<Rightarrow> redrive_of d tenant # out)))"

text \<open>
  \<open>lease.Seconds()\<close> is a float64 that is cut to an int32: the whole seconds, exactly for leases below 2^22
  seconds, where neighbouring floats are less than a nanosecond apart.
\<close>

definition lease_seconds :: "int \<Rightarrow> int" where
  "lease_seconds lease = (let n = int32 (lease div 1000000000) in if n < 1 then 1 else n)"

definition ClaimDeliveriesForRedrive :: "int \<Rightarrow> int \<Rightarrow> redrive_delivery list hook_op" where
  "ClaimDeliveriesForRedrive limit lease =
     (if limit < 1 then ret []
      else bindM (mapErr (\<lambda>e. InternalError ''claim webhook deliveries for re-drive'' (DbCause e))
          (ClaimWebhookDeliveriesForRedrive (lease_seconds lease) (int32 limit))) claimed_rows)"

definition RecordRedriveOutcome :: "nat \<Rightarrow> string \<Rightarrow> int option \<Rightarrow> string \<Rightarrow> instant option \<Rightarrow> unit hook_op" where
  "RecordRedriveOutcome did status response failure nextAt =
     bindM (mapErr (\<lambda>e. InternalError ''record webhook re-drive outcome'' (DbCause e))
       (RecordWebhookRedriveOutcome status response failure nextAt did)) (\<lambda>_. ret ())"

definition AbandonDelivery :: "nat \<Rightarrow> string \<Rightarrow> unit hook_op" where
  "AbandonDelivery did why =
     bindM (mapErr (\<lambda>e. InternalError ''abandon webhook delivery'' (DbCause e)) (AbandonWebhookDelivery why did)) (\<lambda>_. ret ())"

definition CountDeliveriesAwaitingRedrive :: "nat hook_op" where
  "CountDeliveriesAwaitingRedrive =
     mapErr (\<lambda>e. InternalError ''count webhook deliveries awaiting re-drive'' (DbCause e)) CountWebhookDeliveriesAwaitingRedrive"

definition TouchWebhookEndpoint :: "nat \<Rightarrow> unit hook_op" where
  "TouchWebhookEndpoint eid =
     bindM (mapErr (\<lambda>e. InternalError ''touch webhook endpoint'' (DbCause e)) (TouchWebhookEndpointRow eid)) (\<lambda>_. ret ())"

definition ListWebhookDeliveries :: "uuid \<Rightarrow> uuid \<Rightarrow> int \<Rightarrow> int \<Rightarrow> (delivery_view list \<times> nat) hook_op" where
  "ListWebhookDeliveries tenantUUID endpointUUID page0 limit0 =
     bindM (inDb (mapErr (mapReadError ''tenant'') (GetTenantByUUID tenantUUID))) (\<lambda>tenant.
     bindM (mapErr (mapReadError ''webhook endpoint'') (GetWebhookEndpointByUUID (t_id tenant) endpointUUID)) (\<lambda>e.
     let (page, limit) = normalizePage page0 limit0 in
     bindM (mapErr (\<lambda>x. InternalError ''list webhook deliveries'' (DbCause x))
         (ListWebhookDeliveriesByEndpoint (t_id tenant) (we_id e) (int32 limit) (int32 ((page - 1) * limit)))) (\<lambda>rows.
     bindM (mapErr (\<lambda>x. InternalError ''count webhook deliveries'' (DbCause x))
         (CountWebhookDeliveriesByEndpoint (t_id tenant) (we_id e))) (\<lambda>total.
     ret (map delivery_of rows, total)))))"

end
