(* ===== verification/HookWire.thy ===== *)
theory HookWire
  imports HookStore AuditTrail
begin

text \<open>
  What goes over the wire of a webhook delivery (\<open>internal/webhook/webhook.go\<close>): the JSON body, the
  signature, and the addresses the delivery client may connect to. The pieces of \<open>encoding/json\<close>, \<open>time\<close>,
  \<open>crypto/hmac\<close> and \<open>net\<close> the package uses are written out; SHA-256 is the parameter of \<open>Crypto\<close>.
\<close>

section \<open>The body\<close>

record payload =
  py_id :: string
  py_event :: string
  py_resource :: string
  py_version :: int
  py_tenant :: string
  py_project :: string
  py_occurred :: string

text \<open>A string as \<open>json.Marshal\<close> writes it, with HTML escaping; bytes that are not UTF-8 become U+FFFD.\<close>

definition json_escape :: "char \<Rightarrow> string" where
  "json_escape c =
     (let n = of_char c :: nat in
      if n = 0x22 \<or> n = 0x5C then [CHR 0x5C, c]
      else if n = 8 then [CHR 0x5C, CHR ''b''] else if n = 12 then [CHR 0x5C, CHR ''f'']
      else if n = 10 then [CHR 0x5C, CHR ''n''] else if n = 13 then [CHR 0x5C, CHR ''r'']
      else if n = 9 then [CHR 0x5C, CHR ''t'']
      else if n < 32 \<or> n = 0x3C \<or> n = 0x3E \<or> n = 0x26
        then CHR 0x5C # ''u00'' @ [hex_digit (n div 16), hex_digit (n mod 16)]
      else [c])"

fun json_chars :: "nat \<Rightarrow> string \<Rightarrow> string" where
  "json_chars fuel [] = []"
| "json_chars 0 (c # cs) = []"
| "json_chars (Suc fuel) (c # cs) =
     (if (of_char c :: nat) < 128 then json_escape c @ json_chars fuel cs
      else case char_len (map of_char (c # cs)) of
          None \<Rightarrow> CHR 0x5C # ''ufffd'' @ json_chars fuel cs
        | Some n \<Rightarrow>
            (let r = take n (c # cs) in
             if r = [CHR 0xE2, CHR 0x80, CHR 0xA8] then CHR 0x5C # ''u2028''
             else if r = [CHR 0xE2, CHR 0x80, CHR 0xA9] then CHR 0x5C # ''u2029''
             else r) @ json_chars fuel (drop n (c # cs)))"

definition json_text :: "string \<Rightarrow> string" where
  "json_text s = CHR 0x22 # json_chars (length s) s @ [CHR 0x22]"

definition json_field :: "string \<Rightarrow> string \<Rightarrow> string" where
  "json_field name val = json_text name @ CHR '':'' # val"

definition payload_json :: "payload \<Rightarrow> string" where
  "payload_json p = CHR ''{'' # joinWith CHR '',''
     [json_field ''id'' (json_text (py_id p)), json_field ''event'' (json_text (py_event p)),
      json_field ''resource'' (json_text (py_resource p)), json_field ''version'' (FormatInt (py_version p)),
      json_field ''tenant'' (json_text (py_tenant p)), json_field ''project'' (json_text (py_project p)),
      json_field ''occurred_at'' (json_text (py_occurred p))] @ ''}''"

text \<open>The same body as the JSONB column keeps it.\<close>

definition payload_object :: "payload \<Rightarrow> object" where
  "payload_object p = [(''id'', JStr (py_id p)), (''event'', JStr (py_event p)), (''resource'', JStr (py_resource p)),
     (''version'', JNum (py_version p)), (''tenant'', JStr (py_tenant p)), (''project'', JStr (py_project p)),
     (''occurred_at'', JStr (py_occurred p))]"

text \<open>
  \<open>eventIDFrom\<close>: the id of a stored body, none where it does not decode into the struct. Member names are those
  \<open>payload_object\<close> writes; the decoder would also take them in other letter cases.
\<close>

definition string_members :: "string list" where
  "string_members = [''id'', ''event'', ''resource'', ''tenant'', ''project'', ''occurred_at'']"

definition member_fits :: "string \<times> json \<Rightarrow> bool" where
  "member_fits = (\<lambda>(k, v).
     if k \<in> set string_members then (case v of JNull \<Rightarrow> True | JStr _ \<Rightarrow> True | _ \<Rightarrow> False)
     else if k = ''version'' then (case v of JNull \<Rightarrow> True | JNum n \<Rightarrow> - (2 ^ 31) \<le> n \<and> n < 2 ^ 31 | _ \<Rightarrow> False)
     else True)"

definition eventIDFrom :: "object \<Rightarrow> string" where
  "eventIDFrom body = (if list_all member_fits body then (case map_of body ''id'' of Some (JStr i) \<Rightarrow> i | _ \<Rightarrow> []) else [])"

section \<open>The time of a notification\<close>

text \<open>\<open>time.RFC3339\<close> in UTC of an instant in nanoseconds: the civil date of a day count from 1970, for years of four digits.\<close>

definition civil_date :: "int \<Rightarrow> int \<times> int \<times> int" where
  "civil_date days =
     (let z = days + 719468;
          era = z div 146097;
          doe = z mod 146097;
          yoe = (doe - doe div 1460 + doe div 36524 - doe div 146096) div 365;
          doy = doe - (365 * yoe + yoe div 4 - yoe div 100);
          mp = (5 * doy + 2) div 153;
          day = doy - (153 * mp + 2) div 5 + 1;
          month = (if mp < 10 then mp + 3 else mp - 9)
      in (yoe + era * 400 + (if month \<le> 2 then 1 else 0), month, day))"

definition padded :: "nat \<Rightarrow> int \<Rightarrow> string" where
  "padded n x = (let ds = FormatInt x in replicate (n - length ds) CHR ''0'' @ ds)"

definition rfc3339 :: "instant \<Rightarrow> string" where
  "rfc3339 t =
     (let secs = t div 1000000000; days = secs div 86400; r = secs mod 86400; (y, m, d) = civil_date days
      in padded 4 y @ ''-'' @ padded 2 m @ ''-'' @ padded 2 d @ ''T'' @ padded 2 (r div 3600) @ '':'' @
         padded 2 (r div 60 mod 60) @ '':'' @ padded 2 (r mod 60) @ ''Z'')"

section \<open>The signature\<close>

text \<open>HMAC over SHA-256, whose blocks are 64 bytes.\<close>

definition hmac_key :: "prims \<Rightarrow> bytes \<Rightarrow> bytes" where
  "hmac_key P key = (let k = (if length key > 64 then sha256 P key else key) in k @ replicate (64 - length k) 0)"

definition hmac_sha256 :: "prims \<Rightarrow> bytes \<Rightarrow> bytes \<Rightarrow> bytes" where
  "hmac_sha256 P key msg =
     (let k = hmac_key P key in
      sha256 P (map (\<lambda>b. b XOR 0x5C) k @ sha256 P (map (\<lambda>b. b XOR 0x36) k @ msg)))"

definition signed_message :: "int \<Rightarrow> bytes \<Rightarrow> bytes" where
  "signed_message timestamp body = bytes_of (FormatInt timestamp) @ bytes_of ''.'' @ body"

definition Signature :: "prims \<Rightarrow> bytes \<Rightarrow> int \<Rightarrow> bytes \<Rightarrow> string" where
  "Signature P key timestamp body = ''sha256='' @ hex_encode (hmac_sha256 P key (signed_message timestamp body))"

section \<open>Addresses a delivery may reach\<close>

text \<open>A \<open>net.IP\<close> is a byte slice of 4 or 16 bytes, or nil.\<close>

type_synonym ip = "nat list"

definition To4 :: "ip \<Rightarrow> ip option" where
  "To4 a = (if length a = 4 then Some a
     else if length a = 16 \<and> take 10 a = replicate 10 0 \<and> a ! 10 = 255 \<and> a ! 11 = 255 then Some (drop 12 a) else None)"

definition ip6_loopback :: ip where "ip6_loopback = replicate 15 0 @ [1]"

definition ip_equal :: "ip \<Rightarrow> ip \<Rightarrow> bool" where
  "ip_equal a b \<longleftrightarrow> (if length a = length b then a = b else To4 a \<noteq> None \<and> To4 a = To4 b)"

definition IsLoopback :: "ip \<Rightarrow> bool" where
  "IsLoopback a = (case To4 a of Some b \<Rightarrow> b ! 0 = 127 | None \<Rightarrow> ip_equal a ip6_loopback)"

definition IsLinkLocalUnicast :: "ip \<Rightarrow> bool" where
  "IsLinkLocalUnicast a = (case To4 a of Some b \<Rightarrow> b ! 0 = 169 \<and> b ! 1 = 254
     | None \<Rightarrow> length a = 16 \<and> a ! 0 = 254 \<and> a ! 1 div 64 = 2)"

definition IsLinkLocalMulticast :: "ip \<Rightarrow> bool" where
  "IsLinkLocalMulticast a = (case To4 a of Some b \<Rightarrow> b ! 0 = 224 \<and> b ! 1 = 0 \<and> b ! 2 = 0
     | None \<Rightarrow> length a = 16 \<and> a ! 0 = 255 \<and> a ! 1 mod 16 = 2)"

definition IsInterfaceLocalMulticast :: "ip \<Rightarrow> bool" where
  "IsInterfaceLocalMulticast a \<longleftrightarrow> length a = 16 \<and> a ! 0 = 255 \<and> a ! 1 mod 16 = 1"

definition IsMulticast :: "ip \<Rightarrow> bool" where
  "IsMulticast a = (case To4 a of Some b \<Rightarrow> b ! 0 div 16 = 14 | None \<Rightarrow> length a = 16 \<and> a ! 0 = 255)"

definition IsUnspecified :: "ip \<Rightarrow> bool" where
  "IsUnspecified a \<longleftrightarrow> ip_equal a [0, 0, 0, 0] \<or> ip_equal a (replicate 16 0)"

definition IsPrivate :: "ip \<Rightarrow> bool" where
  "IsPrivate a = (case To4 a of
       Some b \<Rightarrow> b ! 0 = 10 \<or> b ! 0 = 172 \<and> b ! 1 div 16 = 1 \<or> b ! 0 = 192 \<and> b ! 1 = 168
     | None \<Rightarrow> length a = 16 \<and> a ! 0 div 2 = 126)"

definition IsUnsafeIP :: "ip option \<Rightarrow> bool" where
  "IsUnsafeIP addr = (case addr of
       None \<Rightarrow> True
     | Some a \<Rightarrow>
         if IsLoopback a \<or> IsLinkLocalUnicast a \<or> IsLinkLocalMulticast a \<or> IsInterfaceLocalMulticast a
           \<or> IsMulticast a \<or> IsUnspecified a then True
         else if IsPrivate a then True
         else (case To4 a of Some b \<Rightarrow> b ! 0 = 100 \<and> b ! 1 \<ge> 64 \<and> b ! 1 \<le> 127 | None \<Rightarrow> False))"

text \<open>
  The dial: the host of the address is a literal (\<open>net.ParseIP\<close>, the argument \<open>literal\<close>) or resolved once
  (\<open>resolve\<close>); the address connected to is the first of those checked.
\<close>

definition pinnedSafeDial :: "(string \<Rightarrow> ip option) \<Rightarrow> (string \<Rightarrow> string + ip option list) \<Rightarrow> string \<Rightarrow> string + ip option" where
  "pinnedSafeDial literal resolve host =
     (case (case literal host of Some a \<Rightarrow> Inr [Some a]
        | None \<Rightarrow> mapL (\<lambda>e. ''resolve '' @ host @ '': '' @ e) (resolve host)) of
        Inl e \<Rightarrow> Inl e
      | Inr ips \<Rightarrow>
          if ips = [] then Inl (''no addresses for host '' @ quoted host)
          else if list_ex IsUnsafeIP ips then Inl ''destination resolves to a disallowed address''
          else Inr (hd ips))"

text \<open>\<open>CheckRedirect\<close> of the client, over the scheme of the next request.\<close>

definition CheckRedirect :: "string \<Rightarrow> string option" where
  "CheckRedirect scheme = (if scheme \<noteq> ''https'' then Some ''webhook redirect to a non-https destination is refused'' else None)"

end
