(* ===== verification/Rotation.thy ===== *)
theory Rotation
  imports Scope TransitToken
begin

text \<open>
  \<open>internal/rotation/generator.go\<close>: the generator of new values, the rotation policy with its JSON form
  and the due date, after the part of \<open>time.ParseDuration\<close> it uses. Random indices and bytes are
  arguments: \<open>draw n i\<close> is the \<open>i\<close>-th number \<open>crypto/rand.Int\<close> returns below \<open>n\<close>.

  JSON numbers are integers here. The fraction of a duration is computed exactly, where Go uses
  a float64. Messages keep their fixed parts.
\<close>

section \<open>\<open>time.ParseDuration\<close>\<close>

definition duration_digit :: "char \<Rightarrow> bool" where
  "duration_digit c \<longleftrightarrow> digit_val c \<noteq> None"

definition digits_int :: "string \<Rightarrow> int" where
  "digits_int ds = foldl (\<lambda>x c. x * 10 + (case digit_val c of Some d \<Rightarrow> int d | None \<Rightarrow> 0)) 0 ds"

text \<open>\<open>leadingInt\<close>: the check is made after each digit, and the value only grows.\<close>

definition leadingInt :: "string \<Rightarrow> (int \<times> string) option" where
  "leadingInt s = (let ds = takeWhile duration_digit s; v = digits_int ds in
     if v > 2 ^ 63 then None else Some (v, dropWhile duration_digit s))"

text \<open>\<open>leadingFraction\<close>: digits beyond the range of the accumulator are read and ignored.\<close>

fun fraction_digits :: "string \<Rightarrow> int \<Rightarrow> int \<Rightarrow> int \<times> int" where
  "fraction_digits [] x scale = (x, scale)"
| "fraction_digits (c # cs) x scale =
     (let y = x * 10 + (case digit_val c of Some d \<Rightarrow> int d | None \<Rightarrow> 0) in
      if x > (2 ^ 63 - 1) div 10 \<or> y > 2 ^ 63 then (x, scale) else fraction_digits cs y (scale * 10))"

definition unit_of :: "string \<Rightarrow> int option" where
  "unit_of u =
     (if u = ''ns'' then Some 1
      else if u = ''us'' \<or> u = [char_of (194::nat), char_of (181::nat), CHR ''s'']
           \<or> u = [char_of (206::nat), char_of (188::nat), CHR ''s''] then Some 1000
      else if u = ''ms'' then Some 1000000
      else if u = ''s'' then Some 1000000000
      else if u = ''m'' then Some 60000000000
      else if u = ''h'' then Some 3600000000000
      else None)"

definition unit_char :: "char \<Rightarrow> bool" where
  "unit_char c \<longleftrightarrow> c \<noteq> CHR ''.'' \<and> \<not> duration_digit c"

text \<open>One number with its unit: the value in nanoseconds and the rest of the text.\<close>

definition duration_part :: "string \<Rightarrow> (int \<times> string) option" where
  "duration_part s =
     (if s = [] \<or> \<not> (hd s = CHR ''.'' \<or> duration_digit (hd s)) then None
      else case leadingInt s of
        None \<Rightarrow> None
      | Some (v, s1) \<Rightarrow>
          let pre = length s \<noteq> length s1;
              dot = (s1 \<noteq> [] \<and> hd s1 = CHR ''.'');
              s2 = (if dot then tl s1 else s1);
              frac = (if dot then takeWhile duration_digit s2 else []);
              s3 = (if dot then dropWhile duration_digit s2 else s2);
              u = takeWhile unit_char s3;
              s4 = dropWhile unit_char s3
          in if (\<not> pre \<and> frac = []) \<or> u = [] then None
             else case unit_of u of
               None \<Rightarrow> None
             | Some n \<Rightarrow>
                 if v > 2 ^ 63 div n then None
                 else let (f, scale) = fraction_digits frac 0 1; w = v * n + (if f > 0 then f * n div scale else 0)
                   in if w > 2 ^ 63 then None else Some (w, s4))"

fun duration_loop :: "nat \<Rightarrow> string \<Rightarrow> int \<Rightarrow> int option" where
  "duration_loop fuel [] d = Some d"
| "duration_loop 0 s d = None"
| "duration_loop (Suc fuel) s d =
     (case duration_part s of
        None \<Rightarrow> None
      | Some (w, rest) \<Rightarrow> if d + w > 2 ^ 63 then None else duration_loop fuel rest (d + w))"

text \<open>Every part takes at least one byte: the length of the text is fuel enough.\<close>

definition ParseDuration :: "string \<Rightarrow> int option" where
  "ParseDuration orig =
     (let neg = (orig \<noteq> [] \<and> hd orig = CHR ''-'');
          s = (if orig \<noteq> [] \<and> (hd orig = CHR ''-'' \<or> hd orig = CHR ''+'') then tl orig else orig)
      in if s = ''0'' then Some 0
         else if s = [] then None
         else case duration_loop (length s) s 0 of
           None \<Rightarrow> None
         | Some d \<Rightarrow> if neg then Some (- d) else if d > 2 ^ 63 - 1 then None else Some d)"

section \<open>The generator\<close>

definition alphanumericAlphabet :: string where
  "alphanumericAlphabet = ''ABCDEFGHIJKLMNOPQRSTUVWXYZabcdefghijklmnopqrstuvwxyz0123456789''"

definition symbolAlphabet :: string where
  "symbolAlphabet = ''!#%&()*+,-.:;<=>?@[]^_{|}~''"

definition MinLength :: int where "MinLength = 12"
definition MaxLength :: int where "MaxLength = 512"
definition DefaultLength :: int where "DefaultLength = 32"

record spec =
  g_type :: string
  g_length :: int
  g_charset :: string
  g_value :: string

definition alphabet :: "string \<Rightarrow> string + string" where
  "alphabet charset =
     (if charset = ''alphanumeric'' \<or> charset = [] then Inr alphanumericAlphabet
      else if charset = ''alphanumeric-symbols'' then Inr (alphanumericAlphabet @ symbolAlphabet)
      else if charset = ''hex'' \<or> charset = ''base64url'' then Inr []
      else Inl ''charset must be one of alphanumeric, alphanumeric-symbols, hex, base64url'')"

text \<open>\<open>Validate\<close> normalizes its receiver; the model returns the normalized spec.\<close>

definition Spec_Validate :: "bool \<Rightarrow> spec \<Rightarrow> string + spec" where
  "Spec_Validate scheduled s0 =
     (let s = (if g_type s0 = [] then s0\<lparr>g_type := ''random''\<rparr> else s0) in
      if g_type s = ''random''
      then let s1 = (if g_length s = 0 then s\<lparr>g_length := DefaultLength\<rparr> else s) in
           if g_length s1 < MinLength \<or> g_length s1 > MaxLength
           then Inl (''generated value length must be between 12 and 512, got '' @ FormatInt (g_length s1))
           else let s2 = (if g_charset s1 = [] then s1\<lparr>g_charset := ''alphanumeric''\<rparr> else s1) in
                bindR (alphabet (g_charset s2)) (\<lambda>_. Inr s2)
      else if g_type s = ''supplied''
      then if scheduled
           then Inl ''a scheduled rotation policy cannot use the supplied generator: there is nobody to supply a value when the schedule fires''
           else if g_value s = [] then Inl ''generator supplied requires a value''
           else Inr s
      else Inl ''generator type must be random or supplied'')"

record random_source =
  draw :: "nat \<Rightarrow> nat \<Rightarrow> nat"
  raw_bytes :: "nat \<Rightarrow> bytes"

text \<open>What \<open>crypto/rand\<close> documents: a number below its bound, and as many bytes as asked for.\<close>

definition lawful_source :: "random_source \<Rightarrow> bool" where
  "lawful_source r \<longleftrightarrow> (\<forall>n i. 0 < n \<longrightarrow> draw r n i < n) \<and> (\<forall>n. length (raw_bytes r n) = n)"

definition randomString :: "random_source \<Rightarrow> string \<Rightarrow> int \<Rightarrow> string + string" where
  "randomString rnd charset len =
     (if charset = ''hex'' then Inr (take (nat len) (hex_encode (raw_bytes rnd (nat ((len + 1) div 2)))))
      else if charset = ''base64url'' then Inr (take (nat len) (b64_encode (raw_bytes rnd (nat len))))
      else bindR (alphabet charset) (\<lambda>alpha. Inr (map (\<lambda>i. alpha ! draw rnd (length alpha) i) [0..<nat len])))"

definition Generate :: "random_source \<Rightarrow> spec \<Rightarrow> string + string" where
  "Generate rnd s =
     (if g_type s = ''supplied''
      then if g_value s = [] then Inl ''generator supplied requires a value'' else Inr (g_value s)
      else if g_type s = ''random'' \<or> g_type s = []
      then randomString rnd (g_charset s) (if g_length s = 0 then DefaultLength else g_length s)
      else Inl ''generator type is not supported'')"

section \<open>The policy\<close>

record rotation_policy =
  rp_enabled :: bool
  rp_interval :: string
  rp_generator :: spec

definition empty_spec :: spec where
  "empty_spec = \<lparr>g_type = [], g_length = 0, g_charset = [], g_value = []\<rparr>"

definition MinInterval :: int where "MinInterval = 3600000000000"

definition IntervalDuration :: "rotation_policy \<Rightarrow> string + int" where
  "IntervalDuration p =
     (if rp_interval p = [] then Inl ''an enabled rotation policy requires an interval (a duration such as 720h)''
      else case ParseDuration (rp_interval p) of
        None \<Rightarrow> Inl ''rotation interval is not a duration (try 720h)''
      | Some d \<Rightarrow> if d < MinInterval then Inl ''rotation interval must be at least 1h0m0s'' else Inr d)"

definition json_string :: "json option \<Rightarrow> string option" where
  "json_string j = (case j of Some (JStr s) \<Rightarrow> Some s | _ \<Rightarrow> None)"

definition lower :: "char \<Rightarrow> char" where
  "lower c = (if is_upper c then char_of ((of_char c :: nat) + 32) else c)"

text \<open>\<open>strings.EqualFold\<close> with the constant \<open>true\<close>, whose letters have no folds outside ASCII.\<close>

definition EqualFold_true :: "string \<Rightarrow> bool" where
  "EqualFold_true v \<longleftrightarrow> map lower v = ''true''"

definition parse_enabled :: "json option \<Rightarrow> string + bool" where
  "parse_enabled j = (case j of
      Some (JBool b) \<Rightarrow> Inr b
    | Some (JStr v) \<Rightarrow> Inr (EqualFold_true v)
    | None \<Rightarrow> Inr False
    | Some JNull \<Rightarrow> Inr False
    | _ \<Rightarrow> Inl ''rotation policy 'enabled' must be a boolean'')"

definition parse_generator :: "json option \<Rightarrow> string + spec" where
  "parse_generator j = (case j of
      Some (JObj g) \<Rightarrow>
        let get = map_of g;
            s = \<lparr>g_type = (case json_string (get ''type'') of Some t \<Rightarrow> t | None \<Rightarrow> []),
                 g_length = (case get ''length'' of Some (JNum n) \<Rightarrow> n | _ \<Rightarrow> 0),
                 g_charset = (case json_string (get ''charset'') of Some c \<Rightarrow> c | None \<Rightarrow> []), g_value = []\<rparr>
        in (case json_string (get ''value'') of
              Some v \<Rightarrow> if v \<noteq> []
                then Inl ''rotation policy must not contain a generator value: the policy is stored as readable metadata''
                else Inr s
            | None \<Rightarrow> Inr s)
    | _ \<Rightarrow> Inr empty_spec)"

definition ParsePolicy :: "object \<Rightarrow> string + rotation_policy" where
  "ParsePolicy raw =
     (if raw = [] then Inr \<lparr>rp_enabled = False, rp_interval = [], rp_generator = empty_spec\<rparr>
      else bindR (parse_enabled (map_of raw ''enabled'')) (\<lambda>enabled.
        bindR (parse_generator (map_of raw ''generator'')) (\<lambda>g.
        let p = \<lparr>rp_enabled = enabled,
              rp_interval = (case json_string (map_of raw ''interval'') of Some s \<Rightarrow> s | None \<Rightarrow> []), rp_generator = g\<rparr>
        in if \<not> enabled then Inr p
           else bindR (IntervalDuration p) (\<lambda>_.
             bindR (Spec_Validate True g) (\<lambda>g'. Inr (p\<lparr>rp_generator := g'\<rparr>))))))"

definition NextDue :: "rotation_policy \<Rightarrow> instant \<Rightarrow> string + instant" where
  "NextDue p since = bindR (IntervalDuration p) (\<lambda>d. Inr (since + d))"

text \<open>\<open>Map\<close>: the keys in the order \<open>encoding/json\<close> writes them.\<close>

definition policy_Map :: "rotation_policy \<Rightarrow> object" where
  "policy_Map p =
     (''enabled'', JBool (rp_enabled p))
     # (let g = rp_generator p in
        if g_type g \<noteq> [] \<or> g_length g \<noteq> 0 \<or> g_charset g \<noteq> []
        then [(''generator'', JObj (
               (if g_charset g \<noteq> [] then [(''charset'', JStr (g_charset g))] else [])
               @ (if g_length g \<noteq> 0 then [(''length'', JNum (g_length g))] else [])
               @ (if g_type g \<noteq> [] then [(''type'', JStr (g_type g))] else [])))] else [])
     @ (if rp_interval p \<noteq> [] then [(''interval'', JStr (rp_interval p))] else [])"

section \<open>Round trip and generated values\<close>

lemma json_string_simps [simp]: "json_string (Some (JStr s)) = Some s" "json_string None = None"
  by (simp_all add: json_string_def)

lemma parse_Map_generator:
  "g_value (rp_generator p) = [] \<Longrightarrow> parse_generator (map_of (policy_Map p) ''generator'') = Inr (rp_generator p)"
  by (cases "rp_generator p")
    (auto simp: policy_Map_def parse_generator_def empty_spec_def Let_def)

lemma parse_Map_fields:
  "map_of (policy_Map p) ''enabled'' = Some (JBool (rp_enabled p))"
  "(case json_string (map_of (policy_Map p) ''interval'') of Some s \<Rightarrow> s | None \<Rightarrow> []) = rp_interval p"
  by (auto simp: policy_Map_def Let_def)

lemma policy_Map_ne [simp]: "policy_Map p \<noteq> []"
  by (simp add: policy_Map_def)

text \<open>The policy that a spec already normalized by \<open>Validate\<close> carries.\<close>

lemma Spec_Validate_cases:
  assumes "Spec_Validate sch s = Inr t"
  shows "g_type t = ''supplied'' \<and> \<not> sch \<and> g_value t \<noteq> []
    \<or> g_type t = ''random'' \<and> MinLength \<le> g_length t \<and> g_length t \<le> MaxLength \<and> g_length t \<noteq> 0
        \<and> g_charset t \<noteq> [] \<and> (\<exists>a. alphabet (g_charset t) = Inr a)"
  using assms unfolding Spec_Validate_def Let_def bindR_def
  by (auto simp: DefaultLength_def split: if_split_asm sum.splits)

lemma Spec_Validate_idem:
  assumes "Spec_Validate sch s = Inr t"
  shows "Spec_Validate sch t = Inr t"
  using Spec_Validate_cases [OF assms]
proof (elim disjE exE conjE, goal_cases)
  case 1
  then show ?case by (simp add: Spec_Validate_def)
next
  case (2 a)
  then show ?case by (simp add: Spec_Validate_def bindR_def)
qed

lemma Spec_Validate_value: "Spec_Validate sch s = Inr t \<Longrightarrow> g_value t = g_value s"
  by (auto simp: Spec_Validate_def Let_def split: if_splits)

end
