(* ===== verification/ApiValidate.thy ===== *)
theory ApiValidate
  imports AuditTrail Rotation Leases
begin

text \<open>
  The request checks of \<open>internal/api\<close>: \<open>limits.go\<close>, the shared rules of \<open>validation.go\<close> and the
  \<open>Validate\<close> methods of the requests (\<open>validation_*.go\<close>). The rules are those of the ozzo package: each
  field reports its first failing rule, under its JSON name
  or else its Go name; a nested request reports its own
  failures, an embedded one (the page) among those of the request. Limits are the process-wide value in force, an argument here. Messages keep their fixed parts.
\<close>

section \<open>Limits\<close>

record limits =
  MaxSecretValueBytes :: int
  MaxBatchItems :: int
  MaxTags :: int
  MaxTagLength :: int
  MaxPageLimit :: int
  MaxDescriptionLength :: int
  MaxWebhookTimeoutSeconds :: int
  MaxWebhookAttempts :: int
  MaxTransitPlaintextBytes :: int
  MaxDynamicLeaseTTLSeconds :: int

definition MaxBatchSize :: int where "MaxBatchSize = 100"

definition DefaultLimits :: limits where
  "DefaultLimits = \<lparr>MaxSecretValueBytes = 65536, MaxBatchItems = 100, MaxTags = 32, MaxTagLength = 64,
     MaxPageLimit = 200, MaxDescriptionLength = 500, MaxWebhookTimeoutSeconds = 30, MaxWebhookAttempts = 10,
     MaxTransitPlaintextBytes = 32768, MaxDynamicLeaseTTLSeconds = 86400\<rparr>"

definition positive_or :: "int \<Rightarrow> int \<Rightarrow> int" where
  "positive_or d x = (if x < 1 then d else x)"

definition limits_normalized :: "limits \<Rightarrow> limits" where
  "limits_normalized l =
     (let d = DefaultLimits; items = positive_or (MaxBatchItems d) (MaxBatchItems l) in
      \<lparr>MaxSecretValueBytes = positive_or (MaxSecretValueBytes d) (MaxSecretValueBytes l),
       MaxBatchItems = (if items > MaxBatchSize then MaxBatchSize else items),
       MaxTags = positive_or (MaxTags d) (MaxTags l),
       MaxTagLength = positive_or (MaxTagLength d) (MaxTagLength l),
       MaxPageLimit = positive_or (MaxPageLimit d) (MaxPageLimit l),
       MaxDescriptionLength = positive_or (MaxDescriptionLength d) (MaxDescriptionLength l),
       MaxWebhookTimeoutSeconds = positive_or (MaxWebhookTimeoutSeconds d) (MaxWebhookTimeoutSeconds l),
       MaxWebhookAttempts = positive_or (MaxWebhookAttempts d) (MaxWebhookAttempts l),
       MaxTransitPlaintextBytes = positive_or (MaxTransitPlaintextBytes d) (MaxTransitPlaintextBytes l),
       MaxDynamicLeaseTTLSeconds = positive_or (MaxDynamicLeaseTTLSeconds d) (MaxDynamicLeaseTTLSeconds l)\<rparr>)"

text \<open>\<open>CurrentLimits\<close>: what \<open>ApplyLimits\<close> stored, or the defaults.\<close>

definition CurrentLimits :: "limits option \<Rightarrow> limits" where
  "CurrentLimits applied = (case applied of Some l \<Rightarrow> limits_normalized l | None \<Rightarrow> DefaultLimits)"

section \<open>Rules\<close>

type_synonym failures = "(string \<times> reason) list"

fun first_failure :: "reason option list \<Rightarrow> reason option" where
  "first_failure [] = None"
| "first_failure (Some e # rs) = Some e"
| "first_failure (None # rs) = first_failure rs"

definition field :: "string \<Rightarrow> reason option list \<Rightarrow> failures" where
  "field name rules = (case first_failure rules of None \<Rightarrow> [] | Some e \<Rightarrow> [(name, e)])"

definition nested :: "failures \<Rightarrow> reason option" where
  "nested fs = (if fs = [] then None else Some (Fields fs))"

definition validate :: "failures \<Rightarrow> apperr + unit" where
  "validate fs = (if fs = [] then Inr () else Inl (ValidationError (Fields fs)))"

definition rule :: "bool \<Rightarrow> string \<Rightarrow> reason option" where
  "rule ok m = (if ok then None else Some (Msg m))"

definition slugRule :: "string \<Rightarrow> string \<Rightarrow> reason option" where
  "slugRule knd raw = (if raw = [] then None else map_option NameReason (ValidateSlug knd raw))"

definition keyRule :: "string \<Rightarrow> reason option" where
  "keyRule raw = (if raw = [] then None else map_option NameReason (ValidateKey raw))"

definition folderPathRule :: "string \<Rightarrow> reason option" where
  "folderPathRule raw =
     (if raw = [] then None else case NormalizePath raw of Inl e \<Rightarrow> Some (PathReason e) | Inr _ \<Rightarrow> None)"

text \<open>\<open>utf8.RuneCountInString\<close>: a byte that starts no character counts as one.\<close>

fun rune_count :: "nat \<Rightarrow> string \<Rightarrow> nat" where
  "rune_count fuel [] = 0"
| "rune_count 0 s = 0"
| "rune_count (Suc fuel) s =
     Suc (rune_count fuel (drop (case char_len (map of_char s) of Some n \<Rightarrow> n | None \<Rightarrow> 1) s))"

definition RuneCountInString :: "string \<Rightarrow> nat" where
  "RuneCountInString s = rune_count (length s) s"

fun tags_loop :: "limits \<Rightarrow> string list \<Rightarrow> string list \<Rightarrow> reason option" where
  "tags_loop l seen [] = None"
| "tags_loop l seen (tag # tags) =
     (if TrimSpace tag = [] then Some (Msg ''a tag must not be empty'')
      else if int (RuneCountInString tag) > MaxTagLength l then Some (Msg ''a tag is too long'')
      else if tag \<in> set seen then Some (Msg ''a tag is duplicated'')
      else tags_loop l (tag # seen) tags)"

definition tagsRule :: "limits \<Rightarrow> string list \<Rightarrow> reason option" where
  "tagsRule l tags =
     (if tags = [] then None
      else if int (length tags) > MaxTags l then Some (Msg ''too many tags'')
      else tags_loop l [] tags)"

definition descriptionRule :: "limits \<Rightarrow> string \<Rightarrow> reason option" where
  "descriptionRule l d = rule (int (length d) \<le> MaxDescriptionLength l) ''description is too long''"

definition secretValueRule :: "limits \<Rightarrow> bytes \<Rightarrow> reason option" where
  "secretValueRule l val = rule (int (length val) \<le> MaxSecretValueBytes l) ''a secret value is too large''"

definition valueTypeRule :: "string \<Rightarrow> reason option" where
  "valueTypeRule t = rule (t \<in> {[], ''opaque'', ''json'', ''reference''}) ''value_type must be one of opaque, json, reference''"

section \<open>Reference templates\<close>

definition referenceOpen :: string where "referenceOpen = ''${''"
definition referenceClose :: char where "referenceClose = CHR ''}''"

text \<open>\<open>strings.Index\<close> with the two separators, and the split of a template at its next placeholder: the text
  before it, the address, the rest.\<close>

fun index_open :: "string \<Rightarrow> nat option" where
  "index_open (c # d # s) = (if c = CHR ''$'' \<and> d = CHR ''{'' then Some 0 else map_option Suc (index_open (d # s)))"
| "index_open s = None"

datatype placeholder = NoMore | Unterminated | Placeholder string string string

definition next_placeholder :: "string \<Rightarrow> placeholder" where
  "next_placeholder s = (case index_open s of
      None \<Rightarrow> NoMore
    | Some start \<Rightarrow>
        let r = drop (start + 2) s in
        if referenceClose \<notin> set r then Unterminated
        else Placeholder (take start s) (takeWhile (\<lambda>c. c \<noteq> referenceClose) r) (tl (dropWhile (\<lambda>c. c \<noteq> referenceClose) r)))"

lemma index_open_less: "index_open s = Some n \<Longrightarrow> n + 2 \<le> length s"
proof (induction s arbitrary: n rule: index_open.induct)
  case (1 c d s)
  then show ?case by (auto split: if_splits)
qed auto

lemma next_placeholder_shorter: "next_placeholder s = Placeholder a b r \<Longrightarrow> length r < length s"
proof -
  assume p: "next_placeholder s = Placeholder a b r"
  then obtain n where n: "index_open s = Some n" by (auto simp: next_placeholder_def split: option.splits)
  have "r = tl (dropWhile (\<lambda>c. c \<noteq> referenceClose) (drop (n + 2) s))"
    using p n by (auto simp: next_placeholder_def Let_def split: if_splits)
  then have "length r \<le> length (drop (n + 2) s)"
    by (metis One_nat_def diff_le_self le_trans length_dropWhile_le length_tl)
  with index_open_less [OF n] show ?thesis by simp
qed

definition check_reference :: "string \<Rightarrow> reason option" where
  "check_reference address =
     (case SplitReferencePath address of
        None \<Rightarrow> Some (Msg ''reference must be project/environment[/folder...]/KEY'')
      | Some (project, environment, folderPath, key) \<Rightarrow>
          first_failure [map_option NameReason (ValidateSlug ''reference project'' project),
            map_option NameReason (ValidateSlug ''reference environment'' environment),
            (case NormalizePath folderPath of Inl e \<Rightarrow> Some (PathReason e) | Inr _ \<Rightarrow> None),
            map_option NameReason (ValidateKey key)])"

function check_template :: "string \<Rightarrow> reason option" where
  "check_template rest =
     (case next_placeholder rest of
        NoMore \<Rightarrow> None
      | Unterminated \<Rightarrow> Some (Msg ''reference value contains an unterminated ${...} placeholder'')
      | Placeholder before address rest' \<Rightarrow>
          (case check_reference address of Some e \<Rightarrow> Some e | None \<Rightarrow> check_template rest'))"
  by pat_completeness auto

termination check_template
  by (relation "measure length") (auto dest: next_placeholder_shorter)

declare check_template.simps [simp del]

definition string_of :: "bytes \<Rightarrow> string" where
  "string_of bs = map (\<lambda>b. char_of (unat b)) bs"

definition validateReferenceTemplate :: "bytes \<Rightarrow> reason option" where
  "validateReferenceTemplate raw =
     (if index_open (string_of raw) = None
      then Some (Msg ''a reference value must contain at least one ${project/environment/KEY} placeholder'')
      else check_template (string_of raw))"

section \<open>Pagination\<close>

record pagination =
  pg_page :: int
  pg_limit :: int

definition pages_as :: "string \<Rightarrow> string \<Rightarrow> limits \<Rightarrow> pagination \<Rightarrow> failures" where
  "pages_as page limit l p =
     field page [rule (pg_page p \<ge> 0) ''page must not be negative'']
     @ field limit [rule (pg_limit p \<ge> 0) ''limit must not be negative'', rule (pg_limit p \<le> MaxPageLimit l) ''limit is too large'']"

definition Pagination_Validate :: "limits \<Rightarrow> pagination \<Rightarrow> failures" where
  "Pagination_Validate l p = pages_as ''page'' ''limit'' l p"

definition defaultPageLimit :: int where "defaultPageLimit = 50"

definition resolved_page :: "limits \<Rightarrow> pagination \<Rightarrow> int \<times> int" where
  "resolved_page l p =
     (let page = (if pg_page p < 1 then 1 else pg_page p);
          limit = (if pg_limit p < 1 then defaultPageLimit else pg_limit p)
      in (page, if limit > MaxPageLimit l then MaxPageLimit l else limit))"

section \<open>Secrets\<close>

record secret_address =
  sa_project :: string
  sa_env :: string
  sa_folder :: string
  sa_key :: string

definition project_as :: "string \<Rightarrow> string \<Rightarrow> failures" where
  "project_as name p = field name [rule (p \<noteq> []) ''project is required'', slugRule ''project'' p]"

definition environment_as :: "string \<Rightarrow> string \<Rightarrow> failures" where
  "environment_as name e = field name [rule (e \<noteq> []) ''environment is required'', slugRule ''environment'' e]"

definition SecretAddress_Validate :: "secret_address \<Rightarrow> failures" where
  "SecretAddress_Validate a =
     project_as ''project'' (sa_project a) @ environment_as ''environment'' (sa_env a)
     @ field ''folder_path'' [folderPathRule (sa_folder a)]
     @ field ''key'' [rule (sa_key a \<noteq> []) ''secret key is required'', keyRule (sa_key a)]"

definition address_as :: "string \<Rightarrow> secret_address \<Rightarrow> failures" where
  "address_as name a = field name [nested (SecretAddress_Validate a)]"

definition RevealSecretInput_Validate :: "secret_address \<Rightarrow> int \<Rightarrow> failures" where
  "RevealSecretInput_Validate a ver =
     address_as ''address'' a @ field ''version'' [rule (ver \<ge> 0) ''version must not be negative; 0 means the current version'']"

record list_secrets_input =
  ls_project :: string
  ls_env :: string
  ls_prefix :: string
  ls_page :: pagination

definition ListSecretsInput_Validate :: "limits \<Rightarrow> list_secrets_input \<Rightarrow> failures" where
  "ListSecretsInput_Validate l inp =
     project_as ''Project'' (ls_project inp) @ environment_as ''Environment'' (ls_env inp)
     @ field ''PathPrefix'' [folderPathRule (ls_prefix inp)]
     @ pages_as ''Page'' ''Limit'' l (ls_page inp)"

definition ListVersionsInput_Validate :: "limits \<Rightarrow> secret_address \<Rightarrow> pagination \<Rightarrow> failures" where
  "ListVersionsInput_Validate l a p = address_as ''address'' a @ Pagination_Validate l p"

definition ListDeletedSecretsInput_Validate :: "limits \<Rightarrow> string \<Rightarrow> string \<Rightarrow> pagination \<Rightarrow> failures" where
  "ListDeletedSecretsInput_Validate l project environment p =
     project_as ''project'' project @ environment_as ''environment'' environment @ Pagination_Validate l p"

definition maxKeepVersions :: int where "maxKeepVersions = 1000"

definition keepVersionsRule :: "int option \<Rightarrow> reason option" where
  "keepVersionsRule keep = (case keep of
      None \<Rightarrow> None
    | Some k \<Rightarrow> if k < 1 then Some (Msg ''keep_versions must be at least 1'')
        else if k > maxKeepVersions then Some (Msg ''keep_versions must be at most 1000'') else None)"

definition maxRecoveryWindow :: int where "maxRecoveryWindow = 365 * 24 * 3600 * Second"

definition recoveryWindowRule :: "int option \<Rightarrow> reason option" where
  "recoveryWindowRule w = (case w of
      None \<Rightarrow> None
    | Some d \<Rightarrow> if d < 0 then Some (Msg ''recovery_window must not be negative'')
        else if d > maxRecoveryWindow then Some (Msg ''recovery_window is too long'') else None)"

text \<open>The zero \<open>time.Time\<close>, January 1 of the year 1, as nanoseconds from 1970.\<close>

definition zero_time :: instant where "zero_time = - 62135596800 * Second"

definition expiresAtRule :: "instant option \<Rightarrow> reason option" where
  "expiresAtRule t = rule (t \<noteq> Some zero_time) ''expires_at must be a real timestamp''"

definition rotationPolicyMapRule :: "object \<Rightarrow> reason option" where
  "rotationPolicyMapRule raw =
     (if raw = [] then None else case ParsePolicy raw of Inl e \<Rightarrow> Some (Msg e) | Inr _ \<Rightarrow> None)"

record api_put =
  pt_address :: secret_address
  pt_value :: bytes
  pt_type :: string
  pt_description :: string
  pt_tags :: "string list"
  pt_keep :: "int option"
  pt_rotation :: object
  pt_expires :: "instant option"
  pt_create_folders :: bool

definition value_fields :: "string \<Rightarrow> limits \<Rightarrow> bytes \<Rightarrow> string \<Rightarrow> failures" where
  "value_fields typeName l val valueType =
     field ''Value'' [rule (val \<noteq> []) ''a secret value is required'', secretValueRule l val,
       if valueType = ''reference'' then validateReferenceTemplate val else None]
     @ field typeName [if valueType \<noteq> [] then valueTypeRule valueType else None]"

definition PutSecretInput_Validate :: "limits \<Rightarrow> api_put \<Rightarrow> failures" where
  "PutSecretInput_Validate l inp =
     address_as ''Address'' (pt_address inp) @ value_fields ''ValueType'' l (pt_value inp) (pt_type inp)
     @ field ''Description'' [descriptionRule l (pt_description inp)]
     @ field ''Tags'' [tagsRule l (pt_tags inp)]
     @ field ''KeepVersions'' [keepVersionsRule (pt_keep inp)]
     @ field ''RotationPolicy'' [rotationPolicyMapRule (pt_rotation inp)]
     @ field ''ExpiresAt'' [expiresAtRule (pt_expires inp)]"

record api_meta =
  um_address :: secret_address
  um_description :: string
  um_tags :: "string list"
  um_keep :: "int option"
  um_rotation :: object
  um_expires :: "instant option"

definition UpdateSecretMetaInput_Validate :: "limits \<Rightarrow> api_meta \<Rightarrow> failures" where
  "UpdateSecretMetaInput_Validate l inp =
     address_as ''Address'' (um_address inp)
     @ field ''Description'' [descriptionRule l (um_description inp)]
     @ field ''Tags'' [tagsRule l (um_tags inp)]
     @ field ''KeepVersions'' [keepVersionsRule (um_keep inp)]
     @ field ''RotationPolicy'' [rotationPolicyMapRule (um_rotation inp)]
     @ field ''ExpiresAt'' [expiresAtRule (um_expires inp)]"

definition RollbackSecretInput_Validate :: "secret_address \<Rightarrow> int \<Rightarrow> failures" where
  "RollbackSecretInput_Validate a ver =
     address_as ''address'' a
     @ field ''version'' [rule (ver \<noteq> 0) ''version is required'', rule (ver \<ge> 1) ''version must be at least 1'']"

definition DeleteSecretInput_Validate :: "secret_address \<Rightarrow> int option \<Rightarrow> failures" where
  "DeleteSecretInput_Validate a window =
     address_as ''address'' a @ field ''recovery_window'' [recoveryWindowRule window]"

text \<open>\<open>is.UUID\<close> and \<open>uuid.Parse\<close> are an argument: the canonical text of a valid UUID.\<close>

definition uuid_field :: "string \<Rightarrow> (string \<Rightarrow> uuid option) \<Rightarrow> string \<Rightarrow> failures" where
  "uuid_field name parse_uuid raw =
     field name [rule (raw \<noteq> []) (name @ '' is required''), rule (parse_uuid raw \<noteq> None) (name @ '' must be a valid UUID'')]"

section \<open>Imports, leases, rotation, batches\<close>

definition maxPosition :: int where "maxPosition = 10000"

definition positionRule :: "int \<Rightarrow> reason option" where
  "positionRule n =
     (if n < 0 then Some (Msg ''position must not be negative'')
      else if n > maxPosition then Some (Msg ''position must be at most 10000'') else None)"

record api_import =
  im_project :: string
  im_env :: string
  im_folder :: string
  im_source_project :: string
  im_source_env :: string
  im_source_folder :: string
  im_position :: int

definition self_import_rule :: "api_import \<Rightarrow> reason option" where
  "self_import_rule inp = (case (NormalizePath (im_source_folder inp), NormalizePath (im_folder inp)) of
      (Inr sourcePath, Inr targetPath) \<Rightarrow>
        rule (\<not> (im_source_project inp = im_project inp \<and> im_source_env inp = im_env inp \<and> sourcePath = targetPath))
          ''a scope cannot import itself''
    | _ \<Rightarrow> None)"

definition CreateImportInput_Validate :: "api_import \<Rightarrow> failures" where
  "CreateImportInput_Validate inp =
     project_as ''Project'' (im_project inp) @ environment_as ''Environment'' (im_env inp)
     @ field ''FolderPath'' [folderPathRule (im_folder inp)]
     @ field ''SourceProject'' [rule (im_source_project inp \<noteq> []) ''source_project is required'',
         slugRule ''source project'' (im_source_project inp)]
     @ field ''SourceEnvironment'' [rule (im_source_env inp \<noteq> []) ''source_environment is required'',
         slugRule ''source environment'' (im_source_env inp)]
     @ field ''SourceFolderPath'' [folderPathRule (im_source_folder inp), self_import_rule inp]
     @ field ''Position'' [positionRule (im_position inp)]"

definition ListImportsInput_Validate :: "string \<Rightarrow> string \<Rightarrow> string \<Rightarrow> failures" where
  "ListImportsInput_Validate project environment folderPath =
     project_as ''project'' project @ environment_as ''environment'' environment @ field ''folder_path'' [folderPathRule folderPath]"

definition UpdateImportInput_Validate :: "(string \<Rightarrow> uuid option) \<Rightarrow> string \<Rightarrow> int \<Rightarrow> failures" where
  "UpdateImportInput_Validate parse_uuid u position =
     uuid_field ''import_uuid'' parse_uuid u @ field ''position'' [positionRule position]"

definition leasePolicyTTLRule :: "string \<Rightarrow> int option \<Rightarrow> reason option" where
  "leasePolicyTTLRule name secs = (case secs of
      None \<Rightarrow> None
    | Some n \<Rightarrow> if n < 60 then Some (Msg (name @ '' must be at least 60''))
        else if n > 2592000 then Some (Msg (name @ '' must be at most 2592000'')) else None)"

definition leaseMaxReadsRule :: "int option \<Rightarrow> reason option" where
  "leaseMaxReadsRule reads = (case reads of
      None \<Rightarrow> None
    | Some n \<Rightarrow> if n < 1 then Some (Msg ''lease_max_reads must be at least 1; omit it for unlimited reads within the TTL'')
        else if n > MaxLeaseReads then Some (Msg ''lease_max_reads is too large'') else None)"

definition SetSecretLeasePolicyInput_Validate :: "secret_address \<Rightarrow> secret_lease_policy \<Rightarrow> failures" where
  "SetSecretLeasePolicyInput_Validate a p =
     address_as ''address'' a
     @ field ''lease_ttl_seconds'' [leasePolicyTTLRule ''lease_ttl_seconds'' (TTLSeconds p)]
     @ field ''lease_max_ttl_seconds'' [leasePolicyTTLRule ''lease_max_ttl_seconds'' (MaxTTLSeconds p)]
     @ field ''lease_max_reads'' [leaseMaxReadsRule (MaxReadsOpt p)]"

definition ListSecretLeasesInput_Validate :: "limits \<Rightarrow> secret_address \<Rightarrow> pagination \<Rightarrow> failures" where
  "ListSecretLeasesInput_Validate l a p = address_as ''address'' a @ Pagination_Validate l p"

definition generatorRule :: "bool \<Rightarrow> spec \<Rightarrow> reason option" where
  "generatorRule scheduled s =
     (if g_type s = ''supplied'' \<and> (g_length s \<noteq> 0 \<or> g_charset s \<noteq> [])
      then Some (Msg ''generator supplied takes a value, not a length or charset: the supplied value is used verbatim'')
      else if (g_type s = ''random'' \<or> g_type s = []) \<and> g_value s \<noteq> []
      then Some (Msg ''generator random generates its own value: send supplied to supply one'')
      else case Spec_Validate scheduled s of Inl e \<Rightarrow> Some (Msg e) | Inr _ \<Rightarrow> None)"

definition RotateSecretInput_Validate :: "secret_address \<Rightarrow> spec \<Rightarrow> failures" where
  "RotateSecretInput_Validate a s = address_as ''Address'' a @ field ''Generator'' [generatorRule False s]"

definition schedule_rule :: "rotation_policy \<Rightarrow> reason option" where
  "schedule_rule p =
     (if rp_enabled p
      then case bindR (IntervalDuration p) (\<lambda>_. Spec_Validate True (rp_generator p)) of
          Inl e \<Rightarrow> Some (Msg e) | Inr _ \<Rightarrow> None
      else None)"

definition SetRotationPolicyInput_Validate :: "secret_address \<Rightarrow> rotation_policy \<Rightarrow> failures" where
  "SetRotationPolicyInput_Validate a p =
     address_as ''address'' a
     @ field ''policy'' [schedule_rule p, rule (g_value (rp_generator p) = [])
         ''a rotation policy must not carry a generator value: the policy is stored as readable metadata'']"

definition each :: "('a \<Rightarrow> failures) \<Rightarrow> 'a list \<Rightarrow> reason option" where
  "each f xs = nested (concat (map (\<lambda>(i, x). field (FormatNat i) [nested (f x)]) (enumerate 0 xs)))"

definition batchSizeRule :: "limits \<Rightarrow> nat \<Rightarrow> reason option" where
  "batchSizeRule l n = rule (int n \<le> MaxBatchItems l) ''a batch is limited''"

definition BatchGetItem_Validate :: "secret_address \<times> int \<Rightarrow> failures" where
  "BatchGetItem_Validate it =
     address_as ''address'' (fst it) @ field ''version'' [rule (snd it \<ge> 0) ''version must not be negative; 0 means the current version'']"

definition BatchGetInput_Validate :: "limits \<Rightarrow> (secret_address \<times> int) list \<Rightarrow> failures" where
  "BatchGetInput_Validate l items =
     field ''items'' [rule (items \<noteq> []) ''a batch get needs at least one item'', batchSizeRule l (length items),
       each BatchGetItem_Validate items]"

record batch_put_item =
  bp_address :: secret_address
  bp_value :: bytes
  bp_type :: string
  bp_description :: string
  bp_tags :: "string list"
  bp_create_folders :: bool

definition BatchPutItem_Validate :: "limits \<Rightarrow> batch_put_item \<Rightarrow> failures" where
  "BatchPutItem_Validate l i =
     address_as ''address'' (bp_address i) @ value_fields ''value_type'' l (bp_value i) (bp_type i)
     @ field ''description'' [descriptionRule l (bp_description i)] @ field ''tags'' [tagsRule l (bp_tags i)]"

definition BatchPutInput_Validate :: "limits \<Rightarrow> batch_put_item list \<Rightarrow> failures" where
  "BatchPutInput_Validate l items =
     field ''items'' [rule (items \<noteq> []) ''a batch put needs at least one item'', batchSizeRule l (length items),
       each (BatchPutItem_Validate l) items,
       rule (distinct (map bp_address items)) ''an address appears more than once in the batch'']"

end
