(* ===== verification/Api.thy ===== *)
theory Api
  imports ApiValidate Hierarchy
begin

text \<open>
  \<open>internal/api/service.go\<close>: the service the transports call, its caller, and the steps every
  operation takes (the grant check with the audit of a denial, the audit of the outcome, the
  notification), with the reads of \<open>internal/store/resources.go\<close> that name a resource.

  The token claims are the SDK's: \<open>Claims.Allows\<close> is the function \<open>c_allows\<close> of the caller. The service carries the
  process-wide limits and the UUID parser, which is not code of the repository. The state
  is the database and the calls made to the \<open>Notifier\<close>.
\<close>

section \<open>Naming a resource\<close>

record scope_names =
  sn_tenant :: string
  sn_project :: string
  sn_env :: string

definition ResolveScopeNames :: "uuid \<Rightarrow> string \<Rightarrow> string \<Rightarrow> scope_names op" where
  "ResolveScopeNames tenantUUID project environment =
     (if environment = []
      then bindM (mapErr (mapReadError ''tenant'') (GetTenantByUUID tenantUUID)) (\<lambda>tenant.
        if project = [] then ret \<lparr>sn_tenant = t_name tenant, sn_project = [], sn_env = []\<rparr>
        else bindM (mapErr (mapReadError ''project'') (GetProjectBySlug (t_id tenant) project)) (\<lambda>proj.
          ret \<lparr>sn_tenant = t_name tenant, sn_project = p_slug proj, sn_env = []\<rparr>))
      else bindM (resolveEnvironment tenantUUID project environment) (\<lambda>sc.
        ret \<lparr>sn_tenant = t_name (sc_tenant sc), sn_project = p_slug (sc_project sc), sn_env = e_slug (sc_env sc)\<rparr>))"

text \<open>
  \<open>SecretMRN\<close> returns the errors of \<open>NormalizePath\<close> and \<open>ValidateKey\<close> as they are, not as validation
  errors of \<open>apperror\<close>.
\<close>

definition SecretMRN :: "secret_ref \<Rightarrow> (db, api_error, string) comp" where
  "SecretMRN ref =
     bindM (liftR (mapL (\<lambda>e. RawErr (PathReason e)) (NormalizePath (r_folder ref)))) (\<lambda>folderPath.
     bindM (liftR (case ValidateKey (r_key ref) of None \<Rightarrow> Inr () | Some e \<Rightarrow> Inl (RawErr (NameReason e)))) (\<lambda>_.
     bindM (mapErr AppErr (ResolveScopeNames (r_tenant ref) (r_project ref) (r_environment ref))) (\<lambda>names.
     ret (mrn (sn_tenant names) (sn_project names) (SecretResourcePath (sn_env names) folderPath (r_key ref))))))"

definition TenantName :: "uuid \<Rightarrow> string op" where
  "TenantName u = bindM (mapErr (mapReadError ''tenant'') (GetTenantByUUID u)) (\<lambda>tenant. ret (t_name tenant))"

definition ImportResourcePath :: "uuid \<Rightarrow> string" where "ImportResourcePath u = ''import/'' @ u"
definition WebhookResourcePath :: "uuid \<Rightarrow> string" where "WebhookResourcePath u = ''webhook/'' @ u"

section \<open>The service and its caller\<close>

record notification =
  n_tenant :: uuid
  n_project :: string
  n_event :: string
  n_mrn :: string
  n_version :: int
  n_actor :: actor

record world =
  w_db :: db
  w_notes :: "notification list"

type_synonym 'a api = "(world, api_error, 'a) comp"

record api_service =
  ap_store :: service
  ap_auditor :: bool
  ap_notifier :: bool
  ap_depth :: int
  ap_default :: string
  ap_limits :: limits
  ap_parse_uuid :: "string \<Rightarrow> uuid option"

definition DefaultReferenceMaxDepth :: int where "DefaultReferenceMaxDepth = 8"

definition NewApi :: "service option \<Rightarrow> bool \<Rightarrow> bool \<Rightarrow> int \<Rightarrow> string \<Rightarrow> limits option \<Rightarrow> (string \<Rightarrow> uuid option) \<Rightarrow>
    api_error + api_service" where
  "NewApi st auditor notifier depth defaultTenant applied parse_uuid =
     (case st of
        None \<Rightarrow> Inl (RawErr (Msg ''api: store is required''))
      | Some svc \<Rightarrow>
          if \<not> auditor then Inl ErrNoAuditor
          else Inr \<lparr>ap_store = svc, ap_auditor = auditor, ap_notifier = notifier,
            ap_depth = (if depth < 1 then DefaultReferenceMaxDepth else depth), ap_default = defaultTenant,
            ap_limits = CurrentLimits applied, ap_parse_uuid = parse_uuid\<rparr>)"

record claims =
  cl_tenant :: string
  cl_subject :: string
  cl_kind :: string

record caller =
  c_allows :: "string \<Rightarrow> string \<Rightarrow> bool"
  c_actor :: actor
  c_tenant :: uuid
  c_name :: string

definition nil_uuid :: uuid where "nil_uuid = ''00000000-0000-0000-0000-000000000000''"

definition tenantPtr :: "caller \<Rightarrow> uuid option" where
  "tenantPtr c = (if c_tenant c = nil_uuid then None else Some (c_tenant c))"

definition caller_mrn :: "caller \<Rightarrow> string \<Rightarrow> string \<Rightarrow> string" where
  "caller_mrn c project resourcePath = mrn (c_name c) project resourcePath"

text \<open>A computation on the database, run inside the service.\<close>

definition onDb :: "(db, api_error, 'a) comp \<Rightarrow> 'a api" where
  "onDb m = (\<lambda>w. case m (w_db w) of (r, t) \<Rightarrow> (r, w\<lparr>w_db := t\<rparr>))"

definition callStore :: "'a op \<Rightarrow> 'a api" where
  "callStore m = onDb (mapErr AppErr m)"

definition ResolveCaller ::
    "api_service \<Rightarrow> claims option \<Rightarrow> (string \<Rightarrow> string \<Rightarrow> bool) \<Rightarrow> actor \<Rightarrow> string \<Rightarrow> caller api" where
  "ResolveCaller s claims allows actor tenantHint =
     (let n1 = (if tenantHint = [] then (case claims of Some cl \<Rightarrow> cl_tenant cl | None \<Rightarrow> tenantHint) else tenantHint);
          name = (if n1 = [] then ap_default s else n1)
      in if name = [] then fail (AppErr (invalid ''no tenant was named and no default tenant is configured''))
         else bindM (callStore (GetTenantByName name)) (\<lambda>tenant.
           let a1 = (case claims of Some cl \<Rightarrow> if ac_subject actor = [] then actor\<lparr>ac_subject := cl_subject cl\<rparr> else actor
                       | None \<Rightarrow> actor);
               a2 = (case claims of Some cl \<Rightarrow> if cl_kind cl \<noteq> [] then a1\<lparr>ac_kind := cl_kind cl\<rparr> else a1 | None \<Rightarrow> a1)
           in ret \<lparr>c_allows = allows, c_actor = a2, c_tenant = tv_uuid tenant, c_name = tv_name tenant\<rparr>))"

section \<open>The steps of every operation\<close>

definition plain_event :: "string \<Rightarrow> string \<Rightarrow> event" where
  "plain_event action resourceMRN = \<lparr>ev_tenant = None, ev_action = action, ev_mrn = resourceMRN, ev_secret = None,
     ev_version = None, ev_outcome = [], ev_reason = ReasonText [], ev_metadata = []\<rparr>"

definition guard :: "api_service \<Rightarrow> caller \<Rightarrow> string \<Rightarrow> string \<Rightarrow> string \<Rightarrow> unit api" where
  "guard s c permission action resourceMRN =
     (if \<not> ap_auditor s then fail ErrNoAuditor
      else if c_allows c permission resourceMRN then ret ()
      else bindM (onDb (RecordDenied (ap_auditor s) (c_actor c) ((plain_event action resourceMRN)
          \<lparr>ev_tenant := tenantPtr c, ev_reason := ReasonText (''missing permission '' @ permission)\<rparr>))) (\<lambda>_.
        fail (AppErr (ForbiddenError (''requires permission '' @ permission @ '' on '' @ resourceMRN)))))"

definition cause_of :: "api_error \<Rightarrow> cause" where
  "cause_of e = (case e of
      AppErr x \<Rightarrow> AppCause x
    | LeaseRefused _ \<Rightarrow> OtherCause ''lease refused''
    | ErrNoAuditor \<Rightarrow> OtherCause ''audit: no auditor configured; audited operations refuse to run unaudited''
    | RawErr _ \<Rightarrow> OtherCause ''error'')"

definition recordSuccess :: "api_service \<Rightarrow> caller \<Rightarrow> event \<Rightarrow> unit api" where
  "recordSuccess s c ev =
     (if \<not> ap_auditor s then fail ErrNoAuditor
      else mapErr (\<lambda>e. AppErr (InternalError ''record audit event'' (cause_of e)))
        (onDb (Record (ap_auditor s) (c_actor c) (ev\<lparr>ev_tenant := tenantPtr c, ev_outcome := ''success''\<rparr>))))"

definition redactedReason :: "api_error \<Rightarrow> audit_reason" where
  "redactedReason e = (case e of
      AppErr x \<Rightarrow> (case x of InternalError opn _ \<Rightarrow> ReasonText (opn @ '' failed'') | _ \<Rightarrow> ReasonOf x)
    | LeaseRefused r \<Rightarrow> ReasonRefusal r
    | ErrNoAuditor \<Rightarrow> ReasonText ''audit: no auditor configured; audited operations refuse to run unaudited''
    | RawErr r \<Rightarrow> ReasonRaw r)"

definition recordFailure :: "api_service \<Rightarrow> caller \<Rightarrow> string \<Rightarrow> string \<Rightarrow> api_error \<Rightarrow> unit api" where
  "recordFailure s c action resourceMRN cause =
     (if \<not> ap_auditor s then ret ()
      else onDb (RecordError (ap_auditor s) (c_actor c) ((plain_event action resourceMRN)
        \<lparr>ev_tenant := tenantPtr c, ev_reason := redactedReason cause\<rparr>)))"

definition notify :: "api_service \<Rightarrow> caller \<Rightarrow> string \<Rightarrow> string \<Rightarrow> string \<Rightarrow> int \<Rightarrow> unit api" where
  "notify s c project evt resourceMRN ver = (\<lambda>w.
     (Inr (), if ap_notifier s
       then w\<lparr>w_notes := w_notes w @ [\<lparr>n_tenant = c_tenant c, n_project = project, n_event = evt, n_mrn = resourceMRN,
         n_version = ver, n_actor = c_actor c\<rparr>]\<rparr>
       else w))"

text \<open>
  What the operations do with a failing store call: record the failure and return it. The MRN of a
  secret is resolved before the guard, its errors return unrecorded.
\<close>

definition recorded :: "api_service \<Rightarrow> caller \<Rightarrow> string \<Rightarrow> string \<Rightarrow> 'a api \<Rightarrow> 'a api" where
  "recorded s c action resourceMRN m =
     bindM (tryM m) (\<lambda>r. case r of
         Inr x \<Rightarrow> ret x
       | Inl e \<Rightarrow> bindM (recordFailure s c action resourceMRN e) (\<lambda>_. fail e))"

definition secretMRN :: "secret_ref \<Rightarrow> string api" where
  "secretMRN ref = onDb (SecretMRN ref)"

definition checked :: "failures \<Rightarrow> unit api" where
  "checked fs = liftR (mapL AppErr (validate fs))"

definition success_event :: "string \<Rightarrow> string \<Rightarrow> uuid option \<Rightarrow> int option \<Rightarrow> object \<Rightarrow> event" where
  "success_event action resourceMRN secret ver meta =
     (plain_event action resourceMRN)\<lparr>ev_secret := secret, ev_version := ver, ev_metadata := meta\<rparr>"

definition address_ref :: "caller \<Rightarrow> secret_address \<Rightarrow> secret_ref" where
  "address_ref c a = \<lparr>r_tenant = c_tenant c, r_project = sa_project a, r_environment = sa_env a,
     r_folder = sa_folder a, r_key = sa_key a\<rparr>"

end
