(* ===== verification/HookNotify.thy ===== *)
theory HookNotify
  imports HookWire Api
begin

text \<open>
  \<open>internal/webhook\<close>: the notifier (\<open>webhook.go\<close>) and the re-drive worker (\<open>redrive.go\<close>).

  The state is the store's tables with the requests sent so far. The network is a parameter: the response to a
  request may depend on all requests before it, and so may the state of the caller's context, under which a
  query fails once it is done. The deliveries of one notification run one after the other: those of different
  endpoints touch different rows. Waiting is not modelled, the clock stands still during a call. Log lines are left out.
\<close>

section \<open>The network\<close>

record http_request =
  hr_url :: string
  hr_timeout :: int
  hr_headers :: "(string \<times> string) list"
  hr_body :: bytes

record network =
  nt_parse :: url_parser
  nt_client :: "http_request list \<Rightarrow> http_request \<Rightarrow> string + int"
  nt_done :: "http_request list \<Rightarrow> bool"
  nt_jsonb :: "object \<Rightarrow> bytes"

record wire =
  wr_hooks :: hooks
  wr_sent :: "http_request list"

type_synonym ('e, 'a) wire_comp = "(wire, 'e, 'a) comp"

text \<open>A call of the store under the context.\<close>

definition inHooks :: "network \<Rightarrow> 'a hook_op \<Rightarrow> (apperr, 'a) wire_comp" where
  "inHooks net m = (\<lambda>w.
     if nt_done net (wr_sent w) then (Inl (InternalError ''query'' (OtherCause ''context canceled'')), w)
     else case m (wr_hooks w) of (r, t) \<Rightarrow> (r, w\<lparr>wr_hooks := t\<rparr>))"

definition ctx_done :: "network \<Rightarrow> (apperr, bool) wire_comp" where
  "ctx_done net = (\<lambda>w. (Inr (nt_done net (wr_sent w)), w))"

text \<open>
  One POST: \<open>http.NewRequestWithContext\<close> refuses a URL it cannot parse; the result is the status, zero without a
  response, and the error.
\<close>

definition post_request :: "network \<Rightarrow> http_request \<Rightarrow> (apperr, int \<times> string option) wire_comp" where
  "post_request net req = (\<lambda>w.
     case nt_parse net (hr_url req) of
       None \<Rightarrow> (Inr (0, Some ''invalid URL''), w)
     | Some _ \<Rightarrow>
         (Inr (case nt_client net (wr_sent w) req of
            Inl e \<Rightarrow> (0, Some e)
          | Inr status \<Rightarrow>
              if status \<ge> 300 then (int32 status, Some (''unexpected status '' @ FormatInt status)) else (int32 status, None)),
          w\<lparr>wr_sent := wr_sent w @ [req]\<rparr>))"

definition clamp_timeout :: "int \<Rightarrow> int \<Rightarrow> int" where
  "clamp_timeout maxTimeout seconds =
     (let t = seconds * 1000000000 in if t \<le> 0 \<or> t > maxTimeout then maxTimeout else t)"

definition delivery_headers ::
    "prims \<Rightarrow> bytes \<Rightarrow> instant \<Rightarrow> string \<Rightarrow> string \<Rightarrow> uuid \<Rightarrow> int \<Rightarrow> bytes \<Rightarrow> (string \<times> string) list" where
  "delivery_headers P key now event eventID deliveryUUID attempt body =
     (let timestamp = now div 1000000000 in
      [(''Content-Type'', ''application/json''), (''X-Maintainerd-Event'', event), (''X-Maintainerd-Event-Id'', eventID),
       (''X-Maintainerd-Delivery'', deliveryUUID), (''X-Maintainerd-Attempt'', FormatInt attempt),
       (''X-Maintainerd-Timestamp'', FormatInt timestamp), (''X-Maintainerd-Signature-256'', Signature P key timestamp body)])"

section \<open>The notifier\<close>

record notify_options =
  no_concurrency :: int
  no_enabled :: bool
  no_max_timeout :: int
  no_max_attempts :: int
  no_delay :: int

definition DefaultConcurrency :: int where "DefaultConcurrency = 4"
definition DefaultMaxTimeout :: int where "DefaultMaxTimeout = 30 * 1000000000"
definition DefaultMaxAttempts :: int where "DefaultMaxAttempts = 10"

definition NewNotifier :: "notify_options \<Rightarrow> notify_options" where
  "NewNotifier opts =
     (let o1 = (if no_concurrency opts < 1 then opts\<lparr>no_concurrency := DefaultConcurrency\<rparr> else opts);
          o2 = (if no_max_timeout o1 \<le> 0 then o1\<lparr>no_max_timeout := DefaultMaxTimeout\<rparr> else o1)
      in if no_max_attempts o2 < 1 then o2\<lparr>no_max_attempts := DefaultMaxAttempts\<rparr> else o2)"

definition min32 :: "int \<Rightarrow> int \<Rightarrow> int" where "min32 a b = (if a < b then a else b)"

definition attempt_post ::
    "service \<Rightarrow> network \<Rightarrow> notify_options \<Rightarrow> signed_endpoint \<Rightarrow> payload \<Rightarrow> bytes \<Rightarrow> uuid \<Rightarrow> int \<Rightarrow>
     (apperr, int \<times> string option) wire_comp" where
  "attempt_post svc net opts e p body deliveryUUID attempt =
     post_request net \<lparr>hr_url = sg_url e, hr_timeout = clamp_timeout (no_max_timeout opts) (sg_timeout e),
       hr_headers = delivery_headers (svc_prims svc) (sg_key e) (svc_now svc) (py_event p) (py_id p) deliveryUUID attempt body,
       hr_body = body\<rparr>"

text \<open>
  The attempts, as many as are left: the number of the attempt the loop ended with, the last status and the last
  error, or \<open>None\<close> where the context ended while the loop waited.
\<close>

fun attempt_loop ::
    "service \<Rightarrow> network \<Rightarrow> notify_options \<Rightarrow> signed_endpoint \<Rightarrow> payload \<Rightarrow> bytes \<Rightarrow> uuid \<Rightarrow> nat \<Rightarrow> int \<Rightarrow> int option \<Rightarrow>
     string option \<Rightarrow> (apperr, (int \<times> int option \<times> string option) option) wire_comp" where
  "attempt_loop svc net opts e p body du 0 attempt lastStatus lastErr = ret (Some (attempt, lastStatus, lastErr))"
| "attempt_loop svc net opts e p body du (Suc left) attempt lastStatus lastErr =
     bindM (attempt_post svc net opts e p body du attempt) (\<lambda>(status, err).
     let lastStatus' = (if status \<noteq> 0 then Some status else lastStatus) in
     case err of
       None \<Rightarrow> ret (Some (attempt, lastStatus', None))
     | Some x \<Rightarrow>
         if left = 0 then attempt_loop svc net opts e p body du left (attempt + 1) lastStatus' (Some x)
         else bindM (ctx_done net) (\<lambda>stop.
           if stop then ret None else attempt_loop svc net opts e p body du left (attempt + 1) lastStatus' (Some x)))"

definition inline_budget :: "notify_options \<Rightarrow> int \<Rightarrow> int" where
  "inline_budget opts asked =
     (let n = (if asked < 1 then 1 else asked) in if n > no_max_attempts opts then no_max_attempts opts else n)"

definition deliver ::
    "service \<Rightarrow> network \<Rightarrow> notify_options \<Rightarrow> notification \<Rightarrow> signed_endpoint \<Rightarrow> payload \<Rightarrow> bytes \<Rightarrow> (apperr, unit) wire_comp" where
  "deliver svc net opts note e p body =
     bindM (tryM (inHooks net (OpenWebhookDelivery (n_tenant note) (sg_id e) (n_event note) (n_mrn note)
         (Some (n_version note)) (payload_object p)))) (\<lambda>opened.
     case opened :: apperr + nat \<times> uuid of
       Inl _ \<Rightarrow> ret ()
     | Inr (did, du) \<Rightarrow>
         let maxAttempts = inline_budget opts (sg_attempts e) in
         bindM (attempt_loop svc net opts e p body du (nat maxAttempts) 1 None None) (\<lambda>r.
         case r of
           None \<Rightarrow> ret ()
         | Some (attempt, lastStatus, lastErr) \<Rightarrow>
             let (outcome, failure, nextAt) = (case lastErr of
                   None \<Rightarrow> (''success'', [], None)
                 | Some x \<Rightarrow> if no_delay opts > 0 then (''retrying'', x, Some (svc_now svc + no_delay opts)) else (''failed'', x, None))
             in bindM (tryM (inHooks net (FinishWebhookDelivery did (min32 attempt maxAttempts) outcome lastStatus failure nextAt))) (\<lambda>f.
                if lastErr = None
                then bindM (tryM (inHooks net (TouchWebhookEndpoint (sg_id e)))) (\<lambda>t. ret (case t :: apperr + unit of _ \<Rightarrow> ()))
                else ret (case f :: apperr + unit of _ \<Rightarrow> ()))))"

fun deliver_all ::
    "service \<Rightarrow> network \<Rightarrow> notify_options \<Rightarrow> notification \<Rightarrow> payload \<Rightarrow> bytes \<Rightarrow> signed_endpoint list \<Rightarrow> (apperr, unit) wire_comp" where
  "deliver_all svc net opts note p body [] = ret ()"
| "deliver_all svc net opts note p body (e # es) =
     bindM (if Subscribes e (n_event note) then deliver svc net opts note e p body else ret ()) (\<lambda>_.
     deliver_all svc net opts note p body es)"

definition note_payload :: "service \<Rightarrow> string \<Rightarrow> notification \<Rightarrow> string \<Rightarrow> payload" where
  "note_payload svc pid note tenantName = \<lparr>py_id = pid, py_event = n_event note, py_resource = n_mrn note,
     py_version = n_version note, py_tenant = tenantName, py_project = n_project note, py_occurred = rfc3339 (svc_now svc)\<rparr>"

text \<open>\<open>pid\<close> is the UUID drawn for the notification.\<close>

definition Notify ::
    "service \<Rightarrow> network \<Rightarrow> notify_options \<Rightarrow> string \<Rightarrow> notification \<Rightarrow> (apperr, unit) wire_comp" where
  "Notify svc net opts pid note =
     (if \<not> no_enabled opts then ret ()
      else bindM (tryM (inHooks net (SignedEndpointsForProject svc (n_tenant note) (n_project note)))) (\<lambda>r.
        case r :: apperr + signed_endpoint list of
          Inl _ \<Rightarrow> ret ()
        | Inr es \<Rightarrow>
            if es = [] then ret ()
            else bindM (tryM (inHooks net (inDb (TenantName (n_tenant note))))) (\<lambda>t.
              case t :: apperr + string of
                Inl _ \<Rightarrow> ret ()
              | Inr tenantName \<Rightarrow>
                  let p = note_payload svc pid note tenantName in
                  deliver_all svc net opts note p (bytes_of (payload_json p)) es)))"

section \<open>The re-drive worker\<close>

record redrive_options =
  ro_enabled :: bool
  ro_interval :: int
  ro_batch :: int
  ro_attempts :: int
  ro_base :: int
  ro_backoff :: int
  ro_lease :: int
  ro_timeout :: int

definition DefaultRedriveInterval :: int where "DefaultRedriveInterval = 30 * 1000000000"
definition DefaultRedriveBatch :: int where "DefaultRedriveBatch = 50"
definition DefaultRedriveMaxAttempts :: int where "DefaultRedriveMaxAttempts = 10"
definition DefaultRedriveBaseBackoff :: int where "DefaultRedriveBaseBackoff = 30 * 1000000000"
definition DefaultRedriveMaxBackoff :: int where "DefaultRedriveMaxBackoff = 3600 * 1000000000"
definition DefaultRedriveLease :: int where "DefaultRedriveLease = 120 * 1000000000"

definition withDefaults :: "redrive_options \<Rightarrow> redrive_options" where
  "withDefaults o0 =
     (let o1 = (if ro_interval o0 \<le> 0 then o0\<lparr>ro_interval := DefaultRedriveInterval\<rparr> else o0);
          o2 = (if ro_batch o1 < 1 then o1\<lparr>ro_batch := DefaultRedriveBatch\<rparr> else o1);
          o3 = (if ro_attempts o2 < 1 then o2\<lparr>ro_attempts := DefaultRedriveMaxAttempts\<rparr> else o2);
          o4 = (if ro_base o3 \<le> 0 then o3\<lparr>ro_base := DefaultRedriveBaseBackoff\<rparr> else o3);
          o5 = (if ro_backoff o4 \<le> 0 then o4\<lparr>ro_backoff := DefaultRedriveMaxBackoff\<rparr> else o4);
          o6 = (if ro_backoff o5 < ro_base o5 then o5\<lparr>ro_backoff := ro_base o5\<rparr> else o5);
          o7 = (if ro_lease o6 \<le> 0 then o6\<lparr>ro_lease := DefaultRedriveLease\<rparr> else o6);
          o8 = (if ro_timeout o7 \<le> 0 then o7\<lparr>ro_timeout := DefaultMaxTimeout\<rparr> else o7)
      in if ro_lease o8 \<le> ro_timeout o8 then o8\<lparr>ro_lease := 2 * ro_timeout o8\<rparr> else o8)"

text \<open>The integer a positive int64 becomes as a float64: the nearest of 53 bits, ties to even.\<close>

function f64_excess :: "int \<Rightarrow> nat" where
  "f64_excess n = (if n < 2 ^ 53 then 0 else Suc (f64_excess (n div 2)))"
  by pat_completeness auto
termination by (relation "measure nat") auto

declare f64_excess.simps [simp del]

definition f64 :: "int \<Rightarrow> int" where
  "f64 n = (let e = f64_excess n; m = n div 2 ^ e; r = n mod 2 ^ e in
     (if 2 * r > 2 ^ e \<or> 2 * r = 2 ^ e \<and> odd m then m + 1 else m) * 2 ^ e)"

definition Backoff :: "int \<Rightarrow> int \<Rightarrow> int \<Rightarrow> int" where
  "Backoff base0 max0 attempt0 =
     (let attempt = (if attempt0 < 1 then 1 else attempt0);
          base = (if base0 \<le> 0 then DefaultRedriveBaseBackoff else base0);
          cap = (if max0 \<le> 0 \<or> max0 < base then base else max0);
          shift = attempt - 1
      in if shift > 62 then cap
         else let scaled = f64 base * 2 ^ nat shift in if scaled \<ge> f64 cap then cap else scaled)"

definition redrive_post ::
    "service \<Rightarrow> network \<Rightarrow> redrive_options \<Rightarrow> signed_endpoint \<Rightarrow> redrive_delivery \<Rightarrow> (apperr, int \<times> string option) wire_comp" where
  "redrive_post svc net opts e d =
     (let body = nt_jsonb net (rd_payload d) in
      if body = [] then ret (0, Some ''the recorded delivery payload is empty; there is nothing to replay'')
      else post_request net \<lparr>hr_url = sg_url e, hr_timeout = clamp_timeout (ro_timeout opts) (sg_timeout e),
        hr_headers = delivery_headers (svc_prims svc) (sg_key e) (svc_now svc) (rd_event d) (eventIDFrom (rd_payload d))
          (rd_uuid d) (int32 (rd_count d + 1)) body,
        hr_body = body\<rparr>)"

datatype redrive_outcome = Delivered | Requeued | Abandoned

definition attemptOne ::
    "service \<Rightarrow> network \<Rightarrow> redrive_options \<Rightarrow> redrive_delivery \<Rightarrow> (apperr, redrive_outcome) wire_comp" where
  "attemptOne svc net opts d =
     bindM (tryM (inHooks net (SignedEndpointByID svc (rd_endpoint d)))) (\<lambda>r.
     case r of
       Inl x \<Rightarrow>
         if IsNotFound x
         then bindM (tryM (inHooks net (AbandonDelivery (rd_id d) ''the endpoint was deleted before this delivery could be retried''))) (\<lambda>a.
           ret (case a :: apperr + unit of _ \<Rightarrow> Abandoned))
         else ret Requeued
     | Inr e \<Rightarrow>
         bindM (redrive_post svc net opts e d) (\<lambda>(status, err).
         let responseStatus = (if status \<noteq> 0 then Some status else None) in
         case err of
           None \<Rightarrow>
             bindM (tryM (inHooks net (RecordRedriveOutcome (rd_id d) ''success'' responseStatus [] None))) (\<lambda>a.
             bindM (tryM (inHooks net (TouchWebhookEndpoint (sg_id e)))) (\<lambda>b.
             ret (case (a, b) :: (apperr + unit) \<times> (apperr + unit) of _ \<Rightarrow> Delivered)))
         | Some x \<Rightarrow>
             let spent = int32 (rd_redrives d + 1) in
             if spent \<ge> ro_attempts opts
             then bindM (tryM (inHooks net (RecordRedriveOutcome (rd_id d) ''failed'' responseStatus
                 (''permanently failed after '' @ FormatInt spent @ '' re-drive attempts: '' @ x) None))) (\<lambda>a.
               ret (case a :: apperr + unit of _ \<Rightarrow> Abandoned))
             else bindM (tryM (inHooks net (RecordRedriveOutcome (rd_id d) ''retrying'' responseStatus x
                 (Some (svc_now svc + Backoff (ro_base opts) (ro_backoff opts) spent))))) (\<lambda>a.
               ret (case a :: apperr + unit of _ \<Rightarrow> Requeued))))"

fun redrive_loop ::
    "service \<Rightarrow> network \<Rightarrow> redrive_options \<Rightarrow> redrive_delivery list \<Rightarrow> (apperr, redrive_outcome list) wire_comp" where
  "redrive_loop svc net opts [] = ret []"
| "redrive_loop svc net opts (d # ds) =
     bindM (ctx_done net) (\<lambda>stop.
     if stop then ret []
     else bindM (attemptOne svc net opts d) (\<lambda>x. bindM (redrive_loop svc net opts ds) (\<lambda>xs. ret (x # xs))))"

definition Tick :: "service \<Rightarrow> network \<Rightarrow> redrive_options \<Rightarrow> (apperr, unit) wire_comp" where
  "Tick svc net opts =
     bindM (ctx_done net) (\<lambda>stop.
     if \<not> ro_enabled opts \<or> stop then ret ()
     else bindM (inHooks net (ClaimDeliveriesForRedrive (ro_batch opts) (ro_lease opts))) (\<lambda>claimed.
       if claimed = [] then ret ()
       else bindM (redrive_loop svc net opts claimed) (\<lambda>_.
         bindM (tryM (inHooks net CountDeliveriesAwaitingRedrive)) (\<lambda>n.
         ret (case n :: apperr + nat of _ \<Rightarrow> ())))))"

end
