(* ===== verification/Reveal.thy ===== *)
theory Reveal
  imports Api Imports
begin

text \<open>
  The read path of \<open>internal/api\<close>: the fall-through of scope imports (\<open>imports.go\<close>), the lease gate
  (\<open>leases.go\<close>), the expansion of references (\<open>reference.go\<close>), \<open>Reveal\<close> and \<open>DescribeSecret\<close>
  (\<open>secrets.go\<close>) and \<open>BatchGet\<close> (\<open>bulk.go\<close>). The overwriting of plaintext buffers is not modelled.
\<close>

section \<open>Scope imports\<close>

record resolved_address =
  ra_addr :: secret_address
  ra_mrn :: string
  ra_from :: string

definition describes :: "api_service \<Rightarrow> caller \<Rightarrow> secret_address \<Rightarrow> (apperr + secret_meta) api" where
  "describes s c addr = onDb (tryM (DescribeSecret (ap_store s) (address_ref c addr)))"

fun import_candidates :: "api_service \<Rightarrow> caller \<Rightarrow> string \<Rightarrow> imported_source list \<Rightarrow> resolved_address api" where
  "import_candidates s c key [] = fail (AppErr (NotFoundError ''secret''))"
| "import_candidates s c key (src # srcs) =
     (let candidate = \<lparr>sa_project = is_project src, sa_env = is_environment src, sa_folder = is_folder src, sa_key = key\<rparr> in
      bindM (describes s c candidate) (\<lambda>r. case r of
          Inl e \<Rightarrow> if IsNotFound e then import_candidates s c key srcs else fail (AppErr e)
        | Inr _ \<Rightarrow> bindM (secretMRN (address_ref c candidate)) (\<lambda>candidateMRN.
            ret \<lparr>ra_addr = candidate, ra_mrn = candidateMRN,
              ra_from = caller_mrn c (is_project src) (FolderResourcePath (is_environment src) (is_folder src))\<rparr>)))"

definition resolveThroughImports :: "api_service \<Rightarrow> caller \<Rightarrow> secret_address \<Rightarrow> resolved_address api" where
  "resolveThroughImports s c addr =
     bindM (secretMRN (address_ref c addr)) (\<lambda>ownMRN.
     bindM (describes s c addr) (\<lambda>r. case r of
         Inr _ \<Rightarrow> ret \<lparr>ra_addr = addr, ra_mrn = ownMRN, ra_from = []\<rparr>
       | Inl e \<Rightarrow>
           if \<not> IsNotFound e then fail (AppErr e)
           else bindM (callStore (ImportChainFor (c_tenant c) (sa_project addr) (sa_env addr) (sa_folder addr))) (\<lambda>sources.
             import_candidates s c (sa_key addr) sources)))"

section \<open>The lease gate\<close>

definition leaseMetadata :: "lease_view \<Rightarrow> object" where
  "leaseMetadata l =
     [(''lease_uuid'', JStr (lv_uuid l)), (''expires_at'', JNum (lv_expires l)), (''reads_used'', JNum (lv_used l))]
     @ (case lease_Remaining l of (remaining, capped) \<Rightarrow>
          if capped then [(''reads_remaining'', JNum remaining), (''max_reads'', JNum (case lv_max l of Some m \<Rightarrow> m | None \<Rightarrow> 0))]
          else [])"

definition enforceReadLease ::
    "api_service \<Rightarrow> caller \<Rightarrow> secret_ref \<Rightarrow> string \<Rightarrow> lease_decision option api" where
  "enforceReadLease s c ref resourceMRN =
     bindM (onDb (tryM (AuthorizeLeasedRead (ap_store s) ref (ac_subject (c_actor c)) (ac_kind (c_actor c)) resourceMRN 0))) (\<lambda>r.
     case r of
       Inl (Refusal reason) \<Rightarrow>
         bindM (onDb (RecordDenied (ap_auditor s) (c_actor c) ((plain_event ''lease.refused'' resourceMRN)
             \<lparr>ev_tenant := tenantPtr c, ev_reason := ReasonRefusal reason\<rparr>))) (\<lambda>_.
         fail (LeaseRefused reason))
     | Inl (LeaseApp e) \<Rightarrow> fail (AppErr e)
     | Inr decision \<Rightarrow>
         if \<not> Governed decision then ret None
         else bindM (case (Issued decision, DecidedLease decision) of
               (True, Some l) \<Rightarrow> recordSuccess s c (success_event ''lease.issue'' resourceMRN None None (leaseMetadata l))
             | _ \<Rightarrow> ret ()) (\<lambda>_.
           ret (Some decision)))"

section \<open>References\<close>

text \<open>
  A template as the loop of \<open>expand\<close> reads it: the text and the address of each placeholder, then the
  text at the end, absent when the template ends in an unterminated placeholder. The loop resolves
  each placeholder before it reads on.
\<close>

function template_pieces :: "string \<Rightarrow> (string \<times> string) list \<times> string option" where
  "template_pieces rest =
     (case next_placeholder rest of
        NoMore \<Rightarrow> ([], Some rest)
      | Unterminated \<Rightarrow> ([], None)
      | Placeholder before address rest' \<Rightarrow> (case template_pieces rest' of (ps, e) \<Rightarrow> ((before, address) # ps, e)))"
  by pat_completeness auto

termination template_pieces
  by (relation "measure length") (auto dest: next_placeholder_shorter)

declare template_pieces.simps [simp del]

fun join_arrows :: "string list \<Rightarrow> string" where
  "join_arrows [] = []"
| "join_arrows [x] = x"
| "join_arrows (x # xs) = x @ '' -> '' @ join_arrows xs"

fun expand_pieces :: "(string \<Rightarrow> (string \<times> string list) api) \<Rightarrow> string option \<Rightarrow> (string \<times> string) list \<Rightarrow>
    string \<Rightarrow> string list \<Rightarrow> (string \<times> string list) api" where
  "expand_pieces resolve (Some rest) [] out hops = ret (out @ rest, hops)"
| "expand_pieces resolve None [] out hops =
     fail (AppErr (invalid ''reference value contains an unterminated ${...} placeholder''))"
| "expand_pieces resolve e ((before, address) # ps) out hops =
     bindM (resolve address) (\<lambda>(val, hs). expand_pieces resolve e ps (out @ before @ val) (hops @ hs))"

text \<open>One \<open>${...}\<close>; \<open>expand_nested\<close> expands the value of a target that is itself a reference.\<close>

definition resolveOneReference :: "api_service \<Rightarrow> caller \<Rightarrow> (string \<Rightarrow> string list \<Rightarrow> (string \<times> string list) api) \<Rightarrow>
    string list \<Rightarrow> int \<Rightarrow> string \<Rightarrow> (string \<times> string list) api" where
  "resolveOneReference s c expand_nested chain depth addressText =
     (case SplitReferencePath addressText of
        None \<Rightarrow> fail (AppErr (invalid ''reference must be project/environment[/folder...]/KEY''))
      | Some (project, environment, folderPath, key) \<Rightarrow>
          let ref = \<lparr>r_tenant = c_tenant c, r_project = project, r_environment = environment, r_folder = folderPath, r_key = key\<rparr> in
          bindM (secretMRN ref) (\<lambda>targetMRN.
          if targetMRN \<in> set chain
          then fail (AppErr (invalid (''reference cycle detected: '' @ join_arrows (chain @ [targetMRN]))))
          else
            bindM (guard s c ''secret:GetSecret'' ''secret.reference'' targetMRN) (\<lambda>_.
            bindM (recorded s c ''secret.reference'' targetMRN (callStore (GetSecret (ap_store s) ref))) (\<lambda>revealed.
            bindM (recordSuccess s c (success_event ''secret.reference'' targetMRN
                (Some (m_uuid (rv_meta revealed))) (Some (rv_version revealed))
                [(''referrer'', JStr (last chain)), (''hop'', JNum (depth + 1)), (''value_type'', JStr (rv_type revealed))])) (\<lambda>_.
            if rv_type revealed \<noteq> ''reference'' then ret (string_of (rv_value revealed), [targetMRN])
            else bindM (expand_nested (string_of (rv_value revealed)) (chain @ [targetMRN])) (\<lambda>(val, hs).
              ret (val, targetMRN # hs)))))))"

text \<open>
  \<open>expand\<close>; the first argument is the number of levels left, \<open>ReferenceMaxDepth\<close> minus the depth,
  so that zero is the bound check of the code.
\<close>

primrec expand :: "nat \<Rightarrow> api_service \<Rightarrow> caller \<Rightarrow> int \<Rightarrow> string \<Rightarrow> string list \<Rightarrow> (string \<times> string list) api" where
  "expand 0 s c depth template chain =
     fail (AppErr (invalid (''reference chain exceeded the maximum depth of '' @ FormatInt (ap_depth s) @ '': '' @ join_arrows chain)))"
| "expand (Suc n) s c depth template chain =
     (case template_pieces template of (ps, e) \<Rightarrow>
        expand_pieces (resolveOneReference s c (expand n s c (depth + 1)) chain depth) e ps [] [])"

definition resolveReferences :: "api_service \<Rightarrow> caller \<Rightarrow> string \<Rightarrow> bytes \<Rightarrow> (bytes \<times> string list) api" where
  "resolveReferences s c origin raw =
     bindM (expand (nat (ap_depth s)) s c 0 (string_of raw) [origin]) (\<lambda>(rendered, hops).
     ret (bytes_of rendered, hops))"

section \<open>Reveal and describe\<close>

record api_revealed =
  ar_secret :: revealed
  ar_hops :: "string list"
  ar_lease :: "lease_view option"

definition revealMetadata :: "revealed \<Rightarrow> string list \<Rightarrow> resolved_address \<Rightarrow> lease_view option \<Rightarrow> object" where
  "revealMetadata rv hops resolved l =
     [(''value_type'', JStr (rv_type rv))]
     @ (if hops \<noteq> [] then [(''reference_hops'', JArr (map JStr hops))] else [])
     @ (if ra_from resolved \<noteq> [] then [(''imported_from'', JStr (ra_from resolved))] else [])
     @ (case l of None \<Rightarrow> [] | Some l \<Rightarrow>
          [(''lease_uuid'', JStr (lv_uuid l)), (''lease_reads_used'', JNum (lv_used l))]
          @ (case lease_Remaining l of (remaining, capped) \<Rightarrow>
               if capped then [(''lease_reads_remaining'', JNum remaining)] else []))"

text \<open>\<open>Reveal\<close> after the resolution of the address.\<close>

definition reveal_resolved :: "api_service \<Rightarrow> caller \<Rightarrow> int \<Rightarrow> resolved_address \<Rightarrow> api_revealed api" where
  "reveal_resolved s c ver resolved =
     (let ref = address_ref c (ra_addr resolved); resourceMRN = ra_mrn resolved in
        bindM (guard s c ''secret:GetSecret'' ''secret.reveal'' resourceMRN) (\<lambda>_.
        bindM (enforceReadLease s c ref resourceMRN) (\<lambda>leaseDecision.
        bindM (recorded s c ''secret.reveal'' resourceMRN (callStore
            (if ver = 0 then GetSecret (ap_store s) ref else GetSecretVersion (ap_store s) ref ver))) (\<lambda>found.
        let l = (case leaseDecision of None \<Rightarrow> None | Some d \<Rightarrow> DecidedLease d) in
        bindM (if rv_type found = ''reference''
            then recorded s c ''secret.reveal'' resourceMRN (resolveReferences s c resourceMRN (rv_value found))
            else ret (rv_value found, [])) (\<lambda>(val, hops).
        let rv = found\<lparr>rv_value := val\<rparr> in
        bindM (recordSuccess s c (success_event ''secret.reveal'' resourceMRN (Some (m_uuid (rv_meta rv))) (Some (rv_version rv))
            (revealMetadata rv hops resolved l))) (\<lambda>_.
        ret \<lparr>ar_secret = rv, ar_hops = hops, ar_lease = l\<rparr>))))))"

definition Reveal :: "api_service \<Rightarrow> caller \<Rightarrow> secret_address \<Rightarrow> int \<Rightarrow> api_revealed api" where
  "Reveal s c addr ver =
     (if \<not> ap_auditor s then fail ErrNoAuditor
      else
        bindM (checked (RevealSecretInput_Validate addr ver)) (\<lambda>_.
        bindM (resolveThroughImports s c addr) (reveal_resolved s c ver)))"

definition api_DescribeSecret :: "api_service \<Rightarrow> caller \<Rightarrow> secret_address \<Rightarrow> secret_meta api" where
  "api_DescribeSecret s c addr =
     bindM (checked (SecretAddress_Validate addr)) (\<lambda>_.
     bindM (resolveThroughImports s c addr) (\<lambda>resolved.
     let resourceMRN = ra_mrn resolved in
     bindM (guard s c ''secret:ReadMetadata'' ''secret.read'' resourceMRN) (\<lambda>_.
     bindM (recorded s c ''secret.read'' resourceMRN
         (callStore (DescribeSecret (ap_store s) (address_ref c (ra_addr resolved))))) (\<lambda>meta.
     bindM (recordSuccess s c (success_event ''secret.read'' resourceMRN (Some (m_uuid meta)) (Some (m_current meta))
         (if ra_from resolved \<noteq> [] then [(''imported_from'', JStr (ra_from resolved))] else []))) (\<lambda>_.
     ret meta)))))"

section \<open>Batches\<close>

definition isAuditFailure :: "api_error \<Rightarrow> bool" where
  "isAuditFailure e = (case e of
      AppErr x \<Rightarrow> \<not> (IsNotFound x \<or> IsValidation x \<or> IsConflict x \<or> IsForbidden x \<or> IsUnavailable x)
    | LeaseRefused _ \<Rightarrow> False
    | _ \<Rightarrow> True)"

fun batch_get :: "api_service \<Rightarrow> caller \<Rightarrow> (secret_address \<times> int) list \<Rightarrow>
    (secret_address \<times> (api_error + api_revealed)) list \<Rightarrow> (secret_address \<times> (api_error + api_revealed)) list api" where
  "batch_get s c [] out = ret out"
| "batch_get s c ((addr, ver) # items) out =
     bindM (tryM (Reveal s c addr ver)) (\<lambda>r. case r of
         Inl e \<Rightarrow> if isAuditFailure e then fail e else batch_get s c items (out @ [(addr, Inl e)])
       | Inr x \<Rightarrow> batch_get s c items (out @ [(addr, Inr x)]))"

definition BatchGet :: "api_service \<Rightarrow> caller \<Rightarrow> (secret_address \<times> int) list \<Rightarrow>
    (secret_address \<times> (api_error + api_revealed)) list api" where
  "BatchGet s c items =
     bindM (checked (BatchGetInput_Validate (ap_limits s) items)) (\<lambda>_. batch_get s c items [])"

end
