(* ===== verification/ApiSecrets.thy ===== *)
theory ApiSecrets
  imports Reveal
begin

text \<open>
  The writes of \<open>internal/api\<close>: \<open>secrets.go\<close> (put, metadata, rollback, delete, restore, destroy),
  \<open>bulk.go\<close> (\<open>BatchPut\<close>), the management of imports (\<open>imports.go\<close>) and of leases (\<open>leases.go\<close>).
  All but a few follow one pattern, the definition \<open>operation\<close>. The listings of secrets, deleted
  secrets and versions are in \<open>ApiHierarchy\<close>.
\<close>

section \<open>The common pattern\<close>

text \<open>Guard, store call with its failure recorded, success recorded.\<close>

definition operation :: "api_service \<Rightarrow> caller \<Rightarrow> string \<Rightarrow> string \<Rightarrow> string \<Rightarrow> 'a op \<Rightarrow> ('a \<Rightarrow> event) \<Rightarrow> 'a api" where
  "operation s c permission action resourceMRN m ev =
     bindM (guard s c permission action resourceMRN) (\<lambda>_.
     bindM (recorded s c action resourceMRN (callStore m)) (\<lambda>x.
     bindM (recordSuccess s c (ev x)) (\<lambda>_. ret x)))"

section \<open>Writes of secrets\<close>

definition store_put :: "caller \<Rightarrow> api_put \<Rightarrow> put_input" where
  "store_put c inp = \<lparr>pi_ref = address_ref c (pt_address inp), pi_value = Some (pt_value inp), pi_type = pt_type inp,
     pi_description = pt_description inp, pi_tags = pt_tags inp, pi_keep = pt_keep inp, pi_rotation = pt_rotation inp,
     pi_expires = pt_expires inp, pi_create_folders = pt_create_folders inp\<rparr>"

definition put_event :: "string \<Rightarrow> put_result \<Rightarrow> event" where
  "put_event resourceMRN r = success_event ''secret.write'' resourceMRN (Some (pr_uuid r)) (Some (pr_version r))
     [(''created'', JBool (pr_created r)), (''unchanged'', JBool (pr_unchanged r)), (''pruned'', JNum (int (pr_pruned r)))]"

definition api_PutSecret :: "api_service \<Rightarrow> draws \<Rightarrow> caller \<Rightarrow> api_put \<Rightarrow> put_result api" where
  "api_PutSecret s rnd c inp =
     bindM (checked (PutSecretInput_Validate (ap_limits s) inp)) (\<lambda>_.
     bindM (secretMRN (address_ref c (pt_address inp))) (\<lambda>resourceMRN.
     bindM (operation s c ''secret:PutSecret'' ''secret.write'' resourceMRN
         (PutSecret (ap_store s) rnd (store_put c inp)) (put_event resourceMRN)) (\<lambda>result.
     bindM (if \<not> pr_unchanged result
         then notify s c (sa_project (pt_address inp)) ''secret.changed'' resourceMRN (pr_version result) else ret ()) (\<lambda>_.
     ret result))))"

definition api_UpdateSecretMeta :: "api_service \<Rightarrow> caller \<Rightarrow> api_meta \<Rightarrow> secret_meta api" where
  "api_UpdateSecretMeta s c inp =
     bindM (checked (UpdateSecretMetaInput_Validate (ap_limits s) inp)) (\<lambda>_.
     bindM (secretMRN (address_ref c (um_address inp))) (\<lambda>resourceMRN.
     operation s c ''secret:PutSecret'' ''secret.metadata'' resourceMRN
       (UpdateSecretMeta (ap_store s) \<lparr>mi_ref = address_ref c (um_address inp), mi_description = um_description inp,
          mi_tags = um_tags inp, mi_keep = um_keep inp, mi_rotation = um_rotation inp, mi_expires = um_expires inp\<rparr>)
       (\<lambda>meta. success_event ''secret.metadata'' resourceMRN (Some (m_uuid meta)) None [])))"

definition api_Rollback :: "api_service \<Rightarrow> draws \<Rightarrow> caller \<Rightarrow> secret_address \<Rightarrow> int \<Rightarrow> put_result api" where
  "api_Rollback s rnd c addr ver =
     bindM (checked (RollbackSecretInput_Validate addr ver)) (\<lambda>_.
     bindM (secretMRN (address_ref c addr)) (\<lambda>resourceMRN.
     bindM (guard s c ''secret:PutSecret'' ''secret.rollback'' resourceMRN) (\<lambda>_.
     bindM (operation s c ''secret:GetSecret'' ''secret.rollback'' resourceMRN
         (RollbackSecret (ap_store s) rnd (address_ref c addr) ver)
         (\<lambda>r. success_event ''secret.rollback'' resourceMRN (Some (pr_uuid r)) (Some (pr_version r))
            [(''restored_from_version'', JNum ver), (''unchanged'', JBool (pr_unchanged r))])) (\<lambda>result.
     bindM (if \<not> pr_unchanged result
         then notify s c (sa_project addr) ''secret.changed'' resourceMRN (pr_version result) else ret ()) (\<lambda>_.
     ret result)))))"

definition api_DeleteSecret :: "api_service \<Rightarrow> caller \<Rightarrow> secret_address \<Rightarrow> int option \<Rightarrow> deleted_secret api" where
  "api_DeleteSecret s c addr window =
     bindM (checked (DeleteSecretInput_Validate addr window)) (\<lambda>_.
     bindM (secretMRN (address_ref c addr)) (\<lambda>resourceMRN.
     operation s c ''secret:DeleteSecret'' ''secret.delete'' resourceMRN
       (DeleteSecret (ap_store s) (address_ref c addr) window)
       (\<lambda>d. success_event ''secret.delete'' resourceMRN (Some (ds_uuid d)) (Some (ds_current d))
          [(''destroy_after'', case ds_destroy d of None \<Rightarrow> JStr [] | Some t \<Rightarrow> JNum t)])))"

text \<open>The operations that take a UUID parse it after the check, which has refused what does not parse.\<close>

definition with_uuid :: "api_service \<Rightarrow> string \<Rightarrow> string \<Rightarrow> (uuid \<Rightarrow> 'a api) \<Rightarrow> 'a api" where
  "with_uuid s name raw k = (case ap_parse_uuid s raw of
      None \<Rightarrow> fail (AppErr (invalid (name @ '' must be a valid UUID''))) | Some u \<Rightarrow> k u)"

definition api_RestoreSecret :: "api_service \<Rightarrow> caller \<Rightarrow> string \<Rightarrow> secret_meta api" where
  "api_RestoreSecret s c raw =
     bindM (checked (uuid_field ''secret_uuid'' (ap_parse_uuid s) raw)) (\<lambda>_.
     with_uuid s ''secret_uuid'' raw (\<lambda>secretUUID.
     operation s c ''secret:DeleteSecret'' ''secret.restore'' (caller_mrn c [] ResourceProject)
       (RestoreSecret (ap_store s) (c_tenant c) secretUUID)
       (\<lambda>meta. success_event ''secret.restore'' (m_mrn meta) (Some (m_uuid meta)) (Some (m_current meta)) [])))"

definition api_DestroySecret :: "api_service \<Rightarrow> caller \<Rightarrow> string \<Rightarrow> unit api" where
  "api_DestroySecret s c raw =
     bindM (checked (uuid_field ''secret_uuid'' (ap_parse_uuid s) raw)) (\<lambda>_.
     with_uuid s ''secret_uuid'' raw (\<lambda>secretUUID.
     operation s c ''secret:DeleteSecret'' ''secret.destroy'' (caller_mrn c [] ResourceProject)
       (DestroySecret (ap_store s) (c_tenant c) secretUUID)
       (\<lambda>_. success_event ''secret.destroy'' (caller_mrn c [] ResourceProject) None None [(''secret_uuid'', JStr secretUUID)])))"

definition item_put :: "batch_put_item \<Rightarrow> api_put" where
  "item_put i = \<lparr>pt_address = bp_address i, pt_value = bp_value i, pt_type = bp_type i, pt_description = bp_description i,
     pt_tags = bp_tags i, pt_keep = None, pt_rotation = [], pt_expires = None, pt_create_folders = bp_create_folders i\<rparr>"

text \<open>Each item draws its own random bytes.\<close>

fun batch_put :: "api_service \<Rightarrow> caller \<Rightarrow> (draws \<times> batch_put_item) list \<Rightarrow>
    (secret_address \<times> (api_error + put_result)) list \<Rightarrow> (secret_address \<times> (api_error + put_result)) list api" where
  "batch_put s c [] out = ret out"
| "batch_put s c ((rnd, i) # items) out =
     bindM (tryM (api_PutSecret s rnd c (item_put i))) (\<lambda>r. case r of
         Inl e \<Rightarrow> if isAuditFailure e then fail e else batch_put s c items (out @ [(bp_address i, Inl e)])
       | Inr x \<Rightarrow> batch_put s c items (out @ [(bp_address i, Inr x)]))"

definition BatchPut :: "api_service \<Rightarrow> caller \<Rightarrow> (draws \<times> batch_put_item) list \<Rightarrow>
    (secret_address \<times> (api_error + put_result)) list api" where
  "BatchPut s c items =
     bindM (checked (BatchPutInput_Validate (ap_limits s) (map snd items))) (\<lambda>_. batch_put s c items [])"

section \<open>Imports\<close>

definition importProbeKey :: string where "importProbeKey = ''_''"

definition normalized :: "string \<Rightarrow> string api" where
  "normalized p = liftR (mapL AppErr (checkPath p))"

definition api_CreateImport :: "api_service \<Rightarrow> caller \<Rightarrow> api_import \<Rightarrow> import_view api" where
  "api_CreateImport s c inp =
     bindM (checked (CreateImportInput_Validate inp)) (\<lambda>_.
     bindM (normalized (im_folder inp)) (\<lambda>targetPath.
     bindM (normalized (im_source_folder inp)) (\<lambda>sourcePath.
     let targetMRN = caller_mrn c (im_project inp) (FolderResourcePath (im_env inp) targetPath);
         sourceSecretPrefixMRN = caller_mrn c (im_source_project inp)
           (SecretResourcePath (im_source_env inp) sourcePath importProbeKey)
     in bindM (guard s c ''secret:ManageFolder'' ''import.create'' targetMRN) (\<lambda>_.
        bindM (guard s c ''secret:GetSecret'' ''import.create'' sourceSecretPrefixMRN) (\<lambda>_.
        bindM (recorded s c ''import.create'' targetMRN (callStore (CreateImport
            \<lparr>ci_tenant = c_tenant c, ci_project = im_project inp, ci_environment = im_env inp, ci_folder = targetPath,
             ci_source_project = im_source_project inp, ci_source_environment = im_source_env inp,
             ci_source_folder = sourcePath, ci_position = im_position inp\<rparr>))) (\<lambda>edge.
        bindM (recordSuccess s c (success_event ''import.create''
            (caller_mrn c (im_project inp) (ImportResourcePath (iv_uuid edge))) None None
            [(''source'', JStr (caller_mrn c (im_source_project inp) (FolderResourcePath (im_source_env inp) sourcePath))),
             (''target'', JStr targetMRN)])) (\<lambda>_.
        ret edge)))))))"

definition api_ListImports :: "api_service \<Rightarrow> caller \<Rightarrow> string \<Rightarrow> string \<Rightarrow> string \<Rightarrow> import_view list api" where
  "api_ListImports s c project environment folderPath =
     bindM (checked (ListImportsInput_Validate project environment folderPath)) (\<lambda>_.
     bindM (normalized folderPath) (\<lambda>path.
     let resourceMRN = caller_mrn c project (FolderResourcePath environment path) in
     operation s c ''secret:ReadMetadata'' ''secret.read'' resourceMRN (ListImports (c_tenant c) project environment path)
       (\<lambda>edges. success_event ''secret.read'' resourceMRN None None [(''imports'', JNum (int (length edges)))])))"

definition api_SetImportEnabled :: "api_service \<Rightarrow> caller \<Rightarrow> string \<Rightarrow> bool \<Rightarrow> int \<Rightarrow> import_view api" where
  "api_SetImportEnabled s c raw enabled position =
     bindM (checked (UpdateImportInput_Validate (ap_parse_uuid s) raw position)) (\<lambda>_.
     with_uuid s ''import_uuid'' raw (\<lambda>importUUID.
     let resourceMRN = caller_mrn c [] (ImportResourcePath importUUID) in
     operation s c ''secret:ManageFolder'' ''import.update'' resourceMRN
       (SetImportEnabled (c_tenant c) importUUID enabled position)
       (\<lambda>_. success_event ''import.update'' resourceMRN None None [(''enabled'', JBool enabled), (''position'', JNum position)])))"

definition api_DeleteImport :: "api_service \<Rightarrow> caller \<Rightarrow> string \<Rightarrow> unit api" where
  "api_DeleteImport s c raw =
     bindM (checked (uuid_field ''import_uuid'' (ap_parse_uuid s) raw)) (\<lambda>_.
     with_uuid s ''import_uuid'' raw (\<lambda>importUUID.
     let resourceMRN = caller_mrn c [] (ImportResourcePath importUUID) in
     operation s c ''secret:ManageFolder'' ''import.delete'' resourceMRN (DeleteImport (c_tenant c) importUUID)
       (\<lambda>_. success_event ''import.delete'' resourceMRN None None [])))"

section \<open>Leases\<close>

definition leasePolicyMetadata :: "secret_lease_policy \<Rightarrow> object" where
  "leasePolicyMetadata p =
     [(''policy_removed'', JBool (TTLSeconds p = None))]
     @ (case TTLSeconds p of None \<Rightarrow> [] | Some n \<Rightarrow> [(''lease_ttl_seconds'', JNum n)])
     @ (case MaxTTLSeconds p of None \<Rightarrow> [] | Some n \<Rightarrow> [(''lease_max_ttl_seconds'', JNum n)])
     @ (case MaxReadsOpt p of None \<Rightarrow> [] | Some n \<Rightarrow> [(''lease_max_reads'', JNum n)])"

definition api_SetSecretLeasePolicy :: "api_service \<Rightarrow> caller \<Rightarrow> secret_address \<Rightarrow> secret_lease_policy \<Rightarrow> secret_meta api" where
  "api_SetSecretLeasePolicy s c addr policy =
     bindM (checked (SetSecretLeasePolicyInput_Validate addr policy)) (\<lambda>_.
     bindM (secretMRN (address_ref c addr)) (\<lambda>resourceMRN.
     operation s c ''secret:ManageLease'' ''lease.policy'' resourceMRN
       (SetSecretLeasePolicy (ap_store s) (address_ref c addr) policy)
       (\<lambda>meta. success_event ''lease.policy'' resourceMRN (Some (m_uuid meta)) None (leasePolicyMetadata policy))))"

definition api_GetSecretLeasePolicy :: "api_service \<Rightarrow> caller \<Rightarrow> secret_address \<Rightarrow> secret_lease_policy api" where
  "api_GetSecretLeasePolicy s c addr =
     bindM (checked (address_as ''address'' addr)) (\<lambda>_.
     bindM (secretMRN (address_ref c addr)) (\<lambda>resourceMRN.
     operation s c ''secret:ReadMetadata'' ''secret.read'' resourceMRN (GetSecretLeasePolicy (address_ref c addr))
       (\<lambda>p. success_event ''secret.read'' resourceMRN None None
          [(''leased'', JBool (policy_Enabled p)), (''read'', JStr ''lease_policy'')])))"

definition api_ListSecretLeases :: "api_service \<Rightarrow> caller \<Rightarrow> secret_address \<Rightarrow> pagination \<Rightarrow> (lease_view list \<times> nat) api" where
  "api_ListSecretLeases s c addr p =
     bindM (checked (ListSecretLeasesInput_Validate (ap_limits s) addr p)) (\<lambda>_.
     case resolved_page (ap_limits s) p of (page, limit) \<Rightarrow>
     bindM (secretMRN (address_ref c addr)) (\<lambda>resourceMRN.
     operation s c ''secret:ReadMetadata'' ''secret.read'' resourceMRN (ListSecretLeases (address_ref c addr) page limit)
       (\<lambda>(ls, total). success_event ''secret.read'' resourceMRN None None
          [(''read'', JStr ''leases''), (''returned'', JNum (int (length ls))), (''total'', JNum (int total))])))"

definition api_RevokeSecretLeases :: "api_service \<Rightarrow> caller \<Rightarrow> secret_address \<Rightarrow> nat api" where
  "api_RevokeSecretLeases s c addr =
     bindM (checked (address_as ''address'' addr)) (\<lambda>_.
     bindM (secretMRN (address_ref c addr)) (\<lambda>resourceMRN.
     operation s c ''secret:ManageLease'' ''lease.revoke'' resourceMRN (RevokeSecretLeases (address_ref c addr))
       (\<lambda>n. success_event ''lease.revoke'' resourceMRN None None [(''revoked'', JNum (int n))])))"

end
