(* ===== verification/ApiHooks.thy ===== *)
theory ApiHooks
  imports ApiSecrets HookStore
begin

text \<open>
  The webhook operations of \<open>internal/api/webhooks.go\<close> with their request checks
  (\<open>validation_webhook.go\<close>). The state is the one of the API operations with the two webhook tables beside
  it. \<open>is.URL\<close> is a parameter.
\<close>

section \<open>Request checks\<close>

definition webhookURLRule :: "url_parser \<Rightarrow> string \<Rightarrow> reason option" where
  "webhookURLRule parse raw = (if raw = [] then None else map_option Msg (ValidateWebhookURL parse raw))"

definition webhookEventsRule :: "string list \<Rightarrow> reason option" where
  "webhookEventsRule events =
     (if events = [] then None
      else if length events > length WebhookEvents
        then Some (Msg ''the subscription list contains more entries than there are event types'')
      else (case find (\<lambda>e. \<not> IsKnownWebhookEvent e) events of
          None \<Rightarrow> None
        | Some e \<Rightarrow> Some (Msg (''webhook event '' @ quoted e @ '' is not one of '' @ ''secret.changed, secret.rotated''))))"

definition webhookStatusRule :: "string \<Rightarrow> reason option" where
  "webhookStatusRule raw = rule (raw = [] \<or> raw \<in> set WebhookStatuses) ''status must be one of active, disabled''"

definition webhookTimeoutRule :: "limits \<Rightarrow> int \<Rightarrow> reason option" where
  "webhookTimeoutRule l seconds =
     (if seconds = 0 then None
      else if seconds < 1 then Some (Msg ''timeout_seconds must be at least 1'')
      else if seconds > int32 (MaxWebhookTimeoutSeconds l)
        then Some (Msg (''timeout_seconds must be at most '' @ FormatInt (int32 (MaxWebhookTimeoutSeconds l))))
      else None)"

definition webhookAttemptsRule :: "limits \<Rightarrow> int \<Rightarrow> reason option" where
  "webhookAttemptsRule l attempts =
     (if attempts = 0 then None
      else if attempts < 1 then Some (Msg ''max_attempts must be at least 1'')
      else if attempts > int32 (MaxWebhookAttempts l)
        then Some (Msg (''max_attempts must be at most '' @ FormatInt (int32 (MaxWebhookAttempts l))))
      else None)"

record hook_env =
  he_parse :: url_parser
  he_is_url :: "string \<Rightarrow> bool"

definition url_field :: "hook_env \<Rightarrow> string \<Rightarrow> failures" where
  "url_field h url = field ''url'' [rule (url \<noteq> []) ''webhook url is required'',
     rule (he_is_url h url) ''webhook url must be a valid URL'', webhookURLRule (he_parse h) url]"

record api_hook_create =
  ac_project :: string
  ac_url :: string
  ac_description :: string
  ac_events :: "string list"
  ac_timeout :: int
  ac_attempts :: int

definition CreateWebhookEndpointInput_Validate :: "limits \<Rightarrow> hook_env \<Rightarrow> api_hook_create \<Rightarrow> failures" where
  "CreateWebhookEndpointInput_Validate l h inp =
     project_as ''project'' (ac_project inp) @ url_field h (ac_url inp)
     @ field ''description'' [descriptionRule l (ac_description inp)]
     @ field ''events'' [webhookEventsRule (ac_events inp)]
     @ field ''timeout_seconds'' [webhookTimeoutRule l (ac_timeout inp)]
     @ field ''max_attempts'' [webhookAttemptsRule l (ac_attempts inp)]"

record api_hook_update =
  au_project :: string
  au_endpoint :: string
  au_url :: string
  au_description :: string
  au_events :: "string list"
  au_status :: string
  au_timeout :: int
  au_attempts :: int

definition UpdateWebhookEndpointInput_Validate ::
    "limits \<Rightarrow> hook_env \<Rightarrow> (string \<Rightarrow> uuid option) \<Rightarrow> api_hook_update \<Rightarrow> failures" where
  "UpdateWebhookEndpointInput_Validate l h parse_uuid inp =
     project_as ''project'' (au_project inp) @ uuid_field ''endpoint_uuid'' parse_uuid (au_endpoint inp) @ url_field h (au_url inp)
     @ field ''description'' [descriptionRule l (au_description inp)]
     @ field ''events'' [webhookEventsRule (au_events inp)] @ field ''status'' [webhookStatusRule (au_status inp)]
     @ field ''timeout_seconds'' [webhookTimeoutRule l (au_timeout inp)]
     @ field ''max_attempts'' [webhookAttemptsRule l (au_attempts inp)]"

definition WebhookEndpointRef_Validate :: "(string \<Rightarrow> uuid option) \<Rightarrow> string \<Rightarrow> string \<Rightarrow> failures" where
  "WebhookEndpointRef_Validate parse_uuid project raw =
     project_as ''project'' project @ uuid_field ''endpoint_uuid'' parse_uuid raw"

definition ListWebhookEndpointsInput_Validate :: "limits \<Rightarrow> string \<Rightarrow> pagination \<Rightarrow> failures" where
  "ListWebhookEndpointsInput_Validate l project p = project_as ''project'' project @ Pagination_Validate l p"

definition ListWebhookDeliveriesInput_Validate ::
    "limits \<Rightarrow> (string \<Rightarrow> uuid option) \<Rightarrow> string \<Rightarrow> string \<Rightarrow> pagination \<Rightarrow> failures" where
  "ListWebhookDeliveriesInput_Validate l parse_uuid project raw p =
     project_as ''project'' project @ uuid_field ''endpoint_uuid'' parse_uuid raw @ Pagination_Validate l p"

section \<open>Operations\<close>

record hook_world =
  hw_world :: world
  hw_endpoints :: "endpoint list"
  hw_deliveries :: "delivery list"

type_synonym 'a hook_api = "(hook_world, api_error, 'a) comp"

definition hooks_of :: "hook_world \<Rightarrow> hooks" where
  "hooks_of w = \<lparr>hk_db = w_db (hw_world w), hk_endpoints = hw_endpoints w, hk_deliveries = hw_deliveries w\<rparr>"

definition put_hooks :: "hooks \<Rightarrow> hook_world \<Rightarrow> hook_world" where
  "put_hooks h w = \<lparr>hw_world = (hw_world w)\<lparr>w_db := hk_db h\<rparr>, hw_endpoints = hk_endpoints h, hw_deliveries = hk_deliveries h\<rparr>"

definition inApi :: "'a api \<Rightarrow> 'a hook_api" where
  "inApi m = (\<lambda>w. case m (hw_world w) of (r, t) \<Rightarrow> (r, w\<lparr>hw_world := t\<rparr>))"

definition callHooks :: "'a hook_op \<Rightarrow> 'a hook_api" where
  "callHooks m = (\<lambda>w. case m (hooks_of w) of (r, t) \<Rightarrow> (mapL AppErr r, put_hooks t w))"

text \<open>Guard, store call with its failure recorded, success recorded.\<close>

definition hook_operation ::
    "api_service \<Rightarrow> caller \<Rightarrow> string \<Rightarrow> string \<Rightarrow> string \<Rightarrow> 'a hook_op \<Rightarrow> ('a \<Rightarrow> event) \<Rightarrow> 'a hook_api" where
  "hook_operation s c permission action resourceMRN m ev =
     bindM (inApi (guard s c permission action resourceMRN)) (\<lambda>_.
     bindM (tryM (callHooks m)) (\<lambda>r. case r of
         Inl e \<Rightarrow> bindM (inApi (recordFailure s c action resourceMRN e)) (\<lambda>_. fail e)
       | Inr x \<Rightarrow> bindM (inApi (recordSuccess s c (ev x))) (\<lambda>_. ret x)))"

definition hook_uuid :: "api_service \<Rightarrow> string \<Rightarrow> (uuid \<Rightarrow> 'a hook_api) \<Rightarrow> 'a hook_api" where
  "hook_uuid s raw k = (case ap_parse_uuid s raw of
       None \<Rightarrow> fail (AppErr (invalid ''endpoint_uuid must be a valid UUID'')) | Some u \<Rightarrow> k u)"

definition api_CreateWebhookEndpoint ::
    "api_service \<Rightarrow> hook_env \<Rightarrow> bytes option \<Rightarrow> uuid \<Rightarrow> draws \<Rightarrow> caller \<Rightarrow> api_hook_create \<Rightarrow> (hook_view \<times> string) hook_api" where
  "api_CreateWebhookEndpoint s h mat u rnd c inp =
     bindM (inApi (checked (CreateWebhookEndpointInput_Validate (ap_limits s) h inp))) (\<lambda>_.
     hook_operation s c ''secret:ManageRotation'' ''webhook.create'' (caller_mrn c (ac_project inp) ResourceWebhook)
       (CreateWebhookEndpoint (ap_store s) (he_parse h) mat u rnd
         \<lparr>hc_tenant = c_tenant c, hc_project = ac_project inp, hc_url = ac_url inp, hc_description = ac_description inp,
          hc_events = ac_events inp, hc_timeout = ac_timeout inp, hc_attempts = ac_attempts inp\<rparr>)
       (\<lambda>(e, _). success_event ''webhook.create'' (caller_mrn c (ac_project inp) (WebhookResourcePath (hv_uuid e))) None None
          [(''events'', JArr (map JStr (hv_events e))), (''url'', JStr (hv_url e))]))"

definition api_ListWebhookEndpoints :: "api_service \<Rightarrow> caller \<Rightarrow> string \<Rightarrow> pagination \<Rightarrow> (hook_view list \<times> nat) hook_api" where
  "api_ListWebhookEndpoints s c project p =
     bindM (inApi (checked (ListWebhookEndpointsInput_Validate (ap_limits s) project p))) (\<lambda>_.
     case resolved_page (ap_limits s) p of (page, limit) \<Rightarrow>
     let resourceMRN = caller_mrn c project ResourceWebhook in
     hook_operation s c ''secret:ReadMetadata'' ''secret.read'' resourceMRN
       (ListWebhookEndpoints (c_tenant c) project page limit)
       (\<lambda>(es, total). success_event ''secret.read'' resourceMRN None None
          [(''endpoints'', JNum (int (length es))), (''total'', JNum (int total))]))"

definition api_UpdateWebhookEndpoint :: "api_service \<Rightarrow> hook_env \<Rightarrow> caller \<Rightarrow> api_hook_update \<Rightarrow> hook_view hook_api" where
  "api_UpdateWebhookEndpoint s h c inp =
     bindM (inApi (checked (UpdateWebhookEndpointInput_Validate (ap_limits s) h (ap_parse_uuid s) inp))) (\<lambda>_.
     hook_uuid s (au_endpoint inp) (\<lambda>u.
     let resourceMRN = caller_mrn c (au_project inp) (WebhookResourcePath u) in
     hook_operation s c ''secret:ManageRotation'' ''webhook.update'' resourceMRN
       (UpdateWebhookEndpoint (he_parse h)
         \<lparr>hu_tenant = c_tenant c, hu_endpoint = u, hu_url = au_url inp, hu_description = au_description inp,
          hu_events = au_events inp, hu_status = au_status inp, hu_timeout = au_timeout inp, hu_attempts = au_attempts inp\<rparr>)
       (\<lambda>e. success_event ''webhook.update'' resourceMRN None None
          [(''status'', JStr (hv_status e)), (''url'', JStr (hv_url e))])))"

definition api_DeleteWebhookEndpoint :: "api_service \<Rightarrow> caller \<Rightarrow> string \<Rightarrow> string \<Rightarrow> unit hook_api" where
  "api_DeleteWebhookEndpoint s c project raw =
     bindM (inApi (checked (WebhookEndpointRef_Validate (ap_parse_uuid s) project raw))) (\<lambda>_.
     hook_uuid s raw (\<lambda>u.
     let resourceMRN = caller_mrn c project (WebhookResourcePath u) in
     hook_operation s c ''secret:ManageRotation'' ''webhook.delete'' resourceMRN
       (DeleteWebhookEndpoint (c_tenant c) u) (\<lambda>_. success_event ''webhook.delete'' resourceMRN None None [])))"

definition api_ListWebhookDeliveries ::
    "api_service \<Rightarrow> caller \<Rightarrow> string \<Rightarrow> string \<Rightarrow> pagination \<Rightarrow> (delivery_view list \<times> nat) hook_api" where
  "api_ListWebhookDeliveries s c project raw p =
     bindM (inApi (checked (ListWebhookDeliveriesInput_Validate (ap_limits s) (ap_parse_uuid s) project raw p))) (\<lambda>_.
     hook_uuid s raw (\<lambda>u.
     case resolved_page (ap_limits s) p of (page, limit) \<Rightarrow>
     let resourceMRN = caller_mrn c project (WebhookResourcePath u) in
     hook_operation s c ''secret:ReadMetadata'' ''secret.read'' resourceMRN (ListWebhookDeliveries (c_tenant c) u page limit)
       (\<lambda>(ds, total). success_event ''secret.read'' resourceMRN None None
          [(''deliveries'', JNum (int (length ds))), (''total'', JNum (int total))])))"

end
