(* ===== verification/HookLaws.thy ===== *)
theory HookLaws
  imports HookNotify ApiHooks
begin

text \<open>
  The laws of the delivery queue: what a notification and a pass of the re-drive worker may do to the
  delivery log, as predicates that the single statements keep and the loops inherit.
\<close>

section \<open>Computations on the tables\<close>

definition on_hooks :: "(hooks \<Rightarrow> bool) \<Rightarrow> wire \<Rightarrow> bool" where
  "on_hooks P w \<longleftrightarrow> P (wr_hooks w)"

lemma keeps_inHooks [keeps_rules]: "keeps P m \<Longrightarrow> keeps (on_hooks P) (inHooks net m)"
  by (fastforce simp: keeps_def inHooks_def on_hooks_def split: prod.splits)

lemma keeps_ctx_done [keeps_rules]: "keeps P (ctx_done net)"
  by (simp add: keeps_def ctx_done_def)

lemma keeps_post [keeps_rules]: "keeps (on_hooks P) (post_request net req)"
  by (auto simp: keeps_def post_request_def on_hooks_def split: option.splits)

lemma pure_hook_reads [pure_rules]: "pure_op (hook_one f)" "pure_op (hook_many g)" "pure_op (hook_page l n f)"
  by (auto simp: pure_op_def hook_one_def hook_many_def hook_page_def)

lemma pure_hook_one [pure_rules]: "pure_op (q_one f)"
  by (auto simp: pure_op_def q_one_def)

lemma pure_tenant_reads [pure_rules]: "pure_op (GetTenantByUUID u)" "pure_op (GetProjectBySlug tid slug)" "pure_op (GetTenantByID i)"
  "pure_op (TenantName u)"
  unfolding GetTenantByUUID_def GetProjectBySlug_def GetTenantByID_def TenantName_def GetTenantByUUID_def
  by (intro pure_rules)+

lemma pure_inDb [pure_rules]: "pure_op m \<Longrightarrow> pure_op (inDb m)"
  by (auto simp: pure_op_def inDb_def split: prod.splits)

lemma pure_case_prod [pure_rules]: "(\<And>x y. pure_op (k x y)) \<Longrightarrow> pure_op (case p of (x, y) \<Rightarrow> k x y)"
  by (cases p) simp

lemma pure_hook_ops [pure_rules]: "pure_op (hook_project u p)" "pure_op (SignedEndpointsForProject svc u p)"
  "pure_op (SignedEndpointByID svc i)" "pure_op CountDeliveriesAwaitingRedrive"
  unfolding hook_project_def SignedEndpointsForProject_def SignedEndpointByID_def ListActiveWebhookEndpointsByProject_def
    GetSignedWebhookEndpointByID_def CountDeliveriesAwaitingRedrive_def CountWebhookDeliveriesAwaitingRedrive_def
  by (intro pure_rules)+

lemma keeps_hook_reads [keeps_rules]: "keeps (on_hooks P) (inHooks net (SignedEndpointsForProject svc u p))"
  "keeps (on_hooks P) (inHooks net (SignedEndpointByID svc i))" "keeps (on_hooks P) (inHooks net CountDeliveriesAwaitingRedrive)"
  "keeps (on_hooks P) (inHooks net (inDb (TenantName u)))"
  by (intro keeps_rules pure_keeps pure_rules)+

section \<open>One delivery at a time\<close>

text \<open>A predicate of the tables that only looks at deliveries outside a set of ids, and not at the endpoints.\<close>

definition outside :: "nat set \<Rightarrow> (hooks \<Rightarrow> bool) \<Rightarrow> bool" where
  "outside S P \<longleftrightarrow> (\<forall>w w'. hk_db w' = hk_db w \<longrightarrow>
     filter (\<lambda>d. wd_id d \<notin> S) (hk_deliveries w') = filter (\<lambda>d. wd_id d \<notin> S) (hk_deliveries w) \<longrightarrow> P w \<longrightarrow> P w')"

lemma outsideD: "outside S P \<Longrightarrow> P w \<Longrightarrow> hk_db w' = hk_db w \<Longrightarrow>
    filter (\<lambda>d. wd_id d \<notin> S) (hk_deliveries w') = filter (\<lambda>d. wd_id d \<notin> S) (hk_deliveries w) \<Longrightarrow> P w'"
  unfolding outside_def by blast

lemma filter_updating:
  "(\<And>x. P x \<Longrightarrow> \<not> Q x \<and> \<not> Q (f x)) \<Longrightarrow> filter Q (updating P f xs) = filter Q xs"
  by (induction xs) (auto simp: updating_def)

lemma keeps_update_deliveries:
  assumes "outside S P" "\<And>d. A d \<Longrightarrow> wd_id d \<in> S" "\<And>d. wd_id (f d) = wd_id d"
  shows "keeps P (update_deliveries A f)"
  using assms by (auto simp: keeps_def update_deliveries_def Let_def filter_updating elim!: outsideD split: option.splits)

lemma keeps_touch [keeps_rules]: "outside S P \<Longrightarrow> keeps P (TouchWebhookEndpoint i)"
  unfolding TouchWebhookEndpoint_def TouchWebhookEndpointRow_def Let_def
  by (intro keeps_rules) (auto simp: keeps_def elim!: outsideD)

lemma keeps_outcomes [keeps_rules]:
  assumes "outside S P" "i \<in> S"
  shows "keeps P (RecordRedriveOutcome i st r e n)" "keeps P (AbandonDelivery i why)" "keeps P (FinishWebhookDelivery i k st r e n)"
  unfolding RecordRedriveOutcome_def RecordWebhookRedriveOutcome_def AbandonDelivery_def AbandonWebhookDelivery_def
    FinishWebhookDelivery_def FinishWebhookDeliveryRow_def
  by ((intro keeps_rules keeps_update_deliveries [OF assms(1)]; use assms(2) in \<open>auto split: list.splits\<close>)+)

section \<open>The queue\<close>

definition hoare :: "('s \<Rightarrow> bool) \<Rightarrow> ('s, 'e, 'a) comp \<Rightarrow> ('s \<Rightarrow> bool) \<Rightarrow> bool" where
  "hoare P m Q \<longleftrightarrow> (\<forall>s r t. m s = (r, t) \<longrightarrow> P s \<longrightarrow> Q t)"

lemma hoareD: "hoare P m Q \<Longrightarrow> m s = (r, t) \<Longrightarrow> P s \<Longrightarrow> Q t"
  by (simp add: hoare_def)

lemma hoare_keeps: "keeps P m \<Longrightarrow> (\<And>s. P s \<Longrightarrow> Q s) \<Longrightarrow> hoare P m Q"
  unfolding hoare_def keeps_def by blast

lemma hoare_first: "keeps P m \<Longrightarrow> (\<And>s. P s \<Longrightarrow> Q s) \<Longrightarrow> (\<And>x. hoare P (k x) Q) \<Longrightarrow> hoare P (bindM m k) Q"
  unfolding hoare_def keeps_def bindM_def by (fastforce split: prod.splits sum.splits)

lemma hoare_then: "hoare P m Q \<Longrightarrow> (\<And>x. keeps Q (k x)) \<Longrightarrow> hoare P (bindM m k) Q"
  unfolding hoare_def keeps_def bindM_def by (fastforce split: prod.splits sum.splits)

lemma hoare_maps: "hoare P m Q \<Longrightarrow> hoare P (tryM m) Q" "hoare P m Q \<Longrightarrow> hoare P (mapErr f m) Q"
  unfolding hoare_def tryM_def mapErr_def by (fastforce split: prod.splits sum.splits)+

lemma hoare_inHooks: "hoare P m Q \<Longrightarrow> (\<And>s. P s \<Longrightarrow> Q s) \<Longrightarrow> hoare (on_hooks P) (inHooks net m) (on_hooks Q)"
  unfolding hoare_def inHooks_def on_hooks_def by (fastforce split: prod.splits if_splits)

lemma hoare_conj: "hoare P m Q \<Longrightarrow> hoare P' m Q' \<Longrightarrow> hoare (\<lambda>s. P s \<and> P' s) m (\<lambda>s. Q s \<and> Q' s)"
  unfolding hoare_def by blast

lemma hoare_weaken: "hoare P m Q \<Longrightarrow> (\<And>s. P' s \<Longrightarrow> P s) \<Longrightarrow> (\<And>s. Q s \<Longrightarrow> Q' s) \<Longrightarrow> hoare P' m Q'"
  unfolding hoare_def by blast

text \<open>
  A consistent queue for a durable budget \<open>A\<close>: ids are distinct and below the sequence, exactly the rows
  that wait have a schedule, and a row that still waits or is being attempted has budget left.
\<close>

definition delivery_ok :: "int \<Rightarrow> delivery \<Rightarrow> bool" where
  "delivery_ok A d \<longleftrightarrow> wd_status d \<in> {''pending'', ''success'', ''retrying'', ''failed''} \<and>
     (wd_next d \<noteq> None \<longleftrightarrow> wd_status d = ''retrying'') \<and> 0 \<le> wd_redrives d \<and> wd_redrives d \<le> A \<and>
     (wd_status d \<in> {''pending'', ''retrying''} \<longrightarrow> wd_redrives d < A)"

definition queue_ok :: "int \<Rightarrow> hooks \<Rightarrow> bool" where
  "queue_ok A h \<longleftrightarrow> distinct (map wd_id (hk_deliveries h)) \<and>
     (\<forall>d \<in> set (hk_deliveries h). wd_id d < seq (hk_db h) \<and> delivery_ok A d)"

text \<open>The row of a claimed delivery as the claim returned it.\<close>

definition ready :: "redrive_delivery \<Rightarrow> hooks \<Rightarrow> bool" where
  "ready d h \<longleftrightarrow> (\<forall>x \<in> set (hk_deliveries h). wd_id x = rd_id d \<longrightarrow> wd_status x = ''retrying'' \<and> wd_redrives x = rd_redrives d)"

lemma outside_same_rows:
  "filter (\<lambda>d. wd_id d \<notin> S) ds' = filter (\<lambda>d. wd_id d \<notin> S) ds \<Longrightarrow> wd_id d \<notin> S \<Longrightarrow> d \<in> set ds' \<longleftrightarrow> d \<in> set ds"
  by (drule arg_cong [of _ _ set]) auto

lemma outside_ready: "rd_id d \<notin> S \<Longrightarrow> outside S (ready d)"
  unfolding ready_def outside_def using outside_same_rows by metis

lemma outside_member: "wd_id d \<notin> S \<Longrightarrow> outside S (\<lambda>h. d \<in> set (hk_deliveries h))"
  unfolding outside_def using outside_same_rows by metis

lemma queue_ok_update:
  assumes "queue_ok A h" "\<And>d. d \<in> set (hk_deliveries h) \<Longrightarrow> B d \<Longrightarrow> wd_id (f d) = wd_id d \<and> delivery_ok A (f d)"
  shows "queue_ok A (h\<lparr>hk_deliveries := updating B f (hk_deliveries h)\<rparr>)"
  using assms by (auto simp: queue_ok_def updating_set updating_map split: if_splits)

lemma hoare_update:
  assumes "\<And>h d. P h \<Longrightarrow> queue_ok A h" "\<And>d. wd_id (f d) = wd_id d"
    "\<And>h d. P h \<Longrightarrow> d \<in> set (hk_deliveries h) \<Longrightarrow> B d \<Longrightarrow> delivery_ok A (f d)"
  shows "hoare P (update_deliveries B f) (queue_ok A)"
  using assms by (auto simp: hoare_def update_deliveries_def Let_def intro!: queue_ok_update split: option.splits)

lemma keeps_queue_touch [keeps_rules]: "keeps (queue_ok A) (TouchWebhookEndpoint i)"
  unfolding TouchWebhookEndpoint_def TouchWebhookEndpointRow_def Let_def
  by (intro keeps_rules) (auto simp: keeps_def queue_ok_def)

lemma hoare_outcome:
  assumes "n \<noteq> None \<longleftrightarrow> st = ''retrying''" "st \<in> {''success'', ''failed'', ''retrying''}"
    and "st = ''retrying'' \<Longrightarrow> \<forall>x. 0 \<le> x \<longrightarrow> x < A \<longrightarrow> x = rd_redrives d \<longrightarrow> x + 1 < A"
  shows "hoare (\<lambda>h. queue_ok A h \<and> ready d h) (RecordRedriveOutcome (rd_id d) st r e n) (queue_ok A)"
  unfolding RecordRedriveOutcome_def RecordWebhookRedriveOutcome_def
  by (rule hoare_then, rule hoare_maps, rule hoare_then, rule hoare_update)
     (use assms in \<open>auto simp: queue_ok_def ready_def delivery_ok_def\<close>)

lemma hoare_abandon:
  "hoare (\<lambda>h. queue_ok A h \<and> ready d h) (AbandonDelivery (rd_id d) why) (queue_ok A)"
  unfolding AbandonDelivery_def AbandonWebhookDelivery_def
  by (rule hoare_then, rule hoare_maps, rule hoare_then, rule hoare_update)
     (auto simp: queue_ok_def ready_def delivery_ok_def)

section \<open>A pass of the worker\<close>

lemma spent_below:
  assumes "1 \<le> A" "A < 2 ^ 31" "\<not> A \<le> int32 (rd_redrives d + 1)"
  shows "\<forall>x. 0 \<le> x \<longrightarrow> x < A \<longrightarrow> x = rd_redrives d \<longrightarrow> x + 1 < A"
  using assms by (auto simp: int32_id)

lemma hoare_sum: "(\<And>e. hoare P (h e) Q) \<Longrightarrow> (\<And>x. hoare P (k x) Q) \<Longrightarrow> hoare P (case a of Inl e \<Rightarrow> h e | Inr x \<Rightarrow> k x) Q"
  by (cases a) auto

lemma hoare_if: "(b \<Longrightarrow> hoare P m Q) \<Longrightarrow> (\<not> b \<Longrightarrow> hoare P n Q) \<Longrightarrow> hoare P (if b then m else n) Q"
  by simp

lemma hoare_prod: "(\<And>x y. hoare P (k x y) Q) \<Longrightarrow> hoare P (case p of (x, y) \<Rightarrow> k x y) Q"
  by (cases p) auto

lemma hoare_option: "hoare P m Q \<Longrightarrow> (\<And>x. hoare P (k x) Q) \<Longrightarrow> hoare P (case a of None \<Rightarrow> m | Some x \<Rightarrow> k x) Q"
  by (cases a) auto

lemma keeps_redrive_post [keeps_rules]: "keeps (on_hooks P) (redrive_post svc net opts e d)"
  unfolding redrive_post_def Let_def by (intro keeps_rules)

lemma keeps_attemptOne:
  assumes "outside S P" "rd_id d \<in> S"
  shows "keeps (on_hooks P) (attemptOne svc net opts d)"
  unfolding attemptOne_def Let_def
  by (intro keeps_rules keeps_touch [OF assms(1)] keeps_outcomes [OF assms])

lemma hoare_attemptOne:
  assumes A: "1 \<le> ro_attempts opts" "ro_attempts opts < 2 ^ 31"
  shows "hoare (on_hooks (\<lambda>h. queue_ok (ro_attempts opts) h \<and> ready d h)) (attemptOne svc net opts d)
    (on_hooks (queue_ok (ro_attempts opts)))"
  unfolding attemptOne_def Let_def
proof (rule hoare_first, intro keeps_rules, (simp add: on_hooks_def; fail), rule hoare_sum, rule hoare_if, goal_cases)
  case (1 x e)
  show ?case
    by (rule hoare_then, rule hoare_maps, rule hoare_inHooks, rule hoare_abandon) (auto intro: keeps_rules)
next
  case (2 x e)
  show ?case by (rule hoare_keeps) (auto intro: keeps_rules simp: on_hooks_def)
next
  case (3 x e)
  show ?case
  proof (rule hoare_first, intro keeps_rules, (simp add: on_hooks_def; fail), rule hoare_prod, rule hoare_option, goal_cases)
    case (1 y a b)
    show ?case
      by (rule hoare_then, rule hoare_maps, rule hoare_inHooks, rule hoare_outcome)
        (auto intro!: keeps_rules keeps_queue_touch)
  next
    case (2 y a b x)
    show ?case
    proof (rule hoare_if, goal_cases)
      case 1
      show ?case
        by (rule hoare_then, rule hoare_maps, rule hoare_inHooks, rule hoare_outcome) (auto intro!: keeps_rules)
    next
      case 2
      show ?case
        by (rule hoare_then, rule hoare_maps, rule hoare_inHooks, rule hoare_outcome)
          (use spent_below [OF A 2] in \<open>auto intro!: keeps_rules\<close>)
    qed
  qed
qed

lemma keeps_redrive_loop:
  assumes "outside S P" "rd_id ` set ds \<subseteq> S"
  shows "keeps (on_hooks P) (redrive_loop svc net opts ds)"
  using assms(2) by (induction ds) (auto intro!: keeps_rules keeps_attemptOne [OF assms(1)])

lemma hoare_redrive_loop:
  assumes "1 \<le> ro_attempts opts" "ro_attempts opts < 2 ^ 31" "distinct (map rd_id ds)"
  shows "hoare (on_hooks (\<lambda>h. queue_ok (ro_attempts opts) h \<and> (\<forall>d \<in> set ds. ready d h))) (redrive_loop svc net opts ds)
    (on_hooks (queue_ok (ro_attempts opts)))"
  using assms(3)
proof (induction ds)
  case Nil
  show ?case by (auto intro: hoare_keeps keeps_rules simp: on_hooks_def)
next
  case (Cons d ds)
  let ?Q = "on_hooks (\<lambda>h. queue_ok (ro_attempts opts) h \<and> (\<forall>d \<in> set ds. ready d h))"
  let ?P = "on_hooks (\<lambda>h. queue_ok (ro_attempts opts) h \<and> (\<forall>x \<in> set (d # ds). ready x h))"
  have one: "hoare ?P (attemptOne svc net opts d) ?Q"
  proof -
    have "keeps (on_hooks (\<lambda>h. \<forall>x \<in> set ds. ready x h)) (attemptOne svc net opts d)"
    proof (rule keeps_attemptOne [where S = "{rd_id d}"])
      show "outside {rd_id d} (\<lambda>h. \<forall>x \<in> set ds. ready x h)"
        unfolding outside_def
      proof (intro allI impI ballI)
        fix w w' :: hooks and x
        assume e: "hk_db w' = hk_db w"
          "filter (\<lambda>da. wd_id da \<notin> {rd_id d}) (hk_deliveries w') = filter (\<lambda>da. wd_id da \<notin> {rd_id d}) (hk_deliveries w)"
          "\<forall>x \<in> set ds. ready x w" "x \<in> set ds"
        then have "rd_id x \<in> rd_id ` set ds" by simp
        with Cons.prems have "rd_id x \<notin> {rd_id d}" by auto
        from outsideD [OF outside_ready [OF this]] e show "ready x w'" by blast
      qed
    qed simp
    then have "hoare (on_hooks (\<lambda>h. \<forall>x \<in> set ds. ready x h)) (attemptOne svc net opts d) (on_hooks (\<lambda>h. \<forall>x \<in> set ds. ready x h))"
      by (rule hoare_keeps)
    from hoare_conj [OF hoare_attemptOne [OF assms(1,2), of d svc net] this] show ?thesis
      by (rule hoare_weaken) (auto simp: on_hooks_def)
  qed
  have rest: "hoare ?Q (redrive_loop svc net opts ds) (on_hooks (queue_ok (ro_attempts opts)))"
    using Cons by simp
  show ?case
    unfolding redrive_loop.simps
  proof (rule hoare_first, intro keeps_rules, (simp add: on_hooks_def; fail), rule hoare_if, goal_cases)
    case (1 x)
    show ?case by (rule hoare_keeps) (auto intro: keeps_rules simp: on_hooks_def)
  next
    case (2 x)
    show ?case
      unfolding hoare_def
    proof (intro allI impI)
      fix w r t
      assume run: "bindM (attemptOne svc net opts d) (\<lambda>x. bindM (redrive_loop svc net opts ds) (\<lambda>xs. ret (x # xs))) w = (r, t)" and w: "?P w"
      obtain y u where y: "attemptOne svc net opts d w = (y, u)" by (cases "attemptOne svc net opts d w")
      with one w have u: "?Q u" by (auto dest: hoareD)
      obtain z v where z: "redrive_loop svc net opts ds u = (z, v)" by (cases "redrive_loop svc net opts ds u")
      from run y z have "t = u \<or> t = v" by (auto simp: bindM_def ret_def split: sum.splits)
      with u rest z show "on_hooks (queue_ok (ro_attempts opts)) t" by (auto simp: on_hooks_def dest: hoareD)
    qed
  qed
qed

section \<open>The claim\<close>

lemma claimed_rows_run: "\<exists>out. claimed_rows ds h = (Inr out, h) \<and>
    (\<forall>x \<in> set out. \<exists>d \<in> set ds. \<exists>t. t_id t = wd_tenant d \<and> live_tenant t \<and> t \<in> set (tenants (hk_db h)) \<and> x = redrive_of d t) \<and>
    (distinct (map wd_id ds) \<longrightarrow> distinct (map rd_id out)) \<and> rd_id ` set out \<subseteq> wd_id ` set ds"
proof (induction ds)
  case Nil
  show ?case by (simp add: ret_def)
next
  case (Cons d ds)
  then obtain out where out: "claimed_rows ds h = (Inr out, h)" "distinct (map wd_id ds) \<Longrightarrow> distinct (map rd_id out)"
    "\<And>x. x \<in> set out \<Longrightarrow> \<exists>d \<in> set ds. \<exists>t. t_id t = wd_tenant d \<and> live_tenant t \<and> t \<in> set (tenants (hk_db h)) \<and> x = redrive_of d t"
    "rd_id ` set out \<subseteq> wd_id ` set ds" by blast
  obtain r where r: "inDb (GetTenantByID (wd_tenant d)) h = (r, h)"
    "\<And>t. r = Inr t \<Longrightarrow> t_id t = wd_tenant d \<and> live_tenant t \<and> t \<in> set (tenants (hk_db h))"
  proof (cases "filter (\<lambda>t. t_id t = wd_tenant d \<and> live_tenant t) (tenants (hk_db h))")
    case Nil
    then show ?thesis by (intro that [of "Inl NoRows"]) (auto simp: inDb_def GetTenantByID_def q_one_def)
  next
    case (Cons t ts)
    from filter_Cons_in [OF Cons] Cons show ?thesis
      by (intro that [of "Inr t"]) (auto simp: inDb_def GetTenantByID_def q_one_def)
  qed
  show ?case
  proof (cases r)
    case (Inl e)
    with r(1) out show ?thesis by (auto simp: bindM_def tryM_def ret_def intro!: exI [of _ out])
  next
    case (Inr t)
    have "rd_id (redrive_of d t) = wd_id d" by (simp add: redrive_of_def)
    with Inr r out show ?thesis
      by (auto simp: bindM_def tryM_def ret_def intro!: exI [of _ "redrive_of d t # out"])
  qed
qed

lemma distinct_sort_ids: "distinct (map g xs) \<Longrightarrow> distinct (map g (sort_key f xs))"
  by (simp add: distinct_map)

lemma distinct_map_filter_take: "distinct (map g xs) \<Longrightarrow> distinct (map g (take n (sort_key f (filter P xs))))"
  by (metis distinct_map_filter distinct_sort_ids distinct_take take_map)

definition claim_update :: "hooks \<Rightarrow> delivery list \<Rightarrow> int \<Rightarrow> hooks" where
  "claim_update h hit secs = h\<lparr>hk_deliveries := updating (\<lambda>d. wd_id d \<in> wd_id ` set hit)
     (\<lambda>d. d\<lparr>wd_next := Some (db_now (hk_db h) + secs * 1000000000)\<rparr>) (hk_deliveries h)\<rparr>"

lemma due_batch_rows: "d \<in> set (due_batch l h) \<Longrightarrow> d \<in> set (hk_deliveries h) \<and> due_delivery (db_now (hk_db h)) d"
  by (auto simp: due_batch_def dest: in_set_takeD)

lemma Claim_run:
  "ClaimDeliveriesForRedrive l lease h = (r, h') \<Longrightarrow>
     (h' = h \<and> (r = Inr [] \<or> (\<exists>e. r = Inl e))) \<or>
     (\<exists>hit out. hit = due_batch (int32 l) h \<and> r = Inr out \<and> h' = claim_update h hit (lease_seconds lease) \<and>
       rd_id ` set out \<subseteq> wd_id ` set hit \<and>
       (\<forall>x \<in> set out. \<exists>d \<in> set hit. \<exists>t. t_id t = wd_tenant d \<and> live_tenant t \<and> t \<in> set (tenants (hk_db h)) \<and>
          rd_id x = wd_id d \<and> rd_uuid x = wd_uuid d \<and> rd_redrives x = wd_redrives d) \<and>
       (distinct (map wd_id (hk_deliveries h)) \<longrightarrow> distinct (map rd_id out)))"
proof -
  assume run: "ClaimDeliveriesForRedrive l lease h = (r, h')"
  show ?thesis
  proof (cases "l < 1 \<or> int32 l < 0")
    case True
    with run show ?thesis
      by (auto simp: ClaimDeliveriesForRedrive_def ClaimWebhookDeliveriesForRedrive_def ret_def bindM_def mapErr_def split: if_splits)
  next
    case False
    let ?hit = "due_batch (int32 l) h"
    let ?f = "\<lambda>d. d\<lparr>wd_next := Some (db_now (hk_db h) + lease_seconds lease * 1000000000)\<rparr>"
    let ?h = "claim_update h ?hit (lease_seconds lease)"
    obtain out where out: "claimed_rows (map ?f ?hit) ?h = (Inr out, ?h)"
      "\<forall>x \<in> set out. \<exists>d \<in> set (map ?f ?hit). \<exists>t. t_id t = wd_tenant d \<and> live_tenant t \<and> t \<in> set (tenants (hk_db ?h)) \<and> x = redrive_of d t"
      "distinct (map wd_id (map ?f ?hit)) \<longrightarrow> distinct (map rd_id out)" "rd_id ` set out \<subseteq> wd_id ` set (map ?f ?hit)"
      using claimed_rows_run [of "map ?f ?hit" ?h] by blast
    have "h' = ?h" "r = Inr out"
      using run False out(1)
      by (auto simp: ClaimDeliveriesForRedrive_def ClaimWebhookDeliveriesForRedrive_def bindM_def mapErr_def Let_def claim_update_def)
    moreover have "rd_id ` set out \<subseteq> wd_id ` set ?hit" using out(4) by (auto simp: image_image)
    moreover have "\<forall>x \<in> set out. \<exists>d \<in> set ?hit. \<exists>t. t_id t = wd_tenant d \<and> live_tenant t \<and> t \<in> set (tenants (hk_db h)) \<and>
        rd_id x = wd_id d \<and> rd_uuid x = wd_uuid d \<and> rd_redrives x = wd_redrives d"
      using out(2) by (fastforce simp: redrive_of_def claim_update_def)
    moreover have "distinct (map wd_id (hk_deliveries h)) \<longrightarrow> distinct (map rd_id out)"
      using out(3) distinct_map_filter_take [of wd_id "hk_deliveries h"] unfolding due_batch_def by (simp add: comp_def) blast
    ultimately show ?thesis by blast
  qed
qed

lemma Claim_claims:
  assumes "1 \<le> l" "0 \<le> int32 l" "ClaimDeliveriesForRedrive l lease h = (r, h')"
  shows "h' = claim_update h (due_batch (int32 l) h) (lease_seconds lease) \<and> (\<exists>out. r = Inr out)"
proof -
  let ?hit = "due_batch (int32 l) h"
  let ?f = "\<lambda>d. d\<lparr>wd_next := Some (db_now (hk_db h) + lease_seconds lease * 1000000000)\<rparr>"
  obtain out where "claimed_rows (map ?f ?hit) (claim_update h ?hit (lease_seconds lease))
      = (Inr out, claim_update h ?hit (lease_seconds lease))"
    using claimed_rows_run by blast
  with assms show ?thesis
    by (auto simp: ClaimDeliveriesForRedrive_def ClaimWebhookDeliveriesForRedrive_def bindM_def mapErr_def Let_def claim_update_def)
qed

section \<open>A whole pass\<close>

text \<open>The pass as one claim, then the loop over what it claimed and a read.\<close>

lemma Tick_run:
  assumes "Tick svc net opts w = (r, w')"
  shows "w' = w \<and> (ro_enabled opts \<longrightarrow> nt_done net (wr_sent w)) \<or> (\<exists>ds h. ro_enabled opts \<and> ClaimDeliveriesForRedrive (ro_batch opts) (ro_lease opts) (wr_hooks w) = (Inr ds, h) \<and>
     (w' = w\<lparr>wr_hooks := h\<rparr> \<or> (\<exists>x. redrive_loop svc net opts ds (w\<lparr>wr_hooks := h\<rparr>) = (x, w')))) \<or>
    (\<exists>e h. ClaimDeliveriesForRedrive (ro_batch opts) (ro_lease opts) (wr_hooks w) = (Inl e, h) \<and> w' = w\<lparr>wr_hooks := h\<rparr>)"
proof (cases "\<not> ro_enabled opts \<or> nt_done net (wr_sent w)")
  case True
  with assms show ?thesis by (auto simp: Tick_def bindM_def ctx_done_def ret_def)
next
  case False
  obtain c h where c: "ClaimDeliveriesForRedrive (ro_batch opts) (ro_lease opts) (wr_hooks w) = (c, h)"
    by (cases "ClaimDeliveriesForRedrive (ro_batch opts) (ro_lease opts) (wr_hooks w)")
  have count: "snd (inHooks net CountDeliveriesAwaitingRedrive v) = v" for v
    by (auto simp: inHooks_def CountDeliveriesAwaitingRedrive_def CountWebhookDeliveriesAwaitingRedrive_def hook_many_def mapErr_def)
  show ?thesis
  proof (cases c)
    case (Inl e)
    with assms False c show ?thesis by (auto simp: Tick_def bindM_def ctx_done_def inHooks_def)
  next
    case (Inr ds)
    obtain x v where loop: "redrive_loop svc net opts ds (w\<lparr>wr_hooks := h\<rparr>) = (x, v)"
      by (cases "redrive_loop svc net opts ds (w\<lparr>wr_hooks := h\<rparr>)")
    have "w' = w\<lparr>wr_hooks := h\<rparr> \<or> w' = v"
      using assms False c Inr loop count [of v]
      by (cases "inHooks net CountDeliveriesAwaitingRedrive v")
        (auto simp: Tick_def bindM_def ctx_done_def inHooks_def [of net "ClaimDeliveriesForRedrive _ _"] tryM_def ret_def split: sum.splits if_splits)
    with False c Inr loop show ?thesis by auto
  qed
qed

lemma Claim_ready:
  assumes "queue_ok A h" "ClaimDeliveriesForRedrive l lease h = (Inr ds, h')"
  shows "queue_ok A h' \<and> (\<forall>d \<in> set ds. ready d h') \<and> distinct (map rd_id ds)
    \<and> rd_id ` set ds \<subseteq> wd_id ` set (due_batch (int32 l) h)"
  using Claim_run [OF assms(2)]
proof (elim disjE exE conjE, goal_cases)
  case (3 hit out)
  have ids: "distinct (map wd_id (hk_deliveries h))" using assms(1) by (simp add: queue_ok_def)
  have due: "wd_status d = ''retrying''" if "d \<in> set (hk_deliveries h)" "wd_id d \<in> wd_id ` set hit" for d
    using that ids due_batch_rows [of _ "int32 l" h] 3(1)
    by (metis (no_types, lifting) due_delivery_def eq_key_imp_eq_value image_iff inj_on_contraD distinct_map)
  have "queue_ok A h'"
    unfolding 3(3) claim_update_def
    by (rule queue_ok_update [OF assms(1)]) (use assms(1) due in \<open>auto simp: queue_ok_def delivery_ok_def\<close>)
  moreover have "ready x h'" if x: "x \<in> set ds" for x
  proof -
    from 3 x obtain d where d: "d \<in> set hit" "rd_id x = wd_id d" "rd_redrives x = wd_redrives d" by fastforce
    then have "d \<in> set (hk_deliveries h)" using due_batch_rows 3(1) by blast
    with ids have same: "y = d" if "y \<in> set (hk_deliveries h)" "wd_id y = wd_id d" for y
      using that by (auto simp: distinct_map dest: inj_onD)
    show ?thesis
      unfolding ready_def 3(3) claim_update_def
    proof (intro ballI impI)
      fix z
      assume z: "z \<in> set (hk_deliveries (h\<lparr>hk_deliveries := updating (\<lambda>d. wd_id d \<in> wd_id ` set hit)
        (\<lambda>d. d\<lparr>wd_next := Some (db_now (hk_db h) + lease_seconds lease * 1000000000)\<rparr>) (hk_deliveries h)\<rparr>))"
        and "wd_id z = rd_id x"
      then obtain y where "y \<in> set (hk_deliveries h)" "wd_id y = wd_id d" "wd_status z = wd_status y" "wd_redrives z = wd_redrives y"
        using d(2) by (auto simp: updating_set split: if_splits)
      with same [OF this(1,2)] due [of d] d show "wd_status z = ''retrying'' \<and> wd_redrives z = rd_redrives x" by auto
    qed
  qed
  ultimately show ?case using 3 ids by auto
qed (use assms(1) in auto)

lemma Tick_queue_ok:
  assumes "1 \<le> ro_attempts opts" "ro_attempts opts < 2 ^ 31" "queue_ok (ro_attempts opts) (wr_hooks w)"
    "Tick svc net opts w = (r, w')"
  shows "queue_ok (ro_attempts opts) (wr_hooks w')"
  using Tick_run [OF assms(4)]
proof (elim disjE exE conjE, goal_cases)
  case (2 ds h)
  with Claim_ready [OF assms(3)] show ?case by simp
next
  case (3 ds h x)
  with Claim_ready [OF assms(3) 3(2)] hoare_redrive_loop [OF assms(1,2), of ds svc net] show ?case
    by (auto simp: on_hooks_def dest: hoareD)
next
  case (4 e h)
  with Claim_run [OF 4(1)] assms(3) show ?case by auto
qed (use assms(3) in simp)

text \<open>A pass leaves the rows it does not claim as they are.\<close>

lemma claim_outside:
  "outside (wd_id ` set hit) P \<Longrightarrow> P h \<Longrightarrow> P (claim_update h hit secs)"
  by (erule outsideD) (auto simp: claim_update_def filter_updating)

lemma Tick_outside:
  assumes "outside (wd_id ` set (due_batch (int32 (ro_batch opts)) (wr_hooks w))) P" "P (wr_hooks w)" "Tick svc net opts w = (r, w')"
  shows "P (wr_hooks w')"
  using Tick_run [OF assms(3)]
proof (elim disjE exE conjE, goal_cases)
  case (2 ds h)
  with Claim_run [OF 2(2)] assms(2) claim_outside [OF assms(1,2)] show ?case by auto
next
  case (3 ds h x)
  from Claim_run [OF 3(2)] assms(2) claim_outside [OF assms(1,2)]
  have "P h" "rd_id ` set ds \<subseteq> wd_id ` set (due_batch (int32 (ro_batch opts)) (wr_hooks w))" by auto
  with 3(3) keeps_redrive_loop [OF assms(1), of ds svc net opts] show ?case by (auto simp: keeps_def on_hooks_def)
next
  case (4 e h)
  with Claim_run [OF 4(1)] assms(2) show ?case by auto
qed (use assms(2) in simp)

lemma Tick_keeps_row:
  assumes "distinct (map wd_id (hk_deliveries (wr_hooks w)))" "d \<in> set (hk_deliveries (wr_hooks w))"
    "\<not> due_delivery (db_now (hk_db (wr_hooks w))) d" "Tick svc net opts w = (r, w')"
  shows "d \<in> set (hk_deliveries (wr_hooks w'))"
proof (rule Tick_outside [OF outside_member assms(2,4)], rule)
  assume "wd_id d \<in> wd_id ` set (due_batch (int32 (ro_batch opts)) (wr_hooks w))"
  then obtain e where "e \<in> set (due_batch (int32 (ro_batch opts)) (wr_hooks w))" "wd_id e = wd_id d" by auto
  with due_batch_rows have "e \<in> set (hk_deliveries (wr_hooks w))" "due_delivery (db_now (hk_db (wr_hooks w))) e" by blast+
  with assms(1-3) \<open>wd_id e = wd_id d\<close> show False by (auto simp: distinct_map dest: inj_onD)
qed

section \<open>A notification\<close>

lemma Create_delivery_run:
  assumes "CreateWebhookDelivery eid tid ev m ver p h = (r, h')"
  shows "(h' = h \<and> (\<exists>e. r = Inl e)) \<or> (\<exists>row. r = Inr row \<and> wd_id row = seq (hk_db h) \<and>
    wd_status row = ''pending'' \<and> wd_next row = None \<and> wd_redrives row = 0 \<and> wd_payload row = p \<and> wd_endpoint row = eid \<and>
    h' = h\<lparr>hk_deliveries := hk_deliveries h @ [row], hk_db := (hk_db h)\<lparr>seq := Suc (seq (hk_db h))\<rparr>\<rparr>)"
  using assms unfolding CreateWebhookDelivery_def Let_def by (auto split: if_splits)

lemma Open_run:
  assumes "OpenWebhookDelivery tu eid ev m ver p h = (r, h')"
  shows "(h' = h \<and> (\<exists>e. r = Inl e)) \<or> (\<exists>row. r = Inr (wd_id row, wd_uuid row) \<and> wd_id row = seq (hk_db h) \<and>
    wd_status row = ''pending'' \<and> wd_next row = None \<and> wd_redrives row = 0 \<and> wd_payload row = p \<and> wd_endpoint row = eid \<and>
    h' = h\<lparr>hk_deliveries := hk_deliveries h @ [row], hk_db := (hk_db h)\<lparr>seq := Suc (seq (hk_db h))\<rparr>\<rparr>)"
proof -
  obtain t where t: "inDb (mapErr (mapReadError ''tenant'') (GetTenantByUUID tu)) h = (t, h)"
    using pure_run [OF pure_inDb [OF pure_mapErr [OF pure_tenant_reads(1)]]] by (metis surj_pair)
  show ?thesis
  proof (cases t)
    case (Inl e)
    with assms t show ?thesis by (auto simp: OpenWebhookDelivery_def bindM_def)
  next
    case (Inr tn)
    obtain c h1 where c: "CreateWebhookDelivery eid (t_id tn) ev m ver p h = (c, h1)"
      by (cases "CreateWebhookDelivery eid (t_id tn) ev m ver p h")
    with assms t Inr have "h' = h1" "r = (case c of Inl e \<Rightarrow> Inl (InternalError ''record webhook delivery'' (DbCause e))
        | Inr row \<Rightarrow> Inr (wd_id row, wd_uuid row))"
      by (auto simp: OpenWebhookDelivery_def bindM_def mapErr_def [of "\<lambda>e. InternalError _ (DbCause e)"] ret_def split: sum.splits)
    with Create_delivery_run [OF c] show ?thesis
    proof (elim disjE exE conjE, goal_cases)
      case (2 row)
      then show ?case by (intro disjI2 exI [of _ row]) simp
    qed simp
  qed
qed

lemma keeps_attempt_loop [keeps_rules]:
  "keeps (on_hooks P) (attempt_loop svc net opts e p body du left k ls le)"
proof (induction left arbitrary: k ls le)
  case (Suc left)
  show ?case
    unfolding attempt_loop.simps attempt_post_def Let_def by (intro keeps_rules Suc.IH)
qed (simp add: keeps_rules)

text \<open>What follows the opening of a delivery, for the row it opened.\<close>

definition delivered :: "service \<Rightarrow> network \<Rightarrow> notify_options \<Rightarrow> signed_endpoint \<Rightarrow> payload \<Rightarrow> bytes \<Rightarrow> nat \<Rightarrow> uuid \<Rightarrow>
    (apperr, unit) wire_comp" where
  "delivered svc net opts e p body did du =
     (let maxAttempts = inline_budget opts (sg_attempts e) in
      bindM (attempt_loop svc net opts e p body du (nat maxAttempts) 1 None None) (\<lambda>r.
      case r of
        None \<Rightarrow> ret ()
      | Some (attempt, lastStatus, lastErr) \<Rightarrow>
          let (outcome, failure, nextAt) = (case lastErr of
                None \<Rightarrow> (''success'', [], None)
              | Some x \<Rightarrow> if no_delay opts > 0 then (''retrying'', x, Some (svc_now svc + no_delay opts)) else (''failed'', x, None))
          in bindM (tryM (inHooks net (FinishWebhookDelivery did (min32 attempt maxAttempts) outcome lastStatus failure nextAt))) (\<lambda>f.
             if lastErr = None
             then bindM (tryM (inHooks net (TouchWebhookEndpoint (sg_id e)))) (\<lambda>t. ret (case t :: apperr + unit of _ \<Rightarrow> ()))
             else ret (case f :: apperr + unit of _ \<Rightarrow> ()))))"

lemma deliver_delivered: "deliver svc net opts note e p body =
    bindM (tryM (inHooks net (OpenWebhookDelivery (n_tenant note) (sg_id e) (n_event note) (n_mrn note)
         (Some (n_version note)) (payload_object p)))) (\<lambda>opened.
     case opened :: apperr + nat \<times> uuid of Inl _ \<Rightarrow> ret () | Inr (did, du) \<Rightarrow> delivered svc net opts e p body did du)"
  unfolding deliver_def delivered_def ..

lemma keeps_delivered:
  assumes "outside S P" "did \<in> S"
  shows "keeps (on_hooks P) (delivered svc net opts e p body did du)"
  unfolding delivered_def Let_def
  by (intro keeps_rules keeps_touch [OF assms(1)] keeps_outcomes [OF assms])

definition untried :: "nat \<Rightarrow> hooks \<Rightarrow> bool" where
  "untried did h \<longleftrightarrow> (\<forall>x \<in> set (hk_deliveries h). wd_id x = did \<longrightarrow> wd_redrives x = 0)"

lemma hoare_finish:
  assumes "n \<noteq> None \<longleftrightarrow> st = ''retrying''" "st \<in> {''success'', ''failed'', ''retrying''}" "1 \<le> A"
  shows "hoare (\<lambda>h. queue_ok A h \<and> untried did h) (FinishWebhookDelivery did k st r e n) (queue_ok A)"
  unfolding FinishWebhookDelivery_def FinishWebhookDeliveryRow_def
  by (rule hoare_then, rule hoare_maps, rule hoare_then, rule hoare_update)
     (use assms in \<open>auto simp: queue_ok_def untried_def delivery_ok_def intro!: keeps_rules split: list.splits\<close>)

lemma hoare_delivered:
  assumes "1 \<le> A"
  shows "hoare (on_hooks (\<lambda>h. queue_ok A h \<and> untried did h)) (delivered svc net opts e p body did du) (on_hooks (queue_ok A))"
  unfolding delivered_def Let_def
proof (rule hoare_first, intro keeps_rules, (simp add: on_hooks_def; fail), goal_cases)
  case (1 r)
  show ?case
  proof (cases r)
    case None
    then show ?thesis by (auto intro: hoare_keeps keeps_rules simp: on_hooks_def)
  next
    case (Some q)
    obtain k ls le where q: "q = (k, ls, le)" by (cases q)
    from Some q have r: "r = Some (k, ls, le)" by simp
    show ?thesis
    proof (cases le)
      case None
      show ?thesis
        unfolding r None option.case prod.case if_P [OF refl]
        by (rule hoare_then, rule hoare_maps, rule hoare_inHooks, rule hoare_finish)
          (use assms in \<open>auto intro!: keeps_rules keeps_queue_touch\<close>)
    next
      case (Some x)
      then have le: "le = Some x" .
      show ?thesis
      proof (cases "no_delay opts > 0")
        case True
        show ?thesis
          unfolding r le option.case prod.case if_P [OF True] prod.case
          by (rule hoare_then, rule hoare_maps, rule hoare_inHooks, rule hoare_finish)
            (use assms in \<open>auto intro!: keeps_rules keeps_queue_touch\<close>)
      next
        case False
        show ?thesis
          unfolding r le option.case prod.case if_not_P [OF False] prod.case
          by (rule hoare_then, rule hoare_maps, rule hoare_inHooks, rule hoare_finish)
            (use assms in \<open>auto intro!: keeps_rules keeps_queue_touch\<close>)
      qed
    qed
  qed
qed

lemma queue_ok_open:
  assumes "queue_ok A h" "1 \<le> A" "wd_id row = seq (hk_db h)" "wd_status row = ''pending''" "wd_next row = None" "wd_redrives row = 0"
  shows "queue_ok A (h\<lparr>hk_deliveries := hk_deliveries h @ [row], hk_db := (hk_db h)\<lparr>seq := Suc (seq (hk_db h))\<rparr>\<rparr>)
    \<and> untried (wd_id row) (h\<lparr>hk_deliveries := hk_deliveries h @ [row], hk_db := (hk_db h)\<lparr>seq := Suc (seq (hk_db h))\<rparr>\<rparr>)"
  using assms by (fastforce simp: queue_ok_def untried_def delivery_ok_def)

lemma keeps_deliver:
  assumes "1 \<le> A"
  shows "keeps (on_hooks (\<lambda>h. queue_ok A h \<and> D \<subseteq> set (hk_deliveries h))) (deliver svc net opts note e p body)"
  unfolding keeps_def
proof (intro allI impI)
  fix w r w'
  assume run: "deliver svc net opts note e p body w = (r, w')"
    and w: "on_hooks (\<lambda>h. queue_ok A h \<and> D \<subseteq> set (hk_deliveries h)) w"
  obtain o1 h1 where o1: "OpenWebhookDelivery (n_tenant note) (sg_id e) (n_event note) (n_mrn note) (Some (n_version note))
      (payload_object p) (wr_hooks w) = (o1, h1)"
    by (cases "OpenWebhookDelivery (n_tenant note) (sg_id e) (n_event note) (n_mrn note) (Some (n_version note))
      (payload_object p) (wr_hooks w)")
  show "on_hooks (\<lambda>h. queue_ok A h \<and> D \<subseteq> set (hk_deliveries h)) w'"
  proof (cases "nt_done net (wr_sent w)")
    case True
    with run w show ?thesis by (auto simp: deliver_delivered bindM_def tryM_def inHooks_def ret_def)
  next
    case False
    from Open_run [OF o1] show ?thesis
    proof (elim disjE exE conjE, goal_cases)
      case (1 x)
      with run o1 w False show ?case by (auto simp: deliver_delivered bindM_def tryM_def inHooks_def ret_def)
    next
      case (2 row)
      let ?w = "w\<lparr>wr_hooks := h1\<rparr>"
      have run': "delivered svc net opts e p body (wd_id row) (wd_uuid row) ?w = (r, w')"
        using run o1 2(1) False by (simp add: deliver_delivered bindM_def tryM_def inHooks_def)
      have ok: "on_hooks (\<lambda>h. queue_ok A h \<and> untried (wd_id row) h) ?w"
        using queue_ok_open [of A "wr_hooks w" row] 2 w assms by (simp add: on_hooks_def)
      have D: "on_hooks (\<lambda>h. D \<subseteq> set (hk_deliveries h)) ?w" using w 2 by (auto simp: on_hooks_def)
      have "outside {wd_id row} (\<lambda>h. d \<in> set (hk_deliveries h))" if "d \<in> D" for d
      proof (rule outside_member)
        have "d \<in> set (hk_deliveries (wr_hooks w))" using w that by (auto simp: on_hooks_def)
        with w 2(2) show "wd_id d \<notin> {wd_id row}" by (auto simp: on_hooks_def queue_ok_def)
      qed
      then have "outside {wd_id row} (\<lambda>h. D \<subseteq> set (hk_deliveries h))"
        unfolding outside_def subset_iff by blast
      then have "keeps (on_hooks (\<lambda>h. D \<subseteq> set (hk_deliveries h)))
          (delivered svc net opts e p body (wd_id row) (wd_uuid row))"
        by (rule keeps_delivered) simp
      with D run' have "on_hooks (\<lambda>h. D \<subseteq> set (hk_deliveries h)) w'" by (auto dest: keepsD)
      moreover have "on_hooks (queue_ok A) w'" using hoareD [OF hoare_delivered [OF assms] run' ok] .
      ultimately show ?case by (simp add: on_hooks_def)
    qed
  qed
qed

lemma keeps_Notify:
  assumes "1 \<le> A"
  shows "keeps (on_hooks (\<lambda>h. queue_ok A h \<and> D \<subseteq> set (hk_deliveries h))) (Notify svc net opts pid note)"
proof -
  have "keeps (on_hooks (\<lambda>h. queue_ok A h \<and> D \<subseteq> set (hk_deliveries h))) (deliver_all svc net opts note p body es)" for p body es
    by (induction es) (auto intro!: keeps_rules keeps_deliver [OF assms])
  then show ?thesis unfolding Notify_def Let_def by (intro keeps_rules)
qed

end
