(* ===== verification/HookProps.thy ===== *)
theory HookProps
  imports HookLaws SecretProps
begin

text \<open>
  The properties of webhooks: the queue stays consistent and settled deliveries stay settled over any
  run of notifications and worker passes, claims do not overlap, what the
  dialer connects to, and three places where the code does less than it says.
\<close>

section \<open>Runs\<close>

text \<open>
  \<open>Elsewhere\<close> is anything else that happens to the database and the endpoints between two of these calls, the
  clock included; the sequences do not run backwards.
\<close>

datatype hook_step =
    NotifyStep service network notify_options string notification
  | TickStep service network redrive_options
  | Elsewhere "db \<Rightarrow> db" "endpoint list \<Rightarrow> endpoint list"

fun hook_run :: "hook_step list \<Rightarrow> wire \<Rightarrow> wire" where
  "hook_run [] w = w"
| "hook_run (NotifyStep svc net opts pid note # xs) w = hook_run xs (snd (Notify svc net opts pid note w))"
| "hook_run (TickStep svc net opts # xs) w = hook_run xs (snd (Tick svc net opts w))"
| "hook_run (Elsewhere f g # xs) w = hook_run xs
     (w\<lparr>wr_hooks := (wr_hooks w)\<lparr>hk_db := f (hk_db (wr_hooks w)), hk_endpoints := g (hk_endpoints (wr_hooks w))\<rparr>\<rparr>)"

definition step_ok :: "int \<Rightarrow> hook_step \<Rightarrow> bool" where
  "step_ok A x = (case x of
       NotifyStep _ _ _ _ _ \<Rightarrow> True
     | TickStep _ _ opts \<Rightarrow> ro_attempts opts = A
     | Elsewhere f g \<Rightarrow> (\<forall>s. seq s \<le> seq (f s)))"

definition settled :: "hooks \<Rightarrow> delivery set" where
  "settled h = {d \<in> set (hk_deliveries h). wd_status d \<noteq> ''retrying''}"

lemma settled_not_due: "d \<in> settled h \<Longrightarrow> d \<in> set (hk_deliveries h) \<and> \<not> due_delivery n d"
  by (auto simp: settled_def due_delivery_def)

lemma hook_run_keeps:
  assumes "1 \<le> A" "A < 2 ^ 31"
  shows "list_all (step_ok A) xs \<Longrightarrow> queue_ok A (wr_hooks w) \<Longrightarrow> D \<subseteq> settled (wr_hooks w) \<Longrightarrow>
    queue_ok A (wr_hooks (hook_run xs w)) \<and> D \<subseteq> settled (wr_hooks (hook_run xs w))"
proof (induction xs w rule: hook_run.induct)
  case (2 svc net opts pid n xs w)
  let ?w = "snd (Notify svc net opts pid n w)"
  have run: "Notify svc net opts pid n w = (fst (Notify svc net opts pid n w), ?w)" by simp
  have "on_hooks (\<lambda>h. queue_ok A h \<and> D \<subseteq> set (hk_deliveries h)) w" using 2 by (auto simp: on_hooks_def settled_def)
  from keepsD [OF keeps_Notify [OF assms(1)] run this]
  have "queue_ok A (wr_hooks ?w) \<and> D \<subseteq> set (hk_deliveries (wr_hooks ?w))" by (simp add: on_hooks_def)
  with 2 show ?case by (auto simp: settled_def)
next
  case (3 svc net opts xs w)
  let ?w = "snd (Tick svc net opts w)"
  have t: "Tick svc net opts w = (fst (Tick svc net opts w), ?w)" by simp
  have A: "ro_attempts opts = A" using 3 by (simp add: step_ok_def)
  with assms 3(3) have "queue_ok A (wr_hooks ?w)" using Tick_queue_ok [OF _ _ _ t] by simp
  moreover have "d \<in> settled (wr_hooks ?w)" if "d \<in> D" for d
    using Tick_keeps_row [OF _ _ _ t, of d] 3(3,4) that settled_not_due [of d "wr_hooks w"]
    by (auto simp: settled_def queue_ok_def)
  ultimately show ?case using 3 by auto
next
  case (4 f g xs w)
  let ?w = "w\<lparr>wr_hooks := (wr_hooks w)\<lparr>hk_db := f (hk_db (wr_hooks w)), hk_endpoints := g (hk_endpoints (wr_hooks w))\<rparr>\<rparr>"
  have "seq s \<le> seq (f s)" for s using 4(2) by (simp add: step_ok_def)
  then have "queue_ok A (wr_hooks ?w)" using 4(3) by (auto simp: queue_ok_def intro: less_le_trans)
  moreover have "D \<subseteq> settled (wr_hooks ?w)" using 4(4) by (simp add: settled_def)
  ultimately show ?case using 4 by simp
qed simp

section \<open>A small store\<close>

definition sample_endpoint :: endpoint where
  "sample_endpoint = \<lparr>we_id = 1, we_uuid = ''eu'', we_tenant = 1, we_project = 2, we_url = ''https://h/x'', we_description = [],
     we_ciphertext = [], we_nonce = [], we_dek = [], we_dek_nonce = [], we_kek = ''k'', we_events = [], we_status = ''active'',
     we_timeout = 10, we_attempts = 3, we_triggered = None, we_created = 0, we_deleted = None\<rparr>"

definition sample_delivery :: "nat \<Rightarrow> string \<Rightarrow> instant option \<Rightarrow> delivery" where
  "sample_delivery i status nextAt = \<lparr>wd_id = i, wd_uuid = replicate i CHR ''d'', wd_endpoint = 1, wd_tenant = 1,
     wd_event = ''secret.changed'', wd_mrn = [], wd_version = Some 1, wd_count = 3, wd_status = status, wd_response = None,
     wd_error = [], wd_payload = [], wd_next = nextAt, wd_redrives = 0, wd_created = 0\<rparr>"

definition sample_wire :: "delivery list \<Rightarrow> wire" where
  "sample_wire ds = \<lparr>wr_hooks = \<lparr>hk_db = sample_db, hk_endpoints = [sample_endpoint], hk_deliveries = ds\<rparr>, wr_sent = []\<rparr>"

definition sample_redrive :: redrive_options where
  "sample_redrive = \<lparr>ro_enabled = True, ro_interval = 30000000000, ro_batch = 50, ro_attempts = 10, ro_base = 30000000000,
     ro_backoff = 3600000000000, ro_lease = 120000000000, ro_timeout = 30000000000\<rparr>"

definition sample_net :: network where
  "sample_net = \<lparr>nt_parse = (\<lambda>_. Some \<lparr>ur_scheme = ''https'', ur_host = ''h'', ur_user = False\<rparr>), nt_client = (\<lambda>_ _. Inl ''refused''),
     nt_done = (\<lambda>_. False), nt_jsonb = (\<lambda>_. [1])\<rparr>"

section \<open>The queue\<close>

text \<open>
  C16: Over any run of notifications, worker passes and anything else in between, the delivery queue stays consistent:
  ids are distinct, exactly the rows that are being retried have a time for the next attempt, and a row that still
  waits has spent less than the durable budget; and a delivery that is not waiting for a retry (it succeeded, failed
  for good, or its first attempts never ended) stays exactly as it is.
\<close>

theorem delivery_queue_consistent:
  assumes "1 \<le> A" "A < 2 ^ 31" "list_all (step_ok A) xs" "queue_ok A (wr_hooks w)" "d \<in> settled (wr_hooks w)"
  shows "queue_ok A (wr_hooks (hook_run xs w)) \<and> d \<in> settled (wr_hooks (hook_run xs w))"
  using hook_run_keeps [OF assms(1-4), of "{d}"] assms(5) by simp

lemma delivery_queue_consistent_witness:
  "sample_delivery 1 ''success'' None \<in> settled (wr_hooks (hook_run
     [TickStep sample_svc sample_net sample_redrive, Elsewhere (\<lambda>s. s\<lparr>db_now := 5\<rparr>) (\<lambda>es. []), TickStep sample_svc sample_net sample_redrive]
     (sample_wire [sample_delivery 1 ''success'' None, sample_delivery 2 ''retrying'' (Some 3)])))"
  using delivery_queue_consistent [of 10
    "[TickStep sample_svc sample_net sample_redrive, Elsewhere (\<lambda>s. s\<lparr>db_now := 5\<rparr>) (\<lambda>es. []), TickStep sample_svc sample_net sample_redrive]"
    "sample_wire [sample_delivery 1 ''success'' None, sample_delivery 2 ''retrying'' (Some 3)]" "sample_delivery 1 ''success'' None"]
  by (simp add: step_ok_def sample_redrive_def sample_wire_def sample_delivery_def queue_ok_def delivery_ok_def settled_def sample_db_def)

text \<open>
  C17: A claim owns its deliveries for the lease: a second claim, by this or another replica, on the same rows
  before the lease has passed returns none of them.
\<close>

theorem claims_do_not_overlap:
  assumes "distinct (map wd_id (hk_deliveries h))" "ClaimDeliveriesForRedrive l lease h = (Inr ds, h1)"
    "hk_deliveries h2 = hk_deliveries h1" "db_now (hk_db h2) < db_now (hk_db h) + lease_seconds lease * 1000000000"
    "ClaimDeliveriesForRedrive l' lease' h2 = (Inr ds', h3)"
  shows "rd_id ` set ds \<inter> rd_id ` set ds' = {}"
  using Claim_run [OF assms(2)]
proof (elim disjE exE conjE, goal_cases)
  case (3 hit out)
  have later: "wd_id d \<notin> wd_id ` set hit" if "d \<in> set (due_batch (int32 l') h2)" for d
  proof
    assume hit: "wd_id d \<in> wd_id ` set hit"
    from due_batch_rows [OF that] assms(3) have d: "d \<in> set (hk_deliveries h1)" "due_delivery (db_now (hk_db h2)) d" by auto
    then obtain y where y: "d = (if wd_id y \<in> wd_id ` set hit
        then y\<lparr>wd_next := Some (db_now (hk_db h) + lease_seconds lease * 1000000000)\<rparr> else y)"
      unfolding 3(3) claim_update_def by (auto simp: updating_set)
    then have "wd_id d = wd_id y" by simp
    with hit y have "wd_next d = Some (db_now (hk_db h) + lease_seconds lease * 1000000000)" by simp
    with d(2) assms(4) show False by (simp add: due_delivery_def)
  qed
  have ds': "rd_id ` set ds' \<subseteq> wd_id ` set (due_batch (int32 l') h2)" using Claim_run [OF assms(5)] by auto
  have ds: "rd_id ` set ds \<subseteq> wd_id ` set hit" using 3(2,4) by simp
  show ?case
  proof (rule equals0I)
    fix i
    assume "i \<in> rd_id ` set ds \<inter> rd_id ` set ds'"
    then have i: "i \<in> wd_id ` set hit" "i \<in> wd_id ` set (due_batch (int32 l') h2)" using ds ds' by (simp_all add: subset_iff)
    from i(2) obtain d where "d \<in> set (due_batch (int32 l') h2)" "i = wd_id d" by (rule imageE)
    with later i(1) show False by simp
  qed
qed auto

lemma claims_do_not_overlap_witness:
  "\<exists>ds h1 ds' h3. ClaimDeliveriesForRedrive 50 120000000000 (wr_hooks (sample_wire [sample_delivery 2 ''retrying'' (Some 3)])) = (Inr ds, h1)
     \<and> ds \<noteq> [] \<and> ClaimDeliveriesForRedrive 50 120000000000 h1 = (Inr ds', h3) \<and> rd_id ` set ds \<inter> rd_id ` set ds' = {}"
proof -
  let ?h = "wr_hooks (sample_wire [sample_delivery 2 ''retrying'' (Some 3)])"
  have 1: "case ClaimDeliveriesForRedrive 50 120000000000 ?h of (Inr ds, h1) \<Rightarrow>
      ds \<noteq> [] \<and> db_now (hk_db h1) < db_now (hk_db ?h) + lease_seconds 120000000000 * 1000000000 \<and>
      (case ClaimDeliveriesForRedrive 50 120000000000 h1 of (Inr ds', h3) \<Rightarrow> True | _ \<Rightarrow> False) | _ \<Rightarrow> False"
    by code_simp
  then obtain ds h1 ds' h3 where c: "ClaimDeliveriesForRedrive 50 120000000000 ?h = (Inr ds, h1)" "ds \<noteq> []"
      "db_now (hk_db h1) < db_now (hk_db ?h) + lease_seconds 120000000000 * 1000000000"
      "ClaimDeliveriesForRedrive 50 120000000000 h1 = (Inr ds', h3)"
    by (auto split: prod.splits sum.splits)
  have "distinct (map wd_id (hk_deliveries ?h))" by (simp add: sample_wire_def)
  from claims_do_not_overlap [OF this c(1) refl c(3,4)] c show ?thesis by blast
qed

section \<open>Deliveries that are never settled\<close>

definition tenantless :: "delivery \<Rightarrow> db \<Rightarrow> bool" where
  "tenantless d s \<longleftrightarrow> (\<forall>t \<in> set (tenants s). t_id t = wd_tenant d \<longrightarrow> \<not> live_tenant t)"

definition idle_step :: "delivery \<Rightarrow> hook_step \<Rightarrow> bool" where
  "idle_step d x = (case x of
       NotifyStep _ _ _ _ _ \<Rightarrow> False
     | TickStep _ _ _ \<Rightarrow> True
     | Elsewhere f g \<Rightarrow> (\<forall>s. tenantless d s \<longrightarrow> tenantless d (f s)))"

definition rescheduled :: "delivery \<Rightarrow> hooks \<Rightarrow> bool" where
  "rescheduled d h \<longleftrightarrow> tenantless d (hk_db h) \<and> (\<exists>n. d\<lparr>wd_next := n\<rparr> \<in> set (hk_deliveries h))"

lemma outside_rescheduled:
  assumes "wd_id d \<notin> S"
  shows "outside S (rescheduled d)"
  unfolding outside_def rescheduled_def
proof (intro allI impI, elim conjE exE, goal_cases)
  case (1 h h' n)
  then have "d\<lparr>wd_next := n\<rparr> \<in> set (hk_deliveries h')"
    using outside_same_rows [OF 1(2), of "d\<lparr>wd_next := n\<rparr>"] assms by simp
  with 1 show ?case by auto
qed

lemma claim_pushes:
  assumes "d\<lparr>wd_next := n\<rparr> \<in> set (hk_deliveries h)"
  shows "d\<lparr>wd_next := (if wd_id d \<in> wd_id ` set hit then Some (db_now (hk_db h) + secs * 1000000000) else n)\<rparr>
     \<in> set (hk_deliveries (claim_update h hit secs))"
  using assms unfolding claim_update_def by (auto simp: updating_set intro!: bexI [OF _ assms])

text \<open>What a claim does to such a row: the row is pushed and handed to nobody.\<close>

lemma Claim_skips:
  assumes ids: "distinct (map wd_id (hk_deliveries h))" and d: "rescheduled d h" and c: "ClaimDeliveriesForRedrive l lease h = (Inr ds, h')"
  shows "rescheduled d h' \<and> wd_id d \<notin> rd_id ` set ds
     \<and> (distinct (map wd_uuid (hk_deliveries h)) \<longrightarrow> wd_uuid d \<notin> rd_uuid ` set ds)
     \<and> map wd_uuid (hk_deliveries h') = map wd_uuid (hk_deliveries h)"
  using Claim_run [OF c]
proof (elim disjE exE conjE, goal_cases)
  case (3 hit out)
  from d obtain n where n: "d\<lparr>wd_next := n\<rparr> \<in> set (hk_deliveries h)" "tenantless d (hk_db h)" by (auto simp: rescheduled_def)
  have inj: "inj_on wd_id (set (hk_deliveries h))" using ids by (simp add: distinct_map)
  have other: "y \<noteq> d\<lparr>wd_next := n\<rparr>" if "t_id t = wd_tenant y" "live_tenant t" "t \<in> set (tenants (hk_db h))" for y t
    using that n(2) by (auto simp: tenantless_def)
  have row: "\<exists>y \<in> set (hk_deliveries h). y \<noteq> d\<lparr>wd_next := n\<rparr> \<and> rd_id x = wd_id y \<and> rd_uuid x = wd_uuid y" if "x \<in> set ds" for x
  proof -
    from 3(2,5) that obtain y t where "y \<in> set hit" "t_id t = wd_tenant y" "live_tenant t" "t \<in> set (tenants (hk_db h))"
        "rd_id x = wd_id y" "rd_uuid x = wd_uuid y" by blast
    with other due_batch_rows 3(1) show ?thesis by blast
  qed
  have "rd_id x \<noteq> wd_id d" if "x \<in> set ds" for x
    using row [OF that] inj_onD [OF inj _ _ n(1)] by fastforce
  moreover have "rd_uuid x \<noteq> wd_uuid d" if "x \<in> set ds" "distinct (map wd_uuid (hk_deliveries h))" for x
  proof -
    have "inj_on wd_uuid (set (hk_deliveries h))" using that(2) by (simp add: distinct_map)
    from row [OF that(1)] inj_onD [OF this _ _ n(1)] show ?thesis by fastforce
  qed
  moreover have "rescheduled d h'"
    using claim_pushes [OF n(1), of hit "lease_seconds lease"] n(2) by (auto simp: rescheduled_def 3(3)) (simp add: claim_update_def)
  moreover have "map wd_uuid (hk_deliveries h') = map wd_uuid (hk_deliveries h)"
    unfolding 3(3) claim_update_def by (simp add: updating_map)
  ultimately show ?case unfolding image_iff by metis
qed (use d in auto)

lemma Tick_rescheduled:
  assumes "distinct (map wd_id (hk_deliveries (wr_hooks w)))" "rescheduled d (wr_hooks w)" "Tick svc net opts w = (r, w')"
  shows "rescheduled d (wr_hooks w')"
  using Tick_run [OF assms(3)]
proof (elim disjE exE conjE, goal_cases)
  case (2 ds h)
  with Claim_skips [OF assms(1,2) 2(2)] show ?case by simp
next
  case (3 ds h x)
  note s = Claim_skips [OF assms(1,2) 3(2)]
  then have "wd_id d \<notin> rd_id ` set ds" by simp
  with keeps_redrive_loop [OF outside_rescheduled, of d "rd_id ` set ds" ds svc net opts] s 3(3) show ?case
    by (auto simp: keeps_def on_hooks_def)
next
  case (4 e h)
  with Claim_run [OF 4(1)] assms(2) show ?case by auto
qed (use assms(2) in simp)

text \<open>Requests for other deliveries, and the UUIDs of the log.\<close>

definition quiet :: "uuid \<Rightarrow> http_request list \<Rightarrow> wire \<Rightarrow> bool" where
  "quiet u base w \<longleftrightarrow> (\<exists>sent. wr_sent w = base @ sent \<and> (\<forall>req \<in> set sent. (''X-Maintainerd-Delivery'', u) \<notin> set (hr_headers req)))"

lemma keeps_quiet_hooks: "keeps (quiet u base) (inHooks net m)"
  by (auto simp: keeps_def quiet_def inHooks_def split: prod.splits if_splits)

lemma keeps_quiet_post:
  "(''X-Maintainerd-Delivery'', u) \<notin> set (hr_headers req) \<Longrightarrow> keeps (quiet u base) (post_request net req)"
  unfolding keeps_def quiet_def post_request_def
  by (auto split: option.splits)

lemma keeps_quiet_attempt:
  assumes "rd_uuid d \<noteq> u"
  shows "keeps (quiet u base) (attemptOne svc net opts d)"
proof -
  have "keeps (quiet u base) (redrive_post svc net opts e d)" for e
    unfolding redrive_post_def Let_def
    by (intro keeps_rules keeps_quiet_post) (use assms in \<open>auto simp: delivery_headers_def Let_def\<close>)
  then show ?thesis unfolding attemptOne_def Let_def by (intro keeps_rules keeps_quiet_hooks)
qed

lemma keeps_quiet_loop: "u \<notin> rd_uuid ` set ds \<Longrightarrow> keeps (quiet u base) (redrive_loop svc net opts ds)"
  by (induction ds) (auto intro!: keeps_rules keeps_quiet_attempt)

definition uuids_are :: "uuid list \<Rightarrow> hooks \<Rightarrow> bool" where
  "uuids_are us h \<longleftrightarrow> map wd_uuid (hk_deliveries h) = us"

lemma keeps_uuids: "(\<And>d. wd_uuid (f d) = wd_uuid d) \<Longrightarrow> keeps (uuids_are us) (update_deliveries B f)"
  by (auto simp: keeps_def uuids_are_def update_deliveries_def Let_def updating_map split: option.splits)

lemma keeps_uuids_ops:
  "keeps (uuids_are us) (TouchWebhookEndpoint i)" "keeps (uuids_are us) (RecordRedriveOutcome i st r e n)"
  "keeps (uuids_are us) (AbandonDelivery i why)"
  unfolding TouchWebhookEndpoint_def TouchWebhookEndpointRow_def RecordRedriveOutcome_def RecordWebhookRedriveOutcome_def
    AbandonDelivery_def AbandonWebhookDelivery_def Let_def
  by (intro keeps_rules keeps_uuids; auto simp: keeps_def uuids_are_def)+

lemma keeps_uuids_loop: "keeps (on_hooks (uuids_are us)) (redrive_loop svc net opts ds)"
proof (induction ds)
  case (Cons d ds)
  have "keeps (on_hooks (uuids_are us)) (attemptOne svc net opts d)"
    unfolding attemptOne_def Let_def by (intro keeps_rules keeps_uuids_ops)
  with Cons show ?case by (auto intro!: keeps_rules)
qed (simp add: keeps_def ret_def)

lemma Tick_quiet:
  assumes "distinct (map wd_id (hk_deliveries (wr_hooks w)))" "rescheduled d (wr_hooks w)" "Tick svc net opts w = (r, w')"
    and "distinct (map wd_uuid (hk_deliveries (wr_hooks w)))" "quiet (wd_uuid d) base w"
  shows "distinct (map wd_uuid (hk_deliveries (wr_hooks w'))) \<and> quiet (wd_uuid d) base w'"
  using Tick_run [OF assms(3)]
proof (elim disjE exE conjE, goal_cases)
  case (2 ds h)
  with Claim_skips [OF assms(1,2) 2(2)] assms(4,5) show ?case by (simp add: quiet_def)
next
  case (3 ds h x)
  note s = Claim_skips [OF assms(1,2) 3(2)]
  have q: "quiet (wd_uuid d) base (w\<lparr>wr_hooks := h\<rparr>)" using assms(5) by (simp add: quiet_def)
  have "wd_uuid d \<notin> rd_uuid ` set ds" using s assms(4) by simp
  from keepsD [OF keeps_quiet_loop [OF this] 3(3) q] have "quiet (wd_uuid d) base w'" .
  moreover have "on_hooks (uuids_are (map wd_uuid (hk_deliveries h))) w'"
    by (rule keepsD [OF keeps_uuids_loop 3(3)]) (simp add: on_hooks_def uuids_are_def)
  ultimately show ?case using s assms(4) by (simp add: on_hooks_def uuids_are_def)
next
  case (4 e h)
  with Claim_run [OF 4(1)] assms(4,5) show ?case by (auto simp: quiet_def)
qed (use assms in simp)

lemma Tick_pushes:
  assumes "distinct (map wd_id (hk_deliveries (wr_hooks w)))" "tenantless d (hk_db (wr_hooks w))" "Tick svc net opts w = (r, w')"
    and "ro_enabled opts" "1 \<le> ro_batch opts" "\<not> nt_done net (wr_sent w)"
    and "d\<lparr>wd_next := n\<rparr> \<in> set (due_batch (int32 (ro_batch opts)) (wr_hooks w))"
  shows "d\<lparr>wd_next := Some (db_now (hk_db (wr_hooks w)) + lease_seconds (ro_lease opts) * 1000000000)\<rparr>
     \<in> set (hk_deliveries (wr_hooks w'))"
proof -
  let ?d = "d\<lparr>wd_next := Some (db_now (hk_db (wr_hooks w)) + lease_seconds (ro_lease opts) * 1000000000)\<rparr>"
  have row: "d\<lparr>wd_next := n\<rparr> \<in> set (hk_deliveries (wr_hooks w))" using due_batch_rows [OF assms(7)] by simp
  have "wd_id d \<in> wd_id ` set (due_batch (int32 (ro_batch opts)) (wr_hooks w))" using imageI [OF assms(7), of wd_id] by simp
  moreover have "0 \<le> int32 (ro_batch opts)" using assms(7) by (auto simp: due_batch_def intro: ccontr)
  note claims = Claim_claims [OF assms(5) this]
  ultimately have pushed: "?d \<in> set (hk_deliveries h)"
    if "ClaimDeliveriesForRedrive (ro_batch opts) (ro_lease opts) (wr_hooks w) = (c, h)" for c h
    using claim_pushes [OF row, of "due_batch (int32 (ro_batch opts)) (wr_hooks w)" "lease_seconds (ro_lease opts)"] claims [OF that] by simp
  have resch: "rescheduled d (wr_hooks w)" using row assms(2) by (auto simp: rescheduled_def)
  show ?thesis
    using Tick_run [OF assms(3)]
  proof (elim disjE exE conjE, goal_cases)
    case (2 ds h)
    with pushed show ?case by simp
  next
    case (3 ds h x)
    have "wd_id ?d \<notin> rd_id ` set ds" using Claim_skips [OF assms(1) resch 3(2)] by simp
    from keepsD [OF keeps_redrive_loop [OF outside_member [OF this] subset_refl] 3(3)] pushed [OF 3(2)] show ?case
      by (simp add: on_hooks_def)
  next
    case (4 e h)
    with claims show ?case by auto
  qed (use assms(4,6) in simp)
qed

lemma stuck_run:
  assumes "1 \<le> A" "A < 2 ^ 31"
  shows "list_all (step_ok A) xs \<Longrightarrow> list_all (idle_step d) xs \<Longrightarrow> queue_ok A (wr_hooks w) \<Longrightarrow> rescheduled d (wr_hooks w) \<Longrightarrow>
    distinct (map wd_uuid (hk_deliveries (wr_hooks w))) \<Longrightarrow> quiet (wd_uuid d) base w \<Longrightarrow>
    queue_ok A (wr_hooks (hook_run xs w)) \<and> rescheduled d (wr_hooks (hook_run xs w)) \<and> quiet (wd_uuid d) base (hook_run xs w)"
proof (induction xs w rule: hook_run.induct)
  case (2 svc net opts pid n xs w)
  then show ?case by (simp add: idle_step_def)
next
  case (3 svc net opts xs w)
  let ?w = "snd (Tick svc net opts w)"
  have t: "Tick svc net opts w = (fst (Tick svc net opts w), ?w)" by simp
  have A: "ro_attempts opts = A" using 3 by (simp add: step_ok_def)
  have "queue_ok A (wr_hooks ?w)" using Tick_queue_ok [OF _ _ _ t] A assms 3 by simp
  moreover have "rescheduled d (wr_hooks ?w)" using Tick_rescheduled [OF _ _ t] 3 by (simp add: queue_ok_def)
  moreover have "distinct (map wd_uuid (hk_deliveries (wr_hooks ?w))) \<and> quiet (wd_uuid d) base ?w"
    using 3 by (intro Tick_quiet [OF _ _ t]) (simp_all add: queue_ok_def)
  ultimately show ?case using 3 by simp
next
  case (4 f g xs w)
  let ?h = "(wr_hooks w)\<lparr>hk_db := f (hk_db (wr_hooks w)), hk_endpoints := g (hk_endpoints (wr_hooks w))\<rparr>"
  from 4 have f: "seq s \<le> seq (f s)" "tenantless d s \<Longrightarrow> tenantless d (f s)" for s
    by (simp_all add: step_ok_def idle_step_def)
  have "queue_ok A ?h" using 4(4) f(1) by (auto simp: queue_ok_def intro: less_le_trans)
  moreover have "rescheduled d ?h" using 4(5) f(2) by (simp add: rescheduled_def)
  moreover have "quiet (wd_uuid d) base (w\<lparr>wr_hooks := ?h\<rparr>)" using 4(7) by (simp add: quiet_def)
  ultimately show ?case using 4 by simp
qed simp

text \<open>
  C20: A delivery whose tenant was deleted is never settled. Over any run of worker passes and changes elsewhere that
  keep the tenant deleted the row stays in the queue with only its next time moved, and no request is ever sent for
  it; and every later pass that finds it in its batch claims it, finds no tenant, drops it before its endpoint is
  looked up, and leaves it scheduled one lease later.
\<close>

theorem deleted_tenant_backlog_stays:
  assumes "1 \<le> A" "A < 2 ^ 31" "list_all (step_ok A) xs" "list_all (idle_step d) xs" "queue_ok A (wr_hooks w)"
    and "distinct (map wd_uuid (hk_deliveries (wr_hooks w)))"
    and "d \<in> set (hk_deliveries (wr_hooks w))" "tenantless d (hk_db (wr_hooks w))"
  shows "(\<exists>n. d\<lparr>wd_next := n\<rparr> \<in> set (hk_deliveries (wr_hooks (hook_run xs w))))
   \<and> (\<exists>sent. wr_sent (hook_run xs w) = wr_sent w @ sent
        \<and> (\<forall>req \<in> set sent. (''X-Maintainerd-Delivery'', wd_uuid d) \<notin> set (hr_headers req)))
   \<and> (\<forall>svc net opts n. ro_enabled opts \<longrightarrow> 1 \<le> ro_batch opts \<longrightarrow> \<not> nt_done net (wr_sent (hook_run xs w)) \<longrightarrow>
        d\<lparr>wd_next := n\<rparr> \<in> set (due_batch (int32 (ro_batch opts)) (wr_hooks (hook_run xs w))) \<longrightarrow>
        d\<lparr>wd_next := Some (db_now (hk_db (wr_hooks (hook_run xs w))) + lease_seconds (ro_lease opts) * 1000000000)\<rparr>
          \<in> set (hk_deliveries (wr_hooks (snd (Tick svc net opts (hook_run xs w))))))"
proof -
  have r: "rescheduled d (wr_hooks w)"
    using assms(7,8) unfolding rescheduled_def by (intro conjI exI [of _ "wd_next d"]) simp_all
  have "quiet (wd_uuid d) (wr_sent w) w" by (simp add: quiet_def)
  from stuck_run [OF assms(1-5) r assms(6) this]
  have e: "queue_ok A (wr_hooks (hook_run xs w))" "rescheduled d (wr_hooks (hook_run xs w))" "quiet (wd_uuid d) (wr_sent w) (hook_run xs w)"
    by blast+
  then have "distinct (map wd_id (hk_deliveries (wr_hooks (hook_run xs w))))" "tenantless d (hk_db (wr_hooks (hook_run xs w)))"
    by (simp_all add: queue_ok_def rescheduled_def)
  note push = Tick_pushes [OF this surjective_pairing]
  show ?thesis
    using e(2,3) unfolding rescheduled_def quiet_def by (intro conjI allI impI push) auto
qed

definition orphan :: delivery where
  "orphan = (sample_delivery 2 ''retrying'' (Some 3))\<lparr>wd_tenant := 9\<rparr>"

lemma deleted_tenant_backlog_stays_witness:
  "(\<exists>n. orphan\<lparr>wd_next := n\<rparr> \<in> set (hk_deliveries (wr_hooks (hook_run
     (replicate 20 (TickStep sample_svc sample_net sample_redrive)) (sample_wire [orphan])))))
   \<and> orphan\<lparr>wd_next := Some 120000000100\<rparr> \<in> set (hk_deliveries (wr_hooks (snd (Tick sample_svc sample_net sample_redrive (sample_wire [orphan])))))"
proof
  note facts = list_all_iff step_ok_def idle_step_def sample_redrive_def sample_wire_def orphan_def sample_delivery_def
    queue_ok_def delivery_ok_def sample_db_def tenantless_def
  have "\<exists>n. orphan\<lparr>wd_next := n\<rparr> \<in> set (hk_deliveries (wr_hooks (hook_run
     (replicate k (TickStep sample_svc sample_net sample_redrive)) (sample_wire [orphan]))))" for k
    by (rule conjunct1 [OF deleted_tenant_backlog_stays [of 10]]) (simp_all add: facts)
  then show "\<exists>n. orphan\<lparr>wd_next := n\<rparr> \<in> set (hk_deliveries (wr_hooks (hook_run
     (replicate 20 (TickStep sample_svc sample_net sample_redrive)) (sample_wire [orphan]))))" .
  have all: "\<forall>svc net opts n. ro_enabled opts \<longrightarrow> 1 \<le> ro_batch opts \<longrightarrow> \<not> nt_done net (wr_sent (hook_run [] (sample_wire [orphan]))) \<longrightarrow>
        orphan\<lparr>wd_next := n\<rparr> \<in> set (due_batch (int32 (ro_batch opts)) (wr_hooks (hook_run [] (sample_wire [orphan])))) \<longrightarrow>
        orphan\<lparr>wd_next := Some (db_now (hk_db (wr_hooks (hook_run [] (sample_wire [orphan])))) + lease_seconds (ro_lease opts) * 1000000000)\<rparr>
          \<in> set (hk_deliveries (wr_hooks (snd (Tick svc net opts (hook_run [] (sample_wire [orphan]))))))"
    by (rule conjunct2 [OF conjunct2 [OF deleted_tenant_backlog_stays [of 10]]]) (simp_all add: facts)
  have due: "orphan\<lparr>wd_next := Some 3\<rparr> \<in> set (due_batch (int32 (ro_batch sample_redrive)) (wr_hooks (sample_wire [orphan])))"
    "lease_seconds (ro_lease sample_redrive) = 120" "db_now (hk_db (wr_hooks (sample_wire [orphan]))) = 100"
    by code_simp+
  show "orphan\<lparr>wd_next := Some 120000000100\<rparr>
      \<in> set (hk_deliveries (wr_hooks (snd (Tick sample_svc sample_net sample_redrive (sample_wire [orphan])))))"
    using all [rule_format, of sample_redrive sample_net "Some 3" sample_svc] due by (simp add: sample_redrive_def sample_net_def)
qed

text \<open>
  C19: A write whose caller goes away while its notification is being retried loses the notification: the delivery stays
  pending, without a time for a next attempt, over every later run, and no pass of the worker takes it up.
\<close>

theorem cancelled_notification_is_lost:
  assumes "1 \<le> A" "A < 2 ^ 31" "queue_ok A (wr_hooks w)" "\<not> nt_done net (wr_sent w)"
    and "OpenWebhookDelivery (n_tenant n) (sg_id e) (n_event n) (n_mrn n) (Some (n_version n)) (payload_object p) (wr_hooks w)
      = (Inr (did, du), h)"
    and "nt_parse net (sg_url e) \<noteq> None" "\<And>req. \<exists>x. nt_client net (wr_sent w) req = Inl x"
    and "\<And>req. nt_done net (wr_sent w @ [req])" "2 \<le> inline_budget opts (sg_attempts e)"
  shows "\<exists>row. wd_id row = did \<and> wd_status row = ''pending'' \<and> wd_next row = None \<and>
    (\<forall>xs. list_all (step_ok A) xs \<longrightarrow>
       row \<in> set (hk_deliveries (wr_hooks (hook_run xs (snd (deliver svc net opts n e p body w))))))"
proof -
  from Open_run [OF assms(5)] obtain row where row: "wd_id row = did" "wd_uuid row = du" "wd_id row = seq (hk_db (wr_hooks w))"
      "wd_status row = ''pending''" "wd_next row = None" "wd_redrives row = 0"
      "h = (wr_hooks w)\<lparr>hk_deliveries := hk_deliveries (wr_hooks w) @ [row],
         hk_db := (hk_db (wr_hooks w))\<lparr>seq := Suc (seq (hk_db (wr_hooks w)))\<rparr>\<rparr>" by auto
  have h: "queue_ok A h" using queue_ok_open [OF assms(3,1) row(3-6)] row(7) by simp
  obtain k where k: "nat (inline_budget opts (sg_attempts e)) = Suc (Suc k)"
    using assms(9) by (metis Suc_leD Suc_nat_eq_nat_zadd1 add_2_eq_Suc' le_Suc_ex nat_numeral nat_mono numeral_2_eq_2 add.commute)
  obtain url where url: "nt_parse net (sg_url e) = Some url" using assms(6) by auto
  have "wr_hooks (snd (deliver svc net opts n e p body w)) = h"
  proof -
    let ?w = "w\<lparr>wr_hooks := h\<rparr>"
    have "\<exists>s. attempt_loop svc net opts e p body du (Suc (Suc k)) 1 None None ?w = (Inr None, ?w\<lparr>wr_sent := s\<rparr>)"
    proof -
      obtain req where req: "attempt_post svc net opts e p body du 1 = post_request net req" "hr_url req = sg_url e"
        by (simp add: attempt_post_def)
      obtain x where "nt_client net (wr_sent w) req = Inl x" using assms(7) by blast
      with req url have "attempt_post svc net opts e p body du 1 ?w = (Inr (0, Some x), ?w\<lparr>wr_sent := wr_sent w @ [req]\<rparr>)"
        by (simp add: post_request_def)
      with assms(8) [of req] show ?thesis by (auto simp: bindM_def ctx_done_def ret_def)
    qed
    then show ?thesis
      using assms(4,5) k by (auto simp: deliver_delivered delivered_def Let_def bindM_def tryM_def inHooks_def ret_def simp del: attempt_loop.simps)
  qed
  moreover have "row \<in> settled h" using row by (simp add: settled_def)
  ultimately have "row \<in> settled (wr_hooks (hook_run xs (snd (deliver svc net opts n e p body w))))" if "list_all (step_ok A) xs" for xs
    using hook_run_keeps [OF assms(1,2) that, of "snd (deliver svc net opts n e p body w)" "{row}"] h by simp
  with row show ?thesis by (auto simp: settled_def)
qed

definition sample_signed :: signed_endpoint where
  "sample_signed = signed_of sample_endpoint (replicate 32 5)"

definition sample_note :: notification where
  "sample_note = \<lparr>n_tenant = ''tu'', n_project = ''web'', n_event = ''secret.changed'', n_mrn = ''m'', n_version = 1,
     n_actor = \<lparr>ac_subject = [], ac_kind = [], ac_agent = [], ac_request = []\<rparr>\<rparr>"

definition gone_net :: network where
  "gone_net = sample_net\<lparr>nt_done := (\<lambda>sent. sent \<noteq> [])\<rparr>"

definition sample_notify :: notify_options where
  "sample_notify = \<lparr>no_concurrency = 4, no_enabled = True, no_max_timeout = 30000000000, no_max_attempts = 10, no_delay = 30000000000\<rparr>"

lemma cancelled_notification_is_lost_witness:
  "\<exists>row. wd_status row = ''pending'' \<and> row \<in> set (hk_deliveries (wr_hooks (hook_run
     (replicate 20 (TickStep sample_svc sample_net sample_redrive))
     (snd (deliver sample_svc gone_net sample_notify sample_note sample_signed (note_payload sample_svc ''i'' sample_note ''acme'')
       (bytes_of ''{}'') (sample_wire []))))))"
proof -
  let ?p = "note_payload sample_svc ''i'' sample_note ''acme''"
  have "case fst (OpenWebhookDelivery (n_tenant sample_note) (sg_id sample_signed) (n_event sample_note) (n_mrn sample_note)
      (Some (n_version sample_note)) (payload_object ?p) (wr_hooks (sample_wire []))) of Inr _ \<Rightarrow> True | Inl _ \<Rightarrow> False"
    by code_simp
  then obtain did du h where "OpenWebhookDelivery (n_tenant sample_note) (sg_id sample_signed) (n_event sample_note) (n_mrn sample_note)
      (Some (n_version sample_note)) (payload_object ?p) (wr_hooks (sample_wire [])) = (Inr (did, du), h)"
    by (cases "OpenWebhookDelivery (n_tenant sample_note) (sg_id sample_signed) (n_event sample_note) (n_mrn sample_note)
      (Some (n_version sample_note)) (payload_object ?p) (wr_hooks (sample_wire []))") (auto split: sum.splits)
  from cancelled_notification_is_lost [OF _ _ _ _ this, of 10 gone_net sample_notify sample_svc "bytes_of ''{}''"]
  obtain row where row: "wd_status row = ''pending''" "\<And>xs. list_all (step_ok 10) xs \<Longrightarrow>
      row \<in> set (hk_deliveries (wr_hooks (hook_run xs (snd (deliver sample_svc gone_net sample_notify sample_note sample_signed ?p
        (bytes_of ''{}'') (sample_wire []))))))"
    by (auto simp: gone_net_def sample_net_def sample_wire_def queue_ok_def sample_signed_def signed_of_def sample_endpoint_def
        inline_budget_def sample_notify_def)
  from row(2) [of "replicate 20 (TickStep sample_svc sample_net sample_redrive)"] row(1) show ?thesis
    by (intro exI [of _ row]) (simp add: list_all_iff step_ok_def sample_redrive_def)
qed

section \<open>Endpoints of other projects\<close>

text \<open>
  C18: A grant on one project reaches the endpoints of every project of the tenant: the operation checks the grant
  on the project the caller names, the statement looks the endpoint up by its UUID in the tenant. A caller with
  the grant for any project deletes the endpoint, whatever project it belongs to.
\<close>

theorem endpoint_deleted_across_projects:
  assumes "WebhookEndpointRef_Validate (ap_parse_uuid s) project raw = []" "ap_parse_uuid s raw = Some u" "ap_auditor s"
    and "c_allows c ''secret:ManageRotation'' (caller_mrn c project (WebhookResourcePath u))"
    and "fst (GetTenantByUUID (c_tenant c) (w_db (hw_world w))) = Inr t"
    and "e \<in> set (hw_endpoints w)" "we_tenant e = t_id t" "we_uuid e = u" "live_endpoint e"
  shows "e\<lparr>we_deleted := Some (db_now (w_db (hw_world w)))\<rparr> \<in> set (hw_endpoints (snd (api_DeleteWebhookEndpoint s c project raw w)))"
proof -
  let ?es = "updating (\<lambda>e. we_tenant e = t_id t \<and> we_uuid e = u \<and> live_endpoint e)
    (\<lambda>e. e\<lparr>we_deleted := Some (db_now (w_db (hw_world w)))\<rparr>) (hw_endpoints w)"
  let ?mrn = "caller_mrn c project (WebhookResourcePath u)"
  have tn: "GetTenantByUUID (c_tenant c) (w_db (hw_world w)) = (Inr t, w_db (hw_world w))"
    using assms(5) pure_run [OF pure_tenant_reads(1)] by metis
  have "callHooks (DeleteWebhookEndpoint (c_tenant c) u) w = (Inr (), w\<lparr>hw_endpoints := ?es\<rparr>)"
  proof -
    have "filter (\<lambda>e. we_tenant e = t_id t \<and> we_uuid e = u \<and> live_endpoint e) (hw_endpoints w) \<noteq> []"
      using assms(6-9) by (auto simp: filter_empty_conv)
    then show ?thesis
      by (simp add: callHooks_def DeleteWebhookEndpoint_def bindM_def inDb_def mapErr_def hooks_of_def tn
        SoftDeleteWebhookEndpoint_def ret_def put_hooks_def mapL_def Let_def)
  qed
  then have c3: "tryM (callHooks (DeleteWebhookEndpoint (c_tenant c) u)) w = (Inr (Inr ()), w\<lparr>hw_endpoints := ?es\<rparr>)"
    by (simp add: tryM_def)
  have c1: "inApi (checked (WebhookEndpointRef_Validate (ap_parse_uuid s) project raw)) w = (Inr (), w)"
    using assms(1) by (simp add: inApi_def checked_def validate_def mapL_def liftR_def)
  have c2: "inApi (guard s c ''secret:ManageRotation'' ''webhook.delete'' ?mrn) w = (Inr (), w)"
    using assms(3,4) by (simp add: inApi_def guard_def ret_def)
  have audit: "hw_endpoints (snd (bindM (inApi m) ret v)) = hw_endpoints v" for m :: "unit api" and v
    by (cases "m (hw_world v)"; cases "fst (m (hw_world v))") (auto simp: bindM_def inApi_def ret_def)
  have "hw_endpoints (snd (api_DeleteWebhookEndpoint s c project raw w)) = ?es"
    unfolding api_DeleteWebhookEndpoint_def hook_operation_def hook_uuid_def Let_def
    by (subst bindM_def, subst c1) (simp add: assms(2) bindM_def [of "inApi (guard _ _ _ _ _)"] c2 bindM_def [of "tryM _"] c3 audit)
  with assms(6-9) show ?thesis by (auto simp: updating_set)
qed

definition hook_service :: api_service where
  "hook_service = \<lparr>ap_store = sample_svc, ap_auditor = True, ap_notifier = False, ap_depth = 8, ap_default = [],
     ap_limits = DefaultLimits, ap_parse_uuid = Some\<rparr>"

definition other_caller :: caller where
  "other_caller = \<lparr>c_allows = (\<lambda>p m. m = mrn ''acme'' ''other'' (WebhookResourcePath ''eu'')),
     c_actor = \<lparr>ac_subject = [], ac_kind = [], ac_agent = [], ac_request = []\<rparr>, c_tenant = ''tu'', c_name = ''acme''\<rparr>"

definition hook_store :: hook_world where
  "hook_store = \<lparr>hw_world = \<lparr>w_db = sample_db, w_notes = []\<rparr>, hw_endpoints = [sample_endpoint], hw_deliveries = []\<rparr>"

lemma endpoint_deleted_across_projects_witness:
  "(\<forall>p r. \<not> c_allows other_caller p (caller_mrn other_caller ''web'' r)) \<and>
   we_project sample_endpoint = p_id (hd (projects sample_db)) \<and> p_slug (hd (projects sample_db)) = ''web'' \<and>
   sample_endpoint\<lparr>we_deleted := Some 100\<rparr>
     \<in> set (hw_endpoints (snd (api_DeleteWebhookEndpoint hook_service other_caller ''other'' ''eu'' hook_store)))"
proof -
  have v: "WebhookEndpointRef_Validate (ap_parse_uuid hook_service) ''other'' ''eu'' = []" by code_simp
  have t: "fst (GetTenantByUUID (c_tenant other_caller) (w_db (hw_world hook_store))) = Inr (hd (tenants sample_db))"
    by code_simp
  have "sample_endpoint\<lparr>we_deleted := Some (db_now (w_db (hw_world hook_store)))\<rparr>
     \<in> set (hw_endpoints (snd (api_DeleteWebhookEndpoint hook_service other_caller ''other'' ''eu'' hook_store)))"
    by (rule endpoint_deleted_across_projects [OF v _ _ _ t])
       (simp_all add: hook_service_def other_caller_def caller_mrn_def hook_store_def sample_endpoint_def sample_db_def live_endpoint_def)
  moreover have "db_now (w_db (hw_world hook_store)) = 100" by (simp add: hook_store_def sample_db_def)
  moreover have "mrn ''acme'' ''web'' r \<noteq> mrn ''acme'' ''other'' q" for r q by (simp add: mrn_def)
  ultimately show ?thesis
    by (simp add: other_caller_def caller_mrn_def sample_endpoint_def sample_db_def)
qed

section \<open>Where a delivery may go, and when\<close>

definition ipv4 :: "nat \<Rightarrow> ip" where
  "ipv4 n = [n div 2 ^ 24, n div 2 ^ 16 mod 256, n div 2 ^ 8 mod 256, n mod 256]"

definition blocked :: "nat \<Rightarrow> bool" where
  "blocked n \<longleftrightarrow> n = 0 \<or> n div 2 ^ 24 \<in> {10, 127} \<or> n div 2 ^ 22 = 100 * 4 + 1 \<or> n div 2 ^ 16 = 169 * 256 + 254 \<or>
     n div 2 ^ 20 = 172 * 16 + 1 \<or> n div 2 ^ 16 = 192 * 256 + 168 \<or> n div 2 ^ 28 = 14"

lemma octets:
  fixes n :: nat
  defines "q \<equiv> n div 2 ^ 16"
  shows "n div 2 ^ 24 = q div 256" "n div 2 ^ 22 = q div 64" "n div 2 ^ 20 = q div 16" "n div 2 ^ 28 = q div 4096"
    "n = 0 \<longleftrightarrow> q = 0 \<and> n div 2 ^ 8 mod 256 = 0 \<and> n mod 256 = 0"
proof -
  show "n div 2 ^ 24 = q div 256" "n div 2 ^ 22 = q div 64" "n div 2 ^ 20 = q div 16" "n div 2 ^ 28 = q div 4096"
    by (simp_all add: q_def div_mult2_eq [symmetric])
  have zero: "m = 0 \<longleftrightarrow> m div 256 = 0 \<and> m mod 256 = 0" for m :: nat
    by (metis add_0 div_0 div_mult_mod_eq mod_0 mult_0)
  have "q = n div 256 div 256" by (simp add: q_def div_mult2_eq [symmetric])
  with zero [of n] zero [of "n div 256"] show "n = 0 \<longleftrightarrow> q = 0 \<and> n div 2 ^ 8 mod 256 = 0 \<and> n mod 256 = 0"
    by simp
qed

lemma digits:
  fixes q m a b :: nat
  assumes "b < m"
  shows "q = m * a + b \<longleftrightarrow> q div m = a \<and> q mod m = b"
  using assms mult_div_mod_eq [of m q] by auto

lemma pieces:
  fixes q :: nat
  shows "q div 64 = 401 \<longleftrightarrow> q div 256 = 100 \<and> 64 \<le> q mod 256 \<and> q mod 256 \<le> 127"
    "q = 43518 \<longleftrightarrow> q div 256 = 169 \<and> q mod 256 = 254" "q div 16 = 2753 \<longleftrightarrow> q div 256 = 172 \<and> q mod 256 div 16 = 1"
    "q = 49320 \<longleftrightarrow> q div 256 = 192 \<and> q mod 256 = 168" "q div 4096 = q div 256 div 16" "q = 0 \<longleftrightarrow> q div 256 = 0 \<and> q mod 256 = 0"
proof -
  have d: "q div 64 div 4 = q div 256" "q div 16 div 16 = q div 256" "q div 4096 = q div 256 div 16"
    by (simp_all add: div_mult2_eq [symmetric])
  have s: "q mod (c * e) div c = q div c mod e" if "0 < c" for c e :: nat
    unfolding mod_mult2_eq using that by simp
  have m: "q mod 256 div 64 = q div 64 mod 4" "q mod 256 div 16 = q div 16 mod 16"
    using s [of 64 4] s [of 16 16] by simp_all
  have i: "b div 64 = 1 \<longleftrightarrow> 64 \<le> b \<and> b \<le> 127" for b :: nat
  proof
    assume "b div 64 = 1"
    with mult_div_mod_eq [of 64 b] have "64 + b mod 64 = b" by simp
    then show "64 \<le> b \<and> b \<le> 127" using mod_less_divisor [of 64 b] by linarith
  qed (auto intro: div_nat_eqI)
  show "q div 64 = 401 \<longleftrightarrow> q div 256 = 100 \<and> 64 \<le> q mod 256 \<and> q mod 256 \<le> 127"
    using digits [of 1 4 "q div 64" 100] d(1) i [of "q mod 256"] m(1) by simp
  show "q div 16 = 2753 \<longleftrightarrow> q div 256 = 172 \<and> q mod 256 div 16 = 1"
    using digits [of 1 16 "q div 16" 172] d(2) m(2) by simp
  show "q = 43518 \<longleftrightarrow> q div 256 = 169 \<and> q mod 256 = 254" using digits [of 254 256 q 169] by simp
  show "q = 49320 \<longleftrightarrow> q div 256 = 192 \<and> q mod 256 = 168" using digits [of 168 256 q 192] by simp
  show "q = 0 \<longleftrightarrow> q div 256 = 0 \<and> q mod 256 = 0" using digits [of 0 256 q 0] by simp
  show "q div 4096 = q div 256 div 16" by (rule d)
qed
text \<open>
  C21: For an IPv4 address, in its own form or mapped into IPv6, \<open>IsUnsafeIP\<close> is exactly membership in the blocked
  ranges (0.0.0.0, 10/8, 100.64/10, 127/8, 169.254/16, 172.16/12, 192.168/16, 224/4), and the dialer connects to no
  address of them, whatever the resolver answers.
\<close>

theorem dialer_avoids_blocked_addresses:
  assumes "n < 2 ^ 32" "a = ipv4 n \<or> a = replicate 10 0 @ [255, 255] @ ipv4 n"
  shows "(IsUnsafeIP (Some a) \<longleftrightarrow> blocked n) \<and> (pinnedSafeDial literal resolve host = Inr (Some a) \<longrightarrow> \<not> blocked n)"
proof -
  have to4: "To4 a = Some (ipv4 n)" using assms(2) by (auto simp: To4_def ipv4_def nth_append)
  have unspec: "IsUnspecified a \<longleftrightarrow> ipv4 n = [0, 0, 0, 0]"
  proof -
    have "To4 [0, 0, 0, 0] = Some [0, 0, 0, 0]" "To4 (replicate 16 0) = None" by (simp_all add: To4_def)
    with assms(2) to4 show ?thesis by (auto simp: IsUnspecified_def ip_equal_def ipv4_def)
  qed
  have ilm: "\<not> IsInterfaceLocalMulticast a"
    using assms(2) by (auto simp: IsInterfaceLocalMulticast_def ipv4_def nth_append)
  define q where "q = n div 2 ^ 16"
  have v4: "ipv4 n = [q div 256, q mod 256, n div 2 ^ 8 mod 256, n mod 256]"
    unfolding ipv4_def octets(1) q_def by simp
  have zero: "n = 0 \<longleftrightarrow> q div 256 = 0 \<and> q mod 256 = 0 \<and> n div 2 ^ 8 mod 256 = 0 \<and> n mod 256 = 0"
    unfolding octets(5) [of n] q_def [symmetric] pieces(6) [of q] by auto
  have blocked: "blocked n \<longleftrightarrow> n = 0 \<or> q div 256 = 10 \<or> q div 256 = 127 \<or> q div 64 = 401 \<or> q = 43518 \<or> q div 16 = 2753 \<or>
      q = 49320 \<or> q div 4096 = 14"
    unfolding blocked_def octets(1-4) q_def [symmetric] by simp
  have exact: "IsUnsafeIP (Some a) \<longleftrightarrow> blocked n"
    unfolding blocked pieces(1-5) [of q] zero IsUnsafeIP_def IsLoopback_def IsLinkLocalUnicast_def IsLinkLocalMulticast_def IsMulticast_def
      IsPrivate_def option.case to4 unspec
    unfolding v4 by (auto simp: ilm)
  have "\<not> IsUnsafeIP (Some a)" if "pinnedSafeDial literal resolve host = Inr (Some a)"
    using that by (auto simp: pinnedSafeDial_def list_ex_iff split: sum.splits option.splits if_splits) (metis hd_in_set)
  with exact show ?thesis by blast
qed

lemma dialer_avoids_blocked_addresses_witness:
  "IsUnsafeIP (Some [127, 0, 0, 1]) \<and> \<not> IsUnsafeIP (Some (replicate 10 0 @ [255, 255, 93, 184, 216, 34]))"
proof -
  have n: "ipv4 2130706433 = [127, 0, 0, 1]" "ipv4 1572395042 = [93, 184, 216, 34]" by (simp_all add: ipv4_def)
  have b: "blocked 2130706433" "\<not> blocked 1572395042" by (simp_all add: blocked_def)
  from dialer_avoids_blocked_addresses [of 2130706433 "[127, 0, 0, 1]" "\<lambda>_. None" "\<lambda>_. Inr []" "[]"]
    dialer_avoids_blocked_addresses [of 1572395042 "replicate 10 0 @ [255, 255, 93, 184, 216, 34]" "\<lambda>_. None" "\<lambda>_. Inr []" "[]"] n b
  show ?thesis by simp
qed

end
