(* ===== verification/ApiLaws.thy ===== *)
theory ApiLaws
  imports ApiSecrets LeaseProps
begin

text \<open>
  What the steps of an operation do to the database: an append to the trail adds one row or fails and
  changes nothing; the guard lets a caller through or writes a denial; the frame of everything
  else.
\<close>

section \<open>Texts that fit\<close>

definition plain_text :: "string \<Rightarrow> bool" where
  "plain_text s \<longleftrightarrow> (\<forall>c \<in> set s. 0 < (of_char c :: nat) \<and> (of_char c :: nat) < 128)"

lemma utf8_split_plain: "plain_text s \<Longrightarrow> length s \<le> n \<Longrightarrow> utf8_split n s = Some (map (\<lambda>c. [c]) s)"
proof (induction s arbitrary: n)
  case (Cons c s)
  then obtain m where "n = Suc m" by (cases n) auto
  with Cons show ?case by (simp add: plain_text_def char_len_def)
qed simp

lemma utf8_plain: "plain_text s \<Longrightarrow> utf8_chars s = Some (map (\<lambda>c. [c]) s)"
  by (simp add: utf8_chars_def utf8_split_plain)

lemma text_plain: "plain_text s \<Longrightarrow> text_value s = Inr s"
  by (simp add: text_value_def utf8_plain)

lemma varchar_plain: "plain_text s \<Longrightarrow> length s \<le> n \<Longrightarrow> varchar n s = Inr s"
  by (simp add: varchar_def utf8_plain)

lemma varchar_long: "plain_text s \<Longrightarrow> n < length s \<Longrightarrow> CHR '' '' \<notin> set s \<Longrightarrow> \<exists>e. varchar n s = Inl e"
proof -
  assume s: "plain_text s" "n < length s" "CHR '' '' \<notin> set s"
  have "s ! n \<in> set (drop n s)" using s(2) by (metis Cons_nth_drop_Suc list.set_intros(1))
  moreover have "s ! n \<noteq> CHR '' ''" using s by (metis nth_mem)
  ultimately have "\<not> (\<forall>c \<in> set (drop n (map (\<lambda>c. [c]) s)). c = '' '')" by (auto simp: drop_map)
  then show ?thesis using s by (simp add: varchar_def utf8_plain)
qed

lemma text_value_Inr [simp]: "text_value s = Inr t \<Longrightarrow> t = s"
  by (auto simp: text_value_def split: option.splits)

section \<open>The trail\<close>

text \<open>A row that records an event; a text may have lost trailing spaces to its column.\<close>

definition row_for :: "event \<Rightarrow> string \<Rightarrow> actor \<Rightarrow> audit_row \<Rightarrow> bool" where
  "row_for ev outcome act r \<longleftrightarrow> varchar 50 (ev_action ev) = Inr (a_action r) \<and> a_mrn r = ev_mrn ev
     \<and> a_outcome r = outcome \<and> varchar 255 (ac_subject act) = Inr (a_subject r) \<and> a_version r = ev_version ev"

definition with_row :: "db \<Rightarrow> audit_row \<Rightarrow> db" where
  "with_row s r = s\<lparr>audit_log := audit_log s @ [r], seq := Suc (seq s)\<rparr>"

lemma Append_ok:
  assumes "AppendAuditEvent ev tid sid s = (Inr r, t)"
  shows "t = with_row s r \<and> varchar 50 (ae_action ev) = Inr (a_action r) \<and> a_mrn r = ae_mrn ev
     \<and> varchar 20 (ae_outcome ev) = Inr (a_outcome r) \<and> varchar 255 (ae_subject ev) = Inr (a_subject r)
     \<and> a_version r = ae_version ev \<and> a_secret r = sid \<and> a_tenant r = tid"
proof -
  obtain ev' where c: "audit_columns ev = Inr ev'" and q: "q_exec (audit_error (audit_row_of ev' tid sid s) s)
      (s\<lparr>audit_log := audit_log s @ [audit_row_of ev' tid sid s], seq := Suc (seq s)\<rparr>) (audit_row_of ev' tid sid s) s = (Inr r, t)"
    using assms by (auto simp: AppendAuditEvent_def Let_def split: sum.splits)
  then have r: "r = audit_row_of ev' tid sid s" and t: "t = with_row s r" by (auto simp: q_ok with_row_def)
  show ?thesis using c unfolding t r by (auto simp: audit_columns_def audit_row_of_def)
qed

lemma Append_err: "AppendAuditEvent ev tid sid s = (Inl e, t) \<Longrightarrow> t = s"
  by (auto simp: AppendAuditEvent_def Let_def q_err split: sum.splits)

lemma pure_GetTenant [intro!, simp, pure_rules]: "pure_op (GetTenantByUUID u)"
  by (simp add: GetTenantByUUID_def)

lemma pure_GetSecretByUUID [intro!, simp, pure_rules]: "pure_op (GetSecretByUUID t u)"
  by (simp add: GetSecretByUUID_def)

definition audit_link :: "uuid option \<Rightarrow> uuid option \<Rightarrow> (nat option \<times> nat option) op" where
  "audit_link tu su = (case tu of
      None \<Rightarrow> ret (None, None)
    | Some tu \<Rightarrow>
        bindM (mapErr (mapReadError ''tenant'') (GetTenantByUUID tu)) (\<lambda>tenant.
        case su of
          None \<Rightarrow> ret (Some (t_id tenant), None)
        | Some su \<Rightarrow>
            bindM (tryM (GetSecretByUUID (t_id tenant) su)) (\<lambda>r.
            ret (Some (t_id tenant), case r of Inl _ \<Rightarrow> None | Inr row \<Rightarrow> Some (s_id row)))))"

lemma pure_audit_link [intro!, simp, pure_rules]: "pure_op (audit_link tu su)"
  by (cases tu; cases su) (auto simp: audit_link_def)

lemma RecordAudit_alt: "RecordAudit ev0 =
     (if ae_action ev0 = [] then fail (invalid ''audit action is required'')
      else
        let ev1 = (if ae_kind ev0 = [] then ev0\<lparr>ae_kind := ''service''\<rparr> else ev0);
            ev = (if ae_outcome ev1 = [] then ev1\<lparr>ae_outcome := ''success''\<rparr> else ev1)
        in bindM (audit_link (ae_tenant ev) (ae_secret ev)) (\<lambda>(tid, sid).
           bindM (mapErr (\<lambda>e. InternalError ''append audit event'' (DbCause e)) (AppendAuditEvent ev tid sid)) (\<lambda>_.
           ret ())))"
  unfolding RecordAudit_def audit_link_def by (rule refl)

lemma audit_link_secret:
  assumes "audit_link (Some tu) (Some su) s = (Inr (tid, sid), t)" "r \<in> set (secrets s)" "s_uuid r = su" "live_secret r"
    and "\<And>tn. tn \<in> set (tenants s) \<Longrightarrow> t_uuid tn = tu \<Longrightarrow> live_tenant tn \<Longrightarrow> t_id tn = s_tenant r"
    and "distinct (map s_uuid (secrets s))"
  shows "sid = Some (s_id r)"
proof -
  obtain tn u where tn: "GetTenantByUUID tu s = (Inr tn, u)"
      "bindM (tryM (GetSecretByUUID (t_id tn) su)) (\<lambda>r. ret (Some (t_id tn), case r of Inl _ \<Rightarrow> None | Inr row \<Rightarrow> Some (s_id row))) u
         = (Inr (tid, sid), t)"
    using assms(1) by (auto simp: audit_link_def run_ok)
  have u: "u = s" "t_id tn = s_tenant r" using tn(1) assms(5) [of tn] by (auto simp: GetTenantByUUID_def q_ok dest!: filter_Cons_in)
  have "filter (\<lambda>x. s_tenant x = s_tenant r \<and> s_uuid x = su \<and> live_secret x) (secrets s) = [r]"
    using assms(3,4) by (intro filter_unique_sub [OF assms(6,2)]) simp_all
  then have "GetSecretByUUID (t_id tn) su s = (Inr r, s)" by (simp add: GetSecretByUUID_def q_one_def u)
  with tn(2) show ?thesis by (simp add: u bindM_def tryM_def ret_def)
qed

lemma RecordAudit_ok:
  assumes "RecordAudit ev s = (Inr u, t)" "ae_kind ev \<noteq> []" "ae_outcome ev \<in> {''success'', ''denied'', ''error''}"
  shows "\<exists>r tid sid. t = with_row s r \<and> audit_link (ae_tenant ev) (ae_secret ev) s = (Inr (tid, sid), s)
     \<and> varchar 50 (ae_action ev) = Inr (a_action r) \<and> a_mrn r = ae_mrn ev \<and> a_outcome r = ae_outcome ev
     \<and> varchar 255 (ae_subject ev) = Inr (a_subject r) \<and> a_version r = ae_version ev \<and> a_secret r = sid"
proof -
  obtain tid sid r where l: "audit_link (ae_tenant ev) (ae_secret ev) s = (Inr (tid, sid), s)"
    and a: "AppendAuditEvent ev tid sid s = (Inr r, t)"
    using assms unfolding RecordAudit_alt
    by (auto simp: run_ok pure_run [OF pure_audit_link] split: if_splits)
  have "varchar 20 (ae_outcome ev) = Inr (ae_outcome ev)"
    using assms(3) by (intro varchar_plain) (auto simp: plain_text_def)
  then show ?thesis using Append_ok [OF a] l by auto
qed

lemma RecordAudit_err: "RecordAudit ev s = (Inl e, t) \<Longrightarrow> t = s"
  unfolding RecordAudit_alt
  by (auto simp: run_ok run_err pure_run [OF pure_audit_link] Let_def split: if_splits dest: Append_err)

lemma Record_ok:
  assumes "Record aud act ev s = (Inr u, t)" "ev_outcome ev \<in> {''success'', ''denied'', ''error''}"
  shows "aud \<and> (\<exists>r tid. t = with_row s r \<and> row_for ev (ev_outcome ev) act r
     \<and> audit_link (ev_tenant ev) (ev_secret ev) s = (Inr (tid, a_secret r), s))"
proof -
  from assms have *: "aud" and run: "RecordAudit \<lparr>ae_tenant = ev_tenant ev, ae_subject = ac_subject act,
         ae_kind = (if ac_kind act = [] then ''service'' else ac_kind act),
         ae_action = ev_action ev, ae_mrn = ev_mrn ev, ae_secret = ev_secret ev, ae_version = ev_version ev,
         ae_outcome = ev_outcome ev, ae_reason = ev_reason ev, ae_agent = ac_agent act, ae_request = ac_request act,
         ae_metadata = ev_metadata ev\<rparr> s = (Inr u, t)"
    by (auto simp: Record_def run_ok split: if_splits)
  have "(if ac_kind act = [] then ''service'' else ac_kind act) \<noteq> []" by simp
  with RecordAudit_ok [OF run] assms(2) * show ?thesis by (auto simp: row_for_def)
qed

lemma Record_err: "Record aud act ev s = (Inl e, t) \<Longrightarrow> t = s"
  by (auto simp: Record_def run_ok run_err split: if_splits dest: RecordAudit_err)

section \<open>The steps\<close>

lemma onDb_run: "onDb m w = (r, w') \<longleftrightarrow> (\<exists>t. m (w_db w) = (r, t) \<and> w' = w\<lparr>w_db := t\<rparr>)"
  by (auto simp: onDb_def split: prod.splits)

lemma callStore_ok: "callStore m w = (Inr x, w') \<longleftrightarrow> (\<exists>t. m (w_db w) = (Inr x, t) \<and> w' = w\<lparr>w_db := t\<rparr>)"
  by (auto simp: callStore_def onDb_run run_ok)

lemma callStore_err: "callStore m w = (Inl e, w') \<longleftrightarrow> (\<exists>d t. e = AppErr d \<and> m (w_db w) = (Inl d, t) \<and> w' = w\<lparr>w_db := t\<rparr>)"
  by (auto simp: callStore_def onDb_run run_err)

text \<open>A trail that grew, and nothing else changed.\<close>

definition add_rows :: "world \<Rightarrow> audit_row list \<Rightarrow> world" where
  "add_rows w rs = w\<lparr>w_db := (w_db w)\<lparr>audit_log := audit_log (w_db w) @ rs, seq := seq (w_db w) + length rs\<rparr>\<rparr>"

lemma add_rows_Nil [simp]: "add_rows w [] = w"
  by (simp add: add_rows_def)

lemma add_rows_add [simp]: "add_rows (add_rows w rs) qs = add_rows w (rs @ qs)"
  by (simp add: add_rows_def)

lemma add_rows_sel [simp]: "w_notes (add_rows w rs) = w_notes w"
  "audit_log (w_db (add_rows w rs)) = audit_log (w_db w) @ rs"
  by (simp_all add: add_rows_def)

lemma with_row_add: "w\<lparr>w_db := with_row (w_db w) r\<rparr> = add_rows w [r]"
  by (simp add: add_rows_def with_row_def)

lemma guard_ok: "guard s c p a m w = (Inr u, w') \<longleftrightarrow> ap_auditor s \<and> c_allows c p m \<and> w' = w"
  by (auto simp: guard_def run_ok)

lemma Record_tried:
  "bindM (tryM (Record aud act ev)) (\<lambda>_. ret ()) s = (r, t) \<Longrightarrow> ev_outcome ev \<in> {''success'', ''denied'', ''error''} \<Longrightarrow>
   r = Inr () \<and> (t = s \<or> (\<exists>row. t = with_row s row \<and> row_for ev (ev_outcome ev) act row))"
  by (cases "Record aud act ev s"; cases "fst (Record aud act ev s)")
    (auto simp: bindM_def tryM_def ret_def dest: Record_ok Record_err)

lemma guard_err:
  assumes "guard s c p a m w = (Inl e, w')" "ap_auditor s"
  shows "\<not> c_allows c p m \<and> e = AppErr (ForbiddenError (''requires permission '' @ p @ '' on '' @ m))
     \<and> (w' = w \<or> (\<exists>r. w' = add_rows w [r] \<and> a_outcome r = ''denied'' \<and> a_mrn r = m \<and> varchar 50 a = Inr (a_action r)))"
proof -
  have n: "\<not> c_allows c p m" using assms by (auto simp: guard_def ret_def split: if_splits)
  let ?ev = "(plain_event a m)\<lparr>ev_tenant := tenantPtr c, ev_reason := ReasonText (''missing permission '' @ p)\<rparr>"
  obtain r t where "RecordDenied (ap_auditor s) (c_actor c) ?ev (w_db w) = (r, t)" by fastforce
  then have "r = Inr () \<and> (t = w_db w \<or> (\<exists>row. t = with_row (w_db w) row
      \<and> row_for (?ev\<lparr>ev_outcome := ''denied''\<rparr>) ''denied'' (c_actor c) row))"
    and g: "e = AppErr (ForbiddenError (''requires permission '' @ p @ '' on '' @ m))" "w' = w\<lparr>w_db := t\<rparr>"
    using Record_tried [of "ap_auditor s" "c_actor c" "?ev\<lparr>ev_outcome := ''denied''\<rparr>" "w_db w" r t] assms n
    by (auto simp: RecordDenied_def guard_def bindM_def onDb_def fail_def split: sum.splits)
  then show ?thesis using n by (auto simp: with_row_add row_for_def plain_event_def)
qed

section \<open>The outcome of an operation in the trail\<close>

definition success_row :: "string \<Rightarrow> string \<Rightarrow> audit_row \<Rightarrow> bool" where
  "success_row action m r \<longleftrightarrow> a_outcome r = ''success'' \<and> a_mrn r = m \<and> varchar 50 action = Inr (a_action r)"

definition error_row :: "string \<Rightarrow> string \<Rightarrow> audit_row \<Rightarrow> bool" where
  "error_row action m r \<longleftrightarrow> a_outcome r = ''error'' \<and> a_mrn r = m \<and> varchar 50 action = Inr (a_action r)"

definition denied_row :: "string \<Rightarrow> string \<Rightarrow> audit_row \<Rightarrow> bool" where
  "denied_row action m r \<longleftrightarrow> a_outcome r = ''denied'' \<and> a_mrn r = m \<and> varchar 50 action = Inr (a_action r)"

lemma guard_denied:
  assumes "guard s c p a m w = (Inl e, w')" "ap_auditor s"
  obtains rs where "\<not> c_allows c p m" "w' = add_rows w rs" "length rs \<le> 1" "\<forall>r \<in> set rs. denied_row a m r"
proof -
  have *: "w' = w \<or> (\<exists>r. w' = add_rows w [r] \<and> denied_row a m r)"
    using guard_err [OF assms] by (auto simp: denied_row_def)
  show thesis
  proof (cases "w' = w")
    case True
    with guard_err [OF assms] that [of "[]"] show thesis by simp
  next
    case False
    with * obtain r where "w' = add_rows w [r]" "denied_row a m r" by auto
    with guard_err [OF assms] that [of "[r]"] show thesis by simp
  qed
qed

lemma recordSuccess_ok:
  assumes "recordSuccess s c ev w = (Inr u, w')"
  obtains r where "w' = add_rows w [r]" "success_row (ev_action ev) (ev_mrn ev) r" "a_version r = ev_version ev"
    "varchar 255 (ac_subject (c_actor c)) = Inr (a_subject r)"
    "\<exists>tid. audit_link (tenantPtr c) (ev_secret ev) (w_db w) = (Inr (tid, a_secret r), w_db w)"
proof -
  obtain t where t: "Record (ap_auditor s) (c_actor c) (ev\<lparr>ev_tenant := tenantPtr c, ev_outcome := ''success''\<rparr>) (w_db w) = (Inr u, t)"
      "w' = w\<lparr>w_db := t\<rparr>"
    using assms by (auto simp: recordSuccess_def onDb_run run_ok split: if_splits)
  obtain r tid where r: "t = with_row (w_db w) r" "row_for (ev\<lparr>ev_tenant := tenantPtr c, ev_outcome := ''success''\<rparr>) ''success'' (c_actor c) r"
      "audit_link (tenantPtr c) (ev_secret ev) (w_db w) = (Inr (tid, a_secret r), w_db w)"
    using Record_ok [OF t(1)] by auto
  show thesis
    by (rule that [of r]) (use t r in \<open>auto simp: with_row_add row_for_def success_row_def\<close>)
qed

lemma recordSuccess_err: "recordSuccess s c ev w = (Inl e, w') \<Longrightarrow> w' = w"
  by (auto simp: recordSuccess_def onDb_run run_err run_ok split: if_splits dest!: Record_err)

lemma recordFailure_run:
  assumes "recordFailure s c a m e w = (r, w')"
  shows "r = Inr () \<and> (\<exists>rs. w' = add_rows w rs \<and> length rs \<le> 1 \<and> (\<forall>r \<in> set rs. error_row a m r))"
proof (cases "ap_auditor s")
  case False
  then have "w' = add_rows w []" "r = Inr ()" using assms by (simp_all add: recordFailure_def ret_def)
  then show ?thesis by (intro conjI exI [of _ "[]"]) simp_all
next
  case True
  let ?ev = "(plain_event a m)\<lparr>ev_tenant := tenantPtr c, ev_reason := redactedReason e, ev_outcome := ''error''\<rparr>"
  obtain q :: "api_error + unit" and t
    where q: "bindM (tryM (Record (ap_auditor s) (c_actor c) ?ev)) (\<lambda>_. ret ()) (w_db w) = (q, t)" by fastforce
  then have *: "r = q" "w' = w\<lparr>w_db := t\<rparr>"
    using assms True by (auto simp: recordFailure_def RecordError_def onDb_def)
  from Record_tried [OF q] have "q = Inr ()" "t = w_db w \<or> (\<exists>row. t = with_row (w_db w) row \<and> row_for ?ev ''error'' (c_actor c) row)"
    by simp_all
  then consider "w' = add_rows w []" | row where "w' = add_rows w [row]" "row_for ?ev ''error'' (c_actor c) row"
    using * by (auto simp: with_row_add)
  then show ?thesis
  proof cases
    case 1
    with * \<open>q = Inr ()\<close> show ?thesis by (intro conjI exI [of _ "[]"]) simp_all
  next
    case 2
    with * \<open>q = Inr ()\<close> show ?thesis
      by (intro conjI exI [of _ "[row]"]) (simp_all add: row_for_def error_row_def plain_event_def)
  qed
qed

lemma recordFailure_Inr: "recordFailure s c a m e w = (Inr (), snd (recordFailure s c a m e w))"
  using recordFailure_run by (cases "recordFailure s c a m e w") auto

lemma recorded_run: "recorded s c a m n w =
    (case n w of (Inr x, u) \<Rightarrow> (Inr x, u) | (Inl e, u) \<Rightarrow> (Inl e, snd (recordFailure s c a m e u)))"
proof (cases "n w")
  case (Pair r u)
  show ?thesis
  proof (cases r)
    case (Inl e)
    have "bindM (recordFailure s c a m e) (\<lambda>_. fail e) u = (Inl e, snd (recordFailure s c a m e u))"
      by (subst bindM_def, subst recordFailure_Inr) (simp add: fail_def)
    with Pair Inl show ?thesis by (simp add: recorded_def bindM_def tryM_def)
  qed (use Pair in \<open>simp add: recorded_def bindM_def tryM_def ret_def\<close>)
qed

lemma recorded_ok: "recorded s c a m n w = (Inr x, w') \<longleftrightarrow> n w = (Inr x, w')"
  by (auto simp: recorded_run split: prod.splits sum.splits)

lemma recorded_err:
  assumes "recorded s c a m n w = (Inl e, w')"
  obtains u rs where "n w = (Inl e, u)" "w' = add_rows u rs" "length rs \<le> 1" "\<forall>r \<in> set rs. error_row a m r"
proof -
  obtain u where "n w = (Inl e, u)" "w' = snd (recordFailure s c a m e u)"
    using assms by (auto simp: recorded_run split: prod.splits sum.splits)
  moreover have "recordFailure s c a m e u = (Inr (), snd (recordFailure s c a m e u))" by (rule recordFailure_Inr)
  ultimately show thesis using recordFailure_run that by metis
qed

lemma checked_run: "checked fs w = (Inr u, w') \<longleftrightarrow> validate fs = Inr () \<and> w' = w"
  by (auto simp: checked_def run_ok mapL_def split: sum.splits)

lemma checked_err: "checked fs w = (Inl e, w') \<Longrightarrow> w' = w"
  by (auto simp: checked_def liftR_def mapL_def split: sum.splits)

lemma pure_ResolveScopeNames [intro!, simp, pure_rules]: "pure_op (ResolveScopeNames u p e)"
  by (auto simp: ResolveScopeNames_def GetProjectBySlug_def)

lemma pure_SecretMRN [intro!, simp, pure_rules]: "pure_op (SecretMRN ref)"
  by (auto simp: SecretMRN_def)

lemma pure_onDb: "pure_op m \<Longrightarrow> pure_op (onDb m)"
  by (auto simp: pure_op_def onDb_def split: prod.splits)

lemma pure_secretMRN [intro!, simp, pure_rules]: "pure_op (secretMRN ref)"
  by (simp add: secretMRN_def pure_onDb)

lemma secretMRN_run: "secretMRN ref w = (Inr m, w') \<longleftrightarrow> w' = w \<and> SecretMRN ref (w_db w) = (Inr m, w_db w)"
  by (auto simp: secretMRN_def onDb_run pure_run [OF pure_SecretMRN])

end
