(* ===== verification/RevealLaws.thy ===== *)
theory RevealLaws
  imports ApiLaws ImportProps
begin

text \<open>
  What a reveal that succeeds did: every secret it read, itself or through a reference, was granted to
  the caller and has its row in the trail; the trail and the leases are all that changed. A reference
  read skips the lease of its target.
\<close>

section \<open>What a read may change\<close>

text \<open>All but the leases, the trail, and the transaction's settings.\<close>

definition same_data :: "db \<Rightarrow> db \<Rightarrow> bool" where
  "same_data s t \<longleftrightarrow> tenants t = tenants s \<and> projects t = projects s \<and> environments t = environments s
     \<and> folders t = folders s \<and> secrets t = secrets s \<and> versions t = versions s \<and> root_keys t = root_keys s
     \<and> transit_keys t = transit_keys s \<and> transit_versions t = transit_versions s \<and> scope_imports t = scope_imports s"

lemma same_data_refl [simp]: "same_data s s"
  by (simp add: same_data_def)

lemma same_data_trans: "same_data s t \<Longrightarrow> same_data t u \<Longrightarrow> same_data s u"
  by (simp add: same_data_def)

lemma same_data_rows [simp]: "same_data s (w_db (add_rows w rs)) = same_data s (w_db w)"
  by (simp add: same_data_def add_rows_def)

definition same_but_leases :: "db \<Rightarrow> db \<Rightarrow> bool" where
  "same_but_leases s t \<longleftrightarrow> same_data s t \<and> audit_log t = audit_log s"

lemma same_but_leases_update [simp]:
  "same_but_leases a (s\<lparr>secret_leases := ls\<rparr>) = same_but_leases a s"
  "same_but_leases a (s\<lparr>seq := n\<rparr>) = same_but_leases a s"
  "same_but_leases a (s\<lparr>guc_delete := x\<rparr>) = same_but_leases a s"
  "same_but_leases a (s\<lparr>guc_rewrap := x\<rparr>) = same_but_leases a s"
  "same_but_leases a (s\<lparr>guc_transit := x\<rparr>) = same_but_leases a s"
  by (simp_all add: same_but_leases_def same_data_def)

lemma update_leases_same [keeps_rules]: "keeps (same_but_leases a) (update_leases P f)"
  by (auto simp: keeps_def update_leases_def Let_def q_exec_def split: option.splits)

lemma lease_queries_same [keeps_rules]:
  "keeps (same_but_leases a) (ConsumeSecretLease lid)" "keeps (same_but_leases a) (RevokeSecretLease reason lid)"
  "keeps (same_but_leases a) (CreateSecretLease tid sid m req knd ex mr)"
  using update_leases_same
  by (auto simp: keeps_def ConsumeSecretLease_def RevokeSecretLease_def CreateSecretLease_def Let_def q_exec_def
      split: option.splits if_splits)

lemma InTx_same [keeps_rules]: "keeps (same_but_leases a) m \<Longrightarrow> keeps (same_but_leases a) (InTx m)"
  by (fastforce simp: keeps_def InTx_def split: prod.splits sum.splits)

lemma lease_decide_same [keeps_rules]: "keeps (same_but_leases a) (lease_decide svc row lp ttl requester knd m ex)"
  unfolding lease_decide_def issue_lease_def consume_lease_def
  by (auto intro!: keeps_rules split: prod.splits option.splits decision.splits)

lemma authorize_same [keeps_rules]: "keeps (same_but_leases a) (AuthorizeLeasedRead svc ref requester knd m req)"
  unfolding AuthorizeLeasedRead_def lease_tx_def Let_def
  by (auto intro!: keeps_rules split: prod.splits option.splits sum.splits)

lemma authorize_frame: "AuthorizeLeasedRead svc ref requester knd m req s = (r, t) \<Longrightarrow> same_data s t \<and> audit_log t = audit_log s"
  using keepsD [OF authorize_same, of svc ref requester knd m req s r t s] by (simp add: same_but_leases_def)

section \<open>References\<close>

text \<open>The row of one hop, and the grant that allowed it.\<close>

definition hop_row :: "caller \<Rightarrow> string \<Rightarrow> audit_row \<Rightarrow> bool" where
  "hop_row c h r \<longleftrightarrow> c_allows c ''secret:GetSecret'' h \<and> success_row ''secret.reference'' h r"

definition audited_hops :: "caller \<Rightarrow> world \<Rightarrow> string list \<Rightarrow> world \<Rightarrow> bool" where
  "audited_hops c w hops w' \<longleftrightarrow> (\<exists>rs. w' = add_rows w rs \<and> list_all2 (hop_row c) hops rs)"

lemma audited_Nil [simp]: "audited_hops c w [] w"
  by (auto simp: audited_hops_def intro: exI [of _ "[]"])

lemma audited_append: "audited_hops c u hs v \<Longrightarrow> audited_hops c v hs' w \<Longrightarrow> audited_hops c u (hs @ hs') w"
  unfolding audited_hops_def using list_all2_appendI by fastforce

lemma callStore_pure: "pure_op m \<Longrightarrow> callStore m w = (Inr x, w') \<longleftrightarrow> w' = w \<and> m (w_db w) = (Inr x, w_db w)"
  by (auto simp: callStore_ok pure_run [of m])

lemma pure_getVersion [intro!, simp, pure_rules]: "pure_op (getVersion svc ref n)"
  by (auto simp: getVersion_def secret_at_def GetSecretByAddress_def GetLatestSecretVersion_def GetSecretVersionRow_def
      intro!: pure_rules split: prod.splits)

lemma pure_GetSecret [intro!, simp, pure_rules]: "pure_op (GetSecret svc ref)" "pure_op (GetSecretVersion svc ref n)"
  by (simp_all add: GetSecret_def GetSecretVersion_def)

lemma resolveOneReference_ok:
  assumes "resolveOneReference s c inner chain depth a w = (Inr (val, hs), w')"
    and inner: "\<And>t ch v w hs w'. inner t ch w = (Inr (v, hs), w') \<Longrightarrow> audited_hops c w hs w'"
  shows "audited_hops c w hs w'"
proof -
  obtain project environment path key where "SplitReferencePath a = Some (project, environment, path, key)"
    using assms(1) by (cases "SplitReferencePath a") (auto simp: resolveOneReference_def fail_def)
  then obtain ref target where t: "secretMRN ref w = (Inr target, w)" "target \<notin> set chain"
    and run: "bindM (guard s c ''secret:GetSecret'' ''secret.reference'' target) (\<lambda>_.
            bindM (recorded s c ''secret.reference'' target (callStore (GetSecret (ap_store s) ref))) (\<lambda>revealed.
            bindM (recordSuccess s c (success_event ''secret.reference'' target
                (Some (m_uuid (rv_meta revealed))) (Some (rv_version revealed))
                [(''referrer'', JStr (last chain)), (''hop'', JNum (depth + 1)), (''value_type'', JStr (rv_type revealed))])) (\<lambda>_.
            if rv_type revealed \<noteq> ''reference'' then ret (string_of (rv_value revealed), [target])
            else bindM (inner (string_of (rv_value revealed)) (chain @ [target])) (\<lambda>(val, hs).
              ret (val, target # hs))))) w = (Inr (val, hs), w')"
    using assms(1) by (auto simp: resolveOneReference_def Let_def bindM_ok [of "secretMRN _"] secretMRN_run fail_def split: if_splits)
  let ?ev = "\<lambda>v. success_event ''secret.reference'' target (Some (m_uuid (rv_meta v))) (Some (rv_version v))
      [(''referrer'', JStr (last chain)), (''hop'', JNum (depth + 1)), (''value_type'', JStr (rv_type v))]"
  from run obtain v :: revealed and u x where g: "c_allows c ''secret:GetSecret'' target" "recordSuccess s c (?ev v) w = (Inr x, u)"
      "(if rv_type v \<noteq> ''reference'' then ret (string_of (rv_value v), [target])
        else bindM (inner (string_of (rv_value v)) (chain @ [target])) (\<lambda>(val, hs). ret (val, target # hs))) u = (Inr (val, hs), w')"
    unfolding bindM_ok guard_ok recorded_ok callStore_pure [OF pure_GetSecret(1)]
    by clarify (rule that; assumption)
  obtain r where r: "u = add_rows w [r]" "success_row ''secret.reference'' target r"
    by (rule recordSuccess_ok [OF g(2)]) (simp add: success_event_def plain_event_def)
  then have one: "audited_hops c w [target] u"
    using g(1) by (auto simp: audited_hops_def hop_row_def intro!: exI [of _ "[r]"])
  from g(3) consider "hs = [target]" "w' = u" | v' hs' t ch where "hs = target # hs'" "inner t ch u = (Inr (v', hs'), w')"
    by (auto simp: run_ok split: if_splits)
  then show ?thesis
  proof cases
    case 2
    from audited_append [OF one inner [OF 2(2)]] 2(1) show ?thesis by simp
  qed (use one in simp)
qed

lemma expand_pieces_ok:
  assumes "\<And>a v hs w w'. resolve a w = (Inr (v, hs), w') \<Longrightarrow> audited_hops c w hs w'"
  shows "expand_pieces resolve e ps out hops w = (Inr (val, hs), w') \<Longrightarrow> \<exists>new. hs = hops @ new \<and> audited_hops c w new w'"
proof (induction ps arbitrary: out hops w)
  case Nil
  then show ?case by (cases e) (auto simp: ret_def fail_def)
next
  case (Cons p ps)
  obtain before a where p: "p = (before, a)" by (cases p)
  from Cons.prems obtain v h u where v: "resolve a w = (Inr (v, h), u)"
      "expand_pieces resolve e ps (out @ before @ v) (hops @ h) u = (Inr (val, hs), w')"
    by (auto simp: p run_ok split: prod.splits)
  from Cons.IH [OF v(2)] obtain new where "hs = (hops @ h) @ new" "audited_hops c u new w'" by auto
  with audited_append [OF assms [OF v(1)]] show ?case by (intro exI [of _ "h @ new"]) simp
qed

lemma expand_ok: "expand n s c depth template chain w = (Inr (val, hs), w') \<Longrightarrow> audited_hops c w hs w'"
proof (induction n arbitrary: depth template chain w val hs w')
  case 0
  then show ?case by (simp add: fail_def)
next
  case (Suc n)
  obtain ps e where "template_pieces template = (ps, e)" by fastforce
  with Suc.prems have "expand_pieces (resolveOneReference s c (expand n s c (depth + 1)) chain depth) e ps [] [] w
      = (Inr (val, hs), w')" by simp
  from expand_pieces_ok [OF _ this, of c] show ?case
    using resolveOneReference_ok Suc.IH by fastforce
qed

lemma resolveReferences_ok: "resolveReferences s c origin raw w = (Inr (val, hs), w') \<Longrightarrow> audited_hops c w hs w'"
  by (auto simp: resolveReferences_def run_ok split: prod.splits dest: expand_ok)

section \<open>The reveal\<close>

lemma pure_describes [intro!, simp, pure_rules]: "pure_op (describes s c addr)"
  by (auto simp: describes_def DescribeSecret_def secret_at_def GetSecretByAddress_def intro!: pure_onDb pure_rules)

lemma describes_run: obtains r where "describes s c addr w = (Inr r, w)"
proof -
  obtain r t where "DescribeSecret (ap_store s) (address_ref c addr) (w_db w) = (r, t)" by fastforce
  then have "describes s c addr w = (Inr r, w\<lparr>w_db := t\<rparr>)" by (simp add: describes_def onDb_def tryM_def)
  with pure_opD [OF pure_describes this] that show thesis by simp
qed

lemma pure_import_candidates [intro!, simp, pure_rules]: "pure_op (import_candidates s c key srcs)"
  by (induction srcs) (auto simp: Let_def split: sum.splits)

lemma pure_callStore [intro!, pure_rules]: "pure_op m \<Longrightarrow> pure_op (callStore m)"
  by (auto simp: callStore_def intro!: pure_onDb)

lemma pure_chain_frontier [intro!, simp, pure_rules]: "pure_op (chain_frontier tid fs w)"
  by (induction tid fs w rule: chain_frontier.induct) auto

lemma pure_chain_levels [intro!, simp, pure_rules]: "pure_op (chain_levels tid n visited frontier out)"
proof (induction n arbitrary: visited frontier out)
  case (Suc n)
  then show ?case by (auto intro!: pure_bindM split: prod.splits)
qed simp

lemma pure_resolveThroughImports [intro!, simp, pure_rules]: "pure_op (resolveThroughImports s c addr)"
  by (auto simp: resolveThroughImports_def ImportChainFor_def ResolveImportChain_def intro!: pure_callStore split: sum.splits)

lemma import_candidates_mrn: "import_candidates s c key srcs w = (Inr x, w') \<Longrightarrow>
    SecretMRN (address_ref c (ra_addr x)) (w_db w) = (Inr (ra_mrn x), w_db w)"
proof (induction srcs)
  case (Cons src srcs)
  let ?a = "\<lparr>sa_project = is_project src, sa_env = is_environment src, sa_folder = is_folder src, sa_key = key\<rparr>"
  obtain r where r: "describes s c ?a w = (Inr r, w)" by (rule describes_run)
  show ?case
  proof (cases r)
    case (Inl e)
    with r Cons show ?thesis by (auto simp: Let_def bindM_def fail_def split: if_splits)
  next
    case (Inr d)
    with r Cons.prems show ?thesis by (auto simp: Let_def bindM_def run_ok secretMRN_run split: prod.splits sum.splits dest!: secretMRN_run [THEN iffD1])
  qed
qed (simp add: fail_def)

lemma resolveThroughImports_mrn:
  assumes "resolveThroughImports s c addr w = (Inr x, w')"
  shows "w' = w" "SecretMRN (address_ref c (ra_addr x)) (w_db w) = (Inr (ra_mrn x), w_db w)"
proof -
  show "w' = w" using pure_opD [OF pure_resolveThroughImports assms] .
  obtain own and r :: "apperr + secret_meta"
    where own: "secretMRN (address_ref c addr) w = (Inr own, w)" and k: "(case r of Inr _ \<Rightarrow> ret \<lparr>ra_addr = addr, ra_mrn = own, ra_from = []\<rparr>
       | Inl e \<Rightarrow>
           if \<not> IsNotFound e then fail (AppErr e)
           else bindM (callStore (ImportChainFor (c_tenant c) (sa_project addr) (sa_env addr) (sa_folder addr))) (\<lambda>sources.
             import_candidates s c (sa_key addr) sources)) w = (Inr x, w')"
  proof -
    obtain r where "describes s c addr w = (Inr r, w)" by (rule describes_run)
    with assms that show thesis
      unfolding resolveThroughImports_def bindM_ok secretMRN_run by auto
  qed
  show "SecretMRN (address_ref c (ra_addr x)) (w_db w) = (Inr (ra_mrn x), w_db w)"
  proof (cases r)
    case (Inr d)
    with k own show ?thesis by (auto simp: ret_def secretMRN_run)
  next
    case (Inl e)
    with k obtain srcs u where "callStore (ImportChainFor (c_tenant c) (sa_project addr) (sa_env addr) (sa_folder addr)) w = (Inr srcs, u)"
        "import_candidates s c (sa_key addr) srcs u = (Inr x, w')"
      by (auto simp: bindM_ok fail_def split: if_splits)
    moreover from this have "u = w"
      by (intro pure_opD [OF pure_callStore]) (auto simp: ImportChainFor_def ResolveImportChain_def)
    ultimately show ?thesis using import_candidates_mrn by blast
  qed
qed

lemma enforceReadLease_ok:
  assumes "enforceReadLease s c ref m w = (Inr d, w')"
  obtains ls where "same_data (w_db w) (w_db w')" "audit_log (w_db w') = audit_log (w_db w) @ ls" "w_notes w' = w_notes w"
    "length ls \<le> 1" "\<forall>r \<in> set ls. success_row ''lease.issue'' m r"
proof -
  obtain r t where a: "AuthorizeLeasedRead (ap_store s) ref (ac_subject (c_actor c)) (ac_kind (c_actor c)) m 0 (w_db w) = (r, t)"
    by fastforce
  have one: "onDb (tryM (AuthorizeLeasedRead (ap_store s) ref (ac_subject (c_actor c)) (ac_kind (c_actor c)) m 0)) w
      = (Inr r, w\<lparr>w_db := t\<rparr>)" by (simp add: onDb_def tryM_def a)
  note fr = authorize_frame [OF a]
  obtain dec where dec: "r = Inr dec" using assms one
    by (cases r) (auto simp: enforceReadLease_def bindM_def [of "onDb (tryM _)"] bindM_ok fail_def split: lease_error.splits)
  let ?u = "w\<lparr>w_db := t\<rparr>"
  have k: "(if \<not> Governed dec then ret None
         else bindM (case (Issued dec, DecidedLease dec) of
               (True, Some l) \<Rightarrow> recordSuccess s c (success_event ''lease.issue'' m None None (leaseMetadata l))
             | _ \<Rightarrow> ret ()) (\<lambda>_. ret (Some dec))) ?u = (Inr d, w')"
    using assms one dec by (simp add: enforceReadLease_def bindM_def [of "onDb (tryM _)"])
  show thesis
  proof (cases "\<exists>l. Governed dec \<and> Issued dec \<and> DecidedLease dec = Some l")
    case True
    then obtain l where "recordSuccess s c (success_event ''lease.issue'' m None None (leaseMetadata l)) ?u = (Inr (), w')"
      using k by (auto simp: bindM_ok ret_def)
    then obtain row where "w' = add_rows ?u [row]" "success_row ''lease.issue'' m row"
      by (rule recordSuccess_ok) (simp add: success_event_def plain_event_def)
    then show thesis using fr by (intro that [of "[row]"]) simp_all
  next
    case False
    then have "w' = ?u" using k by (auto simp: bindM_ok ret_def split: if_splits bool.splits option.splits)
    then show thesis using fr by (intro that [of "[]"]) simp_all
  qed
qed

definition granted_reveal :: "caller \<Rightarrow> world \<Rightarrow> resolved_address \<Rightarrow> api_revealed \<Rightarrow> audit_row list \<Rightarrow> bool" where
  "granted_reveal c w x out rows \<longleftrightarrow>
     SecretMRN (address_ref c (ra_addr x)) (w_db w) = (Inr (ra_mrn x), w_db w)
     \<and> c_allows c ''secret:GetSecret'' (ra_mrn x)
     \<and> (\<exists>ls rs r. rows = ls @ rs @ [r] \<and> length ls \<le> 1 \<and> (\<forall>l \<in> set ls. success_row ''lease.issue'' (ra_mrn x) l)
        \<and> list_all2 (hop_row c) (ar_hops out) rs
        \<and> success_row ''secret.reveal'' (ra_mrn x) r \<and> a_version r = Some (rv_version (ar_secret out))
        \<and> varchar 255 (ac_subject (c_actor c)) = Inr (a_subject r))"

lemma reveal_resolved_ok:
  assumes run: "reveal_resolved s c ver x w = (Inr out, w')"
    and names: "SecretMRN (address_ref c (ra_addr x)) (w_db w) = (Inr (ra_mrn x), w_db w)"
  shows "\<exists>rows. granted_reveal c w x out rows
     \<and> audit_log (w_db w') = audit_log (w_db w) @ rows \<and> same_data (w_db w) (w_db w') \<and> w_notes w' = w_notes w"
proof -
  let ?ref = "address_ref c (ra_addr x)" and ?m = "ra_mrn x"
  have pure: "pure_op (if ver = 0 then GetSecret (ap_store s) ?ref else GetSecretVersion (ap_store s) ?ref ver)" by simp
  from run obtain u1 :: world and found :: revealed and l val hops u2 d y rv where
      g: "c_allows c ''secret:GetSecret'' ?m"
    and d: "enforceReadLease s c ?ref ?m w = (Inr d, u1)"
    and v: "(if rv_type found = ''reference''
            then recorded s c ''secret.reveal'' ?m (resolveReferences s c ?m (rv_value found))
            else ret (rv_value found, [])) u1 = (Inr (val, hops), u2)"
    and y: "recordSuccess s c (success_event ''secret.reveal'' ?m (Some (m_uuid (rv_meta rv))) (Some (rv_version rv))
            (revealMetadata rv hops x l)) u2 = (Inr y, w')" "out = \<lparr>ar_secret = rv, ar_hops = hops, ar_lease = l\<rparr>"
    unfolding reveal_resolved_def Let_def bindM_ok guard_ok recorded_ok callStore_pure [OF pure]
    by (auto simp: bindM_ok ret_run)
  obtain ls where ls: "same_data (w_db w) (w_db u1)" "audit_log (w_db u1) = audit_log (w_db w) @ ls" "w_notes u1 = w_notes w"
      "length ls \<le> 1" "\<forall>r \<in> set ls. success_row ''lease.issue'' ?m r"
    by (rule enforceReadLease_ok [OF d])
  have "audited_hops c u1 hops u2"
    using v by (auto simp: recorded_ok ret_run dest: resolveReferences_ok split: if_splits)
  then obtain rs where rs: "u2 = add_rows u1 rs" "list_all2 (hop_row c) hops rs" by (auto simp: audited_hops_def)
  obtain r where r: "w' = add_rows u2 [r]" "success_row ''secret.reveal'' ?m r" "a_version r = Some (rv_version rv)"
      "varchar 255 (ac_subject (c_actor c)) = Inr (a_subject r)"
    by (rule recordSuccess_ok [OF y(1)]) (simp add: success_event_def plain_event_def)
  have "granted_reveal c w x out (ls @ rs @ [r])"
    using names g ls(4,5) rs(2) r y(2) unfolding granted_reveal_def by auto
  with ls(1-3) rs(1) r(1) show ?thesis by (intro exI [of _ "ls @ rs @ [r]"]) simp
qed

lemma Reveal_resolved:
  assumes "Reveal s c addr ver w = (Inr out, w')"
  obtains x where "resolveThroughImports s c addr w = (Inr x, w)" "reveal_resolved s c ver x w = (Inr out, w')"
proof -
  obtain x u where x: "resolveThroughImports s c addr w = (Inr x, u)" and k: "reveal_resolved s c ver x u = (Inr out, w')"
    using assms unfolding Reveal_def by (auto simp: bindM_ok checked_run fail_def split: if_splits)
  from resolveThroughImports_mrn(1) [OF x] x k that show thesis by simp
qed

end
