(* ===== verification/Listings.thy ===== *)
theory Listings
  imports Hierarchy Transit Leases "HOL-Library.List_Lexorder" "HOL-Library.Product_Lexorder"
begin

text \<open>
  The paged listings of \<open>internal/store\<close> (\<open>service.go\<close>, \<open>secrets.go\<close>, \<open>transit.go\<close>) and their statements.
  The order of texts is the database's collation: the argument \<open>coll\<close> is its sort key. Rows that the
  statement leaves unordered keep the order of the table.
\<close>

type_synonym collation = "string \<Rightarrow> nat list"

text \<open>The page of a listing, as the statements take it: \<open>int32\<close> of the limit and of the offset.\<close>

definition page_limit :: "int \<Rightarrow> int \<Rightarrow> int" where
  "page_limit page limit = int32 (snd (normalizePage page limit))"

definition page_offset :: "int \<Rightarrow> int \<Rightarrow> int" where
  "page_offset page limit = int32 ((fst (normalizePage page limit) - 1) * snd (normalizePage page limit))"

section \<open>Tenants, projects, environments, folders\<close>

definition ListTenantRows :: "int \<Rightarrow> int \<Rightarrow> tenant list query" where
  "ListTenantRows limit offset = q_page limit offset (\<lambda>s. sort_key (\<lambda>r. - t_created r) (filter live_tenant (tenants s)))"

definition CountTenants :: "nat query" where
  "CountTenants = q_many (\<lambda>s. length (filter live_tenant (tenants s)))"

definition ListTenants :: "int \<Rightarrow> int \<Rightarrow> (tenant_view list \<times> nat) op" where
  "ListTenants page limit =
     bindM (mapErr (\<lambda>e. InternalError ''list tenants'' (DbCause e))
         (ListTenantRows (page_limit page limit) (page_offset page limit))) (\<lambda>rows.
     bindM (mapErr (\<lambda>e. InternalError ''count tenants'' (DbCause e)) CountTenants) (\<lambda>total.
     ret (map toTenant rows, total)))"

definition project_rows :: "nat \<Rightarrow> db \<Rightarrow> project list" where
  "project_rows tid s = filter (\<lambda>r. p_tenant r = tid \<and> live_project r) (projects s)"

definition ListProjectsByTenant :: "collation \<Rightarrow> nat \<Rightarrow> int \<Rightarrow> int \<Rightarrow> project list query" where
  "ListProjectsByTenant coll tid limit offset =
     q_page limit offset (\<lambda>s. sort_key (\<lambda>r. coll (p_slug r)) (project_rows tid s))"

definition CountProjectsByTenant :: "nat \<Rightarrow> nat query" where
  "CountProjectsByTenant tid = q_many (\<lambda>s. length (project_rows tid s))"

definition ListProjects :: "collation \<Rightarrow> uuid \<Rightarrow> int \<Rightarrow> int \<Rightarrow> (project_view list \<times> nat) op" where
  "ListProjects coll tenantUUID page limit =
     bindM (mapErr (mapReadError ''tenant'') (GetTenantByUUID tenantUUID)) (\<lambda>tenant.
     bindM (mapErr (\<lambda>e. InternalError ''list projects'' (DbCause e))
         (ListProjectsByTenant coll (t_id tenant) (page_limit page limit) (page_offset page limit))) (\<lambda>rows.
     bindM (mapErr (\<lambda>e. InternalError ''count projects'' (DbCause e)) (CountProjectsByTenant (t_id tenant))) (\<lambda>total.
     ret (map toProject rows, total))))"

definition ListEnvironmentsByProject :: "collation \<Rightarrow> nat \<Rightarrow> nat \<Rightarrow> environment list query" where
  "ListEnvironmentsByProject coll pid tid = q_many (\<lambda>s.
     sort_key (\<lambda>r. (e_position r, coll (e_slug r)))
       (filter (\<lambda>r. e_project r = pid \<and> live_env r \<and> e_project r \<in> p_id ` set (project_rows tid s)) (environments s)))"

definition ListEnvironments :: "collation \<Rightarrow> uuid \<Rightarrow> string \<Rightarrow> environment_view list op" where
  "ListEnvironments coll tenantUUID project =
     bindM (mapErr (mapReadError ''tenant'') (GetTenantByUUID tenantUUID)) (\<lambda>tenant.
     bindM (mapErr (mapReadError ''project'') (GetProjectBySlug (t_id tenant) project)) (\<lambda>proj.
     bindM (mapErr (\<lambda>e. InternalError ''list environments'' (DbCause e))
         (ListEnvironmentsByProject coll (p_id proj) (t_id tenant))) (\<lambda>rows.
     ret (map toEnvironment rows))))"

definition ListFoldersBySubtree :: "collation \<Rightarrow> nat \<Rightarrow> string \<Rightarrow> nat \<Rightarrow> folder list query" where
  "ListFoldersBySubtree coll eid path tid = q_many (\<lambda>s.
     sort_key (\<lambda>r. coll (f_path r))
       (filter (\<lambda>r. f_env r = eid \<and> in_subtree path (f_path r) \<and> live_folder r \<and> f_env r \<in> set (tenant_env_ids tid s)) (folders s)))"

definition ListFolders :: "collation \<Rightarrow> uuid \<Rightarrow> string \<Rightarrow> string \<Rightarrow> string \<Rightarrow> folder_view list op" where
  "ListFolders coll tenantUUID project environment pre =
     bindM (liftR (checkPath pre)) (\<lambda>normalized.
     bindM (resolveEnvironment tenantUUID project environment) (\<lambda>sc.
     bindM (mapErr (\<lambda>e. InternalError ''list folders'' (DbCause e))
         (ListFoldersBySubtree coll (e_id (sc_env sc)) normalized (t_id (sc_tenant sc)))) (\<lambda>rows.
     ret (map toFolder rows))))"

section \<open>Secrets and their versions\<close>

text \<open>The join of secrets with their folders.\<close>

definition folder_of :: "db \<Rightarrow> secret \<Rightarrow> folder option" where
  "folder_of s r = find (\<lambda>f. f_id f = s_folder r) (folders s)"

definition joined :: "db \<Rightarrow> secret \<Rightarrow> (secret \<times> folder) option" where
  "joined s r = map_option (\<lambda>f. (r, f)) (folder_of s r)"

definition subtree_secrets :: "nat \<Rightarrow> nat \<Rightarrow> string \<Rightarrow> db \<Rightarrow> (secret \<times> folder) list" where
  "subtree_secrets tid eid path s =
     filter (\<lambda>(r, f). s_tenant r = tid \<and> s_env r = eid \<and> in_subtree path (f_path f) \<and> live_secret r \<and> live_folder f)
       (List.map_filter (joined s) (secrets s))"

definition current_type :: "db \<Rightarrow> secret \<Rightarrow> string option" where
  "current_type s r = map_option v_type (find (\<lambda>v. v_version v = s_current r) (versions_of (s_id r) s))"

text \<open>A secret without its current version has no value type: the scan into a \<open>string\<close> fails.\<close>

definition scanned :: "db \<Rightarrow> (secret \<times> folder) list \<Rightarrow> dberr + (secret \<times> folder \<times> string) list" where
  "scanned s rows =
     (if \<exists>(r, f) \<in> set rows. current_type s r = None then Inl (RaisedException ''cannot scan NULL into *string'')
      else Inr (map (\<lambda>(r, f). (r, f, case current_type s r of Some t \<Rightarrow> t | None \<Rightarrow> [])) rows))"

definition ListSecretMetaBySubtree ::
    "collation \<Rightarrow> nat \<Rightarrow> nat \<Rightarrow> string \<Rightarrow> int \<Rightarrow> int \<Rightarrow> (secret \<times> folder \<times> string) list query" where
  "ListSecretMetaBySubtree coll tid eid path limit offset = (\<lambda>s.
     case q_page limit offset (\<lambda>s. sort_key (\<lambda>(r, f). (coll (f_path f), coll (s_key r))) (subtree_secrets tid eid path s)) s of
       (Inl e, t) \<Rightarrow> (Inl e, t)
     | (Inr rows, t) \<Rightarrow> (scanned s rows, t))"

definition CountSecretsInSubtree :: "nat \<Rightarrow> nat \<Rightarrow> string \<Rightarrow> nat query" where
  "CountSecretsInSubtree tid eid path = q_many (\<lambda>s. length (subtree_secrets tid eid path s))"

definition toSecretMeta :: "int \<Rightarrow> secret \<times> folder \<times> string \<Rightarrow> secret_meta" where
  "toSecretMeta defaultKeep = (\<lambda>(r, f, vt). (secretRowToMeta r (f_path f) defaultKeep)\<lparr>m_type := vt\<rparr>)"

definition ListSecrets :: "collation \<Rightarrow> service \<Rightarrow> uuid \<Rightarrow> string \<Rightarrow> string \<Rightarrow> string \<Rightarrow> int \<Rightarrow> int \<Rightarrow>
    (secret_meta list \<times> nat) op" where
  "ListSecrets coll svc tenantUUID project environment pathPrefix page limit =
     bindM (liftR (checkPath pathPrefix)) (\<lambda>pre.
     bindM (resolveEnvironment tenantUUID project environment) (\<lambda>sc.
     bindM (mapErr (\<lambda>e. InternalError ''list secrets'' (DbCause e))
         (ListSecretMetaBySubtree coll (t_id (sc_tenant sc)) (e_id (sc_env sc)) pre
           (page_limit page limit) (page_offset page limit))) (\<lambda>rows.
     bindM (mapErr (\<lambda>e. InternalError ''count secrets'' (DbCause e))
         (CountSecretsInSubtree (t_id (sc_tenant sc)) (e_id (sc_env sc)) pre)) (\<lambda>total.
     ret (map (toSecretMeta (KeepVersions (svc_policy svc))) rows, total)))))"

record version_meta =
  vm_version :: int
  vm_kek :: string
  vm_type :: string
  vm_checksum :: bytes
  vm_created :: instant

definition toVersionMeta :: "version \<Rightarrow> version_meta" where
  "toVersionMeta v = \<lparr>vm_version = v_version v, vm_kek = v_kek v, vm_type = v_type v, vm_checksum = v_checksum v,
     vm_created = v_created v\<rparr>"

definition ListSecretVersionMeta :: "nat \<Rightarrow> int \<Rightarrow> int \<Rightarrow> version list query" where
  "ListSecretVersionMeta sid limit offset = q_page limit offset (versions_desc sid)"

definition ListVersions :: "secret_ref \<Rightarrow> int \<Rightarrow> int \<Rightarrow> (version_meta list \<times> nat) op" where
  "ListVersions ref page limit =
     bindM (resolveAddress ref) (\<lambda>addr.
     bindM (mapErr (mapReadError ''secret'') (GetSecretByAddress (t_id (sc_tenant (ad_scope addr))) (e_id (sc_env (ad_scope addr)))
         (f_id (ad_folder addr)) (ad_key addr))) (\<lambda>row.
     bindM (mapErr (\<lambda>e. InternalError ''list secret versions'' (DbCause e))
         (ListSecretVersionMeta (s_id row) (page_limit page limit) (page_offset page limit))) (\<lambda>rows.
     bindM (mapErr (\<lambda>e. InternalError ''count secret versions'' (DbCause e)) (CountSecretVersions (s_id row))) (\<lambda>total.
     ret (map toVersionMeta rows, total)))))"

text \<open>The deleted secrets of an environment, the folder live or not.\<close>

definition ListDeletedSecretMeta :: "nat \<Rightarrow> nat \<Rightarrow> int \<Rightarrow> int \<Rightarrow> (secret \<times> folder) list query" where
  "ListDeletedSecretMeta tid eid limit offset = q_page limit offset (\<lambda>s.
     sort_key (\<lambda>(r, f). - (case s_deleted r of Some d \<Rightarrow> d | None \<Rightarrow> 0))
       (filter (\<lambda>(r, f). s_tenant r = tid \<and> s_env r = eid \<and> \<not> live_secret r) (List.map_filter (joined s) (secrets s))))"

definition toDeletedSecret :: "secret \<times> folder \<Rightarrow> deleted_secret" where
  "toDeletedSecret = (\<lambda>(r, f). \<lparr>ds_uuid = s_uuid r, ds_folder = f_path f, ds_key = s_key r, ds_current = s_current r,
     ds_deleted = s_deleted r, ds_destroy = s_destroy r\<rparr>)"

definition ListDeletedSecrets :: "uuid \<Rightarrow> string \<Rightarrow> string \<Rightarrow> int \<Rightarrow> int \<Rightarrow> deleted_secret list op" where
  "ListDeletedSecrets tenantUUID project environment page limit =
     bindM (resolveEnvironment tenantUUID project environment) (\<lambda>sc.
     bindM (mapErr (\<lambda>e. InternalError ''list deleted secrets'' (DbCause e))
         (ListDeletedSecretMeta (t_id (sc_tenant sc)) (e_id (sc_env sc)) (page_limit page limit) (page_offset page limit))) (\<lambda>rows.
     ret (map toDeletedSecret rows)))"

section \<open>Transit keys\<close>

definition transit_rows :: "nat \<Rightarrow> nat \<Rightarrow> db \<Rightarrow> transit_key list" where
  "transit_rows tid pid s = filter (\<lambda>k. tk_tenant k = tid \<and> tk_project k = pid \<and> live_transit k) (transit_keys s)"

definition ListTransitKeyMetaByProject :: "collation \<Rightarrow> nat \<Rightarrow> nat \<Rightarrow> int \<Rightarrow> int \<Rightarrow> transit_key list query" where
  "ListTransitKeyMetaByProject coll tid pid limit offset =
     q_page limit offset (\<lambda>s. sort_key (\<lambda>k. coll (tk_name k)) (transit_rows tid pid s))"

definition CountTransitKeysByProject :: "nat \<Rightarrow> nat \<Rightarrow> nat query" where
  "CountTransitKeysByProject tid pid = q_many (\<lambda>s. length (transit_rows tid pid s))"

definition ListTransitKeys :: "collation \<Rightarrow> uuid \<Rightarrow> string \<Rightarrow> int \<Rightarrow> int \<Rightarrow> (transit_view list \<times> nat) op" where
  "ListTransitKeys coll tenantUUID project page limit =
     bindM (resolveProject tenantUUID project) (\<lambda>(tenant, proj).
     bindM (mapErr (\<lambda>e. InternalError ''list transit keys'' (DbCause e))
         (ListTransitKeyMetaByProject coll (t_id tenant) (p_id proj) (page_limit page limit) (page_offset page limit))) (\<lambda>rows.
     bindM (mapErr (\<lambda>e. InternalError ''count transit keys'' (DbCause e))
         (CountTransitKeysByProject (t_id tenant) (p_id proj))) (\<lambda>total.
     ret (map toTransitKey rows, total))))"

definition ListTransitKeyVersionMeta :: "nat \<Rightarrow> int \<Rightarrow> int \<Rightarrow> transit_version list query" where
  "ListTransitKeyVersionMeta kid limit offset = q_page limit offset (\<lambda>s.
     sort_key (\<lambda>v. - tvn_version v) (filter (\<lambda>v. tvn_key v = kid) (transit_versions s)))"

definition CountTransitKeyVersions :: "nat \<Rightarrow> nat query" where
  "CountTransitKeyVersions kid = q_many (\<lambda>s. length (filter (\<lambda>v. tvn_key v = kid) (transit_versions s)))"

definition ListTransitKeyVersions :: "uuid \<Rightarrow> string \<Rightarrow> string \<Rightarrow> int \<Rightarrow> int \<Rightarrow> ((int \<times> string \<times> instant) list \<times> nat) op" where
  "ListTransitKeyVersions tenantUUID project name page limit =
     bindM (transitKeyByName tenantUUID project name) (\<lambda>(row, _).
     bindM (mapErr (\<lambda>e. InternalError ''list transit key versions'' (DbCause e))
         (ListTransitKeyVersionMeta (tk_id row) (page_limit page limit) (page_offset page limit))) (\<lambda>rows.
     bindM (mapErr (\<lambda>e. InternalError ''count transit key versions'' (DbCause e)) (CountTransitKeyVersions (tk_id row))) (\<lambda>total.
     ret (map (\<lambda>v. (tvn_version v, tvn_kek v, tvn_created v)) rows, total))))"

end
