(* ===== verification/ApiSamples.thy ===== *)
theory ApiSamples
  imports RevealLaws SecretProps Listings
begin

text \<open>
  Small inputs of the API layer, on which the properties are instantiated: the service over the
  sample store, a caller whose grants are a list of MRNs, and two secrets, the second a reference to
  the first.
\<close>

definition sample_api :: api_service where
  "sample_api = \<lparr>ap_store = sample_svc, ap_auditor = True, ap_notifier = True, ap_depth = 8, ap_default = [],
     ap_limits = DefaultLimits, ap_parse_uuid = Some\<rparr>"

definition sample_actor :: actor where
  "sample_actor = \<lparr>ac_subject = ''ci'', ac_kind = ''service'', ac_agent = ''go'', ac_request = ''r1''\<rparr>"

definition sample_caller :: "string list \<Rightarrow> caller" where
  "sample_caller granted = \<lparr>c_allows = (\<lambda>p m. m \<in> set granted), c_actor = sample_actor, c_tenant = ''tu'', c_name = ''acme''\<rparr>"

definition pw_address :: secret_address where
  "pw_address = \<lparr>sa_project = ''web'', sa_env = ''prod'', sa_folder = ''/db'', sa_key = ''PASSWORD''\<rparr>"

definition url_address :: secret_address where
  "url_address = pw_address\<lparr>sa_key := ''URL''\<rparr>"

definition pw_mrn :: string where
  "pw_mrn = ''mrn:secret:acme:web:secret/prod/db/PASSWORD''"

definition url_mrn :: string where
  "url_mrn = ''mrn:secret:acme:web:secret/prod/db/URL''"

definition both :: caller where
  "both = sample_caller [pw_mrn, url_mrn]"

definition put_at :: "secret_address \<Rightarrow> string \<Rightarrow> string \<Rightarrow> api_put" where
  "put_at a val typ = \<lparr>pt_address = a, pt_value = bytes_of val, pt_type = typ, pt_description = [], pt_tags = [],
     pt_keep = None, pt_rotation = [], pt_expires = None, pt_create_folders = True\<rparr>"

definition pw_world :: world where
  "pw_world = snd (api_PutSecret sample_api sample_draws both (put_at pw_address ''pw'' ''opaque'') \<lparr>w_db = sample_db, w_notes = []\<rparr>)"

definition ref_world :: world where
  "ref_world = snd (api_PutSecret sample_api sample_draws both
     (put_at url_address ''db://${web/prod/db/PASSWORD}'' ''reference'') pw_world)"

text \<open>The collation by code points.\<close>

definition code_points :: collation where
  "code_points = map of_char"

end
