(* ===== verification/ApiHierarchy.thy ===== *)
theory ApiHierarchy
  imports ApiSecrets Listings
begin

text \<open>
  The operations of \<open>internal/api/hierarchy.go\<close> and \<open>transit.go\<close>, and the listings of \<open>secrets.go\<close>, with their
  request checks (\<open>validation_project.go\<close>, \<open>validation_environment.go\<close>, \<open>validation_folder.go\<close>,
  \<open>validation_transit.go\<close>).
\<close>

section \<open>Request checks\<close>

definition maxDisplayNameLength :: nat where "maxDisplayNameLength = 100"

definition name_rule :: "string \<Rightarrow> string \<Rightarrow> reason option" where
  "name_rule knd n = rule (length n \<le> maxDisplayNameLength) (knd @ '' name must be at most 100 characters'')"

definition resourceStatusRule :: "string \<Rightarrow> reason option" where
  "resourceStatusRule raw = rule (raw \<in> {[], ''active'', ''suspended'', ''archived''})
     ''status must be one of active, suspended, archived''"

definition slug_as :: "string \<Rightarrow> string \<Rightarrow> string \<Rightarrow> failures" where
  "slug_as name knd raw = field name [rule (raw \<noteq> []) (knd @ '' slug is required''), slugRule (knd @ '' slug'') raw]"

record api_project =
  apj_slug :: string
  apj_name :: string
  apj_description :: string
  apj_status :: string

definition CreateProjectInput_Validate :: "limits \<Rightarrow> api_project \<Rightarrow> failures" where
  "CreateProjectInput_Validate l inp =
     slug_as ''Slug'' ''project'' (apj_slug inp) @ field ''Name'' [name_rule ''project'' (apj_name inp)]
     @ field ''Description'' [descriptionRule l (apj_description inp)]"

definition UpdateProjectInput_Validate :: "limits \<Rightarrow> api_project \<Rightarrow> failures" where
  "UpdateProjectInput_Validate l inp =
     slug_as ''slug'' ''project'' (apj_slug inp) @ field ''name'' [name_rule ''project'' (apj_name inp)]
     @ field ''description'' [descriptionRule l (apj_description inp)] @ field ''status'' [resourceStatusRule (apj_status inp)]"

definition ProjectRef_Validate :: "string \<Rightarrow> failures" where
  "ProjectRef_Validate slug = slug_as ''slug'' ''project'' slug"

record api_environment =
  aen_project :: string
  aen_slug :: string
  aen_name :: string
  aen_description :: string
  aen_position :: int
  aen_status :: string

definition CreateEnvironmentInput_Validate :: "limits \<Rightarrow> api_environment \<Rightarrow> failures" where
  "CreateEnvironmentInput_Validate l inp =
     project_as ''Project'' (aen_project inp) @ slug_as ''Slug'' ''environment'' (aen_slug inp)
     @ field ''Name'' [name_rule ''environment'' (aen_name inp)] @ field ''Description'' [descriptionRule l (aen_description inp)]
     @ field ''Position'' [positionRule (aen_position inp)]"

definition UpdateEnvironmentInput_Validate :: "limits \<Rightarrow> api_environment \<Rightarrow> failures" where
  "UpdateEnvironmentInput_Validate l inp =
     project_as ''project'' (aen_project inp) @ slug_as ''slug'' ''environment'' (aen_slug inp)
     @ field ''name'' [name_rule ''environment'' (aen_name inp)] @ field ''description'' [descriptionRule l (aen_description inp)]
     @ field ''position'' [positionRule (aen_position inp)] @ field ''status'' [resourceStatusRule (aen_status inp)]"

definition EnvironmentRef_Validate :: "string \<Rightarrow> string \<Rightarrow> failures" where
  "EnvironmentRef_Validate project slug = project_as ''project'' project @ slug_as ''slug'' ''environment'' slug"

definition scope_fields :: "string \<Rightarrow> string \<Rightarrow> failures" where
  "scope_fields project environment = project_as ''project'' project @ environment_as ''environment'' environment"

definition root_rule :: "string \<Rightarrow> reason option" where
  "root_rule raw = (case NormalizePath raw of Inl _ \<Rightarrow> None
    | Inr p \<Rightarrow> rule (p \<noteq> ''/'') ''the root folder is created with its environment and cannot be created again'')"

definition CreateFolderInput_Validate :: "string \<Rightarrow> string \<Rightarrow> string \<Rightarrow> failures" where
  "CreateFolderInput_Validate project environment path =
     scope_fields project environment
     @ field ''path'' [rule (path \<noteq> []) ''folder path is required'', folderPathRule path, root_rule path]"

definition ListFoldersInput_Validate :: "string \<Rightarrow> string \<Rightarrow> string \<Rightarrow> failures" where
  "ListFoldersInput_Validate project environment pre =
     scope_fields project environment @ field ''prefix'' [folderPathRule pre]"

definition move_rule :: "string \<Rightarrow> string \<Rightarrow> reason option" where
  "move_rule from to = (case (NormalizePath to, NormalizePath from) of
      (Inr toPath, Inr fromPath) \<Rightarrow>
        (if toPath = fromPath then Some (Msg ''from and to are the same folder: there is nothing to move'')
         else rule (\<not> IsAtOrUnder toPath fromPath) ''a folder cannot be moved into its own subtree'')
    | _ \<Rightarrow> None)"

definition MoveFolderInput_Validate :: "string \<Rightarrow> string \<Rightarrow> string \<Rightarrow> string \<Rightarrow> failures" where
  "MoveFolderInput_Validate project environment from to =
     scope_fields project environment
     @ field ''from'' [rule (from \<noteq> []) ''from is required'', folderPathRule from]
     @ field ''to'' [rule (to \<noteq> []) ''to is required'', folderPathRule to, move_rule from to]"

definition DeleteFolderInput_Validate :: "string \<Rightarrow> string \<Rightarrow> string \<Rightarrow> int option \<Rightarrow> failures" where
  "DeleteFolderInput_Validate project environment path window =
     scope_fields project environment
     @ field ''path'' [rule (path \<noteq> []) ''folder path is required'', folderPathRule path]
     @ field ''recovery_window'' [recoveryWindowRule window]"

definition transitKeyNameRule :: "string \<Rightarrow> reason option" where
  "transitKeyNameRule raw = (if raw = [] then None else map_option NameReason (ValidateTransitKeyName raw))"

definition TransitKeyRef_Validate :: "string \<Rightarrow> string \<Rightarrow> failures" where
  "TransitKeyRef_Validate project name =
     project_as ''project'' project @ field ''name'' [rule (name \<noteq> []) ''name is required'', transitKeyNameRule name]"

definition CreateTransitKeyInput_Validate :: "limits \<Rightarrow> string \<Rightarrow> string \<Rightarrow> string \<Rightarrow> failures" where
  "CreateTransitKeyInput_Validate l project name description =
     TransitKeyRef_Validate project name @ field ''description'' [descriptionRule l description]"

record api_transit_update =
  at_project :: string
  at_name :: string
  at_description :: string
  at_status :: string
  at_min :: int

definition transitKeyStatusRule :: "string \<Rightarrow> reason option" where
  "transitKeyStatusRule raw = rule (raw \<in> {[], ''active'', ''disabled''}) ''status must be one of active, disabled''"

definition UpdateTransitKeyInput_Validate :: "limits \<Rightarrow> api_transit_update \<Rightarrow> failures" where
  "UpdateTransitKeyInput_Validate l inp =
     TransitKeyRef_Validate (at_project inp) (at_name inp) @ field ''description'' [descriptionRule l (at_description inp)]
     @ field ''status'' [transitKeyStatusRule (at_status inp)]
     @ field ''min_decrypt_version'' [rule (at_min inp \<ge> 0) ''min_decrypt_version must not be negative'']"

definition ListTransitKeysInput_Validate :: "limits \<Rightarrow> string \<Rightarrow> pagination \<Rightarrow> failures" where
  "ListTransitKeysInput_Validate l project p = project_as ''project'' project @ Pagination_Validate l p"

definition ListTransitKeyVersionsInput_Validate :: "limits \<Rightarrow> string \<Rightarrow> string \<Rightarrow> pagination \<Rightarrow> failures" where
  "ListTransitKeyVersionsInput_Validate l project name p = TransitKeyRef_Validate project name @ Pagination_Validate l p"

definition TransitEncryptInput_Validate :: "limits \<Rightarrow> string \<Rightarrow> string \<Rightarrow> bytes \<Rightarrow> failures" where
  "TransitEncryptInput_Validate l project name plaintext =
     TransitKeyRef_Validate project name
     @ field ''plaintext'' [rule (plaintext \<noteq> []) ''plaintext is required'',
         rule (int (length plaintext) \<le> MaxTransitPlaintextBytes l) ''a transit plaintext is too large'']"

definition transitTokenRule :: "string \<Rightarrow> reason option" where
  "transitTokenRule raw =
     (if raw = [] then None
      else if int (length raw) > int MaxCiphertextChars then Some (Msg ''a ciphertext token is too long'')
      else case ParseToken raw of Inl e \<Rightarrow> Some (Msg (token_error_text e)) | Inr _ \<Rightarrow> None)"

definition TransitDecryptInput_Validate :: "string \<Rightarrow> string \<Rightarrow> failures" where
  "TransitDecryptInput_Validate project ciphertext =
     project_as ''project'' project
     @ field ''ciphertext'' [rule (ciphertext \<noteq> []) ''ciphertext is required'', transitTokenRule ciphertext]"

section \<open>Projects\<close>

text \<open>An event that carries nothing but its metadata.\<close>

definition meta_event :: "string \<Rightarrow> string \<Rightarrow> object \<Rightarrow> event" where
  "meta_event action resourceMRN meta = success_event action resourceMRN None None meta"

definition page_event :: "string \<Rightarrow> string \<Rightarrow> 'a list \<times> nat \<Rightarrow> event" where
  "page_event name resourceMRN = (\<lambda>(rows, total). meta_event ''secret.read'' resourceMRN
     [(name, JNum (int (length rows))), (''total'', JNum (int total))])"

definition api_CreateProject :: "api_service \<Rightarrow> caller \<Rightarrow> api_project \<Rightarrow> project_view api" where
  "api_CreateProject s c inp =
     bindM (checked (CreateProjectInput_Validate (ap_limits s) inp)) (\<lambda>_.
     let resourceMRN = caller_mrn c (apj_slug inp) ResourceProject in
     operation s c ''secret:ManageProject'' ''project.create'' resourceMRN
       (CreateProject (c_tenant c) (apj_name inp) (apj_slug inp) (apj_description inp))
       (\<lambda>_. meta_event ''project.create'' resourceMRN []))"

definition api_ListProjects :: "collation \<Rightarrow> api_service \<Rightarrow> caller \<Rightarrow> pagination \<Rightarrow> (project_view list \<times> nat) api" where
  "api_ListProjects coll s c p =
     bindM (checked (Pagination_Validate (ap_limits s) p)) (\<lambda>_.
     case resolved_page (ap_limits s) p of (page, limit) \<Rightarrow>
     let resourceMRN = caller_mrn c [] ResourceProject in
     operation s c ''secret:ReadMetadata'' ''secret.read'' resourceMRN (ListProjects coll (c_tenant c) page limit)
       (page_event ''projects'' resourceMRN))"

definition api_GetProject :: "api_service \<Rightarrow> caller \<Rightarrow> string \<Rightarrow> project_view api" where
  "api_GetProject s c slug =
     bindM (checked (ProjectRef_Validate slug)) (\<lambda>_.
     let resourceMRN = caller_mrn c slug ResourceProject in
     operation s c ''secret:ReadMetadata'' ''secret.read'' resourceMRN (GetProject (c_tenant c) slug)
       (\<lambda>_. meta_event ''secret.read'' resourceMRN []))"

definition api_UpdateProject :: "api_service \<Rightarrow> caller \<Rightarrow> api_project \<Rightarrow> project_view api" where
  "api_UpdateProject s c inp =
     bindM (checked (UpdateProjectInput_Validate (ap_limits s) inp)) (\<lambda>_.
     let resourceMRN = caller_mrn c (apj_slug inp) ResourceProject in
     operation s c ''secret:ManageProject'' ''project.update'' resourceMRN
       (UpdateProject (c_tenant c) (apj_slug inp) (apj_name inp) (apj_description inp) (apj_status inp))
       (\<lambda>_. meta_event ''project.update'' resourceMRN []))"

text \<open>Both store calls record their failure the same way.\<close>

definition api_DeleteProject :: "api_service \<Rightarrow> caller \<Rightarrow> string \<Rightarrow> unit api" where
  "api_DeleteProject s c slug =
     bindM (checked (ProjectRef_Validate slug)) (\<lambda>_.
     let resourceMRN = caller_mrn c slug ResourceProject in
     operation s c ''secret:ManageProject'' ''project.delete'' resourceMRN
       (bindM (GetProject (c_tenant c) slug) (\<lambda>project. DeleteProject (c_tenant c) (pv_uuid project)))
       (\<lambda>_. meta_event ''project.delete'' resourceMRN []))"

section \<open>Environments\<close>

definition api_CreateEnvironment :: "api_service \<Rightarrow> caller \<Rightarrow> api_environment \<Rightarrow> environment_view api" where
  "api_CreateEnvironment s c inp =
     bindM (checked (CreateEnvironmentInput_Validate (ap_limits s) inp)) (\<lambda>_.
     let resourceMRN = caller_mrn c (aen_project inp) (EnvironmentResourcePath (aen_slug inp)) in
     operation s c ''secret:ManageEnvironment'' ''environment.create'' resourceMRN
       (CreateEnvironment (c_tenant c) (aen_project inp) (aen_name inp) (aen_slug inp) (aen_description inp) (aen_position inp))
       (\<lambda>_. meta_event ''environment.create'' resourceMRN []))"

definition api_ListEnvironments :: "collation \<Rightarrow> api_service \<Rightarrow> caller \<Rightarrow> string \<Rightarrow> environment_view list api" where
  "api_ListEnvironments coll s c project =
     bindM (checked (ProjectRef_Validate project)) (\<lambda>_.
     let resourceMRN = caller_mrn c project ResourceProject in
     operation s c ''secret:ReadMetadata'' ''secret.read'' resourceMRN (ListEnvironments coll (c_tenant c) project)
       (\<lambda>envs. meta_event ''secret.read'' resourceMRN [(''environments'', JNum (int (length envs)))]))"

definition api_GetEnvironment :: "api_service \<Rightarrow> caller \<Rightarrow> string \<Rightarrow> string \<Rightarrow> environment_view api" where
  "api_GetEnvironment s c project slug =
     bindM (checked (EnvironmentRef_Validate project slug)) (\<lambda>_.
     let resourceMRN = caller_mrn c project (EnvironmentResourcePath slug) in
     operation s c ''secret:ReadMetadata'' ''secret.read'' resourceMRN (GetEnvironment (c_tenant c) project slug)
       (\<lambda>_. meta_event ''secret.read'' resourceMRN []))"

definition api_UpdateEnvironment :: "api_service \<Rightarrow> caller \<Rightarrow> api_environment \<Rightarrow> environment_view api" where
  "api_UpdateEnvironment s c inp =
     bindM (checked (UpdateEnvironmentInput_Validate (ap_limits s) inp)) (\<lambda>_.
     let resourceMRN = caller_mrn c (aen_project inp) (EnvironmentResourcePath (aen_slug inp)) in
     operation s c ''secret:ManageEnvironment'' ''environment.update'' resourceMRN
       (UpdateEnvironment (c_tenant c) (aen_project inp) (aen_slug inp) (aen_name inp) (aen_description inp) (aen_position inp) (aen_status inp))
       (\<lambda>_. meta_event ''environment.update'' resourceMRN []))"

definition api_DeleteEnvironment :: "api_service \<Rightarrow> caller \<Rightarrow> string \<Rightarrow> string \<Rightarrow> unit api" where
  "api_DeleteEnvironment s c project slug =
     bindM (checked (EnvironmentRef_Validate project slug)) (\<lambda>_.
     let resourceMRN = caller_mrn c project (EnvironmentResourcePath slug) in
     operation s c ''secret:ManageEnvironment'' ''environment.delete'' resourceMRN (DeleteEnvironment (c_tenant c) project slug)
       (\<lambda>_. meta_event ''environment.delete'' resourceMRN []))"

section \<open>Folders\<close>

definition folder_mrn :: "caller \<Rightarrow> string \<Rightarrow> string \<Rightarrow> string \<Rightarrow> string" where
  "folder_mrn c project environment path = caller_mrn c project (FolderResourcePath environment path)"

definition api_CreateFolder :: "api_service \<Rightarrow> caller \<Rightarrow> string \<Rightarrow> string \<Rightarrow> string \<Rightarrow> folder_view api" where
  "api_CreateFolder s c project environment path =
     bindM (checked (CreateFolderInput_Validate project environment path)) (\<lambda>_.
     bindM (normalized path) (\<lambda>p.
     let resourceMRN = folder_mrn c project environment p in
     operation s c ''secret:ManageFolder'' ''folder.create'' resourceMRN (CreateFolder (c_tenant c) project environment p)
       (\<lambda>_. meta_event ''folder.create'' resourceMRN [])))"

definition api_ListFolders :: "collation \<Rightarrow> api_service \<Rightarrow> caller \<Rightarrow> string \<Rightarrow> string \<Rightarrow> string \<Rightarrow> folder_view list api" where
  "api_ListFolders coll s c project environment pre =
     bindM (checked (ListFoldersInput_Validate project environment pre)) (\<lambda>_.
     bindM (normalized pre) (\<lambda>p.
     let resourceMRN = folder_mrn c project environment p in
     operation s c ''secret:ReadMetadata'' ''secret.read'' resourceMRN (ListFolders coll (c_tenant c) project environment p)
       (\<lambda>fs. meta_event ''secret.read'' resourceMRN [(''folders'', JNum (int (length fs)))])))"

definition api_MoveFolder :: "api_service \<Rightarrow> caller \<Rightarrow> string \<Rightarrow> string \<Rightarrow> string \<Rightarrow> string \<Rightarrow> folder_view api" where
  "api_MoveFolder s c project environment from to =
     bindM (checked (MoveFolderInput_Validate project environment from to)) (\<lambda>_.
     bindM (normalized from) (\<lambda>fromPath.
     bindM (normalized to) (\<lambda>toPath.
     let fromMRN = folder_mrn c project environment fromPath; toMRN = folder_mrn c project environment toPath in
     bindM (guard s c ''secret:ManageFolder'' ''folder.move'' fromMRN) (\<lambda>_.
     bindM (guard s c ''secret:ManageFolder'' ''folder.move'' toMRN) (\<lambda>_.
     bindM (recorded s c ''folder.move'' fromMRN (callStore (MoveFolder (c_tenant c) project environment fromPath toPath))) (\<lambda>folder.
     bindM (recordSuccess s c (meta_event ''folder.move'' fromMRN [(''destination'', JStr toMRN)])) (\<lambda>_.
     ret folder)))))))"

definition api_DeleteFolder :: "api_service \<Rightarrow> caller \<Rightarrow> string \<Rightarrow> string \<Rightarrow> string \<Rightarrow> int option \<Rightarrow> nat api" where
  "api_DeleteFolder s c project environment path window =
     bindM (checked (DeleteFolderInput_Validate project environment path window)) (\<lambda>_.
     bindM (normalized path) (\<lambda>p.
     let resourceMRN = folder_mrn c project environment p in
     bindM (guard s c ''secret:ManageFolder'' ''folder.delete'' resourceMRN) (\<lambda>_.
     operation s c ''secret:DeleteSecret'' ''folder.delete'' resourceMRN
       (DeleteFolder (ap_store s) (c_tenant c) project environment p window)
       (\<lambda>n. meta_event ''folder.delete'' resourceMRN [(''secrets_deleted'', JNum (int n))]))))"

section \<open>Listings of secrets\<close>

definition api_ListSecrets :: "collation \<Rightarrow> api_service \<Rightarrow> caller \<Rightarrow> list_secrets_input \<Rightarrow> (secret_meta list \<times> nat) api" where
  "api_ListSecrets coll s c inp =
     bindM (checked (ListSecretsInput_Validate (ap_limits s) inp)) (\<lambda>_.
     case resolved_page (ap_limits s) (ls_page inp) of (page, limit) \<Rightarrow>
     bindM (callStore (ResolveScopeNames (c_tenant c) (ls_project inp) (ls_env inp))) (\<lambda>names.
     bindM (normalized (ls_prefix inp)) (\<lambda>pre.
     let resourceMRN = folder_mrn c (sn_project names) (sn_env names) pre in
     operation s c ''secret:ListSecrets'' ''secret.list'' resourceMRN
       (ListSecrets coll (ap_store s) (c_tenant c) (ls_project inp) (ls_env inp) pre page limit)
       (\<lambda>(metas, total). meta_event ''secret.list'' resourceMRN
          [(''returned'', JNum (int (length metas))), (''total'', JNum (int total))]))))"

definition api_ListVersions :: "api_service \<Rightarrow> caller \<Rightarrow> secret_address \<Rightarrow> pagination \<Rightarrow> (version_meta list \<times> nat) api" where
  "api_ListVersions s c addr p =
     bindM (checked (ListVersionsInput_Validate (ap_limits s) addr p)) (\<lambda>_.
     case resolved_page (ap_limits s) p of (page, limit) \<Rightarrow>
     bindM (secretMRN (address_ref c addr)) (\<lambda>resourceMRN.
     operation s c ''secret:ReadMetadata'' ''secret.read'' resourceMRN (ListVersions (address_ref c addr) page limit)
       (page_event ''versions'' resourceMRN)))"

definition api_ListDeletedSecrets :: "api_service \<Rightarrow> caller \<Rightarrow> string \<Rightarrow> string \<Rightarrow> pagination \<Rightarrow> deleted_secret list api" where
  "api_ListDeletedSecrets s c project environment p =
     bindM (checked (ListDeletedSecretsInput_Validate (ap_limits s) project environment p)) (\<lambda>_.
     case resolved_page (ap_limits s) p of (page, limit) \<Rightarrow>
     bindM (callStore (ResolveScopeNames (c_tenant c) project environment)) (\<lambda>names.
     let resourceMRN = caller_mrn c (sn_project names) (EnvironmentResourcePath (sn_env names)) in
     operation s c ''secret:ListSecrets'' ''secret.list'' resourceMRN
       (ListDeletedSecrets (c_tenant c) project environment page limit)
       (\<lambda>ds. meta_event ''secret.list'' resourceMRN [(''deleted_secrets'', JNum (int (length ds)))])))"

section \<open>Transit keys\<close>

definition transit_mrn :: "caller \<Rightarrow> string \<Rightarrow> string \<Rightarrow> string" where
  "transit_mrn c project name = caller_mrn c project (TransitResourcePath name)"

definition api_CreateTransitKey :: "api_service \<Rightarrow> bytes option \<Rightarrow> draws \<Rightarrow> caller \<Rightarrow> string \<Rightarrow> string \<Rightarrow> string \<Rightarrow> transit_view api" where
  "api_CreateTransitKey s mat rnd c project name description =
     bindM (checked (CreateTransitKeyInput_Validate (ap_limits s) project name description)) (\<lambda>_.
     operation s c ''secret:ManageTransitKey'' ''transit.key.create'' (caller_mrn c project ResourceTransit)
       (CreateTransitKey (ap_store s) mat rnd \<lparr>ti_tenant = c_tenant c, ti_project = project, ti_name = name, ti_description = description\<rparr>)
       (\<lambda>key. meta_event ''transit.key.create'' (transit_mrn c project (tv_name key))
          [(''key_uuid'', JStr (tv_uuid key)), (''version'', JNum (tv_current key))]))"

definition api_RotateTransitKey :: "api_service \<Rightarrow> bytes option \<Rightarrow> draws \<Rightarrow> caller \<Rightarrow> string \<Rightarrow> string \<Rightarrow> transit_view api" where
  "api_RotateTransitKey s mat rnd c project name =
     bindM (checked (TransitKeyRef_Validate project name)) (\<lambda>_.
     let resourceMRN = transit_mrn c project name in
     operation s c ''secret:ManageTransitKey'' ''transit.key.rotate'' resourceMRN
       (RotateTransitKey (ap_store s) mat rnd (c_tenant c) project name)
       (\<lambda>key. success_event ''transit.key.rotate'' resourceMRN None (Some (tv_current key)) [(''version'', JNum (tv_current key))]))"

definition api_GetTransitKey :: "api_service \<Rightarrow> caller \<Rightarrow> string \<Rightarrow> string \<Rightarrow> transit_view api" where
  "api_GetTransitKey s c project name =
     bindM (checked (TransitKeyRef_Validate project name)) (\<lambda>_.
     let resourceMRN = transit_mrn c project name in
     operation s c ''secret:ReadMetadata'' ''secret.read'' resourceMRN (GetTransitKey (c_tenant c) project name)
       (\<lambda>key. meta_event ''secret.read'' resourceMRN [(''read'', JStr ''transit_key''), (''status'', JStr (tv_status key))]))"

definition transit_page_event :: "string \<Rightarrow> string \<Rightarrow> 'a list \<times> nat \<Rightarrow> event" where
  "transit_page_event what resourceMRN = (\<lambda>(rows, total). meta_event ''secret.read'' resourceMRN
     [(''read'', JStr what), (''returned'', JNum (int (length rows))), (''total'', JNum (int total))])"

definition api_ListTransitKeys :: "collation \<Rightarrow> api_service \<Rightarrow> caller \<Rightarrow> string \<Rightarrow> pagination \<Rightarrow> (transit_view list \<times> nat) api" where
  "api_ListTransitKeys coll s c project p =
     bindM (checked (ListTransitKeysInput_Validate (ap_limits s) project p)) (\<lambda>_.
     case resolved_page (ap_limits s) p of (page, limit) \<Rightarrow>
     let resourceMRN = caller_mrn c project ResourceTransit in
     operation s c ''secret:ReadMetadata'' ''secret.read'' resourceMRN (ListTransitKeys coll (c_tenant c) project page limit)
       (transit_page_event ''transit_keys'' resourceMRN))"

definition api_ListTransitKeyVersions :: "api_service \<Rightarrow> caller \<Rightarrow> string \<Rightarrow> string \<Rightarrow> pagination \<Rightarrow>
    ((int \<times> string \<times> instant) list \<times> nat) api" where
  "api_ListTransitKeyVersions s c project name p =
     bindM (checked (ListTransitKeyVersionsInput_Validate (ap_limits s) project name p)) (\<lambda>_.
     case resolved_page (ap_limits s) p of (page, limit) \<Rightarrow>
     let resourceMRN = transit_mrn c project name in
     operation s c ''secret:ReadMetadata'' ''secret.read'' resourceMRN (ListTransitKeyVersions (c_tenant c) project name page limit)
       (transit_page_event ''transit_key_versions'' resourceMRN))"

definition api_UpdateTransitKey :: "api_service \<Rightarrow> caller \<Rightarrow> api_transit_update \<Rightarrow> transit_view api" where
  "api_UpdateTransitKey s c inp =
     bindM (checked (UpdateTransitKeyInput_Validate (ap_limits s) inp)) (\<lambda>_.
     let resourceMRN = transit_mrn c (at_project inp) (at_name inp) in
     operation s c ''secret:ManageTransitKey'' ''transit.key.update'' resourceMRN
       (UpdateTransitKey \<lparr>tu_tenant = c_tenant c, tu_project = at_project inp, tu_name = at_name inp,
          tu_description = at_description inp, tu_status = at_status inp, tu_min = at_min inp\<rparr>)
       (\<lambda>key. meta_event ''transit.key.update'' resourceMRN
          [(''status'', JStr (tv_status key)), (''min_decrypt_version'', JNum (tv_min key))]))"

definition api_DeleteTransitKey :: "api_service \<Rightarrow> caller \<Rightarrow> string \<Rightarrow> string \<Rightarrow> unit api" where
  "api_DeleteTransitKey s c project name =
     bindM (checked (TransitKeyRef_Validate project name)) (\<lambda>_.
     let resourceMRN = transit_mrn c project name in
     operation s c ''secret:ManageTransitKey'' ''transit.key.delete'' resourceMRN (DeleteTransitKey (c_tenant c) project name)
       (\<lambda>_. meta_event ''transit.key.delete'' resourceMRN []))"

definition api_TransitEncrypt :: "api_service \<Rightarrow> bytes option \<Rightarrow> caller \<Rightarrow> string \<Rightarrow> string \<Rightarrow> bytes \<Rightarrow> (string \<times> int) api" where
  "api_TransitEncrypt s drawn c project name plaintext =
     bindM (checked (TransitEncryptInput_Validate (ap_limits s) project name plaintext)) (\<lambda>_.
     let resourceMRN = transit_mrn c project name in
     operation s c ''secret:Encrypt'' ''transit.encrypt'' resourceMRN
       (TransitEncrypt (ap_store s) drawn (c_tenant c) project name (Some plaintext))
       (\<lambda>(token, ver). success_event ''transit.encrypt'' resourceMRN None (Some ver)
          [(''plaintext_bytes'', JNum (int (length plaintext))), (''key_version'', JNum ver)]))"

definition api_TransitDecrypt :: "api_service \<Rightarrow> caller \<Rightarrow> string \<Rightarrow> string \<Rightarrow> (bytes \<times> string \<times> int) api" where
  "api_TransitDecrypt s c project ciphertext =
     (if \<not> ap_auditor s then fail ErrNoAuditor
      else
        bindM (checked (TransitDecryptInput_Validate project ciphertext)) (\<lambda>_.
        bindM (liftR (mapL (\<lambda>e. AppErr (ValidationError (Msg (token_error_text e)))) (ParseToken ciphertext))) (\<lambda>token.
        let resourceMRN = transit_mrn c project (KeyName token) in
        operation s c ''secret:Decrypt'' ''transit.decrypt'' resourceMRN
          (TransitDecrypt (ap_store s) (c_tenant c) project ciphertext)
          (\<lambda>(plaintext, _, ver). success_event ''transit.decrypt'' resourceMRN None (Some ver)
             [(''plaintext_bytes'', JNum (int (length plaintext))), (''key_version'', JNum ver)]))))"

end
