(* ===== verification/ApiAudit.thy ===== *)
theory ApiAudit
  imports ApiHierarchy
begin

text \<open>
  Reading the trail: the filter of \<open>internal/store/api_support.go\<close>, the statement of
  \<open>audit_log.sql\<close>, the request check of \<open>validation_audit.go\<close> and the operation, which is itself audited
  (\<open>internal/api/webhooks.go\<close>).
\<close>

record audit_filter =
  fl_action :: string
  fl_outcome :: string
  fl_actor :: string
  fl_resource :: string
  fl_from :: "instant option"
  fl_to :: "instant option"

text \<open>\<open>likePrefix\<close>: a literal prefix as a LIKE pattern; no prefix is no condition.\<close>

definition likePrefix :: "string \<Rightarrow> string option" where
  "likePrefix p = (if p = [] then None else Some (escapeLike p @ ''%''))"

definition textOrNull :: "string \<Rightarrow> string option" where
  "textOrNull v = (if v = [] then None else Some v)"

definition holds :: "('a \<Rightarrow> bool) \<Rightarrow> 'a option \<Rightarrow> bool" where
  "holds P x = (case x of None \<Rightarrow> True | Some v \<Rightarrow> P v)"

text \<open>The conditions of both statements.\<close>

definition audit_match :: "nat \<Rightarrow> audit_filter \<Rightarrow> audit_row \<Rightarrow> bool" where
  "audit_match tid fl r \<longleftrightarrow> a_tenant r = Some tid
     \<and> holds (\<lambda>v. a_action r = v) (textOrNull (fl_action fl)) \<and> holds (\<lambda>v. a_outcome r = v) (textOrNull (fl_outcome fl))
     \<and> holds (\<lambda>p. sql_like p (a_subject r)) (likePrefix (fl_actor fl))
     \<and> holds (\<lambda>p. sql_like p (a_mrn r)) (likePrefix (fl_resource fl))
     \<and> holds (\<lambda>t. a_created r \<ge> t) (fl_from fl) \<and> holds (\<lambda>t. a_created r \<le> t) (fl_to fl)"

definition ListAuditEventsFiltered :: "nat \<Rightarrow> audit_filter \<Rightarrow> int \<Rightarrow> int \<Rightarrow> audit_row list query" where
  "ListAuditEventsFiltered tid fl limit offset =
     q_page limit offset (\<lambda>s. sort_key (\<lambda>r. - a_created r) (filter (audit_match tid fl) (audit_log s)))"

definition CountAuditEventsFiltered :: "nat \<Rightarrow> audit_filter \<Rightarrow> nat query" where
  "CountAuditEventsFiltered tid fl = q_many (\<lambda>s. length (filter (audit_match tid fl) (audit_log s)))"

text \<open>An entry is the row without its keys; the model returns the row.\<close>

definition ListAuditEvents :: "uuid \<Rightarrow> audit_filter \<Rightarrow> int \<Rightarrow> int \<Rightarrow> (audit_row list \<times> nat) op" where
  "ListAuditEvents tenantUUID fl page limit =
     bindM (mapErr (mapReadError ''tenant'') (GetTenantByUUID tenantUUID)) (\<lambda>tenant.
     bindM (mapErr (\<lambda>e. InternalError ''list audit events'' (DbCause e))
         (ListAuditEventsFiltered (t_id tenant) fl (page_limit page limit) (page_offset page limit))) (\<lambda>rows.
     bindM (mapErr (\<lambda>e. InternalError ''count audit events'' (DbCause e)) (CountAuditEventsFiltered (t_id tenant) fl)) (\<lambda>total.
     ret (rows, total))))"

definition auditMRNPrefixMaxLength :: nat where "auditMRNPrefixMaxLength = 512"
definition auditActorPrefixMaxLength :: nat where "auditActorPrefixMaxLength = 255"

definition ListAuditEventsInput_Validate :: "limits \<Rightarrow> audit_filter \<Rightarrow> pagination \<Rightarrow> failures" where
  "ListAuditEventsInput_Validate l fl p =
     Pagination_Validate l p
     @ field ''action'' [rule (fl_action fl \<in> set ([] # AuditActions)) ''action must be one of the recorded audit actions'']
     @ field ''outcome'' [rule (fl_outcome fl \<in> set ([] # AuditOutcomes)) ''outcome must be one of success, denied, error'']
     @ field ''actor'' [rule (length (fl_actor fl) \<le> auditActorPrefixMaxLength) ''actor must be at most 255 characters'']
     @ field ''resource'' [rule (length (fl_resource fl) \<le> auditMRNPrefixMaxLength) ''resource must be at most 512 characters'']
     @ field ''to'' [rule (case (fl_to fl, fl_from fl) of (Some t, Some f) \<Rightarrow> \<not> t < f | _ \<Rightarrow> True)
         ''to must not be earlier than from'']"

definition auditMetadata :: "audit_filter \<Rightarrow> object" where
  "auditMetadata fl =
     (if fl_action fl \<noteq> [] then [(''filter_action'', JStr (fl_action fl))] else [])
     @ (if fl_outcome fl \<noteq> [] then [(''filter_outcome'', JStr (fl_outcome fl))] else [])
     @ (if fl_actor fl \<noteq> [] then [(''filter_actor_prefix'', JStr (fl_actor fl))] else [])
     @ (if fl_resource fl \<noteq> [] then [(''filter_resource_prefix'', JStr (fl_resource fl))] else [])
     @ (case fl_from fl of None \<Rightarrow> [] | Some t \<Rightarrow> [(''filter_from'', JNum t)])
     @ (case fl_to fl of None \<Rightarrow> [] | Some t \<Rightarrow> [(''filter_to'', JNum t)])"


definition api_ListAuditEvents :: "api_service \<Rightarrow> caller \<Rightarrow> audit_filter \<Rightarrow> pagination \<Rightarrow> (audit_row list \<times> nat) api" where
  "api_ListAuditEvents s c fl p =
     bindM (checked (ListAuditEventsInput_Validate (ap_limits s) fl p)) (\<lambda>_.
     case resolved_page (ap_limits s) p of (page, limit) \<Rightarrow>
     let resourceMRN = caller_mrn c [] ResourceAudit in
     operation s c ''secret:ReadAudit'' ''audit.read'' resourceMRN (ListAuditEvents (c_tenant c) fl page limit)
       (\<lambda>(rows, total). meta_event ''audit.read'' resourceMRN
          ([(''returned'', JNum (int (length rows))), (''total'', JNum (int total))] @ auditMetadata fl)))"

end
