(* ===== verification/ApiRotation.thy ===== *)
theory ApiRotation
  imports ApiSecrets Listings
begin

text \<open>
  Rotation: the due list and the policy of \<open>internal/store/rotation.go\<close>, and the manual and scheduled
  rotations of \<open>internal/api/rotation.go\<close>. Instants in the metadata stay instants.
\<close>

section \<open>The due list\<close>

record rotation_row =
  rr_id :: nat
  rr_uuid :: uuid
  rr_ref :: secret_ref
  rr_current :: int
  rr_policy :: object
  rr_last :: instant
  rr_mrn :: string

text \<open>The statement compares \<open>rotation_policy ->> 'enabled'\<close> with the text \<open>true\<close>.\<close>

definition enabled_text :: "object \<Rightarrow> bool" where
  "enabled_text p \<longleftrightarrow> map_of p ''enabled'' \<in> {Some (JBool True), Some (JStr ''true'')}"

definition by_id :: "('a \<Rightarrow> nat) \<Rightarrow> nat \<Rightarrow> 'a list \<Rightarrow> 'a option" where
  "by_id f i xs = find (\<lambda>x. f x = i) xs"

definition rotation_row_of :: "db \<Rightarrow> secret \<Rightarrow> rotation_row option" where
  "rotation_row_of s r =
     (case (by_id t_id (s_tenant r) (filter live_tenant (tenants s)), by_id p_id (s_project r) (filter live_project (projects s)),
            by_id e_id (s_env r) (filter live_env (environments s)), by_id f_id (s_folder r) (filter live_folder (folders s))) of
        (Some t, Some p, Some e, Some f) \<Rightarrow>
          if live_secret r \<and> enabled_text (s_rotation r)
          then Some \<lparr>rr_id = s_id r, rr_uuid = s_uuid r,
            rr_ref = \<lparr>r_tenant = t_uuid t, r_project = p_slug p, r_environment = e_slug e, r_folder = f_path f, r_key = s_key r\<rparr>,
            rr_current = s_current r, rr_policy = s_rotation r,
            rr_last = (case s_rotated r of Some i \<Rightarrow> i | None \<Rightarrow> s_created r),
            rr_mrn = mrn (s_mrn_tenant r) (s_mrn_project r) (s_mrn_path r)\<rparr>
          else None
      | _ \<Rightarrow> None)"

definition rotation_rows :: "db \<Rightarrow> rotation_row list" where
  "rotation_rows s = sort_key rr_id (List.map_filter (rotation_row_of s) (secrets s))"

definition ListSecretsWithRotationPolicy :: "int \<Rightarrow> int \<Rightarrow> rotation_row list query" where
  "ListSecretsWithRotationPolicy limit offset = q_page limit offset rotation_rows"

record due_rotation =
  dr_ref :: secret_ref
  dr_uuid :: uuid
  dr_mrn :: string
  dr_version :: int
  dr_policy :: rotation_policy
  dr_due :: instant

text \<open>One row: skipped when its policy is malformed or disabled, its interval unusable, or its time not come.\<close>

definition due_of :: "instant \<Rightarrow> rotation_row \<Rightarrow> due_rotation option" where
  "due_of now r =
     (case ParsePolicy (rr_policy r) of
        Inl _ \<Rightarrow> None
      | Inr policy \<Rightarrow>
          if \<not> rp_enabled policy then None
          else case NextDue policy (rr_last r) of
              Inl _ \<Rightarrow> None
            | Inr due \<Rightarrow>
                if due > now then None
                else Some \<lparr>dr_ref = rr_ref r, dr_uuid = rr_uuid r, dr_mrn = rr_mrn r, dr_version = rr_current r,
                  dr_policy = policy, dr_due = due\<rparr>)"

fun due_rows :: "instant \<Rightarrow> nat \<Rightarrow> rotation_row list \<Rightarrow> due_rotation list \<Rightarrow> due_rotation list" where
  "due_rows now limit [] out = out"
| "due_rows now limit (r # rs) out =
     (case due_of now r of
        None \<Rightarrow> due_rows now limit rs out
      | Some d \<Rightarrow> if length out + 1 \<ge> limit then out @ [d] else due_rows now limit rs (out @ [d]))"

definition rotationPageSize :: nat where "rotationPageSize = 200"

text \<open>
  The loop over the pages. A full page advances the offset, so a table of \<open>n\<close> secrets ends it within
  \<open>n div 200 + 1\<close> pages; the first argument bounds the pages.
\<close>

fun due_pages :: "nat \<Rightarrow> instant \<Rightarrow> nat \<Rightarrow> int \<Rightarrow> due_rotation list \<Rightarrow> due_rotation list op" where
  "due_pages 0 now limit offset out = ret out"
| "due_pages (Suc fuel) now limit offset out =
     (if length out \<ge> limit then ret out
      else bindM (mapErr (\<lambda>e. InternalError ''list rotation policies'' (DbCause e))
          (ListSecretsWithRotationPolicy (int rotationPageSize) (int32 offset))) (\<lambda>rows.
        if rows = [] then ret out
        else let out' = due_rows now limit rows out in
          if length rows < rotationPageSize then ret out'
          else due_pages fuel now limit (offset + int rotationPageSize) out'))"

definition due_limit :: "int \<Rightarrow> nat" where
  "due_limit limit = nat (let l = (if limit < 1 then 50 else limit) in if l > 500 then 500 else l)"

definition DueRotations :: "instant \<Rightarrow> int \<Rightarrow> due_rotation list op" where
  "DueRotations now limit = (\<lambda>s. due_pages (Suc (length (secrets s))) now (due_limit limit) 0 [] s)"

text \<open>The store's setter; the other columns are written back as they were read.\<close>

definition store_SetRotationPolicy :: "service \<Rightarrow> secret_ref \<Rightarrow> rotation_policy \<Rightarrow> secret_meta op" where
  "store_SetRotationPolicy svc ref policy =
     bindM (if rp_enabled policy
       then bindM (liftR (mapL invalid (IntervalDuration policy))) (\<lambda>_.
            liftR (mapL invalid (Spec_Validate True (rp_generator policy))))
       else ret (rp_generator policy)) (\<lambda>generator.
     bindM (resolveAddress ref) (\<lambda>addr.
     bindM (mapErr (mapReadError ''secret'') (GetSecretByAddress (t_id (sc_tenant (ad_scope addr))) (e_id (sc_env (ad_scope addr)))
         (f_id (ad_folder addr)) (ad_key addr))) (\<lambda>row.
     bindM (mapErr (mapReadError ''secret'') (UpdateSecretMetaRow (s_description row) (s_tags row) (s_keep row)
         (policy_Map (policy\<lparr>rp_generator := generator\<rparr>)) (s_expires row) (t_id (sc_tenant (ad_scope addr))) (s_uuid row))) (\<lambda>updated.
     bindM (valueTypeFor (s_id updated) (s_current updated)) (\<lambda>vt.
     ret ((secretRowToMeta updated (f_path (ad_folder addr)) (KeepVersions (svc_policy svc)))\<lparr>m_type := vt\<rparr>))))))"

section \<open>Manual rotation\<close>

definition rotated_put :: "secret_ref \<Rightarrow> string \<Rightarrow> put_input" where
  "rotated_put ref val = \<lparr>pi_ref = ref, pi_value = Some (bytes_of val), pi_type = [], pi_description = [], pi_tags = [],
     pi_keep = None, pi_rotation = [], pi_expires = None, pi_create_folders = False\<rparr>"

definition rotate_event :: "string \<Rightarrow> spec \<Rightarrow> put_result \<Rightarrow> event" where
  "rotate_event resourceMRN spec r = success_event ''secret.rotate'' resourceMRN (Some (pr_uuid r)) (Some (pr_version r))
     [(''generator'', JStr (g_type spec)), (''scheduled'', JBool False), (''unchanged'', JBool (pr_unchanged r))]"

text \<open>A failed generation is recorded as it is and returned as an internal error.\<close>

definition api_RotateSecret :: "api_service \<Rightarrow> random_source \<Rightarrow> draws \<Rightarrow> caller \<Rightarrow> secret_address \<Rightarrow> spec \<Rightarrow> put_result api" where
  "api_RotateSecret s src rnd c addr generator =
     bindM (checked (RotateSecretInput_Validate addr generator)) (\<lambda>_.
     let ref = address_ref c addr in
     bindM (secretMRN ref) (\<lambda>resourceMRN.
     bindM (guard s c ''secret:RotateSecret'' ''secret.rotate'' resourceMRN) (\<lambda>_.
     bindM (liftR (mapL (\<lambda>e. AppErr (invalid e)) (Spec_Validate False generator))) (\<lambda>spec.
     bindM (recorded s c ''secret.rotate'' resourceMRN (callStore (DescribeSecret (ap_store s) ref))) (\<lambda>_.
     bindM (mapErr (\<lambda>e. AppErr (InternalError ''generate rotated value'' (cause_of e)))
         (recorded s c ''secret.rotate'' resourceMRN (liftR (mapL (\<lambda>e. RawErr (Msg e)) (Generate src spec))))) (\<lambda>val.
     bindM (recorded s c ''secret.rotate'' resourceMRN (callStore (PutSecret (ap_store s) rnd (rotated_put ref val)))) (\<lambda>result.
     bindM (recordSuccess s c (rotate_event resourceMRN spec result)) (\<lambda>_.
     bindM (if \<not> pr_unchanged result
         then notify s c (sa_project addr) ''secret.rotated'' resourceMRN (pr_version result) else ret ()) (\<lambda>_.
     ret result)))))))))"

definition api_SetRotationPolicy :: "api_service \<Rightarrow> caller \<Rightarrow> secret_address \<Rightarrow> rotation_policy \<Rightarrow> secret_meta api" where
  "api_SetRotationPolicy s c addr policy =
     bindM (checked (SetRotationPolicyInput_Validate addr policy)) (\<lambda>_.
     bindM (secretMRN (address_ref c addr)) (\<lambda>resourceMRN.
     operation s c ''secret:ManageRotation'' ''rotation.policy'' resourceMRN
       (store_SetRotationPolicy (ap_store s) (address_ref c addr) policy)
       (\<lambda>meta. success_event ''rotation.policy'' resourceMRN (Some (m_uuid meta)) None
          [(''enabled'', JBool (rp_enabled policy)), (''interval'', JStr (rp_interval policy))])))"

section \<open>Scheduled rotation\<close>

record rotation_result =
  ro_due :: nat
  ro_rotated :: nat
  ro_failed :: nat
  ro_skipped :: nat

definition scheduledActor :: actor where
  "scheduledActor = \<lparr>ac_subject = ''maintainerd-secret/rotator'', ac_kind = ''service'', ac_agent = [], ac_request = []\<rparr>"

definition scheduled_event :: "due_rotation \<Rightarrow> event" where
  "scheduled_event item = (plain_event ''rotation.scheduled'' (dr_mrn item))
     \<lparr>ev_tenant := Some (r_tenant (dr_ref item)), ev_secret := Some (dr_uuid item)\<rparr>"

text \<open>What one item draws: the generator's bytes, the sealing's, and the time it is done.\<close>

type_synonym rotation_draw = "random_source \<times> draws \<times> instant"

definition rotated_event :: "due_rotation \<Rightarrow> put_result \<Rightarrow> instant \<Rightarrow> event" where
  "rotated_event item r done = (scheduled_event item)
     \<lparr>ev_secret := Some (pr_uuid r), ev_version := Some (pr_version r), ev_outcome := ''success'',
      ev_metadata := [(''due_at'', JNum (dr_due item)), (''generator'', JStr (g_type (rp_generator (dr_policy item)))),
        (''interval'', JStr (rp_interval (dr_policy item))), (''late_by'', JNum ((done - dr_due item) div Second * Second)),
        (''scheduled'', JBool True)]\<rparr>"

definition rotate_one :: "api_service \<Rightarrow> rotation_draw \<Rightarrow> due_rotation \<Rightarrow> rotation_result \<Rightarrow> rotation_result api" where
  "rotate_one s d item out =
     (case d of (src, rnd, done) \<Rightarrow>
      case Generate src (rp_generator (dr_policy item)) of
        Inl _ \<Rightarrow> ret (out\<lparr>ro_skipped := ro_skipped out + 1\<rparr>)
      | Inr val \<Rightarrow>
          bindM (tryM (callStore (PutSecret (ap_store s) rnd (rotated_put (dr_ref item) val)))) (\<lambda>r. case r of
              Inl e \<Rightarrow>
                bindM (onDb (RecordError (ap_auditor s) scheduledActor ((scheduled_event item)\<lparr>ev_reason := redactedReason e\<rparr>))) (\<lambda>_.
                ret (out\<lparr>ro_failed := ro_failed out + 1\<rparr>))
            | Inr result \<Rightarrow>
                bindM (onDb (tryM (Record (ap_auditor s) scheduledActor (rotated_event item result done)))) (\<lambda>_.
                bindM (if ap_notifier s \<and> \<not> pr_unchanged result
                    then (\<lambda>w. (Inr (), w\<lparr>w_notes := w_notes w @ [\<lparr>n_tenant = r_tenant (dr_ref item),
                      n_project = r_project (dr_ref item), n_event = ''secret.rotated'', n_mrn = dr_mrn item,
                      n_version = pr_version result, n_actor = scheduledActor\<rparr>]\<rparr>))
                    else ret ()) (\<lambda>_.
                ret (out\<lparr>ro_rotated := ro_rotated out + 1\<rparr>)))))"

fun rotate_all :: "api_service \<Rightarrow> (nat \<Rightarrow> rotation_draw) \<Rightarrow> nat \<Rightarrow> due_rotation list \<Rightarrow> rotation_result \<Rightarrow> rotation_result api" where
  "rotate_all s ds i [] out = ret out"
| "rotate_all s ds i (item # items) out =
     bindM (rotate_one s (ds i) item out) (\<lambda>out'. rotate_all s ds (Suc i) items out')"

definition RotateDueSecrets :: "api_service \<Rightarrow> (nat \<Rightarrow> rotation_draw) \<Rightarrow> instant \<Rightarrow> int \<Rightarrow> rotation_result api" where
  "RotateDueSecrets s ds now limit =
     (if \<not> ap_auditor s then fail ErrNoAuditor
      else bindM (callStore (DueRotations now limit)) (\<lambda>due.
        rotate_all s ds 0 due \<lparr>ro_due = length due, ro_rotated = 0, ro_failed = 0, ro_skipped = 0\<rparr>))"

end
