(* ===== verification/TrailLaws.thy ===== *)
theory TrailLaws
  imports ApiAudit ApiRotation RevealLaws HierarchyProps TransitLaws ImportProps
begin

text \<open>
  No operation of the store touches the trail, and every operation keeps the invariant of the store:
  one lemma per statement, then the operations by the rules of the collection \<open>keeps_rules\<close>.
\<close>

section \<open>The trail\<close>

definition trail :: "audit_row list \<Rightarrow> db \<Rightarrow> bool" where
  "trail L s \<longleftrightarrow> audit_log s = L"

lemma keeps_execI: "(\<And>s. I s \<Longrightarrow> I (f s)) \<Longrightarrow> keeps I (\<lambda>s. q_exec (e s) (f s) (r s) s)"
  by (auto simp: keeps_def q_exec_def split: option.splits)

lemma keeps_pairI: "(\<And>s. I s \<Longrightarrow> I (f s)) \<Longrightarrow> keeps I (\<lambda>s. (x s, f s))"
  by (auto simp: keeps_def)

lemma keeps_firstI:
  assumes "\<And>s. I s \<Longrightarrow> I (f s)"
  shows "keeps I (\<lambda>s. case rows s of [] \<Rightarrow> (Inl x, s) | r # rs \<Rightarrow> q_exec (e s r) (f s) (g s r) s)"
  unfolding keeps_def
proof (intro allI impI)
  fix s q t
  assume "(case rows s of [] \<Rightarrow> (Inl x, s) | r # rs \<Rightarrow> q_exec (e s r) (f s) (g s r) s) = (q, t)" "I s"
  then show "I t" using assms by (cases "rows s") (auto simp: q_exec_def split: option.splits)
qed

lemma trail_update [simp]:
  "trail L (s\<lparr>tenants := a\<rparr>) = trail L s" "trail L (s\<lparr>projects := b\<rparr>) = trail L s" "trail L (s\<lparr>environments := c\<rparr>) = trail L s"
  "trail L (s\<lparr>folders := d\<rparr>) = trail L s" "trail L (s\<lparr>secrets := e\<rparr>) = trail L s" "trail L (s\<lparr>versions := f\<rparr>) = trail L s"
  "trail L (s\<lparr>root_keys := g\<rparr>) = trail L s" "trail L (s\<lparr>transit_keys := h\<rparr>) = trail L s"
  "trail L (s\<lparr>transit_versions := i\<rparr>) = trail L s" "trail L (s\<lparr>scope_imports := j\<rparr>) = trail L s"
  "trail L (s\<lparr>secret_leases := k\<rparr>) = trail L s" "trail L (s\<lparr>seq := l\<rparr>) = trail L s"
  "trail L (s\<lparr>guc_delete := m\<rparr>) = trail L s" "trail L (s\<lparr>guc_rewrap := n\<rparr>) = trail L s" "trail L (s\<lparr>guc_transit := p\<rparr>) = trail L s"
  by (simp_all add: trail_def)

lemma trail_InTx [keeps_rules]: "keeps (trail L) m \<Longrightarrow> keeps (trail L) (InTx m)"
  by (fastforce simp: keeps_def InTx_def split: prod.splits sum.splits)

lemma trail_update_secrets [keeps_rules]: "keeps (trail L) (update_secrets P f)"
  unfolding update_secrets_def Let_def by (rule keeps_firstI) simp

lemma trail_update_leases [keeps_rules]: "keeps (trail L) (update_leases P f)"
  unfolding update_leases_def Let_def by (rule keeps_execI) simp

lemma trail_update_at [keeps_rules]:
  "keeps (trail L) (\<lambda>s. update_secrets (P s) (f s) s)" "keeps (trail L) (\<lambda>s. update_leases (P' s) (f' s) s)"
  using trail_update_secrets trail_update_leases unfolding keeps_def by blast+

lemma trail_tenants [keeps_rules]:
  "keeps (trail L) (CreateTenantRow a b c d e)" "keeps (trail L) (SoftDeleteTenant u)"
  "keeps (trail L) (CreateProjectRow f g h i j)" "keeps (trail L) (SoftDeleteProject k l)"
  "keeps (trail L) (CreateEnvironmentRow p d c b n q)" "keeps (trail L) (SoftDeleteEnvironment v w)"
  unfolding CreateTenantRow_def SoftDeleteTenant_def CreateProjectRow_def SoftDeleteProject_def
    CreateEnvironmentRow_def SoftDeleteEnvironment_def Let_def
  by ((rule keeps_execI keeps_pairI, simp)+)

lemma trail_rows [keeps_rules]:
  "keeps (trail L) (UpdateProjectRow a b c d e)" "keeps (trail L) (UpdateEnvironmentRow f g h i j k)"
  unfolding UpdateProjectRow_def UpdateEnvironmentRow_def Let_def by ((rule keeps_firstI, simp)+)

lemma trail_folders [keeps_rules]:
  "keeps (trail L) (CreateFolderRow a b c d)" "keeps (trail L) (ReparentFolder e f g h)"
  "keeps (trail L) (MoveFolderSubtreePaths i j k l)" "keeps (trail L) (SoftDeleteFolderSubtree m n p)"
  unfolding CreateFolderRow_def ReparentFolder_def MoveFolderSubtreePaths_def SoftDeleteFolderSubtree_def Let_def
  by ((rule keeps_execI keeps_pairI keeps_firstI, simp)+)

lemma trail_secrets [keeps_rules]:
  "keeps (trail L) (SetSecretCurrentVersion a1 b1 c1 d1)" "keeps (trail L) (UpdateSecretMetaRow a2 b2 c2 d2 e2 f2 g2)"
  "keeps (trail L) (RestoreSecretRow a3 b3)" "keeps (trail L) (SoftDeleteSecret a7 b7 c7)"
  "keeps (trail L) (SetSecretLeasePolicyRow a8 b8 c8 d8 e8)"
  unfolding UpdateSecretMetaRow_def RestoreSecretRow_def SetSecretCurrentVersion_def SoftDeleteSecret_def SetSecretLeasePolicyRow_def
  by (rule trail_update_secrets trail_update_at)+

lemma trail_secret_rows [keeps_rules]:
  "keeps (trail L) (CreateSecretRow a b c d e f g h i j k l m n)"
  "keeps (trail L) (SoftDeleteSecretsInFolderSubtree a4 b4 c4 d4 e4)" "keeps (trail L) (RefreshSecretMrnPathsInSubtree a5 b5 c5 d5)"
  "keeps (trail L) (HardDeleteSecret a6 b6)"
  unfolding CreateSecretRow_def SoftDeleteSecretsInFolderSubtree_def RefreshSecretMrnPathsInSubtree_def HardDeleteSecret_def Let_def
  by ((rule keeps_execI keeps_pairI, simp)+)

lemma trail_versions [keeps_rules]:
  "keeps (trail L) (AllowSecretVersionDelete a)" "keeps (trail L) AllowSecretVersionRewrap"
  "keeps (trail L) (CreateSecretVersionRow a1 b1 c1 d1 e1 f1 g1 h1 i1)" "keeps (trail L) (RewrapSecretVersion a2 b2 c2 d2 e2)"
  "keeps (trail L) (DeleteSecretVersion a3)"
  unfolding AllowSecretVersionDelete_def AllowSecretVersionRewrap_def CreateSecretVersionRow_def RewrapSecretVersion_def
    DeleteSecretVersion_def Let_def
  by ((rule keeps_execI keeps_pairI, simp)+)

lemma trail_transit [keeps_rules]:
  "keeps (trail L) (CreateTransitKeyRow a b c d e f)" "keeps (trail L) (update_transit_key P g)"
  "keeps (trail L) (SoftDeleteTransitKey h i)" "keeps (trail L) (CreateTransitKeyVersion j k l m n p q)"
  unfolding CreateTransitKeyRow_def update_transit_key_def SoftDeleteTransitKey_def CreateTransitKeyVersion_def Let_def
  by ((rule keeps_execI keeps_pairI keeps_firstI, simp)+)

lemma trail_transit_updates [keeps_rules]:
  "keeps (trail L) (SetTransitKeyCurrentVersion a b c)" "keeps (trail L) (UpdateTransitKeyRow d e f g h)"
  unfolding SetTransitKeyCurrentVersion_def UpdateTransitKeyRow_def by (rule trail_transit)+

lemma trail_imports [keeps_rules]:
  "keeps (trail L) (CreateScopeImport a b c d e f g)" "keeps (trail L) (SetScopeImportEnabled h i j k)"
  "keeps (trail L) (SoftDeleteScopeImport l m)"
  unfolding CreateScopeImport_def SetScopeImportEnabled_def SoftDeleteScopeImport_def Let_def
  by ((rule keeps_execI keeps_pairI keeps_firstI, simp)+)

lemma trail_leases [keeps_rules]:
  "keeps (trail L) (ConsumeSecretLease lid)"
  "keeps (trail L) (RevokeSecretLease reason lid)" "keeps (trail L) (RevokeSecretLeasesForSecret reason tid sid)"
  unfolding ConsumeSecretLease_def RevokeSecretLease_def RevokeSecretLeasesForSecret_def
  by (rule trail_update_at)+

lemma trail_new_lease [keeps_rules]: "keeps (trail L) (CreateSecretLease tid sid m req knd ex mr)"
  unfolding CreateSecretLease_def Let_def by (rule keeps_execI) simp

section \<open>Reads\<close>

lemma keeps_queries [keeps_rules]: "keeps I (q_one f)" "keeps I (q_many h)" "keeps I (q_page l o' g)"
  by (auto simp: keeps_def q_one_def q_many_def q_page_def split: list.splits if_splits)

lemmas reads_unfold = GetTenantByUUID_def GetTenantRowByName_def GetProjectBySlug_def GetEnvironmentBySlug_def GetFolderByID_def
  GetFolderByPath_def GetSecretByAddress_def GetSecretByAddressForUpdate_def GetDeletedSecretByUUID_def GetLatestSecretVersion_def
  GetSecretVersionRow_def GetLatestVersionChecksum_def CountSecretVersions_def GetSecretVersionValueType_def
  ListPrunableVersions_def GetTransitKeyByNameForUpdate_def GetTransitKeyByName_def GetTransitKeyVersion_def
  ListScopeImportsByTarget_def GetLiveSecretLeaseForUpdate_def ListSecretLeasesRows_def CountSecretLeases_def
  ListTenantRows_def CountTenants_def ListProjectsByTenant_def CountProjectsByTenant_def ListEnvironmentsByProject_def
  ListFoldersBySubtree_def CountSecretsInSubtree_def ListSecretVersionMeta_def ListDeletedSecretMeta_def
  ListTransitKeyMetaByProject_def CountTransitKeysByProject_def ListTransitKeyVersionMeta_def CountTransitKeyVersions_def
  ListSecretsWithRotationPolicy_def ListAuditEventsFiltered_def CountAuditEventsFiltered_def GetSecretByUUID_def

lemma keeps_reads_all [keeps_rules]:
  "keeps I (GetTenantByUUID a1)" "keeps I (GetTenantRowByName a2)" "keeps I (GetProjectBySlug a3 b3)"
  "keeps I (GetEnvironmentBySlug a4 b4 c4)" "keeps I (GetFolderByID a5 b5)" "keeps I (GetFolderByPath a6 b6 c6)"
  "keeps I (GetDeletedSecretByUUID a7 b7)"
  "keeps I (GetSecretVersionRow a8 b8)" "keeps I (GetLatestVersionChecksum a9)" "keeps I (CountSecretVersions a10)"
  "keeps I (GetSecretVersionValueType a11 b11)" "keeps I (ListPrunableVersions a12 b12 c12)"
  "keeps I (GetTransitKeyByNameForUpdate a13 b13 c13)" "keeps I (GetTransitKeyByName a14 b14 c14)"
  "keeps I (GetTransitKeyVersion a15 b15)" "keeps I (ListScopeImportsByTarget a16 b16)"
  "keeps I (ListSecretLeasesRows a17 b17 c17 d17)" "keeps I (CountSecretLeases a18 b18)"
  unfolding reads_unfold by (rule keeps_queries)+

lemma keeps_lists_all [keeps_rules]:
  "keeps I (ListTenantRows a1 b1)" "keeps I CountTenants" "keeps I (ListProjectsByTenant a2 b2 c2 d2)"
  "keeps I (CountProjectsByTenant a3)" "keeps I (ListEnvironmentsByProject a4 b4 c4)" "keeps I (ListFoldersBySubtree a5 b5 c5 d5)"
  "keeps I (CountSecretsInSubtree a6 b6 c6)" "keeps I (ListSecretVersionMeta a7 b7 c7)" "keeps I (ListDeletedSecretMeta a8 b8 c8 d8)"
  "keeps I (ListTransitKeyMetaByProject a9 b9 c9 d9 e9)" "keeps I (CountTransitKeysByProject a10 b10)"
  "keeps I (ListTransitKeyVersionMeta a11 b11 c11)" "keeps I (CountTransitKeyVersions a12)"
  "keeps I (ListSecretsWithRotationPolicy a13 b13)" "keeps I (ListAuditEventsFiltered a14 b14 c14 d14)"
  "keeps I (CountAuditEventsFiltered a15 b15)" "keeps I (GetSecretByUUID a16 b16)"
  unfolding reads_unfold by (rule keeps_queries)+

section \<open>The operations\<close>

lemma keeps_dberr [keeps_rules]: "keeps I m \<Longrightarrow> (\<And>e. keeps I (h e)) \<Longrightarrow>
    keeps I (case e of NoRows \<Rightarrow> m | UniqueViolation \<Rightarrow> h UniqueViolation | ExclusionViolation \<Rightarrow> h ExclusionViolation
      | ForeignKeyViolation \<Rightarrow> h ForeignKeyViolation | CheckViolation c \<Rightarrow> h (CheckViolation c) | RaisedException c \<Rightarrow> h (RaisedException c))"
  by (cases e) auto

lemma keeps_names [keeps_rules]:
  "keeps I (resolveEnvironment t p e)" "keeps I (folder_at sc q)" "keeps I (resolveAddress ref)" "keeps I (valueTypeFor sid v)"
  "keeps I (secret_at ad)" "keeps I (resolveFolder t p e q)" "keeps I (resolveProject t p)" "keeps I (transitKeyByName t p q)"
  by (auto simp: secret_at_def resolveProject_def transitKeyByName_def intro: pure_keeps intro!: keeps_rules split: prod.splits)

lemma trail_ensure [keeps_rules]: "keeps (trail L) (ensure_segments sc built cur segs)"
  by (induction sc built cur segs rule: ensure_segments.induct) (auto simp: Let_def intro!: keeps_rules split: sum.splits)

lemma trail_prune [keeps_rules]: "keeps (trail L) (prune_loop c vs n)"
  by (induction c vs n rule: prune_loop.induct) (auto intro!: keeps_rules)

lemma trail_put [keeps_rules]:
  "keeps (trail L) (ensureFolderPath sc p)" "keeps (trail L) (pruneVersions row k)"
  "keeps (trail L) (put_append svc rnd inp val vt ad row c)"
  unfolding ensureFolderPath_def pruneVersions_def put_append_def Let_def by (intro keeps_rules)+

lemma trail_put_tx [keeps_rules]: "keeps (trail L) (put_tx svc rnd inp val vt p)"
  unfolding put_tx_def Let_def by (intro keeps_rules)

lemma trail_PutSecret [keeps_rules]: "keeps (trail L) (PutSecret svc rnd inp)"
  unfolding PutSecret_def Let_def by (intro keeps_rules)

lemma trail_secret_ops [keeps_rules]:
  "keeps (trail L) (UpdateSecretMeta svc minp)"
  "keeps (trail L) (DeleteSecret svc ref w)" "keeps (trail L) (RestoreSecret svc tu su)" "keeps (trail L) (DestroySecret svc tu su)"
  "keeps (trail L) (RollbackSecret svc rnd ref n)" "keeps (trail L) (GetSecret svc ref)" "keeps (trail L) (GetSecretVersion svc ref n)"
  "keeps (trail L) (DescribeSecret svc ref)"
  unfolding UpdateSecretMeta_def DeleteSecret_def RestoreSecret_def DestroySecret_def RollbackSecret_def GetSecret_def
    GetSecretVersion_def DescribeSecret_def by (intro keeps_rules)+

lemma trail_hierarchy_ops [keeps_rules]:
  "keeps (trail L) (CreateProject tu n sl d)" "keeps (trail L) (DeleteProject tu pu)" "keeps (trail L) (GetProject tu sl)"
  "keeps (trail L) (UpdateProject tu sl n d st)"
  "keeps (trail L) (CreateEnvironment tu pr n sl d po)" "keeps (trail L) (DeleteEnvironment tu pr sl)"
  "keeps (trail L) (UpdateEnvironment tu pr sl n d po st)" "keeps (trail L) (GetEnvironment tu pr sl)"
  "keeps (trail L) (CreateFolder tu pr en fp)" "keeps (trail L) (MoveFolder tu pr en fr to)"
  "keeps (trail L) (DeleteFolder svc tu pr en fp win)"
  unfolding CreateProject_def DeleteProject_def GetProject_def UpdateProject_def CreateEnvironment_def
    DeleteEnvironment_def UpdateEnvironment_def GetEnvironment_def CreateFolder_def MoveFolder_def move_tx_def DeleteFolder_def Let_def
  by (intro keeps_rules)+

lemma trail_transit_ops [keeps_rules]:
  "keeps (trail L) (sealTransitKeyVersion svc mat rnd tu row v)" "keeps (trail L) (openTransitMaterial svc tu key v)"
  unfolding sealTransitKeyVersion_def openTransitMaterial_def Let_def by (intro keeps_rules)+

lemma trail_transit_api [keeps_rules]:
  "keeps (trail L) (CreateTransitKey svc mat rnd inp)" "keeps (trail L) (RotateTransitKey svc mat rnd tu pr n)"
  "keeps (trail L) (GetTransitKey tu pr n)" "keeps (trail L) (UpdateTransitKey uinp)" "keeps (trail L) (DeleteTransitKey tu pr n)"
  "keeps (trail L) (TransitEncrypt svc dr tu pr n pt)" "keeps (trail L) (TransitDecrypt svc tu pr tok)"
  unfolding CreateTransitKey_def RotateTransitKey_def GetTransitKey_def UpdateTransitKey_def DeleteTransitKey_def
    TransitEncrypt_def TransitDecrypt_def Let_def by (intro keeps_rules)+

lemma keeps_frontiers [keeps_rules]: "keeps I (cycle_frontier tid target fs w)" "keeps I (chain_levels tid n visited frontier out)"
proof -
  show "keeps I (cycle_frontier tid target fs w)"
    by (induction tid target fs w rule: cycle_frontier.induct) (auto intro!: keeps_rules)
  show "keeps I (chain_levels tid n visited frontier out)" by (intro pure_keeps) simp
qed

lemma keeps_import_walks [keeps_rules]: "keeps I (cycle_levels tid target n visited frontier path)"
  by (induction n arbitrary: visited frontier path) (auto intro!: keeps_rules)

lemma keeps_import_checks [keeps_rules]: "keeps I (assertNoImportCycle tid source target)" "keeps I (ImportChainFor tu pr en fp)"
  unfolding assertNoImportCycle_def ImportChainFor_def ResolveImportChain_def by (intro keeps_rules)+

lemma trail_import_ops [keeps_rules]:
  "keeps (trail L) (CreateImport inp)" "keeps (trail L) (ListImports tu pr en fp)" "keeps (trail L) (SetImportEnabled tu iu e p)"
  "keeps (trail L) (DeleteImport tu iu)"
  unfolding CreateImport_def ListImports_def SetImportEnabled_def DeleteImport_def by (intro keeps_rules)+

lemma trail_lease_ops [keeps_rules]:
  "keeps (trail L) (lease_decide svc row lp ttl requester knd m ex)"
  unfolding lease_decide_def issue_lease_def consume_lease_def
  by (auto intro!: keeps_rules split: prod.splits option.splits decision.splits)

lemma trail_lease_api [keeps_rules]:
  "keeps (trail L) (AuthorizeLeasedRead svc ref requester knd m req)" "keeps (trail L) (SetSecretLeasePolicy svc ref policy)"
  "keeps (trail L) (RevokeSecretLeases ref)" "keeps (trail L) (GetSecretLeasePolicy ref)" "keeps (trail L) (ListSecretLeases ref pg lim)"
  unfolding AuthorizeLeasedRead_def lease_tx_def SetSecretLeasePolicy_def RevokeSecretLeases_def GetSecretLeasePolicy_def
    ListSecretLeases_def Let_def
  by (auto intro!: keeps_rules split: prod.splits option.splits sum.splits)

section \<open>Listings and rotation\<close>

lemma keeps_ListSecretMeta [keeps_rules]: "keeps I (ListSecretMetaBySubtree coll tid eid path l o')"
  by (auto simp: keeps_def ListSecretMetaBySubtree_def q_page_def)

lemma keeps_listings [keeps_rules]:
  "keeps I (ListProjects coll tu pg lim)" "keeps I (ListEnvironments coll tu pr)" "keeps I (ListFolders coll tu pr en pre)"
  "keeps I (ListSecrets coll svc tu pr en pre pg lim)" "keeps I (ListVersions ref pg lim)" "keeps I (ListDeletedSecrets tu pr en pg lim)"
  "keeps I (ListTransitKeys coll tu pr pg lim)" "keeps I (ListTransitKeyVersions tu pr n pg lim)" "keeps I (ListAuditEvents tu fl pg lim)"
  unfolding ListProjects_def ListEnvironments_def ListFolders_def ListSecrets_def ListVersions_def ListDeletedSecrets_def
    ListTransitKeys_def ListTransitKeyVersions_def ListAuditEvents_def
  by (intro keeps_rules)+

lemma keeps_due_pages [keeps_rules]: "keeps I (due_pages n now l o' out)"
  by (induction n arbitrary: o' out) (auto simp: Let_def intro!: keeps_rules)

lemma keeps_DueRotations [keeps_rules]: "keeps I (DueRotations now lim)"
  unfolding keeps_def DueRotations_def by (auto simp del: due_pages.simps dest: keepsD [OF keeps_due_pages])

lemma trail_policy [keeps_rules]: "keeps (trail L) (store_SetRotationPolicy svc ref policy)"
  unfolding store_SetRotationPolicy_def by (intro keeps_rules)

end
