(* ===== verification/ApiContract.thy ===== *)
theory ApiContract
  imports TrailLaws
begin

text \<open>
  What the API owes to its store and its auditor: a predicate on the database that every operation of
  the store and every append to the trail keeps is kept by every call of the API. The locale states
  the store's part and the auditor's; its instances are the growth of the trail, the
  well-formedness of the tables and, for a caller whose rows the trail refuses, the silence of the trail.
\<close>

section \<open>Reads\<close>

lemma keeps_read_ops [keeps_rules]:
  "keeps I (GetSecret svc ref)" "keeps I (GetSecretVersion svc ref n)" "keeps I (DescribeSecret svc ref)"
  "keeps I (GetProject tu sl)" "keeps I (GetEnvironment tu pr sl)" "keeps I (GetTenantByName name)"
  "keeps I (ListImports tu pr en fp)" "keeps I (GetSecretLeasePolicy ref)" "keeps I (ListSecretLeases ref pg lim)"
  "keeps I (ResolveScopeNames tu pr en)" "keeps I (SecretMRN ref)"
  unfolding GetProject_def GetEnvironment_def GetTenantByName_def ListImports_def GetSecretLeasePolicy_def ListSecretLeases_def
    DescribeSecret_def GetSecret_def GetSecretVersion_def Let_def
  by (intro keeps_rules pure_keeps pure_SecretMRN pure_ResolveScopeNames)+

lemma keeps_transit_reads [keeps_rules]:
  "keeps I (openTransitMaterial svc tu key v)" "keeps I (GetTransitKey tu pr n)"
  unfolding openTransitMaterial_def GetTransitKey_def by (intro keeps_rules)+

lemma keeps_transit_data [keeps_rules]:
  "keeps I (TransitEncrypt svc dr tu pr n pt)" "keeps I (TransitDecrypt svc tu pr tok)"
  unfolding TransitEncrypt_def TransitDecrypt_def Let_def by (intro keeps_rules)+

section \<open>Predicates on the database of a world\<close>

definition on :: "(db \<Rightarrow> bool) \<Rightarrow> world \<Rightarrow> bool" where
  "on K w \<longleftrightarrow> K (w_db w)"

lemma keeps_onDb [keeps_rules]: "keeps K m \<Longrightarrow> keeps (on K) (onDb m)"
  by (auto simp: keeps_def onDb_def on_def split: prod.splits)

lemma keeps_callStore [keeps_rules]: "keeps K m \<Longrightarrow> keeps (on K) (callStore m)"
  by (auto simp: callStore_def intro!: keeps_rules)

lemma keeps_notes [keeps_rules]: "keeps (on K) (\<lambda>w. (Inr (), w\<lparr>w_notes := f w\<rparr>))"
  by (auto simp: keeps_def on_def)

lemma keeps_notify [keeps_rules]: "keeps (on K) (notify s c p e m v)"
  by (auto simp: keeps_def on_def notify_def)

lemma keeps_checked [keeps_rules]: "keeps I (checked fs)" "keeps I (normalized q)" "keeps (on K) (secretMRN ref)"
  unfolding checked_def normalized_def secretMRN_def by (intro keeps_rules)+

section \<open>Calls\<close>

text \<open>The calls of the API, one constructor per operation, with the random bytes an operation draws.\<close>

datatype api_call =
    CallPutSecret draws api_put
  | CallUpdateSecretMeta api_meta
  | CallRollback draws secret_address int
  | CallDeleteSecret secret_address "int option"
  | CallRestoreSecret string
  | CallDestroySecret string
  | CallRevealSecret secret_address int
  | CallDescribeSecret secret_address
  | CallBatchGet "(secret_address \<times> int) list"
  | CallBatchPut "(draws \<times> batch_put_item) list"
  | CallListSecrets list_secrets_input
  | CallListVersions secret_address pagination
  | CallListDeletedSecrets string string pagination
  | CallCreateImport api_import
  | CallListImports string string string
  | CallSetImportEnabled string bool int
  | CallDeleteImport string
  | CallSetSecretLeasePolicy secret_address secret_lease_policy
  | CallGetSecretLeasePolicy secret_address
  | CallListSecretLeases secret_address pagination
  | CallRevokeSecretLeases secret_address
  | CallRotateSecret random_source draws secret_address spec
  | CallSetRotationPolicy secret_address rotation_policy
  | CallCreateProject api_project
  | CallListProjects pagination
  | CallGetProject string
  | CallUpdateProject api_project
  | CallDeleteProject string
  | CallCreateEnvironment api_environment
  | CallListEnvironments string
  | CallGetEnvironment string string
  | CallUpdateEnvironment api_environment
  | CallDeleteEnvironment string string
  | CallCreateFolder string string string
  | CallListFolders string string string
  | CallMoveFolder string string string string
  | CallDeleteFolder string string string "int option"
  | CallCreateTransitKey "bytes option" draws string string string
  | CallRotateTransitKey "bytes option" draws string string
  | CallGetTransitKey string string
  | CallListTransitKeys string pagination
  | CallListTransitKeyVersions string string pagination
  | CallUpdateTransitKey api_transit_update
  | CallDeleteTransitKey string string
  | CallTransitEncrypt "bytes option" string string bytes
  | CallTransitDecrypt string string
  | CallListAuditEvents audit_filter pagination

text \<open>A call with its result, but for the value returned on success.\<close>

definition erased :: "'a api \<Rightarrow> unit api" where
  "erased m = bindM m (\<lambda>_. ret ())"

fun run_call :: "collation \<Rightarrow> api_service \<Rightarrow> caller \<Rightarrow> api_call \<Rightarrow> unit api" where
  "run_call coll s c (CallPutSecret rnd inp) = erased (api_PutSecret s rnd c inp)"
| "run_call coll s c (CallUpdateSecretMeta inp) = erased (api_UpdateSecretMeta s c inp)"
| "run_call coll s c (CallRollback rnd addr n) = erased (api_Rollback s rnd c addr n)"
| "run_call coll s c (CallDeleteSecret addr w) = erased (api_DeleteSecret s c addr w)"
| "run_call coll s c (CallRestoreSecret raw) = erased (api_RestoreSecret s c raw)"
| "run_call coll s c (CallDestroySecret raw) = erased (api_DestroySecret s c raw)"
| "run_call coll s c (CallRevealSecret addr n) = erased (Reveal s c addr n)"
| "run_call coll s c (CallDescribeSecret addr) = erased (api_DescribeSecret s c addr)"
| "run_call coll s c (CallBatchGet items) = erased (BatchGet s c items)"
| "run_call coll s c (CallBatchPut items) = erased (BatchPut s c items)"
| "run_call coll s c (CallListSecrets inp) = erased (api_ListSecrets coll s c inp)"
| "run_call coll s c (CallListVersions addr p) = erased (api_ListVersions s c addr p)"
| "run_call coll s c (CallListDeletedSecrets pr en p) = erased (api_ListDeletedSecrets s c pr en p)"
| "run_call coll s c (CallCreateImport inp) = erased (api_CreateImport s c inp)"
| "run_call coll s c (CallListImports pr en fp) = erased (api_ListImports s c pr en fp)"
| "run_call coll s c (CallSetImportEnabled raw e po) = erased (api_SetImportEnabled s c raw e po)"
| "run_call coll s c (CallDeleteImport raw) = erased (api_DeleteImport s c raw)"
| "run_call coll s c (CallSetSecretLeasePolicy addr lpolicy) = erased (api_SetSecretLeasePolicy s c addr lpolicy)"
| "run_call coll s c (CallGetSecretLeasePolicy addr) = erased (api_GetSecretLeasePolicy s c addr)"
| "run_call coll s c (CallListSecretLeases addr p) = erased (api_ListSecretLeases s c addr p)"
| "run_call coll s c (CallRevokeSecretLeases addr) = erased (api_RevokeSecretLeases s c addr)"
| "run_call coll s c (CallRotateSecret src rnd addr g) = erased (api_RotateSecret s src rnd c addr g)"
| "run_call coll s c (CallSetRotationPolicy addr rpolicy) = erased (api_SetRotationPolicy s c addr rpolicy)"
| "run_call coll s c (CallCreateProject a) = erased (api_CreateProject s c a)"
| "run_call coll s c (CallListProjects p) = erased (api_ListProjects coll s c p)"
| "run_call coll s c (CallGetProject sl) = erased (api_GetProject s c sl)"
| "run_call coll s c (CallUpdateProject a) = erased (api_UpdateProject s c a)"
| "run_call coll s c (CallDeleteProject sl) = erased (api_DeleteProject s c sl)"
| "run_call coll s c (CallCreateEnvironment a) = erased (api_CreateEnvironment s c a)"
| "run_call coll s c (CallListEnvironments pr) = erased (api_ListEnvironments coll s c pr)"
| "run_call coll s c (CallGetEnvironment pr sl) = erased (api_GetEnvironment s c pr sl)"
| "run_call coll s c (CallUpdateEnvironment a) = erased (api_UpdateEnvironment s c a)"
| "run_call coll s c (CallDeleteEnvironment pr sl) = erased (api_DeleteEnvironment s c pr sl)"
| "run_call coll s c (CallCreateFolder pr en fp) = erased (api_CreateFolder s c pr en fp)"
| "run_call coll s c (CallListFolders pr en fp) = erased (api_ListFolders coll s c pr en fp)"
| "run_call coll s c (CallMoveFolder pr en fr to) = erased (api_MoveFolder s c pr en fr to)"
| "run_call coll s c (CallDeleteFolder pr en fp w) = erased (api_DeleteFolder s c pr en fp w)"
| "run_call coll s c (CallCreateTransitKey mat rnd pr n d) = erased (api_CreateTransitKey s mat rnd c pr n d)"
| "run_call coll s c (CallRotateTransitKey mat rnd pr n) = erased (api_RotateTransitKey s mat rnd c pr n)"
| "run_call coll s c (CallGetTransitKey pr n) = erased (api_GetTransitKey s c pr n)"
| "run_call coll s c (CallListTransitKeys pr p) = erased (api_ListTransitKeys coll s c pr p)"
| "run_call coll s c (CallListTransitKeyVersions pr n p) = erased (api_ListTransitKeyVersions s c pr n p)"
| "run_call coll s c (CallUpdateTransitKey inp) = erased (api_UpdateTransitKey s c inp)"
| "run_call coll s c (CallDeleteTransitKey pr n) = erased (api_DeleteTransitKey s c pr n)"
| "run_call coll s c (CallTransitEncrypt dr pr n pt) = erased (api_TransitEncrypt s dr c pr n pt)"
| "run_call coll s c (CallTransitDecrypt pr tok) = erased (api_TransitDecrypt s c pr tok)"
| "run_call coll s c (CallListAuditEvents fl p) = erased (api_ListAuditEvents s c fl p)"

lemma keeps_erased: "keeps I m \<Longrightarrow> keeps I (erased m)"
  unfolding erased_def by (intro keeps_rules)

section \<open>The contract\<close>

locale store_contract =
  fixes K :: "db \<Rightarrow> bool"
  assumes put: "keeps K (PutSecret svc rnd inp)" and meta: "keeps K (UpdateSecretMeta svc minp)"
    and delete: "keeps K (DeleteSecret svc ref win)" and restore: "keeps K (RestoreSecret svc tu su)"
    and destroy: "keeps K (DestroySecret svc tu su)" and rollback: "keeps K (RollbackSecret svc rnd ref n)"
    and lease: "keeps K (AuthorizeLeasedRead svc ref requester knd m ttl)"
    and lease_policy: "keeps K (SetSecretLeasePolicy svc ref policy)" and revoke: "keeps K (RevokeSecretLeases ref)"
    and rotation: "keeps K (store_SetRotationPolicy svc ref rpolicy)"
    and project: "keeps K (CreateProject tu name sl d)" and project_update: "keeps K (UpdateProject tu sl name d st)"
    and project_delete: "keeps K (DeleteProject tu pu)"
    and env: "keeps K (CreateEnvironment tu pr name sl d po)" and env_update: "keeps K (UpdateEnvironment tu pr sl name d po st)"
    and env_delete: "keeps K (DeleteEnvironment tu pr sl)"
    and folder: "keeps K (CreateFolder tu pr en fp)" and folder_move: "keeps K (MoveFolder tu pr en fr to)"
    and folder_delete: "keeps K (DeleteFolder svc tu pr en fp win)"
    and import_create: "keeps K (CreateImport iinp)" and import_enable: "keeps K (SetImportEnabled tu iu e po)"
    and import_delete: "keeps K (DeleteImport tu iu)"
    and transit: "keeps K (CreateTransitKey svc mat rnd tinp)" and transit_rotate: "keeps K (RotateTransitKey svc mat rnd tu pr name)"
    and transit_update: "keeps K (UpdateTransitKey uinp)" and transit_delete: "keeps K (DeleteTransitKey tu pr name)"
begin

lemmas store_rules = put meta delete restore destroy rollback lease lease_policy revoke rotation project project_update
  project_delete env env_update env_delete folder folder_move folder_delete import_create import_enable import_delete
  transit transit_rotate transit_update transit_delete

end

locale api_contract = store_contract +
  fixes s :: api_service and c :: caller
  assumes append: "keeps K (Record (ap_auditor s) (c_actor c) ev)"
begin

lemma step_rules: "keeps (on K) (guard s c p a m)" "keeps (on K) (recordSuccess s c ev)"
  "keeps (on K) (recordFailure s c a m e)"
  unfolding guard_def recordSuccess_def recordFailure_def RecordDenied_def RecordError_def
  by (intro keeps_rules append)+

lemma keeps_recorded: "keeps (on K) n \<Longrightarrow> keeps (on K) (recorded s c a m n)"
  unfolding recorded_def by (intro keeps_rules step_rules)

lemma keeps_operation: "keeps K n \<Longrightarrow> keeps (on K) (operation s c p a m n ev)"
  unfolding operation_def by (intro keeps_rules step_rules keeps_recorded)

lemmas api_rules = step_rules keeps_recorded keeps_operation store_rules

lemma api_secret_writes: "keeps (on K) (api_PutSecret s rnd c pinp)" "keeps (on K) (api_UpdateSecretMeta s c meinp)"
  "keeps (on K) (api_Rollback s rnd c addr n)" "keeps (on K) (api_DeleteSecret s c addr w)"
  unfolding api_PutSecret_def api_UpdateSecretMeta_def api_Rollback_def api_DeleteSecret_def
  by (intro keeps_rules api_rules)+

lemma keeps_with_uuid: "(\<And>u. keeps (on K) (k u)) \<Longrightarrow> keeps (on K) (with_uuid s name raw k)"
  unfolding with_uuid_def by (intro keeps_rules)

lemma api_secret_uuids: "keeps (on K) (api_RestoreSecret s c raw)" "keeps (on K) (api_DestroySecret s c raw)"
  unfolding api_RestoreSecret_def api_DestroySecret_def by (intro keeps_rules api_rules keeps_with_uuid)+

lemma api_batch_put: "keeps (on K) (batch_put s c items out)" "keeps (on K) (BatchPut s c items)"
proof -
  show *: "keeps (on K) (batch_put s c items out)" for items out
  proof (induction items arbitrary: out)
    case (Cons i items)
    then show ?case by (cases i) (auto intro!: keeps_rules api_secret_writes)
  qed simp
  show "keeps (on K) (BatchPut s c items)" unfolding BatchPut_def by (intro keeps_rules *)
qed

lemma api_imports: "keeps (on K) (api_CreateImport s c iminp)" "keeps (on K) (api_ListImports s c pr en fp)"
  "keeps (on K) (api_SetImportEnabled s c raw e po)" "keeps (on K) (api_DeleteImport s c raw)"
  unfolding api_CreateImport_def api_ListImports_def api_SetImportEnabled_def api_DeleteImport_def Let_def
  by (intro keeps_rules api_rules keeps_with_uuid)+

lemma api_leases: "keeps (on K) (api_SetSecretLeasePolicy s c addr policy)" "keeps (on K) (api_GetSecretLeasePolicy s c addr)"
  "keeps (on K) (api_ListSecretLeases s c addr p)" "keeps (on K) (api_RevokeSecretLeases s c addr)"
  unfolding api_SetSecretLeasePolicy_def api_GetSecretLeasePolicy_def api_ListSecretLeases_def api_RevokeSecretLeases_def
  by (intro keeps_rules api_rules)+

lemma keeps_enforce: "keeps (on K) (enforceReadLease s c ref m)"
  unfolding enforceReadLease_def RecordDenied_def
  by (auto intro!: keeps_rules api_rules append split: sum.splits lease_error.splits bool.splits option.splits)

lemma keeps_one_reference:
  "(\<And>t ch. keeps (on K) (f t ch)) \<Longrightarrow> keeps (on K) (resolveOneReference s c f chain depth a)"
  unfolding resolveOneReference_def Let_def
  by (auto intro!: keeps_rules api_rules split: option.splits)

lemma keeps_expand_pieces: "(\<And>a. keeps I (f a)) \<Longrightarrow> keeps I (expand_pieces f e ps out hops)"
  by (induction f e ps out hops rule: expand_pieces.induct) (auto intro!: keeps_rules)

lemma keeps_expand: "keeps (on K) (expand n s c depth template chain)"
  by (induction n arbitrary: depth template chain) (auto intro!: keeps_rules keeps_expand_pieces keeps_one_reference)

lemma keeps_candidates: "keeps (on K) (import_candidates s c key srcs)"
  by (induction srcs) (auto simp: Let_def describes_def intro!: keeps_rules split: sum.splits)

lemma keeps_through_imports: "keeps (on K) (resolveThroughImports s c addr)"
  unfolding resolveThroughImports_def describes_def by (auto intro!: keeps_rules keeps_candidates split: sum.splits)

lemma api_reveal: "keeps (on K) (Reveal s c addr ver)" "keeps (on K) (api_DescribeSecret s c addr)"
  unfolding Reveal_def reveal_resolved_def api_DescribeSecret_def resolveReferences_def Let_def
  by (intro keeps_rules api_rules keeps_through_imports keeps_enforce keeps_expand)+

lemma api_batch_get: "keeps (on K) (batch_get s c items out)" "keeps (on K) (BatchGet s c items)"
proof -
  show *: "keeps (on K) (batch_get s c items out)" for items out
  proof (induction items arbitrary: out)
    case (Cons i items)
    then show ?case by (cases i) (auto intro!: keeps_rules api_reveal)
  qed simp
  show "keeps (on K) (BatchGet s c items)" unfolding BatchGet_def by (intro keeps_rules *)
qed

lemma api_rotation: "keeps (on K) (api_RotateSecret s src rnd c addr g)" "keeps (on K) (api_SetRotationPolicy s c addr policy)"
  unfolding api_RotateSecret_def api_SetRotationPolicy_def Let_def by (intro keeps_rules api_rules)+

lemma api_projects: "keeps (on K) (api_CreateProject s c a)" "keeps (on K) (api_ListProjects coll s c p)"
  "keeps (on K) (api_GetProject s c sl)" "keeps (on K) (api_UpdateProject s c a)" "keeps (on K) (api_DeleteProject s c sl)"
  unfolding api_CreateProject_def api_ListProjects_def api_GetProject_def api_UpdateProject_def api_DeleteProject_def Let_def
  by (intro keeps_rules api_rules)+

lemma api_environments: "keeps (on K) (api_CreateEnvironment s c a)" "keeps (on K) (api_ListEnvironments coll s c pr)"
  "keeps (on K) (api_GetEnvironment s c pr sl)" "keeps (on K) (api_UpdateEnvironment s c a)" "keeps (on K) (api_DeleteEnvironment s c pr sl)"
  unfolding api_CreateEnvironment_def api_ListEnvironments_def api_GetEnvironment_def api_UpdateEnvironment_def
    api_DeleteEnvironment_def Let_def
  by (intro keeps_rules api_rules)+

lemma api_folders: "keeps (on K) (api_CreateFolder s c pr en fp)" "keeps (on K) (api_ListFolders coll s c pr en fp)"
  "keeps (on K) (api_MoveFolder s c pr en fr to)" "keeps (on K) (api_DeleteFolder s c pr en fp win)"
  unfolding api_CreateFolder_def api_ListFolders_def api_MoveFolder_def api_DeleteFolder_def Let_def
  by (intro keeps_rules api_rules)+

lemma api_listings: "keeps (on K) (api_ListSecrets coll s c linp)" "keeps (on K) (api_ListVersions s c addr p)"
  "keeps (on K) (api_ListDeletedSecrets s c pr en p)" "keeps (on K) (api_ListAuditEvents s c fl p)"
  unfolding api_ListSecrets_def api_ListVersions_def api_ListDeletedSecrets_def api_ListAuditEvents_def Let_def
  by (intro keeps_rules api_rules)+

lemma api_transit_keys: "keeps (on K) (api_CreateTransitKey s mat rnd c pr n d)" "keeps (on K) (api_RotateTransitKey s mat rnd c pr n)"
  "keeps (on K) (api_GetTransitKey s c pr n)" "keeps (on K) (api_ListTransitKeys coll s c pr p)"
  "keeps (on K) (api_ListTransitKeyVersions s c pr n p)" "keeps (on K) (api_UpdateTransitKey s c uin)"
  "keeps (on K) (api_DeleteTransitKey s c pr n)"
  unfolding api_CreateTransitKey_def api_RotateTransitKey_def api_GetTransitKey_def api_ListTransitKeys_def
    api_ListTransitKeyVersions_def api_UpdateTransitKey_def api_DeleteTransitKey_def Let_def
  by (intro keeps_rules api_rules)+

lemma api_transit_data: "keeps (on K) (api_TransitEncrypt s dr c pr n pt)" "keeps (on K) (api_TransitDecrypt s c pr tok)"
  unfolding api_TransitEncrypt_def api_TransitDecrypt_def Let_def by (intro keeps_rules api_rules)+

lemma keeps_call: "keeps (on K) (run_call coll s c call)"
  by (cases call)
    (simp_all add: keeps_erased api_secret_writes api_secret_uuids api_batch_put api_imports api_leases api_reveal api_batch_get
      api_rotation api_projects api_environments api_folders api_listings api_transit_keys api_transit_data)

lemma append_scheduled: "c_actor c = scheduledActor \<Longrightarrow> keeps K (Record (ap_auditor s) scheduledActor ev)"
  using append [of ev] by simp

lemma keeps_rotate_one: "c_actor c = scheduledActor \<Longrightarrow> keeps (on K) (rotate_one s d item out)"
  unfolding rotate_one_def RecordError_def
  by (cases d) (auto intro!: keeps_rules api_rules append_scheduled split: sum.splits)

lemma keeps_rotate_all: "c_actor c = scheduledActor \<Longrightarrow> keeps (on K) (rotate_all s ds i items out)"
  by (induction items arbitrary: i out) (auto intro!: keeps_rules keeps_rotate_one)

lemma keeps_scheduled: "c_actor c = scheduledActor \<Longrightarrow> keeps (on K) (RotateDueSecrets s ds now limit)"
  unfolding RotateDueSecrets_def by (intro keeps_rules keeps_rotate_all)

end

section \<open>The trail grows\<close>

definition grown :: "audit_row list \<Rightarrow> db \<Rightarrow> bool" where
  "grown L s \<longleftrightarrow> prefix L (audit_log s)"

lemma keeps_grown: "(\<And>L. keeps (trail L) m) \<Longrightarrow> keeps (grown L) m"
  by (simp add: keeps_def trail_def grown_def)

lemma Append_grown [keeps_rules]: "keeps (grown L) (AppendAuditEvent ev tid sid)"
  unfolding keeps_def
proof (intro allI impI)
  fix s r t assume run: "AppendAuditEvent ev tid sid s = (r, t)" "grown L s"
  then show "grown L t" by (cases r) (auto simp: grown_def with_row_def dest!: Append_err Append_ok)
qed

lemma keeps_audit_link [keeps_rules]: "keeps I (audit_link tu su)"
  by (intro pure_keeps) simp

lemma Record_grown: "keeps (grown L) (Record aud act ev)"
  unfolding Record_def RecordAudit_alt Let_def by (intro keeps_rules)

interpretation grow: api_contract "grown L" s c for L s c
  by unfold_locales (intro keeps_grown keeps_rules Record_grown)+

section \<open>The tables stay well-formed\<close>

lemma store_ok_others:
  "store_ok s \<Longrightarrow> seq s \<le> n \<Longrightarrow> store_ok (s\<lparr>transit_keys := a, seq := n\<rparr>)"
  "store_ok s \<Longrightarrow> seq s \<le> n \<Longrightarrow> store_ok (s\<lparr>transit_versions := b, seq := n\<rparr>)"
  "store_ok s \<Longrightarrow> seq s \<le> n \<Longrightarrow> store_ok (s\<lparr>scope_imports := d, seq := n\<rparr>)"
  "store_ok s \<Longrightarrow> seq s \<le> n \<Longrightarrow> store_ok (s\<lparr>audit_log := e, seq := n\<rparr>)"
  "store_ok s \<Longrightarrow> store_ok (s\<lparr>transit_keys := a\<rparr>)"
  "store_ok s \<Longrightarrow> store_ok (s\<lparr>transit_versions := b\<rparr>)"
  "store_ok s \<Longrightarrow> store_ok (s\<lparr>scope_imports := d\<rparr>)"
  by (rule store_ok_transit; simp)+

lemma ok_transit [keeps_rules]:
  "keeps store_ok (CreateTransitKeyRow a b c d e f)" "keeps store_ok (update_transit_key P g)"
  "keeps store_ok (SoftDeleteTransitKey h i)" "keeps store_ok (CreateTransitKeyVersion j k l m n p q)"
  unfolding CreateTransitKeyRow_def update_transit_key_def SoftDeleteTransitKey_def CreateTransitKeyVersion_def Let_def
  by ((rule keeps_execI keeps_pairI keeps_firstI, erule store_ok_others, simp?)+)

lemma ok_transit_updates [keeps_rules]:
  "keeps store_ok (SetTransitKeyCurrentVersion a b c)" "keeps store_ok (UpdateTransitKeyRow d e f g h)"
  unfolding SetTransitKeyCurrentVersion_def UpdateTransitKeyRow_def by (rule ok_transit)+

lemma ok_imports [keeps_rules]:
  "keeps store_ok (CreateScopeImport a b c d e f g)" "keeps store_ok (SetScopeImportEnabled h i j k)"
  "keeps store_ok (SoftDeleteScopeImport l m)"
  unfolding CreateScopeImport_def SetScopeImportEnabled_def SoftDeleteScopeImport_def Let_def
  by ((rule keeps_execI keeps_pairI keeps_firstI, erule store_ok_others, simp?)+)

lemma ok_seal [keeps_rules]: "keeps store_ok (sealTransitKeyVersion svc mat rnd tu row v)"
  unfolding sealTransitKeyVersion_def Let_def by (intro keeps_rules)

lemma ok_other_ops [keeps_rules]:
  "keeps store_ok (CreateTransitKey svc mat rnd inp)" "keeps store_ok (RotateTransitKey svc mat rnd tu pr n)"
  "keeps store_ok (UpdateTransitKey uinp)" "keeps store_ok (DeleteTransitKey tu pr n)"
  "keeps store_ok (CreateImport iinp)" "keeps store_ok (SetImportEnabled tu iu e p)" "keeps store_ok (DeleteImport tu iu)"
  "keeps store_ok (store_SetRotationPolicy svc ref policy)"
  unfolding CreateTransitKey_def RotateTransitKey_def UpdateTransitKey_def DeleteTransitKey_def CreateImport_def
    SetImportEnabled_def DeleteImport_def store_SetRotationPolicy_def Let_def
  by (intro keeps_rules)+

lemma ok_append [keeps_rules]: "keeps store_ok (AppendAuditEvent ev tid sid)"
  unfolding keeps_def
proof (intro allI impI)
  fix s r t assume run: "AppendAuditEvent ev tid sid s = (r, t)" "store_ok s"
  then show "store_ok t"
    by (cases r) (auto simp: with_row_def store_ok_others(4) dest!: Append_err Append_ok)
qed

lemma Record_store_ok: "keeps store_ok (Record aud act ev)"
  unfolding Record_def RecordAudit_alt Let_def by (intro keeps_rules)

interpretation well: api_contract store_ok s c for s c
  by unfold_locales (intro keeps_rules Record_store_ok)+

section \<open>A caller the trail refuses\<close>

text \<open>The request id of the caller does not fit its column: no row of the caller is ever written.\<close>

definition refused :: "caller \<Rightarrow> bool" where
  "refused c \<longleftrightarrow> (\<exists>e. varchar 255 (ac_request (c_actor c)) = Inl e)"

lemma refused_columns: "varchar 255 (ae_request ev) = Inl e \<Longrightarrow> \<exists>e. audit_columns ev = Inl e"
  by (auto simp: audit_columns_def bindR_def split: sum.splits)

lemma refused_append: "varchar 255 (ae_request ev) = Inl e \<Longrightarrow> keeps I (AppendAuditEvent ev tid sid)"
  using refused_columns [of ev e] by (auto simp: keeps_def AppendAuditEvent_def)

lemma refused_record: "refused c \<Longrightarrow> keeps I (Record aud (c_actor c) ev)"
  unfolding Record_def RecordAudit_alt Let_def refused_def
  by (elim exE, intro keeps_rules refused_append) simp_all

lemma refused_contract: "refused c \<Longrightarrow> api_contract (trail L) s c"
  by (unfold_locales; intro keeps_rules refused_record; assumption?)

end
