(* ===== verification/Grants.thy ===== *)
theory Grants
  imports ApiContract
begin

text \<open>
  A caller without the grant of a call: the guard comes before the store in every operation, so such a
  call changes nothing but the trail, where it leaves denials. The table \<open>required\<close> gives the
  permissions of each call.
\<close>

section \<open>Without the grant\<close>

definition denials :: "world \<Rightarrow> world \<Rightarrow> bool" where
  "denials w0 w \<longleftrightarrow> (\<exists>rs. w = add_rows w0 rs \<and> (\<forall>r \<in> set rs. a_outcome r = ''denied''))"

lemma denials_add: "denials w0 w \<Longrightarrow> (\<forall>r \<in> set rs. a_outcome r = ''denied'') \<Longrightarrow> denials w0 (add_rows w rs)"
  by (fastforce simp: denials_def)

lemma guard_denials [keeps_rules]: "keeps (denials w0) (guard s c p a m)"
  unfolding keeps_def
proof (intro allI impI)
  fix w r w' assume run: "guard s c p a m w = (r, w')" and d: "denials w0 w"
  show "denials w0 w'"
  proof (cases "ap_auditor s")
    case False
    with run d show ?thesis by (simp add: guard_def fail_def)
  next
    case aud: True
    show ?thesis
    proof (cases r)
      case (Inr u)
      with run d show ?thesis by (simp add: guard_ok)
    next
      case (Inl e)
      with run obtain rs where "w' = add_rows w rs" "\<forall>r \<in> set rs. denied_row a m r" by (metis guard_denied aud)
      with d show ?thesis by (auto simp: denied_row_def intro!: denials_add)
    qed
  qed
qed

definition lacks :: "caller \<Rightarrow> string \<Rightarrow> bool" where
  "lacks c p \<longleftrightarrow> (\<forall>m. \<not> c_allows c p m)"

lemma guard_lacks: "lacks c p \<Longrightarrow> \<exists>e. fst (guard s c p a m w) = Inl e"
  by (cases "guard s c p a m w"; cases "fst (guard s c p a m w)") (auto simp: lacks_def guard_ok)

lemma guard_stops: "lacks c p \<Longrightarrow> bindM (guard s c p a m) k = bindM (guard s c p a m) (\<lambda>_. fail ErrNoAuditor)"
proof
  fix w assume "lacks c p"
  from guard_lacks [OF this] obtain e where "fst (guard s c p a m w) = Inl e" by blast
  then show "bindM (guard s c p a m) k w = bindM (guard s c p a m) (\<lambda>_. fail ErrNoAuditor) w"
    by (cases "guard s c p a m w") (simp add: bindM_def)
qed

lemma stopped [keeps_rules]: "keeps (denials w0) (bindM (guard s c p a m) (\<lambda>_. fail e))"
  by (intro keeps_rules)

text \<open>A computation that fails and leaves denials at most.\<close>

definition blocked :: "world \<Rightarrow> 'a api \<Rightarrow> bool" where
  "blocked w0 m \<longleftrightarrow> keeps (denials w0) m \<and> (\<forall>w. \<exists>e. fst (m w) = Inl e)"

lemma blocked_keeps: "blocked w0 m \<Longrightarrow> keeps (denials w0) m"
  by (simp add: blocked_def)

lemma blocked_bind: "keeps (denials w0) m \<Longrightarrow> (\<And>x. blocked w0 (k x)) \<Longrightarrow> blocked w0 (bindM m k)"
  unfolding blocked_def
proof (intro conjI allI)
  fix w assume m: "keeps (denials w0) m" "\<And>x. keeps (denials w0) (k x) \<and> (\<forall>w. \<exists>e. fst (k x w) = Inl e)"
  show "keeps (denials w0) (bindM m k)" using m by (intro keeps_rules) auto
  show "\<exists>e. fst (bindM m k w) = Inl e" using m(2) by (auto simp: bindM_def split: prod.splits sum.splits)
qed

lemma blocked_guard: "lacks c p \<Longrightarrow> blocked w0 (bindM (guard s c p a m) k)"
  unfolding blocked_def
proof (intro conjI allI)
  fix w assume l: "lacks c p"
  show "keeps (denials w0) (bindM (guard s c p a m) k)" by (subst guard_stops [OF l]) (rule stopped)
  show "\<exists>e. fst (bindM (guard s c p a m) k w) = Inl e"
  proof -
    obtain e where "fst (guard s c p a m w) = Inl e" using guard_lacks [OF l] by blast
    then show ?thesis by (cases "guard s c p a m w") (simp add: bindM_def)
  qed
qed

lemma blocked_operation: "lacks c p \<Longrightarrow> blocked w0 (operation s c p a m n ev)"
  unfolding operation_def by (rule blocked_guard)

lemma blocked_operation_bind: "lacks c p \<Longrightarrow> blocked w0 (bindM (operation s c p a m n ev) k)"
proof -
  have assoc: "bindM (bindM x f) g = bindM x (\<lambda>y. bindM (f y) g)" for x :: "'x api" and f :: "'x \<Rightarrow> 'y api" and g :: "'y \<Rightarrow> 'z api"
    by (auto simp: bindM_def fun_eq_iff split: prod.splits sum.splits)
  assume "lacks c p"
  then show ?thesis unfolding operation_def assoc by (rule blocked_guard)
qed

lemma blocked_fail: "blocked w0 (fail e)"
  by (simp add: blocked_def fail_def keeps_def)

lemma blocked_if: "blocked w0 m \<Longrightarrow> blocked w0 n \<Longrightarrow> blocked w0 (if b then m else n)"
  by simp

lemma blocked_prod: "(\<And>a b. blocked w0 (h a b)) \<Longrightarrow> blocked w0 (case p of (a, b) \<Rightarrow> h a b)"
  by (cases p) auto

lemma blocked_uuid: "(\<And>u. blocked w0 (k u)) \<Longrightarrow> blocked w0 (with_uuid s name raw k)"
  by (auto simp: with_uuid_def blocked_fail split: option.splits)

lemma blocked_erased: "blocked w0 m \<Longrightarrow> blocked w0 (erased m)"
  unfolding blocked_def erased_def
proof (intro conjI allI)
  fix w assume m: "keeps (denials w0) m \<and> (\<forall>w. \<exists>e. fst (m w) = Inl e)"
  show "keeps (denials w0) (bindM m (\<lambda>_. ret ()))" using m by (intro keeps_rules) auto
  show "\<exists>e. fst (bindM m (\<lambda>_. ret ()) w) = Inl e"
  proof -
    obtain e where "fst (m w) = Inl e" using m by blast
    then show ?thesis by (cases "m w") (simp add: bindM_def)
  qed
qed

text \<open>The permissions a call needs, each on the resource of the call.\<close>

fun required :: "api_call \<Rightarrow> string set" where
  "required (CallPutSecret rnd inp) = {''secret:PutSecret''}"
| "required (CallUpdateSecretMeta inp) = {''secret:PutSecret''}"
| "required (CallRollback rnd addr n) = {''secret:PutSecret'', ''secret:GetSecret''}"
| "required (CallDeleteSecret addr w) = {''secret:DeleteSecret''}"
| "required (CallRestoreSecret raw) = {''secret:DeleteSecret''}"
| "required (CallDestroySecret raw) = {''secret:DeleteSecret''}"
| "required (CallRevealSecret addr n) = {''secret:GetSecret''}"
| "required (CallDescribeSecret addr) = {''secret:ReadMetadata''}"
| "required (CallBatchGet items) = {''secret:GetSecret''}"
| "required (CallBatchPut items') = {''secret:PutSecret''}"
| "required (CallListSecrets linp) = {''secret:ListSecrets''}"
| "required (CallListVersions addr p) = {''secret:ReadMetadata''}"
| "required (CallListDeletedSecrets pr en p) = {''secret:ListSecrets''}"
| "required (CallCreateImport iinp) = {''secret:ManageFolder'', ''secret:GetSecret''}"
| "required (CallListImports pr en fp) = {''secret:ReadMetadata''}"
| "required (CallSetImportEnabled raw e po) = {''secret:ManageFolder''}"
| "required (CallDeleteImport raw) = {''secret:ManageFolder''}"
| "required (CallSetSecretLeasePolicy addr lpolicy) = {''secret:ManageLease''}"
| "required (CallGetSecretLeasePolicy addr) = {''secret:ReadMetadata''}"
| "required (CallListSecretLeases addr p) = {''secret:ReadMetadata''}"
| "required (CallRevokeSecretLeases addr) = {''secret:ManageLease''}"
| "required (CallRotateSecret src rnd addr g) = {''secret:RotateSecret''}"
| "required (CallSetRotationPolicy addr rpolicy) = {''secret:ManageRotation''}"
| "required (CallCreateProject a) = {''secret:ManageProject''}"
| "required (CallListProjects p) = {''secret:ReadMetadata''}"
| "required (CallGetProject sl) = {''secret:ReadMetadata''}"
| "required (CallUpdateProject a) = {''secret:ManageProject''}"
| "required (CallDeleteProject sl) = {''secret:ManageProject''}"
| "required (CallCreateEnvironment e') = {''secret:ManageEnvironment''}"
| "required (CallListEnvironments pr) = {''secret:ReadMetadata''}"
| "required (CallGetEnvironment pr sl) = {''secret:ReadMetadata''}"
| "required (CallUpdateEnvironment e') = {''secret:ManageEnvironment''}"
| "required (CallDeleteEnvironment pr sl) = {''secret:ManageEnvironment''}"
| "required (CallCreateFolder pr en fp) = {''secret:ManageFolder''}"
| "required (CallListFolders pr en fp) = {''secret:ReadMetadata''}"
| "required (CallMoveFolder pr en fr to) = {''secret:ManageFolder''}"
| "required (CallDeleteFolder pr en fp w) = {''secret:ManageFolder'', ''secret:DeleteSecret''}"
| "required (CallCreateTransitKey mat rnd pr n d) = {''secret:ManageTransitKey''}"
| "required (CallRotateTransitKey mat rnd pr n) = {''secret:ManageTransitKey''}"
| "required (CallGetTransitKey pr n) = {''secret:ReadMetadata''}"
| "required (CallListTransitKeys pr p) = {''secret:ReadMetadata''}"
| "required (CallListTransitKeyVersions pr n p) = {''secret:ReadMetadata''}"
| "required (CallUpdateTransitKey uinp) = {''secret:ManageTransitKey''}"
| "required (CallDeleteTransitKey pr n) = {''secret:ManageTransitKey''}"
| "required (CallTransitEncrypt dr pr n pt) = {''secret:Encrypt''}"
| "required (CallTransitDecrypt pr tok) = {''secret:Decrypt''}"
| "required (CallListAuditEvents fl p) = {''secret:ReadAudit''}"

lemma denials_pure [keeps_rules]: "keeps (denials w0) (secretMRN ref)" "keeps (denials w0) (resolveThroughImports s c addr)"
  "keeps (denials w0) (callStore (ResolveScopeNames tu pr en))"
  by (intro pure_keeps pure_callStore pure_secretMRN pure_resolveThroughImports pure_ResolveScopeNames)+

lemmas stop_rules = blocked_operation blocked_operation_bind blocked_guard

lemmas blocked_rules = blocked_uuid blocked_prod blocked_if blocked_fail blocked_bind

lemma stops_put:
  "lacks c ''secret:PutSecret'' \<Longrightarrow> blocked w0 (api_PutSecret s rnd c pinp)"
  "lacks c ''secret:PutSecret'' \<Longrightarrow> blocked w0 (api_UpdateSecretMeta s c meinp)"
  "lacks c ''secret:PutSecret'' \<Longrightarrow> blocked w0 (api_Rollback s rnd c addr n)"
  unfolding api_PutSecret_def api_UpdateSecretMeta_def api_Rollback_def Let_def
  by (((rule stop_rules, assumption) | rule blocked_rules | rule keeps_rules)+)

lemma stops_get:
  "lacks c ''secret:GetSecret'' \<Longrightarrow> blocked w0 (api_Rollback s rnd c addr n)"
  "lacks c ''secret:GetSecret'' \<Longrightarrow> blocked w0 (api_CreateImport s c iminp)"
  unfolding api_Rollback_def api_CreateImport_def Let_def
  by (((rule stop_rules, assumption) | rule blocked_rules | rule keeps_rules)+)

lemma stops_delete:
  "lacks c ''secret:DeleteSecret'' \<Longrightarrow> blocked w0 (api_DeleteSecret s c addr w)"
  "lacks c ''secret:DeleteSecret'' \<Longrightarrow> blocked w0 (api_RestoreSecret s c raw)"
  "lacks c ''secret:DeleteSecret'' \<Longrightarrow> blocked w0 (api_DestroySecret s c raw)"
  "lacks c ''secret:DeleteSecret'' \<Longrightarrow> blocked w0 (api_DeleteFolder s c pr en fp win)"
  unfolding api_DeleteSecret_def api_RestoreSecret_def api_DestroySecret_def api_DeleteFolder_def Let_def
  by (((rule stop_rules, assumption) | rule blocked_rules | rule keeps_rules)+)

lemma stops_reveal:
  "lacks c ''secret:GetSecret'' \<Longrightarrow> blocked w0 (Reveal s c addr ver)"
  unfolding Reveal_def Let_def reveal_resolved_def
  by (((rule stop_rules, assumption) | rule blocked_rules | rule keeps_rules)+)

lemma stops_read:
  "lacks c ''secret:ReadMetadata'' \<Longrightarrow> blocked w0 (api_DescribeSecret s c addr)"
  "lacks c ''secret:ReadMetadata'' \<Longrightarrow> blocked w0 (api_ListVersions s c addr p)"
  "lacks c ''secret:ReadMetadata'' \<Longrightarrow> blocked w0 (api_ListImports s c pr en fp)"
  "lacks c ''secret:ReadMetadata'' \<Longrightarrow> blocked w0 (api_GetSecretLeasePolicy s c addr)"
  "lacks c ''secret:ReadMetadata'' \<Longrightarrow> blocked w0 (api_ListSecretLeases s c addr p)"
  "lacks c ''secret:ReadMetadata'' \<Longrightarrow> blocked w0 (api_ListProjects coll s c p)"
  "lacks c ''secret:ReadMetadata'' \<Longrightarrow> blocked w0 (api_GetProject s c sl)"
  "lacks c ''secret:ReadMetadata'' \<Longrightarrow> blocked w0 (api_ListEnvironments coll s c pr)"
  "lacks c ''secret:ReadMetadata'' \<Longrightarrow> blocked w0 (api_GetEnvironment s c pr sl)"
  "lacks c ''secret:ReadMetadata'' \<Longrightarrow> blocked w0 (api_ListFolders coll s c pr en fp)"
  "lacks c ''secret:ReadMetadata'' \<Longrightarrow> blocked w0 (api_GetTransitKey s c pr nm)"
  "lacks c ''secret:ReadMetadata'' \<Longrightarrow> blocked w0 (api_ListTransitKeys coll s c pr p)"
  "lacks c ''secret:ReadMetadata'' \<Longrightarrow> blocked w0 (api_ListTransitKeyVersions s c pr nm p)"
  unfolding api_DescribeSecret_def api_ListVersions_def api_ListImports_def api_GetSecretLeasePolicy_def api_ListSecretLeases_def api_ListProjects_def api_GetProject_def api_ListEnvironments_def api_GetEnvironment_def api_ListFolders_def api_GetTransitKey_def api_ListTransitKeys_def api_ListTransitKeyVersions_def Let_def
  by (((rule stop_rules, assumption) | rule blocked_rules | rule keeps_rules)+)

lemma stops_list:
  "lacks c ''secret:ListSecrets'' \<Longrightarrow> blocked w0 (api_ListSecrets coll s c linp)"
  "lacks c ''secret:ListSecrets'' \<Longrightarrow> blocked w0 (api_ListDeletedSecrets s c pr en p)"
  unfolding api_ListSecrets_def api_ListDeletedSecrets_def Let_def
  by (((rule stop_rules, assumption) | rule blocked_rules | rule keeps_rules)+)

lemma stops_folder:
  "lacks c ''secret:ManageFolder'' \<Longrightarrow> blocked w0 (api_CreateImport s c iminp)"
  "lacks c ''secret:ManageFolder'' \<Longrightarrow> blocked w0 (api_SetImportEnabled s c raw e po)"
  "lacks c ''secret:ManageFolder'' \<Longrightarrow> blocked w0 (api_DeleteImport s c raw)"
  "lacks c ''secret:ManageFolder'' \<Longrightarrow> blocked w0 (api_CreateFolder s c pr en fp)"
  "lacks c ''secret:ManageFolder'' \<Longrightarrow> blocked w0 (api_MoveFolder s c pr en fr to)"
  "lacks c ''secret:ManageFolder'' \<Longrightarrow> blocked w0 (api_DeleteFolder s c pr en fp win)"
  unfolding api_CreateImport_def api_SetImportEnabled_def api_DeleteImport_def api_CreateFolder_def api_MoveFolder_def api_DeleteFolder_def Let_def
  by (((rule stop_rules, assumption) | rule blocked_rules | rule keeps_rules)+)

lemma stops_lease:
  "lacks c ''secret:ManageLease'' \<Longrightarrow> blocked w0 (api_SetSecretLeasePolicy s c addr lp)"
  "lacks c ''secret:ManageLease'' \<Longrightarrow> blocked w0 (api_RevokeSecretLeases s c addr)"
  unfolding api_SetSecretLeasePolicy_def api_RevokeSecretLeases_def Let_def
  by (((rule stop_rules, assumption) | rule blocked_rules | rule keeps_rules)+)

lemma stops_rotate:
  "lacks c ''secret:RotateSecret'' \<Longrightarrow> blocked w0 (api_RotateSecret s src rnd c addr g)"
  unfolding api_RotateSecret_def Let_def
  by (((rule stop_rules, assumption) | rule blocked_rules | rule keeps_rules)+)

lemma stops_rotation:
  "lacks c ''secret:ManageRotation'' \<Longrightarrow> blocked w0 (api_SetRotationPolicy s c addr rp)"
  unfolding api_SetRotationPolicy_def Let_def
  by (((rule stop_rules, assumption) | rule blocked_rules | rule keeps_rules)+)

lemma stops_project:
  "lacks c ''secret:ManageProject'' \<Longrightarrow> blocked w0 (api_CreateProject s c a)"
  "lacks c ''secret:ManageProject'' \<Longrightarrow> blocked w0 (api_UpdateProject s c a)"
  "lacks c ''secret:ManageProject'' \<Longrightarrow> blocked w0 (api_DeleteProject s c sl)"
  unfolding api_CreateProject_def api_UpdateProject_def api_DeleteProject_def Let_def
  by (((rule stop_rules, assumption) | rule blocked_rules | rule keeps_rules)+)

lemma stops_env:
  "lacks c ''secret:ManageEnvironment'' \<Longrightarrow> blocked w0 (api_CreateEnvironment s c a)"
  "lacks c ''secret:ManageEnvironment'' \<Longrightarrow> blocked w0 (api_UpdateEnvironment s c a)"
  "lacks c ''secret:ManageEnvironment'' \<Longrightarrow> blocked w0 (api_DeleteEnvironment s c pr sl)"
  unfolding api_CreateEnvironment_def api_UpdateEnvironment_def api_DeleteEnvironment_def Let_def
  by (((rule stop_rules, assumption) | rule blocked_rules | rule keeps_rules)+)

lemma stops_transit:
  "lacks c ''secret:ManageTransitKey'' \<Longrightarrow> blocked w0 (api_CreateTransitKey s mat rnd c pr nm d)"
  "lacks c ''secret:ManageTransitKey'' \<Longrightarrow> blocked w0 (api_RotateTransitKey s mat rnd c pr nm)"
  "lacks c ''secret:ManageTransitKey'' \<Longrightarrow> blocked w0 (api_UpdateTransitKey s c uin)"
  "lacks c ''secret:ManageTransitKey'' \<Longrightarrow> blocked w0 (api_DeleteTransitKey s c pr nm)"
  unfolding api_CreateTransitKey_def api_RotateTransitKey_def api_UpdateTransitKey_def api_DeleteTransitKey_def Let_def
  by (((rule stop_rules, assumption) | rule blocked_rules | rule keeps_rules)+)

lemma stops_encrypt:
  "lacks c ''secret:Encrypt'' \<Longrightarrow> blocked w0 (api_TransitEncrypt s dr c pr nm pt)"
  unfolding api_TransitEncrypt_def Let_def
  by (((rule stop_rules, assumption) | rule blocked_rules | rule keeps_rules)+)

lemma stops_decrypt:
  "lacks c ''secret:Decrypt'' \<Longrightarrow> blocked w0 (api_TransitDecrypt s c pr tok)"
  unfolding api_TransitDecrypt_def Let_def
  by (((rule stop_rules, assumption) | rule blocked_rules | rule keeps_rules)+)

lemma stops_audit:
  "lacks c ''secret:ReadAudit'' \<Longrightarrow> blocked w0 (api_ListAuditEvents s c fl p)"
  unfolding api_ListAuditEvents_def Let_def
  by (((rule stop_rules, assumption) | rule blocked_rules | rule keeps_rules)+)

lemma stops_batch_put: "lacks c ''secret:PutSecret'' \<Longrightarrow> keeps (denials w0) (batch_put s c items out)"
proof (induction items arbitrary: out)
  case (Cons i items)
  then show ?case by (cases i) (auto intro!: keeps_rules blocked_keeps [OF stops_put(1)])
qed simp

lemma stops_batch_get: "lacks c ''secret:GetSecret'' \<Longrightarrow> keeps (denials w0) (batch_get s c items out)"
proof (induction items arbitrary: out)
  case (Cons i items)
  then show ?case by (cases i) (auto intro!: keeps_rules blocked_keeps [OF stops_reveal])
qed simp

lemma stops_batches: "lacks c ''secret:PutSecret'' \<Longrightarrow> keeps (denials w0) (BatchPut s c items)"
  "lacks c ''secret:GetSecret'' \<Longrightarrow> keeps (denials w0) (BatchGet s c gets)"
  unfolding BatchPut_def BatchGet_def by (intro keeps_rules stops_batch_put stops_batch_get; assumption)+

lemmas stops_all = stops_put stops_get stops_delete stops_reveal stops_read stops_list stops_folder stops_lease stops_rotate
  stops_rotation stops_project stops_env stops_transit stops_encrypt stops_decrypt stops_audit

definition batch :: "api_call \<Rightarrow> bool" where
  "batch call \<longleftrightarrow> (\<exists>items. call = CallBatchGet items) \<or> (\<exists>items. call = CallBatchPut items)"

lemma call_stops: "p \<in> required call \<Longrightarrow> lacks c p \<Longrightarrow> \<not> batch call \<Longrightarrow> blocked w0 (run_call coll s c call)"
  by (cases call) (auto simp: batch_def intro!: blocked_erased intro: stops_all)

lemma batch_stops: "p \<in> required call \<Longrightarrow> lacks c p \<Longrightarrow> batch call \<Longrightarrow> keeps (denials w0) (run_call coll s c call)"
  by (auto simp: batch_def intro!: keeps_erased intro: stops_batches)

end
