(* ===== verification/ApiProps.thy ===== *)
theory ApiProps
  imports ApiSamples Grants
begin

text \<open>
  The properties of the operations of the API: grants, the trail, the lease of a referenced secret.
\<close>

text \<open>
  C6: a reveal that succeeds was granted and is audited, whole: the secret it resolved to (itself or
  through an import) and every secret a reference led it through were granted to the caller under
  \<open>secret:GetSecret\<close> on their own names; the trail gains one row of success per reference hop, in order,
  then the row of the reveal, with the version that was read and the caller's subject; and nothing but the
  leases and the trail has changed.
\<close>

theorem reveal_granted_and_audited:
  assumes "Reveal s c addr ver w = (Inr out, w')"
  shows "\<exists>x rows. resolveThroughImports s c addr w = (Inr x, w) \<and> granted_reveal c w x out rows
     \<and> audit_log (w_db w') = audit_log (w_db w) @ rows \<and> same_data (w_db w) (w_db w') \<and> w_notes w' = w_notes w"
proof -
  obtain x where x: "resolveThroughImports s c addr w = (Inr x, w)" "reveal_resolved s c ver x w = (Inr out, w')"
    by (rule Reveal_resolved [OF assms])
  from reveal_resolved_ok [OF x(2) resolveThroughImports_mrn(2) [OF x(1)]] x(1) show ?thesis by auto
qed

lemma sample_reveal: "case fst (Reveal sample_api both url_address 0 ref_world) of
    Inr out \<Rightarrow> rv_value (ar_secret out) = bytes_of ''db://pw'' \<and> ar_hops out = [pw_mrn] | Inl e \<Rightarrow> False"
  by code_simp

theorem reveal_granted_and_audited_witness:
  "\<exists>out w'. Reveal sample_api both url_address 0 ref_world = (Inr out, w')
     \<and> rv_value (ar_secret out) = bytes_of ''db://pw'' \<and> ar_hops out = [pw_mrn]
     \<and> (\<exists>x rows. resolveThroughImports sample_api both url_address ref_world = (Inr x, ref_world)
       \<and> granted_reveal both ref_world x out rows \<and> audit_log (w_db w') = audit_log (w_db ref_world) @ rows
       \<and> same_data (w_db ref_world) (w_db w') \<and> w_notes w' = w_notes ref_world)"
proof -
  obtain out w' where r: "Reveal sample_api both url_address 0 ref_world = (Inr out, w')"
    "rv_value (ar_secret out) = bytes_of ''db://pw''" "ar_hops out = [pw_mrn]"
    using sample_reveal by (cases "Reveal sample_api both url_address 0 ref_world"; cases "fst (Reveal sample_api both url_address 0 ref_world)") auto
  from reveal_granted_and_audited [OF r(1)] r show ?thesis by blast
qed

section \<open>Without the grant\<close>

text \<open>
  C7: a call whose permission the caller holds on no resource fails, and leaves nothing behind but
  denials in the trail. The permissions of the calls are those of \<open>required\<close>; the two batches,
  which answer per item, are the only calls left out.
\<close>

theorem call_needs_grant:
  assumes "p \<in> required call" "\<forall>m. \<not> c_allows c p m" "\<not> batch call"
  shows "\<exists>e rows. run_call coll s c call w = (Inl e, add_rows w rows) \<and> (\<forall>r \<in> set rows. a_outcome r = ''denied'')"
proof -
  have b: "blocked w (run_call coll s c call)" using call_stops assms by (simp add: lacks_def)
  then obtain e w' where run: "run_call coll s c call w = (Inl e, w')" unfolding blocked_def by (metis prod.exhaust_sel)
  have "denials w w" by (simp add: denials_def exI [of _ "[]"])
  with b run have "denials w w'" by (metis blocked_keeps keeps_def)
  with run show ?thesis by (auto simp: denials_def)
qed

definition pw_get :: api_call where
  "pw_get = CallRevealSecret pw_address 0"

theorem call_needs_grant_witness:
  "\<exists>e rows. run_call code_points sample_api (sample_caller []) pw_get pw_world = (Inl e, add_rows pw_world rows)
     \<and> (\<forall>r \<in> set rows. a_outcome r = ''denied'')"
  by (rule call_needs_grant [of "''secret:GetSecret''"]) (simp_all add: pw_get_def sample_caller_def batch_def)

section \<open>Sequences of calls\<close>

text \<open>
  What reaches the service: a request of a caller, or the scheduled rotation. The first component is the database's clock at the time.
\<close>

datatype served =
    Request api_service caller api_call
  | Rotator api_service "nat \<Rightarrow> rotation_draw" instant int

fun serve :: "collation \<Rightarrow> served \<Rightarrow> world \<Rightarrow> world" where
  "serve coll (Request s c call) w = snd (run_call coll s c call w)"
| "serve coll (Rotator s ds now limit) w = snd (RotateDueSecrets s ds now limit w)"

fun serve_all :: "collation \<Rightarrow> (instant \<times> served) list \<Rightarrow> world \<Rightarrow> world" where
  "serve_all coll [] w = w"
| "serve_all coll ((t, x) # xs) w = serve_all coll xs (serve coll x (w\<lparr>w_db := (w_db w)\<lparr>db_now := t\<rparr>\<rparr>))"

lemma snd_keeps: "keeps I m \<Longrightarrow> I w \<Longrightarrow> I (snd (m w))"
  by (cases "m w") (auto simp: keeps_def)

definition any_caller :: caller where
  "any_caller = \<lparr>c_allows = (\<lambda>_ _. False), c_actor = scheduledActor, c_tenant = [], c_name = []\<rparr>"

lemma serve_keeps:
  assumes call: "\<And>s c call. keeps (on K) (run_call coll s c call)"
    and rot: "\<And>s (c :: caller) ds now limit. c_actor c = scheduledActor \<Longrightarrow> keeps (on K) (RotateDueSecrets s ds now limit)"
    and clock: "\<And>s t. K s \<Longrightarrow> K (s\<lparr>db_now := t\<rparr>)"
  shows "K (w_db w) \<Longrightarrow> K (w_db (serve_all coll xs w))"
proof (induction xs arbitrary: w)
  case (Cons x xs)
  obtain t y where x: "x = (t, y)" by (cases x)
  let ?w = "w\<lparr>w_db := (w_db w)\<lparr>db_now := t\<rparr>\<rparr>"
  have "on K ?w" using Cons.prems clock by (simp add: on_def)
  then have "on K (serve coll y ?w)"
    using snd_keeps [OF call] snd_keeps [OF rot [of any_caller]] by (cases y) (auto simp: any_caller_def)
  then show ?case using Cons.IH by (simp add: x on_def)
qed simp

lemma clock_rules: "grown L s \<Longrightarrow> grown L (s\<lparr>db_now := t\<rparr>)" "store_ok s \<Longrightarrow> store_ok (s\<lparr>db_now := t\<rparr>)"
  by (simp_all add: grown_def store_ok_def secret_ok_def version_ok_def)

text \<open>
  C8: the trail only grows. Whatever calls are served, by whatever callers and at whatever times, with the
  scheduled rotations in between, every row the trail held is still there, unchanged and in its place.
\<close>

theorem trail_only_grows:
  "prefix (audit_log (w_db w)) (audit_log (w_db (serve_all coll xs w)))"
proof -
  have "grown (audit_log (w_db w)) (w_db (serve_all coll xs w))"
    by (rule serve_keeps [OF grow.keeps_call grow.keeps_scheduled clock_rules(1)]) (simp_all add: grown_def)
  then show ?thesis by (simp add: grown_def)
qed

text \<open>
  C9: the tables stay well-formed. From tables that satisfy the constraints (ids below the sequences, one
  row per key, every version under its secret with its number in range, every current version present),
  every sequence of calls and rotations leads to tables that satisfy them.
\<close>

theorem tables_stay_well_formed:
  assumes "store_ok (w_db w)"
  shows "store_ok (w_db (serve_all coll xs w))"
  by (rule serve_keeps [OF well.keeps_call well.keeps_scheduled clock_rules(2) assms])

definition sample_session :: "(instant \<times> served) list" where
  "sample_session = [(5, Request sample_api both pw_get), (9, Rotator sample_api (\<lambda>_. (undefined, sample_draws, 9)) 9 0),
     (12, Request sample_api both (CallDeleteSecret pw_address (Some 0)))]"

theorem tables_stay_well_formed_witness:
  "store_ok (w_db (serve_all code_points sample_session \<lparr>w_db = sample_db, w_notes = []\<rparr>))"
  by (rule tables_stay_well_formed) (simp add: sample_ok)

end
