(* ===== verification/ApiEdges.thy ===== *)
theory ApiEdges
  imports ApiProps
begin

text \<open>
  Three behaviours at the edges of the API: the caller whose rows the trail refuses, the secret that the
  trail keeps from being destroyed, and the reference, which skips the lease of its target.
\<close>

section \<open>A caller the trail refuses\<close>

text \<open>
  C10: a request id that does not fit its column (the transports take it from a header as it is) keeps
  every row of the caller out of the trail: whatever the call does, read or write, granted or denied, the trail is as it was.
\<close>

theorem refused_calls_leave_no_row:
  assumes "varchar 255 (ac_request (c_actor c)) = Inl e"
  shows "audit_log (w_db (snd (run_call coll s c call w))) = audit_log (w_db w)"
proof -
  have r: "refused c" using assms by (auto simp: refused_def)
  have "on (trail (audit_log (w_db w))) (snd (run_call coll s c call w))"
    by (rule snd_keeps [OF api_contract.keeps_call [OF refused_contract [OF r]]]) (simp add: on_def trail_def)
  then show ?thesis by (simp add: on_def trail_def)
qed

definition long_caller :: caller where
  "long_caller = both\<lparr>c_actor := sample_actor\<lparr>ac_request := replicate 256 CHR ''x''\<rparr>\<rparr>"

lemma long_request: "\<exists>e. varchar 255 (ac_request (c_actor long_caller)) = Inl e"
  by (simp add: long_caller_def, rule varchar_long) (simp_all add: plain_text_def)

theorem refused_calls_leave_no_row_witness:
  "audit_log (w_db (snd (run_call code_points sample_api long_caller
     (CallPutSecret sample_draws (put_at pw_address ''pw'' ''opaque'')) \<lparr>w_db = sample_db, w_notes = []\<rparr>))) = audit_log sample_db"
proof -
  obtain e where "varchar 255 (ac_request (c_actor long_caller)) = Inl e" using long_request by blast
  from refused_calls_leave_no_row [OF this, where w = "\<lparr>w_db = sample_db, w_notes = []\<rparr>"] show ?thesis by (simp del: run_call.simps)
qed

lemma refused_success: "refused c \<Longrightarrow> ap_auditor s \<Longrightarrow> \<exists>e. recordSuccess s c ev w = (Inl (AppErr (InternalError ''record audit event'' e)), w)"
proof -
  assume c: "refused c" and a: "ap_auditor s"
  let ?ev = "ev\<lparr>ev_tenant := tenantPtr c, ev_outcome := ''success''\<rparr>"
  obtain r t where run: "Record (ap_auditor s) (c_actor c) ?ev (w_db w) = (r, t)" by fastforce
  show ?thesis
  proof (cases r)
    case (Inl e)
    with Record_err run have "t = w_db w" by blast
    with run Inl a show ?thesis by (simp add: recordSuccess_def mapErr_def onDb_def mapL_def)
  next
    case (Inr u)
    obtain row where "t = with_row (w_db w) row"
      using Record_ok [OF run [unfolded Inr]] by auto
    then have "audit_log t = audit_log (w_db w) @ [row]" by (simp add: with_row_def)
    moreover have "audit_log t = audit_log (w_db w)"
      using refused_record [OF c, of "trail (audit_log (w_db w))", unfolded keeps_def, rule_format, OF run] by (simp add: trail_def)
    ultimately have False by simp
    then show ?thesis ..
  qed
qed

text \<open>
  C11: such a caller's write takes effect and is reported as failed: when the store accepts the value, the
  put leaves exactly the store's result behind, returns the error of the audit, and the trail has no row of it.
\<close>

theorem refused_put_takes_effect:
  assumes "varchar 255 (ac_request (c_actor c)) = Inl e" "ap_auditor s"
    and "PutSecretInput_Validate (ap_limits s) inp = []"
    and "SecretMRN (address_ref c (pt_address inp)) (w_db w) = (Inr m, w_db w)" "c_allows c ''secret:PutSecret'' m"
    and "PutSecret (ap_store s) rnd (store_put c inp) (w_db w) = (Inr r, t)"
  shows "\<exists>d. api_PutSecret s rnd c inp w = (Inl (AppErr (InternalError ''record audit event'' d)), w\<lparr>w_db := t\<rparr>)
     \<and> audit_log t = audit_log (w_db w)"
proof -
  have c: "refused c" using assms(1) by (auto simp: refused_def)
  have 1: "checked (PutSecretInput_Validate (ap_limits s) inp) w = (Inr (), w)"
    using assms(3) by (simp add: checked_run validate_def)
  have 2: "secretMRN (address_ref c (pt_address inp)) w = (Inr m, w)" using assms(4) by (simp add: secretMRN_run)
  have 3: "guard s c ''secret:PutSecret'' ''secret.write'' m w = (Inr (), w)" using assms(2,5) by (simp add: guard_ok)
  have 4: "recorded s c ''secret.write'' m (callStore (PutSecret (ap_store s) rnd (store_put c inp))) w = (Inr r, w\<lparr>w_db := t\<rparr>)"
    using assms(6) by (auto simp: recorded_ok callStore_ok)
  obtain d where 5: "recordSuccess s c (put_event m r) (w\<lparr>w_db := t\<rparr>)
      = (Inl (AppErr (InternalError ''record audit event'' d)), w\<lparr>w_db := t\<rparr>)"
    using refused_success [OF c assms(2)] by blast
  have "api_PutSecret s rnd c inp w = (Inl (AppErr (InternalError ''record audit event'' d)), w\<lparr>w_db := t\<rparr>)"
    by (simp add: api_PutSecret_def operation_def bindM_def [of "checked _"] 1 bindM_def [of "secretMRN _"] 2 bindM_def 3 4 5)
  moreover have "audit_log t = audit_log (w_db w)"
    using trail_PutSecret [of "audit_log (w_db w)", unfolded keeps_def, rule_format, OF assms(6)] by (simp add: trail_def)
  ultimately show ?thesis by blast
qed

definition pw_put :: api_put where
  "pw_put = put_at pw_address ''pw'' ''opaque''"

lemma sample_put_accepted:
  "PutSecretInput_Validate (ap_limits sample_api) pw_put = []"
  "fst (SecretMRN (address_ref long_caller (pt_address pw_put)) sample_db) = Inr pw_mrn"
  "case fst (PutSecret sample_svc sample_draws (store_put long_caller pw_put) sample_db) of Inr r \<Rightarrow> True | Inl e \<Rightarrow> False"
  by code_simp+

theorem refused_put_takes_effect_witness:
  "\<exists>r t d. PutSecret sample_svc sample_draws (store_put long_caller pw_put) sample_db = (Inr r, t)
     \<and> api_PutSecret sample_api sample_draws long_caller pw_put \<lparr>w_db = sample_db, w_notes = []\<rparr>
       = (Inl (AppErr (InternalError ''record audit event'' d)), \<lparr>w_db = t, w_notes = []\<rparr>)
     \<and> audit_log t = audit_log sample_db"
proof -
  let ?w = "\<lparr>w_db = sample_db, w_notes = []\<rparr>"
  obtain e where e: "varchar 255 (ac_request (c_actor long_caller)) = Inl e" using long_request by blast
  obtain r t where r: "PutSecret sample_svc sample_draws (store_put long_caller pw_put) sample_db = (Inr r, t)"
    using sample_put_accepted(3) by (cases "PutSecret sample_svc sample_draws (store_put long_caller pw_put) sample_db")
      (auto split: sum.splits)
  have m: "SecretMRN (address_ref long_caller (pt_address pw_put)) sample_db = (Inr pw_mrn, sample_db)"
    using sample_put_accepted(2) pure_opD [OF pure_SecretMRN] by (metis prod.exhaust_sel)
  have a: "ap_auditor sample_api" "ap_store sample_api = sample_svc" "c_allows long_caller p pw_mrn" for p
    by (simp_all add: sample_api_def long_caller_def both_def sample_caller_def)
  from refused_put_takes_effect [OF e a(1) sample_put_accepted(1), where w = ?w and rnd = sample_draws and m = pw_mrn] m r a(2,3)
  show ?thesis by auto
qed

section \<open>The secret the trail keeps\<close>

lemma HardDelete_audited:
  assumes "row \<in> set (secrets s)" "distinct (map s_uuid (secrets s))"
    and "r \<in> set (audit_log s)" "a_secret r = Some (s_id row)"
  shows "\<exists>e t. HardDeleteSecret tid (s_uuid row) s = (Inl e, t) \<or> HardDeleteSecret tid (s_uuid row) s = (Inr 0, t)"
proof -
  define P where "P x \<longleftrightarrow> s_tenant x = tid \<and> s_uuid x = s_uuid row \<and> \<not> live_secret x
           \<and> (case s_destroy x of None \<Rightarrow> False | Some d \<Rightarrow> d \<le> db_now s)" for x
  let ?ids = "map s_id (filter P (secrets s))"
  have run: "HardDeleteSecret tid (s_uuid row) s
      = q_exec (case (if filter (\<lambda>v. v_secret v \<in> set ?ids) (versions s) \<noteq> [] then trigger_delete s else None) of
            Some e \<Rightarrow> Some e | None \<Rightarrow> trigger_set_null ?ids s)
          (s\<lparr>secrets := filter (\<lambda>r. \<not> P r) (secrets s), versions := filter (\<lambda>v. v_secret v \<notin> set ?ids) (versions s),
             secret_leases := filter (\<lambda>l. l_secret l \<notin> set ?ids) (secret_leases s)\<rparr>) (length ?ids) s"
    unfolding HardDeleteSecret_def Let_def P_def ..
  show ?thesis
  proof (cases "P row")
    case True
    then have "trigger_set_null ?ids s \<noteq> None" using assms(1,3,4) by (auto simp: trigger_set_null_def)
    then show ?thesis unfolding run by (auto simp: q_exec_def split: option.splits)
  next
    case False
    have "\<not> P x" if "x \<in> set (secrets s)" for x
    proof
      assume x: "P x"
      then have "s_uuid x = s_uuid row" by (simp add: P_def)
      with that assms(1,2) have "x = row" by (metis distinct_map_eq)
      with x False show False by simp
    qed
    then have "filter P (secrets s) = []" by (simp add: filter_empty_conv)
    then show ?thesis unfolding run by (simp add: q_exec_def trigger_set_null_def)
  qed
qed

text \<open>
  C12: a secret with a row in the trail is never destroyed. The foreign key of the trail sets the column of
  the secret to null when the secret goes, the trail's trigger refuses every update of its rows, and so
  \<open>DestroySecret\<close> fails and changes nothing, however long ago the recovery window has ended.
\<close>

theorem audited_secret_survives:
  assumes "row \<in> set (secrets s)" "s_uuid row = secretUUID" "distinct (map s_uuid (secrets s))"
    and "r \<in> set (audit_log s)" "a_secret r = Some (s_id row)"
  shows "\<exists>e. DestroySecret svc tenantUUID secretUUID s = (Inl e, s)"
proof -
  define f :: "tenant \<Rightarrow> unit op" where "f tn = bindM (mapErr (\<lambda>e. InternalError ''authorize version destruction'' (DbCause e))
                       (AllowSecretVersionDelete ''secret_destroy'')) (\<lambda>_.
                     bindM (mapErr (\<lambda>e. InternalError ''destroy secret'' (DbCause e))
                       (HardDeleteSecret (t_id tn) secretUUID)) (\<lambda>n.
                     if n = 0
                     then fail (ForbiddenError ''secret is still inside its recovery window and cannot be destroyed yet'')
                     else ret ()))" for tn
  have tx: "\<exists>e. InTx (f tn) s = (Inl e, s)" for tn :: tenant
  proof -
    let ?s = "s\<lparr>guc_rewrap := [], guc_transit := [], guc_delete := ''secret_destroy''\<rparr>"
    obtain e t where "HardDeleteSecret (t_id tn) secretUUID ?s = (Inl e, t) \<or> HardDeleteSecret (t_id tn) secretUUID ?s = (Inr 0, t)"
      using HardDelete_audited [of row ?s r "t_id tn"] assms by auto
    then show ?thesis
      by (auto simp: InTx_def f_def bindM_def mapErr_def mapL_def AllowSecretVersionDelete_def fail_def)
  qed
  have g: "\<exists>q. GetTenantByUUID tenantUUID s = (q, s)" by (simp add: GetTenantByUUID_def q_one_def)
  then obtain q where q: "GetTenantByUUID tenantUUID s = (q, s)" by blast
  show ?thesis
  proof (cases q)
    case (Inl e)
    with q show ?thesis by (simp add: DestroySecret_def bindM_def mapErr_def)
  next
    case (Inr tn)
    have "\<exists>d. GetDeletedSecretByUUID (t_id tn) secretUUID s = (d, s)" by (simp add: GetDeletedSecretByUUID_def q_one_def)
    then obtain d where d: "GetDeletedSecretByUUID (t_id tn) secretUUID s = (d, s)" by blast
    obtain e where e: "InTx (f tn) s = (Inl e, s)" using tx by blast
    show ?thesis using e [unfolded f_def]
      by (cases d) (auto simp: DestroySecret_def bindM_def mapErr_def tryM_def q Inr d fail_def split: option.splits)
  qed
qed

definition gone_world :: world where
  "gone_world = snd (api_DeleteSecret sample_api both pw_address (Some 0) pw_world)"

lemma gone_facts:
  "case secrets (w_db gone_world) of [row] \<Rightarrow> \<not> live_secret row \<and> (case s_destroy row of Some d \<Rightarrow> d \<le> svc_now sample_svc | None \<Rightarrow> False)
     \<and> list_ex (\<lambda>r. a_secret r = Some (s_id row)) (audit_log (w_db gone_world)) | _ \<Rightarrow> False"
  by code_simp

theorem audited_secret_survives_witness:
  "\<exists>row d e. secrets (w_db gone_world) = [row] \<and> \<not> live_secret row \<and> s_destroy row = Some d \<and> d \<le> svc_now sample_svc
     \<and> DestroySecret sample_svc ''tu'' (s_uuid row) (w_db gone_world) = (Inl e, w_db gone_world)"
proof -
  obtain row r d where f: "secrets (w_db gone_world) = [row]" "\<not> live_secret row" "s_destroy row = Some d" "d \<le> svc_now sample_svc"
      "r \<in> set (audit_log (w_db gone_world))" "a_secret r = Some (s_id row)"
    using gone_facts by (auto simp: list_ex_iff split: list.splits option.splits)
  from audited_secret_survives [of row "w_db gone_world" "s_uuid row" r sample_svc "''tu''"] f show ?thesis by auto
qed

section \<open>References and leases\<close>

text \<open>A computation that commutes with a change of the tables it does not look at.\<close>

definition commutes :: "('s \<Rightarrow> 's) \<Rightarrow> ('s, 'e, 'a) comp \<Rightarrow> bool" where
  "commutes f m \<longleftrightarrow> (\<forall>s. m (f s) = (fst (m s), f (snd (m s))))"

named_theorems commutes_rules

lemma commutes_steps [commutes_rules]: "commutes f (ret x)" "commutes f (fail e)" "commutes f (liftR r)"
  by (auto simp: commutes_def ret_def fail_def liftR_def)

lemma commutes_bind [commutes_rules]: "commutes f m \<Longrightarrow> (\<And>x. commutes f (k x)) \<Longrightarrow> commutes f (bindM m k)"
  by (auto simp: commutes_def bindM_def split: prod.splits sum.splits)

lemma commutes_maps [commutes_rules]: "commutes f m \<Longrightarrow> commutes f (mapErr g m)" "commutes f m \<Longrightarrow> commutes f (tryM m)"
  by (auto simp: commutes_def mapErr_def tryM_def split: prod.splits sum.splits)

lemma commutes_cases [commutes_rules]:
  "commutes f m \<Longrightarrow> commutes f n \<Longrightarrow> commutes f (if b then m else n)"
  "(\<And>a b. commutes f (h a b)) \<Longrightarrow> commutes f (case p of (a, b) \<Rightarrow> h a b)"
  "commutes f m \<Longrightarrow> (\<And>x. commutes f (k x)) \<Longrightarrow> commutes f (case opt of None \<Rightarrow> m | Some x \<Rightarrow> k x)"
  "(\<And>e. commutes f (g e)) \<Longrightarrow> (\<And>x. commutes f (l x)) \<Longrightarrow> commutes f (case r of Inl e \<Rightarrow> g e | Inr x \<Rightarrow> l x)"
  by (auto split: prod.splits option.splits sum.splits)

lemma commutes_q_one [commutes_rules]: "(\<And>s. q (f s) = q s) \<Longrightarrow> commutes f (q_one q)"
  by (auto simp: commutes_def q_one_def)

text \<open>The leases of a database replaced by others.\<close>

definition swap_leases :: "secret_lease list \<Rightarrow> db \<Rightarrow> db" where
  "swap_leases ls s = s\<lparr>secret_leases := ls\<rparr>"

definition with_leases :: "secret_lease list \<Rightarrow> world \<Rightarrow> world" where
  "with_leases ls w = w\<lparr>w_db := swap_leases ls (w_db w)\<rparr>"

lemma commutes_onDb [commutes_rules]: "commutes (swap_leases ls) m \<Longrightarrow> commutes (with_leases ls) (onDb m)"
  by (auto simp: commutes_def onDb_def with_leases_def split: prod.splits)

lemma commutes_callStore [commutes_rules]: "commutes (swap_leases ls) m \<Longrightarrow> commutes (with_leases ls) (callStore m)"
  unfolding callStore_def by (intro commutes_rules)

lemma swap_leases_sel [simp]: "tenants (swap_leases ls s) = tenants s" "projects (swap_leases ls s) = projects s"
  "environments (swap_leases ls s) = environments s" "folders (swap_leases ls s) = folders s" "secrets (swap_leases ls s) = secrets s"
  "versions (swap_leases ls s) = versions s" "audit_log (swap_leases ls s) = audit_log s" "seq (swap_leases ls s) = seq s"
  "db_now (swap_leases ls s) = db_now s" "uuid_at (swap_leases ls s) = uuid_at s"
  by (simp_all add: swap_leases_def)

lemma commutes_queries [commutes_rules]:
  "commutes (swap_leases ls) (GetTenantByUUID tu)" "commutes (swap_leases ls) (GetProjectBySlug tid sl)"
  "commutes (swap_leases ls) (GetEnvironmentBySlug pid sl tid)" "commutes (swap_leases ls) (GetFolderByPath eid path tid)"
  "commutes (swap_leases ls) (GetSecretByAddress tid eid fid k)" "commutes (swap_leases ls) (GetLatestSecretVersion sid)"
  "commutes (swap_leases ls) (GetSecretVersionRow sid n)" "commutes (swap_leases ls) (GetSecretByUUID tid u)"
  unfolding GetTenantByUUID_def GetProjectBySlug_def GetEnvironmentBySlug_def GetFolderByPath_def GetSecretByAddress_def
    GetLatestSecretVersion_def GetSecretVersionRow_def GetSecretByUUID_def
  by (rule commutes_q_one; simp add: tenant_env_ids_def at_address_def versions_desc_def versions_of_def)+

lemma commutes_append [commutes_rules]: "commutes (swap_leases ls) (AppendAuditEvent ev tid sid)"
  unfolding commutes_def
proof
  fix s
  have "audit_row_of ev' tid sid (swap_leases ls s) = audit_row_of ev' tid sid s" for ev' by (simp add: audit_row_of_def)
  moreover have "audit_error r (swap_leases ls s) = audit_error r s" for r by (simp only: audit_error_def swap_leases_sel)
  ultimately show "AppendAuditEvent ev tid sid (swap_leases ls s)
      = (fst (AppendAuditEvent ev tid sid s), swap_leases ls (snd (AppendAuditEvent ev tid sid s)))"
    by (auto simp: AppendAuditEvent_def Let_def q_exec_def swap_leases_def split: sum.splits option.splits)
qed

lemma commutes_reads [commutes_rules]:
  "commutes (swap_leases ls) (resolveEnvironment tu pr en)" "commutes (swap_leases ls) (resolveAddress ref)"
  "commutes (swap_leases ls) (ResolveScopeNames tu pr en)" "commutes (swap_leases ls) (SecretMRN ref)"
  "commutes (swap_leases ls) (GetSecret svc ref)" "commutes (swap_leases ls) (RecordAudit ae)"
  "commutes (swap_leases ls) (Record aud act ev)"
  unfolding GetSecret_def getVersion_def secret_at_def resolveAddress_def folder_at_def resolveEnvironment_def ResolveScopeNames_def
    SecretMRN_def Record_def RecordAudit_def Let_def
  by (intro commutes_rules)+

lemma commutes_api [commutes_rules]:
  "commutes (with_leases ls) (secretMRN ref)" "commutes (with_leases ls) (guard s c p a m)"
  "commutes (with_leases ls) (recordSuccess s c ev)" "commutes (with_leases ls) (recordFailure s c a m e)"
  unfolding secretMRN_def guard_def recordSuccess_def recordFailure_def RecordDenied_def RecordError_def
  by (intro commutes_rules)+

lemma commutes_recorded [commutes_rules]: "commutes (with_leases ls) n \<Longrightarrow> commutes (with_leases ls) (recorded s c a m n)"
  unfolding recorded_def by (intro commutes_rules)

lemma commutes_reference: "(\<And>t ch. commutes (with_leases ls) (g t ch)) \<Longrightarrow>
    commutes (with_leases ls) (resolveOneReference s c g chain depth a)"
  unfolding resolveOneReference_def Let_def by (intro commutes_rules)

lemma commutes_pieces: "(\<And>a. commutes f (g a)) \<Longrightarrow> commutes f (expand_pieces g e ps out hops)"
  by (induction g e ps out hops rule: expand_pieces.induct) (auto intro!: commutes_rules)

lemma commutes_expand: "commutes (with_leases ls) (expand n s c depth template chain)"
  by (induction n arbitrary: depth template chain) (auto intro!: commutes_rules commutes_pieces commutes_reference)

text \<open>
  C13: a reference reads its target whatever the target's leases are. The expansion of a
  reference value gives the same result and the same trail for every content of the lease table, and leaves that table as it was: a
  target whose allowance is used up, refused to the same caller by \<open>RevealSecret\<close>, is
  still read through a reference, and the read is not counted.
\<close>

theorem references_ignore_leases:
  "resolveReferences s c origin raw (w\<lparr>w_db := (w_db w)\<lparr>secret_leases := ls\<rparr>\<rparr>)
     = (case resolveReferences s c origin raw w of (r, w') \<Rightarrow> (r, w'\<lparr>w_db := (w_db w')\<lparr>secret_leases := ls\<rparr>\<rparr>))"
proof -
  have "commutes (with_leases ls) (resolveReferences s c origin raw)"
    unfolding resolveReferences_def by (intro commutes_rules commutes_expand)
  then show ?thesis by (simp add: commutes_def with_leases_def swap_leases_def split_beta)
qed

end
