(* ===== verification/Spec2Isabelle.thy ===== *)
theory Spec2Isabelle
  imports HierarchyProps TransitProps ImportProps LeaseProps RootKeyProps Vault SetupProps HookProps ApiEdges
begin

text \<open>
  A model of \<open>maintainerd-secret\<close>, a multi-tenant secret store written in Go: its store layer, the cryptography and
  key rotation under it, the API layer over it with grants and audit trail, first-run setup, and webhook delivery.

  \<^bold>\<open>The program and the theories.\<close> A request passes the API layer (\<open>src/internal/api\<close>: request checks, grant,
  store call, audit row, notification), which calls the store (\<open>src/internal/store\<close>: names to rows, sealing, transactions),
  which runs the statements of \<open>src/internal/storage\<close> on PostgreSQL. Background workers re-wrap keys, rotate due
  secrets and re-send webhooks. The theories follow that layering, from the bottom:

  \<^item> \<open>Prelude\<close>: Go strings as lists of characters, byte slices, the functions of \<open>strings\<close> and \<open>path\<close> that the code
    uses, and the computations \<open>('s, 'e, 'a) comp\<close>, functions from a state to an error or a value with the next state,
    with their rules (\<open>keeps\<close>, \<open>pure_op\<close>, the collections \<open>keeps_rules\<close> and \<open>pure_rules\<close>). \<open>Decimals\<close>: \<open>FormatInt\<close> and
    its inverse.
  \<^item> \<open>Paths\<close> (\<open>store/paths.go\<close>, \<open>resources.go\<close>), \<open>Apperror\<close> (\<open>platform/apperror\<close> and the mapping of query errors).
  \<^item> \<open>Storage\<close> (\<open>storage/*.sql.go\<close>): a record \<open>db\<close> of the tables, one list of rows per table, with the clock, the
    id sequence, the UUIDs to come and the session settings the triggers read; every statement is a function on \<open>db\<close>
    with the CHECK constraints, unique indexes, foreign keys and triggers of the migrations, and \<open>InTx\<close> rolls back.
  \<^item> \<open>Crypto\<close> (\<open>crypto/envelope.go\<close>, \<open>rootkey.go\<close>, \<open>keyring.go\<close>, the Azure provider), \<open>Rewrap\<close> and \<open>RootKeys\<close> (the
    rotation of root keys), \<open>Transit\<close>, \<open>TransitToken\<close> (encryption as a service).
  \<^item> \<open>Scope\<close>, \<open>Secrets\<close>, \<open>Hierarchy\<close>, \<open>Imports\<close>, \<open>Lease\<close>, \<open>Leases\<close>, \<open>Listings\<close>, \<open>Rotation\<close>: the files of the same
    names of \<open>store\<close>, \<open>lease\<close> and \<open>rotation\<close>; \<open>AuditTrail\<close>: the trail and the auditor.
  \<^item> \<open>ApiValidate\<close>, \<open>Api\<close>, \<open>Reveal\<close>, \<open>ApiSecrets\<close>, \<open>ApiHierarchy\<close>, \<open>ApiRotation\<close>, \<open>ApiAudit\<close>, \<open>ApiHooks\<close>: the API layer.
    The state is the \<open>db\<close> with the notifications sent.
  \<^item> \<open>Setup\<close>: the setup row, the service and the REST and gRPC surfaces over it.
  \<^item> \<open>Hooks\<close>, \<open>HookStore\<close>, \<open>HookWire\<close>, \<open>HookNotify\<close>: endpoints and deliveries, their store operations, what is
    signed and sent, and the notifier and the re-drive worker. The state adds two tables and the requests sent.

  A Go function keeps its name (with the suffix \<open>Row\<close> for a statement that shares the name of a store function, and the
  prefix \<open>api_\<close> for an API function that does); a struct is a record; \<open>error\<close> results are \<open>Inl\<close>; a loop
  is a recursive function; an \<open>int32\<close> is an \<open>int\<close> that \<open>int32\<close> wraps where the code converts; a \<open>time.Time\<close> is the
  number of nanoseconds.

  \<^bold>\<open>What is shown.\<close> The theories ending in \<open>Laws\<close> hold the lemmas per operation, those ending in \<open>Props\<close>, \<open>Vault\<close> and
  \<open>ApiEdges\<close> the properties with an instance of each on a small store.

  \<^item> \<open>SecretProps\<close>: what is put is read back; retention keeps the newest versions; delete and restore are inverse;
    nothing is destroyed before its window ends; a put stays in its tenant. \<open>Vault\<close>: seen as a map from references to
    contents, a put is an update and a delete a removal.
  \<^item> \<open>HierarchyProps\<close>: what a folder move does to the whole database, that it leaves no stale resource name, and that
    a restore after it does; a restore that fails and takes effect. \<open>ImportProps\<close>: accepted imports close no cycle, the chain
    is the breadth-first order, and enabling an import again can close a cycle.
  \<^item> \<open>LeaseProps\<close>: a lease serves exactly the reads it counts and never more than its cap, and is renewed.
  \<^item> \<open>RootKeyProps\<close>, \<open>TransitProps\<close>: the rewrap terminates, loses no value, and a retired key wraps no version; tokens
    survive rotation; retiring a root key can strand transit keys.
  \<^item> \<open>ApiProps\<close>, \<open>ApiEdges\<close>: no value without grant and audit row; a call without its grant leaves only denials; the trail
    only grows; the tables stay well-formed over any sequence of calls; and the calls the trail refuses.
  \<^item> \<open>SetupProps\<close>: a controller completes setup once; a wizard an operator completed still provisions.
  \<^item> \<open>HookProps\<close>: the delivery queue stays consistent, claims are disjoint, the dialer avoids the blocked ranges; a
    grant on one project reaches the endpoints of all; two kinds of delivery that are never settled.
  \<^item> \<open>Paths\<close>: normal forms are canonical, and the LIKE pattern of a subtree selects its descendants.

  The interfaces are locales: \<open>root_key_provider\<close> (sealing through any provider that unwraps what it wrapped, instance
  \<open>aes\<close>), \<open>rewrap_contract\<close> (\<open>RewrapAll\<close> over any lawful store, instances \<open>sr\<close> for secrets and \<open>tr\<close> for transit keys),
  \<open>store_contract\<close> and \<open>api_contract\<close> (what every call of the API keeps if every store operation and every append
  keeps it, instances \<open>grow\<close> and \<open>well\<close>).

  \<^bold>\<open>Bounds and fuel.\<close> \<open>RewrapAll\<close> is a \<open>partial_function\<close> whose termination is a theorem, for batches below 2 ^ 31.
  \<open>due_pages\<close> has as fuel the number of rows, one page each at worst; the UTF-8 and JSON readers have the length of
  the input, of which each step takes at least a byte; references and imports descend at most the depth the code
  allows (8 by default). Transit payloads are below the length where a token exceeds the limit of the parser.
  \<open>float64\<close> appears in \<open>Backoff\<close>, where integers are rounded to 53 bits, and in the seconds of a lease, exact below
  2 ^ 22 seconds.

  \<^bold>\<open>Parameters.\<close> Code outside the repository is an argument of the definitions: AES-CTR, GHASH, SHA-256 and the Key
  Vault client (\<open>prims\<close>), random bytes and UUIDs to come, the clocks of process and database, the collation of the
  database, the parsers of URLs and UUIDs, the network and the state of the caller's context, the form in which
  PostgreSQL prints a JSON document.

  \<^bold>\<open>Not modelled.\<close> Transactions run one after the other: two requests interleave only at the boundaries of
  statements and transactions the sequences of the properties name. Zeroing of buffers, log lines and metrics have no
  effect on the state. The AWS and GCP providers have the contract of the Azure one; reading key files and
  configuration, the wiring of the process, timers and leader election, HTTP and gRPC codecs, middleware and the pool are
  I/O around operations that are modelled. Dynamic database roles (\<open>store/dynamic.go\<close>, \<open>dynamic/\<close>, \<open>api/dynamic.go\<close>)
  run SQL on a database the repository does not describe and are left out with their tables. Generated code is left out.
\<close>

end
